(* ===== verification/Prelude.thy ===== *)
theory Prelude
  imports
    Main
    "HOL-Library.Char_ord"
    "HOL-Library.List_Lexorder"
    "HOL-Library.Product_Lexorder"
    "HOL-Library.AList"
begin

section \<open>Shared vocabulary: errors, database sessions, Python strings\<close>

text \<open>
  The vocabulary every component theory uses.

  \<^item> \<open>py_error\<close> holds the exceptions the modelled code raises, with their messages, and
    \<open>'a res\<close> is the result of code that may raise. A \<open>ServiceError\<close> comes from the client of another service:
    its \<open>code\<close> attribute, where it has one, and its text.
  \<^item> \<open>('s, 'a) op\<close> is code that reads and writes a database session of type \<open>'s\<close>. The
    session after an exception is the dirty, uncommitted one; \<open>transaction\<close> is the caller
    that commits on success and rolls back on an exception.
  \<^item> A Python \<open>str\<close> is modelled by its UTF-8 encoding, a \<open>string\<close>. Equality, ordering,
    concatenation, substring search and \<open>encode\<close> agree with Python on all of Unicode
    (UTF-8 preserves code-point order); \<open>py_len\<close> and \<open>py_take\<close> count code points.
    \<open>py_strip\<close> and \<open>py_lower\<close> treat the ASCII white space and letters only.
\<close>

subsection \<open>Collections of facts\<close>

named_theorems op_defs \<open>definitions of the session combinators\<close>
named_theorems op_elims \<open>inversion rules for successful session code\<close>

subsection \<open>Errors and results\<close>

datatype py_error =
    ValueError string
  | RuntimeError string
  | TypeError string
  | IntegrityError string
  | IndexError string
  | KeyError string
  | LookupError string
  | AttributeError string
  | UnicodeDecodeError
  | DecimalOverflow
  | KafkaConnectError string
  | ClickHouseError string string
  | ServiceError "string option" string
  | ApiError string string nat "(string \<times> string option) list"

type_synonym 'a res = "py_error + 'a"

definition bind_res :: "'a res \<Rightarrow> ('a \<Rightarrow> 'b res) \<Rightarrow> 'b res" where
  "bind_res r f = (case r of Inl e \<Rightarrow> Inl e | Inr a \<Rightarrow> f a)"

definition check_res :: "bool \<Rightarrow> py_error \<Rightarrow> unit res" where
  "check_res b e = (if b then Inr () else Inl e)"

lemma bind_res_simps [simp]:
  "bind_res (Inl e) f = Inl e"
  "bind_res (Inr a) f = f a"
  by (simp_all add: bind_res_def)

lemma bind_res_Inr_iff: "bind_res r f = Inr b \<longleftrightarrow> (\<exists>a. r = Inr a \<and> f a = Inr b)"
  by (cases r) auto

lemma check_res_Inr_iff [simp]: "check_res b e = Inr u \<longleftrightarrow> b"
  by (simp add: check_res_def)

lemma check_res_Inl_iff [simp]: "check_res b e = Inl e' \<longleftrightarrow> \<not> b \<and> e' = e"
  by (auto simp: check_res_def)

text \<open>A list comprehension whose body may raise: the first exception wins.\<close>

fun map_res :: "('a \<Rightarrow> 'b res) \<Rightarrow> 'a list \<Rightarrow> 'b list res" where
  "map_res f [] = Inr []"
| "map_res f (x # xs) =
     (case f x of Inl e \<Rightarrow> Inl e
      | Inr y \<Rightarrow> (case map_res f xs of Inl e \<Rightarrow> Inl e | Inr ys \<Rightarrow> Inr (y # ys)))"

lemma map_res_total: "(\<And>x. x \<in> set xs \<Longrightarrow> f x = Inr (g x)) \<Longrightarrow> map_res f xs = Inr (map g xs)"
  by (induction xs) auto

subsection \<open>Session code\<close>

type_synonym ('s, 'a) op = "'s \<Rightarrow> 'a res \<times> 's"

definition return_op :: "'a \<Rightarrow> ('s, 'a) op" where
  [op_defs]: "return_op a = (\<lambda>s. (Inr a, s))"

definition raise_op :: "py_error \<Rightarrow> ('s, 'a) op" where
  [op_defs]: "raise_op e = (\<lambda>s. (Inl e, s))"

definition bind_op :: "('s, 'a) op \<Rightarrow> ('a \<Rightarrow> ('s, 'b) op) \<Rightarrow> ('s, 'b) op" where
  [op_defs]: "bind_op m f = (\<lambda>s. case m s of (Inl e, s') \<Rightarrow> (Inl e, s') | (Inr a, s') \<Rightarrow> f a s')"

definition lift_res :: "'a res \<Rightarrow> ('s, 'a) op" where
  [op_defs]: "lift_res r = (\<lambda>s. (r, s))"

definition check_op :: "bool \<Rightarrow> py_error \<Rightarrow> ('s, unit) op" where
  [op_defs]: "check_op b e = (if b then return_op () else raise_op e)"

definition read_op :: "('s \<Rightarrow> 'a) \<Rightarrow> ('s, 'a) op" where
  [op_defs]: "read_op f = (\<lambda>s. (Inr (f s), s))"

definition write_op :: "('s \<Rightarrow> 's) \<Rightarrow> ('s, unit) op" where
  [op_defs]: "write_op f = (\<lambda>s. (Inr (), f s))"

text \<open>\<open>try: m except Exception as exc: h(exc)\<close>\<close>

definition catch_op :: "('s, 'a) op \<Rightarrow> (py_error \<Rightarrow> ('s, 'a) op) \<Rightarrow> ('s, 'a) op" where
  [op_defs]: "catch_op m h = (\<lambda>s. case m s of (Inl e, s') \<Rightarrow> h e s' | (Inr a, s') \<Rightarrow> (Inr a, s'))"

definition transaction :: "('s, 'a) op \<Rightarrow> ('s, 'a) op" where
  "transaction m = (\<lambda>s. case m s of (Inl e, s') \<Rightarrow> (Inl e, s) | (Inr a, s') \<Rightarrow> (Inr a, s'))"

lemma bind_op_Inr_iff [op_elims]:
  "bind_op m f s = (Inr b, t) \<longleftrightarrow> (\<exists>a s'. m s = (Inr a, s') \<and> f a s' = (Inr b, t))"
  by (auto simp: bind_op_def split: prod.splits sum.splits)

lemma bind_op_assoc: "bind_op (bind_op m f) g = bind_op m (\<lambda>a. bind_op (f a) g)"
  by (auto simp: bind_op_def fun_eq_iff split: prod.splits sum.splits)

lemma return_op_iff [op_elims]: "return_op a s = (Inr b, t) \<longleftrightarrow> b = a \<and> t = s"
  by (auto simp: return_op_def)

lemma raise_op_iff [op_elims]: "raise_op e s = (Inr b, t) \<longleftrightarrow> False"
  by (auto simp: raise_op_def)

lemma lift_res_iff [op_elims]: "lift_res r s = (Inr b, t) \<longleftrightarrow> r = Inr b \<and> t = s"
  by (auto simp: lift_res_def)

lemma check_op_iff [op_elims]: "check_op b e s = (Inr u, t) \<longleftrightarrow> b \<and> t = s"
  by (auto simp: check_op_def return_op_def raise_op_def)

lemma read_op_iff [op_elims]: "read_op f s = (Inr b, t) \<longleftrightarrow> b = f s \<and> t = s"
  by (auto simp: read_op_def)

lemma write_op_iff [op_elims]: "write_op f s = (Inr u, t) \<longleftrightarrow> t = f s"
  by (auto simp: write_op_def)

lemma transaction_Inr_iff: "transaction m s = (Inr a, t) \<longleftrightarrow> m s = (Inr a, t)"
  by (auto simp: transaction_def split: prod.splits sum.splits)

lemma transaction_rollback: "fst (transaction m s) = Inl e \<Longrightarrow> snd (transaction m s) = s"
  by (auto simp: transaction_def split: prod.splits sum.splits)

lemma bind_op_Inl: "m s = (Inl e, t) \<Longrightarrow> bind_op m f s = (Inl e, t)"
  by (simp add: bind_op_def)

lemma bind_op_step: "m s = (Inr a, t) \<Longrightarrow> bind_op m f s = f a t"
  by (simp add: bind_op_def)

lemma run_fst: "fst run = r \<Longrightarrow> run = (r, snd run)"
  by (metis prod.collapse)

text \<open>A loop over a list whose body is session code; it stops at the first exception.\<close>

fun for_op :: "'a list \<Rightarrow> ('a \<Rightarrow> ('s, unit) op) \<Rightarrow> ('s, unit) op" where
  "for_op [] f = return_op ()"
| "for_op (x # xs) f = bind_op (f x) (\<lambda>_. for_op xs f)"

lemma for_op_invariant:
  assumes "for_op xs f s = (Inr u, t)" and "P s"
    and "\<And>x s t. x \<in> set xs \<Longrightarrow> f x s = (Inr (), t) \<Longrightarrow> P s \<Longrightarrow> P t"
  shows "P t"
  using assms
proof (induction xs arbitrary: s)
  case Nil
  then show ?case by (simp add: op_elims)
next
  case (Cons x xs)
  then obtain s' where fx: "f x s = (Inr (), s')" and rest: "for_op xs f s' = (Inr u, t)"
    by (auto simp: op_elims)
  show ?case
  proof (rule Cons.IH [OF rest])
    show "P s'" using Cons.prems(2,3) fx by auto
    show "\<And>y s t. y \<in> set xs \<Longrightarrow> f y s = (Inr (), t) \<Longrightarrow> P s \<Longrightarrow> P t"
      using Cons.prems(3) by (meson list.set_intros(2))
  qed
qed

subsection \<open>Commands that may be retried\<close>

fun repeat_op :: "nat \<Rightarrow> ('s, 'a) op \<Rightarrow> ('s, 'a list) op" where
  "repeat_op 0 m = return_op []"
| "repeat_op (Suc n) m = bind_op m (\<lambda>a. bind_op (repeat_op n m) (\<lambda>as. return_op (a # as)))"

text \<open>
  The contract of a command with an idempotency key: once it has succeeded, running it again succeeds with the
  result marked as repeated and changes nothing.
\<close>

locale idempotent_command =
  fixes run :: "('s, 'r) op" and again :: "'r \<Rightarrow> 'r" and inv :: "'s \<Rightarrow> bool"
  assumes keeps: "run s = (Inr r, t) \<Longrightarrow> inv s \<Longrightarrow> inv t"
    and retry: "run s = (Inr r, t) \<Longrightarrow> inv s \<Longrightarrow> run t = (Inr (again r), t)"
begin

lemma again_again: "run s = (Inr r, t) \<Longrightarrow> inv s \<Longrightarrow> again (again r) = again r"
  using retry [of s r t] retry [of t "again r" t] keeps [of s r t] by simp

lemma retries:
  assumes "run s = (Inr r, t)" and "inv s"
  shows "repeat_op n run t = (Inr (replicate n (again r)), t)"
  using retry [OF assms] by (induction n) (simp_all add: return_op_def bind_op_def)

end

subsection \<open>Python strings\<close>

definition char_code :: "char \<Rightarrow> nat" where
  "char_code c = of_char c"

definition py_space :: "char \<Rightarrow> bool" where
  "py_space c \<longleftrightarrow> (let n = char_code c in (9 \<le> n \<and> n \<le> 13) \<or> (28 \<le> n \<and> n \<le> 32))"

definition py_strip :: "string \<Rightarrow> string" where
  "py_strip s = rev (dropWhile py_space (rev (dropWhile py_space s)))"

definition blank :: "string \<Rightarrow> bool" where
  "blank s \<longleftrightarrow> py_strip s = []"

definition is_upper :: "char \<Rightarrow> bool" where
  "is_upper c \<longleftrightarrow> 65 \<le> char_code c \<and> char_code c \<le> 90"

definition is_lower :: "char \<Rightarrow> bool" where
  "is_lower c \<longleftrightarrow> 97 \<le> char_code c \<and> char_code c \<le> 122"

definition is_digit :: "char \<Rightarrow> bool" where
  "is_digit c \<longleftrightarrow> 48 \<le> char_code c \<and> char_code c \<le> 57"

definition is_alnum :: "char \<Rightarrow> bool" where
  "is_alnum c \<longleftrightarrow> is_upper c \<or> is_lower c \<or> is_digit c"

definition lower_char :: "char \<Rightarrow> char" where
  "lower_char c = (if is_upper c then char_of (char_code c + 32) else c)"

definition upper_char :: "char \<Rightarrow> char" where
  "upper_char c = (if is_lower c then char_of (char_code c - 32) else c)"

definition py_lower :: "string \<Rightarrow> string" where
  "py_lower s = map lower_char s"

definition py_upper :: "string \<Rightarrow> string" where
  "py_upper s = map upper_char s"

text \<open>\<open>len(s)\<close> and \<open>s[:n]\<close>: the continuation bytes of UTF-8 are \<open>0x80\<close> to \<open>0xBF\<close>.\<close>

definition utf8_cont :: "char \<Rightarrow> bool" where
  "utf8_cont c \<longleftrightarrow> 128 \<le> char_code c \<and> char_code c < 192"

definition py_len :: "string \<Rightarrow> nat" where
  "py_len s = length (filter (\<lambda>c. \<not> utf8_cont c) s)"

fun py_take :: "nat \<Rightarrow> string \<Rightarrow> string" where
  "py_take n [] = []"
| "py_take n (c # cs) =
     (if utf8_cont c then c # py_take n cs
      else case n of 0 \<Rightarrow> [] | Suc m \<Rightarrow> c # py_take m cs)"

text \<open>\<open>needle in haystack\<close>, \<open>s.startswith(p)\<close> and \<open>sep.join(parts)\<close>.\<close>

fun starts_with :: "string \<Rightarrow> string \<Rightarrow> bool" where
  "starts_with [] s = True"
| "starts_with (p # ps) [] = False"
| "starts_with (p # ps) (c # cs) = (p = c \<and> starts_with ps cs)"

fun py_in :: "string \<Rightarrow> string \<Rightarrow> bool" where
  "py_in needle [] = (needle = [])"
| "py_in needle (c # cs) = (starts_with needle (c # cs) \<or> py_in needle cs)"

fun py_join :: "string \<Rightarrow> string list \<Rightarrow> string" where
  "py_join sep [] = []"
| "py_join sep [x] = x"
| "py_join sep (x # y # ys) = x @ sep @ py_join sep (y # ys)"

text \<open>\<open>s.replace(c, r)\<close> for one character, \<open>s.rstrip(c)\<close> for one, and \<open>s.split()\<close>.\<close>

definition replace_char :: "char \<Rightarrow> string \<Rightarrow> string \<Rightarrow> string" where
  "replace_char c r s = concat (map (\<lambda>x. if x = c then r else [x]) s)"

definition rstrip_char :: "char \<Rightarrow> string \<Rightarrow> string" where
  "rstrip_char c s = rev (dropWhile (\<lambda>x. x = c) (rev s))"

function py_split :: "string \<Rightarrow> string list" where
  "py_split s =
     (case dropWhile py_space s of
        [] \<Rightarrow> []
      | c # cs \<Rightarrow> (c # takeWhile (\<lambda>x. \<not> py_space x) cs) # py_split (dropWhile (\<lambda>x. \<not> py_space x) cs))"
  by pat_completeness auto
termination
proof (relation "measure length")
  fix s c cs
  assume "dropWhile py_space s = c # cs"
  then have "length (c # cs) \<le> length s" by (metis length_dropWhile_le)
  then show "(dropWhile (\<lambda>x. \<not> py_space x) cs, s) \<in> measure length"
    using length_dropWhile_le [of "\<lambda>x. \<not> py_space x" cs] by simp
qed simp

declare py_split.simps [simp del]

text \<open>\<open>s.split(c)\<close> and \<open>s.split(c, n)\<close> for one character.\<close>

fun split_char :: "char \<Rightarrow> string \<Rightarrow> string list" where
  "split_char c [] = [[]]"
| "split_char c (x # xs) =
     (if x = c then [] # split_char c xs
      else case split_char c xs of [] \<Rightarrow> [[x]] | y # ys \<Rightarrow> (x # y) # ys)"

fun split_limit :: "char \<Rightarrow> nat \<Rightarrow> string \<Rightarrow> string list" where
  "split_limit c 0 s = [s]"
| "split_limit c (Suc n) s =
     (if c \<in> set s
      then takeWhile (\<lambda>x. x \<noteq> c) s # split_limit c n (tl (dropWhile (\<lambda>x. x \<noteq> c) s))
      else [s])"

text \<open>\<open>str(n)\<close> for an integer.\<close>

definition digit_char :: "nat \<Rightarrow> char" where
  "digit_char d = char_of (48 + d)"

fun show_nat :: "nat \<Rightarrow> string" where
  "show_nat n = (if n < 10 then [digit_char n] else show_nat (n div 10) @ [digit_char (n mod 10)])"

declare show_nat.simps [simp del]

definition show_int :: "int \<Rightarrow> string" where
  "show_int i = (if i < 0 then CHR ''-'' # show_nat (nat (- i)) else show_nat (nat i))"

subsection \<open>Facts about strings\<close>

lemma py_strip_Nil [simp]: "py_strip [] = []"
  by (simp add: py_strip_def)

lemma py_strip_id:
  assumes "s \<noteq> []" and "\<not> py_space (hd s)" and "\<not> py_space (last s)"
  shows "py_strip s = s"
proof -
  have "dropWhile py_space s = s" using assms(1,2) by (cases s) simp_all
  moreover have "dropWhile py_space (rev s) = rev s"
    using assms(1,3) by (cases "rev s") (simp_all add: last_rev [of "rev s", simplified])
  ultimately show ?thesis by (simp add: py_strip_def)
qed

lemma hd_last_dropWhile:
  assumes "dropWhile P s \<noteq> []"
  shows "\<not> P (hd (dropWhile P s)) \<and> last (dropWhile P s) = last s"
  using assms by (induction s) auto

lemma py_strip_strip [simp]: "py_strip (py_strip s) = py_strip s"
proof (cases "py_strip s = []")
  case False
  define a where "a = dropWhile py_space s"
  define b where "b = dropWhile py_space (rev a)"
  have ps: "py_strip s = rev b" by (simp add: py_strip_def a_def b_def)
  with False have b: "b \<noteq> []" by simp
  then have a: "a \<noteq> []" by (auto simp: b_def)
  have "\<not> py_space (hd a)" and "\<not> py_space (hd b)" and "last b = last (rev a)"
    using hd_last_dropWhile [of py_space s] hd_last_dropWhile [of py_space "rev a"] a b
    by (auto simp: a_def [symmetric] b_def [symmetric])
  then have "\<not> py_space (last b)" using a by (simp add: last_rev)
  then show ?thesis
    using b \<open>\<not> py_space (hd b)\<close> by (simp add: ps py_strip_id hd_rev last_rev)
qed simp

lemma char_code_digit_char: "d < 10 \<Longrightarrow> char_code (digit_char d) = 48 + d"
  by (simp add: char_code_def digit_char_def)

lemma digit_char_inj: "d < 10 \<Longrightarrow> e < 10 \<Longrightarrow> digit_char d = digit_char e \<longleftrightarrow> d = e"
  by (metis add_left_imp_eq char_code_digit_char)

lemma show_nat_not_Nil [simp]: "show_nat n \<noteq> []"
  by (subst show_nat.simps) simp

lemma show_nat_digits: "c \<in> set (show_nat n) \<Longrightarrow> is_digit c"
proof (induction n rule: show_nat.induct)
  case (1 n)
  have d: "is_digit (digit_char d)" if "d < 10" for d
    using that by (simp add: is_digit_def char_code_digit_char)
  show ?case
  proof (cases "n < 10")
    case True
    with "1.prems" d show ?thesis by (subst (asm) show_nat.simps) simp
  next
    case False
    with "1.prems" consider "c \<in> set (show_nat (n div 10))" | "c = digit_char (n mod 10)"
      by (subst (asm) show_nat.simps) auto
    then show ?thesis using "1.IH" [OF False] d [of "n mod 10"] by cases auto
  qed
qed

lemma show_nat_inj: "show_nat m = show_nat n \<longleftrightarrow> m = n"
proof
  show "show_nat m = show_nat n \<Longrightarrow> m = n"
  proof (induction m arbitrary: n rule: show_nat.induct)
    case (1 m)
    show ?case
    proof (cases "m < 10")
      case True
      then show ?thesis using "1.prems"
        by (auto simp: show_nat.simps [of m] show_nat.simps [of n] digit_char_inj
            show_nat_not_Nil [symmetric] split: if_splits)
    next
      case False
      have n: "\<not> n < 10"
        using "1.prems" False by (auto simp: show_nat.simps [of m] show_nat.simps [of n])
      have "show_nat (m div 10) = show_nat (n div 10)" and "digit_char (m mod 10) = digit_char (n mod 10)"
        using "1.prems" False n by (simp_all add: show_nat.simps [of m] show_nat.simps [of n])
      then have "m div 10 = n div 10" and "m mod 10 = n mod 10"
        using "1.IH" [OF False] by (simp_all add: digit_char_inj)
      then show ?thesis by (metis div_mult_mod_eq)
    qed
  qed
qed simp

lemma not_digit_minus [simp]: "\<not> is_digit (CHR ''-'')"
  by (simp add: is_digit_def char_code_def)

lemma minus_notin_show_nat [simp]: "CHR ''-'' \<notin> set (show_nat n)"
  using show_nat_digits not_digit_minus by blast

lemma show_int_inj: "show_int i = show_int j \<longleftrightarrow> i = j"
proof
  assume eq: "show_int i = show_int j"
  have hd: "show_nat n \<noteq> CHR ''-'' # xs" for n xs
    using minus_notin_show_nat [of n] by (metis list.set_intros(1))
  show "i = j"
    using eq hd by (auto simp: show_int_def show_nat_inj split: if_splits) (metis hd)+
qed simp

lemma show_int_chars: "c \<in> set (show_int i) \<Longrightarrow> is_digit c \<or> c = CHR ''-''"
  by (auto simp: show_int_def split: if_splits dest: show_nat_digits)

subsection \<open>Joining and splitting at a separator\<close>

text \<open>Fields without the separator can be read back from their join.\<close>

lemma join_field_cancel:
  assumes "c \<notin> set x" and "c \<notin> set y" and "x @ c # xs = y @ c # ys"
  shows "x = y \<and> xs = ys"
  using assms
proof (induction x arbitrary: y)
  case Nil
  then show ?case by (cases y) auto
next
  case (Cons a x)
  then show ?case by (cases y) auto
qed

lemma py_join_Cons: "xs \<noteq> [] \<Longrightarrow> py_join sep (x # xs) = x @ sep @ py_join sep xs"
  by (cases xs) auto

lemma sep_in_py_join: "py_join [c] (x # y # ys) = z \<Longrightarrow> c \<in> set z"
  by auto

lemma py_join_inj:
  assumes "xs \<noteq> []" and "ys \<noteq> []"
    and "\<And>x. x \<in> set xs \<Longrightarrow> c \<notin> set x" and "\<And>y. y \<in> set ys \<Longrightarrow> c \<notin> set y"
    and "py_join [c] xs = py_join [c] ys"
  shows "xs = ys"
  using assms
proof (induction xs arbitrary: ys)
  case Nil
  then show ?case by simp
next
  case (Cons x xs)
  obtain y ys' where ys: "ys = y # ys'" using Cons.prems(2) by (cases ys) auto
  have xy: "c \<notin> set x" "c \<notin> set y" using Cons.prems(3,4) ys by auto
  show ?case
  proof (cases "xs = [] \<or> ys' = []")
    case True
    then show ?thesis using Cons.prems(5) xy ys
      by (cases xs; cases ys') (auto dest: sep_in_py_join)
  next
    case False
    then have "x @ c # py_join [c] xs = y @ c # py_join [c] ys'"
      using Cons.prems(5) ys by (simp add: py_join_Cons)
    from join_field_cancel [OF xy this]
    have eq: "x = y" "py_join [c] xs = py_join [c] ys'" by auto
    have "xs = ys'"
      using Cons.IH [of ys'] Cons.prems(3,4) False ys eq(2) by simp
    then show ?thesis using ys eq(1) by simp
  qed
qed

lemma py_join_append:
  "xs \<noteq> [] \<Longrightarrow> ys \<noteq> [] \<Longrightarrow> py_join sep (xs @ ys) = py_join sep xs @ sep @ py_join sep ys"
proof (induction xs)
  case (Cons a xs)
  then show ?case by (cases "xs = []") (simp_all add: py_join_Cons)
qed simp

lemma py_join_concat:
  assumes "\<And>g. g \<in> set groups \<Longrightarrow> g \<noteq> []"
  shows "py_join sep (map (py_join sep) groups) = py_join sep (concat groups)"
  using assms
proof (induction groups)
  case Nil
  then show ?case by simp
next
  case (Cons g groups)
  show ?case
  proof (cases "groups = []")
    case True
    then show ?thesis by simp
  next
    case False
    then have "concat groups \<noteq> []" using Cons.prems by (cases groups) auto
    then show ?thesis using Cons False by (simp add: py_join_Cons py_join_append)
  qed
qed

end
