(* ===== verification/Sha256.thy ===== *)
theory Sha256
  imports Prelude "HOL-Library.Word"
begin

unbundle bit_operations_syntax

section \<open>\<open>hashlib.sha256(...).hexdigest()\<close>\<close>

text \<open>
  The digest the realtime plane builds its identities from. It is SHA-256 of FIPS 180-4 on a
  list of bytes, rendered as 64 lower-case hexadecimal digits. No property of the development
  assumes that it has no collisions: theorems about identities are stated on the text that is
  hashed, or as "equal digests" where the code compares digests.
\<close>

type_synonym u32 = "32 word"

record sha_state =
  sh_a :: u32
  sh_b :: u32
  sh_c :: u32
  sh_d :: u32
  sh_e :: u32
  sh_f :: u32
  sh_g :: u32
  sh_h :: u32

text \<open>
  The constants are the first 32 bits of the fractional parts of the square roots of the first 8 primes
  and of the cube roots of the first 64, that is, the integer roots of \<open>p * 2 ^ (32 * e)\<close> modulo \<open>2 ^ 32\<close>,
  found bit by bit.
\<close>

definition prime_nat :: "nat \<Rightarrow> bool" where
  "prime_nat n \<longleftrightarrow> 2 \<le> n \<and> list_all (\<lambda>d. n mod d \<noteq> 0) [2..<n]"

definition small_primes :: "nat list" where
  "small_primes = filter prime_nat [2..<312]"

fun root_bits :: "nat \<Rightarrow> nat \<Rightarrow> nat \<Rightarrow> nat \<Rightarrow> nat" where
  "root_bits e n 0 acc = acc"
| "root_bits e n (Suc b) acc = root_bits e n b (if (acc + 2 ^ b) ^ e \<le> n then acc + 2 ^ b else acc)"

definition root_word :: "nat \<Rightarrow> nat \<Rightarrow> u32" where
  "root_word e p = of_nat (root_bits e (p * 2 ^ (32 * e)) 37 0)"

definition sha_init :: sha_state where
  "sha_init = \<lparr>sh_a = root_word 2 2, sh_b = root_word 2 3, sh_c = root_word 2 5, sh_d = root_word 2 7,
               sh_e = root_word 2 11, sh_f = root_word 2 13, sh_g = root_word 2 17, sh_h = root_word 2 19\<rparr>"

definition sha_k :: "u32 list" where
  "sha_k = map (root_word 3) small_primes"

definition rotr32 :: "nat \<Rightarrow> u32 \<Rightarrow> u32" where
  "rotr32 n w = drop_bit n w OR push_bit (32 - n) w"

definition sha_round :: "sha_state \<Rightarrow> u32 \<times> u32 \<Rightarrow> sha_state" where
  "sha_round s kw =
     (let e = sh_e s; a = sh_a s;
          t1 = sh_h s + (rotr32 6 e XOR rotr32 11 e XOR rotr32 25 e)
               + ((e AND sh_f s) XOR (NOT e AND sh_g s)) + fst kw + snd kw;
          t2 = (rotr32 2 a XOR rotr32 13 a XOR rotr32 22 a)
               + ((a AND sh_b s) XOR (a AND sh_c s) XOR (sh_b s AND sh_c s))
      in \<lparr>sh_a = t1 + t2, sh_b = a, sh_c = sh_b s, sh_d = sh_c s,
          sh_e = sh_d s + t1, sh_f = e, sh_g = sh_f s, sh_h = sh_g s\<rparr>)"

text \<open>The message schedule, kept newest word first while it grows.\<close>

fun sha_extend :: "nat \<Rightarrow> u32 list \<Rightarrow> u32 list" where
  "sha_extend 0 ws = ws"
| "sha_extend (Suc n) ws =
     (let w2 = ws ! 1; w7 = ws ! 6; w15 = ws ! 14; w16 = ws ! 15;
          s0 = rotr32 7 w15 XOR rotr32 18 w15 XOR drop_bit 3 w15;
          s1 = rotr32 17 w2 XOR rotr32 19 w2 XOR drop_bit 10 w2
      in sha_extend n ((w16 + s0 + w7 + s1) # ws))"

definition sha_block :: "sha_state \<Rightarrow> u32 list \<Rightarrow> sha_state" where
  "sha_block s ws =
     (let t = foldl sha_round s (zip sha_k (rev (sha_extend 48 (rev ws))))
      in \<lparr>sh_a = sh_a s + sh_a t, sh_b = sh_b s + sh_b t, sh_c = sh_c s + sh_c t,
          sh_d = sh_d s + sh_d t, sh_e = sh_e s + sh_e t, sh_f = sh_f s + sh_f t,
          sh_g = sh_g s + sh_g t, sh_h = sh_h s + sh_h t\<rparr>)"

fun be_words :: "nat list \<Rightarrow> u32 list" where
  "be_words (a # b # c # d # bs) =
     of_nat (((a * 256 + b) * 256 + c) * 256 + d) # be_words bs"
| "be_words _ = []"

text \<open>Padding: a one bit, zeros up to 56 modulo 64 bytes, the bit length in eight bytes.\<close>

definition be_bytes8 :: "nat \<Rightarrow> nat list" where
  "be_bytes8 n = map (\<lambda>i. (n div 256 ^ (7 - i)) mod 256) [0..<8]"

definition sha_pad :: "nat list \<Rightarrow> nat list" where
  "sha_pad bs =
     (let l = length bs; z = (119 - l mod 64) mod 64
      in bs @ [128] @ replicate z 0 @ be_bytes8 (8 * l))"

fun sha_blocks :: "nat \<Rightarrow> sha_state \<Rightarrow> u32 list \<Rightarrow> sha_state" where
  "sha_blocks 0 s ws = s"
| "sha_blocks (Suc n) s ws = sha_blocks n (sha_block s (take 16 ws)) (drop 16 ws)"

definition hex_digit :: "nat \<Rightarrow> char" where
  "hex_digit d = (if d < 10 then char_of (48 + d) else char_of (87 + d))"

definition hex_fixed :: "nat \<Rightarrow> nat \<Rightarrow> string" where
  "hex_fixed k n = map (\<lambda>i. hex_digit ((n div 16 ^ (k - 1 - i)) mod 16)) [0..<k]"

definition sha_hex :: "sha_state \<Rightarrow> string" where
  "sha_hex s = concat (map (hex_fixed 8 \<circ> unat)
     [sh_a s, sh_b s, sh_c s, sh_d s, sh_e s, sh_f s, sh_g s, sh_h s])"

definition sha256_hex :: "string \<Rightarrow> string" where
  "sha256_hex msg =
     (let ws = be_words (sha_pad (map char_code msg))
      in sha_hex (sha_blocks (length ws div 16) sha_init ws))"

lemma length_hex_fixed [simp]: "length (hex_fixed k n) = k"
  by (simp add: hex_fixed_def)

lemma length_sha_hex: "length (sha_hex s) = 64"
  by (simp add: sha_hex_def)

lemma length_sha256_hex [simp]: "length (sha256_hex msg) = 64"
  by (simp add: sha256_hex_def length_sha_hex Let_def)

lemma hex_digit_ascii: "d < 16 \<Longrightarrow> char_code (hex_digit d) < 128"
  by (simp add: hex_digit_def char_code_def)

lemma sha256_hex_ascii: "c \<in> set (sha256_hex msg) \<Longrightarrow> char_code c < 128"
  by (auto simp: sha256_hex_def sha_hex_def hex_fixed_def Let_def intro!: hex_digit_ascii)

lemma py_len_ascii: "(\<And>c. c \<in> set s \<Longrightarrow> char_code c < 128) \<Longrightarrow> py_len s = length s"
  unfolding py_len_def by (subst filter_True) (force simp: utf8_cont_def)+

lemma py_len_sha256_hex [simp]: "py_len (sha256_hex msg) = 64"
  by (simp add: py_len_ascii sha256_hex_ascii)

lemma sha256_hex_not_Nil [simp]: "sha256_hex msg \<noteq> []"
  by (metis length_sha256_hex list.size(3) zero_neq_numeral)

lemma hex_digit_not_space: "d < 16 \<Longrightarrow> \<not> py_space (hex_digit d)"
  by (simp add: hex_digit_def char_code_def py_space_def)

lemma sha256_hex_not_space: "c \<in> set (sha256_hex msg) \<Longrightarrow> \<not> py_space c"
  by (auto simp: sha256_hex_def sha_hex_def hex_fixed_def Let_def hex_digit_not_space)

lemma strip_no_space: "(\<And>c. c \<in> set s \<Longrightarrow> \<not> py_space c) \<Longrightarrow> py_strip s = s"
proof -
  assume ns: "\<And>c. c \<in> set s \<Longrightarrow> \<not> py_space c"
  have dw: "dropWhile py_space xs = xs" if "set xs \<subseteq> set s" for xs
    using that ns by (cases xs) auto
  show ?thesis by (simp add: py_strip_def dw)
qed

lemma py_strip_sha256_hex [simp]: "py_strip (sha256_hex msg) = sha256_hex msg"
  by (simp add: strip_no_space sha256_hex_not_space)

lemma blank_sha256_hex [simp]: "\<not> blank (sha256_hex msg)"
  by (simp add: blank_def)

end
