(* ===== verification/Json.thy ===== *)
theory Json
  imports Sha256
begin

section \<open>JSON documents and the Python values read from them\<close>

text \<open>
  The documents the code stores in JSON columns, hashes and publishes. An object is the
  association list of a Python \<open>dict\<close> in insertion order. \<open>json_eq\<close> is Python's \<open>==\<close> on such
  values (objects compare without their order, booleans equal 0 and 1), \<open>json_dumps\<close> is
  \<open>json.dumps(..., sort_keys=True, separators=(",", ":"))\<close>, with \<open>ensure_ascii\<close> as a flag.
  Floating-point numbers are not modelled.
\<close>

datatype json =
    JNull
  | JBool bool
  | JInt int
  | JStr string
  | JList "json list"
  | JObj "(string \<times> json) list"

type_synonym dict = "(string \<times> json) list"

subsection \<open>Reading and writing dictionaries\<close>

definition jget :: "string \<Rightarrow> dict \<Rightarrow> json" where
  "jget k d = (case map_of d k of None \<Rightarrow> JNull | Some v \<Rightarrow> v)"

definition jset :: "string \<Rightarrow> json \<Rightarrow> dict \<Rightarrow> dict" where
  "jset k v d = AList.update k v d"

definition jmerge :: "dict \<Rightarrow> dict \<Rightarrow> dict" where
  "jmerge d e = foldl (\<lambda>acc kv. jset (fst kv) (snd kv) acc) d e"

fun truthy :: "json \<Rightarrow> bool" where
  "truthy JNull = False"
| "truthy (JBool b) = b"
| "truthy (JInt n) = (n \<noteq> 0)"
| "truthy (JStr s) = (s \<noteq> [])"
| "truthy (JList xs) = (xs \<noteq> [])"
| "truthy (JObj d) = (d \<noteq> [])"

definition por :: "json \<Rightarrow> json \<Rightarrow> json" where
  "por a b = (if truthy a then a else b)"

fun as_dict :: "json \<Rightarrow> dict option" where
  "as_dict (JObj d) = Some d"
| "as_dict _ = None"

fun as_list :: "json \<Rightarrow> json list option" where
  "as_list (JList xs) = Some xs"
| "as_list _ = None"

definition of_opt_str :: "string option \<Rightarrow> json" where
  "of_opt_str v = (case v of None \<Rightarrow> JNull | Some s \<Rightarrow> JStr s)"

definition str_dict :: "(string \<times> string) list \<Rightarrow> json" where
  "str_dict d = JObj (map (\<lambda>(k, v). (k, JStr v)) d)"

subsection \<open>Equality\<close>

primrec json_norm :: "json \<Rightarrow> json" where
  "json_norm JNull = JNull"
| "json_norm (JBool b) = JInt (if b then 1 else 0)"
| "json_norm (JInt n) = JInt n"
| "json_norm (JStr s) = JStr s"
| "json_norm (JList xs) = JList (map json_norm xs)"
| "json_norm (JObj d) = JObj (sort_key fst (map (map_prod id json_norm) d))"

definition json_eq :: "json \<Rightarrow> json \<Rightarrow> bool" where
  "json_eq a b \<longleftrightarrow> json_norm a = json_norm b"

subsection \<open>UTF-8\<close>

definition cont_byte :: "nat \<Rightarrow> bool" where
  "cont_byte b \<longleftrightarrow> 128 \<le> b \<and> b < 192"

fun utf8_decode :: "nat list \<Rightarrow> nat list option" where
  "utf8_decode [] = Some []"
| "utf8_decode (a # bs) =
     (if a < 128 then map_option (Cons a) (utf8_decode bs)
      else if 194 \<le> a \<and> a \<le> 223 then
        (case bs of
           b # r \<Rightarrow> if cont_byte b
             then map_option (Cons ((a - 192) * 64 + (b - 128))) (utf8_decode r) else None
         | _ \<Rightarrow> None)
      else if 224 \<le> a \<and> a \<le> 239 then
        (case bs of
           b # c # r \<Rightarrow>
             (let cp = (a - 224) * 4096 + (b - 128) * 64 + (c - 128)
              in if cont_byte b \<and> cont_byte c \<and> 2048 \<le> cp \<and> \<not> (55296 \<le> cp \<and> cp \<le> 57343)
                 then map_option (Cons cp) (utf8_decode r) else None)
         | _ \<Rightarrow> None)
      else if 240 \<le> a \<and> a \<le> 244 then
        (case bs of
           b # c # d # r \<Rightarrow>
             (let cp = (a - 240) * 262144 + (b - 128) * 4096 + (c - 128) * 64 + (d - 128)
              in if cont_byte b \<and> cont_byte c \<and> cont_byte d \<and> 65536 \<le> cp \<and> cp \<le> 1114111
                 then map_option (Cons cp) (utf8_decode r) else None)
         | _ \<Rightarrow> None)
      else None)"

definition utf8_valid :: "string \<Rightarrow> bool" where
  "utf8_valid s \<longleftrightarrow> utf8_decode (map char_code s) \<noteq> None"

subsection \<open>\<open>json.dumps\<close>\<close>

definition bs :: char where
  "bs = CHR 0x5C"

definition dq :: char where
  "dq = CHR 0x22"

definition escape_common :: "nat \<Rightarrow> string option" where
  "escape_common cp =
     (if cp = 34 then Some [bs, dq]
      else if cp = 92 then Some [bs, bs]
      else if cp = 10 then Some [bs, CHR ''n'']
      else if cp = 13 then Some [bs, CHR ''r'']
      else if cp = 9 then Some [bs, CHR ''t'']
      else if cp = 12 then Some [bs, CHR ''f'']
      else if cp = 8 then Some [bs, CHR ''b'']
      else if cp < 32 then Some (bs # CHR ''u'' # hex_fixed 4 cp)
      else None)"

definition escape_raw :: "string \<Rightarrow> string" where
  "escape_raw s = concat (map (\<lambda>c. case escape_common (char_code c) of None \<Rightarrow> [c] | Some e \<Rightarrow> e) s)"

definition escape_code_point :: "nat \<Rightarrow> string" where
  "escape_code_point cp =
     (case escape_common cp of Some e \<Rightarrow> e
      | None \<Rightarrow>
        if cp < 127 then [char_of cp]
        else if cp < 65536 then bs # CHR ''u'' # hex_fixed 4 cp
        else (let v = cp - 65536
              in (bs # CHR ''u'' # hex_fixed 4 (55296 + v div 1024))
                 @ (bs # CHR ''u'' # hex_fixed 4 (56320 + v mod 1024))))"

definition escape_ascii :: "string \<Rightarrow> string" where
  "escape_ascii s =
     (case utf8_decode (map char_code s) of
        None \<Rightarrow> escape_raw s
      | Some cps \<Rightarrow> concat (map escape_code_point cps))"

definition json_string :: "bool \<Rightarrow> string \<Rightarrow> string" where
  "json_string ensure_ascii s =
     dq # (if ensure_ascii then escape_ascii s else escape_raw s) @ [dq]"

primrec json_dumps :: "bool \<Rightarrow> json \<Rightarrow> string" where
  "json_dumps e JNull = ''null''"
| "json_dumps e (JBool b) = (if b then ''true'' else ''false'')"
| "json_dumps e (JInt n) = show_int n"
| "json_dumps e (JStr s) = json_string e s"
| "json_dumps e (JList xs) = ''['' @ py_join '','' (map (json_dumps e) xs) @ '']''"
| "json_dumps e (JObj d) =
     ''{'' @ py_join '','' (map (\<lambda>kv. json_string e (fst kv) @ '':'' @ snd kv)
       (sort_key fst (map (map_prod id (json_dumps e)) d))) @ ''}''"

text \<open>\<open>json.dumps\<close> with its default separators, keys in insertion order.\<close>

primrec json_dumps_plain :: "bool \<Rightarrow> json \<Rightarrow> string" where
  "json_dumps_plain e JNull = ''null''"
| "json_dumps_plain e (JBool b) = (if b then ''true'' else ''false'')"
| "json_dumps_plain e (JInt n) = show_int n"
| "json_dumps_plain e (JStr s) = json_string e s"
| "json_dumps_plain e (JList xs) = ''['' @ py_join '', '' (map (json_dumps_plain e) xs) @ '']''"
| "json_dumps_plain e (JObj d) =
     ''{'' @ py_join '', '' (map (\<lambda>kv. json_string e (fst kv) @ '': '' @ snd kv)
       (map (map_prod id (json_dumps_plain e)) d)) @ ''}''"

subsection \<open>\<open>str(value)\<close> and \<open>int(value)\<close>\<close>

definition sq :: char where
  "sq = CHR 0x27"

definition repr_char :: "char \<Rightarrow> char \<Rightarrow> string" where
  "repr_char q c =
     (let n = char_code c in
      if c = q \<or> c = bs then [bs, c]
      else if n = 10 then [bs, CHR ''n'']
      else if n = 13 then [bs, CHR ''r'']
      else if n = 9 then [bs, CHR ''t'']
      else if n < 32 \<or> n = 127 then bs # CHR ''x'' # hex_fixed 2 n
      else [c])"

definition py_repr_str :: "string \<Rightarrow> string" where
  "py_repr_str s =
     (let q = (if sq \<in> set s \<and> dq \<notin> set s then dq else sq)
      in q # concat (map (repr_char q) s) @ [q])"

primrec py_repr :: "json \<Rightarrow> string" where
  "py_repr JNull = ''None''"
| "py_repr (JBool b) = (if b then ''True'' else ''False'')"
| "py_repr (JInt n) = show_int n"
| "py_repr (JStr s) = py_repr_str s"
| "py_repr (JList xs) = ''['' @ py_join '', '' (map py_repr xs) @ '']''"
| "py_repr (JObj d) =
     ''{'' @ py_join '', '' (map (\<lambda>kv. py_repr_str (fst kv) @ '': '' @ snd kv)
       (map (map_prod id py_repr) d)) @ ''}''"

fun py_str :: "json \<Rightarrow> string" where
  "py_str (JStr s) = s"
| "py_str v = py_repr v"

text \<open>\<open>str(value or "").strip()\<close>, the idiom the code reads fields with.\<close>

definition clean_str :: "json \<Rightarrow> string" where
  "clean_str v = py_strip (py_str (por v (JStr '''')))"

definition digit_value :: "char \<Rightarrow> nat" where
  "digit_value c = char_code c - 48"

text \<open>Digits with single underscores between them.\<close>

fun parse_digits :: "nat \<Rightarrow> bool \<Rightarrow> string \<Rightarrow> nat option" where
  "parse_digits acc seen [] = (if seen then Some acc else None)"
| "parse_digits acc seen (c # cs) =
     (if is_digit c then parse_digits (acc * 10 + digit_value c) True cs
      else if c = CHR ''_'' \<and> seen \<and> cs \<noteq> [] then parse_digits acc False cs
      else None)"

definition parse_int :: "string \<Rightarrow> int option" where
  "parse_int s =
     (case py_strip s of
        [] \<Rightarrow> None
      | c # cs \<Rightarrow>
          if c = CHR ''-'' then map_option (\<lambda>n. - int n) (parse_digits 0 False cs)
          else if c = CHR ''+'' then map_option int (parse_digits 0 False cs)
          else map_option int (parse_digits 0 False (c # cs)))"

fun py_int :: "json \<Rightarrow> int res" where
  "py_int (JInt n) = Inr n"
| "py_int (JBool b) = Inr (if b then 1 else 0)"
| "py_int (JStr s) = (case parse_int s of None \<Rightarrow> Inl (ValueError ''invalid literal for int()'') | Some n \<Rightarrow> Inr n)"
| "py_int _ = Inl (TypeError ''int() argument'')"

text \<open>\<open>list(value)\<close>, and what \<open>for item in value\<close> visits\<close>

function utf8_chars :: "string \<Rightarrow> string list" where
  "utf8_chars [] = []"
| "utf8_chars (c # cs) = (c # takeWhile utf8_cont cs) # utf8_chars (dropWhile utf8_cont cs)"
  by pat_completeness auto
termination
  by (relation "measure length") (simp_all add: le_imp_less_Suc length_dropWhile_le)

fun py_list :: "json \<Rightarrow> json list res" where
  "py_list (JList xs) = Inr xs"
| "py_list (JStr s) = Inr (map JStr (utf8_chars s))"
| "py_list (JObj d) = Inr (map (\<lambda>kv. JStr (fst kv)) d)"
| "py_list _ = Inl (TypeError ''object is not iterable'')"

subsection \<open>Facts\<close>

lemma json_eq_refl [simp]: "json_eq a a"
  by (simp add: json_eq_def)

lemma json_eq_sym: "json_eq a b \<longleftrightarrow> json_eq b a"
  by (auto simp: json_eq_def)

lemma json_eq_trans: "json_eq a b \<Longrightarrow> json_eq b c \<Longrightarrow> json_eq a c"
  by (simp add: json_eq_def)

lemma jget_Nil [simp]: "jget k [] = JNull"
  by (simp add: jget_def)

lemma jget_Cons [simp]: "jget k ((k', v) # d) = (if k = k' then v else jget k d)"
  by (simp add: jget_def)

lemma jget_jset [simp]: "jget k (jset k' v d) = (if k = k' then v else jget k d)"
  by (simp add: jget_def jset_def update_conv)

lemma jget_jmerge_notin: "k \<notin> fst ` set e \<Longrightarrow> jget k (jmerge d e) = jget k d"
  unfolding jmerge_def by (induction e arbitrary: d) auto

lemma map_of_jset: "map_of (jset k v d) k' = (if k' = k then Some v else map_of d k')"
  by (simp add: jset_def update_conv)

lemma keys_jset: "fst ` set (jset k v d) = insert k (fst ` set d)"
  by (simp add: jset_def dom_update)

text \<open>Objects equal in Python agree on every key, up to that equality.\<close>

lemma map_of_map_prod_norm: "map_of (map (map_prod id f) d) k = map_option f (map_of d k)"
  by (induction d) auto

lemma jset_idem: "jset k v (jset k v d) = jset k v d"
  unfolding jset_def by (induction d) auto

end
