(* ===== verification/Py_Datetime.thy ===== *)
theory Py_Datetime
  imports Prelude
begin

section \<open>\<open>datetime\<close> values\<close>

text \<open>
  A \<open>datetime\<close> is a wall-clock reading in microseconds since 1970-01-01 00:00 with an optional
  offset from UTC (\<open>None\<close> for a naive value). The code normalises every reading to UTC and
  treats a naive one as UTC. Readings outside the years 1 to 9999 are not modelled.
\<close>

type_synonym timestamp = int

datatype py_datetime = Datetime (dt_wall: int) (dt_offset: "int option")

definition utc_instant :: "py_datetime \<Rightarrow> timestamp" where
  "utc_instant d = dt_wall d - (case dt_offset d of None \<Rightarrow> 0 | Some off \<Rightarrow> off)"

text \<open>\<open>value.replace(tzinfo=value.tzinfo or UTC).astimezone(UTC)\<close>\<close>

definition as_utc :: "py_datetime \<Rightarrow> py_datetime" where
  "as_utc d = Datetime (utc_instant d) (Some 0)"

definition datetime_min_utc :: py_datetime where
  "datetime_min_utc = Datetime (-719162 * 86400 * 1000000) (Some 0)"

definition seconds :: "int \<Rightarrow> timestamp" where
  "seconds n = n * 1000000"

subsection \<open>\<open>isoformat\<close> of a UTC reading\<close>

definition civil_from_days :: "int \<Rightarrow> int \<times> int \<times> int" where
  "civil_from_days days =
     (let z = days + 719468;
          era = z div 146097;
          doe = z mod 146097;
          yoe = (doe - doe div 1460 + doe div 36524 - doe div 146096) div 365;
          doy = doe - (365 * yoe + yoe div 4 - yoe div 100);
          mp = (5 * doy + 2) div 153;
          d = doy - (153 * mp + 2) div 5 + 1;
          m = (if mp < 10 then mp + 3 else mp - 9)
      in (yoe + era * 400 + (if m \<le> 2 then 1 else 0), m, d))"

definition zero_pad :: "nat \<Rightarrow> int \<Rightarrow> string" where
  "zero_pad k n = (let s = show_nat (nat n) in replicate (k - length s) (CHR ''0'') @ s)"

definition iso_wall :: "int \<Rightarrow> string" where
  "iso_wall t =
     (let day = 86400 * 1000000;
          (y, m, d) = civil_from_days (t div day);
          us = t mod day;
          sec = us div 1000000;
          frac = us mod 1000000
      in zero_pad 4 y @ ''-'' @ zero_pad 2 m @ ''-'' @ zero_pad 2 d @ ''T''
         @ zero_pad 2 (sec div 3600) @ '':'' @ zero_pad 2 (sec div 60 mod 60) @ '':''
         @ zero_pad 2 (sec mod 60)
         @ (if frac = 0 then [] else ''.'' @ zero_pad 6 frac))"

definition isoformat_utc :: "timestamp \<Rightarrow> string" where
  "isoformat_utc t = iso_wall t @ ''+00:00''"

text \<open>\<open>value.isoformat()\<close> of any reading: naive ones have no suffix.\<close>

definition iso_offset :: "int \<Rightarrow> string" where
  "iso_offset off =
     (let a = \<bar>off\<bar>; sec = a div 1000000; frac = a mod 1000000
      in (if off < 0 then ''-'' else ''+'') @ zero_pad 2 (sec div 3600) @ '':'' @ zero_pad 2 (sec div 60 mod 60)
         @ (if sec mod 60 = 0 \<and> frac = 0 then [] else '':'' @ zero_pad 2 (sec mod 60))
         @ (if frac = 0 then [] else ''.'' @ zero_pad 6 frac))"

definition isoformat_any :: "py_datetime \<Rightarrow> string" where
  "isoformat_any d = iso_wall (dt_wall d) @ (case dt_offset d of None \<Rightarrow> [] | Some off \<Rightarrow> iso_offset off)"

definition isoformat :: "py_datetime \<Rightarrow> string" where
  "isoformat d = isoformat_utc (utc_instant d)"

lemma utc_instant_as_utc [simp]: "utc_instant (as_utc d) = utc_instant d"
  by (simp add: as_utc_def utc_instant_def)

lemma as_utc_idem [simp]: "as_utc (as_utc d) = as_utc d"
  by (simp add: as_utc_def utc_instant_def)

lemma as_utc_eq_iff: "as_utc d = as_utc e \<longleftrightarrow> utc_instant d = utc_instant e"
  by (simp add: as_utc_def)

end
