(* ===== verification/Source_Position.thy ===== *)
theory Source_Position
  imports Json Py_Datetime
begin

section \<open>Source positions and opaque envelopes\<close>

text \<open>
  \<^verbatim>\<open>realtime/domain/source_position.py\<close>: the identity of one Kafka record, ordered as the frozen
  dataclass is (topic, then partition, then offset), its digest, and the envelope that carries
  the undecoded payload.
\<close>

subsection \<open>Positions\<close>

datatype source_position =
  SourcePosition (sp_topic: string) (sp_partition: int) (sp_offset: int)

definition sp_key :: "source_position \<Rightarrow> string \<times> int \<times> int" where
  "sp_key p = (sp_topic p, sp_partition p, sp_offset p)"

lemma sp_key_inj: "sp_key p = sp_key q \<longleftrightarrow> p = q"
  by (cases p; cases q) (simp add: sp_key_def)

instantiation source_position :: linorder
begin

definition less_eq_source_position :: "source_position \<Rightarrow> source_position \<Rightarrow> bool" where
  "less_eq_source_position p q \<longleftrightarrow> sp_key p \<le> sp_key q"

definition less_source_position :: "source_position \<Rightarrow> source_position \<Rightarrow> bool" where
  "less_source_position p q \<longleftrightarrow> sp_key p < sp_key q"

instance
  by standard (auto simp: less_eq_source_position_def less_source_position_def sp_key_inj
      simp flip: order.strict_iff_not dest: order.antisym)

end

definition topic_char :: "char \<Rightarrow> bool" where
  "topic_char c \<longleftrightarrow> is_alnum c \<or> c = CHR ''.'' \<or> c = CHR ''_'' \<or> c = CHR ''-''"

text \<open>\<^verbatim>\<open>^[A-Za-z0-9][A-Za-z0-9._-]{0,248}$\<close>\<close>

fun safe_topic :: "string \<Rightarrow> bool" where
  "safe_topic [] = False"
| "safe_topic (c # cs) = (is_alnum c \<and> list_all topic_char cs \<and> length cs \<le> 248)"

definition valid_position :: "source_position \<Rightarrow> bool" where
  "valid_position p \<longleftrightarrow> safe_topic (sp_topic p) \<and> 0 \<le> sp_partition p \<and> 0 \<le> sp_offset p"

definition source_position_init :: "string \<Rightarrow> int \<Rightarrow> int \<Rightarrow> source_position res" where
  "source_position_init topic part offset =
     (if \<not> safe_topic topic then Inl (ValueError ''topic must be a safe Kafka topic name'')
      else if part < 0 \<or> offset < 0
        then Inl (ValueError ''partition and offset must be non-negative'')
      else Inr (SourcePosition topic part offset))"

definition position_document :: "source_position \<Rightarrow> dict" where
  "position_document p =
     [(''topic'', JStr (sp_topic p)), (''partition'', JInt (sp_partition p)),
      (''offset'', JInt (sp_offset p))]"

definition position_material :: "string \<Rightarrow> source_position \<Rightarrow> string" where
  "position_material scope_id p =
     scope_id @ ''|'' @ sp_topic p @ ''|'' @ show_int (sp_partition p) @ ''|'' @ show_int (sp_offset p)"

definition position_digest :: "string \<Rightarrow> source_position \<Rightarrow> string" where
  "position_digest scope_id p = sha256_hex (position_material scope_id p)"

subsection \<open>Envelopes\<close>

record opaque_envelope =
  env_position :: source_position
  env_payload :: string
  env_kafka_timestamp :: "py_datetime option"

definition envelope_from_value ::
  "string \<Rightarrow> int \<Rightarrow> int \<Rightarrow> string \<Rightarrow> py_datetime option \<Rightarrow> opaque_envelope res" where
  "envelope_from_value topic part offset raw kafka_timestamp =
     (if length raw > 16 * 1024 * 1024
      then Inl (ValueError ''raw payload exceeds the 16 MiB envelope limit'')
      else bind_res (source_position_init topic part offset) (\<lambda>position.
        Inr \<lparr>env_position = position, env_payload = raw,
             env_kafka_timestamp = map_option as_utc kafka_timestamp\<rparr>))"

definition payload_hash :: "opaque_envelope \<Rightarrow> string" where
  "payload_hash e = sha256_hex (env_payload e)"

definition envelope_document :: "opaque_envelope \<Rightarrow> json res" where
  "envelope_document e =
     (if \<not> utf8_valid (env_payload e) then Inl UnicodeDecodeError
      else Inr (JObj (position_document (env_position e) @
        [(''kafkaTimestamp'', case env_kafka_timestamp e of None \<Rightarrow> JNull | Some t \<Rightarrow> JStr (isoformat t)),
         (''payload'', JStr (env_payload e)),
         (''payloadHash'', JStr (payload_hash e)),
         (''eventKey'', JStr (position_digest ''deployment'' (env_position e)))])))"

definition envelope_json :: "opaque_envelope \<Rightarrow> string res" where
  "envelope_json e = bind_res (envelope_document e) (\<lambda>d. Inr (json_dumps False d))"

subsection \<open>Facts\<close>

lemma source_position_init_Inr_iff:
  "source_position_init t p k = Inr q \<longleftrightarrow> q = SourcePosition t p k \<and> valid_position q"
  by (auto simp: source_position_init_def valid_position_def)

lemma topic_char_not_bar: "topic_char c \<Longrightarrow> c \<noteq> CHR ''|''"
  by (auto simp: topic_char_def is_alnum_def is_upper_def is_lower_def is_digit_def char_code_def)

lemma safe_topic_no_bar: "safe_topic t \<Longrightarrow> CHR ''|'' \<notin> set t"
proof (cases t)
  case (Cons c cs)
  moreover assume "safe_topic t"
  ultimately have "topic_char c" and "list_all topic_char cs" by (auto simp: topic_char_def)
  with Cons show ?thesis by (auto simp: list_all_iff dest: topic_char_not_bar)
qed simp

lemma bar_notin_show_int [simp]: "CHR ''|'' \<notin> set (show_int i)"
  using show_int_chars [of "CHR ''|''" i] by (auto simp: is_digit_def char_code_def)

text \<open>
  The text that is hashed names one record: valid positions with the same scope and the same
  material are equal, so two records share an event key only if SHA-256 collides.
\<close>

lemma position_material_inj:
  assumes "valid_position p" and "valid_position q"
    and "position_material s p = position_material s q"
  shows "p = q"
proof -
  let ?fields = "\<lambda>p. [sp_topic p, show_int (sp_partition p), show_int (sp_offset p)]"
  have "py_join ''|'' (?fields p) = py_join ''|'' (?fields q)"
    using assms(3) by (simp add: position_material_def)
  moreover have "CHR ''|'' \<notin> set x" if "x \<in> set (?fields r)" "valid_position r" for x r
    using that by (auto simp: valid_position_def dest: safe_topic_no_bar)
  ultimately have "?fields p = ?fields q"
    using assms(1,2) py_join_inj [of "?fields p" "?fields q" "CHR ''|''"] by blast
  then show ?thesis by (cases p; cases q) (simp add: show_int_inj)
qed

subsection \<open>Properties\<close>

text \<open>The text hashed into an event key names one Kafka record: two valid positions with the
  same material in a scope are the same position.\<close>

theorem position_material_identifies:
  assumes "valid_position p" and "valid_position q"
    and "position_material scope p = position_material scope q"
  shows "p = q"
  using assms by (rule position_material_inj)

theorem position_material_identifies_witness:
  "SourcePosition ''orders'' 0 7 = SourcePosition ''orders'' 0 7
   \<and> valid_position (SourcePosition ''orders'' 0 7)"
proof -
  have v: "valid_position (SourcePosition ''orders'' 0 7)"
    by (simp add: valid_position_def topic_char_def is_alnum_def is_upper_def is_lower_def is_digit_def char_code_def)
  show ?thesis
    using position_material_identifies [OF v v, of "''deployment''"] v by simp
qed

text \<open>Building an envelope accepts exactly the payloads of at most 16 MiB with a safe topic and
  non-negative partition and offset; the envelope keeps the payload and the instant of its
  timestamp, and its JSON exists iff the payload is UTF-8.\<close>

theorem envelope_from_value_correct:
  "envelope_from_value topic part off raw ts =
     (if length raw > 16777216 then Inl (ValueError ''raw payload exceeds the 16 MiB envelope limit'')
      else if \<not> safe_topic topic then Inl (ValueError ''topic must be a safe Kafka topic name'')
      else if part < 0 \<or> off < 0 then Inl (ValueError ''partition and offset must be non-negative'')
      else Inr \<lparr>env_position = SourcePosition topic part off, env_payload = raw,
                env_kafka_timestamp = map_option as_utc ts\<rparr>)
   \<and> ((\<exists>j. envelope_json e = Inr j) \<longleftrightarrow> utf8_valid (env_payload e))"
  by (simp add: envelope_from_value_def source_position_init_def envelope_json_def envelope_document_def)

end
