(* ===== verification/Source_Boundary.thy ===== *)
theory Source_Boundary
  imports Source_Position "HOL-Library.Multiset"
begin

section \<open>Source boundaries and serving identities\<close>

text \<open>
  \<^verbatim>\<open>realtime/domain/source_boundary.py\<close>: the half-open offset ranges one materialization covers,
  their canonical document, the fingerprint that identifies the materialization, the key of a
  serving row and the 64-bit row version that orders its corrections.
\<close>

subsection \<open>Partition boundaries\<close>

datatype partition_boundary =
  PartitionBoundary (pb_topic: string) (pb_partition: int)
    (pb_from_exclusive: int) (pb_to_inclusive: int)

definition pb_key :: "partition_boundary \<Rightarrow> string \<times> int \<times> int \<times> int" where
  "pb_key b = (pb_topic b, pb_partition b, pb_from_exclusive b, pb_to_inclusive b)"

lemma pb_key_inj: "pb_key a = pb_key b \<longleftrightarrow> a = b"
  by (cases a; cases b) (simp add: pb_key_def)

instantiation partition_boundary :: linorder
begin

definition less_eq_partition_boundary :: "partition_boundary \<Rightarrow> partition_boundary \<Rightarrow> bool" where
  "less_eq_partition_boundary a b \<longleftrightarrow> pb_key a \<le> pb_key b"

definition less_partition_boundary :: "partition_boundary \<Rightarrow> partition_boundary \<Rightarrow> bool" where
  "less_partition_boundary a b \<longleftrightarrow> pb_key a < pb_key b"

instance
  by standard (auto simp: less_eq_partition_boundary_def less_partition_boundary_def pb_key_inj
      simp flip: order.strict_iff_not dest: order.antisym)

end

definition partition_boundary_init :: "string \<Rightarrow> int \<Rightarrow> int \<Rightarrow> int \<Rightarrow> partition_boundary res" where
  "partition_boundary_init topic part lo hi =
     (if blank topic \<or> part < 0
        then Inl (ValueError ''source boundary topic and partition are invalid'')
      else if lo < -1 then Inl (ValueError ''source boundary cannot start below offset -1'')
      else if hi \<le> lo then Inl (ValueError ''source boundary must contain at least one offset'')
      else Inr (PartitionBoundary topic part lo hi))"

definition valid_partition :: "partition_boundary \<Rightarrow> bool" where
  "valid_partition b \<longleftrightarrow> \<not> blank (pb_topic b) \<and> 0 \<le> pb_partition b
     \<and> -1 \<le> pb_from_exclusive b \<and> pb_from_exclusive b < pb_to_inclusive b"

definition partition_document :: "partition_boundary \<Rightarrow> json" where
  "partition_document b =
     JObj [(''topic'', JStr (pb_topic b)), (''partition'', JInt (pb_partition b)),
           (''fromOffsetExclusive'', JInt (pb_from_exclusive b)),
           (''toOffsetInclusive'', JInt (pb_to_inclusive b))]"

subsection \<open>Source boundaries\<close>

datatype source_boundary = SourceBoundary (sb_partitions: "partition_boundary list")

definition pb_identity :: "partition_boundary \<Rightarrow> string \<times> int" where
  "pb_identity b = (pb_topic b, pb_partition b)"

definition boundary_build :: "partition_boundary list \<Rightarrow> source_boundary res" where
  "boundary_build parts =
     (let ordered = sort parts; identities = map pb_identity ordered
      in if ordered = [] \<or> length identities \<noteq> card (set identities)
         then Inl (ValueError ''source boundary requires unique non-empty partitions'')
         else Inr (SourceBoundary ordered))"

definition boundary_document :: "source_boundary \<Rightarrow> json" where
  "boundary_document b = JObj [(''partitions'', JList (map partition_document (sb_partitions b)))]"

definition boundary_json :: "source_boundary \<Rightarrow> string" where
  "boundary_json b = json_dumps True (boundary_document b)"

definition partition_material :: "partition_boundary \<Rightarrow> string" where
  "partition_material b =
     pb_topic b @ ''|'' @ show_int (pb_partition b) @ ''|''
       @ show_int (pb_from_exclusive b) @ ''|'' @ show_int (pb_to_inclusive b)"

definition fingerprint_material :: "source_boundary \<Rightarrow> string \<Rightarrow> string" where
  "fingerprint_material b pipeline_version_id =
     py_join ''|'' (pipeline_version_id # map partition_material (sb_partitions b))"

definition boundary_fingerprint :: "source_boundary \<Rightarrow> string \<Rightarrow> string res" where
  "boundary_fingerprint b pipeline_version_id =
     (if blank pipeline_version_id then Inl (ValueError ''pipeline version is required'')
      else Inr (sha256_hex (fingerprint_material b pipeline_version_id)))"

definition boundary_materialization_id :: "source_boundary \<Rightarrow> string \<Rightarrow> string res" where
  "boundary_materialization_id b pipeline_version_id =
     bind_res (boundary_fingerprint b pipeline_version_id) (\<lambda>fp.
       Inr (''rtm_'' @ sha256_hex (''materialization|'' @ pipeline_version_id @ ''|'' @ fp)))"

subsection \<open>Serving rows\<close>

definition serving_key :: "string \<Rightarrow> string \<Rightarrow> string \<Rightarrow> json list \<Rightarrow> string" where
  "serving_key scope_id dataset_id pipeline_version_id business_key_values =
     (let values = json_dumps False (JList business_key_values)
      in sha256_hex (scope_id @ ''|'' @ dataset_id @ ''|'' @ pipeline_version_id @ ''|'' @ values))"

definition serving_row_version :: "int \<Rightarrow> int \<Rightarrow> int res" where
  "serving_row_version pipeline_generation correction_generation =
     (if \<not> (0 < pipeline_generation \<and> pipeline_generation < 2 ^ 32)
        then Inl (ValueError ''pipeline generation must fit an unsigned 32-bit value'')
      else if \<not> (0 \<le> correction_generation \<and> correction_generation < 2 ^ 32)
        then Inl (ValueError ''correction generation must fit an unsigned 32-bit value'')
      else Inr (or (push_bit 32 pipeline_generation) correction_generation))"

subsection \<open>Facts\<close>

lemma partition_boundary_init_Inr_iff:
  "partition_boundary_init t p lo hi = Inr b \<longleftrightarrow> b = PartitionBoundary t p lo hi \<and> valid_partition b"
  by (auto simp: partition_boundary_init_def valid_partition_def)

lemma boundary_build_Inr_iff:
  "boundary_build parts = Inr b \<longleftrightarrow>
     parts \<noteq> [] \<and> distinct (map pb_identity parts) \<and> b = SourceBoundary (sort parts)"
proof -
  have sort_Nil: "sort parts = [] \<longleftrightarrow> parts = []"
    by (metis length_0_conv length_sort)
  have "distinct (map pb_identity (sort parts)) \<longleftrightarrow> distinct (map pb_identity parts)"
    by (intro mset_eq_imp_distinct_iff) simp
  moreover have "length (map pb_identity (sort parts)) = card (set (map pb_identity (sort parts)))
      \<longleftrightarrow> distinct (map pb_identity (sort parts))"
    by (metis card_distinct distinct_card)
  ultimately show ?thesis
    unfolding boundary_build_def Let_def using sort_Nil by (auto split: if_splits)
qed

lemma boundary_build_perm: "mset xs = mset ys \<Longrightarrow> boundary_build xs = boundary_build ys"
proof -
  assume "mset xs = mset ys"
  then have "sort xs = sort ys" by (metis properties_for_sort mset_sort sorted_sort)
  then show ?thesis by (simp add: boundary_build_def)
qed

lemma boundary_build_sorted: "boundary_build parts = Inr b \<Longrightarrow> sorted (sb_partitions b)"
  by (auto simp: boundary_build_Inr_iff)

lemma boundary_build_distinct:
  "boundary_build parts = Inr b \<Longrightarrow> distinct (map pb_identity (sb_partitions b))"
  using mset_eq_imp_distinct_iff [of "map pb_identity (sort parts)" "map pb_identity parts"]
  by (auto simp: boundary_build_Inr_iff)

text \<open>
  The hashed text determines the ranges when no topic contains the separator. The partition
  boundary itself only asks for a topic that is not blank.
\<close>

definition topics_without_bar :: "source_boundary \<Rightarrow> bool" where
  "topics_without_bar b \<longleftrightarrow> (\<forall>p \<in> set (sb_partitions b). CHR ''|'' \<notin> set (pb_topic p))"

definition partition_fields :: "partition_boundary \<Rightarrow> string list" where
  "partition_fields b =
     [pb_topic b, show_int (pb_partition b), show_int (pb_from_exclusive b), show_int (pb_to_inclusive b)]"

lemma partition_material_fields: "partition_material b = py_join ''|'' (partition_fields b)"
  by (simp add: partition_material_def partition_fields_def)

lemma partition_fields_inj: "partition_fields a = partition_fields b \<longleftrightarrow> a = b"
  by (cases a; cases b) (simp add: partition_fields_def show_int_inj)

lemma concat_fields_inj:
  "concat (map partition_fields xs) = concat (map partition_fields ys) \<Longrightarrow> xs = ys"
proof (induction xs arbitrary: ys)
  case Nil
  then show ?case by (cases ys) (auto simp: partition_fields_def)
next
  case (Cons x xs)
  then obtain y ys' where ys: "ys = y # ys'" by (cases ys) (auto simp: partition_fields_def)
  have "length (partition_fields x) = length (partition_fields y)" by (simp add: partition_fields_def)
  with Cons.prems ys have "partition_fields x = partition_fields y"
    and "concat (map partition_fields xs) = concat (map partition_fields ys')" by auto
  with Cons.IH ys show ?case by (simp add: partition_fields_inj)
qed

lemma fingerprint_material_inj:
  assumes "topics_without_bar b" and "topics_without_bar c"
    and "fingerprint_material b v = fingerprint_material c v"
  shows "b = c"
proof -
  define fs where "fs b = concat (map partition_fields (sb_partitions b))" for b
  have mat: "fingerprint_material b v = v @ (if fs b = [] then [] else CHR ''|'' # py_join ''|'' (fs b))" for b
  proof (cases "sb_partitions b")
    case Nil
    then show ?thesis by (simp add: fingerprint_material_def fs_def)
  next
    case (Cons p ps)
    then have "fs b \<noteq> []" by (simp add: partition_fields_def fs_def)
    have "map partition_material (sb_partitions b)
        = map (py_join ''|'') (map partition_fields (sb_partitions b))"
      by (simp add: partition_material_fields)
    also have "py_join ''|'' \<dots> = py_join ''|'' (fs b)"
      unfolding fs_def by (rule py_join_concat) (auto simp: partition_fields_def)
    finally have "py_join ''|'' (map partition_material (sb_partitions b)) = py_join ''|'' (fs b)" .
    with Cons \<open>fs b \<noteq> []\<close> show ?thesis by (simp add: fingerprint_material_def py_join_Cons)
  qed
  have nobar: "CHR ''|'' \<notin> set x" if "x \<in> set (fs b)" "topics_without_bar b" for x b
    using that by (auto simp: partition_fields_def topics_without_bar_def fs_def)
  have "fs b = fs c"
  proof (cases "fs b = [] \<or> fs c = []")
    case True
    then show ?thesis using assms(3) unfolding mat by (auto split: if_splits)
  next
    case False
    then have "py_join ''|'' (fs b) = py_join ''|'' (fs c)"
      using assms(3) unfolding mat by (simp split: if_splits)
    then show ?thesis using False py_join_inj [of "fs b" "fs c" "CHR ''|''"] nobar assms(1,2) by blast
  qed
  then have "sb_partitions b = sb_partitions c" unfolding fs_def by (rule concat_fields_inj)
  then show ?thesis by (cases b; cases c) simp
qed

lemma boundary_fingerprint_length: "boundary_fingerprint b v = Inr fp \<Longrightarrow> py_len fp = 64"
  by (auto simp: boundary_fingerprint_def split: if_splits)

lemma or_push_bit_32:
  assumes "0 \<le> c" and "c < 2 ^ 32"
  shows "or (push_bit 32 g) c = g * 2 ^ 32 + (c :: int)"
proof -
  have "and (push_bit 32 g) c = 0"
  proof (rule bit_eqI)
    fix n
    have "\<not> bit c n" if "32 \<le> n"
      using that assms by (metis bit_take_bit_iff not_le take_bit_int_eq_self)
    then show "bit (and (push_bit 32 g) c) n \<longleftrightarrow> bit 0 n"
      by (auto simp: bit_and_iff bit_push_bit_iff)
  qed
  then have "or (push_bit 32 g) c = push_bit 32 g + c"
    by (simp add: disjunctive_add_eq_or)
  then show ?thesis by (simp add: push_bit_eq_mult)
qed

lemma serving_row_version_Inr:
  "serving_row_version g c = Inr v \<longleftrightarrow>
     0 < g \<and> g < 2 ^ 32 \<and> 0 \<le> c \<and> c < 2 ^ 32 \<and> v = g * 2 ^ 32 + c"
  by (auto simp: serving_row_version_def or_push_bit_32)

subsection \<open>Properties\<close>

text \<open>A source boundary is canonical: \<open>build\<close> ignores the order of its partitions, fails exactly on
  an empty or repeated list of partitions, and otherwise holds the given ranges, sorted, one per
  topic partition.\<close>

theorem boundary_build_canonical:
  "(mset xs = mset ys \<longrightarrow> boundary_build xs = boundary_build ys)
   \<and> (case boundary_build xs of
        Inl e \<Rightarrow> xs = [] \<or> \<not> distinct (map pb_identity xs)
      | Inr b \<Rightarrow> sorted (sb_partitions b) \<and> distinct (map pb_identity (sb_partitions b))
               \<and> mset (sb_partitions b) = mset xs)"
proof (cases "boundary_build xs")
  case (Inl e)
  then have "xs = [] \<or> \<not> distinct (map pb_identity xs)"
    using boundary_build_Inr_iff [of xs "SourceBoundary (sort xs)"] by auto
  with Inl show ?thesis by (auto simp: boundary_build_perm [of xs ys])
next
  case (Inr b)
  have "mset (sb_partitions b) = mset xs" using Inr by (auto simp: boundary_build_Inr_iff)
  with Inr boundary_build_sorted [OF Inr] boundary_build_distinct [OF Inr] boundary_build_perm [of xs ys]
  show ?thesis by simp
qed

theorem boundary_build_canonical_witness:
  "boundary_build [PartitionBoundary ''b'' 0 (-1) 4, PartitionBoundary ''a'' 1 2 9]
   = boundary_build [PartitionBoundary ''a'' 1 2 9, PartitionBoundary ''b'' 0 (-1) 4]"
  using boundary_build_canonical [of "[PartitionBoundary ''b'' 0 (-1) 4, PartitionBoundary ''a'' 1 2 9]"
      "[PartitionBoundary ''a'' 1 2 9, PartitionBoundary ''b'' 0 (-1) 4]"] by simp

text \<open>The fingerprint identifies the boundary: for one pipeline version, boundaries whose topics
  are Kafka topics (so do not contain the separator) have the same hashed text only if equal.\<close>

theorem fingerprint_identifies_boundary:
  assumes "\<forall>p \<in> set (sb_partitions b) \<union> set (sb_partitions c). safe_topic (pb_topic p)"
    and "fingerprint_material b v = fingerprint_material c v"
  shows "b = c"
  using assms safe_topic_no_bar
  by (intro fingerprint_material_inj [of b c v]) (auto simp: topics_without_bar_def)

theorem fingerprint_identifies_boundary_witness:
  "SourceBoundary [PartitionBoundary ''a'' 1 2 9] = SourceBoundary [PartitionBoundary ''a'' 1 2 9]
   \<and> safe_topic ''a''"
proof -
  have safe: "safe_topic ''a''"
    by (simp add: is_alnum_def is_lower_def char_code_def)
  show ?thesis
    using fingerprint_identifies_boundary [of "SourceBoundary [PartitionBoundary ''a'' 1 2 9]"
        "SourceBoundary [PartitionBoundary ''a'' 1 2 9]" "''v1''"] safe by simp
qed

text \<open>Without that restriction it does not: the partition boundary accepts a topic that
  contains the separator, and two different boundaries then have the same fingerprint and the same
  materialization id under every pipeline version.\<close>

theorem fingerprint_collides_on_separator:
  "\<exists>b c. boundary_build [PartitionBoundary ''a|0|-1|5|b'' 0 (-1) 5] = Inr b
     \<and> boundary_build [PartitionBoundary ''a'' 0 (-1) 5, PartitionBoundary ''b'' 0 (-1) 5] = Inr c
     \<and> valid_partition (PartitionBoundary ''a|0|-1|5|b'' 0 (-1) 5)
     \<and> b \<noteq> c \<and> (\<forall>v. boundary_fingerprint b v = boundary_fingerprint c v
                   \<and> boundary_materialization_id b v = boundary_materialization_id c v)"
proof -
  let ?b = "SourceBoundary [PartitionBoundary ''a|0|-1|5|b'' 0 (-1) 5]"
  let ?c = "SourceBoundary [PartitionBoundary ''a'' 0 (-1) 5, PartitionBoundary ''b'' 0 (-1) 5]"
  have digits: "show_int 0 = ''0''" "show_int (-1) = ''-1''" "show_int 5 = ''5''"
    by code_simp+
  have "fingerprint_material ?b v = fingerprint_material ?c v" for v
    by (simp add: fingerprint_material_def partition_material_def digits)
  then have same: "boundary_fingerprint ?b v = boundary_fingerprint ?c v" for v
    by (simp add: boundary_fingerprint_def)
  have c: "boundary_build (sb_partitions ?c) = Inr ?c"
    by (simp add: boundary_build_Inr_iff pb_identity_def less_eq_partition_boundary_def pb_key_def)
  show ?thesis
    using c by (intro exI [of _ ?b] exI [of _ ?c])
      (simp add: boundary_build_Inr_iff same boundary_materialization_id_def valid_partition_def
        blank_def py_strip_def py_space_def char_code_def)
qed

text \<open>Row versions order corrections: they fit 64 bits, encode both generations, and compare as
  the pair of pipeline generation and correction generation.\<close>

theorem row_version_order:
  assumes "serving_row_version g c = Inr v" and "serving_row_version g' c' = Inr v'"
  shows "(v < v' \<longleftrightarrow> g < g' \<or> g = g' \<and> c < c') \<and> 0 < v \<and> v < 2 ^ 64
    \<and> v div 2 ^ 32 = g \<and> v mod 2 ^ 32 = c"
  using assms by (auto simp: serving_row_version_Inr)

theorem row_version_order_witness:
  "serving_row_version 2 0 = Inr (2 ^ 33) \<and> serving_row_version 1 9 = Inr (2 ^ 32 + 9)
   \<and> \<not> (2 ^ 33 < (2 ^ 32 + 9 :: int))"
proof -
  have a: "serving_row_version 2 0 = Inr (2 ^ 33)" and b: "serving_row_version 1 9 = Inr (2 ^ 32 + 9)"
    by (simp_all add: serving_row_version_Inr)
  show ?thesis using row_version_order [OF a b] a b by simp
qed

end
