(* ===== verification/Receipt.thy ===== *)
theory Receipt
  imports Source_Boundary
begin

section \<open>Receipt audits\<close>

text \<open>
  \<^verbatim>\<open>realtime/domain/receipt.py\<close>: the comparison of the positions Kafka offered
  (\<open>expected\<close>) with the positions that arrived (\<open>raw\<close>) or were explicitly resolved, over one
  topic partition. The audit says which offsets are missing or unexpected, whether the range is
  contiguous, and how far the receipt watermark may advance.
\<close>

datatype receipt_status = Contiguous | Blocked

record receipt_audit =
  ra_topic :: string
  ra_partition :: int
  ra_from_inclusive :: int
  ra_to_inclusive :: int
  ra_expected_offsets :: "int list"
  ra_raw_offsets :: "int list"
  ra_resolved_offsets :: "int list"
  ra_missing_offsets :: "int list"
  ra_unexpected_offsets :: "int list"
  ra_status :: receipt_status
  ra_expected_hash :: string
  ra_actual_hash :: string
  ra_advance_to :: "int option"

text \<open>\<open>tuple(sorted(set(items)))\<close>\<close>

definition sorted_set :: "'a::linorder list \<Rightarrow> 'a list" where
  "sorted_set xs = sort (remdups xs)"

definition offset_hash :: "int list \<Rightarrow> string" where
  "offset_hash offsets = sha256_hex (json_dumps True (JList (map JInt (sorted_set offsets))))"

definition partition_offsets :: "string \<Rightarrow> int \<Rightarrow> source_position list \<Rightarrow> int list res" where
  "partition_offsets topic part items =
     (let normalized = sorted_set items
      in if \<exists>item \<in> set normalized. sp_topic item \<noteq> topic \<or> sp_partition item \<noteq> part
         then Inl (ValueError ''one receipt audit may cover only one topic partition'')
         else Inr (map sp_offset normalized))"

text \<open>The loop that walks the expected offsets until the first one that did not arrive.\<close>

fun advance_loop :: "int list \<Rightarrow> int list \<Rightarrow> int option \<Rightarrow> int option" where
  "advance_loop [] actual adv = adv"
| "advance_loop (k # ks) actual adv =
     (if k \<notin> set actual then adv else advance_loop ks actual (Some k))"

definition build_audit :: "string \<Rightarrow> int \<Rightarrow> int list \<Rightarrow> int list \<Rightarrow> int list \<Rightarrow> receipt_audit" where
  "build_audit topic part expected_offsets raw_offsets resolved_offsets =
     (let actual = raw_offsets @ resolved_offsets;
          missing = sorted_set (filter (\<lambda>k. k \<notin> set actual) expected_offsets);
          unexpected = sorted_set (filter (\<lambda>k. k \<notin> set expected_offsets) actual);
          status = (if missing = [] \<and> unexpected = [] then Contiguous else Blocked);
          advance = (if unexpected = [] then advance_loop expected_offsets actual None else None)
      in \<lparr>ra_topic = topic, ra_partition = part,
          ra_from_inclusive = hd expected_offsets, ra_to_inclusive = last expected_offsets,
          ra_expected_offsets = expected_offsets, ra_raw_offsets = raw_offsets,
          ra_resolved_offsets = resolved_offsets, ra_missing_offsets = missing,
          ra_unexpected_offsets = unexpected, ra_status = status,
          ra_expected_hash = offset_hash expected_offsets,
          ra_actual_hash = offset_hash actual, ra_advance_to = advance\<rparr>)"

definition audit_receipt_range ::
  "source_position list \<Rightarrow> source_position list \<Rightarrow> source_position list \<Rightarrow> nat \<Rightarrow> receipt_audit res" where
  "audit_receipt_range expected raw resolved max_positions =
     (let expected_items = sorted_set expected
      in if expected_items = []
           then Inl (ValueError ''expected read_committed positions cannot be empty'')
         else if length expected_items > max_positions
           then Inl (ValueError ''receipt range exceeds max_positions'')
         else let topic = sp_topic (hd expected_items); part = sp_partition (hd expected_items)
         in bind_res (partition_offsets topic part expected_items) (\<lambda>expected_offsets.
            bind_res (partition_offsets topic part raw) (\<lambda>raw_offsets.
            bind_res (partition_offsets topic part resolved) (\<lambda>resolved_offsets.
            Inr (build_audit topic part expected_offsets raw_offsets resolved_offsets)))))"

subsection \<open>Sorted sets\<close>

lemma set_sorted_set [simp]: "set (sorted_set xs) = set xs"
  by (simp add: sorted_set_def)

lemma sorted_sorted_set [simp]: "sorted (sorted_set xs)"
  by (simp add: sorted_set_def)

lemma distinct_sorted_set [simp]: "distinct (sorted_set xs)"
  by (simp add: sorted_set_def)

lemma sorted_set_eq_iff: "sorted_set xs = sorted_set ys \<longleftrightarrow> set xs = set ys"
  by (metis distinct_sorted_set set_sorted_set sorted_distinct_set_unique sorted_sorted_set)

lemma sorted_set_Nil_iff [simp]: "sorted_set xs = [] \<longleftrightarrow> xs = []"
  by (metis set_empty set_sorted_set)

lemma sorted_set_id: "sorted xs \<Longrightarrow> distinct xs \<Longrightarrow> sorted_set xs = xs"
  by (simp add: sorted_set_def distinct_remdups_id sorted_sort_id)

lemma sorted_set_idem [simp]: "sorted_set (sorted_set xs) = sorted_set xs"
  by (simp add: sorted_set_id)

lemma sorted_le_last: "sorted xs \<Longrightarrow> x \<in> set xs \<Longrightarrow> x \<le> last xs"
  by (induction xs) auto

lemma offset_hash_cong: "set xs = set ys \<Longrightarrow> offset_hash xs = offset_hash ys"
  unfolding offset_hash_def using sorted_set_eq_iff by metis

text \<open>On one partition the order of positions is the order of offsets.\<close>

lemma position_le_same_partition:
  "sp_topic p = sp_topic q \<Longrightarrow> sp_partition p = sp_partition q \<Longrightarrow> p \<le> q \<longleftrightarrow> sp_offset p \<le> sp_offset q"
  by (auto simp: less_eq_source_position_def sp_key_def)

lemma partition_offsets_Inr:
  assumes "partition_offsets t p items = Inr ks"
  shows "ks = map sp_offset (sorted_set items)" and "set ks = sp_offset ` set items"
    and "sorted ks" and "distinct ks"
    and "\<And>i. i \<in> set items \<Longrightarrow> i = SourcePosition t p (sp_offset i)"
proof -
  show ks: "ks = map sp_offset (sorted_set items)"
    using assms by (auto simp: partition_offsets_def Let_def split: if_splits)
  show part: "i = SourcePosition t p (sp_offset i)" if "i \<in> set items" for i
  proof -
    have "\<forall>j \<in> set items. sp_topic j = t \<and> sp_partition j = p"
      using assms by (auto simp: partition_offsets_def Let_def split: if_splits)
    with that show ?thesis by (metis source_position.collapse)
  qed
  show "set ks = sp_offset ` set items" by (simp add: ks)
  have inj: "inj_on sp_offset (set items)"
    using part by (metis inj_onI)
  then show "distinct ks" by (simp add: ks distinct_map)
  have "sorted_wrt (\<lambda>x y. sp_offset x \<le> sp_offset y) (sorted_set items)"
    using sorted_sorted_set [of items]
  proof (rule sorted_wrt_mono_rel [rotated])
    fix x y assume "x \<in> set (sorted_set items)" and "y \<in> set (sorted_set items)" and "x \<le> y"
    then show "sp_offset x \<le> sp_offset y"
      using part [of x] part [of y] position_le_same_partition [of x y] by (metis set_sorted_set source_position.sel(1,2))
  qed
  then show "sorted ks" by (simp add: ks sorted_map)
qed

lemma partition_offsets_total:
  "(\<And>i. i \<in> set items \<Longrightarrow> sp_topic i = t \<and> sp_partition i = p) \<Longrightarrow>
   partition_offsets t p items = Inr (map sp_offset (sorted_set items))"
  by (simp add: partition_offsets_def Let_def)

subsection \<open>What an audit establishes\<close>

lemma advance_loop_all: "set ks \<subseteq> set actual \<Longrightarrow> ks \<noteq> [] \<Longrightarrow> advance_loop ks actual adv = Some (last ks)"
  by (induction ks arbitrary: adv) (auto split: if_splits)

text \<open>The watermark covers a prefix of the expected offsets and stops before the first gap.\<close>

lemma advance_loop_prefix:
  "advance_loop ks actual None = Some a \<Longrightarrow>
   \<exists>pre post. ks = pre @ a # post \<and> set (pre @ [a]) \<subseteq> set actual
     \<and> (post = [] \<or> hd post \<notin> set actual)"
proof (induction ks arbitrary: a rule: rev_induct)
  case Nil
  then show ?case by simp
next
  case (snoc k ks)
  have step: "advance_loop (ks @ [k]) actual adv =
      (if set ks \<subseteq> set actual \<and> k \<in> set actual then Some k else advance_loop ks actual adv)" for adv
    by (induction ks arbitrary: adv) auto
  show ?case
  proof (cases "set ks \<subseteq> set actual \<and> k \<in> set actual")
    case True
    then have "a = k" using snoc.prems step by simp
    with True show ?thesis by (intro exI [of _ ks] exI [of _ "[]"]) auto
  next
    case False
    then have "advance_loop ks actual None = Some a" using snoc.prems step [of None] by metis
    from snoc.IH [OF this] obtain pre post where ks: "ks = pre @ a # post"
      and sub: "set (pre @ [a]) \<subseteq> set actual" and nxt: "post = [] \<or> hd post \<notin> set actual" by blast
    have "hd (post @ [k]) \<notin> set actual"
      using False ks sub nxt by (cases post) auto
    with ks sub show ?thesis by (intro exI [of _ pre] exI [of _ "post @ [k]"]) simp
  qed
qed

lemma partition_offsets_sorted_set [simp]:
  "partition_offsets t p (sorted_set xs) = partition_offsets t p xs"
  by (simp add: partition_offsets_def)

lemma build_audit_offsets [simp]:
  "ra_topic (build_audit t p e r s) = t"
  "ra_partition (build_audit t p e r s) = p"
  "ra_expected_offsets (build_audit t p e r s) = e"
  "ra_raw_offsets (build_audit t p e r s) = r"
  "ra_resolved_offsets (build_audit t p e r s) = s"
  by (simp_all add: build_audit_def Let_def)

lemma audit_Inr_build:
  assumes "audit_receipt_range e r s m = Inr a"
  shows "a = build_audit (ra_topic a) (ra_partition a) (ra_expected_offsets a) (ra_raw_offsets a)
    (ra_resolved_offsets a)"
  using assms by (clarsimp simp: audit_receipt_range_def Let_def bind_res_Inr_iff split: if_splits)

lemma audit_Inr_offsets:
  assumes "audit_receipt_range e r s m = Inr a"
  shows "partition_offsets (ra_topic a) (ra_partition a) e = Inr (ra_expected_offsets a)"
    and "partition_offsets (ra_topic a) (ra_partition a) r = Inr (ra_raw_offsets a)"
    and "partition_offsets (ra_topic a) (ra_partition a) s = Inr (ra_resolved_offsets a)"
    and "e \<noteq> []" and "length (sorted_set e) \<le> m"
  using assms by (clarsimp simp: audit_receipt_range_def Let_def bind_res_Inr_iff split: if_splits)+

lemma audit_Inr_fields:
  assumes "audit_receipt_range e r s m = Inr a"
  defines "actual \<equiv> ra_raw_offsets a @ ra_resolved_offsets a"
  shows "set (ra_missing_offsets a) = set (ra_expected_offsets a) - set actual"
    and "set (ra_unexpected_offsets a) = set actual - set (ra_expected_offsets a)"
    and "ra_status a = (if ra_missing_offsets a = [] \<and> ra_unexpected_offsets a = [] then Contiguous else Blocked)"
    and "ra_advance_to a = (if ra_unexpected_offsets a = [] then advance_loop (ra_expected_offsets a) actual None else None)"
    and "ra_expected_hash a = offset_hash (ra_expected_offsets a)"
    and "ra_actual_hash a = offset_hash actual"
    and "ra_from_inclusive a = hd (ra_expected_offsets a)"
    and "ra_to_inclusive a = last (ra_expected_offsets a)"
proof -
  obtain t p x y z where a: "a = build_audit t p x y z"
    using audit_Inr_build [OF assms(1)] by blast
  show "set (ra_missing_offsets a) = set (ra_expected_offsets a) - set actual"
    and "set (ra_unexpected_offsets a) = set actual - set (ra_expected_offsets a)"
    unfolding actual_def by (auto simp: a build_audit_def Let_def)
  show "ra_status a = (if ra_missing_offsets a = [] \<and> ra_unexpected_offsets a = [] then Contiguous else Blocked)"
    and "ra_advance_to a = (if ra_unexpected_offsets a = [] then advance_loop (ra_expected_offsets a) actual None else None)"
    and "ra_expected_hash a = offset_hash (ra_expected_offsets a)"
    and "ra_actual_hash a = offset_hash actual"
    and "ra_from_inclusive a = hd (ra_expected_offsets a)"
    and "ra_to_inclusive a = last (ra_expected_offsets a)"
    unfolding actual_def by (simp_all add: a build_audit_def Let_def)
qed

lemma audit_expected_not_Nil: "audit_receipt_range e r s m = Inr a \<Longrightarrow> ra_expected_offsets a \<noteq> []"
  using audit_Inr_offsets(1,4) [of e r s m a] partition_offsets_Inr(1) by fastforce

lemma audit_contiguous_iff:
  assumes "audit_receipt_range e r s m = Inr a"
  shows "ra_status a = Contiguous \<longleftrightarrow>
    set (ra_expected_offsets a) = set (ra_raw_offsets a) \<union> set (ra_resolved_offsets a)"
proof -
  have "ra_status a = Contiguous \<longleftrightarrow> set (ra_missing_offsets a) = {} \<and> set (ra_unexpected_offsets a) = {}"
    using audit_Inr_fields(3) [OF assms] by simp
  then show ?thesis using audit_Inr_fields(1,2) [OF assms] by auto
qed

lemma audit_contiguous_evidence:
  assumes "audit_receipt_range e r s m = Inr a" and "ra_status a = Contiguous"
  shows "ra_expected_hash a = ra_actual_hash a" and "ra_advance_to a = Some (ra_to_inclusive a)"
proof -
  have eq: "set (ra_expected_offsets a) = set (ra_raw_offsets a @ ra_resolved_offsets a)"
    using audit_contiguous_iff [OF assms(1)] assms(2) by simp
  then show "ra_expected_hash a = ra_actual_hash a"
    by (simp add: audit_Inr_fields(5,6) [OF assms(1)] offset_hash_cong)
  have "ra_unexpected_offsets a = []"
    using audit_Inr_fields(3) [OF assms(1)] assms(2) by (auto split: if_splits)
  then show "ra_advance_to a = Some (ra_to_inclusive a)"
    using audit_Inr_fields(4,8) [OF assms(1)] eq audit_expected_not_Nil [OF assms(1)]
    by (simp add: advance_loop_all)
qed

lemma audit_sorted:
  assumes "audit_receipt_range e r s m = Inr a"
  shows "sorted (ra_expected_offsets a)" and "distinct (ra_expected_offsets a)"
  using partition_offsets_Inr(3,4) [OF audit_Inr_offsets(1) [OF assms]] by auto

lemma audit_bounds:
  assumes "audit_receipt_range e r s m = Inr a" and "k \<in> set (ra_expected_offsets a)"
  shows "ra_from_inclusive a \<le> k" and "k \<le> ra_to_inclusive a"
proof -
  obtain x xs where split: "ra_expected_offsets a = x # xs"
    using assms(2) by (cases "ra_expected_offsets a") auto
  show "ra_from_inclusive a \<le> k"
    using assms(2) audit_sorted(1) [OF assms(1)] audit_Inr_fields(7) [OF assms(1)] split by auto
  show "k \<le> ra_to_inclusive a"
    using sorted_le_last [OF audit_sorted(1) [OF assms(1)] assms(2)] audit_Inr_fields(8) [OF assms(1)]
    by simp
qed

subsection \<open>Properties\<close>

text \<open>An audit is contiguous exactly when the offsets that arrived or were resolved are the
  expected ones. It then carries equal hashes on both sides and advances the watermark to the end of
  the range; otherwise it lists precisely the missing and the unexpected offsets.\<close>

theorem audit_classifies_receipts:
  assumes "audit_receipt_range expected raw resolved m = Inr a"
  defines "actual \<equiv> sp_offset ` (set raw \<union> set resolved)"
  shows "(ra_status a = Contiguous \<longleftrightarrow> actual = sp_offset ` set expected)
    \<and> (ra_status a = Contiguous \<longrightarrow>
         ra_expected_hash a = ra_actual_hash a \<and> ra_advance_to a = Some (Max (sp_offset ` set expected)))
    \<and> set (ra_missing_offsets a) = sp_offset ` set expected - actual
    \<and> set (ra_unexpected_offsets a) = actual - sp_offset ` set expected"
proof -
  have e: "set (ra_expected_offsets a) = sp_offset ` set expected"
    and act: "set (ra_raw_offsets a) \<union> set (ra_resolved_offsets a) = actual"
    using partition_offsets_Inr(2) audit_Inr_offsets(1-3) [OF assms(1)] unfolding actual_def image_Un by metis+
  have "ra_to_inclusive a = Max (set (ra_expected_offsets a))"
    using audit_bounds(2) [OF assms(1)] audit_Inr_fields(8) [OF assms(1)] audit_expected_not_Nil [OF assms(1)]
    by (intro Max_eqI [symmetric]) auto
  then show ?thesis
    using audit_contiguous_iff [OF assms(1)] audit_contiguous_evidence [OF assms(1)]
      audit_Inr_fields(1,2) [OF assms(1)] e act by auto
qed

lemma sample_audit:
  "\<exists>a. audit_receipt_range [SourcePosition ''t'' 0 1, SourcePosition ''t'' 0 0] [SourcePosition ''t'' 0 0]
      [SourcePosition ''t'' 0 1] 10 = Inr a"
  by (simp add: audit_receipt_range_def sorted_set_def Let_def partition_offsets_def
      less_eq_source_position_def sp_key_def)

theorem audit_classifies_receipts_witness:
  "\<exists>a. audit_receipt_range [SourcePosition ''t'' 0 1, SourcePosition ''t'' 0 0] [SourcePosition ''t'' 0 0]
      [SourcePosition ''t'' 0 1] 10 = Inr a \<and> ra_status a = Contiguous \<and> ra_advance_to a = Some 1"
proof -
  obtain a where a: "audit_receipt_range [SourcePosition ''t'' 0 1, SourcePosition ''t'' 0 0]
      [SourcePosition ''t'' 0 0] [SourcePosition ''t'' 0 1] 10 = Inr a"
    using sample_audit by blast
  show ?thesis using audit_classifies_receipts [OF a] a by (auto simp: insert_commute)
qed

text \<open>C35. The watermark an audit proposes is safe and maximal: every expected offset up to it arrived
  or was resolved, and the next expected offset, if there is one, did not.\<close>

theorem audit_watermark_safe_and_maximal:
  assumes "audit_receipt_range expected raw resolved m = Inr a" and "ra_advance_to a = Some w"
  defines "actual \<equiv> sp_offset ` (set raw \<union> set resolved)"
  shows "w \<in> sp_offset ` set expected
    \<and> (\<forall>k \<in> sp_offset ` set expected. k \<le> w \<longrightarrow> k \<in> actual)
    \<and> (\<forall>k \<in> sp_offset ` set expected. w < k \<longrightarrow>
         (\<exists>g \<in> sp_offset ` set expected. w < g \<and> g \<le> k \<and> g \<notin> actual))"
proof -
  have e: "set (ra_expected_offsets a) = sp_offset ` set expected"
    and act: "set (ra_raw_offsets a @ ra_resolved_offsets a) = actual"
    using partition_offsets_Inr(2) audit_Inr_offsets(1-3) [OF assms(1)]
    unfolding actual_def image_Un set_append by metis+
  have "advance_loop (ra_expected_offsets a) (ra_raw_offsets a @ ra_resolved_offsets a) None = Some w"
    using assms(2) audit_Inr_fields(4) [OF assms(1)] by (simp split: if_splits)
  from advance_loop_prefix [OF this] obtain pre post
    where split: "ra_expected_offsets a = pre @ w # post" and sub: "set (pre @ [w]) \<subseteq> actual"
      and gap: "post = [] \<or> hd post \<notin> actual" unfolding act by blast
  have sorted: "sorted_wrt (<) (pre @ w # post)"
    using audit_sorted [OF assms(1)] unfolding split strict_sorted_iff by simp
  have es: "sp_offset ` set expected = set pre \<union> {w} \<union> set post" using split e by auto
  have post: "\<forall>k \<in> set post. w < k" and pre: "\<forall>k \<in> set pre. k < w"
    using sorted by (auto simp: sorted_wrt_append)
  have hd: "hd post \<le> k" if "k \<in> set post" for k
    using sorted that by (cases post) (auto simp: sorted_wrt_append)
  show ?thesis
  proof (intro conjI ballI impI)
    show "w \<in> sp_offset ` set expected" using es by simp
    show "k \<in> actual" if "k \<in> sp_offset ` set expected" "k \<le> w" for k
      using that es post sub by force
    show "\<exists>g \<in> sp_offset ` set expected. w < g \<and> g \<le> k \<and> g \<notin> actual"
      if "k \<in> sp_offset ` set expected" "w < k" for k
    proof -
      have "k \<in> set post" using that es pre by force
      then have "post \<noteq> []" by auto
      then show ?thesis using hd [OF \<open>k \<in> set post\<close>] post gap es by (intro bexI [of _ "hd post"]) auto
    qed
  qed
qed

lemma sample_blocked_audit:
  "\<exists>a. audit_receipt_range [SourcePosition ''t'' 0 0, SourcePosition ''t'' 0 1] [SourcePosition ''t'' 0 0]
      [] 10 = Inr a \<and> ra_advance_to a = Some 0"
  by (simp add: audit_receipt_range_def sorted_set_def Let_def partition_offsets_def
      less_eq_source_position_def sp_key_def build_audit_def)

theorem audit_watermark_safe_and_maximal_witness:
  "\<exists>a. audit_receipt_range [SourcePosition ''t'' 0 0, SourcePosition ''t'' 0 1] [SourcePosition ''t'' 0 0]
      [] 10 = Inr a \<and> ra_advance_to a = Some 0 \<and> (\<exists>g \<in> {0, 1}. 0 < g \<and> g \<le> 1 \<and> g \<notin> {0 :: int})"
proof -
  obtain a where a: "audit_receipt_range [SourcePosition ''t'' 0 0, SourcePosition ''t'' 0 1]
      [SourcePosition ''t'' 0 0] [] 10 = Inr a" "ra_advance_to a = Some 0"
    using sample_blocked_audit by blast
  show ?thesis using audit_watermark_safe_and_maximal [OF a] a by auto
qed

end
