(* ===== verification/Store.thy ===== *)
theory Store
  imports Receipt
begin

section \<open>The metadata database\<close>

text \<open>
  The PostgreSQL tables of the realtime plane, one record per row type, with the columns that the
  modelled code reads or writes (\<^verbatim>\<open>alembic/versions/0016\<close> to \<^verbatim>\<open>0018\<close>, \<^verbatim>\<open>models/realtime.py\<close> and
  \<^verbatim>\<open>models/dashboard_live.py\<close>), and their CHECK and UNIQUE constraints as executable predicates. A table is the list of its rows in
  insertion order. Statements that break a constraint raise \<open>IntegrityError\<close>. Column widths and
  foreign keys are not modelled.

  \<open>table_ok\<close> is the integrity of a table (distinct primary keys, every row within its CHECK
  constraints), which every statement keeps.
\<close>

subsection \<open>Statements\<close>

definition update_where :: "('r \<Rightarrow> bool) \<Rightarrow> ('r \<Rightarrow> 'r) \<Rightarrow> 'r list \<Rightarrow> 'r list" where
  "update_where P f rows = map (\<lambda>r. if P r then f r else r) rows"

definition rowcount :: "('r \<Rightarrow> bool) \<Rightarrow> 'r list \<Rightarrow> nat" where
  "rowcount P rows = length (filter P rows)"

definition check_violation :: py_error where
  "check_violation = IntegrityError ''check constraint''"

definition unique_violation :: py_error where
  "unique_violation = IntegrityError ''unique constraint''"

text \<open>\<open>UPDATE ... SET f WHERE P\<close>: the new rows and the row count.\<close>

definition sql_update ::
  "('r \<Rightarrow> bool) \<Rightarrow> ('r \<Rightarrow> bool) \<Rightarrow> ('r \<Rightarrow> 'r) \<Rightarrow> 'r list \<Rightarrow> ('r list \<times> nat) res" where
  "sql_update ck P f rows =
     (if \<forall>r \<in> set rows. P r \<longrightarrow> ck (f r)
      then Inr (update_where P f rows, rowcount P rows) else Inl check_violation)"

text \<open>
  \<open>INSERT ... ON CONFLICT (key) DO UPDATE SET f WHERE g\<close>. CHECK constraints apply to the row
  proposed for insertion before the conflict is looked for; \<open>uniq\<close> are the other unique
  constraints of the table.
\<close>

definition sql_upsert ::
  "('r \<Rightarrow> 'k) \<Rightarrow> ('r \<Rightarrow> bool) \<Rightarrow> ('r list \<Rightarrow> 'r \<Rightarrow> bool) \<Rightarrow> 'r \<Rightarrow> ('r \<Rightarrow> bool) \<Rightarrow> ('r \<Rightarrow> 'r)
    \<Rightarrow> 'r list \<Rightarrow> ('r list \<times> nat) res" where
  "sql_upsert key ck uniq new g f rows =
     (if \<not> ck new then Inl check_violation
      else case find (\<lambda>r. key r = key new) rows of
        None \<Rightarrow> (if uniq rows new then Inr (rows @ [new], 1) else Inl unique_violation)
      | Some old \<Rightarrow>
          sql_update ck (\<lambda>r. key r = key new \<and> g r) f rows)"

text \<open>A plain \<open>INSERT\<close>, as the ORM emits for an added row.\<close>

definition sql_insert ::
  "('r \<Rightarrow> bool) \<Rightarrow> ('r list \<Rightarrow> 'r \<Rightarrow> bool) \<Rightarrow> 'r \<Rightarrow> 'r list \<Rightarrow> 'r list res" where
  "sql_insert ck uniq new rows =
     (if \<not> ck new then Inl check_violation
      else if \<not> uniq rows new then Inl unique_violation
      else Inr (rows @ [new]))"

subsection \<open>Tables with a primary key\<close>

definition keyed :: "('r \<Rightarrow> 'k) \<Rightarrow> 'r list \<Rightarrow> bool" where
  "keyed key rows \<longleftrightarrow> distinct (map key rows)"

lemma keyed_Nil [simp]: "keyed key []"
  by (simp add: keyed_def)

lemma keyed_snoc: "keyed key (rows @ [new]) \<longleftrightarrow> keyed key rows \<and> key new \<notin> key ` set rows"
  by (auto simp: keyed_def)

lemma keys_update_where:
  "(\<And>r. P r \<Longrightarrow> key (f r) = key r) \<Longrightarrow> map key (update_where P f rows) = map key rows"
  by (simp add: update_where_def)

lemma keyed_update_where:
  "keyed key rows \<Longrightarrow> (\<And>r. P r \<Longrightarrow> key (f r) = key r) \<Longrightarrow> keyed key (update_where P f rows)"
  by (simp add: keyed_def keys_update_where)

lemma keyed_same_row: "keyed key rows \<Longrightarrow> r \<in> set rows \<Longrightarrow> s \<in> set rows \<Longrightarrow> key r = key s \<Longrightarrow> r = s"
  unfolding keyed_def distinct_map by (auto dest: inj_onD)

lemma keyed_filter:
  "keyed key rows \<Longrightarrow> r \<in> set rows \<Longrightarrow> filter (\<lambda>x. key x = key r) rows = [r]"
proof (induction rows)
  case Nil
  then show ?case by simp
next
  case (Cons x rows)
  have "filter (\<lambda>y. key y = key x) rows = []"
    using Cons.prems(1) by (auto simp: keyed_def filter_empty_conv image_iff)
  with Cons show ?case by (auto simp: keyed_def)
qed

lemma keyed_rowcount:
  assumes "keyed key rows" and "\<And>r. P r \<Longrightarrow> key r = k"
  shows "rowcount P rows = (if \<exists>r \<in> set rows. P r then 1 else 0)"
proof (cases "\<exists>r \<in> set rows. P r")
  case False
  then show ?thesis by (auto simp: rowcount_def filter_empty_conv)
next
  case True
  then obtain r where r: "r \<in> set rows" "P r" by blast
  have "filter P rows = filter P (filter (\<lambda>x. key x = key r) rows)"
    using assms(2) r(2) by (simp add: conj_commute) (metis (mono_tags, lifting) assms(2) filter_cong r(2))
  then show ?thesis using r assms(1) by (auto simp: rowcount_def keyed_filter)
qed

lemma find_key_Some:
  assumes "keyed key rows" and "r \<in> set rows"
  shows "find (\<lambda>x. key x = key r) rows = Some r"
  using assms
proof (induction rows)
  case (Cons x rows)
  show ?case
  proof (cases "r = x")
    case False
    with Cons.prems have "key x \<noteq> key r" by (auto simp: keyed_def)
    with Cons False show ?thesis by (simp add: keyed_def)
  qed simp
qed simp

lemma find_Some_in: "find P rows = Some r \<Longrightarrow> r \<in> set rows \<and> P r"
  by (auto simp: find_Some_iff)

lemma keyed_upsert:
  assumes "keyed key rows" and "\<And>r. key (f r) = key r"
    and "sql_upsert key ck uniq new g f rows = Inr (rows', n)"
  shows "keyed key rows'"
proof (cases "find (\<lambda>r. key r = key new) rows")
  case None
  moreover from None have "key new \<notin> key ` set rows" by (auto simp: find_None_iff)
  ultimately show ?thesis using assms
    by (simp add: sql_upsert_def keyed_snoc split: if_splits) (auto simp: keyed_snoc)
next
  case (Some old)
  then show ?thesis using assms
    by (auto simp: sql_upsert_def sql_update_def intro!: keyed_update_where split: if_splits)
qed

subsection \<open>Facts about statements\<close>

lemma in_update_where: "r \<in> set (update_where P f rows) \<longleftrightarrow>
    (\<exists>s \<in> set rows. r = (if P s then f s else s))"
  by (auto simp: update_where_def)

lemma update_where_id: "(\<And>r. r \<in> set rows \<Longrightarrow> \<not> P r) \<Longrightarrow> update_where P f rows = rows"
  by (simp add: update_where_def map_idI)

lemma update_where_no_rows: "rowcount P rows = 0 \<Longrightarrow> update_where P f rows = rows"
  by (rule update_where_id) (auto simp: rowcount_def filter_empty_conv)

lemma sql_update_Inr_iff:
  "sql_update ck P f rows = Inr (rows', n) \<longleftrightarrow>
     (\<forall>r \<in> set rows. P r \<longrightarrow> ck (f r)) \<and> rows' = update_where P f rows \<and> n = rowcount P rows"
  by (auto simp: sql_update_def)

lemma sql_update_checked:
  assumes "sql_update ck P f rows = Inr (rows', n)" and "\<forall>r \<in> set rows. ck r"
  shows "\<forall>r \<in> set rows'. ck r"
  using assms by (auto simp: sql_update_Inr_iff update_where_def)

lemma sql_upsert_checked:
  assumes "sql_upsert key ck uniq new g f rows = Inr (rows', n)" and "\<forall>r \<in> set rows. ck r"
  shows "\<forall>r \<in> set rows'. ck r"
  using assms
  by (auto simp: sql_upsert_def sql_update_Inr_iff update_where_def split: if_splits option.splits)

lemma sql_insert_Inr_iff:
  "sql_insert ck uniq new rows = Inr rows' \<longleftrightarrow> ck new \<and> uniq rows new \<and> rows' = rows @ [new]"
  by (auto simp: sql_insert_def)

subsection \<open>Lookup by key\<close>

definition lookup_key :: "('r \<Rightarrow> 'k) \<Rightarrow> 'k \<Rightarrow> 'r list \<Rightarrow> 'r option" where
  "lookup_key key k rows = find (\<lambda>r. key r = k) rows"

lemma lookup_key_Some: "lookup_key key k rows = Some r \<Longrightarrow> r \<in> set rows \<and> key r = k"
  by (auto simp: lookup_key_def dest: find_Some_in)

lemma lookup_key_keyed: "keyed key rows \<Longrightarrow> r \<in> set rows \<Longrightarrow> lookup_key key (key r) rows = Some r"
  by (simp add: lookup_key_def find_key_Some)

lemma lookup_key_None: "lookup_key key k rows = None \<longleftrightarrow> k \<notin> key ` set rows"
  by (auto simp: lookup_key_def find_None_iff)

lemma lookup_key_snoc:
  "lookup_key key k (rows @ [r]) =
     (case lookup_key key k rows of None \<Rightarrow> if key r = k then Some r else None | Some x \<Rightarrow> Some x)"
  by (induction rows) (auto simp: lookup_key_def)

lemma lookup_key_update:
  assumes "\<And>r. P r \<Longrightarrow> key (f r) = key r"
  shows "lookup_key key k (update_where P f rows) =
    map_option (\<lambda>r. if P r then f r else r) (lookup_key key k rows)"
  using assms by (induction rows) (auto simp: lookup_key_def update_where_def)

subsection \<open>Receipts and checkpoints\<close>

record receipt_range_row =
  rr_pipeline_version_id :: string
  rr_topic :: string
  rr_partition :: int
  rr_from_inclusive :: int
  rr_to_inclusive :: int
  rr_expected_count :: int
  rr_raw_count :: int
  rr_expected_hash :: string
  rr_actual_hash :: string
  rr_status :: receipt_status
  rr_verified_at :: "timestamp option"
  rr_updated_at :: timestamp

definition receipt_range_key :: "receipt_range_row \<Rightarrow> string \<times> string \<times> int \<times> int \<times> int" where
  "receipt_range_key r = (rr_pipeline_version_id r, rr_topic r, rr_partition r,
     rr_from_inclusive r, rr_to_inclusive r)"

definition receipt_range_check :: "receipt_range_row \<Rightarrow> bool" where
  "receipt_range_check r \<longleftrightarrow>
     0 \<le> rr_partition r
     \<and> 0 \<le> rr_from_inclusive r \<and> rr_from_inclusive r \<le> rr_to_inclusive r
     \<and> 0 \<le> rr_expected_count r \<and> 0 \<le> rr_raw_count r \<and> rr_raw_count r \<le> rr_expected_count r
     \<and> (rr_status r \<noteq> Contiguous
        \<or> rr_verified_at r \<noteq> None \<and> rr_expected_hash r = rr_actual_hash r)"

record checkpoint_row =
  ck_pipeline_version_id :: string
  ck_topic :: string
  ck_partition :: int
  ck_last_observed :: int
  ck_last_contiguous :: int
  ck_last_applied :: int
  ck_lease_owner :: "string option"
  ck_lease_generation :: int
  ck_lease_expires_at :: "timestamp option"
  ck_updated_at :: timestamp

definition checkpoint_key :: "checkpoint_row \<Rightarrow> string \<times> string \<times> int" where
  "checkpoint_key c = (ck_pipeline_version_id c, ck_topic c, ck_partition c)"

definition checkpoint_check :: "checkpoint_row \<Rightarrow> bool" where
  "checkpoint_check c \<longleftrightarrow>
     0 \<le> ck_partition c
     \<and> -1 \<le> ck_last_observed c \<and> -1 \<le> ck_last_contiguous c \<and> -1 \<le> ck_last_applied c
     \<and> ck_last_applied c \<le> ck_last_contiguous c \<and> ck_last_contiguous c \<le> ck_last_observed c
     \<and> 0 \<le> ck_lease_generation c"

datatype exception_status =
  ExQuarantined | ExReplayPending | ExResolved | ExAuditedSkip | ExSourceExpired

record exception_row =
  ex_pipeline_version_id :: string
  ex_topic :: string
  ex_partition :: int
  ex_offset :: int
  ex_payload_hash :: string
  ex_locator :: "string option"
  ex_error_code :: string
  ex_status :: exception_status
  ex_audit_actor :: "string option"
  ex_audit_reason :: "string option"
  ex_audited_at :: "timestamp option"
  ex_updated_at :: timestamp

definition exception_key :: "exception_row \<Rightarrow> string \<times> string \<times> int \<times> int" where
  "exception_key e = (ex_pipeline_version_id e, ex_topic e, ex_partition e, ex_offset e)"

text \<open>SQL \<open>length(trim(v)) > 0\<close>: \<open>trim\<close> removes spaces only.\<close>

definition sql_nonblank :: "string \<Rightarrow> bool" where
  "sql_nonblank s \<longleftrightarrow> (\<exists>c \<in> set s. c \<noteq> CHR '' '')"

definition exception_check :: "exception_row \<Rightarrow> bool" where
  "exception_check e \<longleftrightarrow>
     0 \<le> ex_partition e \<and> 0 \<le> ex_offset e
     \<and> (ex_status e \<noteq> ExAuditedSkip
        \<or> ex_locator e \<noteq> None
          \<and> (case ex_audit_actor e of None \<Rightarrow> False | Some a \<Rightarrow> sql_nonblank a)
          \<and> (case ex_audit_reason e of None \<Rightarrow> False | Some a \<Rightarrow> sql_nonblank a)
          \<and> ex_audited_at e \<noteq> None)"

subsection \<open>Materializations\<close>

datatype mat_status =
  MReserved | MRunning | MMaterialized | MPublished | MFailed | MReconciling

record materialization_row =
  m_id :: string
  m_pipeline_version_id :: string
  m_source_boundary :: json
  m_source_fingerprint :: string
  m_dimension_version_ids :: json
  m_clickhouse_query_id :: string
  m_lease_generation :: int
  m_target_row_count :: "int option"
  m_target_checksum :: "string option"
  m_status :: mat_status
  m_started_at :: timestamp
  m_committed_at :: "timestamp option"
  m_published_revision :: "int option"
  m_retry_count :: int
  m_last_error_code :: "string option"
  m_updated_at :: timestamp

definition materialization_key :: "materialization_row \<Rightarrow> string \<times> string" where
  "materialization_key m = (m_pipeline_version_id m, m_source_fingerprint m)"

definition materialization_unique :: "materialization_row list \<Rightarrow> materialization_row \<Rightarrow> bool" where
  "materialization_unique rows m \<longleftrightarrow>
     (\<forall>r \<in> set rows. m_id r \<noteq> m_id m \<and> m_clickhouse_query_id r \<noteq> m_clickhouse_query_id m)"

definition materialization_check :: "materialization_row \<Rightarrow> bool" where
  "materialization_check m \<longleftrightarrow>
     (case m_target_row_count m of None \<Rightarrow> True | Some n \<Rightarrow> 0 \<le> n)
     \<and> 0 \<le> m_lease_generation m \<and> 0 \<le> m_retry_count m
     \<and> (m_status m \<notin> {MMaterialized, MPublished}
        \<or> m_committed_at m \<noteq> None \<and> m_target_row_count m \<noteq> None \<and> m_target_checksum m \<noteq> None)
     \<and> (m_status m \<noteq> MPublished \<or> m_published_revision m \<noteq> None)"

subsection \<open>Dimensions\<close>

datatype dim_status = DDraft | DPublishing | DActive | DRetired | DFailed

record dimension_version_row =
  dv_id :: string
  dv_scope_id :: string
  dv_dataset_id :: string
  dv_version :: int
  dv_semantics :: string
  dv_physical_database :: "string option"
  dv_physical_table :: "string option"
  dv_status :: dim_status
  dv_row_count :: "int option"
  dv_checksum :: "string option"
  dv_validity_checked_at :: "timestamp option"
  dv_published_at :: "timestamp option"

definition dimension_version_check :: "dimension_version_row \<Rightarrow> bool" where
  "dimension_version_check d \<longleftrightarrow>
     dv_scope_id d = ''deployment'' \<and> 0 < dv_version d
     \<and> dv_semantics d \<in> {''current'', ''temporal''}
     \<and> (case dv_row_count d of None \<Rightarrow> True | Some n \<Rightarrow> 0 \<le> n)
     \<and> (dv_status d \<noteq> DActive
        \<or> dv_physical_database d \<noteq> None \<and> dv_physical_table d \<noteq> None
          \<and> dv_published_at d \<noteq> None \<and> dv_validity_checked_at d \<noteq> None)"

datatype unmatched_status = UPending | URetrying | UResolved | UQuarantined | USourceExpired

record unmatched_row =
  um_pipeline_version_id :: string
  um_serving_key :: string
  um_dimension_dataset_id :: string
  um_source_position :: json
  um_position_hash :: string
  um_missing_policy :: string
  um_missing_keys :: json
  um_raw_payload_hash :: string
  um_dimension_version_ids :: json
  um_correction_generation :: int
  um_first_seen_at :: timestamp
  um_next_retry_at :: timestamp
  um_retry_count :: int
  um_status :: unmatched_status
  um_resolved_materialization_id :: "string option"
  um_updated_at :: timestamp

definition unmatched_key :: "unmatched_row \<Rightarrow> string \<times> string \<times> string" where
  "unmatched_key u = (um_pipeline_version_id u, um_position_hash u, um_dimension_dataset_id u)"

definition unmatched_check :: "unmatched_row \<Rightarrow> bool" where
  "unmatched_check u \<longleftrightarrow>
     um_missing_policy u \<in> {''hold_and_repair'', ''publish_null_then_correct''}
     \<and> 0 \<le> um_correction_generation u \<and> 0 \<le> um_retry_count u"

subsection \<open>Publication: freshness, revisions, events, catalog\<close>

record freshness_row =
  fr_dataset_id :: string
  fr_latest_revision :: int
  fr_latest_run_id :: "string option"
  fr_next_check_after_ms :: int
  fr_binding_epoch :: int
  fr_active_engine :: "string option"
  fr_active_version_id :: "string option"
  fr_active_archive_snapshot_id :: "string option"
  fr_latest_source_boundary :: "json option"
  fr_latest_checksum :: "string option"
  fr_latest_mutation_type :: "string option"
  fr_updated_at :: timestamp

definition mutation_types :: "string list" where
  "mutation_types = [''append'', ''upsert'', ''replace'', ''retract'']"

definition freshness_check :: "freshness_row \<Rightarrow> bool" where
  "freshness_check f \<longleftrightarrow> 0 \<le> fr_binding_epoch f
     \<and> (case fr_latest_mutation_type f of None \<Rightarrow> True | Some t \<Rightarrow> t \<in> set mutation_types)"

record commit_row =
  co_dataset_id :: string
  co_revision :: int
  co_run_id :: string
  co_storage_location :: string
  co_storage_format :: string
  co_materialization_mode :: string
  co_commit_kind :: string
  co_row_count :: int
  co_source_ranges :: json
  co_source_fingerprint :: "string option"
  co_materialization_id :: "string option"
  co_source_boundary :: "json option"
  co_serving_engine :: "string option"
  co_serving_version_id :: "string option"
  co_binding_epoch :: int
  co_dimension_version_ids :: json
  co_mutation_type :: string
  co_committed_at :: timestamp

definition commit_key :: "commit_row \<Rightarrow> string \<times> int" where
  "commit_key c = (co_dataset_id c, co_revision c)"

definition commit_check :: "commit_row \<Rightarrow> bool" where
  "commit_check c \<longleftrightarrow> 0 \<le> co_binding_epoch c \<and> co_mutation_type c \<in> set mutation_types"

definition commit_unique :: "commit_row list \<Rightarrow> commit_row \<Rightarrow> bool" where
  "commit_unique rows c \<longleftrightarrow>
     (\<forall>r \<in> set rows.
        commit_key r \<noteq> commit_key c
        \<and> co_run_id r \<noteq> co_run_id c
        \<and> \<not> (co_source_fingerprint c \<noteq> None \<and> co_dataset_id r = co_dataset_id c
             \<and> co_commit_kind r = co_commit_kind c
             \<and> co_source_fingerprint r = co_source_fingerprint c)
        \<and> \<not> (co_materialization_id c \<noteq> None \<and> co_materialization_id r = co_materialization_id c))"

record event_row =
  ev_id :: int
  ev_scope_id :: string
  ev_event_type :: string
  ev_schema_version :: int
  ev_resource_type :: string
  ev_resource_id :: string
  ev_aggregate_revision :: int
  ev_correlation_id :: string
  ev_idempotency_key :: string
  ev_invalidations :: "string list"
  ev_payload :: dict
  ev_occurred_at :: timestamp
  ev_expires_at :: timestamp

definition event_check :: "event_row \<Rightarrow> bool" where
  "event_check e \<longleftrightarrow> ev_scope_id e = ''deployment'' \<and> ev_schema_version e \<in> {1, 2}"

text \<open>\<^verbatim>\<open>models/catalog.py\<close>, the columns \<open>dataset_model_to_payload\<close> reads.\<close>

record catalog_row =
  cd_id :: string
  cd_payload :: "dict option"
  cd_name :: "string option"
  cd_description :: "string option"
  cd_owner :: "string option"
  cd_layer :: "string option"
  cd_status :: "string option"
  cd_freshness :: "string option"
  cd_source :: "string option"
  cd_producer_job_id :: "string option"
  cd_producer_job_kind :: "string option"
  cd_execution_mode :: "string option"
  cd_source_kind :: "string option"
  cd_relation_mode :: "string option"
  cd_runtime_status :: "string option"
  cd_source_manifest :: "json option"
  cd_rows :: "string option"
  cd_size :: "string option"
  cd_quality :: "string option"
  cd_last_updated :: "string option"
  cd_next_refresh :: "string option"
  cd_rag :: "bool option"
  cd_tags :: "json option"
  cd_schema_json :: "json option"
  cd_sample_rows :: "json option"
  cd_upstream :: "json option"
  cd_downstream :: "json option"
  cd_lineage_graph :: "json option"

subsection \<open>Recovery\<close>

datatype parity_status = PMatched | PMismatch

record parity_row =
  pa_id :: string
  pa_dataset_id :: string
  pa_pipeline_version_id :: string
  pa_hot_binding_version_id :: string
  pa_archive_binding_version_id :: string
  pa_source_boundary :: json
  pa_dimension_version_ids :: json
  pa_hot_evidence :: dict
  pa_archive_evidence :: dict
  pa_status :: parity_status
  pa_mismatch_fields :: "string list"

datatype op_status = OPlanned | ORunning | OReady | OCompleted | OFailed

record operation_row =
  op_id :: string
  op_idempotency_key :: string
  op_dataset_id :: string
  op_kind :: string
  op_status :: op_status
  op_parity_check_id :: string
  op_expected_binding_epoch :: int
  op_previous_binding_version_id :: "string option"
  op_target_binding_version_id :: string
  op_target_engine :: string
  op_pipeline_version_id :: string
  op_target_binding :: json
  op_source_boundary :: json
  op_dimension_version_ids :: json
  op_tail_start_offsets :: json
  op_gate_evidence :: json
  op_attempt_count :: int
  op_result_binding_epoch :: "int option"
  op_result_revision :: "int option"
  op_result_event_cursor :: "int option"
  op_requested_by :: string
  op_reason :: string
  op_correlation_id :: string
  op_last_error_code :: "string option"
  op_updated_at :: timestamp
  op_completed_at :: "timestamp option"

definition operation_check :: "operation_row \<Rightarrow> bool" where
  "operation_check r \<longleftrightarrow>
     op_kind r \<in> {''rebuild'', ''cutover'', ''rollback''}
     \<and> op_target_engine r \<in> {''clickhouse'', ''trino''}
     \<and> 0 \<le> op_expected_binding_epoch r \<and> 0 \<le> op_attempt_count r
     \<and> (case op_result_binding_epoch r of None \<Rightarrow> True | Some n \<Rightarrow> 0 \<le> n)
     \<and> (case op_result_revision r of None \<Rightarrow> True | Some n \<Rightarrow> 0 \<le> n)"

definition operation_unique :: "operation_row list \<Rightarrow> operation_row \<Rightarrow> bool" where
  "operation_unique rows c \<longleftrightarrow>
     (\<forall>r \<in> set rows. op_id r \<noteq> op_id c \<and> op_idempotency_key r \<noteq> op_idempotency_key c)"

record assignment_row =
  as_scope_id :: string
  as_resource_type :: string
  as_resource_id :: string
  as_desired_engine :: string
  as_pipeline_version_id :: "string option"
  as_binding_epoch :: int
  as_status :: string
  as_reason :: string
  as_assigned_by :: string
  as_updated_at :: timestamp

definition assignment_key :: "assignment_row \<Rightarrow> string \<times> string \<times> string" where
  "assignment_key a = (as_scope_id a, as_resource_type a, as_resource_id a)"

definition assignment_check :: "assignment_row \<Rightarrow> bool" where
  "assignment_check a \<longleftrightarrow>
     as_scope_id a = ''deployment'' \<and> as_resource_type a \<in> {''dataset'', ''dashboard''}
     \<and> as_desired_engine a \<in> {''clickhouse'', ''trino''} \<and> 0 \<le> as_binding_epoch a
     \<and> as_status a \<in> {''pending'', ''active'', ''disabled''}
     \<and> (as_status a \<noteq> ''active'' \<or> as_desired_engine a \<noteq> ''clickhouse''
        \<or> as_pipeline_version_id a \<noteq> None)"

subsection \<open>The database\<close>

record db =
  db_receipts :: "receipt_range_row list"
  db_checkpoints :: "checkpoint_row list"
  db_exceptions :: "exception_row list"
  db_materializations :: "materialization_row list"
  db_dimensions :: "dimension_version_row list"
  db_unmatched :: "unmatched_row list"
  db_freshness :: "freshness_row list"
  db_commits :: "commit_row list"
  db_events :: "event_row list"
  db_next_event_id :: int
  db_catalog :: "catalog_row list"
  db_parity :: "parity_row list"
  db_operations :: "operation_row list"
  db_assignments :: "assignment_row list"

definition empty_db :: db where
  "empty_db = \<lparr>db_receipts = [], db_checkpoints = [], db_exceptions = [], db_materializations = [],
     db_dimensions = [], db_unmatched = [], db_freshness = [], db_commits = [], db_events = [],
     db_next_event_id = 1, db_catalog = [], db_parity = [], db_operations = [], db_assignments = []\<rparr>"

text \<open>A statement on one table of the session, given its reader and writer.\<close>

definition table_op ::
  "(db \<Rightarrow> 'r list) \<Rightarrow> ('r list \<Rightarrow> db \<Rightarrow> db) \<Rightarrow> ('r list \<Rightarrow> ('r list \<times> 'a) res) \<Rightarrow> (db, 'a) op" where
  "table_op get put stmt = (\<lambda>s.
     case stmt (get s) of Inl e \<Rightarrow> (Inl e, s) | Inr (rows, a) \<Rightarrow> (Inr a, put rows s))"

lemma table_op_Inr_iff [op_elims]:
  "table_op get put stmt s = (Inr a, t) \<longleftrightarrow> (\<exists>rows. stmt (get s) = Inr (rows, a) \<and> t = put rows s)"
  by (auto simp: table_op_def split: sum.splits)

subsection \<open>Integrity of a table\<close>

definition table_ok :: "('r \<Rightarrow> 'k) \<Rightarrow> ('r \<Rightarrow> bool) \<Rightarrow> 'r list \<Rightarrow> bool" where
  "table_ok key ck rows \<longleftrightarrow> keyed key rows \<and> (\<forall>r \<in> set rows. ck r)"

lemma table_ok_Nil [simp]: "table_ok key ck []"
  by (simp add: table_ok_def)

lemma table_ok_update:
  assumes "sql_update ck P f rows = Inr (rows', n)" and "table_ok key ck rows"
    and "\<And>r. P r \<Longrightarrow> key (f r) = key r"
  shows "table_ok key ck rows'"
  using assms sql_update_checked [OF assms(1)]
  by (auto simp: table_ok_def sql_update_Inr_iff intro!: keyed_update_where)

lemma table_ok_upsert:
  assumes "sql_upsert key ck uniq new g f rows = Inr (rows', n)" and "table_ok key ck rows"
    and "\<And>r. key (f r) = key r"
  shows "table_ok key ck rows'"
  using assms sql_upsert_checked [OF assms(1)] keyed_upsert [OF _ assms(3) assms(1)]
  by (auto simp: table_ok_def)

lemma table_ok_insert:
  assumes "sql_insert ck uniq new rows = Inr rows'" and "table_ok key ck rows"
    and "\<And>r. uniq rows new \<Longrightarrow> r \<in> set rows \<Longrightarrow> key r \<noteq> key new"
  shows "table_ok key ck rows'"
  using assms by (force simp: table_ok_def sql_insert_Inr_iff keyed_snoc)

subsection \<open>Conditional updates of one row\<close>

text \<open>
  Most statements of the repositories are \<open>UPDATE ... WHERE key = k AND guard\<close>: the row with
  one primary key moves if a status, a lease or an expected value still holds. The contract is
  that the guard names that row and the change keeps its key. A row count of 1 then says that the
  guard held on the row found under \<open>k\<close>, and a row count of 0 that nothing changed.
\<close>

locale row_update =
  fixes key :: "'r \<Rightarrow> 'k" and ck :: "'r \<Rightarrow> bool"
    and guard :: "'r \<Rightarrow> bool" and change :: "'r \<Rightarrow> 'r" and k :: 'k
  assumes guard_key: "guard r \<Longrightarrow> key r = k"
    and change_key: "guard r \<Longrightarrow> key (change r) = key r"
begin

lemma keeps:
  "sql_update ck guard change rows = Inr (rows', n) \<Longrightarrow> table_ok key ck rows \<Longrightarrow> table_ok key ck rows'"
  by (erule table_ok_update) (simp_all add: change_key)

lemma keeps_keyed: "sql_update ck guard change rows = Inr (rows', n) \<Longrightarrow> keyed key rows \<Longrightarrow> keyed key rows'"
  using change_key by (auto simp: sql_update_Inr_iff intro!: keyed_update_where)

lemma lookup:
  assumes "sql_update ck guard change rows = Inr (rows', n)"
  shows "lookup_key key q rows' = map_option (\<lambda>r. if guard r then change r else r) (lookup_key key q rows)"
  using assms change_key by (simp add: sql_update_Inr_iff lookup_key_update)

lemma frame:
  assumes "sql_update ck guard change rows = Inr (rows', n)" and "q \<noteq> k"
  shows "lookup_key key q rows' = lookup_key key q rows"
  using lookup [OF assms(1), of q] assms(2) guard_key
  by (cases "lookup_key key q rows") (auto dest: lookup_key_Some)

lemma count:
  assumes "sql_update ck guard change rows = Inr (rows', n)" and "keyed key rows"
  shows "n = (if \<exists>r. lookup_key key k rows = Some r \<and> guard r then 1 else 0)"
proof -
  have "lookup_key key k rows = Some r" if "r \<in> set rows" "guard r" for r
    using lookup_key_keyed [OF assms(2) that(1)] guard_key [OF that(2)] by simp
  then have "(\<exists>r \<in> set rows. guard r) \<longleftrightarrow> (\<exists>r. lookup_key key k rows = Some r \<and> guard r)"
    by (auto dest: lookup_key_Some)
  then show ?thesis using keyed_rowcount [OF assms(2), of guard k] guard_key assms(1)
    by (simp add: sql_update_Inr_iff)
qed

lemma hit:
  assumes "sql_update ck guard change rows = Inr (rows', 1)" and "keyed key rows"
  obtains r where "lookup_key key k rows = Some r" and "guard r"
    and "lookup_key key k rows' = Some (change r)" and "ck (change r)"
proof -
  obtain r where r: "lookup_key key k rows = Some r" "guard r"
    using count [OF assms] by (metis zero_neq_one)
  then have "ck (change r)" using assms(1) by (auto simp: sql_update_Inr_iff dest: lookup_key_Some)
  with r that lookup [OF assms(1), of k] show thesis by simp
qed

lemma succeeds:
  assumes "keyed key rows" and "lookup_key key k rows = Some r" and "guard r" and "ck (change r)"
  shows "\<exists>rows'. sql_update ck guard change rows = Inr (rows', 1)"
proof -
  have only: "x = r" if "x \<in> set rows" "guard x" for x
    using keyed_same_row [OF assms(1) that(1), of r] lookup_key_Some [OF assms(2)] guard_key [OF that(2)] by simp
  then have "sql_update ck guard change rows = Inr (update_where guard change rows, rowcount guard rows)"
    using assms(4) by (auto simp: sql_update_Inr_iff)
  with count [OF this assms(1)] assms(2,3) show ?thesis by auto
qed

lemma miss: "sql_update ck guard change rows = Inr (rows', 0) \<Longrightarrow> rows' = rows"
  by (simp add: sql_update_Inr_iff update_where_no_rows)

text \<open>A change that ends the guard is made once: a second run of the statement finds no row.\<close>

lemma second_run:
  assumes "sql_update ck guard change rows = Inr (rows', n)" and "\<And>r. guard r \<Longrightarrow> \<not> guard (change r)"
  shows "sql_update ck guard change rows' = Inr (rows', 0)"
proof -
  have "\<not> guard r" if r: "r \<in> set rows'" for r
  proof -
    obtain x where "r = (if guard x then change x else x)"
      using r assms(1) by (auto simp: sql_update_Inr_iff in_update_where)
    then show ?thesis using assms(2) [of x] by (cases "guard x") simp_all
  qed
  then show ?thesis
    by (auto simp: sql_update_Inr_iff update_where_id rowcount_def filter_empty_conv)
qed

end

subsection \<open>Upserts of one row\<close>

text \<open>
  \<open>INSERT ... ON CONFLICT (key) DO UPDATE ... WHERE g\<close>: after it the row is there, either the new
  one, or the changed old one, or the old one when the condition refused the change.
\<close>

locale row_upsert =
  fixes key :: "'r \<Rightarrow> 'k" and ck :: "'r \<Rightarrow> bool" and uniq :: "'r list \<Rightarrow> 'r \<Rightarrow> bool"
    and new :: 'r and g :: "'r \<Rightarrow> bool" and change :: "'r \<Rightarrow> 'r"
  assumes change_key: "key (change r) = key r"
begin

lemma keeps:
  "sql_upsert key ck uniq new g change rows = Inr (rows', n) \<Longrightarrow> table_ok key ck rows \<Longrightarrow> table_ok key ck rows'"
  by (erule table_ok_upsert) (simp_all add: change_key)

lemma lookup:
  assumes "sql_upsert key ck uniq new g change rows = Inr (rows', n)"
  shows "lookup_key key q rows' =
    (if q = key new
     then Some (case lookup_key key q rows of None \<Rightarrow> new | Some old \<Rightarrow> if g old then change old else old)
     else lookup_key key q rows)"
proof (cases "find (\<lambda>r. key r = key new) rows")
  case None
  then have "rows' = rows @ [new]" and "lookup_key key (key new) rows = None"
    using assms by (auto simp: sql_upsert_def lookup_key_def split: if_splits)
  then show ?thesis by (auto simp: lookup_key_snoc split: option.splits)
next
  case (Some old)
  then have rows': "rows' = update_where (\<lambda>r. key r = key new \<and> g r) change rows"
    using assms by (auto simp: sql_upsert_def sql_update_Inr_iff split: if_splits)
  have old: "lookup_key key (key new) rows = Some old" "key old = key new"
    using Some find_Some_in [OF Some] by (simp_all add: lookup_key_def)
  have look: "lookup_key key q rows' =
      map_option (\<lambda>r. if key r = key new \<and> g r then change r else r) (lookup_key key q rows)"
    unfolding rows' by (rule lookup_key_update) (simp add: change_key)
  show ?thesis
  proof (cases "q = key new")
    case True
    with look old show ?thesis by simp
  next
    case False
    then show ?thesis using look
      by (cases "lookup_key key q rows") (auto dest: lookup_key_Some)
  qed
qed

text \<open>Another unique column that the insert checks and the change keeps stays unique.\<close>

lemma keeps_other:
  assumes "sql_upsert key ck uniq new g change rows = Inr (rows', n)" and "keyed other rows"
    and "\<And>r. other (change r) = other r" and "uniq rows new \<Longrightarrow> other new \<notin> other ` set rows"
  shows "keyed other rows'"
proof (cases "find (\<lambda>r. key r = key new) rows")
  case None
  then have "rows' = rows @ [new]" and "uniq rows new"
    using assms(1) by (auto simp: sql_upsert_def split: if_splits)
  with assms(2,4) show ?thesis by (simp add: keyed_snoc)
next
  case (Some old)
  then have "rows' = update_where (\<lambda>r. key r = key new \<and> g r) change rows"
    using assms(1) by (auto simp: sql_upsert_def sql_update_Inr_iff split: if_splits)
  with assms(2,3) show ?thesis by (simp add: keyed_update_where)
qed

lemma succeeds:
  assumes "ck new" and "uniq rows new" and "\<And>r. r \<in> set rows \<Longrightarrow> key r = key new \<Longrightarrow> g r \<Longrightarrow> ck (change r)"
  shows "\<exists>rows' n. sql_upsert key ck uniq new g change rows = Inr (rows', n)"
  using assms by (auto simp: sql_upsert_def sql_update_def split: option.splits)

end

end
