(* ===== verification/Receipt_Repository.thy ===== *)
theory Receipt_Repository
  imports Store
begin

section \<open>The receipt ledger\<close>

text \<open>
  \<^verbatim>\<open>realtime/repositories/receipt_repository.py\<close>: recording an audit and moving the receipt
  watermark of a partition by compare-and-swap, quarantining a record that cannot be ingested and
  approving that it is skipped. The caller owns the transaction; \<open>now\<close> is \<open>CURRENT_TIMESTAMP\<close>.
\<close>

abbreviation on_receipts ::
  "(receipt_range_row list \<Rightarrow> (receipt_range_row list \<times> nat) res) \<Rightarrow> (db, nat) op" where
  "on_receipts \<equiv> table_op db_receipts (\<lambda>rows s. s\<lparr>db_receipts := rows\<rparr>)"

abbreviation on_checkpoints ::
  "(checkpoint_row list \<Rightarrow> (checkpoint_row list \<times> nat) res) \<Rightarrow> (db, nat) op" where
  "on_checkpoints \<equiv> table_op db_checkpoints (\<lambda>rows s. s\<lparr>db_checkpoints := rows\<rparr>)"

abbreviation on_exceptions ::
  "(exception_row list \<Rightarrow> (exception_row list \<times> nat) res) \<Rightarrow> (db, nat) op" where
  "on_exceptions \<equiv> table_op db_exceptions (\<lambda>rows s. s\<lparr>db_exceptions := rows\<rparr>)"

definition audit_row :: "string \<Rightarrow> receipt_audit \<Rightarrow> timestamp \<Rightarrow> receipt_range_row" where
  "audit_row pipeline_version_id audit now =
     \<lparr>rr_pipeline_version_id = pipeline_version_id, rr_topic = ra_topic audit,
      rr_partition = ra_partition audit, rr_from_inclusive = ra_from_inclusive audit,
      rr_to_inclusive = ra_to_inclusive audit,
      rr_expected_count = int (length (ra_expected_offsets audit)),
      rr_raw_count = int (length (ra_raw_offsets audit)),
      rr_expected_hash = ra_expected_hash audit, rr_actual_hash = ra_actual_hash audit,
      rr_status = ra_status audit,
      rr_verified_at = (if ra_status audit = Contiguous then Some now else None),
      rr_updated_at = now\<rparr>"

definition refresh_receipt :: "receipt_range_row \<Rightarrow> timestamp \<Rightarrow> receipt_range_row \<Rightarrow> receipt_range_row" where
  "refresh_receipt new now r =
     r\<lparr>rr_expected_count := rr_expected_count new, rr_raw_count := rr_raw_count new,
       rr_expected_hash := rr_expected_hash new, rr_actual_hash := rr_actual_hash new,
       rr_status := rr_status new, rr_verified_at := rr_verified_at new, rr_updated_at := now\<rparr>"

definition observed_checkpoint :: "string \<Rightarrow> receipt_audit \<Rightarrow> timestamp \<Rightarrow> checkpoint_row" where
  "observed_checkpoint pipeline_version_id audit now =
     \<lparr>ck_pipeline_version_id = pipeline_version_id, ck_topic = ra_topic audit,
      ck_partition = ra_partition audit, ck_last_observed = ra_to_inclusive audit,
      ck_last_contiguous = -1, ck_last_applied = -1, ck_lease_owner = None,
      ck_lease_generation = 0, ck_lease_expires_at = None, ck_updated_at = now\<rparr>"

definition raise_observed :: "int \<Rightarrow> timestamp \<Rightarrow> checkpoint_row \<Rightarrow> checkpoint_row" where
  "raise_observed observed now c =
     c\<lparr>ck_last_observed := max (ck_last_observed c) observed, ck_updated_at := now\<rparr>"

definition advance_guard :: "string \<Rightarrow> receipt_audit \<Rightarrow> int \<Rightarrow> int \<Rightarrow> checkpoint_row \<Rightarrow> bool" where
  "advance_guard pipeline_version_id audit advance expected_previous c \<longleftrightarrow>
     checkpoint_key c = (pipeline_version_id, ra_topic audit, ra_partition audit)
     \<and> ck_last_contiguous c = expected_previous \<and> ck_last_applied c \<le> advance"

definition set_contiguous :: "int \<Rightarrow> timestamp \<Rightarrow> checkpoint_row \<Rightarrow> checkpoint_row" where
  "set_contiguous advance now c = c\<lparr>ck_last_contiguous := advance, ck_updated_at := now\<rparr>"

definition save_audit :: "string \<Rightarrow> receipt_audit \<Rightarrow> int \<Rightarrow> timestamp \<Rightarrow> (db, bool) op" where
  "save_audit pipeline_version_id audit expected_previous now =
     (let row = audit_row pipeline_version_id audit now;
          ckpt = observed_checkpoint pipeline_version_id audit now
      in bind_op (on_receipts (sql_upsert receipt_range_key receipt_range_check (\<lambda>_ _. True) row
             (\<lambda>_. True) (refresh_receipt row now))) (\<lambda>_.
         bind_op (on_checkpoints (sql_upsert checkpoint_key checkpoint_check (\<lambda>_ _. True) ckpt
             (\<lambda>_. True) (raise_observed (ra_to_inclusive audit) now))) (\<lambda>_.
         case ra_advance_to audit of
           None \<Rightarrow> return_op False
         | Some advance \<Rightarrow>
             if ra_status audit \<noteq> Contiguous then return_op False
             else bind_op (on_checkpoints (sql_update checkpoint_check
                    (advance_guard pipeline_version_id audit advance expected_previous)
                    (set_contiguous advance now))) (\<lambda>n. return_op (n = 1)))))"

definition quarantine ::
  "string \<Rightarrow> source_position \<Rightarrow> string \<Rightarrow> string \<Rightarrow> string \<Rightarrow> timestamp \<Rightarrow> (db, unit) op" where
  "quarantine pipeline_version_id position hash error_code locator now =
     (let new = \<lparr>ex_pipeline_version_id = pipeline_version_id, ex_topic = sp_topic position,
            ex_partition = sp_partition position, ex_offset = sp_offset position,
            ex_payload_hash = hash, ex_locator = Some locator, ex_error_code = error_code,
            ex_status = ExQuarantined, ex_audit_actor = None, ex_audit_reason = None,
            ex_audited_at = None, ex_updated_at = now\<rparr>
      in bind_op (on_exceptions (sql_upsert exception_key exception_check (\<lambda>_ _. True) new
            (\<lambda>e. ex_status e \<in> {ExQuarantined, ExReplayPending})
            (\<lambda>e. e\<lparr>ex_payload_hash := hash, ex_locator := Some locator,
                    ex_error_code := error_code, ex_updated_at := now\<rparr>)))
         (\<lambda>_. return_op ()))"

definition skip_guard :: "string \<Rightarrow> source_position \<Rightarrow> exception_row \<Rightarrow> bool" where
  "skip_guard pipeline_version_id position e \<longleftrightarrow>
     exception_key e = (pipeline_version_id, sp_topic position, sp_partition position, sp_offset position)
     \<and> ex_status e \<in> {ExQuarantined, ExReplayPending} \<and> ex_locator e \<noteq> None"

definition set_skipped :: "string \<Rightarrow> string \<Rightarrow> timestamp \<Rightarrow> exception_row \<Rightarrow> exception_row" where
  "set_skipped actor reason now e =
     e\<lparr>ex_status := ExAuditedSkip, ex_audit_actor := Some (py_strip actor),
       ex_audit_reason := Some (py_strip reason), ex_audited_at := Some now, ex_updated_at := now\<rparr>"

definition approve_skip ::
  "string \<Rightarrow> source_position \<Rightarrow> string \<Rightarrow> string \<Rightarrow> timestamp \<Rightarrow> (db, bool) op" where
  "approve_skip pipeline_version_id position actor reason now =
     (if blank actor \<or> py_len (py_strip reason) < 10
      then raise_op (ValueError ''audited skip requires actor and a meaningful reason'')
      else bind_op (on_exceptions (sql_update exception_check (skip_guard pipeline_version_id position)
             (set_skipped actor reason now))) (\<lambda>n. return_op (n = 1)))"

subsection \<open>The statements keep their tables' keys\<close>

lemma refresh_receipt_key [simp]: "receipt_range_key (refresh_receipt n t r) = receipt_range_key r"
  by (simp add: refresh_receipt_def receipt_range_key_def)

lemma raise_observed_key [simp]: "checkpoint_key (raise_observed k t c) = checkpoint_key c"
  by (simp add: raise_observed_def checkpoint_key_def)

lemma set_contiguous_key [simp]: "checkpoint_key (set_contiguous k t c) = checkpoint_key c"
  by (simp add: set_contiguous_def checkpoint_key_def)

lemma set_skipped_key [simp]: "exception_key (set_skipped a r t e) = exception_key e"
  by (simp add: set_skipped_def exception_key_def)

lemma audit_row_key [simp]:
  "receipt_range_key (audit_row v a t) =
     (v, ra_topic a, ra_partition a, ra_from_inclusive a, ra_to_inclusive a)"
  by (simp add: audit_row_def receipt_range_key_def)

lemma observed_checkpoint_key [simp]:
  "checkpoint_key (observed_checkpoint v a t) = (v, ra_topic a, ra_partition a)"
  by (simp add: observed_checkpoint_def checkpoint_key_def)

text \<open>The statements meet the contracts of \<open>row_update\<close> and \<open>row_upsert\<close>.\<close>

interpretation receipt_upsert: row_upsert receipt_range_key receipt_range_check "\<lambda>_ _. True"
    "audit_row v a now" "\<lambda>_. True" "refresh_receipt (audit_row v a now) now" for v a now
  by unfold_locales simp

interpretation observe: row_upsert checkpoint_key checkpoint_check "\<lambda>_ _. True"
    "observed_checkpoint v a now" "\<lambda>_. True" "raise_observed (ra_to_inclusive a) now" for v a now
  by unfold_locales simp

interpretation advance: row_update checkpoint_key checkpoint_check "advance_guard v a k prev"
    "set_contiguous k now" "(v, ra_topic a, ra_partition a)" for v a k prev now
  by unfold_locales (simp_all add: advance_guard_def)

interpretation skip: row_update exception_key exception_check "skip_guard v p" "set_skipped actor reason now"
    "(v, sp_topic p, sp_partition p, sp_offset p)" for v p actor reason now
  by unfold_locales (simp_all add: skip_guard_def)

text \<open>What the three statements of \<open>save_audit\<close> leave behind.\<close>

lemma save_audit_cases:
  assumes "save_audit v a prev now s = (Inr b, t)"
  obtains rs n cs m cs' where
    "sql_upsert receipt_range_key receipt_range_check (\<lambda>_ _. True) (audit_row v a now) (\<lambda>_. True)
       (refresh_receipt (audit_row v a now) now) (db_receipts s) = Inr (rs, n)"
    "sql_upsert checkpoint_key checkpoint_check (\<lambda>_ _. True) (observed_checkpoint v a now) (\<lambda>_. True)
       (raise_observed (ra_to_inclusive a) now) (db_checkpoints s) = Inr (cs, m)"
    "t = s\<lparr>db_receipts := rs, db_checkpoints := cs'\<rparr>"
    "b = False \<and> cs' = cs \<and> (ra_status a \<noteq> Contiguous \<or> ra_advance_to a = None)
     \<or> (\<exists>k n. ra_status a = Contiguous \<and> ra_advance_to a = Some k
          \<and> sql_update checkpoint_check (advance_guard v a k prev) (set_contiguous k now) cs = Inr (cs', n)
          \<and> b = (n = 1))"
  using assms unfolding save_audit_def Let_def
  by (auto simp: op_elims split: option.splits if_splits)

definition receipts_ok :: "db \<Rightarrow> bool" where
  "receipts_ok s \<longleftrightarrow> table_ok receipt_range_key receipt_range_check (db_receipts s)
     \<and> table_ok checkpoint_key checkpoint_check (db_checkpoints s)
     \<and> table_ok exception_key exception_check (db_exceptions s)"

lemma save_audit_keeps_ok:
  assumes "save_audit v a prev now s = (Inr b, t)" and "receipts_ok s"
  shows "receipts_ok t"
  using assms(1)
proof (rule save_audit_cases)
  fix rs n cs m cs'
  assume r: "sql_upsert receipt_range_key receipt_range_check (\<lambda>_ _. True) (audit_row v a now) (\<lambda>_. True)
       (refresh_receipt (audit_row v a now) now) (db_receipts s) = Inr (rs, n)"
    and c: "sql_upsert checkpoint_key checkpoint_check (\<lambda>_ _. True) (observed_checkpoint v a now) (\<lambda>_. True)
       (raise_observed (ra_to_inclusive a) now) (db_checkpoints s) = Inr (cs, m)"
    and t: "t = s\<lparr>db_receipts := rs, db_checkpoints := cs'\<rparr>"
    and u: "b = False \<and> cs' = cs \<and> (ra_status a \<noteq> Contiguous \<or> ra_advance_to a = None)
     \<or> (\<exists>k n. ra_status a = Contiguous \<and> ra_advance_to a = Some k
          \<and> sql_update checkpoint_check (advance_guard v a k prev) (set_contiguous k now) cs = Inr (cs', n)
          \<and> b = (n = 1))"
  have "table_ok checkpoint_key checkpoint_check cs"
    using observe.keeps [OF c] assms(2) by (simp add: receipts_ok_def)
  then have "table_ok checkpoint_key checkpoint_check cs'"
    using u advance.keeps by blast
  then show ?thesis
    using receipt_upsert.keeps [OF r] assms(2) t by (simp add: receipts_ok_def)
qed

subsection \<open>The watermark\<close>

definition watermark :: "checkpoint_row list \<Rightarrow> string \<times> string \<times> int \<Rightarrow> int" where
  "watermark rows k = (case lookup_key checkpoint_key k rows of None \<Rightarrow> -1 | Some c \<Rightarrow> ck_last_contiguous c)"

definition applied_offset :: "checkpoint_row list \<Rightarrow> string \<times> string \<times> int \<Rightarrow> int" where
  "applied_offset rows k = (case lookup_key checkpoint_key k rows of None \<Rightarrow> -1 | Some c \<Rightarrow> ck_last_applied c)"

lemma observe_offsets:
  assumes "sql_upsert checkpoint_key checkpoint_check (\<lambda>_ _. True) (observed_checkpoint v a now) (\<lambda>_. True)
       (raise_observed (ra_to_inclusive a) now) rows = Inr (cs, m)"
  shows "watermark cs k = watermark rows k" and "applied_offset cs k = applied_offset rows k"
  unfolding watermark_def applied_offset_def observe.lookup [OF assms]
  by (auto simp: raise_observed_def observed_checkpoint_def split: option.splits)

lemma observe_row:
  assumes "sql_upsert checkpoint_key checkpoint_check (\<lambda>_ _. True) (observed_checkpoint v a now) (\<lambda>_. True)
       (raise_observed (ra_to_inclusive a) now) rows = Inr (cs, m)"
  shows "\<exists>x. lookup_key checkpoint_key (v, ra_topic a, ra_partition a) cs = Some x
      \<and> ra_to_inclusive a \<le> ck_last_observed x"
proof -
  let ?q = "(v, ra_topic a, ra_partition a)"
  have "lookup_key checkpoint_key ?q cs = Some (case lookup_key checkpoint_key ?q rows of
      None \<Rightarrow> observed_checkpoint v a now | Some old \<Rightarrow> raise_observed (ra_to_inclusive a) now old)"
    by (simp add: observe.lookup [OF assms] split: option.split)
  then show ?thesis
    by (auto simp: observed_checkpoint_def raise_observed_def split: option.splits)
qed

lemma save_audit_applied:
  assumes "save_audit v a prev now s = (Inr b, t)"
  shows "applied_offset (db_checkpoints t) q = applied_offset (db_checkpoints s) q"
  using assms
proof (rule save_audit_cases)
  fix rs n cs m cs'
  assume c: "sql_upsert checkpoint_key checkpoint_check (\<lambda>_ _. True) (observed_checkpoint v a now) (\<lambda>_. True)
       (raise_observed (ra_to_inclusive a) now) (db_checkpoints s) = Inr (cs, m)"
    and t: "t = s\<lparr>db_receipts := rs, db_checkpoints := cs'\<rparr>"
    and u: "b = False \<and> cs' = cs \<and> (ra_status a \<noteq> Contiguous \<or> ra_advance_to a = None)
     \<or> (\<exists>k n. ra_status a = Contiguous \<and> ra_advance_to a = Some k
          \<and> sql_update checkpoint_check (advance_guard v a k prev) (set_contiguous k now) cs = Inr (cs', n)
          \<and> b = (n = 1))"
  have "applied_offset cs' q = applied_offset cs q"
    using u by (elim disjE exE conjE) (simp_all add: applied_offset_def advance.lookup set_contiguous_def
        option.case_eq_if option.map_sel)
  then show ?thesis using observe_offsets(2) [OF c] t by simp
qed

text \<open>
  The watermark of a partition moves only when \<open>save_audit\<close> returns true, from the value the
  caller expected to the end of the contiguous audit; every other watermark stays.
\<close>

lemma save_audit_watermark:
  assumes "save_audit v a prev now s = (Inr b, t)" and "receipts_ok s"
  shows "if b then ra_status a = Contiguous \<and> watermark (db_checkpoints s) (v, ra_topic a, ra_partition a) = prev
             \<and> ra_advance_to a = Some (watermark (db_checkpoints t) (v, ra_topic a, ra_partition a))
             \<and> (\<forall>q. q \<noteq> (v, ra_topic a, ra_partition a) \<longrightarrow>
                  watermark (db_checkpoints t) q = watermark (db_checkpoints s) q)
         else (\<forall>q. watermark (db_checkpoints t) q = watermark (db_checkpoints s) q)"
  using assms(1)
proof (rule save_audit_cases)
  let ?q = "(v, ra_topic a, ra_partition a)"
  fix rs n cs m cs'
  assume c: "sql_upsert checkpoint_key checkpoint_check (\<lambda>_ _. True) (observed_checkpoint v a now) (\<lambda>_. True)
       (raise_observed (ra_to_inclusive a) now) (db_checkpoints s) = Inr (cs, m)"
    and t: "t = s\<lparr>db_receipts := rs, db_checkpoints := cs'\<rparr>"
    and u: "b = False \<and> cs' = cs \<and> (ra_status a \<noteq> Contiguous \<or> ra_advance_to a = None)
     \<or> (\<exists>k n. ra_status a = Contiguous \<and> ra_advance_to a = Some k
          \<and> sql_update checkpoint_check (advance_guard v a k prev) (set_contiguous k now) cs = Inr (cs', n)
          \<and> b = (n = 1))"
  have ok: "keyed checkpoint_key cs"
    using observe.keeps [OF c] assms(2) by (simp add: receipts_ok_def table_ok_def)
  note eq = observe_offsets(1) [OF c, symmetric]
  from u consider (stay) "b = False" "cs' = cs"
    | (cas) k n where "ra_status a = Contiguous" "ra_advance_to a = Some k"
        "sql_update checkpoint_check (advance_guard v a k prev) (set_contiguous k now) cs = Inr (cs', n)"
        "b = (n = 1)"
    by blast
  then show ?thesis
  proof cases
    case stay
    then show ?thesis by (simp add: eq t)
  next
    case cas
    note st = cas(1,2) and upd = cas(3) and b = cas(4)
    have frame: "watermark cs' q = watermark cs q" if "q \<noteq> ?q" for q
      using advance.frame [OF upd that] by (simp add: watermark_def)
    show ?thesis
    proof (cases "n = 1")
      case True
      then obtain r where "lookup_key checkpoint_key ?q cs = Some r" "advance_guard v a k prev r"
          "lookup_key checkpoint_key ?q cs' = Some (set_contiguous k now r)"
        using advance.hit [OF _ ok] upd by metis
      then have "watermark cs ?q = prev" and "watermark cs' ?q = k"
        by (simp_all add: watermark_def advance_guard_def set_contiguous_def)
      with st b True frame show ?thesis by (simp add: eq t)
    next
      case False
      then have "n = 0" using advance.count [OF upd ok] by (simp split: if_splits)
      then have "cs' = cs" using advance.miss upd by blast
      with b False show ?thesis by (simp add: eq t)
    qed
  qed
qed

subsection \<open>Exceptions\<close>

lemma quarantine_cases:
  assumes "quarantine v p h err loc now s = (Inr u, t)"
  obtains es n where "t = s\<lparr>db_exceptions := es\<rparr>"
    "sql_upsert exception_key exception_check (\<lambda>_ _. True)
       \<lparr>ex_pipeline_version_id = v, ex_topic = sp_topic p, ex_partition = sp_partition p, ex_offset = sp_offset p,
        ex_payload_hash = h, ex_locator = Some loc, ex_error_code = err, ex_status = ExQuarantined,
        ex_audit_actor = None, ex_audit_reason = None, ex_audited_at = None, ex_updated_at = now\<rparr>
       (\<lambda>e. ex_status e \<in> {ExQuarantined, ExReplayPending})
       (\<lambda>e. e\<lparr>ex_payload_hash := h, ex_locator := Some loc, ex_error_code := err, ex_updated_at := now\<rparr>)
       (db_exceptions s) = Inr (es, n)"
  using assms unfolding quarantine_def Let_def by (auto simp: op_elims)

interpretation quarantined: row_upsert exception_key exception_check "\<lambda>_ _. True"
    new "\<lambda>e. ex_status e \<in> {ExQuarantined, ExReplayPending}"
    "\<lambda>e. e\<lparr>ex_payload_hash := h, ex_locator := Some loc, ex_error_code := err, ex_updated_at := now\<rparr>"
    for new h loc err now
  by unfold_locales (simp add: exception_key_def)

lemma approve_skip_cases:
  assumes "approve_skip v p actor reason now s = (Inr b, t)"
  obtains es n where "\<not> blank actor" and "10 \<le> py_len (py_strip reason)" and "t = s\<lparr>db_exceptions := es\<rparr>"
    and "sql_update exception_check (skip_guard v p) (set_skipped actor reason now) (db_exceptions s) = Inr (es, n)"
    and "b = (n = 1)"
  using assms unfolding approve_skip_def by (auto simp: op_elims split: if_splits)

lemma quarantine_keeps_ok: "quarantine v p h err loc now s = (Inr u, t) \<Longrightarrow> receipts_ok s \<Longrightarrow> receipts_ok t"
  by (erule quarantine_cases, drule quarantined.keeps) (auto simp: receipts_ok_def)

lemma approve_skip_keeps_ok: "approve_skip v p actor reason now s = (Inr b, t) \<Longrightarrow> receipts_ok s \<Longrightarrow> receipts_ok t"
  by (erule approve_skip_cases, drule skip.keeps) (auto simp: receipts_ok_def)

definition exception_at :: "db \<Rightarrow> string \<Rightarrow> source_position \<Rightarrow> exception_row option" where
  "exception_at s v p = lookup_key exception_key (v, sp_topic p, sp_partition p, sp_offset p) (db_exceptions s)"

subsection \<open>Properties\<close>

text \<open>C20. Recording an audit keeps the receipt ledger consistent, never moves an applied offset, and
  moves a receipt watermark only by a successful compare-and-swap: it returns true only for a
  contiguous audit whose caller knew the current watermark, which becomes the offset the audit
  advances to; in every other case, and for every other partition, watermarks stay.\<close>

theorem save_audit_compare_and_swap:
  assumes "save_audit v a prev now s = (Inr b, t)" and "receipts_ok s"
  defines "q \<equiv> (v, ra_topic a, ra_partition a)"
  shows "receipts_ok t
    \<and> (\<forall>p. applied_offset (db_checkpoints t) p = applied_offset (db_checkpoints s) p)
    \<and> (b \<longrightarrow> ra_status a = Contiguous \<and> watermark (db_checkpoints s) q = prev
             \<and> ra_advance_to a = Some (watermark (db_checkpoints t) q))
    \<and> (\<forall>p. \<not> b \<or> p \<noteq> q \<longrightarrow> watermark (db_checkpoints t) p = watermark (db_checkpoints s) p)"
  using save_audit_keeps_ok [OF assms(1,2)] save_audit_applied [OF assms(1)]
    save_audit_watermark [OF assms(1,2)] by (cases b) (simp_all add: q_def)

definition sample_audit_row :: receipt_audit where
  "sample_audit_row = \<lparr>ra_topic = ''t'', ra_partition = 0, ra_from_inclusive = 0, ra_to_inclusive = 1,
     ra_expected_offsets = [0, 1], ra_raw_offsets = [0, 1], ra_resolved_offsets = [], ra_missing_offsets = [],
     ra_unexpected_offsets = [], ra_status = Contiguous, ra_expected_hash = ''h'', ra_actual_hash = ''h'',
     ra_advance_to = Some 1\<rparr>"

theorem save_audit_compare_and_swap_witness:
  "fst (save_audit ''v'' sample_audit_row (-1) 5 empty_db) = Inr True
   \<and> watermark (db_checkpoints (snd (save_audit ''v'' sample_audit_row (-1) 5 empty_db))) (''v'', ''t'', 0) = 1"
proof -
  have run: "fst (save_audit ''v'' sample_audit_row (-1) 5 empty_db) = Inr True"
    by code_simp
  have ok: "receipts_ok empty_db" by (simp add: receipts_ok_def empty_db_def)
  show ?thesis
    using save_audit_compare_and_swap [OF run_fst [OF run] ok] run
    by (simp add: sample_audit_row_def)
qed

lemma contiguous_raw_count:
  assumes "audit_receipt_range e r s m = Inr a" and "ra_status a = Contiguous"
  shows "length (ra_raw_offsets a) \<le> length (ra_expected_offsets a)"
proof -
  have "distinct (ra_raw_offsets a)" "distinct (ra_expected_offsets a)"
    using partition_offsets_Inr(4) audit_Inr_offsets(1,2) [OF assms(1)] by blast+
  moreover have "set (ra_raw_offsets a) \<subseteq> set (ra_expected_offsets a)"
    using audit_contiguous_iff [OF assms(1)] assms(2) by simp
  ultimately show ?thesis by (metis card_mono distinct_card finite_set)
qed

lemma audit_nonnegative:
  assumes "audit_receipt_range e r s m = Inr a" and "\<forall>p \<in> set e. valid_position p"
  shows "0 \<le> ra_partition a" and "0 \<le> ra_from_inclusive a" and "ra_from_inclusive a \<le> ra_to_inclusive a"
proof -
  note off = audit_Inr_offsets(1) [OF assms(1)]
  obtain p where p: "p \<in> set e" using audit_Inr_offsets(4) [OF assms(1)] by fastforce
  then show "0 \<le> ra_partition a"
    using partition_offsets_Inr(5) [OF off p] assms(2) by (metis source_position.sel(2) valid_position_def)
  have hd: "hd (ra_expected_offsets a) \<in> set (ra_expected_offsets a)"
    using audit_expected_not_Nil [OF assms(1)] by simp
  then show "0 \<le> ra_from_inclusive a"
    using partition_offsets_Inr(2) [OF off] assms(2) audit_Inr_fields(7) [OF assms(1)]
    by (auto simp: valid_position_def)
  show "ra_from_inclusive a \<le> ra_to_inclusive a"
    using audit_bounds(2) [OF assms(1) hd] audit_Inr_fields(7) [OF assms(1)] by simp
qed

lemma audit_row_check:
  assumes "audit_receipt_range e r s m = Inr a" and "ra_status a = Contiguous" and "\<forall>p \<in> set e. valid_position p"
  shows "receipt_range_check (audit_row v a now)"
  using audit_nonnegative [OF assms(1,3)] contiguous_raw_count [OF assms(1,2)]
    audit_contiguous_evidence(1) [OF assms(1,2)] assms(2)
  by (simp add: receipt_range_check_def audit_row_def)

lemma refresh_receipt_check:
  "receipt_range_check new \<Longrightarrow> receipt_range_key r = receipt_range_key new \<Longrightarrow>
   receipt_range_check (refresh_receipt new now r)"
  by (simp add: receipt_range_check_def receipt_range_key_def refresh_receipt_def)

lemma raise_observed_check: "checkpoint_check c \<Longrightarrow> checkpoint_check (raise_observed k now c)"
  by (auto simp: checkpoint_check_def raise_observed_def)

text \<open>A contiguous audit of valid positions is always recorded, and the watermark advances to its
  end, when the caller knows the current watermark and nothing later was applied.\<close>

theorem contiguous_audit_is_recorded:
  assumes "audit_receipt_range expected raw resolved m = Inr a" and "ra_status a = Contiguous"
    and "\<forall>p \<in> set expected. valid_position p" and "receipts_ok s"
    and "watermark (db_checkpoints s) (v, ra_topic a, ra_partition a) = prev"
    and "applied_offset (db_checkpoints s) (v, ra_topic a, ra_partition a) \<le> ra_to_inclusive a"
  shows "fst (save_audit v a prev now s) = Inr True"
proof -
  let ?q = "(v, ra_topic a, ra_partition a)" and ?k = "ra_to_inclusive a"
  have adv: "ra_advance_to a = Some ?k" by (rule audit_contiguous_evidence(2) [OF assms(1,2)])
  have ok: "table_ok checkpoint_key checkpoint_check (db_checkpoints s)"
    using assms(4) by (simp add: receipts_ok_def)
  note nonneg = audit_nonnegative [OF assms(1,3)]
  obtain rs n where r: "sql_upsert receipt_range_key receipt_range_check (\<lambda>_ _. True) (audit_row v a now)
      (\<lambda>_. True) (refresh_receipt (audit_row v a now) now) (db_receipts s) = Inr (rs, n)"
    using receipt_upsert.succeeds [of v a now "db_receipts s"] audit_row_check [OF assms(1,2,3)]
      refresh_receipt_check by blast
  have "checkpoint_check (observed_checkpoint v a now)"
    using nonneg by (simp add: checkpoint_check_def observed_checkpoint_def)
  then obtain cs l where c: "sql_upsert checkpoint_key checkpoint_check (\<lambda>_ _. True) (observed_checkpoint v a now)
      (\<lambda>_. True) (raise_observed ?k now) (db_checkpoints s) = Inr (cs, l)"
    using observe.succeeds [of v a now "db_checkpoints s"] raise_observed_check ok
    by (auto simp: table_ok_def)
  have okc: "table_ok checkpoint_key checkpoint_check cs" by (rule observe.keeps [OF c ok])
  obtain x where x: "lookup_key checkpoint_key ?q cs = Some x" "?k \<le> ck_last_observed x"
    using observe_row [OF c] by blast
  have "ck_last_contiguous x = prev" "ck_last_applied x \<le> ?k"
    using observe_offsets [OF c, of ?q] x(1) assms(5,6) by (simp_all add: watermark_def applied_offset_def)
  then have guard: "advance_guard v a ?k prev x"
    using lookup_key_Some [OF x(1)] by (simp add: advance_guard_def)
  have "checkpoint_check x" using okc lookup_key_Some [OF x(1)] by (simp add: table_ok_def)
  then have "checkpoint_check (set_contiguous ?k now x)"
    using x(2) nonneg guard by (simp add: checkpoint_check_def set_contiguous_def advance_guard_def)
  then obtain cs' where "sql_update checkpoint_check (advance_guard v a ?k prev) (set_contiguous ?k now) cs = Inr (cs', 1)"
    using advance.succeeds [OF _ x(1) guard] okc by (auto simp: table_ok_def)
  then show ?thesis
    unfolding save_audit_def Let_def using r c adv assms(2)
    by (simp add: bind_op_def table_op_def return_op_def)
qed

theorem contiguous_audit_is_recorded_witness:
  "\<exists>a. audit_receipt_range [SourcePosition ''t'' 0 1, SourcePosition ''t'' 0 0] [SourcePosition ''t'' 0 0]
      [SourcePosition ''t'' 0 1] 10 = Inr a \<and> fst (save_audit ''v'' a (-1) 5 empty_db) = Inr True"
proof -
  obtain a where a: "audit_receipt_range [SourcePosition ''t'' 0 1, SourcePosition ''t'' 0 0]
      [SourcePosition ''t'' 0 0] [SourcePosition ''t'' 0 1] 10 = Inr a"
    using sample_audit by blast
  have "ra_status a = Contiguous"
    using audit_contiguous_iff [OF a] partition_offsets_Inr(2) [OF audit_Inr_offsets(1) [OF a]]
      partition_offsets_Inr(2) [OF audit_Inr_offsets(2) [OF a]]
      partition_offsets_Inr(2) [OF audit_Inr_offsets(3) [OF a]] by auto
  moreover have valid: "\<forall>p \<in> set [SourcePosition ''t'' 0 1, SourcePosition ''t'' 0 0]. valid_position p"
    by (simp add: valid_position_def is_alnum_def is_lower_def char_code_def)
  moreover have "receipts_ok empty_db" by (simp add: receipts_ok_def empty_db_def)
  moreover have "watermark (db_checkpoints empty_db) q = -1" "applied_offset (db_checkpoints empty_db) q = -1" for q
    by (simp_all add: watermark_def applied_offset_def empty_db_def lookup_key_def)
  moreover have "-1 \<le> ra_to_inclusive a" using audit_nonnegative [OF a valid] by simp
  ultimately show ?thesis using contiguous_audit_is_recorded [OF a, of empty_db "''v''" "-1" 5] a by auto
qed

text \<open>A blocked audit that saw more records than Kafka offered cannot be stored: the row breaks the
  constraint \<open>raw_position_count <= expected_position_count\<close> and the whole call raises.\<close>

theorem oversupplied_audit_is_refused:
  assumes "length (ra_expected_offsets a) < length (ra_raw_offsets a)"
  shows "save_audit v a prev now s = (Inl check_violation, s)"
  using assms by (simp add: save_audit_def Let_def bind_op_def table_op_def sql_upsert_def
      receipt_range_check_def audit_row_def)

theorem oversupplied_audit_is_refused_witness:
  "save_audit ''v'' (sample_audit_row\<lparr>ra_raw_offsets := [0, 1, 2], ra_status := Blocked\<rparr>) (-1) 5 empty_db
     = (Inl check_violation, empty_db)"
  by (rule oversupplied_audit_is_refused) (simp add: sample_audit_row_def)

text \<open>Skipping a record is audited and final. \<open>approve_skip\<close> succeeds only with an actor and a reason
  of ten characters, on a quarantined record with an evidence locator, and records both; afterwards
  neither \<open>quarantine\<close> nor \<open>approve_skip\<close> changes the exception again.\<close>

theorem approved_skip_is_final:
  assumes "approve_skip v p actor reason now s = (Inr True, t)" and "receipts_ok s"
  shows "\<exists>e. exception_at t v p = Some e \<and> ex_status e = ExAuditedSkip \<and> ex_locator e \<noteq> None
      \<and> ex_audit_actor e = Some (py_strip actor) \<and> py_strip actor \<noteq> []
      \<and> ex_audit_reason e = Some (py_strip reason) \<and> 10 \<le> py_len (py_strip reason)
      \<and> (\<forall>h err loc now' u. quarantine v p h err loc now' t = (Inr (), u) \<longrightarrow> exception_at u v p = Some e)
      \<and> (\<forall>actor' reason' now' b u. approve_skip v p actor' reason' now' t = (Inr b, u) \<longrightarrow> \<not> b \<and> u = t)"
proof -
  let ?k = "(v, sp_topic p, sp_partition p, sp_offset p)"
  obtain es where args: "\<not> blank actor" "10 \<le> py_len (py_strip reason)" and t: "t = s\<lparr>db_exceptions := es\<rparr>"
    and upd: "sql_update exception_check (skip_guard v p) (set_skipped actor reason now) (db_exceptions s) = Inr (es, 1)"
    using approve_skip_cases [OF assms(1)] by metis
  have ok: "keyed exception_key (db_exceptions s)" using assms(2) by (simp add: receipts_ok_def table_ok_def)
  obtain r where r: "lookup_key exception_key ?k (db_exceptions s) = Some r" "skip_guard v p r"
    "lookup_key exception_key ?k es = Some (set_skipped actor reason now r)"
    using skip.hit [OF upd ok] by metis
  let ?e = "set_skipped actor reason now r"
  have same: "exception_at u v p = Some ?e" if q: "quarantine v p h err loc now' t = (Inr (), u)" for h err loc now' u
    using q
  proof (rule quarantine_cases)
    fix es' n
    assume "u = t\<lparr>db_exceptions := es'\<rparr>"
      and "sql_upsert exception_key exception_check (\<lambda>_ _. True)
       \<lparr>ex_pipeline_version_id = v, ex_topic = sp_topic p, ex_partition = sp_partition p, ex_offset = sp_offset p,
        ex_payload_hash = h, ex_locator = Some loc, ex_error_code = err, ex_status = ExQuarantined,
        ex_audit_actor = None, ex_audit_reason = None, ex_audited_at = None, ex_updated_at = now'\<rparr>
       (\<lambda>e. ex_status e \<in> {ExQuarantined, ExReplayPending})
       (\<lambda>e. e\<lparr>ex_payload_hash := h, ex_locator := Some loc, ex_error_code := err, ex_updated_at := now'\<rparr>)
       (db_exceptions t) = Inr (es', n)"
    then show ?thesis
      using quarantined.lookup r(3) by (simp add: exception_at_def t exception_key_def) (simp add: set_skipped_def)
  qed
  have once: "\<not> b \<and> u = t" if again: "approve_skip v p actor' reason' now' t = (Inr b, u)" for actor' reason' now' b u
    using again
  proof (rule approve_skip_cases)
    fix es' n
    assume u: "u = t\<lparr>db_exceptions := es'\<rparr>" and b: "b = (n = 1)"
      and upd': "sql_update exception_check (skip_guard v p) (set_skipped actor' reason' now') (db_exceptions t) = Inr (es', n)"
    have "keyed exception_key es" by (rule skip.keeps_keyed [OF upd ok])
    then have "n = 0"
      using skip.count [OF upd'] r(3) by (simp add: t) (simp add: skip_guard_def set_skipped_def)
    then show ?thesis using skip.miss upd' u b by (simp add: t)
  qed
  show ?thesis
  proof (intro exI [of _ ?e] conjI allI impI)
    show "exception_at t v p = Some ?e" using r(3) by (simp add: exception_at_def t)
    show "ex_locator ?e \<noteq> None" using r(2) by (simp add: set_skipped_def skip_guard_def)
    show "py_strip actor \<noteq> []" and "10 \<le> py_len (py_strip reason)" using args by (simp_all add: blank_def)
    show "exception_at u v p = Some ?e" if "quarantine v p h err loc now' t = (Inr (), u)" for h err loc now' u
      using that by (rule same)
    show "\<not> b" and "u = t" if "approve_skip v p actor' reason' now' t = (Inr b, u)" for actor' reason' now' b u
      using once [OF that] by simp_all
  qed (simp_all add: set_skipped_def)
qed

definition sample_quarantine_db :: db where
  "sample_quarantine_db = snd (quarantine ''v'' (SourcePosition ''t'' 0 3) ''h'' ''bad_json'' ''raw/3'' 5 empty_db)"

theorem approved_skip_is_final_witness:
  "fst (approve_skip ''v'' (SourcePosition ''t'' 0 3) ''ann'' ''poison record'' 6 sample_quarantine_db) = Inr True
   \<and> (\<exists>e. exception_at (snd (approve_skip ''v'' (SourcePosition ''t'' 0 3) ''ann'' ''poison record'' 6
          sample_quarantine_db)) ''v'' (SourcePosition ''t'' 0 3) = Some e \<and> ex_status e = ExAuditedSkip)"
proof -
  have run: "fst (approve_skip ''v'' (SourcePosition ''t'' 0 3) ''ann'' ''poison record'' 6 sample_quarantine_db) = Inr True"
    by code_simp
  have "fst (quarantine ''v'' (SourcePosition ''t'' 0 3) ''h'' ''bad_json'' ''raw/3'' 5 empty_db) = Inr ()"
    by code_simp
  then have ok: "receipts_ok sample_quarantine_db"
    unfolding sample_quarantine_db_def
    by (rule quarantine_keeps_ok [OF run_fst]) (simp add: receipts_ok_def empty_db_def)
  show ?thesis using approved_skip_is_final [OF run_fst [OF run] ok] run by blast
qed

end
