(* ===== verification/Materialization_Repository.thy ===== *)
theory Materialization_Repository
  imports Receipt_Repository
begin

section \<open>The materialization ledger\<close>

text \<open>
  \<^verbatim>\<open>realtime/repositories/materialization_repository.py\<close>: reserving a materialization under its
  pipeline version and source fingerprint, the four status changes a lease holder may make, and the
  compare-and-swap that moves the applied offset of every partition of a boundary. The caller owns
  the transaction.
\<close>

abbreviation on_materializations ::
  "(materialization_row list \<Rightarrow> (materialization_row list \<times> nat) res) \<Rightarrow> (db, nat) op" where
  "on_materializations \<equiv> table_op db_materializations (\<lambda>rows s. s\<lparr>db_materializations := rows\<rparr>)"

definition reserved_row ::
  "string \<Rightarrow> string \<Rightarrow> source_boundary \<Rightarrow> string \<Rightarrow> (string \<times> string) list \<Rightarrow> string \<Rightarrow> int \<Rightarrow> timestamp
    \<Rightarrow> materialization_row" where
  "reserved_row mid version boundary fp dims query_id lease now =
     \<lparr>m_id = mid, m_pipeline_version_id = version, m_source_boundary = boundary_document boundary,
      m_source_fingerprint = fp, m_dimension_version_ids = str_dict dims,
      m_clickhouse_query_id = query_id, m_lease_generation = lease, m_target_row_count = None,
      m_target_checksum = None, m_status = MReserved, m_started_at = now, m_committed_at = None,
      m_published_revision = None, m_retry_count = 0, m_last_error_code = None, m_updated_at = now\<rparr>"

definition bump_retry :: "timestamp \<Rightarrow> materialization_row \<Rightarrow> materialization_row" where
  "bump_retry now m = m\<lparr>m_retry_count := m_retry_count m + 1, m_updated_at := now\<rparr>"

definition same_reservation :: "materialization_row \<Rightarrow> materialization_row \<Rightarrow> bool" where
  "same_reservation new m \<longleftrightarrow> m_id m = m_id new \<and> m_clickhouse_query_id m = m_clickhouse_query_id new
     \<and> m_lease_generation m = m_lease_generation new"

definition reserve ::
  "string \<Rightarrow> string \<Rightarrow> source_boundary \<Rightarrow> string \<Rightarrow> (string \<times> string) list \<Rightarrow> string \<Rightarrow> int \<Rightarrow> timestamp
    \<Rightarrow> (db, bool) op" where
  "reserve mid version boundary fp dims query_id lease now =
     (let new = reserved_row mid version boundary fp dims query_id lease now
      in bind_op (on_materializations (sql_upsert materialization_key materialization_check
             materialization_unique new (same_reservation new) (bump_retry now)))
           (\<lambda>n. return_op (n = 1)))"

text \<open>\<open>WHERE id = :id AND lease_generation = :lease_generation AND status IN (...)\<close>\<close>

definition lease_guard :: "string \<Rightarrow> int \<Rightarrow> mat_status list \<Rightarrow> materialization_row \<Rightarrow> bool" where
  "lease_guard mid lease statuses m \<longleftrightarrow> m_id m = mid \<and> m_lease_generation m = lease \<and> m_status m \<in> set statuses"

definition running_from :: "mat_status list" where
  "running_from = [MReserved, MFailed, MReconciling, MRunning, MMaterialized]"

definition set_running :: "timestamp \<Rightarrow> materialization_row \<Rightarrow> materialization_row" where
  "set_running now m = m\<lparr>m_status := MRunning, m_last_error_code := None, m_updated_at := now\<rparr>"

definition mark_running :: "string \<Rightarrow> int \<Rightarrow> timestamp \<Rightarrow> (db, bool) op" where
  "mark_running mid lease now =
     bind_op (on_materializations (sql_update materialization_check (lease_guard mid lease running_from)
       (set_running now))) (\<lambda>n. return_op (n = 1))"

definition reconciling_from :: "mat_status list" where
  "reconciling_from = [MReserved, MRunning, MFailed, MReconciling]"

definition set_reconciling :: "timestamp \<Rightarrow> materialization_row \<Rightarrow> materialization_row" where
  "set_reconciling now m = m\<lparr>m_status := MReconciling, m_updated_at := now\<rparr>"

definition mark_reconciling :: "string \<Rightarrow> int \<Rightarrow> timestamp \<Rightarrow> (db, bool) op" where
  "mark_reconciling mid lease now =
     bind_op (on_materializations (sql_update materialization_check (lease_guard mid lease reconciling_from)
       (set_reconciling now))) (\<lambda>n. return_op (n = 1))"

definition materialized_from :: "mat_status list" where
  "materialized_from = [MReserved, MRunning, MFailed, MReconciling, MMaterialized]"

definition set_materialized :: "int \<Rightarrow> string \<Rightarrow> timestamp \<Rightarrow> materialization_row \<Rightarrow> materialization_row" where
  "set_materialized row_count checksum now m =
     m\<lparr>m_status := MMaterialized, m_target_row_count := Some row_count, m_target_checksum := Some checksum,
       m_committed_at := Some now, m_last_error_code := None, m_updated_at := now\<rparr>"

definition mark_materialized :: "string \<Rightarrow> int \<Rightarrow> int \<Rightarrow> string \<Rightarrow> timestamp \<Rightarrow> (db, bool) op" where
  "mark_materialized mid lease row_count checksum now =
     bind_op (on_materializations (sql_update materialization_check (lease_guard mid lease materialized_from)
       (set_materialized row_count checksum now))) (\<lambda>n. return_op (n = 1))"

definition failed_from :: "mat_status list" where
  "failed_from = [MReserved, MRunning, MReconciling]"

definition set_failed :: "string \<Rightarrow> timestamp \<Rightarrow> materialization_row \<Rightarrow> materialization_row" where
  "set_failed error_code now m =
     m\<lparr>m_status := MFailed, m_last_error_code := Some (py_take 120 error_code), m_updated_at := now\<rparr>"

definition mark_failed :: "string \<Rightarrow> int \<Rightarrow> string \<Rightarrow> timestamp \<Rightarrow> (db, bool) op" where
  "mark_failed mid lease error_code now =
     bind_op (on_materializations (sql_update materialization_check (lease_guard mid lease failed_from)
       (set_failed error_code now))) (\<lambda>n. return_op (n = 1))"

definition apply_guard :: "string \<Rightarrow> partition_boundary \<Rightarrow> int \<Rightarrow> checkpoint_row \<Rightarrow> bool" where
  "apply_guard version item lease c \<longleftrightarrow>
     checkpoint_key c = (version, pb_topic item, pb_partition item)
     \<and> ck_last_applied c = pb_from_exclusive item
     \<and> pb_to_inclusive item \<le> ck_last_contiguous c \<and> ck_lease_generation c = lease"

definition set_applied :: "int \<Rightarrow> timestamp \<Rightarrow> checkpoint_row \<Rightarrow> checkpoint_row" where
  "set_applied to_offset now c = c\<lparr>ck_last_applied := to_offset, ck_updated_at := now\<rparr>"

definition stale_cas :: "partition_boundary \<Rightarrow> py_error" where
  "stale_cas item = ValueError (''stale checkpoint CAS for '' @ pb_topic item @ ''['' @ show_int (pb_partition item) @ '']'')"

definition advance_partition :: "string \<Rightarrow> int \<Rightarrow> timestamp \<Rightarrow> partition_boundary \<Rightarrow> (db, unit) op" where
  "advance_partition version lease now item =
     bind_op (on_checkpoints (sql_update checkpoint_check (apply_guard version item lease)
       (set_applied (pb_to_inclusive item) now))) (\<lambda>n. check_op (n = 1) (stale_cas item))"

definition advance_checkpoints :: "string \<Rightarrow> source_boundary \<Rightarrow> int \<Rightarrow> timestamp \<Rightarrow> (db, unit) op" where
  "advance_checkpoints version boundary lease now =
     for_op (sb_partitions boundary) (advance_partition version lease now)"

subsection \<open>Contracts of the statements\<close>

interpretation reservation: row_upsert materialization_key materialization_check materialization_unique
    new "same_reservation new" "bump_retry now" for new now
  by unfold_locales (simp add: materialization_key_def bump_retry_def)

interpretation applied: row_update checkpoint_key checkpoint_check "apply_guard v item lease"
    "set_applied k now" "(v, pb_topic item, pb_partition item)" for v item lease k now
  by unfold_locales (simp_all add: apply_guard_def set_applied_def checkpoint_key_def)

text \<open>
  A status change under a lease: it names its row by id and lease generation, asks for one of a list
  of statuses, and leaves the identity of the row, its lease and its publication alone.
\<close>

locale lease_change = row_update m_id materialization_check "lease_guard mid lease statuses" change mid
  for mid :: string and lease :: int and statuses :: "mat_status list"
    and change :: "materialization_row \<Rightarrow> materialization_row" and target :: mat_status +
  assumes identity: "m_clickhouse_query_id (change r) = m_clickhouse_query_id r"
      "materialization_key (change r) = materialization_key r"
    and lease_kept: "m_lease_generation (change r) = m_lease_generation r"
    and revision_kept: "m_published_revision (change r) = m_published_revision r"
    and target: "m_status (change r) = target"
    and unpublished: "MPublished \<notin> set statuses" "target \<noteq> MPublished"
begin

text \<open>Fencing: a caller whose lease is not the lease of the row, or whose row is published, changes nothing.\<close>

lemma fenced:
  assumes "sql_update materialization_check (lease_guard mid lease statuses) change rows = Inr (rows', n)"
    and "r \<in> set rows" and "m_lease_generation r \<noteq> lease \<or> m_status r = MPublished"
  shows "r \<in> set rows'"
  using assms unpublished(1) by (force simp: sql_update_Inr_iff in_update_where lease_guard_def)

lemma row_moves:
  assumes "sql_update materialization_check (lease_guard mid lease statuses) change rows = Inr (rows', n)"
    and "lookup_key m_id q rows = Some r"
  shows "\<exists>r'. lookup_key m_id q rows' = Some r' \<and> m_lease_generation r' = m_lease_generation r
    \<and> m_published_revision r' = m_published_revision r
    \<and> (r' = r \<or> q = mid \<and> m_lease_generation r = lease \<and> m_status r \<in> set statuses \<and> m_status r' = target)"
  using lookup [OF assms(1), of q] assms(2) lease_kept revision_kept target
  by (auto simp: lease_guard_def dest: lookup_key_Some)

lemma keeps_keys:
  assumes "sql_update materialization_check (lease_guard mid lease statuses) change rows = Inr (rows', n)"
  shows "keyed materialization_key rows \<Longrightarrow> keyed materialization_key rows'"
    and "keyed m_clickhouse_query_id rows \<Longrightarrow> keyed m_clickhouse_query_id rows'"
  using assms identity by (auto simp: sql_update_Inr_iff intro!: keyed_update_where)

end

interpretation run: lease_change mid lease running_from "set_running now" MRunning for mid lease now
  by unfold_locales (simp_all add: lease_guard_def set_running_def materialization_key_def running_from_def)

interpretation reconcile: lease_change mid lease reconciling_from "set_reconciling now" MReconciling
    for mid lease now
  by unfold_locales (simp_all add: lease_guard_def set_reconciling_def materialization_key_def reconciling_from_def)

interpretation materialize: lease_change mid lease materialized_from "set_materialized rows checksum now" MMaterialized
    for mid lease rows checksum now
  by unfold_locales (simp_all add: lease_guard_def set_materialized_def materialization_key_def materialized_from_def)

interpretation fail: lease_change mid lease failed_from "set_failed code now" MFailed for mid lease code now
  by unfold_locales (simp_all add: lease_guard_def set_failed_def materialization_key_def failed_from_def)

subsection \<open>The table invariant\<close>

definition materializations_ok :: "db \<Rightarrow> bool" where
  "materializations_ok s \<longleftrightarrow> table_ok m_id materialization_check (db_materializations s)
     \<and> keyed materialization_key (db_materializations s) \<and> keyed m_clickhouse_query_id (db_materializations s)"

lemma reserve_cases:
  assumes "reserve mid v b fp dims qid lease now s = (Inr ok, t)"
  obtains ms n where "t = s\<lparr>db_materializations := ms\<rparr>" "ok = (n = 1)"
    "sql_upsert materialization_key materialization_check materialization_unique
       (reserved_row mid v b fp dims qid lease now) (same_reservation (reserved_row mid v b fp dims qid lease now))
       (bump_retry now) (db_materializations s) = Inr (ms, n)"
  using assms unfolding reserve_def Let_def by (auto simp: op_elims)

lemma reserve_keeps_ok:
  assumes "reserve mid v b fp dims qid lease now s = (Inr ok, t)" and "materializations_ok s"
  shows "materializations_ok t"
  using assms(1)
proof (rule reserve_cases)
  fix ms n
  let ?new = "reserved_row mid v b fp dims qid lease now"
  assume t: "t = s\<lparr>db_materializations := ms\<rparr>"
    and u: "sql_upsert materialization_key materialization_check materialization_unique ?new
       (same_reservation ?new) (bump_retry now) (db_materializations s) = Inr (ms, n)"
  have uniq: "materialization_unique (db_materializations s) ?new \<Longrightarrow> m_id ?new \<notin> m_id ` set (db_materializations s)"
      "materialization_unique (db_materializations s) ?new \<Longrightarrow>
       m_clickhouse_query_id ?new \<notin> m_clickhouse_query_id ` set (db_materializations s)"
    by (force simp: materialization_unique_def)+
  have "keyed materialization_key ms"
    using reservation.keeps [OF u] assms(2) by (simp add: materializations_ok_def table_ok_def)
  moreover have "keyed m_id ms"
    using reservation.keeps_other [OF u, of m_id] uniq(1) assms(2)
    by (simp add: materializations_ok_def table_ok_def bump_retry_def)
  moreover have "keyed m_clickhouse_query_id ms"
    using reservation.keeps_other [OF u, of m_clickhouse_query_id] uniq(2) assms(2)
    by (simp add: materializations_ok_def bump_retry_def)
  moreover have "\<forall>r \<in> set ms. materialization_check r"
    using sql_upsert_checked [OF u] assms(2) by (simp add: materializations_ok_def table_ok_def)
  ultimately show ?thesis by (simp add: materializations_ok_def table_ok_def t)
qed

lemmas mark_defs = mark_running_def mark_reconciling_def mark_materialized_def mark_failed_def

lemma mark_keeps_ok:
  "mark_running mid lease now s = (Inr b, t) \<Longrightarrow> materializations_ok s \<Longrightarrow> materializations_ok t"
  "mark_reconciling mid lease now s = (Inr b, t) \<Longrightarrow> materializations_ok s \<Longrightarrow> materializations_ok t"
  "mark_materialized mid lease rows checksum now s = (Inr b, t) \<Longrightarrow> materializations_ok s \<Longrightarrow> materializations_ok t"
  "mark_failed mid lease code now s = (Inr b, t) \<Longrightarrow> materializations_ok s \<Longrightarrow> materializations_ok t"
  unfolding mark_defs materializations_ok_def
  by (auto simp: op_elims dest: run.keeps run.keeps_keys reconcile.keeps reconcile.keeps_keys
      materialize.keeps materialize.keeps_keys fail.keeps fail.keeps_keys)

subsection \<open>Moving the applied offsets\<close>

definition pb_checkpoint :: "string \<Rightarrow> partition_boundary \<Rightarrow> string \<times> string \<times> int" where
  "pb_checkpoint v item = (v, pb_topic item, pb_partition item)"

definition may_apply :: "string \<Rightarrow> int \<Rightarrow> checkpoint_row list \<Rightarrow> partition_boundary \<Rightarrow> bool" where
  "may_apply v lease cs item \<longleftrightarrow>
     (case lookup_key checkpoint_key (pb_checkpoint v item) cs of None \<Rightarrow> False | Some c \<Rightarrow> apply_guard v item lease c)"

definition checkpoints_ok :: "db \<Rightarrow> bool" where
  "checkpoints_ok s \<longleftrightarrow> table_ok checkpoint_key checkpoint_check (db_checkpoints s)"

lemma set_applied_check:
  "checkpoint_check c \<Longrightarrow> apply_guard v item lease c \<Longrightarrow> valid_partition item \<Longrightarrow>
   checkpoint_check (set_applied (pb_to_inclusive item) now c)"
  by (simp add: checkpoint_check_def apply_guard_def valid_partition_def set_applied_def)

lemma pb_checkpoint_eq: "pb_checkpoint v i = pb_checkpoint v j \<longleftrightarrow> pb_identity i = pb_identity j"
  by (simp add: pb_checkpoint_def pb_identity_def)

lemma advance_partition_hit:
  assumes "checkpoints_ok s" and "valid_partition item" and "may_apply v lease (db_checkpoints s) item"
  obtains cs where "advance_partition v lease now item s = (Inr (), s\<lparr>db_checkpoints := cs\<rparr>)"
    and "sql_update checkpoint_check (apply_guard v item lease) (set_applied (pb_to_inclusive item) now)
           (db_checkpoints s) = Inr (cs, 1)"
proof -
  obtain c where c: "lookup_key checkpoint_key (pb_checkpoint v item) (db_checkpoints s) = Some c"
      "apply_guard v item lease c"
    using assms(3) by (auto simp: may_apply_def split: option.splits)
  have "checkpoint_check c" using assms(1) lookup_key_Some [OF c(1)] by (simp add: checkpoints_ok_def table_ok_def)
  then have "checkpoint_check (set_applied (pb_to_inclusive item) now c)" by (rule set_applied_check [OF _ c(2) assms(2)])
  then obtain cs where "sql_update checkpoint_check (apply_guard v item lease) (set_applied (pb_to_inclusive item) now)
      (db_checkpoints s) = Inr (cs, 1)"
    using applied.succeeds [OF _ c(1) [unfolded pb_checkpoint_def] c(2)] assms(1)
    unfolding checkpoints_ok_def table_ok_def by blast
  then show thesis using that
    by (simp add: advance_partition_def bind_op_def table_op_def check_op_def return_op_def)
qed

lemma advance_partition_Inr:
  assumes "advance_partition v lease now item s = (Inr u, t)" and "checkpoints_ok s"
  shows "may_apply v lease (db_checkpoints s) item" and "checkpoints_ok t"
    and "t = s\<lparr>db_checkpoints := db_checkpoints t\<rparr>"
    and "lookup_key checkpoint_key q (db_checkpoints t) = map_option
      (\<lambda>c. if q = pb_checkpoint v item then set_applied (pb_to_inclusive item) now c else c)
      (lookup_key checkpoint_key q (db_checkpoints s))"
proof -
  obtain cs where upd: "sql_update checkpoint_check (apply_guard v item lease)
      (set_applied (pb_to_inclusive item) now) (db_checkpoints s) = Inr (cs, 1)"
    and t: "t = s\<lparr>db_checkpoints := cs\<rparr>"
    using assms(1) unfolding advance_partition_def by (auto simp: op_elims)
  have ok: "keyed checkpoint_key (db_checkpoints s)" using assms(2) by (simp add: checkpoints_ok_def table_ok_def)
  obtain c where c: "lookup_key checkpoint_key (pb_checkpoint v item) (db_checkpoints s) = Some c"
      "apply_guard v item lease c"
      "lookup_key checkpoint_key (pb_checkpoint v item) cs = Some (set_applied (pb_to_inclusive item) now c)"
    using applied.hit [OF upd ok] unfolding pb_checkpoint_def by metis
  show "may_apply v lease (db_checkpoints s) item" using c by (simp add: may_apply_def)
  show "checkpoints_ok t" using applied.keeps [OF upd] assms(2) by (simp add: checkpoints_ok_def t)
  show "t = s\<lparr>db_checkpoints := db_checkpoints t\<rparr>" by (simp add: t)
  show "lookup_key checkpoint_key q (db_checkpoints t) = map_option
      (\<lambda>c. if q = pb_checkpoint v item then set_applied (pb_to_inclusive item) now c else c)
      (lookup_key checkpoint_key q (db_checkpoints s))"
  proof (cases "q = pb_checkpoint v item")
    case True
    with c show ?thesis by (simp add: t)
  next
    case False
    then show ?thesis using applied.frame [OF upd, of q]
      by (cases "lookup_key checkpoint_key q (db_checkpoints s)") (simp_all add: t pb_checkpoint_def)
  qed
qed

lemma may_apply_other:
  assumes "lookup_key checkpoint_key (pb_checkpoint v j) cs' = lookup_key checkpoint_key (pb_checkpoint v j) cs"
  shows "may_apply v lease cs' j = may_apply v lease cs j"
  using assms by (simp add: may_apply_def)

text \<open>
  The loop applies every range of the boundary or stops at a range whose checkpoint is not at its
  start, is not covered by the watermark, or is held under another lease.
\<close>

lemma advance_loop_Inr:
  assumes "for_op items (advance_partition v lease now) s = (Inr u, t)" and "checkpoints_ok s"
    and "distinct (map pb_identity items)"
  shows "(\<forall>i \<in> set items. may_apply v lease (db_checkpoints s) i) \<and> checkpoints_ok t
    \<and> t = s\<lparr>db_checkpoints := db_checkpoints t\<rparr>
    \<and> (\<forall>i \<in> set items. \<forall>c. lookup_key checkpoint_key (pb_checkpoint v i) (db_checkpoints s) = Some c \<longrightarrow>
         lookup_key checkpoint_key (pb_checkpoint v i) (db_checkpoints t) = Some (set_applied (pb_to_inclusive i) now c))
    \<and> (\<forall>q. q \<notin> pb_checkpoint v ` set items \<longrightarrow>
         lookup_key checkpoint_key q (db_checkpoints t) = lookup_key checkpoint_key q (db_checkpoints s))"
  using assms
proof (induction items arbitrary: s)
  case Nil
  then show ?case by (simp add: op_elims)
next
  case (Cons i items)
  obtain s' where one: "advance_partition v lease now i s = (Inr (), s')"
    and rest: "for_op items (advance_partition v lease now) s' = (Inr u, t)"
    using Cons.prems(1) by (auto simp: op_elims)
  note step = advance_partition_Inr [OF one Cons.prems(2)]
  have look: "lookup_key checkpoint_key q (db_checkpoints s') = lookup_key checkpoint_key q (db_checkpoints s)"
    if "q \<noteq> pb_checkpoint v i" for q
    using step(4) [of q] that by (simp add: option.map_ident)
  have dist: "distinct (map pb_identity items)" and new: "pb_identity i \<notin> pb_identity ` set items"
    using Cons.prems(3) by simp_all
  have "(\<forall>i \<in> set items. may_apply v lease (db_checkpoints s') i) \<and> checkpoints_ok t
    \<and> t = s'\<lparr>db_checkpoints := db_checkpoints t\<rparr>
    \<and> (\<forall>i \<in> set items. \<forall>c. lookup_key checkpoint_key (pb_checkpoint v i) (db_checkpoints s') = Some c \<longrightarrow>
         lookup_key checkpoint_key (pb_checkpoint v i) (db_checkpoints t) = Some (set_applied (pb_to_inclusive i) now c))
    \<and> (\<forall>q. q \<notin> pb_checkpoint v ` set items \<longrightarrow>
         lookup_key checkpoint_key q (db_checkpoints t) = lookup_key checkpoint_key q (db_checkpoints s'))"
    by (rule Cons.IH [OF rest step(2) dist])
  then have may: "\<And>j. j \<in> set items \<Longrightarrow> may_apply v lease (db_checkpoints s') j" and okt: "checkpoints_ok t"
    and t: "t = s'\<lparr>db_checkpoints := db_checkpoints t\<rparr>"
    and set: "\<And>j c. j \<in> set items \<Longrightarrow> lookup_key checkpoint_key (pb_checkpoint v j) (db_checkpoints s') = Some c \<Longrightarrow>
         lookup_key checkpoint_key (pb_checkpoint v j) (db_checkpoints t) = Some (set_applied (pb_to_inclusive j) now c)"
    and frame: "\<And>q. q \<notin> pb_checkpoint v ` set items \<Longrightarrow>
         lookup_key checkpoint_key q (db_checkpoints t) = lookup_key checkpoint_key q (db_checkpoints s')"
    by blast+
  have other: "pb_checkpoint v j \<noteq> pb_checkpoint v i" if "j \<in> set items" for j
    using new imageI [OF that, of pb_identity] by (metis pb_checkpoint_eq)
  show ?case
  proof (intro conjI ballI allI impI)
    show "may_apply v lease (db_checkpoints s) j" if "j \<in> set (i # items)" for j
      using that step(1) may may_apply_other look other by (metis set_ConsD)
    show "checkpoints_ok t" by (rule okt)
    show "t = s\<lparr>db_checkpoints := db_checkpoints t\<rparr>"
      using t step(3) by (metis db.surjective db.update_convs(2))
    show "lookup_key checkpoint_key (pb_checkpoint v j) (db_checkpoints t) = Some (set_applied (pb_to_inclusive j) now c)"
      if j: "j \<in> set (i # items)" and c: "lookup_key checkpoint_key (pb_checkpoint v j) (db_checkpoints s) = Some c" for j c
    proof (cases "j \<in> set items")
      case True
      then show ?thesis using set [OF True] c look [OF other [OF True]] by simp
    next
      case False
      then have "j = i" using j by simp
      moreover have "pb_checkpoint v i \<notin> pb_checkpoint v ` set items" using other by force
      ultimately show ?thesis using frame step(4) [of "pb_checkpoint v i"] c by simp
    qed
    show "lookup_key checkpoint_key q (db_checkpoints t) = lookup_key checkpoint_key q (db_checkpoints s)"
      if "q \<notin> pb_checkpoint v ` set (i # items)" for q
      using that frame look by simp
  qed
qed

lemma advance_loop_total:
  assumes "\<forall>i \<in> set items. may_apply v lease (db_checkpoints s) i \<and> valid_partition i"
    and "checkpoints_ok s" and "distinct (map pb_identity items)"
  shows "\<exists>t. for_op items (advance_partition v lease now) s = (Inr (), t)"
  using assms
proof (induction items arbitrary: s)
  case Nil
  then show ?case by (simp add: return_op_def)
next
  case (Cons i items)
  obtain cs where one: "advance_partition v lease now i s = (Inr (), s\<lparr>db_checkpoints := cs\<rparr>)"
    using advance_partition_hit [OF Cons.prems(2)] Cons.prems(1) by (metis list.set_intros(1))
  note step = advance_partition_Inr [OF one Cons.prems(2)]
  have new: "pb_identity i \<notin> pb_identity ` set items" using Cons.prems(3) by simp
  have "may_apply v lease cs j" if j: "j \<in> set items" for j
  proof -
    have "pb_checkpoint v j \<noteq> pb_checkpoint v i" using new imageI [OF j, of pb_identity] by (metis pb_checkpoint_eq)
    then have "lookup_key checkpoint_key (pb_checkpoint v j) cs
        = lookup_key checkpoint_key (pb_checkpoint v j) (db_checkpoints s)"
      using step(4) [of "pb_checkpoint v j"] by (simp add: option.map_ident)
    from may_apply_other [OF this] show ?thesis using Cons.prems(1) j by simp
  qed
  then have "\<exists>t. for_op items (advance_partition v lease now) (s\<lparr>db_checkpoints := cs\<rparr>) = (Inr (), t)"
    using Cons.prems by (intro Cons.IH step(2)) auto
  then show ?case using one by (simp add: bind_op_def)
qed

lemma advance_offsets:
  assumes "for_op items (advance_partition v lease now) s = (Inr u, t)" and "checkpoints_ok s"
    and "distinct (map pb_identity items)"
  shows "\<forall>p \<in> set items. may_apply v lease (db_checkpoints s) p" and "checkpoints_ok t"
    and "\<forall>p \<in> set items. applied_offset (db_checkpoints t) (pb_checkpoint v p) = pb_to_inclusive p"
    and "\<forall>q. q \<notin> pb_checkpoint v ` set items \<longrightarrow>
           applied_offset (db_checkpoints t) q = applied_offset (db_checkpoints s) q"
    and "\<forall>q. watermark (db_checkpoints t) q = watermark (db_checkpoints s) q"
proof -
  note fact = advance_loop_Inr [OF assms]
  show may: "\<forall>p \<in> set items. may_apply v lease (db_checkpoints s) p" and "checkpoints_ok t"
    using fact by blast+
  have set: "\<exists>c. lookup_key checkpoint_key (pb_checkpoint v p) (db_checkpoints s) = Some c
      \<and> lookup_key checkpoint_key (pb_checkpoint v p) (db_checkpoints t) = Some (set_applied (pb_to_inclusive p) now c)"
    if p: "p \<in> set items" for p
  proof -
    obtain c where "lookup_key checkpoint_key (pb_checkpoint v p) (db_checkpoints s) = Some c"
      using may p by (auto simp: may_apply_def split: option.splits)
    then show ?thesis using fact p by blast
  qed
  have frame: "lookup_key checkpoint_key q (db_checkpoints t) = lookup_key checkpoint_key q (db_checkpoints s)"
    if "q \<notin> pb_checkpoint v ` set items" for q
    using fact that by blast
  show "\<forall>p \<in> set items. applied_offset (db_checkpoints t) (pb_checkpoint v p) = pb_to_inclusive p"
    using set by (fastforce simp: applied_offset_def set_applied_def)
  show "\<forall>q. q \<notin> pb_checkpoint v ` set items \<longrightarrow>
      applied_offset (db_checkpoints t) q = applied_offset (db_checkpoints s) q"
    using frame by (simp add: applied_offset_def)
  show "\<forall>q. watermark (db_checkpoints t) q = watermark (db_checkpoints s) q"
  proof
    fix q show "watermark (db_checkpoints t) q = watermark (db_checkpoints s) q"
    proof (cases "q \<in> pb_checkpoint v ` set items")
      case True
      then obtain p where "p \<in> set items" "q = pb_checkpoint v p" by blast
      then show ?thesis using set by (fastforce simp: watermark_def set_applied_def)
    next
      case False
      then show ?thesis by (simp add: watermark_def frame)
    qed
  qed
qed

subsection \<open>Steps of the ledger\<close>

text \<open>
  One call of the repository as a step of the table of materializations. The statuses form a
  machine that never enters \<open>published\<close> here and never leaves it.
\<close>

inductive mat_step :: "db \<Rightarrow> db \<Rightarrow> bool" where
  reserve: "reserve mid v b fp dims qid lease now s = (Inr ok, t) \<Longrightarrow> mat_step s t"
| running: "mark_running mid lease now s = (Inr ok, t) \<Longrightarrow> mat_step s t"
| reconciling: "mark_reconciling mid lease now s = (Inr ok, t) \<Longrightarrow> mat_step s t"
| materialized: "mark_materialized mid lease rows checksum now s = (Inr ok, t) \<Longrightarrow> mat_step s t"
| failed: "mark_failed mid lease code now s = (Inr ok, t) \<Longrightarrow> mat_step s t"

inductive_cases mat_stepE: "mat_step s t"

lemma mat_step_ok: "mat_step s t \<Longrightarrow> materializations_ok s \<Longrightarrow> materializations_ok t"
  by (induction rule: mat_step.induct) (auto intro: reserve_keeps_ok mark_keeps_ok)

text \<open>What a step leaves of a row that exists: its identity, its lease and its published revision.\<close>

definition same_identity :: "materialization_row \<Rightarrow> materialization_row \<Rightarrow> bool" where
  "same_identity r r' \<longleftrightarrow> m_lease_generation r' = m_lease_generation r
     \<and> m_published_revision r' = m_published_revision r \<and> (m_status r = MPublished \<longleftrightarrow> m_status r' = MPublished)"

lemma reserve_row:
  assumes "reserve mid v b fp dims qid lease now s = (Inr ok, t)" and "materializations_ok s"
    and "lookup_key m_id q (db_materializations s) = Some r"
  shows "\<exists>r'. lookup_key m_id q (db_materializations t) = Some r' \<and> same_identity r r'"
  using assms(1)
proof (rule reserve_cases)
  fix ms n
  let ?new = "reserved_row mid v b fp dims qid lease now"
  assume t: "t = s\<lparr>db_materializations := ms\<rparr>"
    and u: "sql_upsert materialization_key materialization_check materialization_unique ?new
       (same_reservation ?new) (bump_retry now) (db_materializations s) = Inr (ms, n)"
  have ok: "keyed m_id ms"
    using reserve_keeps_ok [OF assms(1,2)] by (simp add: t materializations_ok_def table_ok_def)
  have r: "r \<in> set (db_materializations s)" "m_id r = q" using lookup_key_Some [OF assms(3)] by simp_all
  have "\<exists>r' \<in> set ms. m_id r' = q \<and> same_identity r r'"
  proof (cases "find (\<lambda>x. materialization_key x = materialization_key ?new) (db_materializations s)")
    case None
    then have "ms = db_materializations s @ [?new]" using u by (auto simp: sql_upsert_def split: if_splits)
    then show ?thesis using r by (auto simp: same_identity_def)
  next
    case (Some old)
    then have "ms = update_where (\<lambda>x. materialization_key x = materialization_key ?new \<and> same_reservation ?new x)
        (bump_retry now) (db_materializations s)"
      using u by (auto simp: sql_upsert_def sql_update_Inr_iff split: if_splits)
    then show ?thesis using r
      by (intro bexI [of _ "if materialization_key r = materialization_key ?new \<and> same_reservation ?new r
            then bump_retry now r else r"]) (auto simp: in_update_where same_identity_def bump_retry_def)
  qed
  then show ?thesis using lookup_key_keyed [OF ok] by (auto simp: t)
qed

lemma same_identity_trans: "same_identity a b \<Longrightarrow> same_identity b c \<Longrightarrow> same_identity a c"
  by (simp add: same_identity_def)

context lease_change
begin

lemma same_row:
  assumes "sql_update materialization_check (lease_guard mid lease statuses) change rows = Inr (rows', n)"
    and "lookup_key m_id q rows = Some r"
  shows "\<exists>r'. lookup_key m_id q rows' = Some r' \<and> same_identity r r'"
  using row_moves [OF assms] unpublished by (auto simp: same_identity_def)

lemma call_row:
  assumes "bind_op (on_materializations (sql_update materialization_check (lease_guard mid lease statuses) change))
      (\<lambda>n. return_op (n = 1)) s = (Inr ok, t)"
    and "lookup_key m_id q (db_materializations s) = Some r"
  shows "\<exists>r'. lookup_key m_id q (db_materializations t) = Some r' \<and> same_identity r r'"
proof -
  obtain rows' n where "sql_update materialization_check (lease_guard mid lease statuses) change (db_materializations s)
      = Inr (rows', n)" and "t = s\<lparr>db_materializations := rows'\<rparr>"
    using assms(1) by (auto simp: op_elims)
  then show ?thesis using same_row assms(2) by simp
qed

end

lemma mat_step_row:
  "mat_step s t \<Longrightarrow> materializations_ok s \<Longrightarrow> lookup_key m_id q (db_materializations s) = Some r \<Longrightarrow>
   \<exists>r'. lookup_key m_id q (db_materializations t) = Some r' \<and> same_identity r r'"
proof (induction rule: mat_step.induct)
  case reserve
  then show ?case using reserve_row by blast
next
  case running
  then show ?case unfolding mark_running_def by (elim run.call_row)
next
  case reconciling
  then show ?case unfolding mark_reconciling_def by (elim reconcile.call_row)
next
  case materialized
  then show ?case unfolding mark_materialized_def by (elim materialize.call_row)
next
  case failed
  then show ?case unfolding mark_failed_def by (elim fail.call_row)
qed

lemma mat_steps_row:
  assumes "mat_step\<^sup>*\<^sup>* s t" and "materializations_ok s" and "lookup_key m_id q (db_materializations s) = Some r"
  shows "materializations_ok t
    \<and> (\<exists>r'. lookup_key m_id q (db_materializations t) = Some r' \<and> same_identity r r')"
  using assms(1)
proof (induction rule: rtranclp_induct)
  case base
  then show ?case using assms(2,3) by (simp add: same_identity_def)
next
  case (step y z)
  then obtain r' where r': "lookup_key m_id q (db_materializations y) = Some r'" "same_identity r r'" by blast
  obtain r'' where "lookup_key m_id q (db_materializations z) = Some r''" "same_identity r' r''"
    using mat_step_row [OF step(2) _ r'(1)] step.IH by blast
  then show ?case using mat_step_ok [OF step(2)] step.IH same_identity_trans [OF r'(2)] by blast
qed

subsection \<open>Properties\<close>

text \<open>Any run of the materialization repository keeps its table consistent (unique ids, reservations
  and query ids, evidence on every materialized row), never deletes a materialization, never changes
  its lease or published revision, and never moves it into or out of the published status.\<close>

theorem materialization_ledger_invariant:
  assumes "mat_step\<^sup>*\<^sup>* s t" and "materializations_ok s"
  shows "materializations_ok t
    \<and> (\<forall>q r. lookup_key m_id q (db_materializations s) = Some r \<longrightarrow>
         (\<exists>r'. lookup_key m_id q (db_materializations t) = Some r'
            \<and> m_lease_generation r' = m_lease_generation r \<and> m_published_revision r' = m_published_revision r
            \<and> (m_status r' = MPublished \<longleftrightarrow> m_status r = MPublished)))"
proof -
  have "materializations_ok t"
    using assms by (induction rule: rtranclp_induct) (auto dest: mat_step_ok)
  then show ?thesis using mat_steps_row [OF assms] by (fastforce simp: same_identity_def)
qed

definition sample_boundary :: source_boundary where
  "sample_boundary = SourceBoundary [PartitionBoundary ''t'' 0 (-1) 4]"

definition sample_reserved_db :: db where
  "sample_reserved_db = snd (reserve ''m1'' ''v1'' sample_boundary ''fp'' [] ''q1'' 3 7 empty_db)"

lemma sample_reserved: "fst (reserve ''m1'' ''v1'' sample_boundary ''fp'' [] ''q1'' 3 7 empty_db) = Inr True"
  by code_simp

lemma sample_reserved_ok: "materializations_ok sample_reserved_db"
  unfolding sample_reserved_db_def using reserve_keeps_ok [OF run_fst [OF sample_reserved]]
  by (simp add: materializations_ok_def empty_db_def)

theorem materialization_ledger_invariant_witness:
  "mat_step\<^sup>*\<^sup>* empty_db sample_reserved_db \<and> materializations_ok sample_reserved_db"
proof -
  have "mat_step empty_db sample_reserved_db"
    unfolding sample_reserved_db_def by (rule mat_step.reserve [OF run_fst [OF sample_reserved]])
  then have steps: "mat_step\<^sup>*\<^sup>* empty_db sample_reserved_db" by blast
  show ?thesis using materialization_ledger_invariant [OF steps] steps
    by (simp add: materializations_ok_def empty_db_def)
qed

text \<open>Leases fence the status changes: with a generation other than the row's every one of the four
  changes reports false and leaves the database as it was.\<close>

theorem stale_lease_changes_nothing:
  assumes "lookup_key m_id mid (db_materializations s) = Some r" and "materializations_ok s"
    and "m_lease_generation r \<noteq> lease"
  shows "mark_running mid lease now s = (Inr False, s) \<and> mark_reconciling mid lease now s = (Inr False, s)
    \<and> mark_materialized mid lease rows checksum now s = (Inr False, s) \<and> mark_failed mid lease code now s = (Inr False, s)"
proof -
  have "\<not> lease_guard mid lease sts x" if "x \<in> set (db_materializations s)" for x sts
    using lookup_key_keyed [of m_id, OF _ that] assms by (auto simp: materializations_ok_def table_ok_def lease_guard_def)
  then have "sql_update materialization_check (lease_guard mid lease sts) f (db_materializations s)
      = Inr (db_materializations s, 0)" for sts f
    by (auto simp: sql_update_Inr_iff update_where_id rowcount_def filter_empty_conv)
  then show ?thesis
    by (simp add: mark_defs bind_op_def table_op_def return_op_def)
qed

theorem stale_lease_changes_nothing_witness:
  "mark_materialized ''m1'' 2 10 ''sum'' 9 sample_reserved_db = (Inr False, sample_reserved_db)"
proof -
  have "\<exists>r. lookup_key m_id ''m1'' (db_materializations sample_reserved_db) = Some r \<and> m_lease_generation r = 3"
    by (simp add: sample_reserved_db_def reserve_def op_defs table_op_def sql_upsert_def empty_db_def reserved_row_def
        materialization_check_def materialization_unique_def lookup_key_def Let_def)
  then show ?thesis using stale_lease_changes_nothing [OF _ sample_reserved_ok] by auto
qed

text \<open>C21. \<open>advance_checkpoints\<close> is a compare-and-swap over a whole boundary. It returns exactly when every
  range starts at its partition's applied offset, is covered by the receipt watermark and is held under the
  caller's lease; then precisely those applied offsets move, to the ends of the ranges, with applied at most the
  watermark everywhere. In a transaction a failure leaves the database as it was, and running it again after
  success raises: a boundary is applied once.\<close>

theorem advance_checkpoints_exactly_once:
  assumes "boundary_build parts = Inr b" and "\<forall>p \<in> set parts. valid_partition p" and "checkpoints_ok s"
  shows "(case transaction (advance_checkpoints v b lease now) s of
      (Inl e, t) \<Rightarrow> t = s \<and> (\<exists>p \<in> set parts. \<not> may_apply v lease (db_checkpoints s) p)
    | (Inr _, t) \<Rightarrow> checkpoints_ok t \<and> (\<forall>p \<in> set parts. may_apply v lease (db_checkpoints s) p
             \<and> applied_offset (db_checkpoints t) (pb_checkpoint v p) = pb_to_inclusive p)
        \<and> (\<forall>q. q \<notin> pb_checkpoint v ` set parts \<longrightarrow>
             applied_offset (db_checkpoints t) q = applied_offset (db_checkpoints s) q)
        \<and> (\<forall>q. watermark (db_checkpoints t) q = watermark (db_checkpoints s) q)
        \<and> (\<forall>now'. \<exists>e. transaction (advance_checkpoints v b lease now') t = (Inl e, t)))"
proof -
  have parts: "set (sb_partitions b) = set parts" and dist: "distinct (map pb_identity (sb_partitions b))"
    using assms(1) boundary_build_distinct by (auto simp: boundary_build_Inr_iff)
  have inv: "(\<forall>p \<in> set parts. may_apply v lease (db_checkpoints x) p) \<and> checkpoints_ok y
      \<and> (\<forall>p \<in> set parts. applied_offset (db_checkpoints y) (pb_checkpoint v p) = pb_to_inclusive p)
      \<and> (\<forall>q. q \<notin> pb_checkpoint v ` set parts \<longrightarrow> applied_offset (db_checkpoints y) q = applied_offset (db_checkpoints x) q)
      \<and> (\<forall>q. watermark (db_checkpoints y) q = watermark (db_checkpoints x) q)"
    if run: "advance_checkpoints v b lease now' x = (Inr (), y)" and ok: "checkpoints_ok x" for x y now'
    using advance_offsets [OF run [unfolded advance_checkpoints_def] ok dist] unfolding parts by blast
  show ?thesis
  proof (cases "advance_checkpoints v b lease now s")
    case (Pair r t)
    show ?thesis
    proof (cases r)
      case (Inl e)
      have "\<exists>p \<in> set parts. \<not> may_apply v lease (db_checkpoints s) p"
        using advance_loop_total [of "sb_partitions b" v lease s now] assms(2,3) dist Pair Inl
        by (auto simp: advance_checkpoints_def parts)
      then show ?thesis using Pair Inl by (simp add: transaction_def)
    next
      case (Inr u)
      have run: "advance_checkpoints v b lease now s = (Inr (), t)" using Pair Inr by simp
      note fin = inv [OF run assms(3)]
      have "\<exists>e. transaction (advance_checkpoints v b lease now') t = (Inl e, t)" for now'
      proof (cases "fst (advance_checkpoints v b lease now' t)")
        case (Inl e)
        then show ?thesis by (auto simp: transaction_def split: prod.splits)
      next
        case (Inr u')
        have "parts \<noteq> []" using assms(1) by (simp add: boundary_build_Inr_iff)
        then obtain p where p: "p \<in> set parts" using list.set_sel(1) by blast
        have "may_apply v lease (db_checkpoints t) p"
          using inv [of now' t] run_fst [OF Inr] fin p by simp
        then have "applied_offset (db_checkpoints t) (pb_checkpoint v p) = pb_from_exclusive p"
          by (auto simp: may_apply_def applied_offset_def apply_guard_def split: option.splits)
        then show ?thesis using fin p assms(2) by (auto simp: valid_partition_def)
      qed
      then show ?thesis using run fin by (auto simp: transaction_def)
    qed
  qed
qed

definition sample_checkpoint_db :: db where
  "sample_checkpoint_db = empty_db\<lparr>db_checkpoints :=
     [\<lparr>ck_pipeline_version_id = ''v1'', ck_topic = ''t'', ck_partition = 0, ck_last_observed = 9,
       ck_last_contiguous = 6, ck_last_applied = -1, ck_lease_owner = Some ''w'', ck_lease_generation = 3,
       ck_lease_expires_at = None, ck_updated_at = 0\<rparr>]\<rparr>"

theorem advance_checkpoints_exactly_once_witness:
  "boundary_build [PartitionBoundary ''t'' 0 (-1) 4] = Inr sample_boundary
   \<and> (\<exists>t. transaction (advance_checkpoints ''v1'' sample_boundary 3 8) sample_checkpoint_db = (Inr (), t)
        \<and> applied_offset (db_checkpoints t) (''v1'', ''t'', 0) = 4)"
proof -
  have b: "boundary_build [PartitionBoundary ''t'' 0 (-1) 4] = Inr sample_boundary"
    by (simp add: boundary_build_Inr_iff sample_boundary_def)
  have v: "\<forall>p \<in> set [PartitionBoundary ''t'' 0 (-1) 4]. valid_partition p" by code_simp
  have ok: "checkpoints_ok sample_checkpoint_db"
    by (simp add: checkpoints_ok_def sample_checkpoint_db_def table_ok_def keyed_def checkpoint_check_def)
  have run: "fst (transaction (advance_checkpoints ''v1'' sample_boundary 3 8) sample_checkpoint_db) = Inr ()"
    by code_simp
  obtain t where t: "transaction (advance_checkpoints ''v1'' sample_boundary 3 8) sample_checkpoint_db = (Inr (), t)"
    using run_fst [OF run] by blast
  show ?thesis
    using advance_checkpoints_exactly_once [OF b v ok, of "''v1''" 3 8] t b by (simp add: pb_checkpoint_def)
qed

end
