(* ===== verification/Clickhouse_Client.thy ===== *)
theory Clickhouse_Client
  imports Json Py_Datetime
begin

section \<open>The ClickHouse client\<close>

text \<open>
  \<^verbatim>\<open>services/clickhouse_client.py\<close>: identifier validation, quoting, and the requests the client sends. The
  server behind HTTP is a parameter, \<open>hs_post\<close>: it answers a request and may change its state \<open>'c\<close>. The body
  of a good answer is given as text and as the document \<open>response.json()\<close> returns, if it parses.
  Credentials, TLS and timeouts do not appear.
\<close>

subsection \<open>Identifiers and literals\<close>

definition identifier_start :: "char \<Rightarrow> bool" where
  "identifier_start c \<longleftrightarrow> is_upper c \<or> is_lower c \<or> c = CHR ''_''"

definition identifier_char :: "char \<Rightarrow> bool" where
  "identifier_char c \<longleftrightarrow> is_alnum c \<or> c = CHR ''_''"

fun is_identifier :: "string \<Rightarrow> bool" where
  "is_identifier [] = False"
| "is_identifier (c # cs) = (identifier_start c \<and> list_all identifier_char cs)"

definition validate_clickhouse_identifier :: "string \<Rightarrow> string res" where
  "validate_clickhouse_identifier value =
     (let normalized = py_strip value
      in if is_identifier normalized then Inr normalized else Inl (ValueError ''Invalid ClickHouse identifier''))"

definition quote_clickhouse_identifier :: "string \<Rightarrow> string res" where
  "quote_clickhouse_identifier value =
     bind_res (validate_clickhouse_identifier value) (\<lambda>n. Inr (''`'' @ n @ ''`''))"

definition qualified_clickhouse_table :: "string \<Rightarrow> string \<Rightarrow> string res" where
  "qualified_clickhouse_table database table =
     bind_res (quote_clickhouse_identifier database) (\<lambda>d.
     bind_res (quote_clickhouse_identifier table) (\<lambda>t. Inr (py_join ''.'' [d, t])))"

definition quote_clickhouse_string :: "string \<Rightarrow> string" where
  "quote_clickhouse_string value = [sq] @ replace_char sq [bs, sq] (replace_char bs [bs, bs] value) @ [sq]"

subsection \<open>Requests\<close>

record http_request =
  rq_database :: string
  rq_query_id :: "string option"
  rq_body :: string

datatype http_response =
    HttpOk (ok_text: string) (ok_json: "json option")
  | HttpStatus int string
  | HttpTimeout
  | HttpFailure

record 'c http_server =
  hs_post :: "http_request \<Rightarrow> 'c \<Rightarrow> http_response \<times> 'c"

record clickhouse_rows =
  cr_columns :: "string list"
  cr_rows :: "json list list"

definition query_failed :: "int \<Rightarrow> string \<Rightarrow> py_error" where
  "query_failed status body =
     (let reason = py_take 500 (py_join '' '' (py_split (py_strip body)))
      in ClickHouseError ''CLICKHOUSE_QUERY_FAILED''
           (if reason \<noteq> [] then reason else ''ClickHouse returned HTTP '' @ show_int status @ ''.''))"

definition post ::
  "'c http_server \<Rightarrow> string \<Rightarrow> string \<Rightarrow> string option \<Rightarrow> string option \<Rightarrow> ('c, string \<times> json option) op" where
  "post server default_database body database query_id =
     bind_op (lift_res (validate_clickhouse_identifier
        (case database of Some d \<Rightarrow> if d \<noteq> [] then d else default_database | None \<Rightarrow> default_database))) (\<lambda>db_name.
     bind_op (lift_res (case query_id of
         None \<Rightarrow> Inr None
       | Some q \<Rightarrow> (let n = py_strip q in
           if n = [] \<or> py_len n > 255
           then Inl (ValueError ''ClickHouse query_id must contain 1 to 255 characters'') else Inr (Some n)))) (\<lambda>qid.
     (\<lambda>c. case hs_post server \<lparr>rq_database = db_name, rq_query_id = qid, rq_body = body\<rparr> c of
        (HttpOk txt js, c') \<Rightarrow> (Inr (txt, js), c')
      | (HttpTimeout, c') \<Rightarrow>
          (Inl (ClickHouseError ''CLICKHOUSE_TIMEOUT'' ''ClickHouse query exceeded the configured timeout.''), c')
      | (HttpStatus status txt, c') \<Rightarrow> (Inl (query_failed status txt), c')
      | (HttpFailure, c') \<Rightarrow> (Inl (ClickHouseError ''CLICKHOUSE_UNAVAILABLE'' ''ClickHouse is unavailable.''), c'))))"

definition ch_execute ::
  "'c http_server \<Rightarrow> string \<Rightarrow> string \<Rightarrow> string option \<Rightarrow> string option \<Rightarrow> ('c, string) op" where
  "ch_execute server default_database query database query_id =
     bind_op (post server default_database query database query_id) (\<lambda>(txt, _). return_op txt)"

definition rows_of_response :: "json option \<Rightarrow> clickhouse_rows res" where
  "rows_of_response js =
     (case js of
        None \<Rightarrow> Inl (ClickHouseError ''CLICKHOUSE_RESPONSE_INVALID'' ''ClickHouse returned an invalid JSON response.'')
      | Some payload \<Rightarrow>
          (case (map_option (jget ''meta'') (as_dict payload), map_option (jget ''data'') (as_dict payload)) of
             (Some (JList meta), Some (JList data)) \<Rightarrow>
               (let columns = map (\<lambda>d. py_str (por (jget ''name'' d) (JStr ''''))) (List.map_filter as_dict meta)
                in Inr \<lparr>cr_columns = columns,
                        cr_rows = map (\<lambda>d. map (\<lambda>c. jget c d) columns) (List.map_filter as_dict data)\<rparr>)
           | _ \<Rightarrow> Inl (ClickHouseError ''CLICKHOUSE_RESPONSE_INVALID''
                      ''ClickHouse query response is missing meta or data.'')))"

definition ch_query ::
  "'c http_server \<Rightarrow> string \<Rightarrow> string \<Rightarrow> string option \<Rightarrow> ('c, clickhouse_rows) op" where
  "ch_query server default_database query database =
     (let normalized = rstrip_char (CHR '';'') (py_strip query)
      in bind_op (post server default_database (normalized @ [CHR 0x0A] @ ''FORMAT JSON'') database None) (\<lambda>(_, js).
         lift_res (rows_of_response js)))"

definition ch_ping :: "'c http_server \<Rightarrow> string \<Rightarrow> ('c, bool) op" where
  "ch_ping server default_database =
     bind_op (ch_query server default_database ''SELECT 1 AS ok'' None) (\<lambda>r.
       case cr_rows r of
         [] \<Rightarrow> return_op False
       | [] # _ \<Rightarrow> raise_op (IndexError ''list index out of range'')
       | (v # _) # _ \<Rightarrow> bind_op (lift_res (py_int v)) (\<lambda>n. return_op (n = 1)))"

text \<open>\<open>dict\<close> comprehension over the columns: a repeated column keeps its first place and its last value.\<close>

definition row_document :: "string list \<Rightarrow> json list \<Rightarrow> json" where
  "row_document columns values =
     JObj (foldl (\<lambda>d (i, c). jset c (if i < length values then values ! i else JNull) d) [] (enumerate 0 columns))"

definition insert_body :: "string \<Rightarrow> string list \<Rightarrow> json list list \<Rightarrow> string res" where
  "insert_body target columns rows =
     bind_res (map_res quote_clickhouse_identifier columns) (\<lambda>quoted.
       Inr (''INSERT INTO '' @ target @ '' ('' @ py_join '', '' quoted @ '') FORMAT JSONEachRow'' @ [CHR 0x0A]
            @ py_join [CHR 0x0A] (map (\<lambda>r. json_dumps_plain False (row_document columns r)) rows)))"

definition insert_json_rows ::
  "'c http_server \<Rightarrow> string \<Rightarrow> string \<Rightarrow> string \<Rightarrow> string list \<Rightarrow> json list list \<Rightarrow> ('c, int) op" where
  "insert_json_rows server default_database database table columns rows =
     bind_op (lift_res (map_res validate_clickhouse_identifier columns)) (\<lambda>column_names.
     if rows = [] then return_op 0
     else bind_op (lift_res (qualified_clickhouse_table database table)) (\<lambda>target.
          bind_op (lift_res (insert_body target column_names rows)) (\<lambda>body.
          bind_op (post server default_database body (Some database) None) (\<lambda>_.
          return_op (int (length rows))))))"

subsection \<open>Facts\<close>

lemma quote_as_escape:
  "quote_clickhouse_string s =
     [sq] @ concat (map (\<lambda>c. if c = bs then [bs, bs] else if c = sq then [bs, sq] else [c]) s) @ [sq]"
proof -
  have ne: "bs \<noteq> sq" by (simp add: bs_def sq_def)
  have "replace_char sq [bs, sq] (replace_char bs [bs, bs] s) =
      concat (map (\<lambda>c. if c = bs then [bs, bs] else if c = sq then [bs, sq] else [c]) s)"
    using ne by (induction s) (auto simp: replace_char_def)
  then show ?thesis by (simp add: quote_clickhouse_string_def)
qed

text \<open>How ClickHouse reads the rest of a string literal: a backslash escapes, a doubled quote is a quote.\<close>

fun read_literal :: "string \<Rightarrow> (string \<times> string) option" where
  "read_literal [] = None"
| "read_literal (c # cs) =
     (if c = bs then
        (case cs of [] \<Rightarrow> None
         | d # ds \<Rightarrow> if d = bs \<or> d = sq then map_option (apfst (Cons d)) (read_literal ds) else None)
      else if c = sq then
        (case cs of d # ds \<Rightarrow> if d = sq then map_option (apfst (Cons sq)) (read_literal ds) else Some ([], cs)
         | [] \<Rightarrow> Some ([], []))
      else map_option (apfst (Cons c)) (read_literal cs))"

lemma read_literal_escaped:
  assumes "rest = [] \<or> hd rest \<noteq> sq"
  shows "read_literal (concat (map (\<lambda>c. if c = bs then [bs, bs] else if c = sq then [bs, sq] else [c]) s) @ sq # rest)
    = Some (s, rest)"
proof (induction s)
  case Nil
  have "bs \<noteq> sq" by (simp add: bs_def sq_def)
  with assms show ?case by (cases rest) auto
next
  case (Cons c s)
  have "bs \<noteq> sq" by (simp add: bs_def sq_def)
  with Cons show ?case by auto
qed

lemma post_keeps_on_error: "validate_clickhouse_identifier d = Inl e \<Longrightarrow> d \<noteq> [] \<Longrightarrow>
   post server def body (Some d) qid c = (Inl e, c)"
  by (simp add: post_def bind_op_def lift_res_def)

subsection \<open>Properties\<close>

text \<open>Quoting is injection safe: ClickHouse reads a quoted value back as one string literal with exactly that
  value and continues with the text that follows it.\<close>

theorem quoted_string_reads_back:
  assumes "rest = [] \<or> hd rest \<noteq> sq"
  shows "\<exists>body. quote_clickhouse_string s @ rest = sq # body \<and> read_literal body = Some (s, rest)"
  using read_literal_escaped [OF assms, of s] by (simp add: quote_as_escape)

theorem quoted_string_reads_back_witness:
  "\<exists>body. quote_clickhouse_string ([CHR ''a'', sq, bs]) @ '' OR 1'' = sq # body
     \<and> read_literal body = Some ([CHR ''a'', sq, bs], '' OR 1'')"
  by (rule quoted_string_reads_back) (simp add: sq_def)

text \<open>Table names cannot carry SQL: a qualified name exists exactly when both parts, trimmed, are identifiers,
  and it is then the two parts in backquotes, which contain no backquote.\<close>

theorem qualified_table_is_safe:
  "qualified_clickhouse_table d t =
     (if is_identifier (py_strip d) \<and> is_identifier (py_strip t)
      then Inr (''`'' @ py_strip d @ ''`.`'' @ py_strip t @ ''`'')
      else Inl (ValueError ''Invalid ClickHouse identifier''))
   \<and> (is_identifier n \<longrightarrow> CHR ''`'' \<notin> set n)"
proof
  show "qualified_clickhouse_table d t =
     (if is_identifier (py_strip d) \<and> is_identifier (py_strip t)
      then Inr (''`'' @ py_strip d @ ''`.`'' @ py_strip t @ ''`'')
      else Inl (ValueError ''Invalid ClickHouse identifier''))"
    by (simp add: qualified_clickhouse_table_def quote_clickhouse_identifier_def validate_clickhouse_identifier_def Let_def)
  have no: "\<not> identifier_char (CHR ''`'')" "\<not> identifier_start (CHR ''`'')"
    by (simp_all add: identifier_char_def identifier_start_def is_alnum_def is_upper_def is_lower_def is_digit_def char_code_def)
  show "is_identifier n \<longrightarrow> CHR ''`'' \<notin> set n"
    using no by (cases n) (auto simp: list_all_iff)
qed

theorem qualified_table_is_safe_witness:
  "is_identifier ''serving_current_v2'' \<and> CHR ''`'' \<notin> set ''serving_current_v2''"
proof -
  have "is_identifier ''serving_current_v2''" by code_simp
  with qualified_table_is_safe [of "''d''" "''t''" "''serving_current_v2''"] show ?thesis by blast
qed

end
