(* ===== verification/Materializer.thy ===== *)
theory Materializer
  imports Materialization_Repository Clickhouse_Client
begin

section \<open>The materializer\<close>

text \<open>
  \<^verbatim>\<open>realtime/application/materializer.py\<close>: the two-phase run that reserves a materialization in PostgreSQL,
  asks ClickHouse whether its rows are already there, inserts them only if they are not, and records the
  evidence. It works on the pair of the database session and the state of the ClickHouse server.
\<close>

record clickhouse_materialization =
  cm_materialization_id :: string
  cm_source_fingerprint :: string
  cm_clickhouse_query_id :: string
  cm_insert_sql :: string

record materialization_evidence =
  me_materialization_id :: string
  me_source_fingerprint :: string
  me_target_row_count :: int
  me_target_checksum :: string
  me_reconciled :: bool

definition evidence_sql :: "string \<Rightarrow> string \<Rightarrow> string \<Rightarrow> string" where
  "evidence_sql target mid fp =
     ''SELECT count() AS row_count, lower(hex(SHA256(arrayStringConcat(arraySort(groupArray(''
     @ ''concat(serving_key, '' @ [sq] @ '':'' @ [sq] @ '', toString(row_version), '' @ [sq] @ '':'' @ [sq] @ '', payload)''
     @ '')), '' @ [sq, bs] @ ''n'' @ [sq] @ '')))) AS checksum FROM '' @ target
     @ '' WHERE materialization_id = '' @ quote_clickhouse_string mid
     @ '' AND source_fingerprint = '' @ quote_clickhouse_string fp"

definition evidence_of_rows :: "string \<Rightarrow> string \<Rightarrow> json list list \<Rightarrow> materialization_evidence res" where
  "evidence_of_rows mid fp rows =
     (case rows of
        (row_count # checksum # _) # _ \<Rightarrow>
          bind_res (py_int (por row_count (JInt 0))) (\<lambda>n.
            Inr \<lparr>me_materialization_id = mid, me_source_fingerprint = fp, me_target_row_count = n,
                 me_target_checksum = py_str (por checksum (JStr '''')), me_reconciled = False\<rparr>)
      | _ \<Rightarrow> Inl (RuntimeError ''ClickHouse materialization evidence is unavailable''))"

definition evidence ::
  "'c http_server \<Rightarrow> string \<Rightarrow> string \<Rightarrow> string \<Rightarrow> string \<Rightarrow> string \<Rightarrow> ('c, materialization_evidence) op" where
  "evidence server default_database database view mid fp =
     bind_op (lift_res (qualified_clickhouse_table database view)) (\<lambda>target.
     bind_op (ch_query server default_database (evidence_sql target mid fp) (Some database)) (\<lambda>result.
     lift_res (evidence_of_rows mid fp (cr_rows result))))"

text \<open>\<open>getattr(exc, "code", type(exc).__name__)\<close>; SQLAlchemy's integrity errors carry the code \<^verbatim>\<open>gkpj\<close>.\<close>

fun error_code :: "py_error \<Rightarrow> string" where
  "error_code (ValueError _) = ''ValueError''"
| "error_code (RuntimeError _) = ''RuntimeError''"
| "error_code (TypeError _) = ''TypeError''"
| "error_code (IndexError _) = ''IndexError''"
| "error_code (KeyError _) = ''KeyError''"
| "error_code (LookupError _) = ''LookupError''"
| "error_code (IntegrityError _) = ''gkpj''"
| "error_code UnicodeDecodeError = ''UnicodeDecodeError''"
| "error_code DecimalOverflow = ''Overflow''"
| "error_code (KafkaConnectError code) = code"
| "error_code (ClickHouseError code _) = code"

text \<open>Code on the database, and code on ClickHouse, within the pair of both states.\<close>

definition on_db :: "(db, 'a) op \<Rightarrow> (db \<times> 'c, 'a) op" where
  "on_db m = (\<lambda>(s, c). case m s of (r, s') \<Rightarrow> (r, (s', c)))"

definition on_clickhouse :: "('c, 'a) op \<Rightarrow> (db \<times> 'c, 'a) op" where
  "on_clickhouse m = (\<lambda>(s, c). case m c of (r, c') \<Rightarrow> (r, (s, c')))"

lemma on_db_iff [op_elims]: "on_db m sc = (Inr a, tc) \<longleftrightarrow> (\<exists>t. m (fst sc) = (Inr a, t) \<and> tc = (t, snd sc))"
  by (auto simp: on_db_def split: prod.splits)

lemma on_clickhouse_iff [op_elims]:
  "on_clickhouse m sc = (Inr a, tc) \<longleftrightarrow> (\<exists>c. m (snd sc) = (Inr a, c) \<and> tc = (fst sc, c))"
  by (auto simp: on_clickhouse_def split: prod.splits)

definition gather_evidence ::
  "'c http_server \<Rightarrow> string \<Rightarrow> clickhouse_materialization \<Rightarrow> int \<Rightarrow> string \<Rightarrow> string \<Rightarrow> timestamp
    \<Rightarrow> (db \<times> 'c, materialization_evidence \<times> bool) op" where
  "gather_evidence server default_database compiled lease database view now =
     (let mid = cm_materialization_id compiled; fp = cm_source_fingerprint compiled;
          look = on_clickhouse (evidence server default_database database view mid fp)
      in bind_op look (\<lambda>before.
         if 0 < me_target_row_count before
         then bind_op (on_db (mark_reconciling mid lease now)) (\<lambda>ok.
              bind_op (check_op ok (RuntimeError ''materialization reconcile lease is stale'')) (\<lambda>_.
              return_op (before, True)))
         else bind_op (on_clickhouse (ch_execute server default_database (cm_insert_sql compiled) (Some database)
                (Some (cm_clickhouse_query_id compiled)))) (\<lambda>_.
              bind_op look (\<lambda>after. return_op (after, False)))))"

definition run_materialization ::
  "'c http_server \<Rightarrow> string \<Rightarrow> clickhouse_materialization \<Rightarrow> string \<Rightarrow> source_boundary \<Rightarrow> (string \<times> string) list
    \<Rightarrow> int \<Rightarrow> string \<Rightarrow> string \<Rightarrow> timestamp \<Rightarrow> (db \<times> 'c, materialization_evidence) op" where
  "run_materialization server default_database compiled version boundary dims lease database view now =
     (let mid = cm_materialization_id compiled; fp = cm_source_fingerprint compiled
      in bind_op (on_db (reserve mid version boundary fp dims (cm_clickhouse_query_id compiled) lease now)) (\<lambda>reserved.
         bind_op (check_op reserved (RuntimeError ''materialization reservation conflicts with existing identity'')) (\<lambda>_.
         bind_op (on_db (mark_running mid lease now)) (\<lambda>running.
         bind_op (check_op running (RuntimeError ''materialization lease is stale'')) (\<lambda>_.
         bind_op (catch_op (gather_evidence server default_database compiled lease database view now)
             (\<lambda>e. bind_op (on_db (mark_failed mid lease (error_code e) now)) (\<lambda>_. raise_op e))) (\<lambda>(ev, reconciled).
         bind_op (on_db (mark_materialized mid lease (me_target_row_count ev) (me_target_checksum ev) now)) (\<lambda>committed.
         bind_op (check_op committed (RuntimeError ''materialization evidence commit lost its lease'')) (\<lambda>_.
         return_op (ev\<lparr>me_reconciled := reconciled\<rparr>)))))))))"

subsection \<open>The ledger row of a run\<close>

definition held_row :: "clickhouse_materialization \<Rightarrow> string \<Rightarrow> int \<Rightarrow> materialization_row \<Rightarrow> bool" where
  "held_row compiled version lease r \<longleftrightarrow>
     m_id r = cm_materialization_id compiled \<and> materialization_key r = (version, cm_source_fingerprint compiled)
     \<and> m_clickhouse_query_id r = cm_clickhouse_query_id compiled \<and> m_lease_generation r = lease"

definition ledger_row :: "db \<Rightarrow> string \<Rightarrow> materialization_row option" where
  "ledger_row s mid = lookup_key m_id mid (db_materializations s)"

lemma reserve_True_row:
  assumes "reserve (cm_materialization_id m) v b (cm_source_fingerprint m) dims (cm_clickhouse_query_id m) lease now s
      = (Inr True, t)" and "materializations_ok s"
  shows "\<exists>r. ledger_row t (cm_materialization_id m) = Some r \<and> held_row m v lease r"
  using assms(1)
proof (rule reserve_cases)
  fix ms n
  let ?new = "reserved_row (cm_materialization_id m) v b (cm_source_fingerprint m) dims (cm_clickhouse_query_id m) lease now"
  let ?P = "\<lambda>x. materialization_key x = materialization_key ?new \<and> same_reservation ?new x"
  assume t: "t = s\<lparr>db_materializations := ms\<rparr>" and one: "True = (n = 1)"
    and u: "sql_upsert materialization_key materialization_check materialization_unique ?new
       (same_reservation ?new) (bump_retry now) (db_materializations s) = Inr (ms, n)"
  have new: "held_row m v lease ?new" by (simp add: held_row_def reserved_row_def materialization_key_def)
  have "\<exists>r \<in> set ms. held_row m v lease r"
  proof (cases "find (\<lambda>x. materialization_key x = materialization_key ?new) (db_materializations s)")
    case None
    then have "ms = db_materializations s @ [?new]" using u by (auto simp: sql_upsert_def split: if_splits)
    then show ?thesis using new by simp
  next
    case (Some old)
    then have ms: "ms = update_where ?P (bump_retry now) (db_materializations s)"
      and "n = rowcount ?P (db_materializations s)"
      using u by (auto simp: sql_upsert_def sql_update_Inr_iff split: if_splits)
    with one obtain x where x: "x \<in> set (db_materializations s)" "?P x"
      by (metis (mono_tags, lifting) filter_False list.size(3) rowcount_def zero_neq_one)
    then have "bump_retry now x \<in> set ms" by (auto simp: ms in_update_where)
    moreover have "held_row m v lease (bump_retry now x)"
      using x(2) new by (simp add: held_row_def bump_retry_def same_reservation_def materialization_key_def)
    ultimately show ?thesis by blast
  qed
  moreover have "keyed m_id ms"
    using reserve_keeps_ok [OF assms] by (simp add: t materializations_ok_def table_ok_def)
  ultimately show ?thesis using lookup_key_keyed by (fastforce simp: ledger_row_def t held_row_def)
qed

lemma bump_retry_check: "materialization_check r \<Longrightarrow> materialization_check (bump_retry now r)"
  by (simp add: materialization_check_def bump_retry_def)

lemma ledger_row_check: "materializations_ok s \<Longrightarrow> ledger_row s mid = Some r \<Longrightarrow> materialization_check r \<and> r \<in> set (db_materializations s)"
  by (auto simp: ledger_row_def materializations_ok_def table_ok_def dest: lookup_key_Some)

lemma reserve_again:
  assumes "ledger_row s (cm_materialization_id m) = Some r" and "held_row m v lease r" and "materializations_ok s"
  shows "\<exists>t. reserve (cm_materialization_id m) v b (cm_source_fingerprint m) dims (cm_clickhouse_query_id m) lease now s
      = (Inr True, t) \<and> ledger_row t (cm_materialization_id m) = Some (bump_retry now r)"
proof -
  let ?new = "reserved_row (cm_materialization_id m) v b (cm_source_fingerprint m) dims (cm_clickhouse_query_id m) lease now"
  let ?P = "\<lambda>x. materialization_key x = materialization_key ?new \<and> same_reservation ?new x"
  let ?ms = "update_where ?P (bump_retry now) (db_materializations s)"
  have r: "materialization_check r" "r \<in> set (db_materializations s)" using ledger_row_check [OF assms(3,1)] by auto
  have key: "materialization_key r = materialization_key ?new" and P: "?P r"
    using assms(2) by (simp_all add: held_row_def reserved_row_def materialization_key_def same_reservation_def)
  have kk: "keyed materialization_key (db_materializations s)" and ki: "keyed m_id (db_materializations s)"
    using assms(3) by (simp_all add: materializations_ok_def table_ok_def)
  have only: "?P x \<longleftrightarrow> x = r" if "x \<in> set (db_materializations s)" for x
    using keyed_same_row [OF kk that r(2)] key P by metis
  have "find (\<lambda>x. materialization_key x = materialization_key ?new) (db_materializations s) = Some r"
    using find_key_Some [OF kk r(2)] by (simp add: key)
  moreover have "materialization_check ?new"
    using r(1) assms(2) by (simp add: materialization_check_def reserved_row_def held_row_def)
  moreover have "sql_update materialization_check ?P (bump_retry now) (db_materializations s) = Inr (?ms, 1)"
    using only r bump_retry_check keyed_rowcount [OF kk, of ?P "materialization_key ?new"]
    by (auto simp: sql_update_Inr_iff)
  ultimately have run: "reserve (cm_materialization_id m) v b (cm_source_fingerprint m) dims (cm_clickhouse_query_id m) lease now s
      = (Inr True, s\<lparr>db_materializations := ?ms\<rparr>)"
    by (simp add: reserve_def Let_def bind_op_def table_op_def sql_upsert_def return_op_def)
  have "lookup_key m_id (cm_materialization_id m) ?ms =
      map_option (\<lambda>x. if ?P x then bump_retry now x else x) (lookup_key m_id (cm_materialization_id m) (db_materializations s))"
    by (rule lookup_key_update) (simp add: bump_retry_def)
  then have "ledger_row (s\<lparr>db_materializations := ?ms\<rparr>) (cm_materialization_id m) = Some (bump_retry now r)"
    using assms(1) P by (simp add: ledger_row_def)
  with run show ?thesis by blast
qed

context lease_change
begin

lemma call_hit:
  assumes "ledger_row s mid = Some r" and "materializations_ok s" and "m_lease_generation r = lease"
    and "m_status r \<in> set statuses" and "materialization_check (change r)"
  shows "\<exists>t. bind_op (on_materializations (sql_update materialization_check (lease_guard mid lease statuses) change))
      (\<lambda>n. return_op (n = 1)) s = (Inr True, t) \<and> ledger_row t mid = Some (change r)"
proof -
  have keyed: "keyed m_id (db_materializations s)" using assms(2) by (simp add: materializations_ok_def table_ok_def)
  have guard: "lease_guard mid lease statuses r"
    using assms(1,3,4) by (auto simp: lease_guard_def ledger_row_def dest: lookup_key_Some)
  obtain ms where ms: "sql_update materialization_check (lease_guard mid lease statuses) change (db_materializations s)
      = Inr (ms, 1)"
    using succeeds [OF keyed assms(1) [unfolded ledger_row_def] guard assms(5)] by blast
  then show ?thesis using lookup [OF ms, of mid] guard assms(1)
    by (simp add: bind_op_def table_op_def return_op_def ledger_row_def)
qed

lemma call_True:
  assumes "bind_op (on_materializations (sql_update materialization_check (lease_guard mid lease statuses) change))
      (\<lambda>n. return_op (n = 1)) s = (Inr True, t)" and "materializations_ok s"
  shows "\<exists>r. ledger_row s mid = Some r \<and> m_lease_generation r = lease \<and> m_status r \<in> set statuses
    \<and> ledger_row t mid = Some (change r)"
proof -
  obtain ms where ms: "sql_update materialization_check (lease_guard mid lease statuses) change (db_materializations s)
      = Inr (ms, 1)" and t: "t = s\<lparr>db_materializations := ms\<rparr>"
    using assms(1) by (auto simp: op_elims)
  have keyed: "keyed m_id (db_materializations s)" using assms(2) by (simp add: materializations_ok_def table_ok_def)
  obtain r where "lookup_key m_id mid (db_materializations s) = Some r" "lease_guard mid lease statuses r"
      "lookup_key m_id mid ms = Some (change r)"
    using hit [OF ms keyed] by blast
  then show ?thesis by (simp add: t ledger_row_def lease_guard_def)
qed

end

lemmas mark_True = run.call_True [folded mark_running_def] reconcile.call_True [folded mark_reconciling_def]
  materialize.call_True [folded mark_materialized_def] fail.call_True [folded mark_failed_def]

lemmas mark_hit = run.call_hit [folded mark_running_def] reconcile.call_hit [folded mark_reconciling_def]
  materialize.call_hit [folded mark_materialized_def] fail.call_hit [folded mark_failed_def]

subsection \<open>Runs\<close>

lemma catch_reraise_iff [op_elims]:
  "catch_op m (\<lambda>e. bind_op (h e) (\<lambda>_. raise_op e)) s = (Inr a, t) \<longleftrightarrow> m s = (Inr a, t)"
  by (auto simp: catch_op_def bind_op_def raise_op_def split: prod.splits sum.splits)

text \<open>The hypothesis on the server: the evidence query only reads.\<close>

definition reads_only :: "'c http_server \<Rightarrow> string \<Rightarrow> string \<Rightarrow> string \<Rightarrow> clickhouse_materialization \<Rightarrow> bool" where
  "reads_only server default_database database view compiled \<longleftrightarrow>
     (\<forall>c. snd (evidence server default_database database view (cm_materialization_id compiled)
            (cm_source_fingerprint compiled) c) = c)"

text \<open>Evidence is always read from the state that the run leaves behind.\<close>

lemma gather_Inr:
  assumes "gather_evidence server dd m lease database view now (s, c) = (Inr (ev, rec), (t, c'))"
    and "reads_only server dd database view m" and "materializations_ok s"
  shows "evidence server dd database view (cm_materialization_id m) (cm_source_fingerprint m) c' = (Inr ev, c')"
    and "materializations_ok t" and "rec \<Longrightarrow> c' = c"
  using assms unfolding gather_evidence_def Let_def reads_only_def
  by (auto simp: op_elims mark_keeps_ok split: if_splits) (metis snd_conv)+

lemma run_Inr:
  assumes "run_materialization server dd m v b dims lease database view now (s, c) = (Inr ev, (t, c'))"
    and "materializations_ok s"
  obtains s1 s2 s3 ev0 where
    "reserve (cm_materialization_id m) v b (cm_source_fingerprint m) dims (cm_clickhouse_query_id m) lease now s = (Inr True, s1)"
    "mark_running (cm_materialization_id m) lease now s1 = (Inr True, s2)"
    "gather_evidence server dd m lease database view now (s2, c) = (Inr (ev0, me_reconciled ev), (s3, c'))"
    "mark_materialized (cm_materialization_id m) lease (me_target_row_count ev0) (me_target_checksum ev0) now s3 = (Inr True, t)"
    "ev = ev0\<lparr>me_reconciled := me_reconciled ev\<rparr>" "materializations_ok s1" "materializations_ok s2"
proof -
  obtain s1 s2 s3 ev0 rec where
    r: "reserve (cm_materialization_id m) v b (cm_source_fingerprint m) dims (cm_clickhouse_query_id m) lease now s = (Inr True, s1)"
    and run: "mark_running (cm_materialization_id m) lease now s1 = (Inr True, s2)"
    and g: "gather_evidence server dd m lease database view now (s2, c) = (Inr (ev0, rec), (s3, c'))"
    and f: "mark_materialized (cm_materialization_id m) lease (me_target_row_count ev0) (me_target_checksum ev0) now s3 = (Inr True, t)"
    and ev: "ev = ev0\<lparr>me_reconciled := rec\<rparr>"
    using assms(1) unfolding run_materialization_def Let_def by (auto simp: op_elims)
  have "materializations_ok s1" by (rule reserve_keeps_ok [OF r assms(2)])
  moreover from this have "materializations_ok s2" by (rule mark_keeps_ok(1) [OF run])
  ultimately show thesis using that r run g f ev by simp
qed

lemma evidence_of_rows_reconciled: "evidence_of_rows mid fp rows = Inr e \<Longrightarrow> \<not> me_reconciled e"
  by (auto simp: evidence_of_rows_def bind_res_Inr_iff split: list.splits)

lemma evidence_not_reconciled: "evidence server dd database view mid fp c = (Inr e, c') \<Longrightarrow> me_reconciled e = False"
  by (auto simp: evidence_def op_elims dest: evidence_of_rows_reconciled)

lemma gather_row:
  assumes "gather_evidence server dd m lease database view now (s, c) = (Inr (ev, rec), (t, c'))"
    and "materializations_ok s" and "ledger_row s (cm_materialization_id m) = Some r" and "held_row m v lease r"
    and "m_status r = MRunning"
  shows "\<exists>r'. ledger_row t (cm_materialization_id m) = Some r' \<and> held_row m v lease r'"
proof -
  have "t = s \<or> mark_reconciling (cm_materialization_id m) lease now s = (Inr True, t)"
    using assms(1) unfolding gather_evidence_def Let_def by (auto simp: op_elims split: if_splits)
  then show ?thesis
  proof
    assume "t = s" then show ?thesis using assms(3,4) by blast
  next
    assume "mark_reconciling (cm_materialization_id m) lease now s = (Inr True, t)"
    from mark_True(2) [OF this assms(2)] have "ledger_row t (cm_materialization_id m) = Some (set_reconciling now r)"
      using assms(3) by auto
    then show ?thesis using assms(4) by (auto simp: held_row_def set_reconciling_def materialization_key_def)
  qed
qed

lemma run_row:
  assumes "run_materialization server dd m v b dims lease database view now (s, c) = (Inr ev, (t, c'))"
    and "materializations_ok s" and "reads_only server dd database view m"
  shows "\<exists>r. ledger_row t (cm_materialization_id m) = Some r \<and> held_row m v lease r \<and> m_status r = MMaterialized
      \<and> m_target_row_count r = Some (me_target_row_count ev) \<and> m_target_checksum r = Some (me_target_checksum ev)"
    and "evidence server dd database view (cm_materialization_id m) (cm_source_fingerprint m) c'
      = (Inr (ev\<lparr>me_reconciled := False\<rparr>), c')"
    and "materializations_ok t" and "me_reconciled ev \<Longrightarrow> c' = c"
proof -
  let ?mid = "cm_materialization_id m"
  obtain s1 s2 s3 ev0 where
    r: "reserve ?mid v b (cm_source_fingerprint m) dims (cm_clickhouse_query_id m) lease now s = (Inr True, s1)"
    and run: "mark_running ?mid lease now s1 = (Inr True, s2)"
    and g: "gather_evidence server dd m lease database view now (s2, c) = (Inr (ev0, me_reconciled ev), (s3, c'))"
    and f: "mark_materialized ?mid lease (me_target_row_count ev0) (me_target_checksum ev0) now s3 = (Inr True, t)"
    and ev: "ev = ev0\<lparr>me_reconciled := me_reconciled ev\<rparr>" and ok: "materializations_ok s1" "materializations_ok s2"
    by (rule run_Inr [OF assms(1,2)])
  obtain r1 where r1: "ledger_row s1 ?mid = Some r1" "held_row m v lease r1"
    using reserve_True_row [OF r assms(2)] by blast
  have r2: "ledger_row s2 ?mid = Some (set_running now r1)" using mark_True(1) [OF run ok(1)] r1(1) by auto
  have h2: "held_row m v lease (set_running now r1)"
    using r1(2) by (simp add: held_row_def set_running_def materialization_key_def)
  note g' = gather_Inr [OF g assms(3) ok(2)]
  obtain r3 where r3: "ledger_row s3 ?mid = Some r3" "held_row m v lease r3"
    using gather_row [OF g ok(2) r2 h2] by (auto simp: set_running_def)
  have "ledger_row t ?mid = Some (set_materialized (me_target_row_count ev0) (me_target_checksum ev0) now r3)"
    using mark_True(3) [OF f g'(2)] r3(1) by auto
  moreover have "me_target_row_count ev = me_target_row_count ev0" "me_target_checksum ev = me_target_checksum ev0"
    by (subst ev, simp)+
  ultimately show "\<exists>r. ledger_row t ?mid = Some r \<and> held_row m v lease r \<and> m_status r = MMaterialized
      \<and> m_target_row_count r = Some (me_target_row_count ev) \<and> m_target_checksum r = Some (me_target_checksum ev)"
    using r3(2) by (simp add: held_row_def set_materialized_def materialization_key_def)
  have rec0: "me_reconciled ev0 = False" by (rule evidence_not_reconciled [OF g'(1)])
  show "evidence server dd database view ?mid (cm_source_fingerprint m) c' = (Inr (ev\<lparr>me_reconciled := False\<rparr>), c')"
  proof -
    have "ev\<lparr>me_reconciled := False\<rparr> = ev0" by (subst ev) (simp add: rec0 [symmetric])
    with g'(1) show ?thesis by simp
  qed
  show "materializations_ok t" by (rule mark_keeps_ok(3) [OF f g'(2)])
  show "me_reconciled ev \<Longrightarrow> c' = c" by (rule g'(3))
qed

subsection \<open>Properties\<close>

text \<open>A materialization run that returns has recorded what ClickHouse holds: its row is materialized under the
  caller's lease, and the recorded row count and checksum are what the evidence query reads from the state
  the run leaves. The only assumption on the server is that this query does not change it.\<close>

theorem run_records_evidence:
  assumes "run_materialization server dd m v b dims lease database view now (s, c) = (Inr ev, (t, c'))"
    and "materializations_ok s" and "reads_only server dd database view m"
  shows "materializations_ok t
    \<and> (\<exists>r. ledger_row t (cm_materialization_id m) = Some r \<and> m_status r = MMaterialized
         \<and> m_lease_generation r = lease \<and> m_target_row_count r = Some (me_target_row_count ev)
         \<and> m_target_checksum r = Some (me_target_checksum ev))
    \<and> evidence server dd database view (cm_materialization_id m) (cm_source_fingerprint m) c'
        = (Inr (ev\<lparr>me_reconciled := False\<rparr>), c')"
  using run_row [OF assms] by (auto simp: held_row_def)

definition sample_server :: "bool http_server" where
  "sample_server = \<lparr>hs_post = (\<lambda>req inserted.
     if starts_with ''INSERT'' (rq_body req) then (HttpOk [] None, True)
     else (HttpOk [] (Some (JObj [(''meta'', JList [JObj [(''name'', JStr ''row_count'')], JObj [(''name'', JStr ''checksum'')]]),
             (''data'', JList [JObj [(''row_count'', JInt (if inserted then 3 else 0)), (''checksum'', JStr ''sum'')]])])), inserted))\<rparr>"

definition sample_compiled :: clickhouse_materialization where
  "sample_compiled = \<lparr>cm_materialization_id = ''m1'', cm_source_fingerprint = ''fp'', cm_clickhouse_query_id = ''q1'',
     cm_insert_sql = ''INSERT INTO serving SELECT 1''\<rparr>"

definition sample_evidence :: materialization_evidence where
  "sample_evidence = \<lparr>me_materialization_id = ''m1'', me_source_fingerprint = ''fp'', me_target_row_count = 3,
     me_target_checksum = ''sum'', me_reconciled = False\<rparr>"

definition sample_run :: "materialization_evidence res \<times> db \<times> bool" where
  "sample_run = run_materialization sample_server ''d'' sample_compiled ''v1'' sample_boundary [] 3 ''d'' ''view'' 7
     (empty_db, False)"

lemma sample_reads_only: "reads_only sample_server ''d'' ''d'' ''view'' sample_compiled"
proof -
  have "snd (evidence sample_server ''d'' ''d'' ''view'' ''m1'' ''fp'' True) = True"
    and "snd (evidence sample_server ''d'' ''d'' ''view'' ''m1'' ''fp'' False) = False"
    by code_simp+
  then show ?thesis unfolding reads_only_def by (auto simp: sample_compiled_def all_bool_eq)
qed

lemma sample_run_eval: "fst sample_run = Inr sample_evidence \<and> snd (snd sample_run)"
  by code_simp

lemma sample_run_pair:
  "run_materialization sample_server ''d'' sample_compiled ''v1'' sample_boundary [] 3 ''d'' ''view'' 7 (empty_db, False)
   = (Inr sample_evidence, (fst (snd sample_run), True))"
  by (fold sample_run_def) (intro prod_eqI, simp_all add: sample_run_eval)

lemma empty_materializations_ok: "materializations_ok empty_db"
  by (simp add: materializations_ok_def empty_db_def)

theorem run_records_evidence_witness:
  "\<exists>r. ledger_row (fst (snd sample_run)) ''m1'' = Some r \<and> m_status r = MMaterialized \<and> m_target_row_count r = Some 3"
  using run_records_evidence [OF sample_run_pair empty_materializations_ok sample_reads_only]
  by (auto simp: sample_compiled_def sample_evidence_def)

text \<open>Retrying is safe: after a run that found or inserted rows, running the same materialization again under
  the same lease succeeds, returns the same evidence marked as reconciled, and sends no insert: ClickHouse keeps its
  state.\<close>

theorem rerun_inserts_nothing:
  assumes "run_materialization server dd m v b dims lease database view now (s, c) = (Inr ev, (t, c'))"
    and "materializations_ok s" and "reads_only server dd database view m" and "0 < me_target_row_count ev"
  shows "\<exists>u. run_materialization server dd m v b dims lease database view now' (t, c')
     = (Inr (ev\<lparr>me_reconciled := True\<rparr>), (u, c'))"
proof -
  let ?mid = "cm_materialization_id m"
  obtain r where r: "ledger_row t ?mid = Some r" "held_row m v lease r" "m_status r = MMaterialized"
    using run_row(1) [OF assms(1-3)] by blast
  have lr: "m_lease_generation r = lease" using r(2) by (simp add: held_row_def)
  note okt = run_row(3) [OF assms(1-3)]
  have ckr: "materialization_check r" using ledger_row_check [OF okt r(1)] by simp
  obtain u1 where u1: "reserve ?mid v b (cm_source_fingerprint m) dims (cm_clickhouse_query_id m) lease now' t = (Inr True, u1)"
      "ledger_row u1 ?mid = Some (bump_retry now' r)"
    using reserve_again [OF r(1,2) okt] by blast
  have ok1: "materializations_ok u1" by (rule reserve_keeps_ok [OF u1(1) okt])
  obtain u2 where u2: "mark_running ?mid lease now' u1 = (Inr True, u2)"
      "ledger_row u2 ?mid = Some (set_running now' (bump_retry now' r))"
    using mark_hit(1) [OF u1(2) ok1, of lease now'] r lr ckr
    by (auto simp: bump_retry_def running_from_def set_running_def materialization_check_def)
  have ok2: "materializations_ok u2" by (rule mark_keeps_ok(1) [OF u2(1) ok1])
  obtain u3 where u3: "mark_reconciling ?mid lease now' u2 = (Inr True, u3)"
      "ledger_row u3 ?mid = Some (set_reconciling now' (set_running now' (bump_retry now' r)))"
    using mark_hit(2) [OF u2(2) ok2, of lease now'] r lr ckr
    by (auto simp: bump_retry_def reconciling_from_def set_running_def set_reconciling_def materialization_check_def)
  have ok3: "materializations_ok u3" by (rule mark_keeps_ok(2) [OF u3(1) ok2])
  obtain u4 where u4: "mark_materialized ?mid lease (me_target_row_count ev) (me_target_checksum ev) now' u3 = (Inr True, u4)"
    using mark_hit(3) [OF u3(2) ok3, of lease "me_target_row_count ev" "me_target_checksum ev" now'] r lr ckr assms(4)
    by (auto simp: bump_retry_def materialized_from_def set_running_def set_reconciling_def set_materialized_def
        materialization_check_def)
  note look = run_row(2) [OF assms(1-3)]
  show ?thesis
    by (intro exI [of _ u4], unfold run_materialization_def gather_evidence_def Let_def)
       (simp add: bind_op_def catch_op_def on_db_def on_clickhouse_def check_op_def return_op_def u1 u2 u3 u4 look assms(4))
qed

theorem rerun_inserts_nothing_witness:
  "\<exists>u. run_materialization sample_server ''d'' sample_compiled ''v1'' sample_boundary [] 3 ''d'' ''view'' 9
      (fst (snd sample_run), True) = (Inr (sample_evidence\<lparr>me_reconciled := True\<rparr>), (u, True))"
  by (rule rerun_inserts_nothing [OF sample_run_pair empty_materializations_ok sample_reads_only])
     (simp add: sample_evidence_def)

text \<open>A published materialization is never run again: the call raises and ClickHouse is not contacted.\<close>

theorem published_is_not_rerun:
  assumes "ledger_row s (cm_materialization_id m) = Some r" and "held_row m v lease r" and "m_status r = MPublished"
    and "materializations_ok s"
  shows "\<exists>t. run_materialization server dd m v b dims lease database view now (s, c)
      = (Inl (RuntimeError ''materialization lease is stale''), (t, c))
     \<and> (\<exists>r'. ledger_row t (cm_materialization_id m) = Some r' \<and> m_status r' = MPublished)"
proof -
  let ?mid = "cm_materialization_id m"
  obtain t where t: "reserve ?mid v b (cm_source_fingerprint m) dims (cm_clickhouse_query_id m) lease now s = (Inr True, t)"
      "ledger_row t ?mid = Some (bump_retry now r)"
    using reserve_again [OF assms(1,2,4)] by blast
  have ok: "materializations_ok t" by (rule reserve_keeps_ok [OF t(1) assms(4)])
  have none: "\<not> lease_guard ?mid lease running_from x" if "x \<in> set (db_materializations t)" for x
  proof
    assume "lease_guard ?mid lease running_from x"
    then have "x = bump_retry now r"
      using lookup_key_keyed [of m_id "db_materializations t" x] that t(2) ok
      by (simp add: lease_guard_def ledger_row_def materializations_ok_def table_ok_def)
    then show False using \<open>lease_guard ?mid lease running_from x\<close> assms(3)
      by (simp add: lease_guard_def bump_retry_def running_from_def)
  qed
  then have "mark_running ?mid lease now t = (Inr False, t)"
    by (simp add: mark_running_def bind_op_def table_op_def return_op_def sql_update_def update_where_id
        rowcount_def filter_empty_conv)
  then show ?thesis using t assms(3)
    by (intro exI [of _ t]) (simp add: run_materialization_def Let_def bind_op_def on_db_def check_op_def
        return_op_def raise_op_def bump_retry_def)
qed

definition sample_published_row :: materialization_row where
  "sample_published_row = (reserved_row ''m1'' ''v1'' sample_boundary ''fp'' [] ''q1'' 3 7)\<lparr>m_status := MPublished,
     m_target_row_count := Some 3, m_target_checksum := Some ''sum'', m_committed_at := Some 8, m_published_revision := Some 1\<rparr>"

theorem published_is_not_rerun_witness:
  "\<exists>t. run_materialization sample_server ''d'' sample_compiled ''v1'' sample_boundary [] 3 ''d'' ''view'' 9
      (empty_db\<lparr>db_materializations := [sample_published_row]\<rparr>, False)
      = (Inl (RuntimeError ''materialization lease is stale''), (t, False))"
proof -
  let ?s = "empty_db\<lparr>db_materializations := [sample_published_row]\<rparr>"
  have row: "ledger_row ?s (cm_materialization_id sample_compiled) = Some sample_published_row"
    by (simp add: ledger_row_def lookup_key_def sample_published_row_def reserved_row_def sample_compiled_def)
  have held: "held_row sample_compiled ''v1'' 3 sample_published_row"
    by (simp add: held_row_def sample_published_row_def reserved_row_def sample_compiled_def materialization_key_def)
  have st: "m_status sample_published_row = MPublished" by (simp add: sample_published_row_def)
  have ok: "materializations_ok ?s"
    by (simp add: materializations_ok_def table_ok_def keyed_def sample_published_row_def reserved_row_def
        materialization_check_def)
  show ?thesis using published_is_not_rerun [OF row held st ok, of sample_server "''d''" sample_boundary "[]" "''d''" "''view''" 9 False]
    by blast
qed

end
