(* ===== verification/Dimension.thy ===== *)
theory Dimension
  imports Receipt Clickhouse_Client
begin

section \<open>Dimension versions and late repairs\<close>

text \<open>
  \<^verbatim>\<open>realtime/domain/dimension.py\<close>, \<^verbatim>\<open>realtime/domain/late_repair.py\<close> and
  \<^verbatim>\<open>realtime/application/dimension_publish_worker.py\<close>: the validated, ordered and hashed plan of a dimension
  version, the retry schedule of events that arrived before their dimension, and the worker that sends a
  plan to ClickHouse.
\<close>

subsection \<open>Rows and plans\<close>

record dimension_row =
  dr_key :: string
  dr_payload :: dict
  dr_valid_from :: "py_datetime option"
  dr_valid_to :: "py_datetime option"
  dr_row_version :: int

definition dimension_row_init ::
  "string \<Rightarrow> dict \<Rightarrow> py_datetime option \<Rightarrow> py_datetime option \<Rightarrow> int \<Rightarrow> dimension_row res" where
  "dimension_row_init k payload valid_from valid_to row_version =
     (if blank k \<or> py_len k > 2000 then Inl (ValueError ''dimension key must be bounded and non-empty'')
      else if row_version < 1 then Inl (ValueError ''row_version must be positive'')
      else Inr \<lparr>dr_key = k, dr_payload = payload, dr_valid_from = valid_from, dr_valid_to = valid_to,
                dr_row_version = row_version\<rparr>)"

definition canonical_payload :: "dimension_row \<Rightarrow> string" where
  "canonical_payload r = json_dumps False (JObj (dr_payload r))"

record dimension_plan =
  dp_semantics :: string
  dp_rows :: "dimension_row list"
  dp_row_count :: int
  dp_checksum :: string

text \<open>The instants \<open>_utc(valid_from)\<close> and \<open>_utc(valid_to)\<close>.\<close>

definition row_start :: "dimension_row \<Rightarrow> timestamp option" where
  "row_start r = map_option utc_instant (dr_valid_from r)"

definition row_end :: "dimension_row \<Rightarrow> timestamp option" where
  "row_end r = map_option utc_instant (dr_valid_to r)"

definition row_order :: "dimension_row \<Rightarrow> string \<times> timestamp \<times> int" where
  "row_order r = (dr_key r, (case row_start r of None \<Rightarrow> utc_instant datetime_min_utc | Some t \<Rightarrow> t), dr_row_version r)"

fun validate_temporal_intervals :: "(string \<rightharpoonup> dimension_row) \<Rightarrow> dimension_row list \<Rightarrow> unit res" where
  "validate_temporal_intervals previous_by_key [] = Inr ()"
| "validate_temporal_intervals previous_by_key (item # rows) =
     (case row_start item of
        None \<Rightarrow> Inl (ValueError ''temporal dimension rows require valid_from'')
      | Some start \<Rightarrow>
          if (case row_end item of None \<Rightarrow> False | Some e \<Rightarrow> e \<le> start)
          then Inl (ValueError ''temporal interval must be half-open with valid_to after valid_from'')
          else if (case previous_by_key (dr_key item) of None \<Rightarrow> False
                   | Some previous \<Rightarrow> (case row_end previous of None \<Rightarrow> True | Some pe \<Rightarrow> start < pe))
          then Inl (ValueError (''temporal dimension intervals overlap for key '' @ dr_key item))
          else validate_temporal_intervals (previous_by_key(dr_key item \<mapsto> item)) rows)"

definition dimension_document :: "dimension_row \<Rightarrow> json" where
  "dimension_document r =
     JObj [(''key'', JStr (dr_key r)), (''payload'', JObj (dr_payload r)),
           (''validFrom'', of_opt_str (map_option isoformat (dr_valid_from r))),
           (''validTo'', of_opt_str (map_option isoformat (dr_valid_to r))),
           (''rowVersion'', JInt (dr_row_version r))]"

definition plan_checksum :: "dimension_row list \<Rightarrow> string" where
  "plan_checksum rows = sha256_hex (concat (map (\<lambda>r. json_dumps True (dimension_document r) @ [CHR 0x0A]) rows))"

definition build_dimension_plan :: "string \<Rightarrow> dimension_row list \<Rightarrow> dimension_plan res" where
  "build_dimension_plan semantics rows =
     (let normalized = sort_key row_order rows
      in if semantics \<notin> {''current'', ''temporal''}
           then Inl (ValueError ''dimension semantics must be current or temporal'')
         else bind_res
           (if semantics = ''current''
            then if \<not> distinct (map dr_key normalized)
                   then Inl (ValueError ''current dimension keys must be unique within a version'')
                 else if \<exists>r \<in> set normalized. dr_valid_from r \<noteq> None \<or> dr_valid_to r \<noteq> None
                   then Inl (ValueError ''current dimension rows cannot contain temporal bounds'')
                 else Inr ()
            else validate_temporal_intervals (\<lambda>_. None) normalized)
           (\<lambda>_. Inr \<lparr>dp_semantics = semantics, dp_rows = normalized, dp_row_count = int (length normalized),
                     dp_checksum = plan_checksum normalized\<rparr>))"

definition default_missing_policy :: "string \<Rightarrow> string res" where
  "default_missing_policy join_type =
     (let normalized = py_upper (py_strip join_type)
      in if normalized = ''INNER'' then Inr ''hold_and_repair''
         else if normalized = ''LEFT'' then Inr ''publish_null_then_correct''
         else Inl (ValueError ''only INNER and LEFT JOIN missing policies are supported''))"

subsection \<open>Late repairs\<close>

datatype repair_status = RepairPending | RepairDue | RepairExpired

record repair_decision =
  rd_status :: repair_status
  rd_next_retry_at :: "timestamp option"
  rd_publish_null :: bool
  rd_correction_generation :: int

definition plan_late_repair ::
  "string \<Rightarrow> timestamp \<Rightarrow> timestamp \<Rightarrow> int \<Rightarrow> int \<Rightarrow> timestamp \<Rightarrow> repair_decision res" where
  "plan_late_repair policy first_seen_at now retry_count generation repair_window =
     (if retry_count < 0 \<or> generation < 0 then Inl (ValueError ''repair counters cannot be negative'')
      else let null_first = (policy = ''publish_null_then_correct'')
      in if first_seen_at + repair_window \<le> now
         then Inr \<lparr>rd_status = RepairExpired, rd_next_retry_at = None, rd_publish_null = null_first,
                   rd_correction_generation = generation\<rparr>
         else let delay_seconds = min 600 (2 ^ nat (min retry_count 10))
         in Inr \<lparr>rd_status = (if retry_count = 0 then RepairDue else RepairPending),
                 rd_next_retry_at = Some (now + seconds delay_seconds), rd_publish_null = null_first,
                 rd_correction_generation = generation + (if null_first then 1 else 0)\<rparr>)"

subsection \<open>The publish worker\<close>

record dimension_publish_evidence =
  de_row_count :: int
  de_checksum :: string
  de_physical_table :: string

definition current_columns :: "string list" where
  "current_columns = [''scope_id'', ''dimension_dataset_id'', ''dimension_version_id'', ''dimension_key'',
     ''payload'', ''row_version'']"

definition temporal_columns :: "string list" where
  "temporal_columns = [''scope_id'', ''dimension_dataset_id'', ''dimension_version_id'', ''dimension_key'',
     ''payload'', ''valid_from'', ''valid_to'', ''row_version'']"

definition dimension_values :: "bool \<Rightarrow> string \<Rightarrow> string \<Rightarrow> string \<Rightarrow> dimension_row \<Rightarrow> json list" where
  "dimension_values current scope_id dataset_id version_id r =
     [JStr scope_id, JStr dataset_id, JStr version_id, JStr (dr_key r), JStr (canonical_payload r)]
     @ (if current then [] else
          [of_opt_str (map_option isoformat_any (dr_valid_from r)), of_opt_str (map_option isoformat_any (dr_valid_to r))])
     @ [JInt (dr_row_version r)]"

definition publish_dimension ::
  "'c http_server \<Rightarrow> string \<Rightarrow> string \<Rightarrow> string \<Rightarrow> string \<Rightarrow> string \<Rightarrow> string \<Rightarrow> dimension_row list
    \<Rightarrow> ('c, dimension_publish_evidence) op" where
  "publish_dimension server default_database database scope_id dataset_id version_id semantics rows =
     bind_op (check_op (scope_id = ''deployment'') (ValueError ''dimension scope must be deployment'')) (\<lambda>_.
     bind_op (lift_res (build_dimension_plan semantics rows)) (\<lambda>plan.
     let current = (semantics = ''current'');
         table = (if current then ''dimension_current_v2'' else ''dimension_temporal_v2'');
         columns = (if current then current_columns else temporal_columns);
         values = map (dimension_values current scope_id dataset_id version_id) (dp_rows plan)
     in bind_op (insert_json_rows server default_database database table columns values) (\<lambda>inserted.
        bind_op (check_op (inserted = dp_row_count plan)
          (RuntimeError ''dimension insert count does not match validated plan'')) (\<lambda>_.
        return_op \<lparr>de_row_count = dp_row_count plan, de_checksum = dp_checksum plan, de_physical_table = table\<rparr>))))"

subsection \<open>Temporal intervals\<close>

text \<open>The row is in force at an instant: \<open>valid_from <= t < valid_to\<close>.\<close>

definition in_force :: "timestamp \<Rightarrow> dimension_row \<Rightarrow> bool" where
  "in_force t r \<longleftrightarrow> (case row_start r of None \<Rightarrow> False | Some a \<Rightarrow> a \<le> t)
     \<and> (case row_end r of None \<Rightarrow> True | Some e \<Rightarrow> t < e)"

definition ends_before :: "dimension_row \<Rightarrow> dimension_row \<Rightarrow> bool" where
  "ends_before p r \<longleftrightarrow> (\<exists>e a. row_end p = Some e \<and> row_start r = Some a \<and> e \<le> a)"

definition interval_ok :: "dimension_row \<Rightarrow> bool" where
  "interval_ok r \<longleftrightarrow> (\<exists>a. row_start r = Some a \<and> (case row_end r of None \<Rightarrow> True | Some e \<Rightarrow> a < e))"

lemma validate_step:
  "validate_temporal_intervals prev (r # rows) = Inr () \<longleftrightarrow>
     interval_ok r \<and> (case prev (dr_key r) of None \<Rightarrow> True | Some p \<Rightarrow> ends_before p r)
     \<and> validate_temporal_intervals (prev(dr_key r \<mapsto> r)) rows = Inr ()"
  by (auto simp: interval_ok_def ends_before_def not_le not_less split: option.splits)

declare validate_temporal_intervals.simps(2) [simp del]

text \<open>Validation compares each row with the previous one of its key; by transitivity all pairs are apart.\<close>

lemma validate_all_apart:
  assumes "validate_temporal_intervals prev rows = Inr ()"
    and "\<And>k p. prev k = Some p \<Longrightarrow> dr_key p = k"
  shows "(\<forall>r \<in> set rows. interval_ok r)
    \<and> (\<forall>r \<in> set rows. \<forall>p. prev (dr_key r) = Some p \<longrightarrow> ends_before p r)
    \<and> sorted_wrt (\<lambda>p r. dr_key p = dr_key r \<longrightarrow> ends_before p r) rows"
  using assms
proof (induction rows arbitrary: prev)
  case Nil
  then show ?case by simp
next
  case (Cons x rows)
  have ok: "interval_ok x" and first: "\<And>p. prev (dr_key x) = Some p \<Longrightarrow> ends_before p x"
    and rest: "validate_temporal_intervals (prev(dr_key x \<mapsto> x)) rows = Inr ()"
    using Cons.prems(1) by (auto simp: validate_step split: option.splits)
  have "(prev(dr_key x \<mapsto> x)) k = Some p \<Longrightarrow> dr_key p = k" for k p
    using Cons.prems(2) by (auto split: if_splits)
  note IH = Cons.IH [OF rest this]
  have after: "ends_before x r" if "r \<in> set rows" "dr_key r = dr_key x" for r
    using IH that by auto
  have trans: "ends_before p r" if "ends_before p x" "ends_before x r" for p r
    using that ok by (auto simp: ends_before_def interval_ok_def)
  show ?case
  proof (intro conjI ballI allI impI)
    show "interval_ok r" if "r \<in> set (x # rows)" for r using that IH ok by auto
    show "ends_before p r" if "r \<in> set (x # rows)" "prev (dr_key r) = Some p" for r p
      using that IH first after trans by (cases "r = x"; cases "dr_key r = dr_key x") auto
    show "sorted_wrt (\<lambda>p r. dr_key p = dr_key r \<longrightarrow> ends_before p r) (x # rows)"
      using IH after by auto
  qed
qed

lemma ends_before_not_both: "ends_before p r \<Longrightarrow> \<not> (in_force t p \<and> in_force t r)"
  by (auto simp: ends_before_def in_force_def)

lemma at_most_one_in_force:
  assumes "sorted_wrt (\<lambda>p r. dr_key p = dr_key r \<longrightarrow> ends_before p r) rows"
  shows "length (filter (\<lambda>r. dr_key r = k \<and> in_force t r) rows) \<le> 1"
  using assms
proof (induction rows)
  case (Cons x rows)
  show ?case
  proof (cases "dr_key x = k \<and> in_force t x")
    case True
    then have "filter (\<lambda>r. dr_key r = k \<and> in_force t r) rows = []"
      using Cons.prems ends_before_not_both by (auto simp: filter_empty_conv)
    then show ?thesis by simp
  next
    case False
    then show ?thesis using Cons by auto
  qed
qed simp

lemma apart_distinct_order:
  assumes "sorted_wrt (\<lambda>p r. dr_key p = dr_key r \<longrightarrow> ends_before p r) rows" and "\<forall>r \<in> set rows. interval_ok r"
  shows "distinct (map row_order rows)"
  using assms
proof (induction rows)
  case (Cons x rows)
  have "row_order x \<noteq> row_order r" if r: "r \<in> set rows" for r
  proof
    assume eq: "row_order x = row_order r"
    have "interval_ok x" "interval_ok r" using Cons.prems(2) r by simp_all
    then obtain a b where ab: "row_start x = Some a" "row_start r = Some b" "\<And>e. row_end x = Some e \<Longrightarrow> a < e"
      by (auto simp: interval_ok_def split: option.splits)
    then have "dr_key x = dr_key r" and "a = b" using eq by (auto simp: row_order_def)
    moreover from this have "ends_before x r" using Cons.prems(1) r by simp
    ultimately show False using ab by (auto simp: ends_before_def)
  qed
  then show ?case using Cons by auto
qed simp

text \<open>A list whose sort keys are distinct is sorted in one way, whatever its order.\<close>

lemma sort_key_perm:
  assumes "mset xs = mset ys" and "distinct (map f xs)"
  shows "sort_key f xs = sort_key f ys"
proof (rule properties_for_sort_key)
  show "mset (sort_key f ys) = mset xs" using assms(1) by simp
  show "sorted (map f (sort_key f ys))" by simp
  have single: "filter (\<lambda>x. f k = f x) zs = [k]" if "k \<in> set zs" "distinct (map f zs)" for k and zs :: "'a list"
    using that by (induction zs) (auto simp: filter_empty_conv image_iff)
  fix k assume "k \<in> set (sort_key f ys)"
  then have "k \<in> set ys" "k \<in> set xs" using mset_eq_setD [OF assms(1)] by auto
  moreover have "distinct (map f (sort_key f ys))"
    using assms by (metis mset_eq_imp_distinct_iff mset_map mset_sort)
  ultimately show "filter (\<lambda>x. f k = f x) (sort_key f ys) = filter (\<lambda>x. f k = f x) xs"
    using single assms(2) by simp
qed

lemma plan_Inr:
  assumes "build_dimension_plan sem rows = Inr plan"
  shows "dp_rows plan = sort_key row_order rows" and "distinct (map row_order (dp_rows plan))"
    and "dp_row_count plan = int (length rows)" and "dp_checksum plan = plan_checksum (dp_rows plan)"
    and "dp_semantics plan = sem"
    and "sem = ''temporal'' \<Longrightarrow> (\<forall>r \<in> set (dp_rows plan). interval_ok r)
      \<and> sorted_wrt (\<lambda>p r. dr_key p = dr_key r \<longrightarrow> ends_before p r) (dp_rows plan)"
    and "sem = ''current'' \<Longrightarrow> distinct (map dr_key (dp_rows plan))"
proof -
  show rows: "dp_rows plan = sort_key row_order rows" and "dp_row_count plan = int (length rows)"
    and "dp_checksum plan = plan_checksum (dp_rows plan)" and "dp_semantics plan = sem"
    using assms by (auto simp: build_dimension_plan_def Let_def bind_res_Inr_iff split: if_splits)
  show current: "distinct (map dr_key (dp_rows plan))" if "sem = ''current''"
    using assms that by (auto simp: build_dimension_plan_def Let_def bind_res_Inr_iff split: if_splits)
  show temporal: "(\<forall>r \<in> set (dp_rows plan). interval_ok r)
      \<and> sorted_wrt (\<lambda>p r. dr_key p = dr_key r \<longrightarrow> ends_before p r) (dp_rows plan)" if "sem = ''temporal''"
  proof -
    have "validate_temporal_intervals (\<lambda>_. None) (dp_rows plan) = Inr ()"
      using assms that by (auto simp: build_dimension_plan_def Let_def bind_res_Inr_iff split: if_splits)
    from validate_all_apart [OF this] show ?thesis by simp
  qed
  have "sem = ''current'' \<or> sem = ''temporal''"
    using assms by (auto simp: build_dimension_plan_def Let_def split: if_splits)
  then show "distinct (map row_order (dp_rows plan))"
  proof
    assume "sem = ''current''"
    from current [OF this] have "distinct (map (fst \<circ> row_order) (dp_rows plan))"
      by (simp add: row_order_def comp_def)
    then show ?thesis by (metis distinct_map map_map)
  next
    assume "sem = ''temporal''"
    then show ?thesis using temporal apart_distinct_order by blast
  qed
qed

subsection \<open>Properties\<close>

text \<open>A dimension plan does not depend on the order its rows arrive in: any reordering gives the same rows,
  count and checksum.\<close>

theorem dimension_plan_order_independent:
  assumes "build_dimension_plan semantics rows = Inr plan" and "mset rows' = mset rows"
  shows "build_dimension_plan semantics rows' = Inr plan"
proof -
  have "distinct (map row_order rows)"
    using plan_Inr(1,2) [OF assms(1)] by (metis mset_eq_imp_distinct_iff mset_map mset_sort)
  then have "sort_key row_order rows' = sort_key row_order rows"
    using sort_key_perm assms(2) by metis
  then have "build_dimension_plan semantics rows' = build_dimension_plan semantics rows"
    by (simp only: build_dimension_plan_def)
  with assms(1) show ?thesis by simp
qed

definition sample_row :: "string \<Rightarrow> int \<Rightarrow> int option \<Rightarrow> dimension_row" where
  "sample_row k a e = \<lparr>dr_key = k, dr_payload = [], dr_valid_from = Some (Datetime a None),
     dr_valid_to = map_option (\<lambda>t. Datetime t None) e, dr_row_version = 1\<rparr>"

lemma sample_plan:
  "\<exists>plan. build_dimension_plan ''temporal'' [sample_row ''k'' 5 None, sample_row ''k'' 0 (Some 5)] = Inr plan"
  by (simp add: build_dimension_plan_def sample_row_def row_order_def row_start_def row_end_def utc_instant_def
      validate_step interval_ok_def ends_before_def bind_res_def validate_temporal_intervals.simps(2) Let_def)

theorem dimension_plan_order_independent_witness:
  "\<exists>plan. build_dimension_plan ''temporal'' [sample_row ''k'' 5 None, sample_row ''k'' 0 (Some 5)] = Inr plan
     \<and> build_dimension_plan ''temporal'' [sample_row ''k'' 0 (Some 5), sample_row ''k'' 5 None] = Inr plan"
  using sample_plan dimension_plan_order_independent
    [of "''temporal''" "[sample_row ''k'' 5 None, sample_row ''k'' 0 (Some 5)]" _
        "[sample_row ''k'' 0 (Some 5), sample_row ''k'' 5 None]"] by (metis add_mset_commute mset.simps)

text \<open>Temporal lookups are unambiguous: in a temporal plan every row is a non-empty half-open interval, and at
  any instant at most one row of a key is in force.\<close>

theorem temporal_plan_unambiguous:
  assumes "build_dimension_plan ''temporal'' rows = Inr plan"
  shows "(\<forall>r \<in> set rows. interval_ok r)
    \<and> length (filter (\<lambda>r. dr_key r = k \<and> in_force t r) (dp_rows plan)) \<le> 1"
  using plan_Inr(1,6) [OF assms] at_most_one_in_force by simp

theorem temporal_plan_unambiguous_witness:
  "\<exists>plan. build_dimension_plan ''temporal'' [sample_row ''k'' 5 None, sample_row ''k'' 0 (Some 5)] = Inr plan
     \<and> length (filter (\<lambda>r. dr_key r = ''k'' \<and> in_force 5 r) (dp_rows plan)) \<le> 1"
  using sample_plan temporal_plan_unambiguous by blast

text \<open>Late repairs end and never busy-loop: a decision expires exactly when the repair window has passed and
  then schedules nothing; otherwise the next retry is between 1 and 600 seconds ahead, doubling with each retry,
  and only the publish-null policy raises the correction generation, by one.\<close>

theorem late_repair_bounded:
  assumes "plan_late_repair policy first_seen now n g window = Inr d"
  shows "(rd_status d = RepairExpired \<longleftrightarrow> first_seen + window \<le> now)
    \<and> (case rd_next_retry_at d of
         None \<Rightarrow> rd_status d = RepairExpired
       | Some t \<Rightarrow> rd_status d \<noteq> RepairExpired \<and> now + seconds 1 \<le> t \<and> t \<le> now + seconds 600
           \<and> (n \<le> 9 \<longrightarrow> t = now + seconds (2 ^ nat n)))
    \<and> rd_correction_generation d =
        (if rd_publish_null d \<and> rd_status d \<noteq> RepairExpired then g + 1 else g)"
proof -
  have small: "(2::int) ^ nat n \<le> 512" if "n \<le> 9"
    using power_increasing [of "nat n" 9 "2::int"] that by simp
  have one: "1 \<le> (2::int) ^ k" for k by simp
  show ?thesis
    using assms small one [of "nat (min n 10)"]
    by (auto simp: plan_late_repair_def Let_def seconds_def min_def split: if_splits)
qed

theorem late_repair_bounded_witness:
  "\<exists>d. plan_late_repair ''hold_and_repair'' 0 (seconds 10) 3 0 (seconds 86400) = Inr d
     \<and> rd_next_retry_at d = Some (seconds 18)"
proof -
  obtain d where d: "plan_late_repair ''hold_and_repair'' 0 (seconds 10) 3 0 (seconds 86400) = Inr d"
    by (simp add: plan_late_repair_def seconds_def)
  show ?thesis using late_repair_bounded [OF d] d by (auto simp: seconds_def split: option.splits)
qed

text \<open>The publish worker returns the count and checksum of the validated plan and only after the server accepted
  exactly that many rows; a plan that is not valid, or another scope, is refused before ClickHouse is contacted.\<close>

theorem publish_dimension_matches_plan:
  "case publish_dimension server dd database scope dataset version semantics rows c of
     (Inr ev, c') \<Rightarrow> (\<exists>plan. build_dimension_plan semantics rows = Inr plan \<and> scope = ''deployment''
        \<and> de_row_count ev = int (length rows) \<and> de_checksum ev = dp_checksum plan
        \<and> de_physical_table ev = (if semantics = ''current'' then ''dimension_current_v2'' else ''dimension_temporal_v2''))
   | (Inl e, c') \<Rightarrow> scope \<noteq> ''deployment'' \<or> (\<exists>x. build_dimension_plan semantics rows = Inl x) \<longrightarrow> c' = c"
  unfolding publish_dimension_def
  by (auto simp: Let_def bind_op_def check_op_def lift_res_def return_op_def raise_op_def
      plan_Inr(3) split: prod.splits sum.splits if_splits)

theorem publish_dimension_matches_plan_witness:
  "publish_dimension \<lparr>hs_post = (\<lambda>_ c. (HttpOk [] None, c + 1))\<rparr> ''d'' ''d'' ''tenant'' ''ds'' ''v'' ''current'' [] (0::int)
     = (Inl (ValueError ''dimension scope must be deployment''), 0)"
  using publish_dimension_matches_plan [where server = "\<lparr>hs_post = (\<lambda>_ c. (HttpOk [] None, c + 1))\<rparr>" and dd = "''d''"
      and database = "''d''" and scope = "''tenant''" and dataset = "''ds''" and version = "''v''"
      and semantics = "''current''" and rows = "[]" and c = "0::int"]
  by (simp add: publish_dimension_def bind_op_def check_op_def raise_op_def)

end
