(* ===== verification/Dimension_Repository.thy ===== *)
theory Dimension_Repository
  imports Receipt_Repository Dimension
begin

section \<open>The dimension ledger\<close>

text \<open>
  \<^verbatim>\<open>realtime/repositories/dimension_repository.py\<close>: activating a dimension version in place of the active one,
  and the queue of events whose dimension was missing.
\<close>

abbreviation on_dimensions ::
  "(dimension_version_row list \<Rightarrow> (dimension_version_row list \<times> nat) res) \<Rightarrow> (db, nat) op" where
  "on_dimensions \<equiv> table_op db_dimensions (\<lambda>rows s. s\<lparr>db_dimensions := rows\<rparr>)"

abbreviation on_unmatched ::
  "(unmatched_row list \<Rightarrow> (unmatched_row list \<times> nat) res) \<Rightarrow> (db, nat) op" where
  "on_unmatched \<equiv> table_op db_unmatched (\<lambda>rows s. s\<lparr>db_unmatched := rows\<rparr>)"

text \<open>The partial unique index: one active version per scope and dimension dataset.\<close>

definition dv_dataset :: "dimension_version_row \<Rightarrow> string \<times> string" where
  "dv_dataset d = (dv_scope_id d, dv_dataset_id d)"

definition active_index :: "dimension_version_row list \<Rightarrow> bool" where
  "active_index rows \<longleftrightarrow> distinct (map dv_dataset (filter (\<lambda>d. dv_status d = DActive) rows))"

definition sql_update_indexed ::
  "('r list \<Rightarrow> bool) \<Rightarrow> ('r \<Rightarrow> bool) \<Rightarrow> ('r \<Rightarrow> bool) \<Rightarrow> ('r \<Rightarrow> 'r) \<Rightarrow> 'r list \<Rightarrow> ('r list \<times> nat) res" where
  "sql_update_indexed idx ck P f rows =
     bind_res (sql_update ck P f rows) (\<lambda>(rows', n). if idx rows' then Inr (rows', n) else Inl unique_violation)"

definition retire_guard :: "string \<Rightarrow> string \<Rightarrow> string \<Rightarrow> dimension_version_row \<Rightarrow> bool" where
  "retire_guard version_id scope_id dataset_id d \<longleftrightarrow>
     dv_dataset d = (scope_id, dataset_id) \<and> dv_status d = DActive \<and> dv_id d \<noteq> version_id"

definition activate_guard :: "string \<Rightarrow> string \<Rightarrow> string \<Rightarrow> dimension_version_row \<Rightarrow> bool" where
  "activate_guard version_id scope_id dataset_id d \<longleftrightarrow>
     dv_id d = version_id \<and> dv_dataset d = (scope_id, dataset_id) \<and> dv_status d \<in> {DDraft, DPublishing}
     \<and> dv_physical_database d \<noteq> None \<and> dv_physical_table d \<noteq> None"

definition set_active :: "int \<Rightarrow> string \<Rightarrow> timestamp \<Rightarrow> dimension_version_row \<Rightarrow> dimension_version_row" where
  "set_active row_count checksum now d =
     d\<lparr>dv_status := DActive, dv_row_count := Some row_count, dv_checksum := Some checksum,
       dv_validity_checked_at := Some now, dv_published_at := Some now\<rparr>"

definition activate :: "string \<Rightarrow> string \<Rightarrow> string \<Rightarrow> int \<Rightarrow> string \<Rightarrow> timestamp \<Rightarrow> (db, unit) op" where
  "activate version_id scope_id dataset_id row_count checksum now =
     bind_op (on_dimensions (sql_update_indexed active_index dimension_version_check
       (retire_guard version_id scope_id dataset_id) (\<lambda>d. d\<lparr>dv_status := DRetired\<rparr>))) (\<lambda>_.
     bind_op (on_dimensions (sql_update_indexed active_index dimension_version_check
       (activate_guard version_id scope_id dataset_id) (set_active row_count checksum now))) (\<lambda>n.
     check_op (n = 1) (ValueError ''dimension version is stale or lacks physical evidence'')))"

subsection \<open>Events waiting for a dimension\<close>

definition unmatched_new ::
  "string \<Rightarrow> string \<Rightarrow> source_position \<Rightarrow> string \<Rightarrow> string \<Rightarrow> dict \<Rightarrow> string \<Rightarrow> timestamp \<Rightarrow> int \<Rightarrow> timestamp
    \<Rightarrow> unmatched_row" where
  "unmatched_new version serving position policy dataset keys hash next_retry generation now =
     \<lparr>um_pipeline_version_id = version, um_serving_key = serving, um_dimension_dataset_id = dataset,
      um_source_position = JObj (position_document position), um_position_hash = position_digest ''deployment'' position,
      um_missing_policy = policy, um_missing_keys = JObj keys, um_raw_payload_hash = hash,
      um_dimension_version_ids = JObj [], um_correction_generation = generation, um_first_seen_at = now,
      um_next_retry_at = next_retry, um_retry_count = 0, um_status = UPending,
      um_resolved_materialization_id = None, um_updated_at = now\<rparr>"

definition um_open :: "unmatched_row \<Rightarrow> bool" where
  "um_open u \<longleftrightarrow> um_status u \<in> {UPending, URetrying}"

definition schedule_unmatched ::
  "string \<Rightarrow> string \<Rightarrow> source_position \<Rightarrow> string \<Rightarrow> string \<Rightarrow> dict \<Rightarrow> string \<Rightarrow> timestamp \<Rightarrow> int \<Rightarrow> timestamp
    \<Rightarrow> (db, unit) op" where
  "schedule_unmatched version serving position policy dataset keys hash next_retry generation now =
     bind_op (on_unmatched (sql_upsert unmatched_key unmatched_check (\<lambda>_ _. True)
         (unmatched_new version serving position policy dataset keys hash next_retry generation now) um_open
         (\<lambda>u. u\<lparr>um_next_retry_at := min (um_next_retry_at u) next_retry,
                 um_retry_count := um_retry_count u + 1, um_updated_at := now\<rparr>)))
       (\<lambda>_. return_op ())"

definition open_guard :: "string \<Rightarrow> source_position \<Rightarrow> string \<Rightarrow> unmatched_row \<Rightarrow> bool" where
  "open_guard version position dataset u \<longleftrightarrow>
     unmatched_key u = (version, position_digest ''deployment'' position, dataset) \<and> um_open u"

definition update_open ::
  "string \<Rightarrow> source_position \<Rightarrow> string \<Rightarrow> (unmatched_row \<Rightarrow> unmatched_row) \<Rightarrow> (db, bool) op" where
  "update_open version position dataset f =
     bind_op (on_unmatched (sql_update unmatched_check (open_guard version position dataset) f))
       (\<lambda>n. return_op (n = 1))"

definition resolve_unmatched :: "string \<Rightarrow> source_position \<Rightarrow> string \<Rightarrow> string \<Rightarrow> timestamp \<Rightarrow> (db, bool) op" where
  "resolve_unmatched version position dataset materialization_id now =
     update_open version position dataset
       (\<lambda>u. u\<lparr>um_status := UResolved, um_resolved_materialization_id := Some materialization_id, um_updated_at := now\<rparr>)"

definition reschedule_unmatched ::
  "string \<Rightarrow> source_position \<Rightarrow> string \<Rightarrow> timestamp \<Rightarrow> int \<Rightarrow> timestamp \<Rightarrow> (db, bool) op" where
  "reschedule_unmatched version position dataset next_retry generation now =
     update_open version position dataset
       (\<lambda>u. u\<lparr>um_status := URetrying, um_next_retry_at := next_retry, um_retry_count := um_retry_count u + 1,
              um_correction_generation := generation, um_updated_at := now\<rparr>)"

definition mark_terminal :: "string \<Rightarrow> source_position \<Rightarrow> string \<Rightarrow> string \<Rightarrow> timestamp \<Rightarrow> (db, bool) op" where
  "mark_terminal version position dataset status now =
     (if status = ''quarantined'' then update_open version position dataset (\<lambda>u. u\<lparr>um_status := UQuarantined, um_updated_at := now\<rparr>)
      else if status = ''source_expired'' then update_open version position dataset (\<lambda>u. u\<lparr>um_status := USourceExpired, um_updated_at := now\<rparr>)
      else raise_op (ValueError ''terminal unmatched status is invalid''))"

subsection \<open>Activation\<close>

definition dimensions_ok :: "db \<Rightarrow> bool" where
  "dimensions_ok s \<longleftrightarrow> table_ok dv_id dimension_version_check (db_dimensions s) \<and> active_index (db_dimensions s)"

lemma sql_update_indexed_Inr_iff:
  "sql_update_indexed idx ck P f rows = Inr (rows', n) \<longleftrightarrow> sql_update ck P f rows = Inr (rows', n) \<and> idx rows'"
  by (auto simp: sql_update_indexed_def bind_res_Inr_iff split: if_splits)

interpretation activation: row_update dv_id dimension_version_check "activate_guard v scope ds" "set_active rc cs now" v
    for v scope ds rc cs now
  by unfold_locales (simp_all add: activate_guard_def set_active_def)

definition retired_rows :: "string \<Rightarrow> string \<Rightarrow> string \<Rightarrow> dimension_version_row list \<Rightarrow> dimension_version_row list" where
  "retired_rows v scope ds rows = update_where (retire_guard v scope ds) (\<lambda>d. d\<lparr>dv_status := DRetired\<rparr>) rows"

lemma filter_update_where:
  "(\<And>r. P r \<Longrightarrow> \<not> Q (f r)) \<Longrightarrow> filter Q (update_where P f rows) = filter (\<lambda>r. Q r \<and> \<not> P r) rows"
  by (induction rows) (auto simp: update_where_def)

lemma distinct_map_filter: "distinct (map f (filter P xs)) \<Longrightarrow> distinct (map f (filter (\<lambda>x. P x \<and> Q x) xs))"
proof (induction xs)
  case (Cons x xs)
  then show ?case by (auto split: if_splits)
qed simp

lemma retire_ok:
  assumes "table_ok dv_id dimension_version_check rows" and "active_index rows"
  shows "sql_update_indexed active_index dimension_version_check (retire_guard v scope ds) (\<lambda>d. d\<lparr>dv_status := DRetired\<rparr>) rows
      = Inr (retired_rows v scope ds rows, rowcount (retire_guard v scope ds) rows)"
    and "table_ok dv_id dimension_version_check (retired_rows v scope ds rows)"
    and "active_index (retired_rows v scope ds rows)"
proof -
  let ?f = "\<lambda>d. d\<lparr>dv_status := DRetired\<rparr> :: dimension_version_row"
  have ck: "\<forall>r \<in> set rows. retire_guard v scope ds r \<longrightarrow> dimension_version_check (?f r)"
    using assms(1) by (auto simp: table_ok_def dimension_version_check_def)
  then have upd: "sql_update dimension_version_check (retire_guard v scope ds) ?f rows
      = Inr (retired_rows v scope ds rows, rowcount (retire_guard v scope ds) rows)"
    by (simp add: sql_update_def retired_rows_def)
  have "filter (\<lambda>d. dv_status d = DActive) (retired_rows v scope ds rows)
      = filter (\<lambda>d. dv_status d = DActive \<and> \<not> retire_guard v scope ds d) rows"
    unfolding retired_rows_def by (rule filter_update_where) simp
  then show idx: "active_index (retired_rows v scope ds rows)"
    using assms(2) distinct_map_filter [of dv_dataset "\<lambda>d. dv_status d = DActive" rows "\<lambda>d. \<not> retire_guard v scope ds d"]
    by (simp add: active_index_def)
  show "sql_update_indexed active_index dimension_version_check (retire_guard v scope ds) ?f rows
      = Inr (retired_rows v scope ds rows, rowcount (retire_guard v scope ds) rows)"
    using upd idx by (simp add: sql_update_indexed_Inr_iff)
  show "table_ok dv_id dimension_version_check (retired_rows v scope ds rows)"
    by (rule table_ok_update [OF upd assms(1)]) simp
qed

lemma activate_cases:
  assumes "activate v scope ds rc cs now s = (Inr u, t)" and "dimensions_ok s"
  obtains rows where "t = s\<lparr>db_dimensions := rows\<rparr>" and "active_index rows"
    and "sql_update dimension_version_check (activate_guard v scope ds) (set_active rc cs now)
          (retired_rows v scope ds (db_dimensions s)) = Inr (rows, 1)"
  using assms retire_ok(1) [of "db_dimensions s" v scope ds]
  unfolding activate_def dimensions_ok_def by (auto simp: op_elims sql_update_indexed_Inr_iff)

lemma activate_lookup:
  assumes "activate v scope ds rc cs now s = (Inr u, t)" and "dimensions_ok s"
  shows "dimensions_ok t"
    and "\<exists>d. lookup_key dv_id v (db_dimensions s) = Some d \<and> activate_guard v scope ds d
      \<and> lookup_key dv_id v (db_dimensions t) = Some (set_active rc cs now d)"
    and "q \<noteq> v \<Longrightarrow> lookup_key dv_id q (db_dimensions t) = map_option
      (\<lambda>d. if retire_guard v scope ds d then d\<lparr>dv_status := DRetired\<rparr> else d) (lookup_key dv_id q (db_dimensions s))"
proof -
  obtain rows where t: "t = s\<lparr>db_dimensions := rows\<rparr>" and idx: "active_index rows"
    and upd: "sql_update dimension_version_check (activate_guard v scope ds) (set_active rc cs now)
          (retired_rows v scope ds (db_dimensions s)) = Inr (rows, 1)"
    by (rule activate_cases [OF assms])
  have ok: "table_ok dv_id dimension_version_check (retired_rows v scope ds (db_dimensions s))"
    using retire_ok(2) assms(2) by (simp add: dimensions_ok_def)
  have look: "lookup_key dv_id q (retired_rows v scope ds (db_dimensions s)) = map_option
      (\<lambda>d. if retire_guard v scope ds d then d\<lparr>dv_status := DRetired\<rparr> else d) (lookup_key dv_id q (db_dimensions s))" for q
    unfolding retired_rows_def by (rule lookup_key_update) simp
  show "dimensions_ok t" using activation.keeps [OF upd ok] idx by (simp add: dimensions_ok_def t)
  have kd: "keyed dv_id (retired_rows v scope ds (db_dimensions s))" using ok by (simp add: table_ok_def)
  obtain d where d: "lookup_key dv_id v (retired_rows v scope ds (db_dimensions s)) = Some d"
      "activate_guard v scope ds d" "lookup_key dv_id v rows = Some (set_active rc cs now d)"
    using activation.hit [OF upd kd] by blast
  obtain d0 where d0: "lookup_key dv_id v (db_dimensions s) = Some d0"
      "d = (if retire_guard v scope ds d0 then d0\<lparr>dv_status := DRetired\<rparr> else d0)"
    using d(1) look [of v] by auto
  moreover have "\<not> retire_guard v scope ds d0"
    using lookup_key_Some [OF d0(1)] by (simp add: retire_guard_def)
  ultimately show "\<exists>d. lookup_key dv_id v (db_dimensions s) = Some d \<and> activate_guard v scope ds d
      \<and> lookup_key dv_id v (db_dimensions t) = Some (set_active rc cs now d)"
    using d by (simp add: t)
  show "q \<noteq> v \<Longrightarrow> lookup_key dv_id q (db_dimensions t) = map_option
      (\<lambda>d. if retire_guard v scope ds d then d\<lparr>dv_status := DRetired\<rparr> else d) (lookup_key dv_id q (db_dimensions s))"
    using activation.frame [OF upd] look by (simp add: t)
qed

subsection \<open>The queue\<close>

locale open_change =
  fixes version :: string and position :: source_position and dataset :: string
    and change :: "unmatched_row \<Rightarrow> unmatched_row"
  assumes key_kept: "unmatched_key (change u) = unmatched_key u"
begin

sublocale row_update unmatched_key unmatched_check "open_guard version position dataset" change
    "(version, position_digest ''deployment'' position, dataset)"
  by unfold_locales (simp_all add: open_guard_def key_kept)

lemma closed_kept:
  assumes "update_open version position dataset change s = (Inr b, t)"
    and "lookup_key unmatched_key q (db_unmatched s) = Some u" and "\<not> um_open u"
  shows "lookup_key unmatched_key q (db_unmatched t) = Some u"
proof -
  obtain rows n where upd: "sql_update unmatched_check (open_guard version position dataset) change (db_unmatched s)
      = Inr (rows, n)" and t: "t = s\<lparr>db_unmatched := rows\<rparr>"
    using assms(1) by (auto simp: update_open_def op_elims)
  show ?thesis using lookup [OF upd, of q] assms(2,3) by (simp add: t open_guard_def)
qed

lemma table_kept:
  assumes "update_open version position dataset change s = (Inr b, t)"
    and "table_ok unmatched_key unmatched_check (db_unmatched s)"
  shows "table_ok unmatched_key unmatched_check (db_unmatched t)"
  using assms keeps by (auto simp: update_open_def op_elims)

end

interpretation resolve: open_change version position dataset
    "\<lambda>u. u\<lparr>um_status := UResolved, um_resolved_materialization_id := Some m, um_updated_at := now\<rparr>"
    for version position dataset m now
  by unfold_locales (simp add: unmatched_key_def)

interpretation reschedule: open_change version position dataset
    "\<lambda>u. u\<lparr>um_status := URetrying, um_next_retry_at := nr, um_retry_count := um_retry_count u + 1,
           um_correction_generation := g, um_updated_at := now\<rparr>" for version position dataset nr g now
  by unfold_locales (simp add: unmatched_key_def)

interpretation terminal: open_change version position dataset "\<lambda>u. u\<lparr>um_status := st, um_updated_at := now\<rparr>"
    for version position dataset st now
  by unfold_locales (simp add: unmatched_key_def)

interpretation schedule: row_upsert unmatched_key unmatched_check "\<lambda>_ _. True" new um_open
    "\<lambda>u. u\<lparr>um_next_retry_at := min (um_next_retry_at u) nr, um_retry_count := um_retry_count u + 1, um_updated_at := now\<rparr>"
    for new nr now
  by unfold_locales (simp add: unmatched_key_def)

text \<open>One call of the repository as a step of the queue.\<close>

inductive queue_step :: "db \<Rightarrow> db \<Rightarrow> bool" where
  schedule: "schedule_unmatched v sk p pol ds keys h nr g now s = (Inr (), t) \<Longrightarrow> queue_step s t"
| resolve: "resolve_unmatched v p ds m now s = (Inr b, t) \<Longrightarrow> queue_step s t"
| reschedule: "reschedule_unmatched v p ds nr g now s = (Inr b, t) \<Longrightarrow> queue_step s t"
| terminal: "mark_terminal v p ds st now s = (Inr b, t) \<Longrightarrow> queue_step s t"

inductive_cases queue_stepE: "queue_step s t"

lemma queue_step_facts:
  assumes "queue_step s t"
  shows "table_ok unmatched_key unmatched_check (db_unmatched s) \<Longrightarrow> table_ok unmatched_key unmatched_check (db_unmatched t)"
    and "lookup_key unmatched_key q (db_unmatched s) = Some u \<Longrightarrow> \<not> um_open u \<Longrightarrow>
      lookup_key unmatched_key q (db_unmatched t) = Some u"
  using assms
proof (induction rule: queue_step.induct)
  case (schedule v sk p pol ds keys h nr g now s t)
  {
    case 1
    then show ?case using schedule by (auto simp: schedule_unmatched_def op_elims dest: schedule.keeps)
  next
    case 2
    then show ?case using schedule by (auto simp: schedule_unmatched_def op_elims schedule.lookup)
  }
next
  case (resolve v p ds m now s b t)
  {
    case 1
    then show ?case using resolve unfolding resolve_unmatched_def by (blast intro: resolve.table_kept)
  next
    case 2
    then show ?case using resolve unfolding resolve_unmatched_def by (blast intro: resolve.closed_kept)
  }
next
  case (reschedule v p ds nr g now s b t)
  {
    case 1
    then show ?case using reschedule unfolding reschedule_unmatched_def by (blast intro: reschedule.table_kept)
  next
    case 2
    then show ?case using reschedule unfolding reschedule_unmatched_def by (blast intro: reschedule.closed_kept)
  }
next
  case (terminal v p ds st now s b t)
  {
    case 1
    then show ?case using terminal unfolding mark_terminal_def
      by (auto simp: op_elims split: if_splits dest: terminal.table_kept)
  next
    case 2
    then show ?case using terminal unfolding mark_terminal_def
      by (auto simp: op_elims split: if_splits dest: terminal.closed_kept)
  }
qed

subsection \<open>When activation succeeds\<close>

lemma active_index_activate:
  assumes "active_index rows" and "keyed dv_id rows"
    and "\<And>x. x \<in> set rows \<Longrightarrow> dv_status x = DActive \<Longrightarrow> dv_dataset x \<noteq> (scope, ds)"
  shows "active_index (update_where (activate_guard v scope ds) (set_active rc cs now) rows)"
  using assms
proof (induction rows)
  case Nil
  then show ?case by (simp add: active_index_def update_where_def)
next
  case (Cons x rows)
  let ?upd = "update_where (activate_guard v scope ds) (set_active rc cs now)"
  have IH: "active_index (?upd rows)"
  proof (rule Cons.IH)
    show "active_index rows" using Cons.prems(1) by (auto simp: active_index_def split: if_splits)
    show "keyed dv_id rows" using Cons.prems(2) by (simp add: keyed_def)
    show "\<And>y. y \<in> set rows \<Longrightarrow> dv_status y = DActive \<Longrightarrow> dv_dataset y \<noteq> (scope, ds)"
      using Cons.prems(3) by simp
  qed
  have data: "dv_dataset (set_active rc cs now y) = dv_dataset y" for y
    by (simp add: dv_dataset_def set_active_def)
  show ?case
  proof (cases "activate_guard v scope ds x")
    case True
    have none: "\<not> activate_guard v scope ds y" if "y \<in> set rows" for y
      using Cons.prems(2) True imageI [OF that, of dv_id] by (auto simp: keyed_def activate_guard_def)
    then have same: "?upd rows = rows" by (simp add: update_where_id)
    have "(scope, ds) \<notin> dv_dataset ` {y \<in> set rows. dv_status y = DActive}"
    proof
      assume "(scope, ds) \<in> dv_dataset ` {y \<in> set rows. dv_status y = DActive}"
      then obtain y where "y \<in> set rows" "dv_status y = DActive" "dv_dataset y = (scope, ds)" by auto
      then show False using Cons.prems(3) [of y] by simp
    qed
    moreover have "?upd (x # rows) = set_active rc cs now x # rows"
      using True same by (simp add: update_where_def)
    moreover have "dv_status (set_active rc cs now x) = DActive" "dv_dataset x = (scope, ds)"
      using True by (simp_all add: set_active_def activate_guard_def)
    ultimately show ?thesis using IH same data by (simp add: active_index_def)
  next
    case False
    have "dv_dataset x \<notin> dv_dataset ` {y \<in> set (?upd rows). dv_status y = DActive}" if act: "dv_status x = DActive"
    proof
      assume "dv_dataset x \<in> dv_dataset ` {y \<in> set (?upd rows). dv_status y = DActive}"
      then obtain y where y: "y \<in> set rows" "dv_dataset x = dv_dataset y"
          "dv_status (if activate_guard v scope ds y then set_active rc cs now y else y) = DActive"
        by (auto simp: in_update_where data split: if_splits)
      show False
      proof (cases "activate_guard v scope ds y")
        case True
        then show ?thesis using y act Cons.prems(3) [of x] by (simp add: activate_guard_def)
      next
        case False
        then show ?thesis using y act Cons.prems(1) by (auto simp: active_index_def image_iff)
      qed
    qed
    moreover have "?upd (x # rows) = x # ?upd rows" using False by (simp add: update_where_def)
    ultimately show ?thesis using IH by (simp add: active_index_def)
  qed
qed

lemma activate_total:
  assumes "dimensions_ok s" and "lookup_key dv_id v (db_dimensions s) = Some d" and "activate_guard v scope ds d"
    and "0 \<le> rc"
  shows "\<exists>t. activate v scope ds rc cs now s = (Inr (), t)"
proof -
  let ?rows = "retired_rows v scope ds (db_dimensions s)"
  have ok: "table_ok dv_id dimension_version_check ?rows" and idx: "active_index ?rows"
    using retire_ok(2,3) assms(1) by (simp_all add: dimensions_ok_def)
  have kd: "keyed dv_id ?rows" using ok by (simp add: table_ok_def)
  have "lookup_key dv_id v ?rows = map_option
      (\<lambda>d. if retire_guard v scope ds d then d\<lparr>dv_status := DRetired\<rparr> else d) (lookup_key dv_id v (db_dimensions s))"
    unfolding retired_rows_def by (rule lookup_key_update) simp
  then have look: "lookup_key dv_id v ?rows = Some d"
    using assms(2) lookup_key_Some [OF assms(2)] by (simp add: retire_guard_def)
  have "dimension_version_check d" using assms(1) lookup_key_Some [OF assms(2)] by (simp add: dimensions_ok_def table_ok_def)
  then have "dimension_version_check (set_active rc cs now d)"
    using assms(3,4) by (simp add: dimension_version_check_def set_active_def activate_guard_def)
  then obtain rows where upd: "sql_update dimension_version_check (activate_guard v scope ds) (set_active rc cs now) ?rows
      = Inr (rows, 1)"
    using activation.succeeds [OF kd look assms(3)] by blast
  have "dv_dataset x \<noteq> (scope, ds)" if x: "x \<in> set ?rows" "dv_status x = DActive" for x
  proof
    assume ds: "dv_dataset x = (scope, ds)"
    obtain y where y: "x = (if retire_guard v scope ds y then y\<lparr>dv_status := DRetired\<rparr> else y)"
      using x(1) by (auto simp: retired_rows_def in_update_where)
    have not: "\<not> retire_guard v scope ds y" using y x(2) by (cases "retire_guard v scope ds y") simp_all
    then have "x = y" using y by simp
    then have "dv_id x = v" using not x(2) ds by (simp add: retire_guard_def)
    then have "x = d" using lookup_key_keyed [OF kd x(1)] look by simp
    then show False using x(2) assms(3) by (simp add: activate_guard_def)
  qed
  then have "active_index rows" using active_index_activate [OF idx kd] upd by (simp add: sql_update_Inr_iff)
  then show ?thesis using retire_ok(1) [of "db_dimensions s" v scope ds] upd assms(1)
    by (simp add: activate_def bind_op_def table_op_def dimensions_ok_def sql_update_indexed_def check_op_def return_op_def)
qed

subsection \<open>Properties\<close>

text \<open>Activating a dimension version swaps it in atomically. It succeeds exactly for a draft or publishing version of
  the dataset with a physical table and a non-negative row count; then that version and no other is active for the
  dataset, and in a transaction a refusal leaves the database as it was.\<close>

theorem activation_swaps_version:
  assumes "dimensions_ok s"
  shows "case transaction (activate v scope ds rc cs now) s of
      (Inl e, t) \<Rightarrow> t = s \<and> \<not> (\<exists>d. lookup_key dv_id v (db_dimensions s) = Some d \<and> activate_guard v scope ds d \<and> 0 \<le> rc)
    | (Inr _, t) \<Rightarrow> dimensions_ok t
        \<and> (\<exists>d. lookup_key dv_id v (db_dimensions s) = Some d \<and> activate_guard v scope ds d)
        \<and> (\<forall>d \<in> set (db_dimensions t). dv_status d = DActive \<and> dv_dataset d = (scope, ds) \<longleftrightarrow> dv_id d = v)"
proof (cases "activate v scope ds rc cs now s")
  case (Pair r t)
  show ?thesis
  proof (cases r)
    case (Inl e)
    then show ?thesis using Pair activate_total [OF assms, of v _ scope ds rc cs now]
      by (auto simp: transaction_def)
  next
    case (Inr u)
    note act = activate_lookup [OF Pair [unfolded Inr] assms]
    obtain d where d: "lookup_key dv_id v (db_dimensions s) = Some d" "activate_guard v scope ds d"
        "lookup_key dv_id v (db_dimensions t) = Some (set_active rc cs now d)"
      using act(2) by blast
    let ?d = "set_active rc cs now d"
    have new: "?d \<in> set (db_dimensions t)" "dv_id ?d = v" "dv_status ?d = DActive" "dv_dataset ?d = (scope, ds)"
      using lookup_key_Some [OF d(3)] d(2) by (simp_all add: set_active_def activate_guard_def dv_dataset_def)
    have kd: "keyed dv_id (db_dimensions t)" and idx: "active_index (db_dimensions t)"
      using act(1) by (simp_all add: dimensions_ok_def table_ok_def)
    have "dv_status x = DActive \<and> dv_dataset x = (scope, ds) \<longleftrightarrow> dv_id x = v" if x: "x \<in> set (db_dimensions t)" for x
    proof
      assume "dv_status x = DActive \<and> dv_dataset x = (scope, ds)"
      then have "x = ?d" using idx x new inj_onD [of dv_dataset "{y \<in> set (db_dimensions t). dv_status y = DActive}" x ?d]
        unfolding active_index_def distinct_map by simp
      then show "dv_id x = v" using new by simp
    next
      assume "dv_id x = v"
      then have "x = ?d" using keyed_same_row [OF kd x new(1)] new(2) by simp
      then show "dv_status x = DActive \<and> dv_dataset x = (scope, ds)" using new by simp
    qed
    then show ?thesis using Pair Inr act(1) d by (simp add: transaction_def)
  qed
qed

definition sample_version :: "string \<Rightarrow> int \<Rightarrow> dim_status \<Rightarrow> dimension_version_row" where
  "sample_version i n st = \<lparr>dv_id = i, dv_scope_id = ''deployment'', dv_dataset_id = ''dim'', dv_version = n,
     dv_semantics = ''current'', dv_physical_database = Some ''d'', dv_physical_table = Some ''t'', dv_status = st,
     dv_row_count = Some 1, dv_checksum = None, dv_validity_checked_at = Some 1, dv_published_at = Some 1\<rparr>"

theorem activation_swaps_version_witness:
  "let s = empty_db\<lparr>db_dimensions := [sample_version ''a'' 1 DActive, sample_version ''b'' 2 DPublishing]\<rparr>
   in dimensions_ok s
      \<and> (\<exists>t. transaction (activate ''b'' ''deployment'' ''dim'' 4 ''sum'' 9) s = (Inr (), t)
           \<and> (\<forall>d \<in> set (db_dimensions t). dv_status d = DActive \<and> dv_dataset d = (''deployment'', ''dim'') \<longleftrightarrow> dv_id d = ''b''))"
proof -
  let ?s = "empty_db\<lparr>db_dimensions := [sample_version ''a'' 1 DActive, sample_version ''b'' 2 DPublishing]\<rparr>"
  have ok: "dimensions_ok ?s" by code_simp
  have run: "fst (transaction (activate ''b'' ''deployment'' ''dim'' 4 ''sum'' 9) ?s) = Inr ()" by code_simp
  obtain t where t: "transaction (activate ''b'' ''deployment'' ''dim'' 4 ''sum'' 9) ?s = (Inr (), t)"
    using run_fst [OF run] by blast
  show ?thesis using activation_swaps_version [OF ok, of "''b''" "''deployment''" "''dim''" 4 "''sum''" 9] t ok
    unfolding Let_def by simp
qed

text \<open>The repair queue is consistent and its outcomes are final: through any calls of the repository the table keeps its
  constraints, and an event that was resolved, quarantined or expired never changes again.\<close>

theorem repair_outcomes_final:
  assumes "queue_step\<^sup>*\<^sup>* s t" and "table_ok unmatched_key unmatched_check (db_unmatched s)"
  shows "table_ok unmatched_key unmatched_check (db_unmatched t)
    \<and> (\<forall>q u. lookup_key unmatched_key q (db_unmatched s) = Some u \<and> um_status u \<in> {UResolved, UQuarantined, USourceExpired}
         \<longrightarrow> lookup_key unmatched_key q (db_unmatched t) = Some u)"
  using assms
proof (induction rule: rtranclp_induct)
  case base
  then show ?case by simp
next
  case (step y z)
  have closed: "\<not> um_open u" if "um_status u \<in> {UResolved, UQuarantined, USourceExpired}" for u
    using that by (auto simp: um_open_def)
  show ?case using step.IH [OF step.prems] queue_step_facts [OF step(2)] closed by (metis (full_types))
qed

theorem repair_outcomes_final_witness:
  "\<exists>t. queue_step\<^sup>*\<^sup>* empty_db t \<and> table_ok unmatched_key unmatched_check (db_unmatched t) \<and> db_unmatched t \<noteq> []"
proof -
  obtain t where t: "schedule_unmatched ''v'' ''sk'' (SourcePosition ''t'' 0 1) ''hold_and_repair'' ''dim'' [] ''h'' 5 0 1 empty_db
      = (Inr (), t)" "db_unmatched t \<noteq> []"
    by (auto simp: schedule_unmatched_def bind_op_def table_op_def sql_upsert_def empty_db_def return_op_def
        unmatched_check_def unmatched_new_def)
  have "queue_step\<^sup>*\<^sup>* empty_db t" using queue_step.schedule [OF t(1)] by blast
  then show ?thesis using repair_outcomes_final [of empty_db t] t(2) by (auto simp: empty_db_def)
qed

end
