(* ===== verification/Py_Decimal.thy ===== *)
theory Py_Decimal
  imports Json Complex_Main
begin

section \<open>Decimal numbers as canonical text\<close>

text \<open>
  What \<open>realtime/domain/archive.py\<close> uses of Python's \<open>decimal\<close> module: reading a number from text, \<open>is_finite\<close>,
  \<open>normalize\<close> in the default context (28 digits, half-even rounding, exponents within 999999) and \<open>format(d, "f")\<close>.
  A finite decimal is its sign, coefficient and exponent.
\<close>

datatype decimal = Finite (dec_neg: bool) (dec_coeff: nat) (dec_exp: int) | NonFinite

subsection \<open>Reading\<close>

definition read_digits :: "string \<Rightarrow> nat" where
  "read_digits ds = foldl (\<lambda>n c. n * 10 + digit_value c) 0 ds"

definition all_digits :: "string \<Rightarrow> bool" where
  "all_digits s \<longleftrightarrow> list_all is_digit s"

definition split_sign :: "string \<Rightarrow> bool \<times> string" where
  "split_sign s = (case s of [] \<Rightarrow> (False, [])
     | c # cs \<Rightarrow> if c = CHR ''-'' then (True, cs) else if c = CHR ''+'' then (False, cs) else (False, s))"

definition read_exponent :: "string \<Rightarrow> int option" where
  "read_exponent s =
     (case s of [] \<Rightarrow> Some 0
      | c # cs \<Rightarrow> (let (neg, ds) = split_sign cs
                  in if (c = CHR ''e'' \<or> c = CHR ''E'') \<and> ds \<noteq> [] \<and> all_digits ds
                     then Some (if neg then - int (read_digits ds) else int (read_digits ds)) else None))"

definition read_number :: "bool \<Rightarrow> string \<Rightarrow> decimal option" where
  "read_number neg s =
     (let whole = takeWhile is_digit s;
          rest = dropWhile is_digit s;
          frac = (case rest of [] \<Rightarrow> [] | c # cs \<Rightarrow> if c = CHR ''.'' then takeWhile is_digit cs else []);
          after = (case rest of [] \<Rightarrow> [] | c # cs \<Rightarrow> if c = CHR ''.'' then dropWhile is_digit cs else rest)
      in if whole = [] \<and> frac = [] then None
         else map_option (\<lambda>e. Finite neg (read_digits (whole @ frac)) (e - int (length frac))) (read_exponent after))"

definition read_special :: "string \<Rightarrow> bool" where
  "read_special s \<longleftrightarrow> (let t = py_lower s
     in t = ''inf'' \<or> t = ''infinity'' \<or> starts_with ''nan'' t \<and> all_digits (drop 3 t) \<or> starts_with ''snan'' t \<and> all_digits (drop 4 t))"

definition digit_count :: "nat \<Rightarrow> nat" where
  "digit_count n = length (show_nat n)"

definition adjusted :: "nat \<Rightarrow> int \<Rightarrow> int" where
  "adjusted c e = e + int (digit_count c) - 1"

text \<open>\<open>Decimal(text)\<close>; \<open>None\<close> is \<open>InvalidOperation\<close>, also for exponents the implementation cannot hold.\<close>

definition parse_decimal :: "string \<Rightarrow> decimal option" where
  "parse_decimal s =
     (let (neg, body) = split_sign (filter (\<lambda>c. c \<noteq> CHR ''_'') (py_strip s))
      in if read_special body then Some NonFinite
         else case read_number neg body of
           Some (Finite n c e) \<Rightarrow>
             if adjusted c e \<le> 999999999999999999 \<and> -1999999999999999997 \<le> e then Some (Finite n c e) else None
         | other \<Rightarrow> other)"

subsection \<open>Normalizing and printing\<close>

definition round_half_even :: "nat \<Rightarrow> nat \<Rightarrow> nat" where
  "round_half_even c k =
     (let q = c div 10 ^ k; r = c mod 10 ^ k
      in if 2 * r > 10 ^ k \<or> 2 * r = 10 ^ k \<and> odd q then q + 1 else q)"

text \<open>The digits that do not fit 28 digits, or lie below the smallest exponent of the context.\<close>

definition excess :: "nat \<Rightarrow> int \<Rightarrow> nat" where
  "excess c e = nat (max (int (digit_count c) - 28) (- 1000026 - e))"

fun strip_zeros :: "nat \<Rightarrow> nat \<times> nat" where
  "strip_zeros c = (if c \<noteq> 0 \<and> c mod 10 = 0 then map_prod id Suc (strip_zeros (c div 10)) else (c, 0))"

declare strip_zeros.simps [simp del]

definition normalize_decimal :: "nat \<Rightarrow> int \<Rightarrow> (nat \<times> int) res" where
  "normalize_decimal c e =
     (let k = excess c e; c' = round_half_even c k; (c0, z) = strip_zeros c'
      in if c' = 0 then Inr (0, 0)
         else if 999999 < adjusted c0 (e + int k + int z) then Inl DecimalOverflow
         else Inr (c0, e + int k + int z))"

definition zeros :: "nat \<Rightarrow> string" where
  "zeros n = replicate n (CHR ''0'')"

definition format_fixed :: "bool \<Rightarrow> nat \<Rightarrow> int \<Rightarrow> string" where
  "format_fixed neg c e =
     (let ds = show_nat c;
          body = (if 0 \<le> e then ds @ zeros (nat e)
                  else let k = nat (- e); padded = zeros (Suc k - length ds) @ ds
                       in take (length padded - k) padded @ ''.'' @ drop (length padded - k) padded)
      in if neg then CHR ''-'' # body else body)"

definition trim_fraction :: "string \<Rightarrow> string" where
  "trim_fraction s = (if CHR ''.'' \<in> set s then rstrip_char (CHR ''.'') (rstrip_char (CHR ''0'') s) else s)"

definition decimal_text :: "string \<Rightarrow> string res" where
  "decimal_text s =
     (case parse_decimal s of
        None \<Rightarrow> Inl (ValueError ''parity numeric sums must contain decimal values'')
      | Some NonFinite \<Rightarrow> Inl (ValueError ''parity numeric sums must be finite'')
      | Some (Finite neg c e) \<Rightarrow>
          bind_res (normalize_decimal c e) (\<lambda>(c', e').
            let rendered = trim_fraction (format_fixed neg c' e')
            in Inr (if rendered = ''-0'' \<or> rendered = [] then ''0'' else rendered)))"

subsection \<open>Values\<close>

definition dec_value :: "bool \<Rightarrow> nat \<Rightarrow> int \<Rightarrow> rat" where
  "dec_value neg c e = (if neg then - 1 else 1) * of_nat c * 10 powi e"

text \<open>The numbers the context represents without rounding or overflow.\<close>

definition exact_decimal :: "nat \<Rightarrow> int \<Rightarrow> bool" where
  "exact_decimal c e \<longleftrightarrow> digit_count c \<le> 28 \<and> - 1000026 \<le> e \<and> adjusted c e \<le> 999999"

lemma dec_value_zero: "dec_value neg c e = 0 \<longleftrightarrow> c = 0"
  by (simp add: dec_value_def)

lemma strip_zeros_value:
  "strip_zeros c = (c0, z) \<Longrightarrow> c = c0 * 10 ^ z \<and> (c \<noteq> 0 \<longrightarrow> c0 mod 10 \<noteq> 0)"
proof (induction c arbitrary: c0 z rule: strip_zeros.induct)
  case (1 c)
  show ?case
  proof (cases "c \<noteq> 0 \<and> c mod 10 = 0")
    case False
    then show ?thesis using "1.prems" by (subst (asm) strip_zeros.simps) auto
  next
    case True
    then obtain z' where r: "strip_zeros (c div 10) = (c0, z')" "z = Suc z'"
      using "1.prems" by (subst (asm) strip_zeros.simps) (cases "strip_zeros (c div 10)", auto)
    have "c = c div 10 * 10" using True by presburger
    with "1.IH" [OF True r(1)] True r(2) show ?thesis by (metis mult.assoc mult.commute mult_0 power_Suc)
  qed
qed

lemma dec_value_shift: "dec_value neg (c * 10 ^ z) e = dec_value neg c (e + int z)"
  by (simp add: dec_value_def power_int_add)

text \<open>A value has one sign, coefficient and exponent when the coefficient does not end in zero.\<close>

lemma dec_value_unique_le:
  assumes "dec_value n c e = dec_value n' c' e'" and "c mod 10 \<noteq> 0" and "c' mod 10 \<noteq> 0" and "e \<le> e'"
  shows "n = n' \<and> c = c' \<and> e = e'"
proof -
  define k where "k = nat (e' - e)"
  have e': "e' = e + int k" using assms(4) by (simp add: k_def)
  have "dec_value n c e = dec_value n' (c' * 10 ^ k) e" using assms(1) by (simp add: dec_value_shift e')
  then have s: "(if n then - 1 else 1) * (of_nat c :: rat) = (if n' then - 1 else 1) * of_nat (c' * 10 ^ k)"
    unfolding dec_value_def by (subst (asm) mult_right_cancel) simp_all
  have c: "0 < c" "0 < c' * 10 ^ k" using assms(2,3) by (auto intro: Nat.gr0I)
  have n: "n = n'"
  proof (rule ccontr)
    assume "n \<noteq> n'"
    then have "(of_nat c + of_nat (c' * 10 ^ k) :: rat) = 0" using s by (auto split: if_splits)
    then show False using c by (metis add_is_0 less_numeral_extra(3) of_nat_0_eq_iff of_nat_add)
  qed
  then have "(of_nat c :: rat) = of_nat (c' * 10 ^ k)" using s by (auto split: if_splits)
  then have eq: "c = c' * 10 ^ k" by (simp only: of_nat_eq_iff)
  have "k = 0" using eq assms(2) by (cases k) auto
  then show ?thesis using n eq e' by simp
qed

lemma dec_value_unique:
  assumes "dec_value n c e = dec_value n' c' e'" and "c mod 10 \<noteq> 0" and "c' mod 10 \<noteq> 0"
  shows "n = n' \<and> c = c' \<and> e = e'"
proof (cases "e \<le> e'")
  case True
  then show ?thesis using assms dec_value_unique_le by blast
next
  case False
  then show ?thesis using dec_value_unique_le [OF assms(1) [symmetric] assms(3,2)] by auto
qed

subsection \<open>Normalization keeps the value\<close>

lemma normalize_exact:
  assumes "normalize_decimal c e = Inr (c0, e0)" and "exact_decimal c e"
  shows "dec_value neg c0 e0 = dec_value neg c e \<and> (if c = 0 then c0 = 0 \<and> e0 = 0 else c0 mod 10 \<noteq> 0)"
proof -
  have k: "excess c e = 0" using assms(2) by (simp add: excess_def exact_decimal_def)
  have r: "round_half_even c 0 = c" by (simp add: round_half_even_def)
  obtain c1 z where z: "strip_zeros c = (c1, z)" by (cases "strip_zeros c")
  show ?thesis
  proof (cases "c = 0")
    case True
    then show ?thesis using assms(1) k r z by (simp add: normalize_decimal_def Let_def dec_value_def)
  next
    case False
    then have "c0 = c1" "e0 = e + int z"
      using assms(1) by (auto simp: normalize_decimal_def k r Let_def z split: if_splits)
    then show ?thesis using strip_zeros_value [OF z] False dec_value_shift [of neg c1 z e] by auto
  qed
qed

subsection \<open>Reading the text back\<close>

lemma read_digits_append: "read_digits (xs @ ys) = read_digits xs * 10 ^ length ys + read_digits ys"
proof (induction ys rule: rev_induct)
  case (snoc y ys)
  have step: "read_digits (zs @ [y]) = read_digits zs * 10 + digit_value y" for zs by (simp add: read_digits_def)
  show ?case using snoc step [of "xs @ ys"] step [of ys] by (simp add: algebra_simps)
qed (simp add: read_digits_def)

lemma read_digits_zeros: "read_digits (zeros n) = 0"
proof (induction n)
  case (Suc n)
  have "zeros (Suc n) = zeros n @ [CHR ''0'']" by (simp add: zeros_def replicate_append_same)
  moreover have "read_digits [CHR ''0''] = 0" by (simp add: read_digits_def digit_value_def char_code_def)
  ultimately show ?case using Suc by (simp add: read_digits_append)
qed (simp add: zeros_def read_digits_def)

lemma read_digits_show_nat: "read_digits (show_nat n) = n"
proof (induction n rule: show_nat.induct)
  case (1 n)
  have d: "read_digits [digit_char k] = k" if "k < 10" for k
    using that by (simp add: read_digits_def digit_value_def char_code_digit_char)
  show ?case
  proof (cases "n < 10")
    case True
    then show ?thesis by (subst show_nat.simps) (simp add: d)
  next
    case False
    then show ?thesis by (subst show_nat.simps) (simp add: read_digits_append "1.IH" d)
  qed
qed

lemma digits_zeros: "c \<in> set (zeros n) \<Longrightarrow> is_digit c"
  by (auto simp: zeros_def is_digit_def char_code_def)

lemma not_digit_dot: "\<not> is_digit (CHR ''.'')"
  by (simp add: is_digit_def char_code_def)

lemma read_number_whole:
  assumes "\<And>c. c \<in> set ds \<Longrightarrow> is_digit c" and "ds \<noteq> []"
  shows "read_number neg ds = Some (Finite neg (read_digits ds) 0)"
proof -
  have t: "takeWhile is_digit ds = ds" "dropWhile is_digit ds = []" using assms(1) by auto
  show ?thesis using assms(2) unfolding read_number_def t by (simp add: read_exponent_def)
qed

lemma read_number_fraction:
  assumes "\<And>c. c \<in> set ws \<Longrightarrow> is_digit c" and "\<And>c. c \<in> set fs \<Longrightarrow> is_digit c" and "ws \<noteq> []"
  shows "read_number neg (ws @ CHR ''.'' # fs) = Some (Finite neg (read_digits (ws @ fs)) (- int (length fs)))"
proof -
  have t: "takeWhile is_digit (ws @ CHR ''.'' # fs) = ws" "dropWhile is_digit (ws @ CHR ''.'' # fs) = CHR ''.'' # fs"
    "takeWhile is_digit fs = fs" "dropWhile is_digit fs = []"
    using assms(1,2) not_digit_dot by (auto simp: takeWhile_append dropWhile_append)
  show ?thesis using assms(3) unfolding read_number_def t by (simp add: read_exponent_def t)
qed

definition read_text :: "string \<Rightarrow> decimal option" where
  "read_text t = (case split_sign t of (neg, body) \<Rightarrow> read_number neg body)"

definition fixed_body :: "nat \<Rightarrow> int \<Rightarrow> string" where
  "fixed_body c e = format_fixed False c e"

lemma format_fixed_body: "format_fixed neg c e = (if neg then CHR ''-'' # fixed_body c e else fixed_body c e)"
  by (simp add: fixed_body_def format_fixed_def Let_def)

lemma fixed_body_whole: "0 \<le> e \<Longrightarrow> fixed_body c e = show_nat c @ zeros (nat e)"
  by (simp add: fixed_body_def format_fixed_def Let_def)

lemma fixed_body_fraction:
  assumes "e < 0"
  obtains ws fs where "fixed_body c e = ws @ CHR ''.'' # fs" and "ws \<noteq> []" and "length fs = nat (- e)"
    and "ws @ fs = zeros (Suc (nat (- e)) - length (show_nat c)) @ show_nat c"
proof -
  define k where "k = nat (- e)"
  define padded where "padded = zeros (Suc k - length (show_nat c)) @ show_nat c"
  have "\<not> 0 \<le> e" using assms by simp
  then have body: "fixed_body c e = take (length padded - k) padded @ CHR ''.'' # drop (length padded - k) padded"
    by (simp add: fixed_body_def format_fixed_def Let_def padded_def k_def del: take_append drop_append)
  have len: "k < length padded" by (simp add: padded_def zeros_def)
  show thesis
  proof (rule that [OF body])
    show "take (length padded - k) padded \<noteq> []" using len by auto
    show "length (drop (length padded - k) padded) = nat (- e)" using len by (simp add: k_def)
    show "take (length padded - k) padded @ drop (length padded - k) padded
        = zeros (Suc (nat (- e)) - length (show_nat c)) @ show_nat c"
      unfolding append_take_drop_id by (simp add: padded_def k_def)
  qed
qed

lemma padded_digits: "c \<in> set (zeros n @ show_nat m) \<Longrightarrow> is_digit c"
  using digits_zeros show_nat_digits by fastforce

lemma fixed_body_reads: "\<exists>c' e'. read_number neg (fixed_body c e) = Some (Finite neg c' e') \<and> dec_value neg c' e' = dec_value neg c e"
proof (cases "0 \<le> e")
  case True
  have "read_number neg (show_nat c @ zeros (nat e)) = Some (Finite neg (read_digits (show_nat c @ zeros (nat e))) 0)"
    by (rule read_number_whole) (auto dest: show_nat_digits digits_zeros)
  moreover have "read_digits (show_nat c @ zeros (nat e)) = c * 10 ^ nat e"
    by (simp add: read_digits_append read_digits_show_nat read_digits_zeros) (simp add: zeros_def)
  ultimately show ?thesis using dec_value_shift [of neg c "nat e" 0] True by (simp add: fixed_body_whole)
next
  case False
  then obtain ws fs where b: "fixed_body c e = ws @ CHR ''.'' # fs" "ws \<noteq> []" "length fs = nat (- e)"
    "ws @ fs = zeros (Suc (nat (- e)) - length (show_nat c)) @ show_nat c" using fixed_body_fraction [of e c] by (metis not_le)
  have d: "is_digit x" if "x \<in> set (ws @ fs)" for x using that unfolding b(4) by (rule padded_digits)
  have "read_number neg (fixed_body c e) = Some (Finite neg (read_digits (ws @ fs)) (- int (length fs)))"
    unfolding b(1) by (rule read_number_fraction) (use d b(2) in auto)
  moreover have "read_digits (ws @ fs) = c"
    unfolding b(4) by (simp add: read_digits_append read_digits_show_nat read_digits_zeros)
  ultimately show ?thesis using False b(3) by simp
qed

lemma fixed_body_head: "\<exists>x xs. fixed_body c e = x # xs \<and> is_digit x"
proof (cases "0 \<le> e")
  case True
  obtain x xs where "show_nat c = x # xs" by (cases "show_nat c") auto
  then show ?thesis using True show_nat_digits [of x c] by (simp add: fixed_body_whole)
next
  case False
  then obtain ws fs where b: "fixed_body c e = ws @ CHR ''.'' # fs" "ws \<noteq> []"
    "ws @ fs = zeros (Suc (nat (- e)) - length (show_nat c)) @ show_nat c" using fixed_body_fraction [of e c] by (metis not_le)
  obtain x xs where w: "ws = x # xs" using b(2) by (cases ws) auto
  have "x \<in> set (ws @ fs)" by (simp add: w)
  then have "is_digit x" unfolding b(3) by (rule padded_digits)
  then show ?thesis using b(1) w by simp
qed

lemma format_fixed_reads:
  "\<exists>c' e'. read_text (format_fixed neg c e) = Some (Finite neg c' e') \<and> dec_value neg c' e' = dec_value neg c e"
proof -
  obtain x xs where b: "fixed_body c e = x # xs" "is_digit x" using fixed_body_head by blast
  have "x \<noteq> CHR ''-''" "x \<noteq> CHR ''+''" using b(2) by (auto simp: is_digit_def char_code_def)
  then have "split_sign (format_fixed neg c e) = (neg, fixed_body c e)"
    by (auto simp: format_fixed_body split_sign_def b(1))
  then show ?thesis using fixed_body_reads [of neg c e] by (simp add: read_text_def)
qed

corollary format_fixed_value: "format_fixed neg c e = format_fixed neg' c' e' \<Longrightarrow> dec_value neg c e = dec_value neg' c' e'"
  using format_fixed_reads [of neg c e] format_fixed_reads [of neg' c' e'] by auto

subsection \<open>Canonical text\<close>

lemma last_show_nat: "n mod 10 \<noteq> 0 \<Longrightarrow> last (show_nat n) \<noteq> CHR ''0''"
proof -
  assume n: "n mod 10 \<noteq> 0"
  have "last (show_nat n) = digit_char (n mod 10)" by (subst show_nat.simps) simp
  moreover have "digit_char (n mod 10) \<noteq> digit_char 0" using n by (simp add: digit_char_inj)
  moreover have "digit_char 0 = CHR ''0''" by code_simp
  ultimately show ?thesis by simp
qed

lemma rstrip_char_id: "s \<noteq> [] \<Longrightarrow> last s \<noteq> c \<Longrightarrow> rstrip_char c s = s"
  by (cases s rule: rev_cases) (simp_all add: rstrip_char_def)

lemma trim_fixed_body:
  assumes "c mod 10 \<noteq> 0 \<or> 0 \<le> e"
  shows "trim_fraction (format_fixed neg c e) = format_fixed neg c e"
proof (cases "0 \<le> e")
  case True
  have "CHR ''.'' \<notin> set (format_fixed neg c e)"
    using not_digit_dot by (auto simp: format_fixed_body fixed_body_whole [OF True] dest: show_nat_digits digits_zeros)
  then show ?thesis by (simp add: trim_fraction_def)
next
  case False
  then obtain ws fs where b: "fixed_body c e = ws @ CHR ''.'' # fs" "length fs = nat (- e)"
    "ws @ fs = zeros (Suc (nat (- e)) - length (show_nat c)) @ show_nat c"
    using fixed_body_fraction [of e c] by (metis not_le)
  have fs: "fs \<noteq> []" using b(2) False by auto
  have "last (format_fixed neg c e) = last (ws @ fs)" using fs by (simp add: format_fixed_body b(1))
  also have "\<dots> = last (show_nat c)" unfolding b(3) by simp
  finally have l: "last (format_fixed neg c e) = last (show_nat c)" .
  have "is_digit (last (show_nat c))" by (rule show_nat_digits [of _ c]) simp
  then have "last (show_nat c) \<noteq> CHR ''.''" using not_digit_dot by auto
  moreover have "last (show_nat c) \<noteq> CHR ''0''" using last_show_nat assms False by auto
  moreover have "format_fixed neg c e \<noteq> []" by (simp add: format_fixed_body b(1))
  ultimately show ?thesis by (simp add: trim_fraction_def rstrip_char_id l)
qed

lemma decimal_text_normal:
  assumes "parse_decimal s = Some (Finite n c e)" and "exact_decimal c e" and "decimal_text s = Inr t"
  obtains n0 c0 e0 where "t = format_fixed n0 c0 e0" and "dec_value n0 c0 e0 = dec_value n c e"
    and "if dec_value n c e = 0 then n0 = False \<and> c0 = 0 \<and> e0 = 0 else c0 mod 10 \<noteq> 0"
proof -
  obtain c0 e0 where nrm: "normalize_decimal c e = Inr (c0, e0)"
    and t: "t = (if trim_fraction (format_fixed n c0 e0) = ''-0'' \<or> trim_fraction (format_fixed n c0 e0) = [] then ''0''
                 else trim_fraction (format_fixed n c0 e0))"
    using assms(1,3) by (auto simp: decimal_text_def bind_res_Inr_iff Let_def)
  have v: "dec_value n c0 e0 = dec_value n c e" "if c = 0 then c0 = 0 \<and> e0 = 0 else c0 mod 10 \<noteq> 0"
    using normalize_exact [OF nrm assms(2)] by blast+
  have zero: "format_fixed False 0 0 = ''0''" "format_fixed True 0 0 = ''-0''"
    by code_simp+
  show thesis
  proof (cases "c = 0")
    case True
    then have "c0 = 0" "e0 = 0" using v(2) by simp_all
    then have "t = format_fixed False 0 0" using t zero trim_fixed_body [of 0 0 n] by (cases n) simp_all
    then show thesis using that [of False 0 0] True by (simp add: dec_value_zero dec_value_def)
  next
    case False
    then have c0: "c0 mod 10 \<noteq> 0" using v(2) by simp
    then have tr: "trim_fraction (format_fixed n c0 e0) = format_fixed n c0 e0" by (simp add: trim_fixed_body)
    have "format_fixed n c0 e0 \<noteq> ''-0''"
      using format_fixed_value [of n c0 e0 True 0 0] c0 zero dec_value_zero [of n c0 e0] dec_value_zero [of True 0 0] by auto
    moreover have "format_fixed n c0 e0 \<noteq> []" using fixed_body_head [of c0 e0] by (auto simp: format_fixed_body)
    ultimately have "t = format_fixed n c0 e0" using t tr by simp
    then show thesis using that [of n c0 e0] v(1) c0 False by (simp add: dec_value_zero)
  qed
qed

subsection \<open>Properties\<close>

text \<open>The canonical text of a number is a normal form of its value: for numbers of at most 28 digits within the
  exponent range, two spellings get the same text exactly when they denote the same number.\<close>

theorem decimal_text_canonical:
  assumes "parse_decimal s = Some (Finite n c e)" and "exact_decimal c e" and "decimal_text s = Inr t"
    and "parse_decimal s' = Some (Finite n' c' e')" and "exact_decimal c' e'" and "decimal_text s' = Inr t'"
  shows "t = t' \<longleftrightarrow> dec_value n c e = dec_value n' c' e'"
proof -
  obtain m d f where t: "t = format_fixed m d f" "dec_value m d f = dec_value n c e"
    "if dec_value n c e = 0 then m = False \<and> d = 0 \<and> f = 0 else d mod 10 \<noteq> 0"
    by (rule decimal_text_normal [OF assms(1-3)])
  obtain m' d' f' where t': "t' = format_fixed m' d' f'" "dec_value m' d' f' = dec_value n' c' e'"
    "if dec_value n' c' e' = 0 then m' = False \<and> d' = 0 \<and> f' = 0 else d' mod 10 \<noteq> 0"
    by (rule decimal_text_normal [OF assms(4-6)])
  have "t = t'" if "dec_value n c e = dec_value n' c' e'"
  proof (cases "dec_value n c e = 0")
    case True
    then show ?thesis using t t' that by simp
  next
    case False
    then show ?thesis using dec_value_unique [of m d f m' d' f'] t t' that by simp
  qed
  moreover have "dec_value n c e = dec_value n' c' e'" if "t = t'"
    using format_fixed_value [of m d f m' d' f'] t(1,2) t'(1,2) that by metis
  ultimately show ?thesis by blast
qed

theorem decimal_text_canonical_witness:
  "decimal_text ''1.0'' = Inr ''1'' \<and> decimal_text ''1e0'' = Inr ''1'' \<and> dec_value False 10 (- 1) = dec_value False 1 0"
proof -
  have p: "parse_decimal ''1.0'' = Some (Finite False 10 (- 1))" "parse_decimal ''1e0'' = Some (Finite False 1 0)"
    by code_simp+
  have e: "exact_decimal 10 (- 1)" "exact_decimal 1 0"
    by (simp_all add: exact_decimal_def adjusted_def digit_count_def show_nat.simps)
  have t: "decimal_text ''1.0'' = Inr ''1''" "decimal_text ''1e0'' = Inr ''1''" by code_simp+
  show ?thesis using decimal_text_canonical [OF p(1) e(1) t(1) p(2) e(2) t(2)] t by simp
qed

end
