(* ===== verification/Archive.thy ===== *)
theory Archive
  imports Source_Boundary Py_Decimal
begin

section \<open>Parity between the hot store and the archive\<close>

text \<open>
  \<^verbatim>\<open>realtime/domain/archive.py\<close>: the evidence gathered from the hot serving table and from its archive, their
  comparison, and the plan of a rebuild from the archive. Numeric sums are compared by their canonical decimal text.
\<close>

subsection \<open>Evidence\<close>

record parity_evidence =
  pe_role :: string
  pe_dataset_id :: string
  pe_pipeline_version_id :: string
  pe_binding_version_id :: string
  pe_boundary :: source_boundary
  pe_dimension_version_ids :: "(string \<times> string) list"
  pe_row_count :: int
  pe_checksum :: string
  pe_distinct_source_position_count :: int
  pe_schema_fingerprint :: string
  pe_null_count :: int
  pe_error_count :: int
  pe_numeric_sums :: "(string \<times> json) list"
  pe_sample_hash :: string

fun texts_of :: "(string \<times> json) list \<Rightarrow> (string \<times> json) list res" where
  "texts_of [] = Inr []"
| "texts_of ((k, v) # items) =
     bind_res (decimal_text (py_str v)) (\<lambda>t. bind_res (texts_of items) (\<lambda>ts. Inr ((k, JStr t) # ts)))"

definition parity_evidence_init :: "parity_evidence \<Rightarrow> parity_evidence res" where
  "parity_evidence_init e =
     (if pe_role e \<notin> {''hot'', ''archive''}
         \<or> list_ex blank [pe_dataset_id e, pe_pipeline_version_id e, pe_binding_version_id e, pe_checksum e,
              pe_schema_fingerprint e, pe_sample_hash e]
        then Inl (ValueError ''parity evidence identity is incomplete'')
      else if pe_row_count e < 0 \<or> pe_distinct_source_position_count e < 0 \<or> pe_null_count e < 0 \<or> pe_error_count e < 0
        then Inl (ValueError ''parity evidence counters cannot be negative'')
      else if \<exists>kv \<in> set (pe_dimension_version_ids e). blank (fst kv) \<or> blank (snd kv)
        then Inl (ValueError ''parity dimension version identity is invalid'')
      else bind_res (texts_of (pe_numeric_sums e)) (\<lambda>texts.
        if \<exists>kv \<in> set texts. blank (fst kv) then Inl (ValueError ''parity numeric sum field is invalid'')
        else Inr (e\<lparr>pe_dimension_version_ids := sort_key fst (pe_dimension_version_ids e),
                   pe_numeric_sums := sort_key fst texts\<rparr>)))"

definition evidence_document :: "parity_evidence \<Rightarrow> dict" where
  "evidence_document e =
     [(''role'', JStr (pe_role e)), (''datasetId'', JStr (pe_dataset_id e)),
      (''pipelineVersionId'', JStr (pe_pipeline_version_id e)), (''bindingVersionId'', JStr (pe_binding_version_id e)),
      (''sourceBoundary'', boundary_document (pe_boundary e)),
      (''dimensionVersionIds'', str_dict (pe_dimension_version_ids e)), (''rowCount'', JInt (pe_row_count e)),
      (''checksum'', JStr (pe_checksum e)),
      (''distinctSourcePositionCount'', JInt (pe_distinct_source_position_count e)),
      (''schemaFingerprint'', JStr (pe_schema_fingerprint e)), (''nullCount'', JInt (pe_null_count e)),
      (''errorCount'', JInt (pe_error_count e)), (''numericSums'', JObj (pe_numeric_sums e)),
      (''sampleHash'', JStr (pe_sample_hash e))]"

subsection \<open>The comparison\<close>

record parity_report =
  rep_report_id :: string
  rep_hot :: parity_evidence
  rep_archive :: parity_evidence
  rep_mismatch_fields :: "string list"

definition parity_comparisons :: "parity_evidence \<Rightarrow> parity_evidence \<Rightarrow> (string \<times> bool) list" where
  "parity_comparisons h a =
     [(''datasetId'', pe_dataset_id h = pe_dataset_id a),
      (''pipelineVersionId'', pe_pipeline_version_id h = pe_pipeline_version_id a),
      (''sourceBoundary'', pe_boundary h = pe_boundary a),
      (''dimensionVersionIds'', json_eq (str_dict (pe_dimension_version_ids h)) (str_dict (pe_dimension_version_ids a))),
      (''rowCount'', pe_row_count h = pe_row_count a), (''checksum'', pe_checksum h = pe_checksum a),
      (''distinctSourcePositionCount'', pe_distinct_source_position_count h = pe_distinct_source_position_count a),
      (''schemaFingerprint'', pe_schema_fingerprint h = pe_schema_fingerprint a),
      (''nullCount'', pe_null_count h = pe_null_count a), (''errorCount'', pe_error_count h = pe_error_count a),
      (''numericSums'', json_eq (JObj (pe_numeric_sums h)) (JObj (pe_numeric_sums a))),
      (''sampleHash'', pe_sample_hash h = pe_sample_hash a)]"

definition parity_report_id :: "parity_evidence \<Rightarrow> parity_evidence \<Rightarrow> string" where
  "parity_report_id h a =
     ''rtpar_'' @ sha256_hex (json_dumps True (JObj [(''hot'', JObj (evidence_document h)), (''archive'', JObj (evidence_document a))]))"

definition parity_compare :: "parity_evidence \<Rightarrow> parity_evidence \<Rightarrow> parity_report res" where
  "parity_compare h a =
     (if pe_role h \<noteq> ''hot'' \<or> pe_role a \<noteq> ''archive''
        then Inl (ValueError ''parity comparison requires hot and archive evidence'')
      else Inr \<lparr>rep_report_id = parity_report_id h a, rep_hot = h, rep_archive = a,
                rep_mismatch_fields = map fst (filter (\<lambda>(_, same). \<not> same) (parity_comparisons h a))\<rparr>)"

definition report_matched :: "parity_report \<Rightarrow> bool" where
  "report_matched r \<longleftrightarrow> rep_mismatch_fields r = []"

subsection \<open>Rebuilding from the archive\<close>

record rebuild_plan =
  rb_operation_id :: string
  rb_idempotency_key :: string
  rb_dataset_id :: string
  rb_pipeline_version_id :: string
  rb_shadow_binding_version_id :: string
  rb_physical_database :: string
  rb_physical_table :: string
  rb_parity_report_id :: string
  rb_boundary :: source_boundary
  rb_dimension_version_ids :: "(string \<times> string) list"
  rb_tail_start_offsets :: "json list"

definition tail_document :: "partition_boundary \<Rightarrow> json" where
  "tail_document p = JObj [(''topic'', JStr (pb_topic p)), (''partition'', JInt (pb_partition p)),
     (''nextOffset'', JInt (pb_to_inclusive p + 1))]"

definition rebuild_plan_build :: "parity_report \<Rightarrow> string \<Rightarrow> string \<Rightarrow> string \<Rightarrow> rebuild_plan res" where
  "rebuild_plan_build report shadow database tab =
     (if \<not> report_matched report then Inl (ValueError ''rebuild requires matched hot/archive parity evidence'')
      else if list_ex blank [shadow, database, tab] then Inl (ValueError ''rebuild shadow target is incomplete'')
      else let digest = sha256_hex (py_join ''|'' [rep_report_id report, shadow, database, tab]);
               archive = rep_archive report
           in Inr \<lparr>rb_operation_id = ''rtrebuild_'' @ digest, rb_idempotency_key = ''rebuild:'' @ digest,
                   rb_dataset_id = pe_dataset_id archive, rb_pipeline_version_id = pe_pipeline_version_id archive,
                   rb_shadow_binding_version_id = shadow, rb_physical_database = database, rb_physical_table = tab,
                   rb_parity_report_id = rep_report_id report, rb_boundary = pe_boundary archive,
                   rb_dimension_version_ids = pe_dimension_version_ids archive,
                   rb_tail_start_offsets = map tail_document (sb_partitions (pe_boundary archive))\<rparr>)"

record rebuild_completion =
  rc_parity_report_id :: string
  rc_gap_count :: int
  rc_overlap_count :: int

definition rebuild_completion_init :: "rebuild_completion \<Rightarrow> rebuild_completion res" where
  "rebuild_completion_init e =
     (if blank (rc_parity_report_id e) \<or> rc_gap_count e < 0 \<or> rc_overlap_count e < 0
        then Inl (ValueError ''rebuild completion evidence is invalid'')
      else if rc_gap_count e \<noteq> 0 \<or> rc_overlap_count e \<noteq> 0
        then Inl (ValueError ''rebuild cannot become ready with source gaps or overlaps'')
      else Inr e)"

subsection \<open>Properties\<close>

lemma mismatch_empty:
  "parity_compare h a = Inr r \<Longrightarrow> report_matched r \<longleftrightarrow> list_all snd (parity_comparisons h a)"
  by (force simp: parity_compare_def report_matched_def filter_empty_conv list_all_iff split: if_splits)

lemma rebuild_plan_Inr:
  assumes "rebuild_plan_build report shadow database tab = Inr p"
  shows "report_matched report" and "rb_boundary p = pe_boundary (rep_archive report)"
    and "rb_tail_start_offsets p = map tail_document (sb_partitions (pe_boundary (rep_archive report)))"
    and "rb_dataset_id p = pe_dataset_id (rep_archive report)"
    and "rb_parity_report_id p = rep_report_id report"
  using assms by (auto simp: rebuild_plan_build_def Let_def split: if_splits)

text \<open>A rebuild is planned only from evidence that agrees in every compared field, so the plan's boundary is the
  boundary of both stores, and the tail of each partition starts at the offset right after it.\<close>

theorem rebuild_starts_from_parity:
  assumes "parity_compare h a = Inr report" and "rebuild_plan_build report shadow database tab = Inr p"
  shows "pe_role h = ''hot'' \<and> pe_role a = ''archive'' \<and> pe_dataset_id h = pe_dataset_id a \<and> pe_boundary h = pe_boundary a
    \<and> pe_row_count h = pe_row_count a \<and> pe_checksum h = pe_checksum a
    \<and> pe_distinct_source_position_count h = pe_distinct_source_position_count a
    \<and> pe_schema_fingerprint h = pe_schema_fingerprint a \<and> pe_null_count h = pe_null_count a
    \<and> pe_error_count h = pe_error_count a \<and> pe_sample_hash h = pe_sample_hash a
    \<and> json_eq (JObj (pe_numeric_sums h)) (JObj (pe_numeric_sums a))
    \<and> rb_dataset_id p = pe_dataset_id h \<and> rb_boundary p = pe_boundary h
    \<and> rb_tail_start_offsets p = map (\<lambda>b. JObj [(''topic'', JStr (pb_topic b)), (''partition'', JInt (pb_partition b)),
         (''nextOffset'', JInt (pb_to_inclusive b + 1))]) (sb_partitions (pe_boundary h))"
proof -
  note plan = rebuild_plan_Inr [OF assms(2)]
  have "list_all snd (parity_comparisons h a)" using mismatch_empty [OF assms(1)] plan(1) by simp
  moreover have "rep_archive report = a" "pe_role h = ''hot''" "pe_role a = ''archive''"
    using assms(1) by (auto simp: parity_compare_def split: if_splits)
  ultimately show ?thesis using plan by (simp add: parity_comparisons_def tail_document_def [abs_def])
qed

definition sample_hot :: parity_evidence where
  "sample_hot = \<lparr>pe_role = ''hot'', pe_dataset_id = ''d1'', pe_pipeline_version_id = ''v1'', pe_binding_version_id = ''b1'',
     pe_boundary = SourceBoundary [PartitionBoundary ''t'' 0 (-1) 4], pe_dimension_version_ids = [], pe_row_count = 5, pe_checksum = ''c'',
     pe_distinct_source_position_count = 5, pe_schema_fingerprint = ''f'', pe_null_count = 0, pe_error_count = 0,
     pe_numeric_sums = [(''amount'', JStr ''1.5'')], pe_sample_hash = ''h''\<rparr>"

definition sample_archive :: parity_evidence where
  "sample_archive = sample_hot\<lparr>pe_role := ''archive'', pe_binding_version_id := ''a1''\<rparr>"

theorem rebuild_starts_from_parity_witness:
  "\<exists>report p. parity_compare sample_hot sample_archive = Inr report \<and> rebuild_plan_build report ''s1'' ''db'' ''tb'' = Inr p
     \<and> rb_tail_start_offsets p = [JObj [(''topic'', JStr ''t''), (''partition'', JInt 0), (''nextOffset'', JInt 5)]]"
proof -
  obtain report where c: "parity_compare sample_hot sample_archive = Inr report"
    by (simp add: parity_compare_def sample_hot_def sample_archive_def)
  have "list_all snd (parity_comparisons sample_hot sample_archive)"
    by (simp add: parity_comparisons_def sample_archive_def)
  then have m: "report_matched report" using mismatch_empty [OF c] by simp
  have "\<not> blank ''s1''" "\<not> blank ''db''" "\<not> blank ''tb''" by code_simp+
  then obtain p where p: "rebuild_plan_build report ''s1'' ''db'' ''tb'' = Inr p"
    using m by (simp add: rebuild_plan_build_def Let_def)
  show ?thesis using rebuild_starts_from_parity [OF c p] c p by (auto simp: sample_hot_def)
qed

end
