(* ===== verification/Cutover.thy ===== *)
theory Cutover
  imports Source_Boundary
begin

section \<open>Switching the serving binding: requests\<close>

text \<open>
  \<^verbatim>\<open>realtime/domain/cutover.py\<close>: the gates of a cutover, the physical target of a switch, and the request that
  carries the audit data. The constructors' checks are the \<open>_init\<close> functions.
\<close>

record gate_evidence =
  cg_deterministic_fixture_rows :: int
  cg_lost_source_positions :: int
  cg_logical_duplicate_count :: int
  cg_shadow_observation_hours :: int
  cg_shadow_parity_passed :: bool
  cg_p95_slo_passed :: bool
  cg_restart_chaos_passed :: bool
  cg_security_passed :: bool
  cg_rollback_drill_passed :: bool
  cg_operations_dashboard_ready :: bool
  cg_runbook_ready :: bool

definition gate_checks :: "gate_evidence \<Rightarrow> (string \<times> bool) list" where
  "gate_checks g =
     [(''deterministicFixture'', cg_deterministic_fixture_rows g \<ge> 100000),
      (''sourcePositionLoss'', cg_lost_source_positions g = 0),
      (''logicalDuplicates'', cg_logical_duplicate_count g = 0),
      (''shadow72Hours'', cg_shadow_observation_hours g \<ge> 72),
      (''shadowParity'', cg_shadow_parity_passed g), (''p95Slo'', cg_p95_slo_passed g),
      (''restartChaos'', cg_restart_chaos_passed g), (''security'', cg_security_passed g),
      (''rollbackDrill'', cg_rollback_drill_passed g),
      (''operationsDashboard'', cg_operations_dashboard_ready g), (''runbook'', cg_runbook_ready g)]"

definition failed_gates :: "gate_evidence \<Rightarrow> string list" where
  "failed_gates g = map fst (filter (\<lambda>(_, passed). \<not> passed) (gate_checks g))"

definition gate_approved :: "gate_evidence \<Rightarrow> bool" where
  "gate_approved g \<longleftrightarrow> failed_gates g = []"

definition gate_document :: "gate_evidence \<Rightarrow> dict" where
  "gate_document g =
     [(''deterministicFixtureRows'', JInt (cg_deterministic_fixture_rows g)),
      (''lostSourcePositions'', JInt (cg_lost_source_positions g)),
      (''logicalDuplicateCount'', JInt (cg_logical_duplicate_count g)),
      (''shadowObservationHours'', JInt (cg_shadow_observation_hours g)),
      (''shadowParityPassed'', JBool (cg_shadow_parity_passed g)), (''p95SloPassed'', JBool (cg_p95_slo_passed g)),
      (''restartChaosPassed'', JBool (cg_restart_chaos_passed g)), (''securityPassed'', JBool (cg_security_passed g)),
      (''rollbackDrillPassed'', JBool (cg_rollback_drill_passed g)),
      (''operationsDashboardReady'', JBool (cg_operations_dashboard_ready g)), (''runbookReady'', JBool (cg_runbook_ready g)),
      (''approved'', JBool (gate_approved g)), (''failedGates'', JList (map JStr (failed_gates g)))]"

record binding_target =
  bt_engine :: string
  bt_version_id :: string
  bt_pipeline_version_id :: string
  bt_materialization_id :: string
  bt_boundary :: source_boundary
  bt_dimension_version_ids :: "(string \<times> string) list"
  bt_checksum :: string
  bt_row_count :: int
  bt_database :: "string option"
  bt_table :: "string option"
  bt_catalog :: "string option"
  bt_schema :: "string option"
  bt_archive_snapshot_id :: "string option"

definition given :: "string option \<Rightarrow> bool" where
  "given v \<longleftrightarrow> v \<noteq> None \<and> v \<noteq> Some []"

definition binding_target_init :: "binding_target \<Rightarrow> binding_target res" where
  "binding_target_init t =
     (if bt_engine t \<notin> {''clickhouse'', ''trino''}
         \<or> list_ex blank [bt_version_id t, bt_pipeline_version_id t, bt_materialization_id t, bt_checksum t]
        then Inl (ValueError ''serving binding target identity is incomplete'')
      else if bt_row_count t < 0 then Inl (ValueError ''serving binding row count cannot be negative'')
      else if bt_engine t = ''clickhouse'' \<and> \<not> (given (bt_database t) \<and> given (bt_table t))
        then Inl (ValueError ''ClickHouse target requires database and table'')
      else if bt_engine t = ''trino'' \<and> \<not> (given (bt_catalog t) \<and> given (bt_schema t) \<and> given (bt_table t))
        then Inl (ValueError ''Trino target requires catalog, schema, and table'')
      else if \<exists>kv \<in> set (bt_dimension_version_ids t). blank (fst kv) \<or> blank (snd kv)
        then Inl (ValueError ''serving binding dimension identity is invalid'')
      else Inr (t\<lparr>bt_dimension_version_ids := sort_key fst (bt_dimension_version_ids t)\<rparr>))"

definition target_role :: "binding_target \<Rightarrow> string" where
  "target_role t = (if bt_engine t = ''clickhouse'' then ''serving'' else ''archive'')"

definition target_document :: "int \<Rightarrow> binding_target \<Rightarrow> dict" where
  "target_document epoch t =
     [(''role'', JStr (target_role t)), (''engine'', JStr (bt_engine t)), (''status'', JStr ''active''),
      (''bindingEpoch'', JInt epoch), (''versionId'', JStr (bt_version_id t)),
      (''pipelineVersionId'', JStr (bt_pipeline_version_id t)), (''materializationId'', JStr (bt_materialization_id t)),
      (''sourceBoundary'', boundary_document (bt_boundary t)), (''checksum'', JStr (bt_checksum t)),
      (''rowCount'', JInt (bt_row_count t)), (''dimensionVersionIds'', str_dict (bt_dimension_version_ids t))]
     @ (if bt_engine t = ''clickhouse''
        then [(''database'', of_opt_str (bt_database t)), (''table'', of_opt_str (bt_table t))]
        else [(''catalog'', of_opt_str (bt_catalog t)), (''schema'', of_opt_str (bt_schema t)),
              (''table'', of_opt_str (bt_table t)), (''snapshotId'', of_opt_str (bt_archive_snapshot_id t))])"

text \<open>\<open>f"{value}"\<close> of an optional string.\<close>

definition opt_text :: "string option \<Rightarrow> string" where
  "opt_text v = (case v of None \<Rightarrow> ''None'' | Some s \<Rightarrow> s)"

definition storage_location :: "binding_target \<Rightarrow> string" where
  "storage_location t =
     (if bt_engine t = ''clickhouse'' then ''clickhouse://'' @ opt_text (bt_database t) @ ''/'' @ opt_text (bt_table t)
      else ''trino://'' @ opt_text (bt_catalog t) @ ''/'' @ opt_text (bt_schema t) @ ''/'' @ opt_text (bt_table t))"

record switch_request =
  sr_idempotency_key :: string
  sr_action :: string
  sr_dataset_id :: string
  sr_expected_binding_epoch :: int
  sr_expected_binding_version_id :: string
  sr_target :: binding_target
  sr_parity_report_id :: string
  sr_requested_by :: string
  sr_reason :: string
  sr_correlation_id :: string
  sr_gate :: "gate_evidence option"

definition switch_request_init :: "switch_request \<Rightarrow> switch_request res" where
  "switch_request_init r =
     (if sr_action r \<notin> {''cutover'', ''rollback''}
         \<or> list_ex blank [sr_idempotency_key r, sr_dataset_id r, sr_expected_binding_version_id r, sr_parity_report_id r,
              sr_requested_by r, sr_correlation_id r]
        then Inl (ValueError ''binding switch identity is incomplete'')
      else if 256 < py_len (sr_idempotency_key r) \<or> sr_expected_binding_epoch r < 0
        then Inl (ValueError ''binding switch idempotency key or epoch is invalid'')
      else if py_len (py_strip (sr_reason r)) < 10 \<or> 2000 < py_len (sr_reason r)
        then Inl (ValueError ''binding switch requires an audited reason'')
      else if sr_action r = ''cutover'' \<and> (case sr_gate r of None \<Rightarrow> True | Some g \<Rightarrow> \<not> gate_approved g)
        then Inl (ValueError (''cutover gate is not approved: '' @
          py_join '', '' (case sr_gate r of None \<Rightarrow> [''missingGateEvidence''] | Some g \<Rightarrow> failed_gates g)))
      else Inr r)"

definition switch_operation_id :: "switch_request \<Rightarrow> string" where
  "switch_operation_id r = ''rtswitch_'' @ sha256_hex (''binding-switch|'' @ sr_idempotency_key r)"

record switch_result =
  sw_operation_id :: string
  sw_dataset_id :: string
  sw_binding_epoch :: int
  sw_revision :: int
  sw_event_cursor :: int
  sw_created :: bool

subsection \<open>Properties\<close>

lemma failed_gates_empty: "failed_gates g = [] \<longleftrightarrow> list_all snd (gate_checks g)"
  by (simp add: failed_gates_def filter_empty_conv list_all_iff case_prod_beta)

text \<open>No gate can be skipped: a cutover request exists only with gate evidence in which every gate passed (the fixture
  size, no lost position, no duplicate, 72 hours of shadow traffic with parity, and the six drills), an identified
  requester and a reason of at least ten characters.\<close>

theorem cutover_requires_every_gate:
  assumes "switch_request_init q = Inr r" and "sr_action q = ''cutover''"
  shows "r = q \<and> (\<exists>g. sr_gate r = Some g \<and> 100000 \<le> cg_deterministic_fixture_rows g \<and> cg_lost_source_positions g = 0
    \<and> cg_logical_duplicate_count g = 0 \<and> 72 \<le> cg_shadow_observation_hours g \<and> cg_shadow_parity_passed g
    \<and> cg_p95_slo_passed g \<and> cg_restart_chaos_passed g \<and> cg_security_passed g \<and> cg_rollback_drill_passed g
    \<and> cg_operations_dashboard_ready g \<and> cg_runbook_ready g)
    \<and> \<not> blank (sr_requested_by r) \<and> 10 \<le> py_len (py_strip (sr_reason r)) \<and> 0 \<le> sr_expected_binding_epoch r"
  using assms
  by (auto simp: switch_request_init_def gate_approved_def failed_gates_empty gate_checks_def split: if_splits option.splits)

definition sample_gate :: gate_evidence where
  "sample_gate = \<lparr>cg_deterministic_fixture_rows = 100000, cg_lost_source_positions = 0, cg_logical_duplicate_count = 0,
     cg_shadow_observation_hours = 72, cg_shadow_parity_passed = True, cg_p95_slo_passed = True, cg_restart_chaos_passed = True,
     cg_security_passed = True, cg_rollback_drill_passed = True, cg_operations_dashboard_ready = True, cg_runbook_ready = True\<rparr>"

definition sample_cutover :: switch_request where
  "sample_cutover = \<lparr>sr_idempotency_key = ''k'', sr_action = ''cutover'', sr_dataset_id = ''d'', sr_expected_binding_epoch = 0,
     sr_expected_binding_version_id = ''v'', sr_target = \<lparr>bt_engine = ''clickhouse'', bt_version_id = ''w'', bt_pipeline_version_id = ''p'',
       bt_materialization_id = ''m'', bt_boundary = SourceBoundary [], bt_dimension_version_ids = [], bt_checksum = ''c'', bt_row_count = 0,
       bt_database = Some ''d'', bt_table = Some ''t'', bt_catalog = None, bt_schema = None, bt_archive_snapshot_id = None\<rparr>,
     sr_parity_report_id = ''r'', sr_requested_by = ''ann'', sr_reason = ''go live now'', sr_correlation_id = ''x'', sr_gate = Some sample_gate\<rparr>"

theorem cutover_requires_every_gate_witness:
  "switch_request_init sample_cutover = Inr sample_cutover \<and> 10 \<le> py_len (py_strip (sr_reason sample_cutover))"
proof -
  have s: "py_strip ''k'' \<noteq> []" "py_strip ''d'' \<noteq> []" "py_strip ''v'' \<noteq> []" "py_strip ''r'' \<noteq> []" "py_strip ''ann'' \<noteq> []"
      "py_strip ''x'' \<noteq> []" "py_len ''k'' \<le> 256" "10 \<le> py_len (py_strip ''go live now'')" "py_len ''go live now'' \<le> 2000"
    by code_simp+
  have g: "gate_approved sample_gate" by (simp add: gate_approved_def failed_gates_empty gate_checks_def sample_gate_def)
  have init: "switch_request_init sample_cutover = Inr sample_cutover"
    using s g by (simp add: switch_request_init_def sample_cutover_def blank_def)
  have "sr_action sample_cutover = ''cutover''" by (simp add: sample_cutover_def)
  with cutover_requires_every_gate [OF init] init show ?thesis by blast
qed

end
