(* ===== verification/Event_Contract.thy ===== *)
theory Event_Contract
  imports Receipt
begin

section \<open>The contract of realtime events\<close>

text \<open>
  \<^verbatim>\<open>services/realtime_event_contract.py\<close>: which events may be published, with which payload fields, under which
  size, and without anything that looks like a secret at any depth. The size limit is a setting and so a
  parameter.
\<close>

subsection \<open>\<open>str.casefold\<close>\<close>

text \<open>
  The folded key is only searched for ASCII fragments, so folding is modelled on the code points whose folding
  contains an ASCII letter: the ASCII capitals and the UTF-8 sequences of this table. Others keep their bytes.
\<close>

definition fold_table :: "(string \<times> string) list" where
  "fold_table =
    [([CHR 0xC3, CHR 0x9F], [CHR ''s'', CHR ''s'']),
     ([CHR 0xE1, CHR 0xBA, CHR 0x9E], [CHR ''s'', CHR ''s'']),
     ([CHR 0xC5, CHR 0xBF], [CHR ''s'']),
     ([CHR 0xE2, CHR 0x84, CHR 0xAA], [CHR ''k'']),
     ([CHR 0xEF, CHR 0xAC, CHR 0x80], [CHR ''f'', CHR ''f'']),
     ([CHR 0xEF, CHR 0xAC, CHR 0x81], [CHR ''f'', CHR ''i'']),
     ([CHR 0xEF, CHR 0xAC, CHR 0x82], [CHR ''f'', CHR ''l'']),
     ([CHR 0xEF, CHR 0xAC, CHR 0x83], [CHR ''f'', CHR ''f'', CHR ''i'']),
     ([CHR 0xEF, CHR 0xAC, CHR 0x84], [CHR ''f'', CHR ''f'', CHR ''l'']),
     ([CHR 0xEF, CHR 0xAC, CHR 0x85], [CHR ''s'', CHR ''t'']),
     ([CHR 0xEF, CHR 0xAC, CHR 0x86], [CHR ''s'', CHR ''t'']),
     ([CHR 0xC4, CHR 0xB0], [CHR ''i'', CHR 0xCC, CHR 0x87]),
     ([CHR 0xC5, CHR 0x89], [CHR 0xCA, CHR 0xBC, CHR ''n'']),
     ([CHR 0xC7, CHR 0xB0], [CHR ''j'', CHR 0xCC, CHR 0x8C]),
     ([CHR 0xE1, CHR 0xBA, CHR 0x96], [CHR ''h'', CHR 0xCC, CHR 0xB1]),
     ([CHR 0xE1, CHR 0xBA, CHR 0x97], [CHR ''t'', CHR 0xCC, CHR 0x88]),
     ([CHR 0xE1, CHR 0xBA, CHR 0x98], [CHR ''w'', CHR 0xCC, CHR 0x8A]),
     ([CHR 0xE1, CHR 0xBA, CHR 0x99], [CHR ''y'', CHR 0xCC, CHR 0x8A]),
     ([CHR 0xE1, CHR 0xBA, CHR 0x9A], [CHR ''a'', CHR 0xCA, CHR 0xBE])]"

function casefold :: "string \<Rightarrow> string" where
  "casefold [] = []"
| "casefold (c # cs) =
     (case find (\<lambda>(p, _). starts_with p (c # cs)) fold_table of
        None \<Rightarrow> lower_char c # casefold cs
      | Some (p, out) \<Rightarrow> out @ casefold (drop (length p - 1) cs))"
  by pat_completeness auto
termination
  by (relation "measure length") auto

text \<open>Every sequence of the table starts with a byte above the ASCII range: an ASCII letter folds by itself.\<close>

lemma fold_table_not_ascii: "\<not> digit7 c \<Longrightarrow> find (\<lambda>(p, _). starts_with p (c # cs)) fold_table = None"
  by (cases c) (simp add: fold_table_def)

lemma casefold_code [code]:
  "casefold [] = []"
  "casefold (c # cs) =
     (if digit7 c
      then (case find (\<lambda>(p, _). starts_with p (c # cs)) fold_table of
              None \<Rightarrow> lower_char c # casefold cs
            | Some (p, out) \<Rightarrow> out @ casefold (drop (length p - 1) cs))
      else lower_char c # casefold cs)"
  by (simp_all add: fold_table_not_ascii del: find.simps)

subsection \<open>The registry\<close>

definition event_type_registry :: "(string \<times> string \<times> string list) list" where
  "event_type_registry =
     [(''dataset.revision.committed'', ''dataset'', [''runId'', ''commitKind'']),
      (''dashboard.published'', ''dashboard'', [''publishedRevisionId''])]"

definition secret_key_fragments :: "string list" where
  "secret_key_fragments =
     [''authorization'', ''cookie'', ''credential'', ''password'', ''secret'', ''token'', ''api_key'', ''apikey'']"

definition required_v2_keys :: "string list" where
  "required_v2_keys =
     [''bindingEpoch'', ''materializationId'', ''mutationType'', ''sourceBoundary'', ''servingVersionId'', ''pipelineVersionId'']"

definition secret_like :: "string \<Rightarrow> bool" where
  "secret_like k \<longleftrightarrow>
     (let normalized_key = replace_char (CHR ''-'') ''_'' (casefold k)
      in list_ex (\<lambda>fragment. py_in fragment normalized_key) secret_key_fragments)"

fun reject_secret_fields :: "string list \<Rightarrow> json \<Rightarrow> unit res"
  and reject_secret_items :: "string list \<Rightarrow> nat \<Rightarrow> json list \<Rightarrow> unit res"
  and reject_secret_entries :: "string list \<Rightarrow> (string \<times> json) list \<Rightarrow> unit res" where
  "reject_secret_fields path (JObj d) = reject_secret_entries path d"
| "reject_secret_fields path (JList xs) = reject_secret_items path 0 xs"
| "reject_secret_fields path _ = Inr ()"
| "reject_secret_items path i [] = Inr ()"
| "reject_secret_items path i (x # xs) =
     bind_res (reject_secret_fields (path @ [show_nat i]) x) (\<lambda>_. reject_secret_items path (Suc i) xs)"
| "reject_secret_entries path [] = Inr ()"
| "reject_secret_entries path ((k, child) # d) =
     (if secret_like k
      then Inl (ValueError (''Realtime event payload contains a secret-like field: '' @ py_join ''.'' (path @ [k])))
      else bind_res (reject_secret_fields (path @ [k]) child) (\<lambda>_. reject_secret_entries path d))"

definition encoded_event :: "string list \<Rightarrow> dict \<Rightarrow> string" where
  "encoded_event invalidations payload =
     json_dumps False (JObj [(''invalidate'', JList (map JStr invalidations)), (''payload'', JObj payload)])"

definition dict_keys :: "dict \<Rightarrow> string list" where
  "dict_keys d = remdups (map fst d)"

definition validate_realtime_event ::
  "nat \<Rightarrow> string \<Rightarrow> string \<Rightarrow> string \<Rightarrow> int \<Rightarrow> string \<Rightarrow> string list \<Rightarrow> dict \<Rightarrow> int \<Rightarrow> unit res" where
  "validate_realtime_event max_bytes event_type resource_type resource_id aggregate_revision correlation_id
      invalidations payload schema_version =
     (case map_of event_type_registry event_type of
        None \<Rightarrow> Inl (ValueError (''Unsupported realtime event type: '' @ event_type))
      | Some (expected_resource_type, allowed_payload_keys) \<Rightarrow>
        if resource_type \<noteq> expected_resource_type
          then Inl (ValueError (''Realtime event '' @ event_type @ '' requires resource type '' @ expected_resource_type))
        else if resource_id = [] \<or> py_len resource_id > 160
          then Inl (ValueError ''Realtime event requires a bounded resource id'')
        else if aggregate_revision < 0
          then Inl (ValueError ''Realtime event aggregate revision must be non-negative'')
        else if correlation_id = [] \<or> py_len correlation_id > 160
          then Inl (ValueError ''Realtime event requires a bounded correlation id'')
        else if length invalidations > 20 \<or> (\<exists>item \<in> set invalidations. item = [] \<or> py_len item > 256)
          then Inl (ValueError ''Realtime event invalidation list is invalid'')
        else if schema_version = 2 \<and> event_type \<noteq> ''dataset.revision.committed''
          then Inl (ValueError ''Realtime event schema v2 currently supports Dataset revisions only'')
        else if schema_version \<noteq> 2 \<and> schema_version \<noteq> 1
          then Inl (ValueError ''Unsupported realtime event schema version'')
        else let required = (if schema_version = 2 then required_v2_keys else []);
                 effective = (if schema_version = 2 then required_v2_keys else allowed_payload_keys);
                 unexpected = filter (\<lambda>k. k \<notin> set effective) (dict_keys payload);
                 missing = filter (\<lambda>k. k \<notin> set (dict_keys payload)) required
        in if unexpected \<noteq> []
             then Inl (ValueError (''Realtime event payload contains unsupported fields: '' @ py_join '', '' (sort unexpected)))
           else if missing \<noteq> []
             then Inl (ValueError (''Realtime event schema v2 payload is missing fields: '' @ py_join '', '' (sort missing)))
           else bind_res (reject_secret_fields [] (JObj payload)) (\<lambda>_.
             if length (encoded_event invalidations payload) > max_bytes
             then Inl (ValueError ''Realtime event payload exceeds the configured size limit'')
             else Inr ()))"

subsection \<open>Secrets\<close>

fun deep_keys :: "json \<Rightarrow> string list"
  and deep_keys_items :: "json list \<Rightarrow> string list"
  and deep_keys_entries :: "(string \<times> json) list \<Rightarrow> string list" where
  "deep_keys (JObj d) = deep_keys_entries d"
| "deep_keys (JList xs) = deep_keys_items xs"
| "deep_keys _ = []"
| "deep_keys_items [] = []"
| "deep_keys_items (x # xs) = deep_keys x @ deep_keys_items xs"
| "deep_keys_entries [] = []"
| "deep_keys_entries ((k, child) # d) = k # deep_keys child @ deep_keys_entries d"

lemma reject_secret_iff:
  "reject_secret_fields path v = Inr () \<longleftrightarrow> (\<forall>k \<in> set (deep_keys v). \<not> secret_like k)"
  "reject_secret_items path i xs = Inr () \<longleftrightarrow> (\<forall>k \<in> set (deep_keys_items xs). \<not> secret_like k)"
  "reject_secret_entries path d = Inr () \<longleftrightarrow> (\<forall>k \<in> set (deep_keys_entries d). \<not> secret_like k)"
  by (induction path v and path i xs and path d
      rule: reject_secret_fields_reject_secret_items_reject_secret_entries.induct)
     (auto simp: bind_res_Inr_iff)

lemma validate_event_Inr:
  assumes "validate_realtime_event max_bytes t rt rid rv cid invs payload sv = Inr ()"
  shows "\<forall>k \<in> set (deep_keys (JObj payload)). \<not> secret_like k"
    and "length (encoded_event invs payload) \<le> max_bytes" and "0 \<le> rv" and "rid \<noteq> []"
    and "sv = 1 \<or> sv = 2" and "sv = 2 \<Longrightarrow> set (map fst payload) = set required_v2_keys"
proof -
  obtain ert keys where reg: "map_of event_type_registry t = Some (ert, keys)"
    using assms by (auto simp: validate_realtime_event_def split: option.splits)
  note v = assms [unfolded validate_realtime_event_def reg option.case prod.case Let_def]
  have "reject_secret_fields [] (JObj payload) = Inr ()"
    using v by (auto simp: bind_res_Inr_iff simp del: reject_secret_fields.simps split: if_splits)
  then show "\<forall>k \<in> set (deep_keys (JObj payload)). \<not> secret_like k" by (simp only: reject_secret_iff)
  show "length (encoded_event invs payload) \<le> max_bytes" and "0 \<le> rv" and "rid \<noteq> []" and "sv = 1 \<or> sv = 2"
    using v by (auto simp: bind_res_Inr_iff simp del: reject_secret_fields.simps split: if_splits)
  show "set (map fst payload) = set required_v2_keys" if "sv = 2"
  proof -
    have "filter (\<lambda>k. k \<notin> set required_v2_keys) (dict_keys payload) = []"
        "filter (\<lambda>k. k \<notin> set (dict_keys payload)) required_v2_keys = []"
      using v that by (auto simp: bind_res_Inr_iff simp del: reject_secret_fields.simps split: if_splits)
    then show ?thesis by (auto simp: filter_empty_conv dict_keys_def)
  qed
qed

subsection \<open>Properties\<close>

text \<open>No event carries a secret: an accepted event has no key, at any depth of its payload, that contains a secret
  fragment in any case, and its encoding is within the configured size. A version 2 event has exactly the six
  fields of its schema.\<close>

theorem accepted_events_carry_no_secret:
  assumes "validate_realtime_event max_bytes t rt rid rv cid invs payload sv = Inr ()"
  shows "(\<forall>k \<in> set (deep_keys (JObj payload)). \<forall>f \<in> set secret_key_fragments.
            \<not> py_in f (replace_char (CHR ''-'') ''_'' (casefold k)))
    \<and> length (encoded_event invs payload) \<le> max_bytes
    \<and> (sv = 2 \<longrightarrow> set (map fst payload) = set required_v2_keys)"
  using validate_event_Inr [OF assms] by (auto simp: secret_like_def list_ex_iff)

definition sample_event_payload :: dict where
  "sample_event_payload = [(''runId'', JStr ''r1''), (''commitKind'', JStr ''batch'')]"

theorem accepted_events_carry_no_secret_witness:
  "validate_realtime_event 200 ''dataset.revision.committed'' ''dataset'' ''d1'' 3 ''c1'' [''dataset:d1'']
      sample_event_payload 1 = Inr ()
   \<and> \<not> py_in ''token'' (replace_char (CHR ''-'') ''_'' (casefold ''runId''))"
proof -
  have ok: "validate_realtime_event 200 ''dataset.revision.committed'' ''dataset'' ''d1'' 3 ''c1'' [''dataset:d1'']
      sample_event_payload 1 = Inr ()" by code_simp
  show ?thesis using accepted_events_carry_no_secret [OF ok] ok
    by (simp add: sample_event_payload_def secret_key_fragments_def)
qed

end
