(* ===== verification/Event_Log.thy ===== *)
theory Event_Log
  imports Event_Contract Store
begin

section \<open>The event log\<close>

text \<open>
  \<^verbatim>\<open>repositories/realtime_event_repository.py\<close>: appending an event once per idempotency key, replaying events to a
  client that resumes from a cursor, and deleting expired ones. The retention and the size limit are settings;
  the notification of listeners and the metrics are left out. \<open>db_next_event_id\<close> is the identity sequence.
\<close>

record event_settings =
  es_max_bytes :: nat
  es_retention_seconds :: int

record event_envelope =
  ee_event_id :: int
  ee_event_type :: string
  ee_schema_version :: int
  ee_scope_id :: string
  ee_resource_type :: string
  ee_resource_id :: string
  ee_aggregate_revision :: int
  ee_occurred_at :: string
  ee_correlation_id :: string
  ee_invalidate :: "string list"
  ee_payload :: dict

definition to_envelope :: "event_row \<Rightarrow> event_envelope" where
  "to_envelope e =
     \<lparr>ee_event_id = ev_id e, ee_event_type = ev_event_type e, ee_schema_version = ev_schema_version e,
      ee_scope_id = ev_scope_id e, ee_resource_type = ev_resource_type e, ee_resource_id = ev_resource_id e,
      ee_aggregate_revision = ev_aggregate_revision e, ee_occurred_at = isoformat_utc (ev_occurred_at e),
      ee_correlation_id = ev_correlation_id e, ee_invalidate = ev_invalidations e, ee_payload = ev_payload e\<rparr>"

definition by_idempotency_key :: "string \<Rightarrow> db \<Rightarrow> event_row option" where
  "by_idempotency_key k s = lookup_key ev_idempotency_key k (db_events s)"

definition event_unique :: "event_row list \<Rightarrow> event_row \<Rightarrow> bool" where
  "event_unique rows e \<longleftrightarrow> (\<forall>r \<in> set rows. ev_id r \<noteq> ev_id e \<and> ev_idempotency_key r \<noteq> ev_idempotency_key e)"

definition insert_event :: "event_row \<Rightarrow> (db, unit) op" where
  "insert_event e = (\<lambda>s.
     case sql_insert event_check event_unique (e\<lparr>ev_id := db_next_event_id s\<rparr>) (db_events s) of
       Inl err \<Rightarrow> (Inl err, s)
     | Inr rows \<Rightarrow> (Inr (), s\<lparr>db_events := rows, db_next_event_id := db_next_event_id s + 1\<rparr>))"

text \<open>The insert runs in a savepoint. When it breaks a constraint, the row another session inserted under the key is
  looked for; without one the error is raised again.\<close>

definition append_row :: "event_row \<Rightarrow> (db, event_envelope \<times> bool) op" where
  "append_row model =
     catch_op
       (bind_op (read_op db_next_event_id) (\<lambda>next_id.
        bind_op (transaction (insert_event model)) (\<lambda>_.
        return_op (to_envelope (model\<lparr>ev_id := next_id\<rparr>), True))))
       (\<lambda>e. case e of
          IntegrityError _ \<Rightarrow>
            bind_op (read_op (by_idempotency_key (ev_idempotency_key model))) (\<lambda>existing.
            case existing of None \<Rightarrow> raise_op e | Some row \<Rightarrow> return_op (to_envelope row, False))
        | _ \<Rightarrow> raise_op e)"

definition append_event ::
  "event_settings \<Rightarrow> string \<Rightarrow> string \<Rightarrow> string \<Rightarrow> int \<Rightarrow> string \<Rightarrow> string \<Rightarrow> string list \<Rightarrow> dict
    \<Rightarrow> timestamp \<Rightarrow> int \<Rightarrow> (db, event_envelope \<times> bool) op" where
  "append_event cfg event_type resource_type resource_id aggregate_revision correlation_id idempotency_key
      invalidations payload now schema_version =
     bind_op (lift_res (validate_realtime_event (es_max_bytes cfg) event_type resource_type resource_id
        aggregate_revision correlation_id invalidations payload schema_version)) (\<lambda>_.
     let key = py_strip idempotency_key
     in bind_op (check_op (key \<noteq> [] \<and> py_len key \<le> 256)
          (ValueError ''Realtime event requires a bounded idempotency key'')) (\<lambda>_.
        bind_op (read_op (by_idempotency_key key)) (\<lambda>existing.
        case existing of
          Some e \<Rightarrow> return_op (to_envelope e, False)
        | None \<Rightarrow>
            (let model = \<lparr>ev_id = 0, ev_scope_id = ''deployment'', ev_event_type = event_type,
                   ev_schema_version = schema_version, ev_resource_type = resource_type, ev_resource_id = resource_id,
                   ev_aggregate_revision = aggregate_revision, ev_correlation_id = correlation_id,
                   ev_idempotency_key = key, ev_invalidations = invalidations, ev_payload = payload,
                   ev_occurred_at = now, ev_expires_at = now + seconds (es_retention_seconds cfg)\<rparr>
             in append_row model))))"

text \<open>Reading. \<open>now\<close> is the time of the call.\<close>

definition live :: "timestamp \<Rightarrow> event_row \<Rightarrow> bool" where
  "live now e \<longleftrightarrow> now < ev_expires_at e"

definition cursor_bounds :: "string \<Rightarrow> timestamp \<Rightarrow> db \<Rightarrow> int \<times> int" where
  "cursor_bounds scope_id now s =
     (let ids = map ev_id (filter (\<lambda>e. ev_scope_id e = scope_id \<and> live now e) (db_events s))
      in if ids = [] then (0, 0) else (Min (set ids), Max (set ids)))"

definition max_cursor :: "string \<Rightarrow> timestamp \<Rightarrow> db \<Rightarrow> int" where
  "max_cursor scope_id now s = snd (cursor_bounds scope_id now s)"

definition replay_match ::
  "int \<Rightarrow> (string \<times> string) list \<Rightarrow> int option \<Rightarrow> string \<Rightarrow> timestamp \<Rightarrow> event_row \<Rightarrow> bool" where
  "replay_match after_cursor resources through_cursor scope_id now e \<longleftrightarrow>
     ev_scope_id e = scope_id \<and> max 0 after_cursor < ev_id e \<and> live now e
     \<and> (ev_resource_type e, ev_resource_id e) \<in> set resources
     \<and> (case through_cursor of None \<Rightarrow> True | Some c \<Rightarrow> ev_id e \<le> c)"

definition replay ::
  "int \<Rightarrow> (string \<times> string) list \<Rightarrow> int \<Rightarrow> int option \<Rightarrow> string \<Rightarrow> timestamp \<Rightarrow> db \<Rightarrow> event_envelope list" where
  "replay after_cursor resources limit through_cursor scope_id now s =
     (if resources = [] then []
      else map to_envelope (take (nat (max 1 limit)) (sort_key ev_id
        (filter (replay_match after_cursor resources through_cursor scope_id now) (db_events s)))))"

definition dispatch_after :: "int \<Rightarrow> int \<Rightarrow> timestamp \<Rightarrow> db \<Rightarrow> event_envelope list" where
  "dispatch_after after_cursor limit now s =
     map to_envelope (take (nat (max 1 limit)) (sort_key ev_id
        (filter (\<lambda>e. max 0 after_cursor < ev_id e \<and> live now e) (db_events s))))"

definition cleanup_expired :: "timestamp \<Rightarrow> (db, int) op" where
  "cleanup_expired now = (\<lambda>s.
     (Inr (int (length (filter (\<lambda>e. ev_expires_at e \<le> now) (db_events s)))),
      s\<lparr>db_events := filter (\<lambda>e. \<not> ev_expires_at e \<le> now) (db_events s)\<rparr>))"

subsection \<open>The log invariant\<close>

definition events_ok :: "db \<Rightarrow> bool" where
  "events_ok s \<longleftrightarrow> table_ok ev_idempotency_key event_check (db_events s)
     \<and> sorted_wrt (<) (map ev_id (db_events s)) \<and> (\<forall>e \<in> set (db_events s). 0 < ev_id e \<and> ev_id e < db_next_event_id s)
     \<and> 0 < db_next_event_id s"

lemma append_row_Inr_iff:
  assumes "by_idempotency_key (ev_idempotency_key model) s = None"
  shows "append_row model s = (Inr (env, created), t) \<longleftrightarrow>
    created \<and> env = to_envelope (model\<lparr>ev_id := db_next_event_id s\<rparr>)
    \<and> event_check (model\<lparr>ev_id := db_next_event_id s\<rparr>) \<and> event_unique (db_events s) (model\<lparr>ev_id := db_next_event_id s\<rparr>)
    \<and> t = s\<lparr>db_events := db_events s @ [model\<lparr>ev_id := db_next_event_id s\<rparr>], db_next_event_id := db_next_event_id s + 1\<rparr>"
  using assms
  by (auto simp: append_row_def catch_op_def bind_op_def read_op_def return_op_def raise_op_def transaction_def insert_event_def
      sql_insert_def check_violation_def unique_violation_def)

lemma append_event_cases:
  assumes "append_event cfg t rt rid rv cid key invs payload now sv s = (Inr (env, created), s')"
  obtains (old) e where "\<not> created" "s' = s" "by_idempotency_key (py_strip key) s = Some e" "env = to_envelope e"
      "validate_realtime_event (es_max_bytes cfg) t rt rid rv cid invs payload sv = Inr ()"
      "py_strip key \<noteq> []" "py_len (py_strip key) \<le> 256"
  | (new) e where "created" "by_idempotency_key (py_strip key) s = None"
      "e = \<lparr>ev_id = db_next_event_id s, ev_scope_id = ''deployment'', ev_event_type = t,
                   ev_schema_version = sv, ev_resource_type = rt, ev_resource_id = rid,
                   ev_aggregate_revision = rv, ev_correlation_id = cid,
                   ev_idempotency_key = py_strip key, ev_invalidations = invs, ev_payload = payload,
                   ev_occurred_at = now, ev_expires_at = now + seconds (es_retention_seconds cfg)\<rparr>"
      "env = to_envelope e" "event_check e" "event_unique (db_events s) e"
      "s' = s\<lparr>db_events := db_events s @ [e], db_next_event_id := db_next_event_id s + 1\<rparr>"
      "validate_realtime_event (es_max_bytes cfg) t rt rid rv cid invs payload sv = Inr ()"
      "py_strip key \<noteq> []" "py_len (py_strip key) \<le> 256"
  using assms unfolding append_event_def Let_def
  by (auto simp: op_elims append_row_Inr_iff split: option.splits)

lemma append_event_total:
  assumes "validate_realtime_event (es_max_bytes cfg) t rt rid rv cid invs payload sv = Inr ()"
    and "py_strip key \<noteq> []" and "py_len (py_strip key) \<le> 256" and "events_ok s"
    and "by_idempotency_key (py_strip key) s = None"
  shows "\<exists>env s'. append_event cfg t rt rid rv cid key invs payload now sv s = (Inr (env, True), s')"
proof -
  have sv: "sv = 1 \<or> sv = 2" by (rule validate_event_Inr(5) [OF assms(1)])
  have "ev_idempotency_key r \<noteq> py_strip key" if "r \<in> set (db_events s)" for r
    using assms(5) imageI [OF that, of ev_idempotency_key] unfolding by_idempotency_key_def lookup_key_None by metis
  then have "\<forall>r \<in> set (db_events s). ev_id r \<noteq> db_next_event_id s \<and> ev_idempotency_key r \<noteq> py_strip key"
    using assms(4) by (auto simp: events_ok_def)
  then show ?thesis using assms sv
    by (auto simp: append_event_def Let_def bind_op_def lift_res_def check_op_def return_op_def read_op_def
        append_row_Inr_iff event_check_def event_unique_def)
qed

lemma append_event_ok:
  assumes "append_event cfg t rt rid rv cid key invs payload now sv s = (Inr (env, created), s')" and "events_ok s"
  shows "events_ok s'"
  using assms(1)
proof (cases rule: append_event_cases)
  case old
  then show ?thesis using assms(2) by simp
next
  case (new e)
  have "key' \<noteq> ev_idempotency_key e" if "key' \<in> ev_idempotency_key ` set (db_events s)" for key'
    using new(6) that by (auto simp: event_unique_def)
  moreover have "ev_id e = db_next_event_id s" using new(3) by simp
  ultimately show ?thesis using assms(2) new(5,7)
    by (auto simp: events_ok_def table_ok_def keyed_snoc sorted_wrt_append)
qed

lemma append_event_lookup:
  assumes "append_event cfg t rt rid rv cid key invs payload now sv s = (Inr (env, created), s')"
  shows "\<exists>e. by_idempotency_key (py_strip key) s' = Some e \<and> env = to_envelope e"
  using assms
proof (cases rule: append_event_cases)
  case (old e)
  then show ?thesis by blast
next
  case (new e)
  have "by_idempotency_key (py_strip key) s' = Some e"
    using new(2,3,7) by (simp add: by_idempotency_key_def lookup_key_snoc)
  then show ?thesis using new(4) by blast
qed

subsection \<open>Appending twice\<close>

interpretation append: idempotent_command "append_event cfg t rt rid rv cid key invs payload now sv"
    "\<lambda>(env, _). (env, False)" events_ok for cfg t rt rid rv cid key invs payload now sv
proof
  fix s r s'
  assume run: "append_event cfg t rt rid rv cid key invs payload now sv s = (Inr r, s')" and ok: "events_ok s"
  obtain env created where r: "r = (env, created)" by (cases r)
  show "events_ok s'" using append_event_ok [OF run [unfolded r] ok] .
  obtain e where e: "by_idempotency_key (py_strip key) s' = Some e" "env = to_envelope e"
    using append_event_lookup [OF run [unfolded r]] by blast
  have "validate_realtime_event (es_max_bytes cfg) t rt rid rv cid invs payload sv = Inr ()"
      "py_strip key \<noteq> []" "py_len (py_strip key) \<le> 256"
    using run [unfolded r] by (cases rule: append_event_cases; blast)+
  then show "append_event cfg t rt rid rv cid key invs payload now sv s' = (Inr (case r of (env, _) \<Rightarrow> (env, False)), s')"
    using e r by (simp add: append_event_def Let_def bind_op_def lift_res_def check_op_def return_op_def read_op_def)
qed

subsection \<open>Replaying in pages\<close>

lemma filter_after_page:
  fixes f :: "'a \<Rightarrow> int"
  assumes "sorted_wrt (<) (map f xs)" and "take n xs \<noteq> []"
  shows "filter (\<lambda>e. f (last (take n xs)) < f e) xs = drop n xs"
proof -
  have xs: "xs = take n xs @ drop n xs" by simp
  have order: "sorted_wrt (<) (map f (take n xs) @ map f (drop n xs))" using assms(1) by (metis append_take_drop_id map_append)
  then have all: "\<forall>a \<in> set (take n xs). \<forall>b \<in> set (drop n xs). f a < f b" and front: "sorted (map f (take n xs))"
    by (simp_all add: sorted_wrt_append strict_sorted_iff)
  have "filter (\<lambda>e. f (last (take n xs)) < f e) (take n xs) = []"
  proof -
    have "f e \<le> f (last (take n xs))" if "e \<in> set (take n xs)" for e
      using sorted_le_last [OF front, of "f e"] that assms(2) by (simp add: last_map)
    then show ?thesis by (force simp: filter_empty_conv)
  qed
  moreover have "filter (\<lambda>e. f (last (take n xs)) < f e) (drop n xs) = drop n xs"
    using all assms(2) by (simp add: filter_id_conv)
  ultimately show ?thesis by (metis append_Nil filter_append xs)
qed

lemma sorted_filter_events: "events_ok s \<Longrightarrow> sorted_wrt (<) (map ev_id (filter P (db_events s)))"
  unfolding events_ok_def by (metis sorted_wrt_filter sorted_wrt_map)

lemma sort_events: "events_ok s \<Longrightarrow> sort_key ev_id (filter P (db_events s)) = filter P (db_events s)"
  using sorted_filter_events [of s P] by (simp add: sorted_sort_id sort_key_id_if_sorted strict_sorted_iff)

lemma replay_ok:
  "events_ok s \<Longrightarrow> resources \<noteq> [] \<Longrightarrow> 1 \<le> n \<Longrightarrow> replay after resources n through scope now s =
     map to_envelope (take (nat n) (filter (replay_match after resources through scope now) (db_events s)))"
  by (simp add: replay_def sort_events max_def)

subsection \<open>Properties\<close>

text \<open>Appending is idempotent per key: an append that succeeds is followed, for any number of retries, by the same
  envelope marked as not created, with the database unchanged.\<close>

theorem append_event_idempotent:
  assumes "append_event cfg t rt rid rv cid key invs payload now sv s = (Inr (env, created), s')" and "events_ok s"
  shows "repeat_op n (append_event cfg t rt rid rv cid key invs payload now sv) s' = (Inr (replicate n (env, False)), s')"
  using append.retries [OF assms, of n] by simp

definition sample_settings :: event_settings where
  "sample_settings = \<lparr>es_max_bytes = 200, es_retention_seconds = 60\<rparr>"

definition sample_append :: "(db, event_envelope \<times> bool) op" where
  "sample_append = append_event sample_settings ''dataset.revision.committed'' ''dataset'' ''d1'' 3 ''c1'' ''k1''
     [''dataset:d1''] sample_event_payload 0 1"

lemma sample_append_runs: "\<exists>env s. sample_append empty_db = (Inr (env, True), s)"
proof -
  have ok: "validate_realtime_event (es_max_bytes sample_settings) ''dataset.revision.committed'' ''dataset'' ''d1'' 3 ''c1''
      [''dataset:d1''] sample_event_payload 1 = Inr ()" by code_simp
  have k: "py_strip ''k1'' = ''k1''" "py_len ''k1'' \<le> 256" by code_simp+
  show ?thesis unfolding sample_append_def
    by (rule append_event_total [OF ok]) (simp_all add: k events_ok_def empty_db_def by_idempotency_key_def lookup_key_def)
qed

lemma empty_events_ok: "events_ok empty_db"
  by (simp add: events_ok_def empty_db_def)

theorem append_event_idempotent_witness:
  "\<exists>env s. sample_append empty_db = (Inr (env, True), s)
     \<and> repeat_op 2 sample_append s = (Inr [(env, False), (env, False)], s)"
proof -
  obtain env s where run: "sample_append empty_db = (Inr (env, True), s)" using sample_append_runs by blast
  show ?thesis using append_event_idempotent [OF run [unfolded sample_append_def] empty_events_ok, of 2] run
    by (auto simp: sample_append_def numeral_2_eq_2)
qed

text \<open>Cursors are monotone: a created event gets an id above every event of the log and every earlier id, it is the only
  change to the log, and an event already published is never altered by an append.\<close>

theorem append_event_extends_log:
  assumes "append_event cfg t rt rid rv cid key invs payload now sv s = (Inr (env, created), s')" and "events_ok s"
  shows "events_ok s' \<and> (if created
      then \<exists>e. db_events s' = db_events s @ [e] \<and> env = to_envelope e \<and> ev_payload e = payload \<and> ev_aggregate_revision e = rv
           \<and> (\<forall>x \<in> set (db_events s). ev_id x < ev_id e) \<and> ev_expires_at e = now + seconds (es_retention_seconds cfg)
      else s' = s \<and> (\<exists>e \<in> set (db_events s). env = to_envelope e \<and> ev_idempotency_key e = py_strip key))"
  using assms(1)
proof (cases rule: append_event_cases)
  case (old e)
  then show ?thesis using assms(2) by (auto simp: by_idempotency_key_def dest: lookup_key_Some)
next
  case (new e)
  have "\<forall>x \<in> set (db_events s). ev_id x < ev_id e" using assms(2) new(3) by (simp add: events_ok_def)
  then show ?thesis using append_event_ok [OF assms] new(1,3,4,7) by auto
qed

theorem append_event_extends_log_witness:
  "\<exists>env s e. sample_append empty_db = (Inr (env, True), s) \<and> db_events s = [e] \<and> ev_aggregate_revision e = 3"
proof -
  obtain env s where run: "sample_append empty_db = (Inr (env, True), s)" using sample_append_runs by blast
  show ?thesis using append_event_extends_log [OF run [unfolded sample_append_def] empty_events_ok] run
    by (auto simp: empty_db_def)
qed

text \<open>C34. A client that resumes from the last cursor it saw misses nothing and sees nothing twice: reading a page and
  then the next page from its last cursor gives exactly what one larger read gives, in strictly increasing order.\<close>

theorem replay_resumes_exactly:
  assumes "events_ok s" and "1 \<le> n" and "1 \<le> m" and "page = replay after resources n through scope now s" and "page \<noteq> []"
  shows "replay after resources (n + m) through scope now s
      = page @ replay (ee_event_id (last page)) resources m through scope now s
    \<and> sorted_wrt (<) (map ee_event_id page)"
proof -
  let ?xs = "filter (replay_match after resources through scope now) (db_events s)"
  have res: "resources \<noteq> []" using assms(4,5) by (auto simp: replay_def)
  have page: "page = map to_envelope (take (nat n) ?xs)" using replay_ok [OF assms(1) res assms(2)] assms(4) by simp
  then have ne: "take (nat n) ?xs \<noteq> []" using assms(5) by simp
  let ?c = "ev_id (last (take (nat n) ?xs))"
  have id: "ee_event_id (to_envelope e) = ev_id e" for e by (simp add: to_envelope_def)
  have c: "ee_event_id (last page) = ?c" using ne by (simp add: page last_map id)
  have "last (take (nat n) ?xs) \<in> set ?xs" by (rule in_set_takeD [OF last_in_set [OF ne]])
  then have "max 0 after < ?c" by (simp add: replay_match_def)
  then have "filter (replay_match ?c resources through scope now) (db_events s) = filter (\<lambda>e. ?c < ev_id e) ?xs"
    by (auto simp: replay_match_def intro!: filter_cong)
  also have "\<dots> = drop (nat n) ?xs" by (rule filter_after_page [OF sorted_filter_events [OF assms(1)] ne])
  finally have "replay ?c resources m through scope now s = map to_envelope (take (nat m) (drop (nat n) ?xs))"
    using replay_ok [OF assms(1) res assms(3)] by simp
  moreover have "replay after resources (n + m) through scope now s = map to_envelope (take (nat n + nat m) ?xs)"
    using replay_ok [OF assms(1) res, of "n + m"] assms(2,3) by (simp add: nat_add_distrib)
  moreover have "sorted_wrt (<) (map ee_event_id page)"
    using sorted_wrt_take [OF sorted_filter_events [OF assms(1)]] by (simp add: page take_map comp_def id)
  ultimately show ?thesis unfolding c by (simp add: page take_add)
qed

definition sample_log :: db where
  "sample_log = empty_db\<lparr>db_events := map (\<lambda>i. \<lparr>ev_id = i, ev_scope_id = ''deployment'', ev_event_type = ''dashboard.published'',
     ev_schema_version = 1, ev_resource_type = ''dashboard'', ev_resource_id = ''b'', ev_aggregate_revision = i,
     ev_correlation_id = ''c'', ev_idempotency_key = show_int i, ev_invalidations = [], ev_payload = [],
     ev_occurred_at = 0, ev_expires_at = 100\<rparr>) [1, 2, 3], db_next_event_id := 4\<rparr>"

theorem replay_resumes_exactly_witness:
  "let page = replay 0 [(''dashboard'', ''b'')] 1 None ''deployment'' 5 sample_log
   in page \<noteq> [] \<and> replay 0 [(''dashboard'', ''b'')] 3 None ''deployment'' 5 sample_log
      = page @ replay (ee_event_id (last page)) [(''dashboard'', ''b'')] 2 None ''deployment'' 5 sample_log"
proof -
  let ?page = "replay 0 [(''dashboard'', ''b'')] 1 None ''deployment'' 5 sample_log"
  have ok: "events_ok sample_log"
    by (simp add: events_ok_def sample_log_def table_ok_def keyed_def show_int_inj event_check_def)
  have ne: "?page \<noteq> []" by (simp add: replay_ok [OF ok]) (simp add: sample_log_def replay_match_def live_def)
  show ?thesis using replay_resumes_exactly [OF ok _ _ refl ne, of 2] ne unfolding Let_def by simp
qed

text \<open>Retention removes exactly the expired events, reports how many, and changes no read that was not already blind to
  them.\<close>

theorem cleanup_removes_only_expired:
  "case cleanup_expired now s of (r, t) \<Rightarrow>
     r = Inr (int (length (db_events s)) - int (length (db_events t)))
     \<and> set (db_events t) = {e \<in> set (db_events s). live now e}
     \<and> (\<forall>after resources n through scope now'. now \<le> now' \<longrightarrow>
          replay after resources n through scope now' t = replay after resources n through scope now' s
          \<and> cursor_bounds scope now' t = cursor_bounds scope now' s)"
proof -
  let ?t = "s\<lparr>db_events := filter (\<lambda>e. \<not> ev_expires_at e \<le> now) (db_events s)\<rparr>"
  have run: "cleanup_expired now s = (Inr (int (length (filter (\<lambda>e. ev_expires_at e \<le> now) (db_events s)))), ?t)"
    by (simp add: cleanup_expired_def)
  have len: "length (filter (\<lambda>e. ev_expires_at e \<le> now) (db_events s)) + length (filter (\<lambda>e. \<not> ev_expires_at e \<le> now) (db_events s))
      = length (db_events s)" by (rule sum_length_filter_compl)
  have "filter (replay_match a res thr sc now') (db_events ?t) = filter (replay_match a res thr sc now') (db_events s)"
    if "now \<le> now'" for a res thr sc now'
    using that by (auto simp: replay_match_def live_def intro!: filter_cong)
  moreover have "filter (\<lambda>e. ev_scope_id e = sc \<and> live now' e) (db_events ?t) = filter (\<lambda>e. ev_scope_id e = sc \<and> live now' e) (db_events s)"
    if "now \<le> now'" for sc now'
    using that by (auto simp: live_def intro!: filter_cong)
  ultimately show ?thesis unfolding run using len by (auto simp: replay_def cursor_bounds_def live_def)
qed

theorem cleanup_removes_only_expired_witness:
  "replay 0 [(''dashboard'', ''b'')] 5 None ''deployment'' 200 (snd (cleanup_expired 150 sample_log))
   = replay 0 [(''dashboard'', ''b'')] 5 None ''deployment'' 200 sample_log"
  using cleanup_removes_only_expired [where now = 150 and s = sample_log] by (simp add: case_prod_beta)

end
