(* ===== verification/Catalog.thy ===== *)
theory Catalog
  imports Store
begin

section \<open>Catalog payloads\<close>

text \<open>
  \<^verbatim>\<open>core/permission_metadata.py\<close> and the payload functions of \<^verbatim>\<open>repositories/catalog_repository.py\<close>: the document of a
  Catalog dataset as the API and the publication code see it, with its physical bindings, permissions and
  materialization runs brought to one shape. Korean literals are given by their UTF-8 bytes.
\<close>

subsection \<open>Permission metadata\<close>

definition action_labels :: "(string \<times> string) list" where
  "action_labels =
    [([CHR 0xEA, CHR 0xB3, CHR 0xB5, CHR 0xEC, CHR 0x9C, CHR 0xA0], ''share''),
     ([CHR 0xEA, CHR 0xB4, CHR 0x80, CHR 0xEB, CHR 0xA6, CHR 0xAC], ''manage''),
     ([CHR 0xEC, CHR 0x82, CHR 0xAD, CHR 0xEC, CHR 0xA0, CHR 0x9C], ''delete''),
     ([CHR 0xEB, CHR 0xA9, CHR 0x94, CHR 0xED, CHR 0x83, CHR 0x80, CHR 0xEB, CHR 0x8D, CHR 0xB0, CHR 0xEC, CHR 0x9D, CHR 0xB4, CHR 0xED, CHR 0x84, CHR 0xB0], ''view''),
     ([CHR 0xEC, CHR 0x8B, CHR 0xA4, CHR 0xED, CHR 0x96, CHR 0x89], ''run''),
     ([CHR 0xEC, CHR 0xA1, CHR 0xB0, CHR 0xED, CHR 0x9A, CHR 0x8C], ''view''),
     ([CHR 0xEC, CHR 0xBF, CHR 0xBC, CHR 0xEB, CHR 0xA6, CHR 0xAC, CHR 0x20, CHR 0xEC, CHR 0x8B, CHR 0xA4, CHR 0xED, CHR 0x96, CHR 0x89], ''query'')]"

definition known_actions :: "string list" where
  "known_actions = [''view'', ''query'', ''run'', ''manage'', ''delete'', ''share'', ''publish'']"

definition label_action :: "json \<Rightarrow> string" where
  "label_action a = (case map_of action_labels (py_str a) of None \<Rightarrow> py_str a | Some l \<Rightarrow> l)"

definition normalize_actions :: "json \<Rightarrow> string list" where
  "normalize_actions v =
     (let raw_actions = (case as_list v of None \<Rightarrow> [] | Some xs \<Rightarrow> xs)
      in sorted_set (filter (\<lambda>a. a \<in> set known_actions) (map label_action raw_actions)))"

definition grant :: "string list \<Rightarrow> string \<Rightarrow> string \<Rightarrow> string \<Rightarrow> dict" where
  "grant actions principal_id principal_type source =
     [(''actions'', JList (map JStr actions)), (''principalId'', JStr principal_id),
      (''principalType'', JStr principal_type), (''source'', JStr source)]"

definition grant_key :: "dict \<Rightarrow> string \<times> string \<times> string list" where
  "grant_key g =
     (let actions = (case map_of g ''actions'' of Some (JList xs) \<Rightarrow> xs | _ \<Rightarrow> [])
      in (py_str (jget ''principalType'' g), py_str (jget ''principalId'' g), sort (map py_str actions)))"

fun dedupe_from :: "(string \<times> string \<times> string list) list \<Rightarrow> dict list \<Rightarrow> dict list" where
  "dedupe_from seen [] = []"
| "dedupe_from seen (g # gs) =
     (if grant_key g \<in> set seen then dedupe_from seen gs else g # dedupe_from (grant_key g # seen) gs)"

definition dedupe_grants :: "dict list \<Rightarrow> dict list" where
  "dedupe_grants grants = dedupe_from [] grants"

definition role_grant :: "string list \<Rightarrow> json \<Rightarrow> dict list" where
  "role_grant actions role =
     (case as_dict role of
        None \<Rightarrow> []
      | Some d \<Rightarrow>
          if jget ''checked'' d = JBool False then []
          else let principal_id = clean_str (por (por (jget ''principalId'' d) (jget ''principal_id'' d)) (jget ''name'' d));
                   principal_type = py_strip (py_str (por (por (jget ''principalType'' d) (jget ''principal_type'' d)) (JStr ''role'')));
                   role_actions = normalize_actions (jget ''access'' d)
               in if principal_id = [] \<or> principal_type \<notin> {''user'', ''group'', ''role'', ''public''} then []
                  else [grant (if role_actions \<noteq> [] then role_actions else actions) principal_id principal_type ''permissionRoles''])"

definition permission_grants_from_roles :: "string \<Rightarrow> json list \<Rightarrow> string list \<Rightarrow> dict list" where
  "permission_grants_from_roles owner roles default_actions =
     (let actions = (if default_actions \<noteq> [] then default_actions else [''view'']);
          owner_name = py_strip owner
      in dedupe_grants ((if owner_name \<noteq> [] then [grant actions owner_name ''user'' ''owner''] else [])
           @ concat (map (role_grant actions) roles)))"

definition resource_permissions :: "string \<Rightarrow> bool \<Rightarrow> bool \<Rightarrow> bool \<Rightarrow> bool \<Rightarrow> bool \<Rightarrow> dict" where
  "resource_permissions actor can_query can_run can_manage can_delete can_share =
     [(''canView'', JBool True), (''canQuery'', JBool can_query), (''canRun'', JBool can_run),
      (''canManage'', JBool can_manage), (''canDelete'', JBool can_delete), (''canShare'', JBool can_share),
      (''canPublish'', JBool False), (''computedFor'', JStr (if actor \<noteq> [] then actor else ''system'')),
      (''enforced'', JBool False)]"

subsection \<open>Payloads\<close>

definition normalize_run :: "dict \<Rightarrow> dict" where
  "normalize_run run =
     (let r1 = (if jget ''sourceKind'' run \<notin> JStr ` {''etl'', ''sql'', ''kafka'', ''continuous_sql''}
                then jset ''sourceKind'' (JStr ''etl'') run else run)
      in if jget ''materializationMode'' r1 \<notin> JStr ` {''snapshot'', ''delta''}
         then jset ''materializationMode'' (JStr (if jget ''sourceKind'' r1 = JStr ''kafka'' then ''delta'' else ''snapshot'')) r1
         else r1)"

definition normalize_materialization_runs :: "json list \<Rightarrow> json list" where
  "normalize_materialization_runs runs = map (\<lambda>d. JObj (normalize_run d)) (List.map_filter as_dict runs)"

definition binding_epoch_of :: "dict \<Rightarrow> int res" where
  "binding_epoch_of payload = py_int (por (jget ''bindingEpoch'' payload) (JInt 0))"

text \<open>The bindings of a payload that predates \<open>physicalBindings\<close>.\<close>

definition legacy_bindings :: "dict \<Rightarrow> json list res" where
  "legacy_bindings payload =
     bind_res
       (case as_dict (jget ''clickhouseTable'' payload) of
          None \<Rightarrow> Inr []
        | Some ch \<Rightarrow>
            if truthy (jget ''database'' ch) \<and> truthy (jget ''table'' ch)
            then bind_res (binding_epoch_of payload) (\<lambda>epoch.
              Inr [JObj [(''role'', JStr ''serving''), (''engine'', JStr ''clickhouse''), (''status'', JStr ''active''),
                   (''bindingEpoch'', JInt epoch), (''versionId'', jget ''activeServingVersionId'' payload),
                   (''database'', jget ''database'' ch), (''table'', jget ''table'' ch)]])
            else Inr []) (\<lambda>serving.
     bind_res
       (case as_dict (jget ''queryEngineTable'' payload) of
          None \<Rightarrow> Inr []
        | Some q \<Rightarrow>
            if truthy (jget ''catalog'' q) \<and> truthy (jget ''schema'' q) \<and> truthy (jget ''table'' q)
            then bind_res (binding_epoch_of payload) (\<lambda>epoch.
              Inr [JObj [(''role'', JStr ''archive''), (''engine'', JStr ''trino''), (''status'', JStr ''active''),
                   (''bindingEpoch'', JInt epoch), (''catalog'', jget ''catalog'' q), (''schema'', jget ''schema'' q),
                   (''table'', jget ''table'' q), (''snapshotId'', jget ''icebergSnapshotId'' payload)]])
            else Inr []) (\<lambda>archive.
     Inr (serving @ archive)))"

definition owner_grants :: "dict \<Rightarrow> json" where
  "owner_grants p = JList (map JObj (permission_grants_from_roles (py_str (por (jget ''owner'' p) (JStr []))) [] [''view'', ''query'']))"

definition finish_payload :: "dict \<Rightarrow> dict" where
  "finish_payload p1 =
     (let p2 = jset ''permissionGrants'' (por (jget ''permissionGrants'' p1) (owner_grants p1)) p1;
          p3 = jset ''permissions'' (por (jget ''permissions'' p2)
                 (JObj (resource_permissions ''system'' True False False False False))) p2
      in jset ''materializationRuns'' (JList (case as_list (jget ''materializationRuns'' p3) of
           None \<Rightarrow> [] | Some runs \<Rightarrow> normalize_materialization_runs runs)) p3)"

definition normalize_dataset_payload :: "dict \<Rightarrow> dict res" where
  "normalize_dataset_payload payload =
     (let p0 = (if map_of payload ''rag'' = None then jset ''rag'' (JBool False) payload else payload)
      in bind_res (case as_list (jget ''physicalBindings'' p0) of Some items \<Rightarrow> Inr items | None \<Rightarrow> legacy_bindings p0)
           (\<lambda>bindings. Inr (finish_payload (jset ''physicalBindings'' (JList bindings) p0))))"

definition str_or :: "string option \<Rightarrow> string \<Rightarrow> json" where
  "str_or v d = JStr (case v of None \<Rightarrow> d | Some s \<Rightarrow> if s \<noteq> [] then s else d)"

definition list_or_empty :: "json option \<Rightarrow> json" where
  "list_or_empty v = (case v of None \<Rightarrow> JList [] | Some x \<Rightarrow> por x (JList []))"

definition opt_json :: "json option \<Rightarrow> json" where
  "opt_json v = (case v of None \<Rightarrow> JNull | Some x \<Rightarrow> x)"

definition quality_pending :: string where
  "quality_pending = [CHR 0xED, CHR 0x99, CHR 0x95, CHR 0xEC, CHR 0x9D, CHR 0xB8, CHR 0x20, CHR 0xEB, CHR 0x8C, CHR 0x80, CHR 0xEA, CHR 0xB8, CHR 0xB0]"

definition column_payload :: "catalog_row \<Rightarrow> dict" where
  "column_payload m =
     [(''description'', str_or (cd_description m) []), (''downstream'', list_or_empty (cd_downstream m)),
      (''freshness'', str_or (cd_freshness m) ''latest''), (''id'', JStr (cd_id m)), (''layer'', str_or (cd_layer m) ''RAW''),
      (''lastUpdated'', str_or (cd_last_updated m) []), (''lineageGraph'', opt_json (cd_lineage_graph m)),
      (''name'', str_or (cd_name m) (cd_id m)), (''nextRefresh'', str_or (cd_next_refresh m) ''-''),
      (''owner'', str_or (cd_owner m) []), (''quality'', str_or (cd_quality m) quality_pending),
      (''rag'', JBool (cd_rag m = Some True)), (''rows'', str_or (cd_rows m) ''0''),
      (''sampleRows'', list_or_empty (cd_sample_rows m)), (''schema'', list_or_empty (cd_schema_json m)),
      (''size'', str_or (cd_size m) ''Pending''), (''source'', str_or (cd_source m) []),
      (''sourceManifest'', opt_json (cd_source_manifest m)), (''status'', str_or (cd_status m) ''available''),
      (''tags'', list_or_empty (cd_tags m)), (''upstream'', list_or_empty (cd_upstream m))]"

definition authoritative_metadata :: "catalog_row \<Rightarrow> (string \<times> string option) list" where
  "authoritative_metadata m =
     [(''producerJobId'', cd_producer_job_id m), (''producerJobKind'', cd_producer_job_kind m),
      (''executionMode'', cd_execution_mode m), (''sourceKind'', cd_source_kind m),
      (''relationMode'', cd_relation_mode m), (''runtimeStatus'', cd_runtime_status m)]"

definition dataset_model_to_payload :: "catalog_row \<Rightarrow> dict res" where
  "dataset_model_to_payload m =
     (let base = (case cd_payload m of Some (kv # rest) \<Rightarrow> kv # rest | _ \<Rightarrow> column_payload m)
      in normalize_dataset_payload (foldl (\<lambda>p (k, v). case v of None \<Rightarrow> p | Some s \<Rightarrow> jset k (JStr s) p) base
           (authoritative_metadata m)))"

text \<open>\<open>[dict(item) for item in value if isinstance(item, dict)] if isinstance(value, list) else []\<close>\<close>

definition dict_items :: "json \<Rightarrow> dict list" where
  "dict_items v = (case as_list v of None \<Rightarrow> [] | Some xs \<Rightarrow> List.map_filter as_dict xs)"

definition has_str :: "string \<Rightarrow> string \<Rightarrow> dict \<Rightarrow> bool" where
  "has_str k v d \<longleftrightarrow> jget k d = JStr v"

lemma dict_items_map_JObj [simp]: "dict_items (JList (map JObj ds)) = ds"
  by (induction ds) (simp_all add: dict_items_def List.map_filter_def)

subsection \<open>What normalisation guarantees\<close>

lemma normalized_fields:
  assumes "normalize_dataset_payload payload = Inr p"
  shows "\<exists>items. jget ''physicalBindings'' p = JList items" and "\<exists>runs. jget ''materializationRuns'' p = JList runs"
    and "truthy (jget ''permissions'' p)" and "map_of p ''rag'' \<noteq> None"
proof -
  have por_perm: "truthy (por x (JObj (resource_permissions a b c d e f)))" for x a b c d e f
    by (simp add: por_def resource_permissions_def)
  show "\<exists>items. jget ''physicalBindings'' p = JList items" and "\<exists>runs. jget ''materializationRuns'' p = JList runs"
    and "truthy (jget ''permissions'' p)" and "map_of p ''rag'' \<noteq> None"
    using assms por_perm by (auto simp: normalize_dataset_payload_def finish_payload_def Let_def bind_res_Inr_iff map_of_jset)
qed

lemma payload_bindings:
  "dataset_model_to_payload m = Inr p \<Longrightarrow> \<exists>items. jget ''physicalBindings'' p = JList items"
  unfolding dataset_model_to_payload_def Let_def by (rule normalized_fields(1))

subsection \<open>Normalising twice\<close>

lemma jset_same: "map_of d k = Some v \<Longrightarrow> jset k v d = d"
proof (induction d)
  case (Cons kv d)
  then show ?case by (cases kv) (auto simp: jset_def split: if_splits)
qed simp

lemma normalize_run_idem: "normalize_run (normalize_run r) = normalize_run r"
proof -
  let ?kinds = "JStr ` {''etl'', ''sql'', ''kafka'', ''continuous_sql''}" and ?modes = "JStr ` {''snapshot'', ''delta''}"
  have "jget ''sourceKind'' (normalize_run r) \<in> ?kinds" and "jget ''materializationMode'' (normalize_run r) \<in> ?modes"
    by (simp_all add: normalize_run_def Let_def)
  then show ?thesis unfolding normalize_run_def [of "normalize_run r"] Let_def by (simp only: if_not_P not_not simp_thms if_False)
qed

lemma normalize_runs_idem:
  "normalize_materialization_runs (normalize_materialization_runs runs) = normalize_materialization_runs runs"
  unfolding normalize_materialization_runs_def
  by (induction runs) (auto simp: List.map_filter_def normalize_run_idem)

lemma por_por: "por (por a b) b = por a b"
  by (simp add: por_def)

lemma normalize_fixpoint:
  assumes "map_of p ''rag'' \<noteq> None" and "map_of p ''physicalBindings'' = Some (JList items)"
    and "map_of p ''permissionGrants'' = Some g" and "por g (owner_grants p) = g"
    and "map_of p ''permissions'' = Some q" and "truthy q"
    and "map_of p ''materializationRuns'' = Some (JList runs)" and "normalize_materialization_runs runs = runs"
  shows "normalize_dataset_payload p = Inr p"
proof -
  have "jset ''physicalBindings'' (JList items) p = p" "jset ''permissionGrants'' g p = p" "jset ''permissions'' q p = p"
      "jset ''materializationRuns'' (JList runs) p = p"
    using assms by (simp_all add: jset_same)
  moreover have "jget ''physicalBindings'' p = JList items" "jget ''permissionGrants'' p = g" "jget ''permissions'' p = q"
      "jget ''materializationRuns'' p = JList runs"
    using assms by (simp_all add: jget_def)
  moreover have "por q x = q" for x using assms(6) by (simp add: por_def)
  moreover have "(if map_of p ''rag'' = None then jset ''rag'' (JBool False) p else p) = p" using assms(1) by (simp only: if_False simp_thms)
  ultimately show ?thesis using assms(4,8)
    by (simp only: normalize_dataset_payload_def finish_payload_def Let_def as_list.simps option.case bind_res_simps)
qed

lemma normalize_idempotent:
  assumes "normalize_dataset_payload payload = Inr p"
  shows "normalize_dataset_payload p = Inr p"
proof -
  obtain p1 items where p: "p = finish_payload p1"
    and rag: "map_of p1 ''rag'' \<noteq> None" and pb: "map_of p1 ''physicalBindings'' = Some (JList items)"
    using assms by (auto simp: normalize_dataset_payload_def Let_def bind_res_Inr_iff map_of_jset split: if_splits)
  have owner: "owner_grants p = owner_grants p1" by (simp add: p finish_payload_def owner_grants_def Let_def)
  show ?thesis
  proof (rule normalize_fixpoint)
    show "map_of p ''rag'' \<noteq> None" and "map_of p ''physicalBindings'' = Some (JList items)"
      using rag pb by (simp_all add: p finish_payload_def Let_def map_of_jset)
    show "map_of p ''permissionGrants'' = Some (por (jget ''permissionGrants'' p1) (owner_grants p1))"
      by (simp add: p finish_payload_def Let_def map_of_jset)
    show "por (por (jget ''permissionGrants'' p1) (owner_grants p1)) (owner_grants p)
        = por (jget ''permissionGrants'' p1) (owner_grants p1)" by (simp add: owner por_por)
    show "map_of p ''permissions'' = Some (por (jget ''permissions'' p1) (JObj (resource_permissions ''system'' True False False False False)))"
      by (simp add: p finish_payload_def Let_def map_of_jset)
    show "truthy (por (jget ''permissions'' p1) (JObj (resource_permissions ''system'' True False False False False)))"
      by (simp add: por_def resource_permissions_def)
    show "map_of p ''materializationRuns'' = Some (JList (case as_list (jget ''materializationRuns'' p1) of
          None \<Rightarrow> [] | Some runs \<Rightarrow> normalize_materialization_runs runs))"
      by (simp add: p finish_payload_def Let_def map_of_jset)
    show "normalize_materialization_runs (case as_list (jget ''materializationRuns'' p1) of
          None \<Rightarrow> [] | Some runs \<Rightarrow> normalize_materialization_runs runs)
      = (case as_list (jget ''materializationRuns'' p1) of None \<Rightarrow> [] | Some runs \<Rightarrow> normalize_materialization_runs runs)"
      by (simp add: normalize_runs_idem split: option.split) (simp add: normalize_materialization_runs_def)
  qed
qed

subsection \<open>Properties\<close>

text \<open>Catalog payloads have one shape: reading any stored dataset gives a list of physical bindings, a list of
  materialization runs of known kinds and modes, permissions and the compatibility flag; and a payload that was
  normalised is not changed by normalising it again.\<close>

theorem normalized_payload_shape:
  assumes "normalize_dataset_payload payload = Inr p"
  shows "(\<exists>items. jget ''physicalBindings'' p = JList items) \<and> (\<exists>runs. jget ''materializationRuns'' p = JList runs)
    \<and> truthy (jget ''permissions'' p) \<and> map_of p ''rag'' \<noteq> None \<and> normalize_dataset_payload p = Inr p"
  using normalized_fields [OF assms] normalize_idempotent [OF assms] by blast

theorem normalized_payload_shape_witness:
  "\<exists>p. normalize_dataset_payload [(''owner'', JStr ''ann'')] = Inr p \<and> normalize_dataset_payload p = Inr p"
proof -
  obtain p where p: "normalize_dataset_payload [(''owner'', JStr ''ann'')] = Inr p"
    by (simp add: normalize_dataset_payload_def Let_def jset_def jget_def legacy_bindings_def)
  show ?thesis using normalized_payload_shape [OF p] p by blast
qed

end
