(* ===== verification/Publication.thy ===== *)
theory Publication
  imports Materialization_Repository Event_Log Catalog
begin

section \<open>Publishing a materialization\<close>

text \<open>
  \<^verbatim>\<open>realtime/domain/publication.py\<close> and \<^verbatim>\<open>realtime/repositories/publication_repository.py\<close>: one call that fences the
  serving binding and the materialization, moves the applied offsets, commits a dataset revision, refreshes the
  catalog and appends the durable event. The caller owns commit and rollback, so a raised exception undoes all of
  it (\<open>transaction\<close>). \<open>now\<close> is the time of the call.
\<close>

record realtime_publication =
  rp_dataset_id :: string
  rp_pipeline_version_id :: string
  rp_serving_version_id :: string
  rp_materialization_id :: string
  rp_source_fingerprint :: string
  rp_boundary :: source_boundary
  rp_dimension_version_ids :: "(string \<times> string) list"
  rp_lease_generation :: int
  rp_binding_epoch :: int
  rp_physical_database :: string
  rp_physical_table :: string
  rp_row_count :: int
  rp_checksum :: string
  rp_mutation_type :: string
  rp_correlation_id :: string

definition publication_init :: "realtime_publication \<Rightarrow> realtime_publication res" where
  "publication_init p =
     (if list_ex blank [rp_dataset_id p, rp_pipeline_version_id p, rp_serving_version_id p, rp_materialization_id p,
            rp_source_fingerprint p, rp_checksum p, rp_correlation_id p]
        then Inl (ValueError ''realtime publication identity and evidence are required'')
      else if rp_lease_generation p < 0 \<or> rp_binding_epoch p < 0 \<or> rp_row_count p < 0
        then Inl (ValueError ''realtime publication counters cannot be negative'')
      else if py_len (rp_source_fingerprint p) \<noteq> 64
        then Inl (ValueError ''realtime publication source fingerprint must be SHA-256'')
      else if rp_mutation_type p \<notin> set mutation_types
        then Inl (ValueError ''realtime publication mutation type is invalid'')
      else Inr p)"

record publication_result =
  pr_dataset_id :: string
  pr_revision :: int
  pr_event_cursor :: int
  pr_created :: bool

definition publication_key :: "realtime_publication \<Rightarrow> string" where
  "publication_key p = ''realtime-publication:'' @ rp_materialization_id p"

subsection \<open>Reading what exists\<close>

definition existing_commit :: "string \<Rightarrow> db \<Rightarrow> commit_row option" where
  "existing_commit mid s = find (\<lambda>c. co_materialization_id c = Some mid) (db_commits s)"

definition validate_existing :: "commit_row \<Rightarrow> realtime_publication \<Rightarrow> unit res" where
  "validate_existing existing p =
     check_res (co_dataset_id existing = rp_dataset_id p
        \<and> co_source_fingerprint existing = Some (rp_source_fingerprint p)
        \<and> co_serving_version_id existing = Some (rp_serving_version_id p)
        \<and> co_binding_epoch existing = rp_binding_epoch p \<and> co_row_count existing = rp_row_count p
        \<and> co_mutation_type existing = rp_mutation_type p)
       (ValueError ''materialization id was reused with different publication evidence'')"

definition existing_result :: "realtime_publication \<Rightarrow> (db, publication_result option) op" where
  "existing_result p =
     bind_op (read_op (existing_commit (rp_materialization_id p))) (\<lambda>existing.
     case existing of
       None \<Rightarrow> return_op None
     | Some c \<Rightarrow>
         bind_op (lift_res (validate_existing c p)) (\<lambda>_.
         bind_op (read_op (by_idempotency_key (publication_key p))) (\<lambda>event.
         case event of
           None \<Rightarrow> raise_op (RuntimeError ''published materialization is missing its durable event'')
         | Some e \<Rightarrow> return_op (Some \<lparr>pr_dataset_id = rp_dataset_id p, pr_revision = co_revision c,
                        pr_event_cursor = ev_id e, pr_created = False\<rparr>))))"

definition lock_freshness :: "string \<Rightarrow> (db, freshness_row) op" where
  "lock_freshness dataset_id =
     bind_op (read_op (\<lambda>s. lookup_key fr_dataset_id dataset_id (db_freshness s))) (\<lambda>f.
     case f of None \<Rightarrow> raise_op (ValueError ''Dataset serving binding is not initialized'') | Some fr \<Rightarrow> return_op fr)"

definition evidence_matches :: "realtime_publication \<Rightarrow> materialization_row \<Rightarrow> bool" where
  "evidence_matches p m \<longleftrightarrow>
     m_pipeline_version_id m = rp_pipeline_version_id p \<and> m_source_fingerprint m = rp_source_fingerprint p
     \<and> m_lease_generation m = rp_lease_generation p \<and> m_target_row_count m = Some (rp_row_count p)
     \<and> (case m_target_checksum m of None \<Rightarrow> [] | Some c \<Rightarrow> c) = rp_checksum p
     \<and> json_eq (por (m_dimension_version_ids m) (JObj [])) (str_dict (rp_dimension_version_ids p))
     \<and> m_status m = MMaterialized"

definition validate_materialization_evidence :: "realtime_publication \<Rightarrow> (db, unit) op" where
  "validate_materialization_evidence p =
     bind_op (read_op (\<lambda>s. lookup_key m_id (rp_materialization_id p) (db_materializations s))) (\<lambda>m.
     check_op (case m of None \<Rightarrow> False | Some row \<Rightarrow> evidence_matches p row)
       (ValueError ''materialization evidence or lease is stale''))"

subsection \<open>Writing\<close>

definition publish_guard :: "realtime_publication \<Rightarrow> materialization_row \<Rightarrow> bool" where
  "publish_guard p m \<longleftrightarrow> m_id m = rp_materialization_id p \<and> m_status m = MMaterialized
     \<and> m_lease_generation m = rp_lease_generation p \<and> m_published_revision m = None"

definition set_published :: "int \<Rightarrow> timestamp \<Rightarrow> materialization_row \<Rightarrow> materialization_row" where
  "set_published revision now m =
     m\<lparr>m_status := MPublished, m_published_revision := Some revision, m_updated_at := now\<rparr>"

definition publication_run_id :: "realtime_publication \<Rightarrow> string" where
  "publication_run_id p = ''rt:'' @ rp_materialization_id p"

definition publication_commit :: "realtime_publication \<Rightarrow> int \<Rightarrow> timestamp \<Rightarrow> commit_row" where
  "publication_commit p revision now =
     \<lparr>co_dataset_id = rp_dataset_id p, co_revision = revision, co_run_id = publication_run_id p,
      co_storage_location = ''clickhouse://'' @ rp_physical_database p @ ''/'' @ rp_physical_table p,
      co_storage_format = ''clickhouse'', co_materialization_mode = ''delta'', co_commit_kind = ''realtime'',
      co_row_count = rp_row_count p,
      co_source_ranges = JList (map partition_document (sb_partitions (rp_boundary p))),
      co_source_fingerprint = Some (rp_source_fingerprint p), co_materialization_id = Some (rp_materialization_id p),
      co_source_boundary = Some (boundary_document (rp_boundary p)), co_serving_engine = Some ''clickhouse'',
      co_serving_version_id = Some (rp_serving_version_id p), co_binding_epoch = rp_binding_epoch p,
      co_dimension_version_ids = str_dict (rp_dimension_version_ids p), co_mutation_type = rp_mutation_type p,
      co_committed_at = now\<rparr>"

definition insert_commit :: "commit_row \<Rightarrow> (db, unit) op" where
  "insert_commit c =
     table_op db_commits (\<lambda>rows s. s\<lparr>db_commits := rows\<rparr>)
       (\<lambda>rows. bind_res (sql_insert commit_check commit_unique c rows) (\<lambda>rows'. Inr (rows', ())))"

definition update_freshness :: "string \<Rightarrow> (freshness_row \<Rightarrow> freshness_row) \<Rightarrow> (db, unit) op" where
  "update_freshness dataset_id f =
     bind_op (table_op db_freshness (\<lambda>rows s. s\<lparr>db_freshness := rows\<rparr>)
       (sql_update freshness_check (\<lambda>r. fr_dataset_id r = dataset_id) f)) (\<lambda>_. return_op ())"

definition publication_freshness :: "realtime_publication \<Rightarrow> int \<Rightarrow> timestamp \<Rightarrow> freshness_row \<Rightarrow> freshness_row" where
  "publication_freshness p revision now f =
     f\<lparr>fr_latest_revision := revision, fr_latest_run_id := Some (publication_run_id p),
       fr_latest_source_boundary := Some (boundary_document (rp_boundary p)), fr_latest_checksum := Some (rp_checksum p),
       fr_latest_mutation_type := Some (rp_mutation_type p), fr_updated_at := now\<rparr>"

definition serving_binding :: "realtime_publication \<Rightarrow> dict" where
  "serving_binding p =
     [(''role'', JStr ''serving''), (''engine'', JStr ''clickhouse''), (''status'', JStr ''active''),
      (''bindingEpoch'', JInt (rp_binding_epoch p)), (''versionId'', JStr (rp_serving_version_id p)),
      (''pipelineVersionId'', JStr (rp_pipeline_version_id p)), (''database'', JStr (rp_physical_database p)),
      (''table'', JStr (rp_physical_table p)), (''sourceBoundary'', boundary_document (rp_boundary p)),
      (''checksum'', JStr (rp_checksum p)), (''dimensionVersionIds'', str_dict (rp_dimension_version_ids p))]"

definition published_bindings :: "realtime_publication \<Rightarrow> json \<Rightarrow> dict list" where
  "published_bindings p previous =
     (let staled = map (\<lambda>item. if has_str ''role'' ''serving'' item \<and> has_str ''status'' ''active'' item
                               then jset ''status'' (JStr ''stale'') item else item) (dict_items previous)
      in filter (\<lambda>item. \<not> (has_str ''role'' ''serving'' item \<and> has_str ''versionId'' (rp_serving_version_id p) item)) staled
         @ [serving_binding p])"

definition published_payload :: "realtime_publication \<Rightarrow> dict \<Rightarrow> dict" where
  "published_payload p payload =
     jset ''status'' (JStr ''available'')
       (jset ''clickhouseTable'' (JObj [(''database'', JStr (rp_physical_database p)), (''table'', JStr (rp_physical_table p))])
         (jset ''physicalBindings'' (JList (map JObj (published_bindings p (jget ''physicalBindings'' payload)))) payload))"

definition read_catalog :: "string \<Rightarrow> string \<Rightarrow> (db, catalog_row) op" where
  "read_catalog dataset_id msg =
     bind_op (read_op (\<lambda>s. lookup_key cd_id dataset_id (db_catalog s))) (\<lambda>m.
     case m of None \<Rightarrow> raise_op (ValueError msg) | Some row \<Rightarrow> return_op row)"

definition write_catalog :: "string \<Rightarrow> (catalog_row \<Rightarrow> catalog_row) \<Rightarrow> (db, unit) op" where
  "write_catalog dataset_id f = write_op (\<lambda>s. s\<lparr>db_catalog := update_where (\<lambda>m. cd_id m = dataset_id) f (db_catalog s)\<rparr>)"

definition update_catalog_binding :: "realtime_publication \<Rightarrow> (db, unit) op" where
  "update_catalog_binding p =
     bind_op (read_catalog (rp_dataset_id p) ''Catalog Dataset is missing for realtime publication'') (\<lambda>model.
     bind_op (lift_res (dataset_model_to_payload model)) (\<lambda>payload.
     write_catalog (rp_dataset_id p)
       (\<lambda>m. m\<lparr>cd_status := Some ''available'', cd_payload := Some (published_payload p payload)\<rparr>)))"

definition publication_event_payload :: "realtime_publication \<Rightarrow> dict" where
  "publication_event_payload p =
     [(''bindingEpoch'', JInt (rp_binding_epoch p)), (''materializationId'', JStr (rp_materialization_id p)),
      (''mutationType'', JStr (rp_mutation_type p)), (''sourceBoundary'', boundary_document (rp_boundary p)),
      (''servingVersionId'', JStr (rp_serving_version_id p)), (''pipelineVersionId'', JStr (rp_pipeline_version_id p))]"

definition publication_event :: "event_settings \<Rightarrow> realtime_publication \<Rightarrow> int \<Rightarrow> timestamp \<Rightarrow> (db, event_envelope \<times> bool) op" where
  "publication_event cfg p revision now =
     append_event cfg ''dataset.revision.committed'' ''dataset'' (rp_dataset_id p) revision (rp_correlation_id p)
       (publication_key p) [''dataset:'' @ rp_dataset_id p] (publication_event_payload p) now 2"

definition publish_new :: "event_settings \<Rightarrow> realtime_publication \<Rightarrow> freshness_row \<Rightarrow> timestamp \<Rightarrow> (db, publication_result) op" where
  "publish_new cfg p freshness now =
     (let revision = fr_latest_revision freshness + 1
      in bind_op (advance_checkpoints (rp_pipeline_version_id p) (rp_boundary p) (rp_lease_generation p) now) (\<lambda>_.
         bind_op (on_materializations (sql_update materialization_check (publish_guard p) (set_published revision now))) (\<lambda>n.
         bind_op (check_op (n = 1) (ValueError ''materialization publication fencing failed'')) (\<lambda>_.
         bind_op (insert_commit (publication_commit p revision now)) (\<lambda>_.
         bind_op (update_freshness (rp_dataset_id p) (publication_freshness p revision now)) (\<lambda>_.
         bind_op (update_catalog_binding p) (\<lambda>_.
         bind_op (publication_event cfg p revision now) (\<lambda>(envelope, created).
         bind_op (check_op created (RuntimeError ''new materialization collided with an existing event identity'')) (\<lambda>_.
         return_op \<lparr>pr_dataset_id = rp_dataset_id p, pr_revision = revision, pr_event_cursor = ee_event_id envelope,
                    pr_created = True\<rparr>)))))))))"

definition binding_is_current :: "realtime_publication \<Rightarrow> freshness_row \<Rightarrow> bool" where
  "binding_is_current p f \<longleftrightarrow> fr_binding_epoch f = rp_binding_epoch p \<and> fr_active_engine f = Some ''clickhouse''
     \<and> fr_active_version_id f = Some (rp_serving_version_id p)"

definition publish :: "event_settings \<Rightarrow> realtime_publication \<Rightarrow> timestamp \<Rightarrow> (db, publication_result) op" where
  "publish cfg p now =
     bind_op (existing_result p) (\<lambda>before.
     case before of
       Some r \<Rightarrow> return_op r
     | None \<Rightarrow>
         bind_op (lock_freshness (rp_dataset_id p)) (\<lambda>freshness.
         bind_op (existing_result p) (\<lambda>again.
         case again of
           Some r \<Rightarrow> return_op r
         | None \<Rightarrow>
             bind_op (check_op (binding_is_current p freshness)
               (ValueError ''Dataset serving binding epoch or version is stale'')) (\<lambda>_.
             bind_op (validate_materialization_evidence p) (\<lambda>_.
             publish_new cfg p freshness now)))))"

subsection \<open>What a call leaves behind\<close>

lemma existing_result_iff:
  "existing_result p s = (Inr None, t) \<longleftrightarrow> existing_commit (rp_materialization_id p) s = None \<and> t = s"
  "existing_result p s = (Inr (Some r), t) \<longleftrightarrow> (\<exists>c e. existing_commit (rp_materialization_id p) s = Some c
     \<and> validate_existing c p = Inr () \<and> by_idempotency_key (publication_key p) s = Some e
     \<and> r = \<lparr>pr_dataset_id = rp_dataset_id p, pr_revision = co_revision c, pr_event_cursor = ev_id e, pr_created = False\<rparr>
     \<and> t = s)"
  by (auto simp: existing_result_def op_elims split: option.splits)

lemma lock_freshness_iff [op_elims]:
  "lock_freshness ds s = (Inr f, t) \<longleftrightarrow> lookup_key fr_dataset_id ds (db_freshness s) = Some f \<and> t = s"
  by (auto simp: lock_freshness_def op_elims split: option.splits)

lemma validate_materialization_evidence_iff [op_elims]:
  "validate_materialization_evidence p s = (Inr u, t) \<longleftrightarrow>
     (\<exists>m. lookup_key m_id (rp_materialization_id p) (db_materializations s) = Some m \<and> evidence_matches p m) \<and> t = s"
  by (auto simp: validate_materialization_evidence_def op_elims split: option.splits)

lemma read_catalog_iff [op_elims]:
  "read_catalog ds msg s = (Inr m, t) \<longleftrightarrow> lookup_key cd_id ds (db_catalog s) = Some m \<and> t = s"
  by (auto simp: read_catalog_def op_elims split: option.splits)

lemma write_catalog_iff [op_elims]:
  "write_catalog ds f s = (Inr u, t) \<longleftrightarrow> t = s\<lparr>db_catalog := update_where (\<lambda>m. cd_id m = ds) f (db_catalog s)\<rparr>"
  by (auto simp: write_catalog_def op_elims)

lemma insert_commit_iff [op_elims]:
  "insert_commit c s = (Inr u, t) \<longleftrightarrow>
     commit_check c \<and> commit_unique (db_commits s) c \<and> t = s\<lparr>db_commits := db_commits s @ [c]\<rparr>"
  by (auto simp: insert_commit_def op_elims bind_res_Inr_iff sql_insert_Inr_iff)

lemma update_freshness_iff [op_elims]:
  "update_freshness ds f s = (Inr u, t) \<longleftrightarrow> (\<exists>rows n.
     sql_update freshness_check (\<lambda>r. fr_dataset_id r = ds) f (db_freshness s) = Inr (rows, n) \<and> t = s\<lparr>db_freshness := rows\<rparr>)"
  by (auto simp: update_freshness_def op_elims)

lemma advance_checkpoints_frame:
  assumes "advance_checkpoints v b lease now s = (Inr u, t)"
  shows "\<exists>cs. t = s\<lparr>db_checkpoints := cs\<rparr>"
proof (rule for_op_invariant [OF assms [unfolded advance_checkpoints_def], of "\<lambda>x. \<exists>cs. x = s\<lparr>db_checkpoints := cs\<rparr>"])
  show "\<exists>cs. s = s\<lparr>db_checkpoints := cs\<rparr>" by (rule exI [of _ "db_checkpoints s"]) simp
  show "\<exists>cs. y = s\<lparr>db_checkpoints := cs\<rparr>"
    if "advance_partition v lease now i x = (Inr (), y)" "\<exists>cs. x = s\<lparr>db_checkpoints := cs\<rparr>" for i x y
    using that by (auto simp: advance_partition_def op_elims)
qed

interpretation publishing: row_update m_id materialization_check "publish_guard p" "set_published revision now"
    "rp_materialization_id p" for p revision now
  by unfold_locales (simp_all add: publish_guard_def set_published_def)

interpretation refreshing: row_update fr_dataset_id freshness_check "\<lambda>r. fr_dataset_id r = rp_dataset_id p"
    "publication_freshness p revision now" "rp_dataset_id p" for p revision now
  by unfold_locales (simp_all add: publication_freshness_def)

text \<open>The states of a new publication, statement by statement.\<close>

lemma publish_new_cases:
  assumes "publish_new cfg p f now s = (Inr r, t)"
  obtains cs ms fs n model payload e where
    "advance_checkpoints (rp_pipeline_version_id p) (rp_boundary p) (rp_lease_generation p) now s
       = (Inr (), s\<lparr>db_checkpoints := cs\<rparr>)"
    "sql_update materialization_check (publish_guard p) (set_published (fr_latest_revision f + 1) now)
       (db_materializations s) = Inr (ms, 1)"
    "commit_unique (db_commits s) (publication_commit p (fr_latest_revision f + 1) now)"
    "sql_update freshness_check (\<lambda>r. fr_dataset_id r = rp_dataset_id p)
       (publication_freshness p (fr_latest_revision f + 1) now) (db_freshness s) = Inr (fs, n)"
    "lookup_key cd_id (rp_dataset_id p) (db_catalog s) = Some model" "dataset_model_to_payload model = Inr payload"
    "e = \<lparr>ev_id = db_next_event_id s, ev_scope_id = ''deployment'', ev_event_type = ''dataset.revision.committed'',
       ev_schema_version = 2, ev_resource_type = ''dataset'', ev_resource_id = rp_dataset_id p,
       ev_aggregate_revision = fr_latest_revision f + 1, ev_correlation_id = rp_correlation_id p,
       ev_idempotency_key = py_strip (publication_key p), ev_invalidations = [''dataset:'' @ rp_dataset_id p],
       ev_payload = publication_event_payload p, ev_occurred_at = now,
       ev_expires_at = now + seconds (es_retention_seconds cfg)\<rparr>"
    "by_idempotency_key (py_strip (publication_key p)) s = None"
    "t = s\<lparr>db_checkpoints := cs, db_materializations := ms,
       db_commits := db_commits s @ [publication_commit p (fr_latest_revision f + 1) now], db_freshness := fs,
       db_catalog := update_where (\<lambda>m. cd_id m = rp_dataset_id p)
         (\<lambda>m. m\<lparr>cd_status := Some ''available'', cd_payload := Some (published_payload p payload)\<rparr>) (db_catalog s),
       db_events := db_events s @ [e], db_next_event_id := db_next_event_id s + 1\<rparr>"
    "r = \<lparr>pr_dataset_id = rp_dataset_id p, pr_revision = fr_latest_revision f + 1,
          pr_event_cursor = db_next_event_id s, pr_created = True\<rparr>"
proof -
  let ?rev = "fr_latest_revision f + 1"
  obtain s1 ms fs n model payload env s6 where
    adv: "advance_checkpoints (rp_pipeline_version_id p) (rp_boundary p) (rp_lease_generation p) now s = (Inr (), s1)"
    and pub: "sql_update materialization_check (publish_guard p) (set_published ?rev now) (db_materializations s1) = Inr (ms, 1)"
    and com: "commit_unique (db_commits s1) (publication_commit p ?rev now)"
    and fr: "sql_update freshness_check (\<lambda>r. fr_dataset_id r = rp_dataset_id p) (publication_freshness p ?rev now)
       (db_freshness s1) = Inr (fs, n)"
    and cat: "lookup_key cd_id (rp_dataset_id p) (db_catalog s1) = Some model" "dataset_model_to_payload model = Inr payload"
    and s6: "s6 = s1\<lparr>db_materializations := ms, db_commits := db_commits s1 @ [publication_commit p ?rev now], db_freshness := fs,
       db_catalog := update_where (\<lambda>m. cd_id m = rp_dataset_id p)
         (\<lambda>m. m\<lparr>cd_status := Some ''available'', cd_payload := Some (published_payload p payload)\<rparr>) (db_catalog s1)\<rparr>"
    and ev: "publication_event cfg p ?rev now s6 = (Inr (env, True), t)"
    and r: "r = \<lparr>pr_dataset_id = rp_dataset_id p, pr_revision = ?rev, pr_event_cursor = ee_event_id env, pr_created = True\<rparr>"
    using assms unfolding publish_new_def update_catalog_binding_def Let_def by (auto simp: op_elims)
  obtain cs where s1: "s1 = s\<lparr>db_checkpoints := cs\<rparr>" using advance_checkpoints_frame [OF adv] by blast
  from ev [unfolded publication_event_def] show thesis
  proof (cases rule: append_event_cases)
    case old
    then show thesis by simp
  next
    case (new e)
    show thesis
      by (rule that [of cs ms fs n model payload e])
         (use adv pub com fr cat new r in \<open>simp_all add: s1 s6 by_idempotency_key_def to_envelope_def\<close>)
  qed
qed

lemma publish_cases:
  assumes "publish cfg p now s = (Inr r, t)"
  obtains (old) "existing_result p s = (Inr (Some r), s)" "t = s"
  | (new) f m where "existing_commit (rp_materialization_id p) s = None"
      "lookup_key fr_dataset_id (rp_dataset_id p) (db_freshness s) = Some f" "binding_is_current p f"
      "lookup_key m_id (rp_materialization_id p) (db_materializations s) = Some m" "evidence_matches p m"
      "publish_new cfg p f now s = (Inr r, t)"
proof -
  obtain before s1 where b: "existing_result p s = (Inr before, s1)"
    using assms unfolding publish_def by (auto simp: op_elims)
  show thesis
  proof (cases before)
    case (Some r')
    then have "s1 = s" using b by (auto simp: existing_result_iff)
    then show thesis using assms b Some old unfolding publish_def by (auto simp: op_elims)
  next
    case None
    then have s1: "existing_commit (rp_materialization_id p) s = None" "s1 = s" using b by (auto simp: existing_result_iff)
    have ex: "existing_result p s = (Inr None, s)" using s1 by (simp add: existing_result_iff)
    show thesis using assms None new s1 unfolding publish_def
      by (auto simp: op_elims ex bind_op_def split: prod.splits sum.splits)
  qed
qed

subsection \<open>Publishing twice\<close>

lemma find_snoc: "find P xs = None \<Longrightarrow> P x \<Longrightarrow> find P (xs @ [x]) = Some x"
  by (induction xs) (auto split: if_splits)

lemma publish_old: "existing_result p s = (Inr (Some r), s) \<Longrightarrow> publish cfg p now s = (Inr r, s)"
  by (simp add: publish_def bind_op_def return_op_def)

text \<open>After a new publication a call with the same publication finds the commit and the event.\<close>

lemma publish_new_then_existing:
  assumes "publish_new cfg p f now s = (Inr r, t)" and "existing_commit (rp_materialization_id p) s = None"
    and "py_strip (publication_key p) = publication_key p"
  shows "existing_result p t = (Inr (Some (r\<lparr>pr_created := False\<rparr>)), t)"
  using assms(1)
proof (cases rule: publish_new_cases)
  case (1 cs ms fs n model payload e)
  let ?c = "publication_commit p (fr_latest_revision f + 1) now"
  have c: "existing_commit (rp_materialization_id p) t = Some ?c"
    using assms(2) unfolding existing_commit_def 1(9)
    by (simp add: find_snoc publication_commit_def)
  have "by_idempotency_key (publication_key p) t = Some e"
    using 1(7,8,9) assms(3) by (simp add: by_idempotency_key_def lookup_key_snoc)
  then show ?thesis
    unfolding existing_result_iff(2) using c 1(7,10)
    by (intro exI [of _ ?c] exI [of _ e]) (simp add: validate_existing_def check_res_def publication_commit_def)
qed

interpretation publishing_once: idempotent_command "publish cfg p now" "\<lambda>r. r\<lparr>pr_created := False\<rparr>"
    "\<lambda>_. py_strip (publication_key p) = publication_key p" for cfg p now
proof
  fix s r t
  assume run: "publish cfg p now s = (Inr r, t)" and key: "py_strip (publication_key p) = publication_key p"
  show "py_strip (publication_key p) = publication_key p" by (rule key)
  show "publish cfg p now t = (Inr (r\<lparr>pr_created := False\<rparr>), t)"
    using run
  proof (cases rule: publish_cases)
    case old
    then have "r\<lparr>pr_created := False\<rparr> = r" by (auto simp: existing_result_iff)
    then show ?thesis using old publish_old by simp
  next
    case (new f m)
    show ?thesis by (rule publish_old [OF publish_new_then_existing [OF new(6,1) key]])
  qed
qed

subsection \<open>The serving bindings of a dataset\<close>

definition active_serving :: "dict \<Rightarrow> bool" where
  "active_serving item \<longleftrightarrow> has_str ''role'' ''serving'' item \<and> has_str ''status'' ''active'' item"

definition bindings_of :: "dict \<Rightarrow> dict list" where
  "bindings_of payload = dict_items (jget ''physicalBindings'' payload)"

lemma published_bindings_active: "filter active_serving (published_bindings p previous) = [serving_binding p]"
proof -
  have "filter active_serving (filter P (map (\<lambda>item. if has_str ''role'' ''serving'' item \<and> has_str ''status'' ''active'' item
      then jset ''status'' (JStr ''stale'') item else item) items)) = []" for P items
    by (auto simp: filter_empty_conv active_serving_def has_str_def)
  moreover have "active_serving (serving_binding p)" by (simp add: active_serving_def has_str_def serving_binding_def)
  ultimately show ?thesis by (simp add: published_bindings_def Let_def)
qed

lemma bindings_of_published: "bindings_of (published_payload p payload) = published_bindings p (jget ''physicalBindings'' payload)"
  by (simp add: bindings_of_def published_payload_def)

definition active_bindings :: "string \<Rightarrow> db \<Rightarrow> dict list" where
  "active_bindings ds s = (case lookup_key cd_id ds (db_catalog s) of None \<Rightarrow> []
     | Some m \<Rightarrow> filter active_serving (bindings_of (case cd_payload m of None \<Rightarrow> [] | Some d \<Rightarrow> d)))"

lemma publish_new_rows:
  assumes "publish_new cfg p f now s = (Inr r, t)" and "lookup_key fr_dataset_id (rp_dataset_id p) (db_freshness s) = Some f"
    and "keyed m_id (db_materializations s)" and "lookup_key m_id (rp_materialization_id p) (db_materializations s) = Some m"
  shows "pr_revision r = fr_latest_revision f + 1 \<and> pr_created r
    \<and> db_commits t = db_commits s @ [publication_commit p (pr_revision r) now]
    \<and> lookup_key fr_dataset_id (rp_dataset_id p) (db_freshness t) = Some (publication_freshness p (pr_revision r) now f)
    \<and> lookup_key m_id (rp_materialization_id p) (db_materializations t) = Some (set_published (pr_revision r) now m)
    \<and> (\<exists>e. db_events t = db_events s @ [e] \<and> ev_id e = pr_event_cursor r \<and> ev_aggregate_revision e = pr_revision r
           \<and> ev_event_type e = ''dataset.revision.committed'' \<and> ev_resource_id e = rp_dataset_id p
           \<and> ev_payload e = publication_event_payload p \<and> ev_expires_at e = now + seconds (es_retention_seconds cfg))
    \<and> active_bindings (rp_dataset_id p) t = [serving_binding p]"
  using assms(1)
proof (cases rule: publish_new_cases)
  case (1 cs ms fs n model payload e)
  have c1: "pr_revision r = fr_latest_revision f + 1 \<and> pr_created r" using 1(10) by simp_all
  have c2: "db_commits t = db_commits s @ [publication_commit p (pr_revision r) now]" using 1(9,10) by simp
  have c3: "lookup_key fr_dataset_id (rp_dataset_id p) (db_freshness t) = Some (publication_freshness p (pr_revision r) now f)"
    using refreshing.lookup [OF 1(4), of "rp_dataset_id p"] assms(2) lookup_key_Some [OF assms(2)] 1(9,10) by simp
  obtain m' where "lookup_key m_id (rp_materialization_id p) (db_materializations s) = Some m'"
    and "lookup_key m_id (rp_materialization_id p) ms = Some (set_published (fr_latest_revision f + 1) now m')"
    by (rule publishing.hit [OF 1(2) assms(3)])
  then have c4: "lookup_key m_id (rp_materialization_id p) (db_materializations t) = Some (set_published (pr_revision r) now m)"
    using assms(4) 1(9,10) by simp
  have c5: "\<exists>e. db_events t = db_events s @ [e] \<and> ev_id e = pr_event_cursor r \<and> ev_aggregate_revision e = pr_revision r
           \<and> ev_event_type e = ''dataset.revision.committed'' \<and> ev_resource_id e = rp_dataset_id p
           \<and> ev_payload e = publication_event_payload p \<and> ev_expires_at e = now + seconds (es_retention_seconds cfg)"
    using 1(7,9,10) by simp
  have "lookup_key cd_id (rp_dataset_id p) (db_catalog t) =
      Some (model\<lparr>cd_status := Some ''available'', cd_payload := Some (published_payload p payload)\<rparr>)"
    using 1(5,9) lookup_key_Some [OF 1(5)] by (simp add: lookup_key_update)
  then have c6: "active_bindings (rp_dataset_id p) t = [serving_binding p]"
    by (simp add: active_bindings_def bindings_of_published published_bindings_active)
  show ?thesis using c1 c2 c3 c4 c5 c6 by blast
qed

lemma publish_new_offsets:
  assumes "publish_new cfg p f now s = (Inr r, t)" and "boundary_build parts = Inr (rp_boundary p)" and "checkpoints_ok s"
  shows "(\<forall>q \<in> set parts. may_apply (rp_pipeline_version_id p) (rp_lease_generation p) (db_checkpoints s) q)
    \<and> (\<forall>q \<in> set parts. applied_offset (db_checkpoints t) (pb_checkpoint (rp_pipeline_version_id p) q) = pb_to_inclusive q)
    \<and> (\<forall>k. k \<notin> pb_checkpoint (rp_pipeline_version_id p) ` set parts \<longrightarrow>
           applied_offset (db_checkpoints t) k = applied_offset (db_checkpoints s) k)"
  using assms(1)
proof (cases rule: publish_new_cases)
  case (1 cs ms fs n model payload e)
  have parts: "set (sb_partitions (rp_boundary p)) = set parts" "distinct (map pb_identity (sb_partitions (rp_boundary p)))"
    using assms(2) boundary_build_distinct by (auto simp: boundary_build_Inr_iff)
  note off = advance_offsets [OF 1(1) [unfolded advance_checkpoints_def] assms(3) parts(2), unfolded parts(1)]
  have cp: "db_checkpoints t = cs" by (simp add: 1(9))
  have c1: "\<forall>q \<in> set parts. may_apply (rp_pipeline_version_id p) (rp_lease_generation p) (db_checkpoints s) q" by (rule off(1))
  have c2: "\<forall>q \<in> set parts. applied_offset (db_checkpoints t) (pb_checkpoint (rp_pipeline_version_id p) q) = pb_to_inclusive q"
    using off(3) by (simp add: cp)
  have c3: "\<forall>k. k \<notin> pb_checkpoint (rp_pipeline_version_id p) ` set parts \<longrightarrow>
      applied_offset (db_checkpoints t) k = applied_offset (db_checkpoints s) k"
    using off(4) by (simp add: cp)
  show ?thesis using c1 c2 c3 by blast
qed

subsection \<open>Properties\<close>

text \<open>C13. A publication that creates a revision does all of it in one transaction, against the binding and the evidence
  it names: the dataset's revision is one above its latest, the commit and the freshness row carry it, the
  materialization is published with it, every range of the boundary continued its applied offset and is now applied,
  no other offset moved, one event with that revision is appended, and the dataset has exactly one active serving
  binding, the published one.\<close>

theorem publish_commits_one_revision:
  assumes "publish cfg p now s = (Inr r, t)" and "pr_created r" and "boundary_build parts = Inr (rp_boundary p)"
    and "checkpoints_ok s" and "keyed m_id (db_materializations s)"
  shows "\<exists>f m e. lookup_key fr_dataset_id (rp_dataset_id p) (db_freshness s) = Some f \<and> binding_is_current p f
    \<and> lookup_key m_id (rp_materialization_id p) (db_materializations s) = Some m \<and> evidence_matches p m
    \<and> pr_revision r = fr_latest_revision f + 1
    \<and> db_commits t = db_commits s @ [publication_commit p (pr_revision r) now]
    \<and> lookup_key fr_dataset_id (rp_dataset_id p) (db_freshness t) = Some (publication_freshness p (pr_revision r) now f)
    \<and> lookup_key m_id (rp_materialization_id p) (db_materializations t) = Some (set_published (pr_revision r) now m)
    \<and> (\<forall>q \<in> set parts. may_apply (rp_pipeline_version_id p) (rp_lease_generation p) (db_checkpoints s) q
         \<and> applied_offset (db_checkpoints t) (pb_checkpoint (rp_pipeline_version_id p) q) = pb_to_inclusive q)
    \<and> (\<forall>k. k \<notin> pb_checkpoint (rp_pipeline_version_id p) ` set parts \<longrightarrow>
         applied_offset (db_checkpoints t) k = applied_offset (db_checkpoints s) k)
    \<and> db_events t = db_events s @ [e] \<and> ev_id e = pr_event_cursor r \<and> ev_aggregate_revision e = pr_revision r
    \<and> ev_payload e = publication_event_payload p
    \<and> active_bindings (rp_dataset_id p) t = [serving_binding p]"
  using assms(1)
proof (cases rule: publish_cases)
  case old
  then show ?thesis using assms(2) by (auto simp: existing_result_iff)
next
  case (new f m)
  note rows = publish_new_rows [OF new(6,2) assms(5) new(4)]
  note offs = publish_new_offsets [OF new(6) assms(3,4)]
  obtain e where "db_events t = db_events s @ [e]" "ev_id e = pr_event_cursor r" "ev_aggregate_revision e = pr_revision r"
      "ev_payload e = publication_event_payload p" using rows by blast
  then show ?thesis using new(2-5) rows offs by blast
qed

definition sample_publication :: realtime_publication where
  "sample_publication = \<lparr>rp_dataset_id = ''d1'', rp_pipeline_version_id = ''v1'', rp_serving_version_id = ''sv1'',
     rp_materialization_id = ''m1'', rp_source_fingerprint = ''fp'', rp_boundary = sample_boundary,
     rp_dimension_version_ids = [], rp_lease_generation = 3, rp_binding_epoch = 0, rp_physical_database = ''db'',
     rp_physical_table = ''tb'', rp_row_count = 5, rp_checksum = ''ck'', rp_mutation_type = ''append'', rp_correlation_id = ''c1''\<rparr>"

definition sample_freshness :: freshness_row where
  "sample_freshness = \<lparr>fr_dataset_id = ''d1'', fr_latest_revision = 6, fr_latest_run_id = None, fr_next_check_after_ms = 1000,
     fr_binding_epoch = 0, fr_active_engine = Some ''clickhouse'', fr_active_version_id = Some ''sv1'',
     fr_active_archive_snapshot_id = None, fr_latest_source_boundary = None, fr_latest_checksum = None,
     fr_latest_mutation_type = None, fr_updated_at = 0\<rparr>"

definition sample_catalog :: catalog_row where
  "sample_catalog = \<lparr>cd_id = ''d1'', cd_payload = Some [(''owner'', JStr ''ann''), (''physicalBindings'', JList [])], cd_name = None,
     cd_description = None, cd_owner = None, cd_layer = None, cd_status = None, cd_freshness = None, cd_source = None,
     cd_producer_job_id = None, cd_producer_job_kind = None, cd_execution_mode = None, cd_source_kind = None,
     cd_relation_mode = None, cd_runtime_status = None, cd_source_manifest = None, cd_rows = None, cd_size = None,
     cd_quality = None, cd_last_updated = None, cd_next_refresh = None, cd_rag = None, cd_tags = None,
     cd_schema_json = None, cd_sample_rows = None, cd_upstream = None, cd_downstream = None, cd_lineage_graph = None\<rparr>"

definition sample_materialized :: materialization_row where
  "sample_materialized = set_materialized 5 ''ck'' 8 (reserved_row ''m1'' ''v1'' sample_boundary ''fp'' [] ''q1'' 3 7)"

definition sample_publish_db :: db where
  "sample_publish_db = sample_checkpoint_db\<lparr>db_freshness := [sample_freshness], db_catalog := [sample_catalog],
     db_materializations := [sample_materialized]\<rparr>"

definition sample_event_limits :: event_settings where
  "sample_event_limits = \<lparr>es_max_bytes = 400, es_retention_seconds = 60\<rparr>"

lemma sample_publish_runs:
  "fst (publish sample_event_limits sample_publication 9 sample_publish_db)
   = Inr \<lparr>pr_dataset_id = ''d1'', pr_revision = 7, pr_event_cursor = 1, pr_created = True\<rparr>"
  by code_simp

lemma sample_publish_ok: "checkpoints_ok sample_publish_db" "keyed m_id (db_materializations sample_publish_db)"
    "boundary_build [PartitionBoundary ''t'' 0 (-1) 4] = Inr (rp_boundary sample_publication)"
    "py_strip (publication_key sample_publication) = publication_key sample_publication"
  by (simp_all add: checkpoints_ok_def sample_publish_db_def sample_checkpoint_db_def table_ok_def keyed_def
      checkpoint_check_def boundary_build_Inr_iff sample_boundary_def sample_publication_def) code_simp

theorem publish_commits_one_revision_witness:
  "\<exists>r t. publish sample_event_limits sample_publication 9 sample_publish_db = (Inr r, t) \<and> pr_revision r = 7
     \<and> applied_offset (db_checkpoints t) (''v1'', ''t'', 0) = 4 \<and> length (db_events t) = 1
     \<and> active_bindings ''d1'' t = [serving_binding sample_publication]"
proof -
  obtain r t where run: "publish sample_event_limits sample_publication 9 sample_publish_db = (Inr r, t)"
    and r: "pr_revision r = 7" "pr_created r" using run_fst [OF sample_publish_runs] by auto
  have v: "rp_pipeline_version_id sample_publication = ''v1''" "rp_dataset_id sample_publication = ''d1''"
      "db_events sample_publish_db = []"
    by (simp_all add: sample_publication_def sample_publish_db_def sample_checkpoint_db_def empty_db_def)
  show ?thesis
    using publish_commits_one_revision [OF run r(2) sample_publish_ok(3,1,2)] run r(1) v by (auto simp: pb_checkpoint_def)
qed



text \<open>A publication against a superseded serving binding, or with evidence that is not the one recorded under the
  current lease, raises and changes nothing.\<close>

theorem stale_publication_is_fenced:
  assumes "existing_commit (rp_materialization_id p) s = None"
    and "lookup_key fr_dataset_id (rp_dataset_id p) (db_freshness s) = Some f"
    and "\<not> binding_is_current p f \<or> (\<forall>m. lookup_key m_id (rp_materialization_id p) (db_materializations s) = Some m
           \<longrightarrow> \<not> evidence_matches p m)"
  shows "\<exists>msg. publish cfg p now s = (Inl (ValueError msg), s)"
proof -
  have ex: "existing_result p s = (Inr None, s)" using assms(1) by (simp add: existing_result_iff)
  have fr: "lock_freshness (rp_dataset_id p) s = (Inr f, s)" using assms(2) by (simp add: lock_freshness_iff)
  have run: "publish cfg p now s = bind_op (check_op (binding_is_current p f)
               (ValueError ''Dataset serving binding epoch or version is stale'')) (\<lambda>_.
             bind_op (validate_materialization_evidence p) (\<lambda>_. publish_new cfg p f now)) s"
    unfolding publish_def by (simp add: bind_op_def ex fr)
  have ev: "validate_materialization_evidence p s = (Inl (ValueError ''materialization evidence or lease is stale''), s)"
    if "binding_is_current p f"
    using assms(3) that unfolding validate_materialization_evidence_def
    by (auto simp: bind_op_def read_op_def check_op_def raise_op_def split: option.splits)
  show ?thesis unfolding run
    by (cases "binding_is_current p f") (simp_all add: bind_op_def check_op_def raise_op_def return_op_def ev)
qed

definition stale_publication :: realtime_publication where
  "stale_publication = sample_publication\<lparr>rp_binding_epoch := 1\<rparr>"

theorem stale_publication_is_fenced_witness:
  "\<exists>msg. publish sample_event_limits stale_publication 9 sample_publish_db = (Inl (ValueError msg), sample_publish_db)"
proof (rule stale_publication_is_fenced [where f = sample_freshness])
  show "existing_commit (rp_materialization_id stale_publication) sample_publish_db = None"
    by (simp add: existing_commit_def sample_publish_db_def sample_checkpoint_db_def empty_db_def)
  show "lookup_key fr_dataset_id (rp_dataset_id stale_publication) (db_freshness sample_publish_db) = Some sample_freshness"
    by (simp add: lookup_key_def sample_publish_db_def stale_publication_def sample_publication_def sample_freshness_def)
  show "\<not> binding_is_current stale_publication sample_freshness \<or> (\<forall>m. lookup_key m_id (rp_materialization_id stale_publication)
      (db_materializations sample_publish_db) = Some m \<longrightarrow> \<not> evidence_matches stale_publication m)"
    by (simp add: binding_is_current_def stale_publication_def sample_publication_def sample_freshness_def)
qed

text \<open>The idempotency of publishing ends with the retention of its event: once the event has expired and been cleaned
  up, a retry of the same publication raises instead of returning the revision it had committed.\<close>

theorem publish_retry_after_retention_raises:
  assumes "publish cfg p now s = (Inr r, t)" and "pr_created r" and "py_strip (publication_key p) = publication_key p"
    and "now + seconds (es_retention_seconds cfg) \<le> later" and "cleanup_expired later t = (Inr n, u)"
  shows "publish cfg p later u = (Inl (RuntimeError ''published materialization is missing its durable event''), u)"
  using assms(1)
proof (cases rule: publish_cases)
  case old
  then show ?thesis using assms(2) by (auto simp: existing_result_iff)
next
  case (new f m)
  from new(6) show ?thesis
  proof (cases rule: publish_new_cases)
    case (1 cs ms fs k model payload e)
    let ?c = "publication_commit p (fr_latest_revision f + 1) now"
    have u: "db_commits u = db_commits t" "db_events u = filter (\<lambda>e. \<not> ev_expires_at e \<le> later) (db_events s @ [e])"
      using assms(5) 1(9) by (auto simp: cleanup_expired_def)
    have c: "existing_commit (rp_materialization_id p) u = Some ?c"
      using new(1) unfolding existing_commit_def u 1(9) by (simp add: find_snoc publication_commit_def)
    have "db_events u = filter (\<lambda>e. \<not> ev_expires_at e \<le> later) (db_events s)" using u(2) 1(7) assms(4) by simp
    moreover have "publication_key p \<notin> ev_idempotency_key ` set (db_events s)"
      using 1(8) assms(3) by (simp add: by_idempotency_key_def lookup_key_None)
    ultimately have "by_idempotency_key (publication_key p) u = None"
      by (auto simp: by_idempotency_key_def lookup_key_None)
    then show ?thesis using c
      by (simp add: publish_def existing_result_def bind_op_def read_op_def lift_res_def raise_op_def
          validate_existing_def check_res_def publication_commit_def)
  qed
qed

theorem publish_retry_after_retention_raises_witness:
  "\<exists>t n u. publish sample_event_limits sample_publication 9 sample_publish_db = (Inr n, t)
     \<and> u = snd (cleanup_expired (9 + seconds 60) t)
     \<and> publish sample_event_limits sample_publication (9 + seconds 60) u
       = (Inl (RuntimeError ''published materialization is missing its durable event''), u)"
proof -
  obtain r t where run: "publish sample_event_limits sample_publication 9 sample_publish_db = (Inr r, t)"
    and r: "pr_created r" using run_fst [OF sample_publish_runs] by auto
  have late: "9 + seconds (es_retention_seconds sample_event_limits) \<le> 9 + seconds 60" by (simp add: sample_event_limits_def)
  obtain n u where u: "cleanup_expired (9 + seconds 60) t = (Inr n, u)" by (simp add: cleanup_expired_def)
  show ?thesis using publish_retry_after_retention_raises [OF run r sample_publish_ok(4) late u] run u by auto
qed

end
