(* ===== verification/Recovery_Repository.thy ===== *)
theory Recovery_Repository
  imports Archive Cutover Publication
begin

section \<open>Archive recovery and binding switches\<close>

text \<open>
  \<^verbatim>\<open>realtime/repositories/recovery_repository.py\<close> and \<^verbatim>\<open>realtime/application/archive_recovery_service.py\<close>: recording
  parity, the rebuild state machine, and the switch that moves the serving binding of a dataset in one transaction.
  The caller owns commit and rollback. \<open>now\<close> is the time of the call.
\<close>

abbreviation on_operations :: "(operation_row list \<Rightarrow> (operation_row list \<times> 'a) res) \<Rightarrow> (db, 'a) op" where
  "on_operations \<equiv> table_op db_operations (\<lambda>rows s. s\<lparr>db_operations := rows\<rparr>)"

abbreviation on_assignments :: "(assignment_row list \<Rightarrow> (assignment_row list \<times> 'a) res) \<Rightarrow> (db, 'a) op" where
  "on_assignments \<equiv> table_op db_assignments (\<lambda>rows s. s\<lparr>db_assignments := rows\<rparr>)"

subsection \<open>Parity\<close>

definition report_status :: "parity_report \<Rightarrow> parity_status" where
  "report_status r = (if report_matched r then PMatched else PMismatch)"

definition parity_record :: "parity_report \<Rightarrow> parity_row" where
  "parity_record r =
     \<lparr>pa_id = rep_report_id r, pa_dataset_id = pe_dataset_id (rep_hot r),
      pa_pipeline_version_id = pe_pipeline_version_id (rep_hot r),
      pa_hot_binding_version_id = pe_binding_version_id (rep_hot r),
      pa_archive_binding_version_id = pe_binding_version_id (rep_archive r),
      pa_source_boundary = boundary_document (pe_boundary (rep_hot r)),
      pa_dimension_version_ids = str_dict (pe_dimension_version_ids (rep_hot r)),
      pa_hot_evidence = evidence_document (rep_hot r), pa_archive_evidence = evidence_document (rep_archive r),
      pa_status = report_status r, pa_mismatch_fields = rep_mismatch_fields r\<rparr>"

definition validate_parity_record :: "parity_row \<Rightarrow> parity_report \<Rightarrow> unit res" where
  "validate_parity_record m r =
     check_res (json_eq (JObj (pa_hot_evidence m)) (JObj (evidence_document (rep_hot r)))
        \<and> json_eq (JObj (pa_archive_evidence m)) (JObj (evidence_document (rep_archive r)))
        \<and> pa_status m = report_status r \<and> pa_mismatch_fields m = rep_mismatch_fields r)
       (ValueError ''parity report id was reused with different evidence'')"

definition parity_unique :: "parity_row list \<Rightarrow> parity_row \<Rightarrow> bool" where
  "parity_unique rows c \<longleftrightarrow> (\<forall>r \<in> set rows. pa_id r \<noteq> pa_id c)"

definition record_parity :: "parity_report \<Rightarrow> (db, parity_row \<times> bool) op" where
  "record_parity r =
     bind_op (read_op (\<lambda>s. lookup_key pa_id (rep_report_id r) (db_parity s))) (\<lambda>existing.
     case existing of
       Some m \<Rightarrow> bind_op (lift_res (validate_parity_record m r)) (\<lambda>_. return_op (m, False))
     | None \<Rightarrow>
         bind_op (table_op db_parity (\<lambda>rows s. s\<lparr>db_parity := rows\<rparr>)
           (\<lambda>rows. bind_res (sql_insert (\<lambda>_. True) parity_unique (parity_record r) rows) (\<lambda>rows'. Inr (rows', ())))) (\<lambda>_.
         return_op (parity_record r, True)))"

definition matched_parity :: "string \<Rightarrow> (db, parity_row) op" where
  "matched_parity report_id =
     bind_op (read_op (\<lambda>s. lookup_key pa_id report_id (db_parity s))) (\<lambda>p.
     case p of
       None \<Rightarrow> raise_op (ValueError ''operation requires persisted matched parity evidence'')
     | Some row \<Rightarrow>
         if pa_status row \<noteq> PMatched \<or> pa_mismatch_fields row \<noteq> []
         then raise_op (ValueError ''operation requires persisted matched parity evidence'')
         else return_op row)"

definition assess_parity :: "parity_evidence \<Rightarrow> parity_evidence \<Rightarrow> (db, parity_report) op" where
  "assess_parity hot archive =
     bind_op (lift_res (parity_compare hot archive)) (\<lambda>report.
     bind_op (record_parity report) (\<lambda>_. return_op report))"

subsection \<open>Rebuilds\<close>

definition validate_audit :: "int \<Rightarrow> string \<Rightarrow> string \<Rightarrow> string \<Rightarrow> unit res" where
  "validate_audit epoch requested_by reason correlation_id =
     (if epoch < 0 \<or> blank requested_by \<or> blank correlation_id then Inl (ValueError ''recovery audit identity is invalid'')
      else if py_len (py_strip reason) < 10 \<or> 2000 < py_len reason then Inl (ValueError ''recovery requires an audited reason'')
      else Inr ())"

definition operation_by_idempotency :: "string \<Rightarrow> db \<Rightarrow> operation_row option" where
  "operation_by_idempotency key s = lookup_key op_idempotency_key key (db_operations s)"

definition validate_rebuild_operation :: "operation_row \<Rightarrow> rebuild_plan \<Rightarrow> unit res" where
  "validate_rebuild_operation o' p =
     check_res (op_kind o' = ''rebuild'' \<and> op_id o' = rb_operation_id p \<and> op_dataset_id o' = rb_dataset_id p
        \<and> op_parity_check_id o' = rb_parity_report_id p
        \<and> op_target_binding_version_id o' = rb_shadow_binding_version_id p
        \<and> json_eq (op_source_boundary o') (boundary_document (rb_boundary p)))
       (ValueError ''rebuild idempotency key was reused with different evidence'')"

definition shadow_binding :: "int \<Rightarrow> rebuild_plan \<Rightarrow> dict" where
  "shadow_binding epoch p =
     [(''role'', JStr ''serving''), (''engine'', JStr ''clickhouse''), (''status'', JStr ''shadow''),
      (''bindingEpoch'', JInt epoch), (''versionId'', JStr (rb_shadow_binding_version_id p)),
      (''pipelineVersionId'', JStr (rb_pipeline_version_id p)), (''database'', JStr (rb_physical_database p)),
      (''table'', JStr (rb_physical_table p)), (''sourceBoundary'', boundary_document (rb_boundary p)),
      (''dimensionVersionIds'', str_dict (rb_dimension_version_ids p))]"

definition rebuild_operation :: "rebuild_plan \<Rightarrow> int \<Rightarrow> string \<Rightarrow> string \<Rightarrow> string \<Rightarrow> timestamp \<Rightarrow> operation_row" where
  "rebuild_operation p epoch requested_by reason correlation_id now =
     \<lparr>op_id = rb_operation_id p, op_idempotency_key = rb_idempotency_key p, op_dataset_id = rb_dataset_id p,
      op_kind = ''rebuild'', op_status = OPlanned, op_parity_check_id = rb_parity_report_id p,
      op_expected_binding_epoch = epoch, op_previous_binding_version_id = None,
      op_target_binding_version_id = rb_shadow_binding_version_id p, op_target_engine = ''clickhouse'',
      op_pipeline_version_id = rb_pipeline_version_id p, op_target_binding = JObj (shadow_binding epoch p),
      op_source_boundary = boundary_document (rb_boundary p),
      op_dimension_version_ids = str_dict (rb_dimension_version_ids p),
      op_tail_start_offsets = JList (rb_tail_start_offsets p), op_gate_evidence = JObj [], op_attempt_count = 0,
      op_result_binding_epoch = None, op_result_revision = None, op_result_event_cursor = None,
      op_requested_by = requested_by, op_reason = reason, op_correlation_id = correlation_id, op_last_error_code = None,
      op_updated_at = now, op_completed_at = None\<rparr>"

definition insert_operation :: "operation_row \<Rightarrow> (db, unit) op" where
  "insert_operation row =
     on_operations (\<lambda>rows. bind_res (sql_insert operation_check operation_unique row rows) (\<lambda>rows'. Inr (rows', ())))"

definition plan_matches_parity :: "rebuild_plan \<Rightarrow> parity_row \<Rightarrow> bool" where
  "plan_matches_parity p row \<longleftrightarrow>
     pa_dataset_id row = rb_dataset_id p \<and> pa_pipeline_version_id row = rb_pipeline_version_id p
     \<and> json_eq (pa_source_boundary row) (boundary_document (rb_boundary p))
     \<and> json_eq (pa_dimension_version_ids row) (str_dict (rb_dimension_version_ids p))"

definition reserve_rebuild ::
  "rebuild_plan \<Rightarrow> int \<Rightarrow> string \<Rightarrow> string \<Rightarrow> string \<Rightarrow> timestamp \<Rightarrow> (db, operation_row \<times> bool) op" where
  "reserve_rebuild p epoch requested_by reason correlation_id now =
     bind_op (lift_res (validate_audit epoch requested_by reason correlation_id)) (\<lambda>_.
     bind_op (read_op (operation_by_idempotency (rb_idempotency_key p))) (\<lambda>existing.
     case existing of
       Some row \<Rightarrow> bind_op (lift_res (validate_rebuild_operation row p)) (\<lambda>_. return_op (row, False))
     | None \<Rightarrow>
         bind_op (matched_parity (rb_parity_report_id p)) (\<lambda>parity.
         bind_op (check_op (plan_matches_parity p parity)
           (ValueError ''rebuild plan does not match persisted parity evidence'')) (\<lambda>_.
         let model = rebuild_operation p epoch requested_by reason correlation_id now
         in bind_op (insert_operation model) (\<lambda>_. return_op (model, True))))))"

definition locked_operation :: "string \<Rightarrow> (db, operation_row) op" where
  "locked_operation operation_id =
     bind_op (read_op (\<lambda>s. lookup_key op_id operation_id (db_operations s))) (\<lambda>row.
     case row of None \<Rightarrow> raise_op (ValueError ''recovery operation does not exist'') | Some r \<Rightarrow> return_op r)"

definition update_operation :: "string \<Rightarrow> (operation_row \<Rightarrow> operation_row) \<Rightarrow> (db, unit) op" where
  "update_operation operation_id f =
     bind_op (on_operations (sql_update operation_check (\<lambda>r. op_id r = operation_id) f)) (\<lambda>_. return_op ())"

definition set_rebuild_running :: "timestamp \<Rightarrow> operation_row \<Rightarrow> operation_row" where
  "set_rebuild_running now r =
     r\<lparr>op_status := ORunning, op_attempt_count := op_attempt_count r + 1, op_last_error_code := None, op_updated_at := now\<rparr>"

definition mark_rebuild_running :: "string \<Rightarrow> timestamp \<Rightarrow> (db, bool) op" where
  "mark_rebuild_running operation_id now =
     bind_op (locked_operation operation_id) (\<lambda>r.
     bind_op (check_op (op_kind r = ''rebuild'') (ValueError ''recovery operation is not a rebuild'')) (\<lambda>_.
     if op_status r \<in> {ORunning, OReady, OCompleted} then return_op False
     else bind_op (check_op (op_status r \<in> {OPlanned, OFailed}) (ValueError ''rebuild cannot start from its current state'')) (\<lambda>_.
          bind_op (update_operation operation_id (set_rebuild_running now)) (\<lambda>_. return_op True))))"

definition shadow_matches_parity :: "operation_row \<Rightarrow> parity_row \<Rightarrow> bool" where
  "shadow_matches_parity r p \<longleftrightarrow>
     pa_dataset_id p = op_dataset_id r \<and> pa_pipeline_version_id p = op_pipeline_version_id r
     \<and> pa_hot_binding_version_id p = op_target_binding_version_id r
     \<and> json_eq (pa_source_boundary p) (op_source_boundary r)
     \<and> json_eq (pa_dimension_version_ids p) (op_dimension_version_ids r)"

definition set_rebuild_ready :: "string \<Rightarrow> timestamp \<Rightarrow> operation_row \<Rightarrow> operation_row" where
  "set_rebuild_ready parity_id now r = r\<lparr>op_parity_check_id := parity_id, op_status := OReady, op_updated_at := now\<rparr>"

definition mark_rebuild_ready :: "string \<Rightarrow> rebuild_completion \<Rightarrow> timestamp \<Rightarrow> (db, bool) op" where
  "mark_rebuild_ready operation_id evidence now =
     bind_op (locked_operation operation_id) (\<lambda>r.
     bind_op (check_op (op_kind r = ''rebuild'') (ValueError ''recovery operation is not a rebuild'')) (\<lambda>_.
     if op_status r = OReady \<and> op_parity_check_id r = rc_parity_report_id evidence then return_op False
     else bind_op (check_op (op_status r = ORunning) (ValueError ''only a running rebuild can become ready'')) (\<lambda>_.
          bind_op (matched_parity (rc_parity_report_id evidence)) (\<lambda>parity.
          bind_op (check_op (shadow_matches_parity r parity)
            (ValueError ''rebuilt shadow does not match its fixed boundary and versions'')) (\<lambda>_.
          bind_op (update_operation operation_id (set_rebuild_ready (rc_parity_report_id evidence) now)) (\<lambda>_.
          return_op True))))))"

definition set_rebuild_failed :: "string \<Rightarrow> timestamp \<Rightarrow> operation_row \<Rightarrow> operation_row" where
  "set_rebuild_failed code now r = r\<lparr>op_status := OFailed, op_last_error_code := Some code, op_updated_at := now\<rparr>"

definition mark_rebuild_failed :: "string \<Rightarrow> string \<Rightarrow> timestamp \<Rightarrow> (db, unit) op" where
  "mark_rebuild_failed operation_id error_code now =
     bind_op (locked_operation operation_id) (\<lambda>r.
     bind_op (check_op (op_kind r = ''rebuild'' \<and> op_status r = ORunning) (ValueError ''only a running rebuild can fail'')) (\<lambda>_.
     bind_op (check_op (\<not> blank error_code \<and> py_len error_code \<le> 120) (ValueError ''rebuild error code is invalid'')) (\<lambda>_.
     update_operation operation_id (set_rebuild_failed error_code now))))"

text \<open>The service operations of a rebuild.\<close>

definition plan_rebuild ::
  "parity_report \<Rightarrow> string \<Rightarrow> string \<Rightarrow> string \<Rightarrow> int \<Rightarrow> string \<Rightarrow> string \<Rightarrow> string \<Rightarrow> timestamp \<Rightarrow> (db, rebuild_plan) op" where
  "plan_rebuild report shadow database tab epoch requested_by reason correlation_id now =
     bind_op (lift_res (rebuild_plan_build report shadow database tab)) (\<lambda>plan.
     bind_op (reserve_rebuild plan epoch requested_by reason correlation_id now) (\<lambda>_. return_op plan))"

definition start_rebuild :: "string \<Rightarrow> timestamp \<Rightarrow> (db, bool) op" where
  "start_rebuild operation_id now = mark_rebuild_running operation_id now"

definition verify_rebuild :: "string \<Rightarrow> rebuild_completion \<Rightarrow> timestamp \<Rightarrow> (db, bool) op" where
  "verify_rebuild operation_id evidence now = mark_rebuild_ready operation_id evidence now"

subsection \<open>Switching the binding\<close>

definition existing_switch_result :: "operation_row \<Rightarrow> switch_request \<Rightarrow> switch_result res" where
  "existing_switch_result r q =
     (case (op_result_binding_epoch r, op_result_revision r, op_result_event_cursor r) of
        (Some epoch, Some revision, Some cursor) \<Rightarrow>
          if op_id r = switch_operation_id q \<and> op_kind r = sr_action q \<and> op_dataset_id r = sr_dataset_id q
             \<and> op_target_binding_version_id r = bt_version_id (sr_target q) \<and> op_parity_check_id r = sr_parity_report_id q
             \<and> op_status r = OCompleted
          then Inr \<lparr>sw_operation_id = op_id r, sw_dataset_id = op_dataset_id r, sw_binding_epoch = epoch,
                    sw_revision = revision, sw_event_cursor = cursor, sw_created = False\<rparr>
          else Inl (ValueError ''binding switch idempotency key was reused with different evidence'')
      | _ \<Rightarrow> Inl (ValueError ''binding switch idempotency key was reused with different evidence''))"

definition active_binding :: "dict \<Rightarrow> string \<Rightarrow> dict option" where
  "active_binding payload engine =
     (let role = (if engine = ''trino'' then ''archive'' else ''serving'')
      in find (\<lambda>item. has_str ''role'' role item \<and> has_str ''engine'' engine item \<and> has_str ''status'' ''active'' item)
           (dict_items (jget ''physicalBindings'' payload)))"

definition validate_switch_parity :: "parity_row \<Rightarrow> switch_request \<Rightarrow> unit res" where
  "validate_switch_parity p q =
     (let target = sr_target q;
          found = (if bt_version_id target = pa_hot_binding_version_id p then Some (pa_hot_evidence p)
                   else if bt_version_id target = pa_archive_binding_version_id p then Some (pa_archive_evidence p)
                   else None)
      in case found of
           None \<Rightarrow> Inl (ValueError ''switch target is not covered by matched parity evidence'')
         | Some evidence \<Rightarrow>
             bind_res (py_int (case map_of evidence ''rowCount'' of None \<Rightarrow> JInt (- 1) | Some v \<Rightarrow> v)) (\<lambda>rows.
             check_res (pa_dataset_id p = sr_dataset_id q \<and> pa_pipeline_version_id p = bt_pipeline_version_id target
                 \<and> json_eq (pa_source_boundary p) (boundary_document (bt_boundary target))
                 \<and> json_eq (pa_dimension_version_ids p) (str_dict (bt_dimension_version_ids target))
                 \<and> jget ''checksum'' evidence = JStr (bt_checksum target) \<and> rows = bt_row_count target)
               (ValueError ''switch target does not match persisted parity evidence'')))"

definition retire_binding :: "string \<Rightarrow> dict \<Rightarrow> dict" where
  "retire_binding role item =
     (if has_str ''status'' ''active'' item \<and> (has_str ''role'' ''serving'' item \<or> has_str ''role'' role item)
      then jset ''status'' (JStr ''stale'') item else item)"

definition switched_bindings :: "binding_target \<Rightarrow> int \<Rightarrow> json \<Rightarrow> dict list" where
  "switched_bindings t epoch raw =
     filter (\<lambda>item. \<not> (has_str ''role'' (target_role t) item \<and> has_str ''versionId'' (bt_version_id t) item))
       (map (retire_binding (target_role t)) (dict_items raw)) @ [target_document epoch t]"

definition switched_payload :: "binding_target \<Rightarrow> int \<Rightarrow> dict \<Rightarrow> dict" where
  "switched_payload t epoch payload =
     (let p = jset ''physicalBindings'' (JList (map JObj (switched_bindings t epoch (jget ''physicalBindings'' payload)))) payload
      in if bt_engine t = ''clickhouse''
         then jset ''clickhouseTable'' (JObj [(''database'', of_opt_str (bt_database t)), (''table'', of_opt_str (bt_table t))]) p
         else jset ''queryEngineTable'' (JObj [(''catalog'', of_opt_str (bt_catalog t)), (''schema'', of_opt_str (bt_schema t)),
                (''table'', of_opt_str (bt_table t)), (''format'', JStr ''iceberg''), (''partitionColumns'', JList [])]) p)"

definition switch_operation :: "switch_request \<Rightarrow> int \<Rightarrow> timestamp \<Rightarrow> operation_row" where
  "switch_operation q revision now =
     (let t = sr_target q; epoch = sr_expected_binding_epoch q + 1
      in \<lparr>op_id = switch_operation_id q, op_idempotency_key = sr_idempotency_key q, op_dataset_id = sr_dataset_id q,
          op_kind = sr_action q, op_status = OCompleted, op_parity_check_id = sr_parity_report_id q,
          op_expected_binding_epoch = sr_expected_binding_epoch q,
          op_previous_binding_version_id = Some (sr_expected_binding_version_id q),
          op_target_binding_version_id = bt_version_id t, op_target_engine = bt_engine t,
          op_pipeline_version_id = bt_pipeline_version_id t, op_target_binding = JObj (target_document epoch t),
          op_source_boundary = boundary_document (bt_boundary t),
          op_dimension_version_ids = str_dict (bt_dimension_version_ids t), op_tail_start_offsets = JList [],
          op_gate_evidence = JObj (case sr_gate q of None \<Rightarrow> [] | Some g \<Rightarrow> gate_document g), op_attempt_count = 1,
          op_result_binding_epoch = Some epoch, op_result_revision = Some revision, op_result_event_cursor = None,
          op_requested_by = sr_requested_by q, op_reason = sr_reason q, op_correlation_id = sr_correlation_id q,
          op_last_error_code = None, op_updated_at = now, op_completed_at = Some now\<rparr>)"

definition recovery_run_id :: "switch_request \<Rightarrow> string" where
  "recovery_run_id q = ''recovery:'' @ switch_operation_id q"

definition switch_commit :: "switch_request \<Rightarrow> string \<Rightarrow> int \<Rightarrow> timestamp \<Rightarrow> commit_row" where
  "switch_commit q fingerprint revision now =
     (let t = sr_target q
      in \<lparr>co_dataset_id = sr_dataset_id q, co_revision = revision, co_run_id = recovery_run_id q,
          co_storage_location = storage_location t, co_storage_format = bt_engine t, co_materialization_mode = ''snapshot'',
          co_commit_kind = sr_action q, co_row_count = bt_row_count t,
          co_source_ranges = JList (map partition_document (sb_partitions (bt_boundary t))),
          co_source_fingerprint = Some fingerprint, co_materialization_id = Some (recovery_run_id q),
          co_source_boundary = Some (boundary_document (bt_boundary t)), co_serving_engine = Some (bt_engine t),
          co_serving_version_id = Some (bt_version_id t), co_binding_epoch = sr_expected_binding_epoch q + 1,
          co_dimension_version_ids = str_dict (bt_dimension_version_ids t), co_mutation_type = ''replace'',
          co_committed_at = now\<rparr>)"

definition switch_freshness :: "switch_request \<Rightarrow> int \<Rightarrow> timestamp \<Rightarrow> freshness_row \<Rightarrow> freshness_row" where
  "switch_freshness q revision now f =
     (let t = sr_target q
      in f\<lparr>fr_latest_revision := revision, fr_latest_run_id := Some (recovery_run_id q),
           fr_binding_epoch := sr_expected_binding_epoch q + 1, fr_active_engine := Some (bt_engine t),
           fr_active_version_id := Some (bt_version_id t),
           fr_active_archive_snapshot_id := (if bt_engine t = ''trino'' then bt_archive_snapshot_id t
                                             else fr_active_archive_snapshot_id f),
           fr_latest_source_boundary := Some (boundary_document (bt_boundary t)),
           fr_latest_checksum := Some (bt_checksum t), fr_latest_mutation_type := Some ''replace'', fr_updated_at := now\<rparr>)"

definition set_assignment :: "switch_request \<Rightarrow> timestamp \<Rightarrow> assignment_row \<Rightarrow> assignment_row" where
  "set_assignment q now a =
     a\<lparr>as_desired_engine := bt_engine (sr_target q), as_pipeline_version_id := Some (bt_pipeline_version_id (sr_target q)),
       as_binding_epoch := sr_expected_binding_epoch q + 1, as_status := ''active'',
       as_reason := py_take 255 (sr_reason q), as_assigned_by := sr_requested_by q, as_updated_at := now\<rparr>"

definition new_assignment :: "switch_request \<Rightarrow> timestamp \<Rightarrow> assignment_row" where
  "new_assignment q now =
     \<lparr>as_scope_id = ''deployment'', as_resource_type = ''dataset'', as_resource_id = sr_dataset_id q,
      as_desired_engine = bt_engine (sr_target q), as_pipeline_version_id = Some (bt_pipeline_version_id (sr_target q)),
      as_binding_epoch = sr_expected_binding_epoch q + 1, as_status = ''active'',
      as_reason = py_take 255 (sr_reason q), as_assigned_by = sr_requested_by q, as_updated_at = now\<rparr>"

definition assignment_of :: "switch_request \<Rightarrow> string \<times> string \<times> string" where
  "assignment_of q = (''deployment'', ''dataset'', sr_dataset_id q)"

definition upsert_assignment :: "switch_request \<Rightarrow> timestamp \<Rightarrow> (db, unit) op" where
  "upsert_assignment q now =
     bind_op (read_op (\<lambda>s. lookup_key assignment_key (assignment_of q) (db_assignments s))) (\<lambda>existing.
     case existing of
       None \<Rightarrow> on_assignments (\<lambda>rows. bind_res (sql_insert assignment_check (\<lambda>rows a. assignment_key a \<notin> assignment_key ` set rows)
                 (new_assignment q now) rows) (\<lambda>rows'. Inr (rows', ())))
     | Some _ \<Rightarrow> bind_op (on_assignments (sql_update assignment_check (\<lambda>a. assignment_key a = assignment_of q) (set_assignment q now)))
                  (\<lambda>_. return_op ()))"

definition replace_catalog_binding :: "switch_request \<Rightarrow> dict \<Rightarrow> (db, unit) op" where
  "replace_catalog_binding q payload =
     write_catalog (sr_dataset_id q)
       (\<lambda>m. m\<lparr>cd_payload := Some (switched_payload (sr_target q) (sr_expected_binding_epoch q + 1) payload)\<rparr>)"

definition stage_switch_mutation :: "freshness_row \<Rightarrow> dict \<Rightarrow> switch_request \<Rightarrow> timestamp \<Rightarrow> (db, int) op" where
  "stage_switch_mutation freshness payload q now =
     (let revision = fr_latest_revision freshness + 1
      in bind_op (insert_operation (switch_operation q revision now)) (\<lambda>_.
         bind_op (replace_catalog_binding q payload) (\<lambda>_.
         bind_op (lift_res (boundary_fingerprint (bt_boundary (sr_target q)) (bt_pipeline_version_id (sr_target q)))) (\<lambda>fp.
         bind_op (insert_commit (switch_commit q fp revision now)) (\<lambda>_.
         bind_op (update_freshness (sr_dataset_id q) (switch_freshness q revision now)) (\<lambda>_.
         bind_op (upsert_assignment q now) (\<lambda>_. return_op revision)))))))"

definition switch_event_key :: "switch_request \<Rightarrow> string" where
  "switch_event_key q = ''binding-switch:'' @ switch_operation_id q"

definition switch_event_payload :: "switch_request \<Rightarrow> dict" where
  "switch_event_payload q =
     [(''bindingEpoch'', JInt (sr_expected_binding_epoch q + 1)),
      (''materializationId'', JStr (bt_materialization_id (sr_target q))), (''mutationType'', JStr ''replace''),
      (''sourceBoundary'', boundary_document (bt_boundary (sr_target q))),
      (''servingVersionId'', JStr (bt_version_id (sr_target q))),
      (''pipelineVersionId'', JStr (bt_pipeline_version_id (sr_target q)))]"

definition switch_new :: "event_settings \<Rightarrow> switch_request \<Rightarrow> freshness_row \<Rightarrow> timestamp \<Rightarrow> (db, switch_result) op" where
  "switch_new cfg q freshness now =
     bind_op (check_op (fr_binding_epoch freshness = sr_expected_binding_epoch q
         \<and> fr_active_version_id freshness = Some (sr_expected_binding_version_id q))
       (ValueError ''Dataset serving binding changed after switch approval'')) (\<lambda>_.
     bind_op (read_catalog (sr_dataset_id q) ''Catalog Dataset is missing for binding switch'') (\<lambda>catalog.
     bind_op (lift_res (dataset_model_to_payload catalog)) (\<lambda>payload.
     bind_op (check_op (case active_binding payload (case fr_active_engine freshness of None \<Rightarrow> [] | Some e \<Rightarrow> e) of
           None \<Rightarrow> False | Some current \<Rightarrow> has_str ''versionId'' (sr_expected_binding_version_id q) current)
       (ValueError ''Catalog active serving pointer changed after switch approval'')) (\<lambda>_.
     bind_op (matched_parity (sr_parity_report_id q)) (\<lambda>parity.
     bind_op (lift_res (validate_switch_parity parity q)) (\<lambda>_.
     bind_op (stage_switch_mutation freshness payload q now) (\<lambda>revision.
     bind_op (append_event cfg ''dataset.revision.committed'' ''dataset'' (sr_dataset_id q) revision (sr_correlation_id q)
        (switch_event_key q) [''dataset:'' @ sr_dataset_id q] (switch_event_payload q) now 2) (\<lambda>(envelope, created).
     bind_op (check_op created (RuntimeError ''new binding switch collided with an existing event identity'')) (\<lambda>_.
     bind_op (update_operation (switch_operation_id q) (\<lambda>r. r\<lparr>op_result_event_cursor := Some (ee_event_id envelope)\<rparr>)) (\<lambda>_.
     return_op \<lparr>sw_operation_id = switch_operation_id q, sw_dataset_id = sr_dataset_id q,
        sw_binding_epoch = sr_expected_binding_epoch q + 1, sw_revision = revision,
        sw_event_cursor = ee_event_id envelope, sw_created = True\<rparr>))))))))))"

definition switch_binding :: "event_settings \<Rightarrow> switch_request \<Rightarrow> timestamp \<Rightarrow> (db, switch_result) op" where
  "switch_binding cfg q now =
     bind_op (read_op (operation_by_idempotency (sr_idempotency_key q))) (\<lambda>before.
     case before of
       Some r \<Rightarrow> lift_res (existing_switch_result r q)
     | None \<Rightarrow>
         bind_op (lock_freshness (sr_dataset_id q)) (\<lambda>freshness.
         bind_op (read_op (operation_by_idempotency (sr_idempotency_key q))) (\<lambda>again.
         case again of
           Some r \<Rightarrow> lift_res (existing_switch_result r q)
         | None \<Rightarrow> switch_new cfg q freshness now)))"

subsection \<open>What each statement leaves behind\<close>

lemma insert_operation_iff [op_elims]:
  "insert_operation row s = (Inr u, t) \<longleftrightarrow>
     operation_check row \<and> operation_unique (db_operations s) row \<and> t = s\<lparr>db_operations := db_operations s @ [row]\<rparr>"
  by (auto simp: insert_operation_def op_elims bind_res_Inr_iff sql_insert_Inr_iff)

lemma update_operation_iff [op_elims]:
  "update_operation i f s = (Inr u, t) \<longleftrightarrow>
     (\<forall>r \<in> set (db_operations s). op_id r = i \<longrightarrow> operation_check (f r))
     \<and> t = s\<lparr>db_operations := update_where (\<lambda>r. op_id r = i) f (db_operations s)\<rparr>"
  by (auto simp: update_operation_def op_elims sql_update_Inr_iff)

lemma locked_operation_iff [op_elims]:
  "locked_operation i s = (Inr r, t) \<longleftrightarrow> lookup_key op_id i (db_operations s) = Some r \<and> t = s"
  by (auto simp: locked_operation_def op_elims split: option.splits)

lemma matched_parity_iff [op_elims]:
  "matched_parity i s = (Inr p, t) \<longleftrightarrow>
     lookup_key pa_id i (db_parity s) = Some p \<and> pa_status p = PMatched \<and> pa_mismatch_fields p = [] \<and> t = s"
  by (auto simp: matched_parity_def op_elims split: option.splits if_splits)

definition assigned :: "switch_request \<Rightarrow> assignment_row \<Rightarrow> bool" where
  "assigned q a \<longleftrightarrow> as_desired_engine a = bt_engine (sr_target q) \<and> as_binding_epoch a = sr_expected_binding_epoch q + 1
     \<and> as_pipeline_version_id a = Some (bt_pipeline_version_id (sr_target q)) \<and> as_status a = ''active''"

lemma upsert_assignment_Inr:
  assumes "upsert_assignment q now s = (Inr u, t)"
  shows "\<exists>rows a. t = s\<lparr>db_assignments := rows\<rparr> \<and> lookup_key assignment_key (assignment_of q) rows = Some a \<and> assigned q a"
proof (cases "lookup_key assignment_key (assignment_of q) (db_assignments s)")
  case None
  have key: "assignment_key (new_assignment q now) = assignment_of q"
    by (simp add: assignment_key_def new_assignment_def assignment_of_def)
  have "t = s\<lparr>db_assignments := db_assignments s @ [new_assignment q now]\<rparr>"
    using assms None by (auto simp: upsert_assignment_def op_elims bind_res_Inr_iff sql_insert_Inr_iff)
  moreover have "lookup_key assignment_key (assignment_of q) (db_assignments s @ [new_assignment q now]) = Some (new_assignment q now)"
    using None key by (simp add: lookup_key_snoc)
  moreover have "assigned q (new_assignment q now)" by (simp add: assigned_def new_assignment_def)
  ultimately show ?thesis by blast
next
  case (Some a)
  let ?rows = "update_where (\<lambda>a. assignment_key a = assignment_of q) (set_assignment q now) (db_assignments s)"
  have "t = s\<lparr>db_assignments := ?rows\<rparr>"
    using assms Some by (auto simp: upsert_assignment_def op_elims sql_update_Inr_iff)
  moreover have "lookup_key assignment_key (assignment_of q) ?rows = Some (set_assignment q now a)"
    using Some lookup_key_Some [OF Some] by (subst lookup_key_update) (auto simp: assignment_key_def set_assignment_def)
  moreover have "assigned q (set_assignment q now a)" by (simp add: assigned_def set_assignment_def)
  ultimately show ?thesis by blast
qed

interpretation rebinding: row_update fr_dataset_id freshness_check "\<lambda>r. fr_dataset_id r = sr_dataset_id q"
    "switch_freshness q revision now" "sr_dataset_id q" for q revision now
  by unfold_locales (simp_all add: switch_freshness_def Let_def)

text \<open>The states of a new switch, statement by statement.\<close>

lemma switch_new_cases:
  assumes "switch_new cfg q f now s = (Inr r, t)"
  obtains catalog payload current p fp fs n rows a e where
    "fr_binding_epoch f = sr_expected_binding_epoch q" "fr_active_version_id f = Some (sr_expected_binding_version_id q)"
    "lookup_key cd_id (sr_dataset_id q) (db_catalog s) = Some catalog" "dataset_model_to_payload catalog = Inr payload"
    "active_binding payload (case fr_active_engine f of None \<Rightarrow> [] | Some e \<Rightarrow> e) = Some current"
    "has_str ''versionId'' (sr_expected_binding_version_id q) current"
    "lookup_key pa_id (sr_parity_report_id q) (db_parity s) = Some p" "pa_status p = PMatched" "pa_mismatch_fields p = []"
    "validate_switch_parity p q = Inr ()"
    "boundary_fingerprint (bt_boundary (sr_target q)) (bt_pipeline_version_id (sr_target q)) = Inr fp"
    "commit_unique (db_commits s) (switch_commit q fp (fr_latest_revision f + 1) now)"
    "operation_unique (db_operations s) (switch_operation q (fr_latest_revision f + 1) now)"
    "sql_update freshness_check (\<lambda>r. fr_dataset_id r = sr_dataset_id q) (switch_freshness q (fr_latest_revision f + 1) now)
       (db_freshness s) = Inr (fs, n)"
    "lookup_key assignment_key (assignment_of q) rows = Some a" "assigned q a"
    "ev_id e = db_next_event_id s" "ev_aggregate_revision e = fr_latest_revision f + 1"
    "ev_payload e = switch_event_payload q"
    "t = s\<lparr>db_operations := db_operations s @ [(switch_operation q (fr_latest_revision f + 1) now)
              \<lparr>op_result_event_cursor := Some (db_next_event_id s)\<rparr>],
       db_catalog := update_where (\<lambda>m. cd_id m = sr_dataset_id q)
         (\<lambda>m. m\<lparr>cd_payload := Some (switched_payload (sr_target q) (sr_expected_binding_epoch q + 1) payload)\<rparr>) (db_catalog s),
       db_commits := db_commits s @ [switch_commit q fp (fr_latest_revision f + 1) now], db_freshness := fs,
       db_assignments := rows, db_events := db_events s @ [e], db_next_event_id := db_next_event_id s + 1\<rparr>"
    "r = \<lparr>sw_operation_id = switch_operation_id q, sw_dataset_id = sr_dataset_id q,
        sw_binding_epoch = sr_expected_binding_epoch q + 1, sw_revision = fr_latest_revision f + 1,
        sw_event_cursor = db_next_event_id s, sw_created = True\<rparr>"
    "events_ok s \<Longrightarrow> events_ok t"
proof -
  let ?rev = "fr_latest_revision f + 1"
  let ?new = "switch_operation q ?rev now"
  obtain catalog payload current p s1 env s2 where
    fr: "fr_binding_epoch f = sr_expected_binding_epoch q" "fr_active_version_id f = Some (sr_expected_binding_version_id q)"
    and cat: "lookup_key cd_id (sr_dataset_id q) (db_catalog s) = Some catalog" "dataset_model_to_payload catalog = Inr payload"
    and cur: "active_binding payload (case fr_active_engine f of None \<Rightarrow> [] | Some e \<Rightarrow> e) = Some current"
      "has_str ''versionId'' (sr_expected_binding_version_id q) current"
    and par: "lookup_key pa_id (sr_parity_report_id q) (db_parity s) = Some p" "pa_status p = PMatched" "pa_mismatch_fields p = []"
      "validate_switch_parity p q = Inr ()"
    and stage: "stage_switch_mutation f payload q now s = (Inr ?rev, s1)"
    and ev: "append_event cfg ''dataset.revision.committed'' ''dataset'' (sr_dataset_id q) ?rev (sr_correlation_id q)
        (switch_event_key q) [''dataset:'' @ sr_dataset_id q] (switch_event_payload q) now 2 s1 = (Inr (env, True), s2)"
    and t: "t = s2\<lparr>db_operations := update_where (\<lambda>r. op_id r = switch_operation_id q)
         (\<lambda>r. r\<lparr>op_result_event_cursor := Some (ee_event_id env)\<rparr>) (db_operations s2)\<rparr>"
    and r: "r = \<lparr>sw_operation_id = switch_operation_id q, sw_dataset_id = sr_dataset_id q,
        sw_binding_epoch = sr_expected_binding_epoch q + 1, sw_revision = ?rev, sw_event_cursor = ee_event_id env, sw_created = True\<rparr>"
    using assms unfolding switch_new_def
    by (auto simp: op_elims stage_switch_mutation_def Let_def split: option.splits)
  let ?s0 = "s\<lparr>db_operations := db_operations s @ [?new],
       db_catalog := update_where (\<lambda>m. cd_id m = sr_dataset_id q)
         (\<lambda>m. m\<lparr>cd_payload := Some (switched_payload (sr_target q) (sr_expected_binding_epoch q + 1) payload)\<rparr>) (db_catalog s)\<rparr>"
  obtain fp fs n where uniq: "operation_unique (db_operations s) ?new"
    and fp: "boundary_fingerprint (bt_boundary (sr_target q)) (bt_pipeline_version_id (sr_target q)) = Inr fp"
    and com: "commit_unique (db_commits s) (switch_commit q fp ?rev now)"
    and upd: "sql_update freshness_check (\<lambda>r. fr_dataset_id r = sr_dataset_id q) (switch_freshness q ?rev now)
       (db_freshness s) = Inr (fs, n)"
    and ass: "upsert_assignment q now (?s0\<lparr>db_commits := db_commits s @ [switch_commit q fp ?rev now], db_freshness := fs\<rparr>) = (Inr (), s1)"
    using stage unfolding stage_switch_mutation_def replace_catalog_binding_def Let_def by (auto simp: op_elims)
  obtain rows a where s1: "s1 = ?s0\<lparr>db_commits := db_commits s @ [switch_commit q fp ?rev now], db_freshness := fs, db_assignments := rows\<rparr>"
    and a: "lookup_key assignment_key (assignment_of q) rows = Some a" "assigned q a"
    using upsert_assignment_Inr [OF ass] by auto
  have "op_id ?new = switch_operation_id q" by (simp add: switch_operation_def Let_def)
  then have only: "update_where (\<lambda>r. op_id r = switch_operation_id q) g (db_operations s @ [?new]) = db_operations s @ [g ?new]" for g
    using uniq by (auto simp: update_where_def operation_unique_def intro!: map_idI)
  from ev show thesis
  proof (cases rule: append_event_cases)
    case old
    then show thesis by simp
  next
    case (new e)
    have env: "ee_event_id env = db_next_event_id s" using new(3,4) by (simp add: to_envelope_def s1)
    have ok: "events_ok t" if "events_ok s"
      using append_event_ok [OF ev] that by (simp add: events_ok_def s1 t)
    show thesis
      by (rule that [OF fr cat cur par fp com uniq upd a, of e]) (use new t r env only s1 ok in simp_all)
  qed
qed

lemma switch_cases:
  assumes "switch_binding cfg q now s = (Inr r, t)"
  obtains (old) o' where "operation_by_idempotency (sr_idempotency_key q) s = Some o'" "existing_switch_result o' q = Inr r" "t = s"
  | (new) f where "operation_by_idempotency (sr_idempotency_key q) s = None"
      "lookup_key fr_dataset_id (sr_dataset_id q) (db_freshness s) = Some f" "switch_new cfg q f now s = (Inr r, t)"
  using assms unfolding switch_binding_def by (auto simp: op_elims split: option.splits)

lemma existing_switch_not_created: "existing_switch_result o' q = Inr r \<Longrightarrow> \<not> sw_created r"
  by (auto simp: existing_switch_result_def split: option.splits if_splits)

subsection \<open>The bindings after a switch\<close>

definition active_for :: "string \<Rightarrow> dict \<Rightarrow> bool" where
  "active_for role item \<longleftrightarrow> has_str ''status'' ''active'' item \<and> (has_str ''role'' ''serving'' item \<or> has_str ''role'' role item)"

lemma target_document_fields:
  "jget ''role'' (target_document epoch t) = JStr (target_role t)" "jget ''status'' (target_document epoch t) = JStr ''active''"
  "jget ''engine'' (target_document epoch t) = JStr (bt_engine t)"
  "jget ''versionId'' (target_document epoch t) = JStr (bt_version_id t)"
  by (simp_all add: target_document_def)

lemma retire_not_active: "\<not> active_for role (retire_binding role item)"
  by (auto simp: active_for_def retire_binding_def has_str_def)

lemma switched_bindings_active: "filter (active_for (target_role t)) (switched_bindings t epoch raw) = [target_document epoch t]"
proof -
  have "filter (active_for (target_role t)) (filter P (map (retire_binding (target_role t)) items)) = []" for P items
    using retire_not_active by (auto simp: filter_empty_conv)
  moreover have "active_for (target_role t) (target_document epoch t)"
    by (simp add: active_for_def has_str_def target_document_fields)
  ultimately show ?thesis by (simp add: switched_bindings_def)
qed

lemma bindings_of_switched: "bindings_of (switched_payload t epoch payload) = switched_bindings t epoch (jget ''physicalBindings'' payload)"
  by (simp add: bindings_of_def switched_payload_def Let_def)

lemma find_in_filter:
  assumes "filter Q xs = [x]" and "P x" and "\<And>y. P y \<Longrightarrow> Q y"
  shows "find P xs = Some x"
  using assms(1)
proof (induction xs)
  case (Cons y xs)
  then show ?case using assms(2,3) by (cases "Q y") auto
qed simp

text \<open>The next switch finds the target as the active binding of its engine.\<close>

lemma active_binding_switched:
  assumes "bt_engine t \<in> {''clickhouse'', ''trino''}"
  shows "active_binding (switched_payload t epoch payload) (bt_engine t) = Some (target_document epoch t)"
proof -
  have role: "(if bt_engine t = ''trino'' then ''archive'' else ''serving'') = target_role t"
    using assms by (auto simp: target_role_def)
  show ?thesis
    unfolding active_binding_def Let_def role bindings_of_def [symmetric] bindings_of_switched
    by (rule find_in_filter [OF switched_bindings_active]) (auto simp: has_str_def target_document_fields active_for_def)
qed

definition stored_payload :: "string \<Rightarrow> db \<Rightarrow> dict" where
  "stored_payload ds s = (case lookup_key cd_id ds (db_catalog s) of None \<Rightarrow> []
     | Some m \<Rightarrow> (case cd_payload m of None \<Rightarrow> [] | Some d \<Rightarrow> d))"

subsection \<open>Switching twice\<close>

lemma switch_new_then_existing:
  assumes "switch_new cfg q f now s = (Inr r, t)" and "operation_by_idempotency (sr_idempotency_key q) s = None"
  shows "switch_binding cfg q now' t = (Inr (r\<lparr>sw_created := False\<rparr>), t)"
  using assms(1)
proof (cases rule: switch_new_cases)
  case (1 catalog payload current p fp fs n rows a e)
  let ?o = "(switch_operation q (fr_latest_revision f + 1) now)\<lparr>op_result_event_cursor := Some (db_next_event_id s)\<rparr>"
  have "op_idempotency_key ?o = sr_idempotency_key q" by (simp add: switch_operation_def Let_def)
  then have "operation_by_idempotency (sr_idempotency_key q) t = Some ?o"
    using assms(2) unfolding 1(20) by (simp add: operation_by_idempotency_def lookup_key_snoc)
  moreover have "existing_switch_result ?o q = Inr (r\<lparr>sw_created := False\<rparr>)"
    unfolding 1(21) by (simp add: existing_switch_result_def switch_operation_def Let_def)
  ultimately show ?thesis by (simp add: switch_binding_def bind_op_def read_op_def lift_res_def)
qed

interpretation switching: idempotent_command "switch_binding cfg q now" "\<lambda>r. r\<lparr>sw_created := False\<rparr>" "\<lambda>_. True" for cfg q now
proof
  fix s r t
  assume run: "switch_binding cfg q now s = (Inr r, t)"
  show "switch_binding cfg q now t = (Inr (r\<lparr>sw_created := False\<rparr>), t)"
    using run
  proof (cases rule: switch_cases)
    case (old o')
    then have "r\<lparr>sw_created := False\<rparr> = r" using existing_switch_not_created [OF old(2)] by (cases r) simp
    then show ?thesis using run old(3) by simp
  next
    case (new f)
    then show ?thesis using switch_new_then_existing by blast
  qed
qed simp

subsection \<open>A switch that may go through does\<close>

definition valid_engine :: "switch_request \<Rightarrow> bool" where
  "valid_engine q \<longleftrightarrow> bt_engine (sr_target q) \<in> {''clickhouse'', ''trino''}"

lemma upsert_assignment_total:
  assumes "table_ok assignment_key assignment_check (db_assignments s)" and "valid_engine q" and "0 \<le> sr_expected_binding_epoch q"
  shows "\<exists>t. upsert_assignment q now s = (Inr (), t)"
proof (cases "lookup_key assignment_key (assignment_of q) (db_assignments s)")
  case None
  have ck: "assignment_check (new_assignment q now)"
    using assms(2,3) by (auto simp: assignment_check_def new_assignment_def valid_engine_def)
  have "assignment_key (new_assignment q now) = assignment_of q"
    by (simp add: assignment_key_def new_assignment_def assignment_of_def)
  then have "assignment_key (new_assignment q now) \<notin> assignment_key ` set (db_assignments s)"
    using None by (simp add: lookup_key_None)
  then show ?thesis using None ck
    by (auto simp: upsert_assignment_def bind_op_def read_op_def table_op_def sql_insert_def)
next
  case (Some a)
  have "assignment_check (set_assignment q now r)" if "r \<in> set (db_assignments s)" for r
    using that assms by (auto simp: assignment_check_def set_assignment_def valid_engine_def table_ok_def)
  then show ?thesis using Some
    by (auto simp: upsert_assignment_def bind_op_def read_op_def table_op_def sql_update_def return_op_def)
qed

lemma switch_event_key_ok: "py_strip (switch_event_key q) = switch_event_key q" "switch_event_key q \<noteq> []"
    "py_len (switch_event_key q) \<le> 256"
proof -
  have "\<not> py_space c" if "c \<in> set (switch_event_key q)" for c
    using that sha256_hex_not_space by (auto simp: switch_event_key_def switch_operation_id_def py_space_def char_code_def Let_def)
  then show "py_strip (switch_event_key q) = switch_event_key q" by (rule strip_no_space)
  show "switch_event_key q \<noteq> []" by (simp add: switch_event_key_def)
  have "py_len (switch_event_key q) \<le> length (switch_event_key q)" by (simp add: py_len_def)
  also have "\<dots> \<le> 256" by (simp add: switch_event_key_def switch_operation_id_def)
  finally show "py_len (switch_event_key q) \<le> 256" .
qed

text \<open>What the database must hold for a switch: the request describes the current binding and matched parity.\<close>

definition switch_ready :: "event_settings \<Rightarrow> switch_request \<Rightarrow> freshness_row \<Rightarrow> dict \<Rightarrow> string \<Rightarrow> timestamp \<Rightarrow> db \<Rightarrow> bool" where
  "switch_ready cfg q f payload fp now s \<longleftrightarrow>
     operation_by_idempotency (sr_idempotency_key q) s = None
     \<and> lookup_key fr_dataset_id (sr_dataset_id q) (db_freshness s) = Some f
     \<and> fr_binding_epoch f = sr_expected_binding_epoch q \<and> fr_active_version_id f = Some (sr_expected_binding_version_id q)
     \<and> (\<exists>m. lookup_key cd_id (sr_dataset_id q) (db_catalog s) = Some m \<and> dataset_model_to_payload m = Inr payload)
     \<and> (case active_binding payload (case fr_active_engine f of None \<Rightarrow> [] | Some e \<Rightarrow> e) of
           None \<Rightarrow> False | Some current \<Rightarrow> has_str ''versionId'' (sr_expected_binding_version_id q) current)
     \<and> (\<exists>p. lookup_key pa_id (sr_parity_report_id q) (db_parity s) = Some p \<and> pa_status p = PMatched
           \<and> pa_mismatch_fields p = [] \<and> validate_switch_parity p q = Inr ())
     \<and> boundary_fingerprint (bt_boundary (sr_target q)) (bt_pipeline_version_id (sr_target q)) = Inr fp
     \<and> sr_action q \<in> {''cutover'', ''rollback''} \<and> valid_engine q \<and> 0 \<le> sr_expected_binding_epoch q \<and> 0 \<le> fr_latest_revision f
     \<and> validate_realtime_event (es_max_bytes cfg) ''dataset.revision.committed'' ''dataset'' (sr_dataset_id q)
           (fr_latest_revision f + 1) (sr_correlation_id q) [''dataset:'' @ sr_dataset_id q] (switch_event_payload q) 2 = Inr ()"

lemma stage_switch_total:
  assumes "switch_ready cfg q f payload fp now s" and "table_ok assignment_key assignment_check (db_assignments s)"
    and "operation_unique (db_operations s) (switch_operation q (fr_latest_revision f + 1) now)"
    and "commit_unique (db_commits s) (switch_commit q fp (fr_latest_revision f + 1) now)"
  shows "\<exists>t. stage_switch_mutation f payload q now s = (Inr (fr_latest_revision f + 1), t) \<and> db_events t = db_events s
    \<and> db_next_event_id t = db_next_event_id s
    \<and> db_operations t = db_operations s @ [switch_operation q (fr_latest_revision f + 1) now]"
proof -
  let ?rev = "fr_latest_revision f + 1"
  note ready = assms(1) [unfolded switch_ready_def]
  have o: "operation_check (switch_operation q ?rev now)"
    using ready by (auto simp: operation_check_def switch_operation_def Let_def valid_engine_def)
  have c: "commit_check (switch_commit q fp ?rev now)"
    using ready by (auto simp: commit_check_def switch_commit_def Let_def mutation_types_def)
  have fr: "freshness_check (switch_freshness q ?rev now r)" for r
    using ready by (auto simp: freshness_check_def switch_freshness_def Let_def mutation_types_def)
  define s0 where "s0 = s\<lparr>db_operations := db_operations s @ [switch_operation q ?rev now],
     db_catalog := update_where (\<lambda>m. cd_id m = sr_dataset_id q)
       (\<lambda>m. m\<lparr>cd_payload := Some (switched_payload (sr_target q) (sr_expected_binding_epoch q + 1) payload)\<rparr>) (db_catalog s),
     db_commits := db_commits s @ [switch_commit q fp ?rev now],
     db_freshness := update_where (\<lambda>r. fr_dataset_id r = sr_dataset_id q) (switch_freshness q ?rev now) (db_freshness s)\<rparr>"
  have "table_ok assignment_key assignment_check (db_assignments s0)" using assms(2) by (simp add: s0_def)
  then obtain t where t: "upsert_assignment q now s0 = (Inr (), t)" using upsert_assignment_total ready by blast
  have run: "stage_switch_mutation f payload q now s = (Inr ?rev, t)"
    unfolding stage_switch_mutation_def replace_catalog_binding_def Let_def
    using o c fr t ready assms(3,4) by (auto simp: op_elims sql_update_Inr_iff s0_def)
  obtain rows where "t = s0\<lparr>db_assignments := rows\<rparr>" using upsert_assignment_Inr [OF t] by blast
  then show ?thesis using run by (simp add: s0_def)
qed

lemma switch_total:
  assumes "switch_ready cfg q f payload fp now s" and "table_ok assignment_key assignment_check (db_assignments s)"
    and "operation_unique (db_operations s) (switch_operation q (fr_latest_revision f + 1) now)"
    and "commit_unique (db_commits s) (switch_commit q fp (fr_latest_revision f + 1) now)"
    and "events_ok s" and "by_idempotency_key (switch_event_key q) s = None"
    and "\<forall>r \<in> set (db_operations s). operation_check r"
  shows "\<exists>r t. switch_binding cfg q now s = (Inr r, t) \<and> sw_created r"
proof -
  let ?rev = "fr_latest_revision f + 1"
  note ready = assms(1) [unfolded switch_ready_def]
  obtain s1 where stage: "stage_switch_mutation f payload q now s = (Inr ?rev, s1)"
    and s1: "db_events s1 = db_events s" "db_next_event_id s1 = db_next_event_id s"
      "db_operations s1 = db_operations s @ [switch_operation q ?rev now]"
    using stage_switch_total [OF assms(1-4)] by blast
  obtain env s2 where ev: "append_event cfg ''dataset.revision.committed'' ''dataset'' (sr_dataset_id q) ?rev (sr_correlation_id q)
        (switch_event_key q) [''dataset:'' @ sr_dataset_id q] (switch_event_payload q) now 2 s1 = (Inr (env, True), s2)"
    using append_event_total [where s = s1 and cfg = cfg] ready switch_event_key_ok assms(5,6) s1
    by (metis by_idempotency_key_def events_ok_def)
  have ops: "db_operations s2 = db_operations s1" using ev by (cases rule: append_event_cases) auto
  have "operation_check (switch_operation q ?rev now)"
    using ready by (auto simp: operation_check_def switch_operation_def Let_def valid_engine_def)
  then have ck: "\<forall>r \<in> set (db_operations s2). operation_check (r\<lparr>op_result_event_cursor := Some (ee_event_id env)\<rparr>)"
    using assms(7) by (auto simp: ops s1(3) operation_check_def)
  have "\<exists>r t. switch_new cfg q f now s = (Inr r, t) \<and> sw_created r"
    unfolding switch_new_def using ready stage ev ck
    by (auto simp: op_elims split: option.splits intro!: exI)
  then show ?thesis using ready by (auto simp: switch_binding_def bind_op_def read_op_def lock_freshness_def return_op_def)
qed

subsection \<open>Properties of switches\<close>

text \<open>C14. A switch moves the serving binding in one transaction: it happens only against the epoch and version the request
  was approved for and with matched parity evidence that covers the target; the epoch and the revision grow by one;
  freshness, commit, operation record, routing assignment and event all carry the new epoch and revision; and the
  target is the only active binding of the dataset's serving role, the one a following switch finds.\<close>

theorem switch_moves_binding:
  assumes "switch_binding cfg q now s = (Inr r, t)" and "sw_created r" and "valid_engine q"
  shows "\<exists>f p e fp a. lookup_key fr_dataset_id (sr_dataset_id q) (db_freshness s) = Some f
    \<and> fr_binding_epoch f = sr_expected_binding_epoch q \<and> fr_active_version_id f = Some (sr_expected_binding_version_id q)
    \<and> lookup_key pa_id (sr_parity_report_id q) (db_parity s) = Some p \<and> pa_status p = PMatched \<and> pa_mismatch_fields p = []
    \<and> validate_switch_parity p q = Inr ()
    \<and> sw_binding_epoch r = fr_binding_epoch f + 1 \<and> sw_revision r = fr_latest_revision f + 1
    \<and> lookup_key fr_dataset_id (sr_dataset_id q) (db_freshness t) = Some (switch_freshness q (sw_revision r) now f)
    \<and> db_commits t = db_commits s @ [switch_commit q fp (sw_revision r) now]
    \<and> db_operations t = db_operations s @ [(switch_operation q (sw_revision r) now)\<lparr>op_result_event_cursor := Some (sw_event_cursor r)\<rparr>]
    \<and> lookup_key assignment_key (assignment_of q) (db_assignments t) = Some a \<and> assigned q a
    \<and> db_events t = db_events s @ [e] \<and> ev_id e = sw_event_cursor r \<and> ev_aggregate_revision e = sw_revision r
    \<and> ev_payload e = switch_event_payload q
    \<and> filter (active_for (target_role (sr_target q))) (bindings_of (stored_payload (sr_dataset_id q) t))
        = [target_document (sw_binding_epoch r) (sr_target q)]
    \<and> active_binding (stored_payload (sr_dataset_id q) t) (bt_engine (sr_target q))
        = Some (target_document (sw_binding_epoch r) (sr_target q))"
  using assms(1)
proof (cases rule: switch_cases)
  case (old o')
  then show ?thesis using assms(2) existing_switch_not_created by blast
next
  case (new f)
  from new(3) show ?thesis
  proof (cases rule: switch_new_cases)
    case (1 catalog payload current p fp fs n rows a e)
    have fr: "lookup_key fr_dataset_id (sr_dataset_id q) (db_freshness t) = Some (switch_freshness q (sw_revision r) now f)"
      using rebinding.lookup [OF 1(14), of "sr_dataset_id q"] new(2) lookup_key_Some [OF new(2)] 1(20,21) by simp
    have "lookup_key cd_id (sr_dataset_id q) (db_catalog t) = Some (catalog\<lparr>cd_payload :=
        Some (switched_payload (sr_target q) (sr_expected_binding_epoch q + 1) payload)\<rparr>)"
      using 1(3,20) lookup_key_Some [OF 1(3)] by (simp add: lookup_key_update)
    then have pay: "stored_payload (sr_dataset_id q) t = switched_payload (sr_target q) (sw_binding_epoch r) payload"
      using 1(21) by (simp add: stored_payload_def)
    show ?thesis
      using new(2) 1(1,2,7-10,15-21) fr pay switched_bindings_active active_binding_switched assms(3)
      by (auto simp: bindings_of_switched valid_engine_def)
  qed
qed

definition sample_target :: binding_target where
  "sample_target = \<lparr>bt_engine = ''clickhouse'', bt_version_id = ''sv2'', bt_pipeline_version_id = ''v2'', bt_materialization_id = ''m2'',
     bt_boundary = sample_boundary, bt_dimension_version_ids = [], bt_checksum = ''ck'', bt_row_count = 5,
     bt_database = Some ''db'', bt_table = Some ''t2'', bt_catalog = None, bt_schema = None, bt_archive_snapshot_id = None\<rparr>"

definition sample_switch :: switch_request where
  "sample_switch = \<lparr>sr_idempotency_key = ''k1'', sr_action = ''rollback'', sr_dataset_id = ''d1'', sr_expected_binding_epoch = 0,
     sr_expected_binding_version_id = ''sv1'', sr_target = sample_target, sr_parity_report_id = ''p1'', sr_requested_by = ''ann'',
     sr_reason = ''restore the hot store'', sr_correlation_id = ''c1'', sr_gate = None\<rparr>"

definition sample_parity :: parity_row where
  "sample_parity = \<lparr>pa_id = ''p1'', pa_dataset_id = ''d1'', pa_pipeline_version_id = ''v2'', pa_hot_binding_version_id = ''sv2'',
     pa_archive_binding_version_id = ''a1'', pa_source_boundary = boundary_document sample_boundary,
     pa_dimension_version_ids = str_dict [], pa_hot_evidence = [(''rowCount'', JInt 5), (''checksum'', JStr ''ck'')],
     pa_archive_evidence = [], pa_status = PMatched, pa_mismatch_fields = []\<rparr>"

definition sample_bound_catalog :: catalog_row where
  "sample_bound_catalog = sample_catalog\<lparr>cd_payload := Some [(''owner'', JStr ''ann''), (''physicalBindings'',
     JList [JObj [(''role'', JStr ''serving''), (''engine'', JStr ''clickhouse''), (''status'', JStr ''active''), (''versionId'', JStr ''sv1'')]])]\<rparr>"

definition sample_switch_db :: db where
  "sample_switch_db = empty_db\<lparr>db_freshness := [sample_freshness], db_catalog := [sample_bound_catalog], db_parity := [sample_parity]\<rparr>"

lemma sample_switch_ready:
  "\<exists>payload fp. switch_ready sample_event_limits sample_switch sample_freshness payload fp 9 sample_switch_db"
proof -
  have c: "case dataset_model_to_payload sample_bound_catalog of Inl _ \<Rightarrow> False | Inr p \<Rightarrow> (case active_binding p ''clickhouse'' of
      None \<Rightarrow> False | Some current \<Rightarrow> has_str ''versionId'' ''sv1'' current)" by code_simp
  then obtain payload where p: "dataset_model_to_payload sample_bound_catalog = Inr payload"
    and cur: "case active_binding payload ''clickhouse'' of None \<Rightarrow> False | Some current \<Rightarrow> has_str ''versionId'' ''sv1'' current"
    by (auto split: sum.splits)
  have par: "validate_switch_parity sample_parity sample_switch = Inr ()" by code_simp
  have ev: "validate_realtime_event (es_max_bytes sample_event_limits) ''dataset.revision.committed'' ''dataset'' ''d1'' 7 ''c1''
      [''dataset:d1''] (switch_event_payload sample_switch) 2 = Inr ()" by code_simp
  have fp: "\<exists>fp. boundary_fingerprint sample_boundary ''v2'' = Inr fp" by (simp add: boundary_fingerprint_def blank_def py_strip_def py_space_def char_code_def Let_def)
  have s: "db_operations sample_switch_db = []" "db_freshness sample_switch_db = [sample_freshness]"
      "db_catalog sample_switch_db = [sample_bound_catalog]" "db_parity sample_switch_db = [sample_parity]"
    by (simp_all add: sample_switch_db_def empty_db_def)
  have q: "sr_idempotency_key sample_switch = ''k1''" "sr_dataset_id sample_switch = ''d1''" "sr_action sample_switch = ''rollback''"
      "sr_expected_binding_epoch sample_switch = 0" "sr_expected_binding_version_id sample_switch = ''sv1''"
      "sr_parity_report_id sample_switch = ''p1''" "sr_correlation_id sample_switch = ''c1''" "sr_target sample_switch = sample_target"
      "bt_boundary sample_target = sample_boundary" "bt_pipeline_version_id sample_target = ''v2''" "bt_engine sample_target = ''clickhouse''"
      "fr_dataset_id sample_freshness = ''d1''" "fr_binding_epoch sample_freshness = 0" "fr_latest_revision sample_freshness = 6"
      "fr_active_version_id sample_freshness = Some ''sv1''" "fr_active_engine sample_freshness = Some ''clickhouse''"
      "cd_id sample_bound_catalog = ''d1''" "pa_id sample_parity = ''p1''" "pa_status sample_parity = PMatched" "pa_mismatch_fields sample_parity = []"
    by (simp_all add: sample_switch_def sample_target_def sample_freshness_def sample_bound_catalog_def sample_catalog_def sample_parity_def)
  show ?thesis using p cur par ev fp
    unfolding switch_ready_def operation_by_idempotency_def lookup_key_def valid_engine_def s q option.case by (simp add: q)
qed

lemma sample_switch_runs: "\<exists>r t. switch_binding sample_event_limits sample_switch 9 sample_switch_db = (Inr r, t) \<and> sw_created r"
proof -
  obtain payload fp where ready: "switch_ready sample_event_limits sample_switch sample_freshness payload fp 9 sample_switch_db"
    using sample_switch_ready by blast
  show ?thesis
    by (rule switch_total [OF ready]) (simp_all add: sample_switch_db_def empty_db_def operation_unique_def commit_unique_def
        events_ok_def by_idempotency_key_def lookup_key_def)
qed

theorem switch_moves_binding_witness:
  "\<exists>r t. switch_binding sample_event_limits sample_switch 9 sample_switch_db = (Inr r, t) \<and> sw_binding_epoch r = 1
     \<and> active_binding (stored_payload ''d1'' t) ''clickhouse'' = Some (target_document 1 sample_target)"
proof -
  obtain r t where run: "switch_binding sample_event_limits sample_switch 9 sample_switch_db = (Inr r, t)" "sw_created r"
    using sample_switch_runs by blast
  have q: "valid_engine sample_switch" "sr_dataset_id sample_switch = ''d1''" "sr_target sample_switch = sample_target"
      "bt_engine sample_target = ''clickhouse''" "sr_expected_binding_epoch sample_switch = 0"
    by (simp_all add: valid_engine_def sample_switch_def sample_target_def)
  show ?thesis using switch_moves_binding [OF run q(1)] run(1) unfolding q by (auto simp: q)
qed

text \<open>Switching is idempotent per key: after a switch that returned, any number of retries return the same epoch,
  revision and cursor, marked as not created, and change nothing; unlike a publication this does not depend on the event log.\<close>

theorem switch_idempotent:
  assumes "switch_binding cfg q now s = (Inr r, t)"
  shows "repeat_op n (switch_binding cfg q now) t = (Inr (replicate n (r\<lparr>sw_created := False\<rparr>)), t)"
  by (rule switching.retries [OF assms TrueI])

theorem switch_idempotent_witness:
  "\<exists>r t. switch_binding sample_event_limits sample_switch 9 sample_switch_db = (Inr r, t) \<and> sw_created r
     \<and> repeat_op 2 (switch_binding sample_event_limits sample_switch 9) t = (Inr (replicate 2 (r\<lparr>sw_created := False\<rparr>)), t)"
proof -
  obtain r t where run: "switch_binding sample_event_limits sample_switch 9 sample_switch_db = (Inr r, t)" "sw_created r"
    using sample_switch_runs by blast
  show ?thesis using switch_idempotent [OF run(1), of 2] run by blast
qed

text \<open>A dataset cannot be switched by the same action to the same source boundary twice: after a switch, every later
  request with another key, for the same dataset, action, boundary and pipeline version, raises, because both commits
  carry the same source fingerprint.\<close>

theorem repeated_boundary_switch_raises:
  assumes "switch_binding cfg q now s = (Inr r, t)" and "sw_created r" and "set (db_commits t) \<subseteq> set (db_commits u)"
    and "operation_by_idempotency (sr_idempotency_key q') u = None" and "sr_dataset_id q' = sr_dataset_id q"
    and "sr_action q' = sr_action q" and "bt_boundary (sr_target q') = bt_boundary (sr_target q)"
    and "bt_pipeline_version_id (sr_target q') = bt_pipeline_version_id (sr_target q)"
  shows "\<exists>e. fst (switch_binding cfg q' now' u) = Inl e"
proof (rule ccontr)
  assume "\<nexists>e. fst (switch_binding cfg q' now' u) = Inl e"
  then obtain r' v where run': "switch_binding cfg q' now' u = (Inr r', v)"
    by (metis prod.collapse sum.exhaust_sel)
  from assms(1) obtain f where run: "switch_new cfg q f now s = (Inr r, t)"
    by (cases rule: switch_cases) (use assms(2) existing_switch_not_created in blast)+
  from run' obtain f' where "switch_new cfg q' f' now' u = (Inr r', v)"
    by (cases rule: switch_cases) (use assms(4) in auto)
  then show False
  proof (cases rule: switch_new_cases)
    case uc: (1 catalog payload current p fp' fs n rows a e)
    from run show False
    proof (cases rule: switch_new_cases)
      case tc: (1 catalog payload current p fp fs n rows a e)
      have fp: "fp' = fp" using uc(11) tc(11) assms(7,8) by simp
      have "switch_commit q fp (fr_latest_revision f + 1) now \<in> set (db_commits u)" using tc(20) assms(3) by auto
      then show False using uc(12) assms(5,6) unfolding fp commit_unique_def
        by (auto simp: switch_commit_def Let_def)
    qed
  qed
qed

lemma created_switch_operation:
  assumes "switch_binding cfg q now s = (Inr r, t)" and "sw_created r"
  shows "\<exists>o'. db_operations t = db_operations s @ [o'] \<and> op_idempotency_key o' = sr_idempotency_key q"
  using assms(1)
proof (cases rule: switch_cases)
  case (old o')
  then show ?thesis using assms(2) existing_switch_not_created by blast
next
  case (new f)
  from new(3) show ?thesis
  proof (cases rule: switch_new_cases)
    case (1 catalog payload current p fp fs n rows a e)
    then show ?thesis by (simp add: switch_operation_def Let_def)
  qed
qed

definition sample_second_switch :: switch_request where
  "sample_second_switch = sample_switch\<lparr>sr_idempotency_key := ''k2'', sr_expected_binding_epoch := 3\<rparr>"

theorem repeated_boundary_switch_raises_witness:
  "\<exists>r t e. switch_binding sample_event_limits sample_switch 9 sample_switch_db = (Inr r, t)
     \<and> fst (switch_binding sample_event_limits sample_second_switch 20 t) = Inl e"
proof -
  obtain r t where run: "switch_binding sample_event_limits sample_switch 9 sample_switch_db = (Inr r, t)" "sw_created r"
    using sample_switch_runs by blast
  have "operation_by_idempotency ''k2'' t = None"
    using created_switch_operation [OF run] by (auto simp: sample_switch_def
      operation_by_idempotency_def lookup_key_def sample_switch_db_def empty_db_def)
  then show ?thesis
    using repeated_boundary_switch_raises [OF run subset_refl, of sample_second_switch 20] run(1)
    by (auto simp: sample_second_switch_def sample_switch_def)
qed

subsection \<open>The recovery state machine\<close>

text \<open>The steps of the recovery service, each a committed call. The switch and the completion evidence come from their
  checked constructors.\<close>

inductive recovery_step :: "db \<Rightarrow> db \<Rightarrow> bool" where
  assess: "assess_parity hot archive s = (Inr report, t) \<Longrightarrow> recovery_step s t"
| plan: "plan_rebuild report shadow database tab epoch requested_by reason correlation_id now s = (Inr plan, t) \<Longrightarrow> recovery_step s t"
| start: "start_rebuild i now s = (Inr started, t) \<Longrightarrow> recovery_step s t"
| verify: "rebuild_completion_init evidence = Inr evidence \<Longrightarrow> verify_rebuild i evidence now s = (Inr changed, t) \<Longrightarrow> recovery_step s t"
| fail: "mark_rebuild_failed i code now s = (Inr u, t) \<Longrightarrow> recovery_step s t"
| switch: "switch_request_init q = Inr q \<Longrightarrow> switch_binding cfg q now s = (Inr r, t) \<Longrightarrow> recovery_step s t"

inductive_cases recovery_stepE: "recovery_step s t"

definition has_matched_parity :: "parity_row list \<Rightarrow> operation_row \<Rightarrow> parity_row \<Rightarrow> bool" where
  "has_matched_parity ps r p \<longleftrightarrow> lookup_key pa_id (op_parity_check_id r) ps = Some p \<and> pa_status p = PMatched \<and> pa_mismatch_fields p = []"

definition op_ok :: "parity_row list \<Rightarrow> operation_row \<Rightarrow> bool" where
  "op_ok ps r \<longleftrightarrow> operation_check r \<and> (\<exists>p. has_matched_parity ps r p \<and>
     (op_kind r = ''rebuild'' \<longrightarrow> op_status r \<noteq> OCompleted
        \<and> (op_status r = OReady \<longrightarrow> shadow_matches_parity r p)
        \<and> (op_status r \<noteq> OPlanned \<longrightarrow> 1 \<le> op_attempt_count r)))"

definition recovery_ok :: "db \<Rightarrow> bool" where
  "recovery_ok s \<longleftrightarrow> keyed op_id (db_operations s) \<and> keyed op_idempotency_key (db_operations s) \<and> keyed pa_id (db_parity s)
     \<and> (\<forall>r \<in> set (db_operations s). op_ok (db_parity s) r)"

lemma op_ok_more_parity: "op_ok ps r \<Longrightarrow> op_ok (ps @ [p]) r"
  unfolding op_ok_def has_matched_parity_def by (auto simp: lookup_key_snoc split: option.splits)

lemma record_parity_ok:
  assumes "record_parity r s = (Inr out, t)" and "recovery_ok s"
  shows "recovery_ok t"
proof (cases "lookup_key pa_id (rep_report_id r) (db_parity s)")
  case None
  then have t: "t = s\<lparr>db_parity := db_parity s @ [parity_record r]\<rparr>" and "parity_unique (db_parity s) (parity_record r)"
    using assms(1) by (auto simp: record_parity_def op_elims bind_res_Inr_iff sql_insert_Inr_iff)
  then have "pa_id (parity_record r) \<notin> pa_id ` set (db_parity s)" by (auto simp: parity_unique_def)
  then show ?thesis using assms(2) op_ok_more_parity by (auto simp: recovery_ok_def t keyed_snoc)
next
  case (Some m)
  then show ?thesis using assms by (auto simp: record_parity_def op_elims)
qed

lemma insert_operation_ok:
  assumes "operation_unique (db_operations s) row" and "op_ok (db_parity s) row" and "recovery_ok s"
    and "db_operations t = db_operations s @ [row]" and "db_parity t = db_parity s"
  shows "recovery_ok t"
proof -
  have "op_id row \<notin> op_id ` set (db_operations s)" "op_idempotency_key row \<notin> op_idempotency_key ` set (db_operations s)"
    using assms(1) by (auto simp: operation_unique_def)
  then show ?thesis using assms(2-5) by (simp add: recovery_ok_def keyed_snoc)
qed

lemma reserve_rebuild_ok:
  assumes "reserve_rebuild p epoch by reason cid now s = (Inr out, t)" and "recovery_ok s"
  shows "recovery_ok t"
proof (cases "operation_by_idempotency (rb_idempotency_key p) s")
  case None
  let ?row = "rebuild_operation p epoch by reason cid now"
  obtain par where par: "lookup_key pa_id (rb_parity_report_id p) (db_parity s) = Some par" "pa_status par = PMatched"
      "pa_mismatch_fields par = []"
    and row: "operation_check ?row" "operation_unique (db_operations s) ?row" "t = s\<lparr>db_operations := db_operations s @ [?row]\<rparr>"
    using assms(1) None unfolding reserve_rebuild_def Let_def by (auto simp: op_elims)
  have "op_ok (db_parity s) ?row"
    using par row(1) by (auto simp: op_ok_def has_matched_parity_def rebuild_operation_def)
  then show ?thesis by (rule insert_operation_ok [OF row(2) _ assms(2)]) (simp_all add: row(3))
next
  case (Some row)
  then show ?thesis using assms unfolding reserve_rebuild_def by (auto simp: op_elims)
qed

lemma update_operation_ok:
  assumes "update_operation i f s = (Inr u, t)" and "recovery_ok s" and "lookup_key op_id i (db_operations s) = Some r"
    and "op_ok (db_parity s) (f r)" and "\<And>r. op_id (f r) = op_id r" and "\<And>r. op_idempotency_key (f r) = op_idempotency_key r"
  shows "recovery_ok t"
proof -
  have t: "db_operations t = update_where (\<lambda>r. op_id r = i) f (db_operations s)" "db_parity t = db_parity s"
    using assms(1) by (auto simp: op_elims)
  have key: "keyed op_id (db_operations s)" "keyed op_idempotency_key (db_operations s)" using assms(2) by (auto simp: recovery_ok_def)
  have only: "x = r" if "x \<in> set (db_operations s)" "op_id x = i" for x
    using keyed_same_row [OF key(1) that(1), of r] lookup_key_Some [OF assms(3)] that(2) by simp
  have "op_ok (db_parity s) x" if "x \<in> set (db_operations t)" for x
    using that assms(2,4) only unfolding t in_update_where recovery_ok_def by (auto split: if_splits)
  then show ?thesis using assms(2,5,6) key by (auto simp: recovery_ok_def t keyed_update_where)
qed

lemma op_ok_of: "recovery_ok s \<Longrightarrow> lookup_key op_id i (db_operations s) = Some r \<Longrightarrow> op_ok (db_parity s) r \<and> op_id r = i"
  by (auto simp: recovery_ok_def dest: lookup_key_Some)

text \<open>What a call that marks a rebuild did: nothing, or one allowed move of its row.\<close>

lemma mark_rebuild_running_cases:
  assumes "mark_rebuild_running i now s = (Inr out, t)"
  obtains (idle) "t = s"
  | (moved) r where "lookup_key op_id i (db_operations s) = Some r" "op_kind r = ''rebuild''" "op_status r \<in> {OPlanned, OFailed}"
      "update_operation i (set_rebuild_running now) s = (Inr (), t)"
  using assms unfolding mark_rebuild_running_def
  by (auto simp: bind_op_Inr_iff locked_operation_iff check_op_iff return_op_iff split: if_splits)

lemma mark_rebuild_ready_cases:
  assumes "mark_rebuild_ready i evidence now s = (Inr out, t)"
  obtains (idle) "t = s"
  | (moved) r p where "lookup_key op_id i (db_operations s) = Some r" "op_kind r = ''rebuild''" "op_status r = ORunning"
      "lookup_key pa_id (rc_parity_report_id evidence) (db_parity s) = Some p" "pa_status p = PMatched" "pa_mismatch_fields p = []"
      "shadow_matches_parity r p" "update_operation i (set_rebuild_ready (rc_parity_report_id evidence) now) s = (Inr (), t)"
  using assms unfolding mark_rebuild_ready_def
  by (auto simp: bind_op_Inr_iff locked_operation_iff matched_parity_iff check_op_iff return_op_iff split: if_splits)

lemma mark_rebuild_failed_cases:
  assumes "mark_rebuild_failed i code now s = (Inr u, t)"
  obtains r where "lookup_key op_id i (db_operations s) = Some r" "op_kind r = ''rebuild''" "op_status r = ORunning"
      "update_operation i (set_rebuild_failed code now) s = (Inr (), t)"
  using assms unfolding mark_rebuild_failed_def
  by (auto simp: bind_op_Inr_iff locked_operation_iff check_op_iff)

lemma rebuild_marks_ok:
  "mark_rebuild_running i now s = (Inr b, t) \<Longrightarrow> recovery_ok s \<Longrightarrow> recovery_ok t"
  "mark_rebuild_ready i evidence now s = (Inr b, t) \<Longrightarrow> recovery_ok s \<Longrightarrow> recovery_ok t"
  "mark_rebuild_failed i code now s = (Inr u, t) \<Longrightarrow> recovery_ok s \<Longrightarrow> recovery_ok t"
proof -
  assume run: "mark_rebuild_running i now s = (Inr b, t)" and ok: "recovery_ok s"
  from run show "recovery_ok t"
  proof (cases rule: mark_rebuild_running_cases)
    case (moved r)
    have "op_ok (db_parity s) (set_rebuild_running now r)" using op_ok_of [OF ok moved(1)]
      by (auto simp: op_ok_def has_matched_parity_def set_rebuild_running_def operation_check_def)
    then show ?thesis by (rule update_operation_ok [OF moved(4) ok moved(1)]) (simp_all add: set_rebuild_running_def)
  qed (use ok in simp)
next
  assume run: "mark_rebuild_ready i evidence now s = (Inr b, t)" and ok: "recovery_ok s"
  from run show "recovery_ok t"
  proof (cases rule: mark_rebuild_ready_cases)
    case (moved r p)
    have "op_ok (db_parity s) (set_rebuild_ready (rc_parity_report_id evidence) now r)" using op_ok_of [OF ok moved(1)] moved(2-7)
      by (auto simp: op_ok_def has_matched_parity_def set_rebuild_ready_def operation_check_def shadow_matches_parity_def)
    then show ?thesis by (rule update_operation_ok [OF moved(8) ok moved(1)]) (simp_all add: set_rebuild_ready_def)
  qed (use ok in simp)
next
  assume run: "mark_rebuild_failed i code now s = (Inr u, t)" and ok: "recovery_ok s"
  from run show "recovery_ok t"
  proof (cases rule: mark_rebuild_failed_cases)
    case (1 r)
    have "op_ok (db_parity s) (set_rebuild_failed code now r)" using op_ok_of [OF ok 1(1)] 1(3)
      by (auto simp: op_ok_def has_matched_parity_def set_rebuild_failed_def operation_check_def)
    then show ?thesis by (rule update_operation_ok [OF 1(4) ok 1(1)]) (simp_all add: set_rebuild_failed_def)
  qed
qed

lemma switch_ok:
  assumes "switch_request_init q = Inr q" and "switch_binding cfg q now s = (Inr r, t)" and "recovery_ok s"
  shows "recovery_ok t"
  using assms(2)
proof (cases rule: switch_cases)
  case (old o')
  then show ?thesis using assms(3) by simp
next
  case (new f)
  from new(3) show ?thesis
  proof (cases rule: switch_new_cases)
    case (1 catalog payload current p fp fs n rows a e)
    let ?new = "switch_operation q (fr_latest_revision f + 1) now"
    have ck: "operation_check ?new" using new(3) unfolding switch_new_def stage_switch_mutation_def Let_def by (auto simp: op_elims)
    have kind: "op_kind ?new \<noteq> ''rebuild''"
      using assms(1) by (auto simp: switch_request_init_def switch_operation_def Let_def split: if_splits)
    have "op_parity_check_id ?new = sr_parity_report_id q" by (simp add: switch_operation_def Let_def)
    then have ok: "op_ok (db_parity s) (?new\<lparr>op_result_event_cursor := Some (db_next_event_id s)\<rparr>)"
      using ck kind 1(7-9) by (auto simp: op_ok_def has_matched_parity_def operation_check_def)
    have "operation_unique (db_operations s) (?new\<lparr>op_result_event_cursor := Some (db_next_event_id s)\<rparr>)"
      using 1(13) by (simp add: operation_unique_def)
    then show ?thesis by (rule insert_operation_ok [OF _ ok assms(3)]) (simp_all add: 1(20))
  qed
qed

lemma recovery_step_ok: "recovery_step s t \<Longrightarrow> recovery_ok s \<Longrightarrow> recovery_ok t"
proof (induction rule: recovery_step.induct)
  case (assess hot archive s report t)
  then show ?case using record_parity_ok by (auto simp: assess_parity_def op_elims)
next
  case (plan report shadow database tab epoch requested_by reason correlation_id now s plan t)
  then show ?case using reserve_rebuild_ok by (auto simp: plan_rebuild_def op_elims)
next
  case (start i now s started t)
  then show ?case using rebuild_marks_ok(1) by (auto simp: start_rebuild_def)
next
  case (verify evidence i now s changed t)
  then show ?case using rebuild_marks_ok(2) by (auto simp: verify_rebuild_def)
next
  case (fail i code now s u t)
  then show ?case using rebuild_marks_ok(3) by blast
next
  case (switch q cfg now s r t)
  then show ?case using switch_ok by blast
qed

lemma update_other_row:
  assumes "update_operation j f s = (Inr u, t)" and "\<And>r. op_id (f r) = op_id r" and "i \<noteq> j"
  shows "lookup_key op_id i (db_operations t) = lookup_key op_id i (db_operations s)"
proof -
  have "db_operations t = update_where (\<lambda>r. op_id r = j) f (db_operations s)" using assms(1) by (auto simp: op_elims)
  then show ?thesis using assms(2,3) by (cases "lookup_key op_id i (db_operations s)")
      (auto simp: lookup_key_update dest: lookup_key_Some)
qed

lemma insert_keeps_row: "lookup_key op_id i rows = Some r \<Longrightarrow> lookup_key op_id i (rows @ [x]) = Some r"
  by (simp add: lookup_key_snoc)

definition ready_row :: "string \<Rightarrow> operation_row \<Rightarrow> db \<Rightarrow> bool" where
  "ready_row i r s \<longleftrightarrow> lookup_key op_id i (db_operations s) = Some r \<and> op_status r = OReady"

lemma recovery_step_ready: "recovery_step s t \<Longrightarrow> ready_row i r s \<Longrightarrow> ready_row i r t"
proof (induction rule: recovery_step.induct)
  case (assess hot archive s report t)
  then show ?case by (auto simp: assess_parity_def record_parity_def op_elims ready_row_def bind_res_Inr_iff split: option.splits)
next
  case (plan report shadow database tab epoch requested_by reason correlation_id now s plan t)
  then show ?case using insert_keeps_row
    by (auto simp: plan_rebuild_def reserve_rebuild_def Let_def op_elims ready_row_def split: option.splits)
next
  case (start j now s started t)
  from start(1) [unfolded start_rebuild_def] show ?case
  proof (cases rule: mark_rebuild_running_cases)
    case (moved x)
    have "i \<noteq> j" using moved(1,3) start(2) by (auto simp: ready_row_def)
    with update_other_row [OF moved(4)] start(2) show ?thesis by (simp add: ready_row_def set_rebuild_running_def)
  qed (use start in simp)
next
  case (verify evidence j now s changed t)
  from verify(2) [unfolded verify_rebuild_def] show ?case
  proof (cases rule: mark_rebuild_ready_cases)
    case (moved x p)
    have "i \<noteq> j" using moved(1,3) verify(3) by (auto simp: ready_row_def)
    with update_other_row [OF moved(8)] verify(3) show ?thesis by (simp add: ready_row_def set_rebuild_ready_def)
  qed (use verify in simp)
next
  case (fail j code now s u t)
  from fail(1) show ?case
  proof (cases rule: mark_rebuild_failed_cases)
    case (1 x)
    have "i \<noteq> j" using 1(1,3) fail(2) by (auto simp: ready_row_def)
    with update_other_row [OF 1(4)] fail(2) show ?thesis by (simp add: ready_row_def set_rebuild_failed_def)
  qed
next
  case (switch q cfg now s r' t)
  from switch(2) show ?case
  proof (cases rule: switch_cases)
    case (new f)
    from new(3) show ?thesis
    proof (cases rule: switch_new_cases)
      case (1 catalog payload current p fp fs n rows a e)
      then show ?thesis using switch(3) by (simp add: ready_row_def lookup_key_snoc)
    qed
  qed (use switch in simp)
qed

subsection \<open>Properties of recovery\<close>

text \<open>C31. Whatever calls the recovery service makes, a rebuild is ready only with matched parity: in every state reached
  from a consistent one, operation and parity identifiers are unique, and each ready rebuild refers to recorded parity
  evidence that matched, for its dataset, pipeline version, shadow binding, boundary and dimension versions.\<close>

theorem ready_rebuilds_are_verified:
  assumes "recovery_step\<^sup>*\<^sup>* s t" and "recovery_ok s"
  shows "recovery_ok t \<and> (\<forall>r \<in> set (db_operations t). op_kind r = ''rebuild'' \<longrightarrow> op_status r = OReady \<longrightarrow>
     (\<exists>p. lookup_key pa_id (op_parity_check_id r) (db_parity t) = Some p \<and> pa_status p = PMatched
        \<and> pa_mismatch_fields p = [] \<and> shadow_matches_parity r p \<and> 1 \<le> op_attempt_count r))"
proof -
  have "recovery_ok t" using assms by (induction rule: rtranclp_induct) (auto intro: recovery_step_ok)
  then show ?thesis by (fastforce simp: recovery_ok_def op_ok_def has_matched_parity_def)
qed

text \<open>A ready rebuild is final: no later call of the recovery service changes its record.\<close>

theorem ready_rebuild_is_final:
  assumes "recovery_step\<^sup>*\<^sup>* s t" and "lookup_key op_id i (db_operations s) = Some r" and "op_status r = OReady"
  shows "lookup_key op_id i (db_operations t) = Some r"
proof -
  have "ready_row i r s" using assms(2,3) by (simp add: ready_row_def)
  with assms(1) have "ready_row i r t" by (induction rule: rtranclp_induct) (auto intro: recovery_step_ready)
  then show ?thesis by (simp add: ready_row_def)
qed

definition sample_rebuild :: operation_row where
  "sample_rebuild = \<lparr>op_id = ''o1'', op_idempotency_key = ''rk'', op_dataset_id = ''d1'', op_kind = ''rebuild'', op_status = ORunning,
     op_parity_check_id = ''p1'', op_expected_binding_epoch = 0, op_previous_binding_version_id = None,
     op_target_binding_version_id = ''sv2'', op_target_engine = ''clickhouse'', op_pipeline_version_id = ''v2'',
     op_target_binding = JObj [], op_source_boundary = boundary_document sample_boundary, op_dimension_version_ids = str_dict [],
     op_tail_start_offsets = JList [], op_gate_evidence = JObj [], op_attempt_count = 1, op_result_binding_epoch = None,
     op_result_revision = None, op_result_event_cursor = None, op_requested_by = ''ann'', op_reason = ''rebuild the shadow'',
     op_correlation_id = ''c1'', op_last_error_code = None, op_updated_at = 0, op_completed_at = None\<rparr>"

definition sample_rebuild_db :: db where
  "sample_rebuild_db = sample_switch_db\<lparr>db_operations := [sample_rebuild]\<rparr>"

definition sample_completion :: rebuild_completion where
  "sample_completion = \<lparr>rc_parity_report_id = ''p1'', rc_gap_count = 0, rc_overlap_count = 0\<rparr>"

lemma sample_rebuild_ok: "recovery_ok sample_rebuild_db"
  by (simp add: recovery_ok_def sample_rebuild_db_def sample_switch_db_def keyed_def op_ok_def has_matched_parity_def
      operation_check_def lookup_key_def sample_rebuild_def sample_parity_def)

lemma sample_verify: "\<exists>t. recovery_step sample_rebuild_db t \<and> lookup_key op_id ''o1'' (db_operations t)
    = Some (set_rebuild_ready ''p1'' 9 sample_rebuild)"
proof -
  have init: "rebuild_completion_init sample_completion = Inr sample_completion" by code_simp
  have run: "fst (verify_rebuild ''o1'' sample_completion 9 sample_rebuild_db) = Inr True" by code_simp
  note step = recovery_step.verify [OF init run_fst [OF run]]
  have "lookup_key op_id ''o1'' (db_operations (snd (verify_rebuild ''o1'' sample_completion 9 sample_rebuild_db)))
      = Some (set_rebuild_ready ''p1'' 9 sample_rebuild)" by code_simp
  with step show ?thesis by blast
qed

theorem ready_rebuilds_are_verified_witness:
  "\<exists>t. recovery_step\<^sup>*\<^sup>* sample_rebuild_db t \<and> recovery_ok t
     \<and> lookup_key op_id ''o1'' (db_operations t) = Some (set_rebuild_ready ''p1'' 9 sample_rebuild)"
proof -
  obtain t where t: "recovery_step sample_rebuild_db t"
    "lookup_key op_id ''o1'' (db_operations t) = Some (set_rebuild_ready ''p1'' 9 sample_rebuild)" using sample_verify by blast
  then have "recovery_step\<^sup>*\<^sup>* sample_rebuild_db t" by blast
  with ready_rebuilds_are_verified [OF this sample_rebuild_ok] t(2) show ?thesis by blast
qed

theorem ready_rebuild_is_final_witness:
  "\<exists>s. recovery_step\<^sup>*\<^sup>* sample_rebuild_db s
     \<and> (\<forall>t. recovery_step\<^sup>*\<^sup>* s t \<longrightarrow> lookup_key op_id ''o1'' (db_operations t) = Some (set_rebuild_ready ''p1'' 9 sample_rebuild))"
proof -
  obtain s where s: "recovery_step sample_rebuild_db s"
    "lookup_key op_id ''o1'' (db_operations s) = Some (set_rebuild_ready ''p1'' 9 sample_rebuild)" using sample_verify by blast
  have "op_status (set_rebuild_ready ''p1'' 9 sample_rebuild) = OReady" by (simp add: set_rebuild_ready_def)
  then show ?thesis using ready_rebuild_is_final [OF _ s(2)] s(1) by blast
qed

end
