(* ===== verification/Serving_Plane.thy ===== *)
theory Serving_Plane
  imports Receipt_Repository Dimension_Repository Recovery_Repository
begin

section \<open>The serving plane as a whole\<close>

text \<open>
  The calls of all repositories on one database, what they keep of its integrity, and an abstract specification of
  what the plane promises to its readers: per dataset an epoch, an active binding and a revision, per partition an
  applied offset, and the history of committed revisions. Every committed call refines one step of it; a call that
  raises is rolled back and changes nothing.
\<close>

subsection \<open>Committed calls\<close>

inductive plane_step :: "db \<Rightarrow> db \<Rightarrow> bool" where
  audit: "save_audit v a prev now s = (Inr moved, t) \<Longrightarrow> plane_step s t"
| quarantine: "quarantine v pos h err loc now s = (Inr u, t) \<Longrightarrow> plane_step s t"
| skip: "approve_skip v pos actor reason now s = (Inr ok, t) \<Longrightarrow> plane_step s t"
| ledger: "mat_step s t \<Longrightarrow> plane_step s t"
| activate: "activate version scope ds n checksum now s = (Inr u, t) \<Longrightarrow> plane_step s t"
| queue: "queue_step s t \<Longrightarrow> plane_step s t"
| publish: "\<forall>b \<in> set parts. valid_partition b \<Longrightarrow> boundary_build parts = Inr (rp_boundary p) \<Longrightarrow> publish cfg p now s = (Inr r, t) \<Longrightarrow> plane_step s t"
| recovery: "recovery_step s t \<Longrightarrow> plane_step s t"
| append: "append_event cfg et rt rid rv cid key invs payload now sv s = (Inr out, t) \<Longrightarrow> plane_step s t"
| cleanup: "cleanup_expired now s = (Inr n, t) \<Longrightarrow> plane_step s t"

inductive_cases plane_stepE: "plane_step s t"

subsection \<open>The specification\<close>

datatype bound = Bound (epoch_of: int) (engine_of: "string option") (version_of: "string option") (revision_of: int)

record serving_spec =
  sv_binding :: "string \<Rightarrow> bound option"
  sv_applied :: "string \<times> string \<times> int \<Rightarrow> int"
  sv_history :: "(string \<times> int) list"

definition advance_applied :: "string \<Rightarrow> partition_boundary list \<Rightarrow> (string \<times> string \<times> int \<Rightarrow> int) \<Rightarrow> string \<times> string \<times> int \<Rightarrow> int" where
  "advance_applied v parts applied k =
     (case find (\<lambda>p. pb_checkpoint v p = k) parts of None \<Rightarrow> applied k | Some p \<Rightarrow> pb_to_inclusive p)"

inductive spec_step :: "serving_spec \<Rightarrow> serving_spec \<Rightarrow> bool" where
  idle: "spec_step a a"
| publish: "sv_binding a ds = Some (Bound epoch (Some ''clickhouse'') (Some version) rv)
    \<Longrightarrow> (\<And>p. p \<in> set parts \<Longrightarrow> sv_applied a (pb_checkpoint v p) = pb_from_exclusive p \<and> pb_from_exclusive p \<le> pb_to_inclusive p)
    \<Longrightarrow> spec_step a (a\<lparr>sv_binding := (sv_binding a)(ds \<mapsto> Bound epoch (Some ''clickhouse'') (Some version) (rv + 1)),
          sv_applied := advance_applied v parts (sv_applied a), sv_history := sv_history a @ [(ds, rv + 1)]\<rparr>)"
| switch: "sv_binding a ds = Some (Bound epoch engine (Some version) rv)
    \<Longrightarrow> spec_step a (a\<lparr>sv_binding := (sv_binding a)(ds \<mapsto> Bound (epoch + 1) (Some engine') (Some version') (rv + 1)),
          sv_history := sv_history a @ [(ds, rv + 1)]\<rparr>)"

definition binding_of :: "freshness_row \<Rightarrow> bound" where
  "binding_of f = Bound (fr_binding_epoch f) (fr_active_engine f) (fr_active_version_id f) (fr_latest_revision f)"

definition commit_of :: "commit_row \<Rightarrow> string \<times> int" where
  "commit_of c = (co_dataset_id c, co_revision c)"

definition abs_db :: "db \<Rightarrow> serving_spec" where
  "abs_db s = \<lparr>sv_binding = (\<lambda>ds. map_option binding_of (lookup_key fr_dataset_id ds (db_freshness s))),
     sv_applied = applied_offset (db_checkpoints s), sv_history = map commit_of (db_commits s)\<rparr>"

subsection \<open>Integrity of the whole database\<close>

definition plane_ok :: "db \<Rightarrow> bool" where
  "plane_ok s \<longleftrightarrow> receipts_ok s \<and> materializations_ok s \<and> dimensions_ok s
     \<and> table_ok unmatched_key unmatched_check (db_unmatched s) \<and> events_ok s \<and> recovery_ok s
     \<and> table_ok fr_dataset_id freshness_check (db_freshness s) \<and> table_ok commit_key commit_check (db_commits s)"

text \<open>Two databases that hold the same of every table but those a call writes.\<close>

lemma mat_step_frame: "mat_step s t \<Longrightarrow> \<exists>ms. t = s\<lparr>db_materializations := ms\<rparr>"
  by (induction rule: mat_step.induct) (auto simp: reserve_def mark_defs Let_def op_elims)

lemma queue_step_frame: "queue_step s t \<Longrightarrow> \<exists>us. t = s\<lparr>db_unmatched := us\<rparr>"
  by (induction rule: queue_step.induct)
    (auto simp: schedule_unmatched_def resolve_unmatched_def reschedule_unmatched_def mark_terminal_def update_open_def op_elims split: if_splits)

lemma activate_frame: "activate version scope ds n checksum now s = (Inr u, t) \<Longrightarrow> \<exists>dv. t = s\<lparr>db_dimensions := dv\<rparr>"
  by (auto simp: activate_def op_elims)

lemma save_audit_frame: "save_audit v a prev now s = (Inr b, t) \<Longrightarrow> \<exists>rs cs. t = s\<lparr>db_receipts := rs, db_checkpoints := cs\<rparr>"
  by (erule save_audit_cases) blast

lemma append_frame:
  assumes "append_event cfg et rt rid rv cid key invs payload now sv s = (Inr out, t)"
  shows "\<exists>es k. t = s\<lparr>db_events := es, db_next_event_id := k\<rparr>"
proof -
  obtain env created where run: "append_event cfg et rt rid rv cid key invs payload now sv s = (Inr (env, created), t)"
    using assms by (cases out) auto
  have "s = s\<lparr>db_events := db_events s, db_next_event_id := db_next_event_id s\<rparr>" by simp
  with run show ?thesis by (cases rule: append_event_cases) blast+
qed

lemma cleanup_events_ok:
  assumes "cleanup_expired now s = (Inr n, t)" and "events_ok s"
  shows "events_ok t"
proof -
  have t: "db_events t = filter (\<lambda>e. \<not> ev_expires_at e \<le> now) (db_events s)" "db_next_event_id t = db_next_event_id s"
    using assms(1) by (auto simp: cleanup_expired_def)
  have "keyed ev_idempotency_key (db_events t)"
    using assms(2) unfolding t(1) events_ok_def table_ok_def keyed_def distinct_map
    by (auto intro: inj_on_subset)
  moreover have "sorted_wrt (<) (map ev_id (db_events t))" unfolding t(1) by (rule sorted_filter_events [OF assms(2)])
  ultimately show ?thesis using assms(2) by (auto simp: events_ok_def table_ok_def t)
qed

lemma recovery_step_split:
  assumes "recovery_step s t"
  obtains (records) ops ps where "t = s\<lparr>db_operations := ops, db_parity := ps\<rparr>"
  | (switches) cfg q f now r where "lookup_key fr_dataset_id (sr_dataset_id q) (db_freshness s) = Some f"
      "switch_new cfg q f now s = (Inr r, t)"
proof -
  have id: "s = s\<lparr>db_operations := db_operations s, db_parity := db_parity s\<rparr>" by simp
  have upd: "t = s\<lparr>db_operations := db_operations t, db_parity := db_parity s\<rparr>" if "update_operation i f s = (Inr (), t)" for i f
    using that by (auto simp: op_elims)
  from assms show thesis
  proof (cases rule: recovery_step.cases)
    case (assess hot archive report)
    then have "t = s\<lparr>db_operations := db_operations s, db_parity := db_parity t\<rparr>"
      by (auto simp: assess_parity_def record_parity_def op_elims split: option.splits)
    then show thesis by (rule records)
  next
    case (plan report shadow database tab epoch requested_by reason correlation_id now plan)
    then have "t = s\<lparr>db_operations := db_operations t, db_parity := db_parity s\<rparr>"
      by (auto simp: plan_rebuild_def reserve_rebuild_def Let_def op_elims split: option.splits)
    then show thesis by (rule records)
  next
    case (start i now started)
    then show thesis using records id upd unfolding start_rebuild_def
      by (cases rule: mark_rebuild_running_cases) blast+
  next
    case (verify evidence i now changed)
    from verify(2) show thesis using records id upd unfolding verify_rebuild_def
      by (cases rule: mark_rebuild_ready_cases) blast+
  next
    case (fail i code now u)
    then show thesis using records upd by (cases rule: mark_rebuild_failed_cases) blast
  next
    case (switch q cfg now r)
    from switch(2) show thesis
    proof (cases rule: switch_cases)
      case (old o')
      then show thesis using records id by blast
    next
      case (new f)
      then show thesis using switches by blast
    qed
  qed
qed

subsection \<open>The calls keep the database consistent\<close>

lemma commit_table_insert:
  "table_ok commit_key commit_check rows \<Longrightarrow> commit_check c \<Longrightarrow> commit_unique rows c \<Longrightarrow> table_ok commit_key commit_check (rows @ [c])"
  by (auto simp: table_ok_def keyed_snoc commit_unique_def)

lemma publish_plane_ok:
  assumes "boundary_build parts = Inr (rp_boundary p)" and "publish cfg p now s = (Inr r, t)" and "plane_ok s"
  shows "plane_ok t"
  using assms(2)
proof (cases rule: publish_cases)
  case old
  then show ?thesis using assms(3) by simp
next
  case (new f m)
  from new(6) show ?thesis
  proof (cases rule: publish_new_cases)
    case (1 cs ms fs n model payload e)
    let ?rev = "fr_latest_revision f + 1"
    have distinct: "distinct (map pb_identity (sb_partitions (rp_boundary p)))" using assms(1) boundary_build_distinct by blast
    have ck: "checkpoints_ok s" using assms(3) by (simp add: plane_ok_def receipts_ok_def checkpoints_ok_def)
    have "checkpoints_ok (s\<lparr>db_checkpoints := cs\<rparr>)"
      by (rule advance_offsets(2) [OF 1(1) [unfolded advance_checkpoints_def] ck distinct])
    then have rec: "receipts_ok t" using assms(3) by (simp add: plane_ok_def receipts_ok_def checkpoints_ok_def 1(9))
    have mat: "materializations_ok t"
      using assms(3) publishing.keeps [OF 1(2)] 1(2) unfolding plane_ok_def materializations_ok_def 1(9)
      by (auto simp: sql_update_Inr_iff set_published_def materialization_key_def intro!: keyed_update_where)
    have "commit_check (publication_commit p ?rev now)"
      using new(6) unfolding publish_new_def Let_def by (auto simp: op_elims)
    then have com: "table_ok commit_key commit_check (db_commits t)"
      using commit_table_insert 1(3) assms(3) by (simp add: plane_ok_def 1(9))
    have fr: "table_ok fr_dataset_id freshness_check (db_freshness t)"
      using refreshing.keeps [OF 1(4)] assms(3) by (simp add: plane_ok_def 1(9))
    have "event_check e" by (simp add: 1(7) event_check_def)
    then have ev: "events_ok t" using assms(3) 1(7,8)
      by (auto simp: plane_ok_def events_ok_def table_ok_def keyed_snoc sorted_wrt_append by_idempotency_key_def lookup_key_None 1(9))
    show ?thesis using assms(3) rec mat com fr ev by (simp add: plane_ok_def dimensions_ok_def recovery_ok_def 1(9))
  qed
qed

lemma recovery_plane_ok:
  assumes "recovery_step s t" and "plane_ok s"
  shows "plane_ok t"
proof -
  have rec: "recovery_ok t" using recovery_step_ok [OF assms(1)] assms(2) by (simp add: plane_ok_def)
  from assms(1) show ?thesis
  proof (cases rule: recovery_step_split)
    case (records ops ps)
    then show ?thesis using assms(2) rec
      by (simp add: plane_ok_def receipts_ok_def materializations_ok_def dimensions_ok_def events_ok_def)
  next
    case (switches cfg q f now r)
    from switches(2) show ?thesis
    proof (cases rule: switch_new_cases)
      case (1 catalog payload current p fp fs n rows a e)
      have ev: "events_ok t" using 1(22) assms(2) by (simp add: plane_ok_def)
      have "commit_check (switch_commit q fp (fr_latest_revision f + 1) now)"
        using switches(2) 1(11) unfolding switch_new_def stage_switch_mutation_def Let_def by (auto simp: op_elims)
      then have "table_ok commit_key commit_check (db_commits t)"
        using commit_table_insert 1(12) assms(2) by (simp add: plane_ok_def 1(20))
      moreover have "table_ok fr_dataset_id freshness_check (db_freshness t)"
        using rebinding.keeps [OF 1(14)] assms(2) by (simp add: plane_ok_def 1(20))
      ultimately show ?thesis using assms(2) rec ev
        by (simp add: plane_ok_def receipts_ok_def materializations_ok_def dimensions_ok_def 1(20))
    qed
  qed
qed

lemma plane_step_ok: "plane_step s t \<Longrightarrow> plane_ok s \<Longrightarrow> plane_ok t"
proof (induction rule: plane_step.induct)
  case (audit v a prev now s moved t)
  obtain rs cs where t: "t = s\<lparr>db_receipts := rs, db_checkpoints := cs\<rparr>" using save_audit_frame [OF audit(1)] by blast
  show ?case using save_audit_keeps_ok [OF audit(1)] audit(2) unfolding t
    by (simp add: plane_ok_def materializations_ok_def dimensions_ok_def events_ok_def recovery_ok_def)
next
  case (quarantine v pos h err loc now s u t)
  obtain es where t: "t = s\<lparr>db_exceptions := es\<rparr>" using quarantine(1) by (rule quarantine_cases)
  show ?case using quarantine_keeps_ok [OF quarantine(1)] quarantine(2) unfolding t
    by (simp add: plane_ok_def materializations_ok_def dimensions_ok_def events_ok_def recovery_ok_def)
next
  case (skip v pos actor reason now s ok t)
  obtain es where t: "t = s\<lparr>db_exceptions := es\<rparr>" using skip(1) by (rule approve_skip_cases)
  show ?case using approve_skip_keeps_ok [OF skip(1)] skip(2) unfolding t
    by (simp add: plane_ok_def materializations_ok_def dimensions_ok_def events_ok_def recovery_ok_def)
next
  case (ledger s t)
  obtain ms where t: "t = s\<lparr>db_materializations := ms\<rparr>" using mat_step_frame [OF ledger(1)] by blast
  show ?case using mat_step_ok [OF ledger(1)] ledger(2) unfolding t
    by (simp add: plane_ok_def receipts_ok_def dimensions_ok_def events_ok_def recovery_ok_def)
next
  case (activate version scope ds n checksum now s u t)
  obtain dv where t: "t = s\<lparr>db_dimensions := dv\<rparr>" using activate_frame [OF activate(1)] by blast
  show ?case using activate_lookup(1) [OF activate(1)] activate(2) unfolding t
    by (simp add: plane_ok_def receipts_ok_def materializations_ok_def events_ok_def recovery_ok_def)
next
  case (queue s t)
  obtain us where t: "t = s\<lparr>db_unmatched := us\<rparr>" using queue_step_frame [OF queue(1)] by blast
  show ?case using queue_step_facts(1) [OF queue(1)] queue(2) unfolding t
    by (simp add: plane_ok_def receipts_ok_def materializations_ok_def dimensions_ok_def events_ok_def recovery_ok_def)
next
  case (publish parts p cfg now s r t)
  then show ?case using publish_plane_ok by blast
next
  case (recovery s t)
  then show ?case using recovery_plane_ok by blast
next
  case (append cfg et rt rid rv cid key invs payload now sv s out t)
  obtain es k where t: "t = s\<lparr>db_events := es, db_next_event_id := k\<rparr>" using append_frame [OF append(1)] by blast
  have "events_ok t" using append_event_ok append by (cases out) (auto simp: plane_ok_def)
  then show ?case using append(2) unfolding t
    by (simp add: plane_ok_def receipts_ok_def materializations_ok_def dimensions_ok_def recovery_ok_def)
next
  case (cleanup now s n t)
  obtain es where t: "t = s\<lparr>db_events := es\<rparr>" using cleanup(1) by (auto simp: cleanup_expired_def)
  have "events_ok t" using cleanup_events_ok cleanup by (auto simp: plane_ok_def)
  then show ?case using cleanup(2) unfolding t
    by (simp add: plane_ok_def receipts_ok_def materializations_ok_def dimensions_ok_def recovery_ok_def)
qed

subsection \<open>Refinement\<close>

lemma same_abs_idle:
  assumes "db_freshness t = db_freshness s" and "db_commits t = db_commits s"
    and "\<And>k. applied_offset (db_checkpoints t) k = applied_offset (db_checkpoints s) k"
  shows "spec_step (abs_db s) (abs_db t)"
proof -
  have "abs_db t = abs_db s" unfolding abs_db_def assms(1,2) using assms(3) by auto
  then show ?thesis by (simp add: spec_step.idle)
qed

lemma advance_applied_eq:
  assumes "\<forall>q \<in> set parts. new (pb_checkpoint v q) = pb_to_inclusive q"
    and "\<forall>k. k \<notin> pb_checkpoint v ` set parts \<longrightarrow> new k = old k"
  shows "advance_applied v parts old = new"
proof
  fix k
  show "advance_applied v parts old k = new k"
  proof (cases "find (\<lambda>p. pb_checkpoint v p = k) parts")
    case None
    then have "k \<notin> pb_checkpoint v ` set parts" by (auto simp: find_None_iff)
    then have "new k = old k" using assms(2) by blast
    then show ?thesis using None by (simp add: advance_applied_def)
  next
    case (Some p)
    then show ?thesis using assms(1) find_Some_in [OF Some] by (auto simp: advance_applied_def)
  qed
qed

lemma publish_refines:
  assumes "boundary_build parts = Inr (rp_boundary p)" and "publish cfg p now s = (Inr r, t)" and "plane_ok s"
    and "\<forall>b \<in> set parts. valid_partition b"
  shows "spec_step (abs_db s) (abs_db t)"
  using assms(2)
proof (cases rule: publish_cases)
  case old
  then show ?thesis by (simp add: spec_step.idle)
next
  case (new f m)
  let ?v = "rp_pipeline_version_id p" and ?rv = "fr_latest_revision f"
  have ck: "checkpoints_ok s" and mk: "keyed m_id (db_materializations s)"
    using assms(3) by (simp_all add: plane_ok_def receipts_ok_def checkpoints_ok_def materializations_ok_def table_ok_def)
  have rows: "pr_revision r = ?rv + 1" "db_commits t = db_commits s @ [publication_commit p (?rv + 1) now]"
      "lookup_key fr_dataset_id (rp_dataset_id p) (db_freshness t) = Some (publication_freshness p (?rv + 1) now f)"
    using publish_new_rows [OF new(6,2) mk new(4)] by auto
  note offs = publish_new_offsets [OF new(6) assms(1) ck]
  have applied: "advance_applied ?v parts (applied_offset (db_checkpoints s)) = applied_offset (db_checkpoints t)"
    using offs by (intro advance_applied_eq) blast+
  have from_eq: "applied_offset (db_checkpoints s) (pb_checkpoint ?v q) = pb_from_exclusive q" if "q \<in> set parts" for q
    using offs that by (fastforce simp: may_apply_def apply_guard_def applied_offset_def split: option.splits)
  have other: "lookup_key fr_dataset_id ds (db_freshness t) = lookup_key fr_dataset_id ds (db_freshness s)" if "ds \<noteq> rp_dataset_id p" for ds
    using new(6) that by (cases rule: publish_new_cases) (simp add: refreshing.frame)
  have cur: "binding_of f = Bound (rp_binding_epoch p) (Some ''clickhouse'') (Some (rp_serving_version_id p)) ?rv"
    using new(3) by (simp add: binding_is_current_def binding_of_def)
  have after: "binding_of (publication_freshness p (?rv + 1) now f)
      = Bound (rp_binding_epoch p) (Some ''clickhouse'') (Some (rp_serving_version_id p)) (?rv + 1)"
    using new(3) by (simp add: binding_is_current_def binding_of_def publication_freshness_def)
  have "sv_binding (abs_db t) = (sv_binding (abs_db s))(rp_dataset_id p \<mapsto>
      Bound (rp_binding_epoch p) (Some ''clickhouse'') (Some (rp_serving_version_id p)) (?rv + 1))"
    using other rows(3) after by (auto simp: abs_db_def fun_eq_iff)
  then have t: "abs_db t = (abs_db s)\<lparr>sv_binding := (sv_binding (abs_db s))(rp_dataset_id p \<mapsto>
        Bound (rp_binding_epoch p) (Some ''clickhouse'') (Some (rp_serving_version_id p)) (?rv + 1)),
      sv_applied := advance_applied ?v parts (sv_applied (abs_db s)),
      sv_history := sv_history (abs_db s) @ [(rp_dataset_id p, ?rv + 1)]\<rparr>"
    using applied rows(2) by (simp add: abs_db_def commit_of_def publication_commit_def)
  show ?thesis unfolding t
    by (rule spec_step.publish) (use new(2) cur from_eq assms(4) in \<open>auto simp: abs_db_def valid_partition_def\<close>)
qed

lemma switch_refines:
  assumes "lookup_key fr_dataset_id (sr_dataset_id q) (db_freshness s) = Some f" and "switch_new cfg q f now s = (Inr r, t)"
  shows "spec_step (abs_db s) (abs_db t)"
  using assms(2)
proof (cases rule: switch_new_cases)
  case (1 catalog payload current p fp fs n rows a e)
  let ?rv = "fr_latest_revision f" and ?t = "sr_target q"
  have fr: "lookup_key fr_dataset_id (sr_dataset_id q) (db_freshness t) = Some (switch_freshness q (?rv + 1) now f)"
    using rebinding.lookup [OF 1(14), of "sr_dataset_id q"] assms(1) lookup_key_Some [OF assms(1)] by (simp add: 1(20))
  have other: "lookup_key fr_dataset_id ds (db_freshness t) = lookup_key fr_dataset_id ds (db_freshness s)" if "ds \<noteq> sr_dataset_id q" for ds
    using rebinding.frame [OF 1(14) that] by (simp add: 1(20))
  have b: "binding_of f = Bound (fr_binding_epoch f) (fr_active_engine f) (Some (sr_expected_binding_version_id q)) ?rv"
    "binding_of (switch_freshness q (?rv + 1) now f) = Bound (fr_binding_epoch f + 1) (Some (bt_engine ?t)) (Some (bt_version_id ?t)) (?rv + 1)"
    using 1(1,2) by (simp_all add: binding_of_def switch_freshness_def Let_def)
  have "sv_binding (abs_db t) = (sv_binding (abs_db s))(sr_dataset_id q \<mapsto>
      Bound (fr_binding_epoch f + 1) (Some (bt_engine ?t)) (Some (bt_version_id ?t)) (?rv + 1))"
    using other fr b(2) by (auto simp: abs_db_def fun_eq_iff)
  then have t: "abs_db t = (abs_db s)\<lparr>sv_binding := (sv_binding (abs_db s))(sr_dataset_id q \<mapsto>
        Bound (fr_binding_epoch f + 1) (Some (bt_engine ?t)) (Some (bt_version_id ?t)) (?rv + 1)),
      sv_history := sv_history (abs_db s) @ [(sr_dataset_id q, ?rv + 1)]\<rparr>"
    by (simp add: abs_db_def commit_of_def switch_commit_def Let_def 1(20))
  show ?thesis unfolding t
    by (rule spec_step.switch [of _ _ "fr_binding_epoch f" "fr_active_engine f" "sr_expected_binding_version_id q" ?rv])
       (use assms(1) b(1) in \<open>simp add: abs_db_def\<close>)
qed

lemma plane_step_refines: "plane_step s t \<Longrightarrow> plane_ok s \<Longrightarrow> spec_step (abs_db s) (abs_db t)"
proof (induction rule: plane_step.induct)
  case (audit v a prev now s moved t)
  obtain rs cs where t: "t = s\<lparr>db_receipts := rs, db_checkpoints := cs\<rparr>" using save_audit_frame [OF audit(1)] by blast
  show ?case by (rule same_abs_idle) (simp_all add: t save_audit_applied [OF audit(1), unfolded t, simplified])
next
  case (quarantine v pos h err loc now s u t)
  obtain es where "t = s\<lparr>db_exceptions := es\<rparr>" using quarantine(1) by (rule quarantine_cases)
  then show ?case by (intro same_abs_idle) simp_all
next
  case (skip v pos actor reason now s ok t)
  obtain es where "t = s\<lparr>db_exceptions := es\<rparr>" using skip(1) by (rule approve_skip_cases)
  then show ?case by (intro same_abs_idle) simp_all
next
  case (ledger s t)
  obtain ms where "t = s\<lparr>db_materializations := ms\<rparr>" using mat_step_frame [OF ledger(1)] by blast
  then show ?case by (intro same_abs_idle) simp_all
next
  case (activate version scope ds n checksum now s u t)
  obtain dv where "t = s\<lparr>db_dimensions := dv\<rparr>" using activate_frame [OF activate(1)] by blast
  then show ?case by (intro same_abs_idle) simp_all
next
  case (queue s t)
  obtain us where "t = s\<lparr>db_unmatched := us\<rparr>" using queue_step_frame [OF queue(1)] by blast
  then show ?case by (intro same_abs_idle) simp_all
next
  case (publish parts p cfg now s r t)
  then show ?case using publish_refines by blast
next
  case (recovery s t)
  from recovery(1) show ?case
  proof (cases rule: recovery_step_split)
    case (records ops ps)
    then show ?thesis by (intro same_abs_idle) simp_all
  next
    case (switches cfg q f now r)
    then show ?thesis by (rule switch_refines)
  qed
next
  case (append cfg et rt rid rv cid key invs payload now sv s out t)
  obtain es k where "t = s\<lparr>db_events := es, db_next_event_id := k\<rparr>" using append_frame [OF append(1)] by blast
  then show ?case by (intro same_abs_idle) simp_all
next
  case (cleanup now s n t)
  obtain es where "t = s\<lparr>db_events := es\<rparr>" using cleanup(1) by (auto simp: cleanup_expired_def)
  then show ?case by (intro same_abs_idle) simp_all
qed

subsection \<open>What the specification guarantees\<close>

definition revisions :: "serving_spec \<Rightarrow> string \<Rightarrow> int list" where
  "revisions a ds = map snd (filter (\<lambda>c. fst c = ds) (sv_history a))"

definition spec_ok :: "serving_spec \<Rightarrow> bool" where
  "spec_ok a \<longleftrightarrow> (\<forall>ds. sorted_wrt (<) (revisions a ds)
     \<and> (\<forall>rv \<in> set (revisions a ds). \<exists>b. sv_binding a ds = Some b \<and> rv \<le> revision_of b))"

lemma spec_ok_next:
  assumes "spec_ok a" and "sv_binding a ds = Some b" and "revision_of b' = revision_of b + 1"
    and "sv_binding a' = (sv_binding a)(ds \<mapsto> b')" and "sv_history a' = sv_history a @ [(ds, revision_of b + 1)]"
  shows "spec_ok a'"
proof -
  have r: "revisions a' x = (if x = ds then revisions a x @ [revision_of b + 1] else revisions a x)" for x
    using assms(5) by (simp add: revisions_def)
  have le: "\<forall>rv \<in> set (revisions a ds). rv \<le> revision_of b" using assms(1,2) by (fastforce simp: spec_ok_def)
  show ?thesis
    using assms(1-4) le unfolding spec_ok_def r by (auto simp: sorted_wrt_append)
qed

lemma spec_step_ok: "spec_step a a' \<Longrightarrow> spec_ok a \<Longrightarrow> spec_ok a'"
proof (induction rule: spec_step.induct)
  case (publish a ds epoch version rv parts v)
  then show ?case by (intro spec_ok_next [OF publish(3,1)]) simp_all
next
  case (switch a ds epoch engine version rv engine' version')
  then show ?case by (intro spec_ok_next [OF switch(2,1)]) simp_all
qed

text \<open>What a reader sees never goes back.\<close>

definition forward :: "serving_spec \<Rightarrow> serving_spec \<Rightarrow> bool" where
  "forward a a' \<longleftrightarrow> (\<forall>ds b. sv_binding a ds = Some b \<longrightarrow>
        (\<exists>b'. sv_binding a' ds = Some b' \<and> epoch_of b \<le> epoch_of b' \<and> revision_of b \<le> revision_of b'))
     \<and> (\<forall>k. sv_applied a k \<le> sv_applied a' k) \<and> (\<exists>new. sv_history a' = sv_history a @ new)"

lemma forward_refl: "forward a a"
  by (simp add: forward_def)

lemma forward_trans:
  assumes "forward a b" and "forward b c"
  shows "forward a c"
  unfolding forward_def
proof (intro conjI allI impI)
  fix ds x
  assume "sv_binding a ds = Some x"
  then obtain y where y: "sv_binding b ds = Some y" "epoch_of x \<le> epoch_of y" "revision_of x \<le> revision_of y"
    using assms(1) unfolding forward_def by blast
  then obtain z where "sv_binding c ds = Some z" "epoch_of y \<le> epoch_of z" "revision_of y \<le> revision_of z"
    using assms(2) unfolding forward_def by blast
  with y show "\<exists>z. sv_binding c ds = Some z \<and> epoch_of x \<le> epoch_of z \<and> revision_of x \<le> revision_of z" by auto
next
  fix k
  have "sv_applied a k \<le> sv_applied b k" "sv_applied b k \<le> sv_applied c k" using assms unfolding forward_def by blast+
  then show "sv_applied a k \<le> sv_applied c k" by (rule order_trans)
next
  show "\<exists>new. sv_history c = sv_history a @ new" using assms unfolding forward_def by auto
qed

lemma advance_applied_le:
  assumes "\<And>p. p \<in> set parts \<Longrightarrow> old (pb_checkpoint v p) = pb_from_exclusive p \<and> pb_from_exclusive p \<le> pb_to_inclusive p"
  shows "old k \<le> advance_applied v parts old k"
proof (cases "find (\<lambda>p. pb_checkpoint v p = k) parts")
  case (Some p)
  then show ?thesis using assms [of p] find_Some_in [OF Some] by (auto simp: advance_applied_def)
qed (simp add: advance_applied_def)

lemma spec_step_forward: "spec_step a a' \<Longrightarrow> forward a a'"
proof (induction rule: spec_step.induct)
  case (publish a ds epoch version rv parts v)
  then show ?case using advance_applied_le [of parts "sv_applied a" v]
    by (auto simp: forward_def)
next
  case (switch a ds epoch engine version rv engine' version')
  then show ?case by (auto simp: forward_def)
qed (simp add: forward_refl)

lemma plane_steps_refine:
  assumes "plane_step\<^sup>*\<^sup>* s t" and "plane_ok s"
  shows "plane_ok t \<and> spec_step\<^sup>*\<^sup>* (abs_db s) (abs_db t)"
  using assms(1)
proof (induction rule: rtranclp_induct)
  case base
  then show ?case using assms(2) by simp
next
  case (step t u)
  then show ?case using plane_step_ok plane_step_refines by (meson rtranclp.rtrancl_into_rtrancl)
qed

subsection \<open>Properties\<close>

lemma sample_plane_ok: "plane_ok sample_publish_db"
proof -
  have "materialization_check sample_materialized" by code_simp
  then have m: "materializations_ok sample_publish_db"
    by (simp add: materializations_ok_def table_ok_def keyed_def sample_publish_db_def)
  show ?thesis using m
    by (simp add: plane_ok_def receipts_ok_def table_ok_def keyed_def checkpoint_check_def dimensions_ok_def active_index_def
        events_ok_def recovery_ok_def freshness_check_def sample_freshness_def sample_publish_db_def sample_checkpoint_db_def empty_db_def)
qed

lemma sample_plane_step: "\<exists>t. plane_step sample_publish_db t \<and> length (db_commits t) = 1
    \<and> applied_offset (db_checkpoints t) (''v1'', ''t'', 0) = 4"
proof -
  obtain r t where run: "publish sample_event_limits sample_publication 9 sample_publish_db = (Inr r, t)" "pr_created r"
    using run_fst [OF sample_publish_runs] by auto
  have valid: "\<forall>b \<in> set [PartitionBoundary ''t'' 0 (-1) 4]. valid_partition b" by code_simp
  have rows: "existing_commit (rp_materialization_id sample_publication) sample_publish_db = None"
    by (simp add: existing_commit_def sample_publish_db_def sample_checkpoint_db_def empty_db_def)
  from run(1) have "length (db_commits t) = 1 \<and> applied_offset (db_checkpoints t) (''v1'', ''t'', 0) = 4"
  proof (cases rule: publish_cases)
    case old
    then show ?thesis using run(2) by (auto simp: existing_result_iff)
  next
    case (new f m)
    have v: "rp_pipeline_version_id sample_publication = ''v1''" "db_commits sample_publish_db = []"
      by (simp_all add: sample_publication_def sample_publish_db_def sample_checkpoint_db_def empty_db_def)
    show ?thesis using publish_new_rows [OF new(6,2) sample_publish_ok(2) new(4)]
        publish_new_offsets [OF new(6) sample_publish_ok(3,1)] by (simp add: v pb_checkpoint_def)
  qed
  then show ?thesis using plane_step.publish [OF valid sample_publish_ok(3) run(1)] by blast
qed

text \<open>C1. The repositories together implement the serving specification: from a consistent database, any interleaving of
  committed calls leads to a consistent database, and its abstraction is reached by publish, switch and idle steps of the
  specification only.\<close>

theorem plane_refines_specification:
  assumes "plane_step\<^sup>*\<^sup>* s t" and "plane_ok s"
  shows "plane_ok t \<and> spec_step\<^sup>*\<^sup>* (abs_db s) (abs_db t)"
  by (rule plane_steps_refine [OF assms])

theorem plane_refines_specification_witness:
  "\<exists>t. plane_step\<^sup>*\<^sup>* sample_publish_db t \<and> length (db_commits t) = 1 \<and> plane_ok t
     \<and> spec_step\<^sup>*\<^sup>* (abs_db sample_publish_db) (abs_db t)"
proof -
  obtain t where t: "plane_step sample_publish_db t" "length (db_commits t) = 1" using sample_plane_step by blast
  then have "plane_step\<^sup>*\<^sup>* sample_publish_db t" by blast
  with plane_refines_specification [OF this sample_plane_ok] t(2) show ?thesis by blast
qed

text \<open>C2. What readers see only moves forward: whatever calls are made, the commits of a dataset have strictly increasing
  revisions, none above its latest revision; an epoch, a latest revision or an applied offset never decreases; and no
  commit disappears.\<close>

theorem serving_only_moves_forward:
  assumes "plane_step\<^sup>*\<^sup>* s t" and "plane_ok s" and "spec_ok (abs_db s)"
  shows "sorted_wrt (<) (map co_revision (filter (\<lambda>c. co_dataset_id c = ds) (db_commits t)))
    \<and> (\<forall>f c. lookup_key fr_dataset_id ds (db_freshness t) = Some f \<longrightarrow> c \<in> set (db_commits t) \<longrightarrow> co_dataset_id c = ds
         \<longrightarrow> co_revision c \<le> fr_latest_revision f)
    \<and> (\<forall>f. lookup_key fr_dataset_id ds (db_freshness s) = Some f \<longrightarrow> (\<exists>f'. lookup_key fr_dataset_id ds (db_freshness t) = Some f'
         \<and> fr_binding_epoch f \<le> fr_binding_epoch f' \<and> fr_latest_revision f \<le> fr_latest_revision f'))
    \<and> (\<forall>k. applied_offset (db_checkpoints s) k \<le> applied_offset (db_checkpoints t) k)
    \<and> (\<exists>new. map commit_of (db_commits t) = map commit_of (db_commits s) @ new)"
proof -
  have steps: "spec_step\<^sup>*\<^sup>* (abs_db s) (abs_db t)" using plane_steps_refine [OF assms(1,2)] by blast
  then have ok: "spec_ok (abs_db t)" using assms(3) by (induction rule: rtranclp_induct) (auto intro: spec_step_ok)
  from steps have fw: "forward (abs_db s) (abs_db t)"
    by (induction rule: rtranclp_induct) (auto intro: forward_refl forward_trans spec_step_forward)
  have hist: "revisions (abs_db t) ds = map co_revision (filter (\<lambda>c. co_dataset_id c = ds) (db_commits t))"
    by (simp add: revisions_def abs_db_def commit_of_def filter_map o_def)
  have "sorted_wrt (<) (map co_revision (filter (\<lambda>c. co_dataset_id c = ds) (db_commits t)))"
    using ok hist by (metis spec_ok_def)
  moreover have "co_revision c \<le> fr_latest_revision f"
    if "lookup_key fr_dataset_id ds (db_freshness t) = Some f" "c \<in> set (db_commits t)" "co_dataset_id c = ds" for f c
  proof -
    have "co_revision c \<in> set (revisions (abs_db t) ds)" using that(2,3) unfolding hist by auto
    then obtain b where "sv_binding (abs_db t) ds = Some b" "co_revision c \<le> revision_of b" using ok by (auto simp: spec_ok_def)
    then show ?thesis using that(1) by (auto simp: abs_db_def binding_of_def)
  qed
  moreover have "\<exists>f'. lookup_key fr_dataset_id ds (db_freshness t) = Some f'
         \<and> fr_binding_epoch f \<le> fr_binding_epoch f' \<and> fr_latest_revision f \<le> fr_latest_revision f'"
    if "lookup_key fr_dataset_id ds (db_freshness s) = Some f" for f
  proof -
    have "sv_binding (abs_db s) ds = Some (binding_of f)" using that by (simp add: abs_db_def)
    then obtain b' where "sv_binding (abs_db t) ds = Some b'" "epoch_of (binding_of f) \<le> epoch_of b'" "revision_of (binding_of f) \<le> revision_of b'"
      using fw unfolding forward_def by blast
    then show ?thesis by (auto simp: abs_db_def binding_of_def)
  qed
  moreover have "applied_offset (db_checkpoints s) k \<le> applied_offset (db_checkpoints t) k" for k
    using fw by (cases k) (simp add: forward_def abs_db_def)
  moreover have "\<exists>new. map commit_of (db_commits t) = map commit_of (db_commits s) @ new"
    using fw by (simp add: forward_def abs_db_def)
  ultimately show ?thesis by blast
qed

theorem serving_only_moves_forward_witness:
  "\<exists>t. plane_step\<^sup>*\<^sup>* sample_publish_db t \<and> applied_offset (db_checkpoints t) (''v1'', ''t'', 0) = 4
     \<and> applied_offset (db_checkpoints sample_publish_db) (''v1'', ''t'', 0) \<le> 4
     \<and> (\<exists>f. lookup_key fr_dataset_id ''d1'' (db_freshness t) = Some f \<and> 6 \<le> fr_latest_revision f)"
proof -
  obtain t where t: "plane_step sample_publish_db t" "applied_offset (db_checkpoints t) (''v1'', ''t'', 0) = 4"
    using sample_plane_step by blast
  then have steps: "plane_step\<^sup>*\<^sup>* sample_publish_db t" by blast
  have ok: "spec_ok (abs_db sample_publish_db)"
    by (simp add: spec_ok_def revisions_def abs_db_def sample_publish_db_def sample_checkpoint_db_def empty_db_def)
  have fr: "lookup_key fr_dataset_id ''d1'' (db_freshness sample_publish_db) = Some sample_freshness" "fr_latest_revision sample_freshness = 6"
    by (simp_all add: lookup_key_def sample_publish_db_def sample_freshness_def)
  note all = serving_only_moves_forward [OF steps sample_plane_ok ok, of "''d1''"]
  from all have "applied_offset (db_checkpoints sample_publish_db) (''v1'', ''t'', 0) \<le> applied_offset (db_checkpoints t) (''v1'', ''t'', 0)"
    by blast
  moreover from all fr have "\<exists>f. lookup_key fr_dataset_id ''d1'' (db_freshness t) = Some f \<and> 6 \<le> fr_latest_revision f" by auto
  ultimately show ?thesis using steps t(2) by auto
qed

end
