(* ===== verification/Control_Lease.thy ===== *)
theory Control_Lease
  imports Store
begin

section \<open>The lease of the Continuous control plane\<close>

text \<open>
  \<open>repositories/continuous_control_lease_repository.py\<close>: one conditional upsert acquires an expired
  lease or renews the caller's own, and hands out a generation that grows whenever the owner changes;
  \<open>continuous_worker.run_once\<close> does a reconciliation cycle only while it holds the lease. The clock of
  the caller is an argument.
\<close>

record lease_row =
  l_control_plane :: string
  l_owner_id :: "string option"
  l_generation :: int
  l_expires_at :: "timestamp option"

definition fresh_lease :: "string \<Rightarrow> string \<Rightarrow> timestamp \<Rightarrow> lease_row" where
  "fresh_lease plane owner expires =
     \<lparr>l_control_plane = plane, l_owner_id = Some owner, l_generation = 1, l_expires_at = Some expires\<rparr>"

definition lease_free :: "timestamp \<Rightarrow> string \<Rightarrow> lease_row \<Rightarrow> bool" where
  "lease_free now owner r \<longleftrightarrow>
     l_owner_id r = Some owner \<or> l_expires_at r = None
     \<or> (case l_expires_at r of None \<Rightarrow> False | Some e \<Rightarrow> e \<le> now)"

definition take_lease :: "string \<Rightarrow> timestamp \<Rightarrow> lease_row \<Rightarrow> lease_row" where
  "take_lease owner expires r =
     r\<lparr>l_owner_id := Some owner,
       l_generation := (if l_owner_id r = Some owner then l_generation r else l_generation r + 1),
       l_expires_at := Some expires\<rparr>"

definition acquire_or_renew ::
  "timestamp \<Rightarrow> string \<Rightarrow> string \<Rightarrow> int \<Rightarrow> (lease_row list, int option) op" where
  "acquire_or_renew now control_plane owner_id lease_seconds =
     bind_op (check_op (\<not> lease_seconds < 1) (ValueError ''lease_seconds must be positive'')) (\<lambda>_ rows.
     let expires_at = now + seconds lease_seconds in
     case sql_upsert l_control_plane (\<lambda>_. True) (\<lambda>_ _. True) (fresh_lease control_plane owner_id expires_at)
            (lease_free now owner_id) (take_lease owner_id expires_at) rows of
       Inl e \<Rightarrow> (Inl e, rows)
     | Inr (rows', n) \<Rightarrow>
         (Inr (if n = 0 then None else map_option l_generation (lookup_key l_control_plane control_plane rows')),
          rows'))"

text \<open>
  One cycle of the worker: the four synchronisations run in order when the lease is held. They belong to
  other services and are arguments here, acting on the rest \<open>'w\<close> of the world.
\<close>

definition run_once ::
  "timestamp \<Rightarrow> string \<Rightarrow> int \<Rightarrow> ('w, unit) op \<Rightarrow> ('w, unit) op \<Rightarrow> ('w, unit) op \<Rightarrow> ('w, unit) op
    \<Rightarrow> (lease_row list \<times> 'w, bool) op" where
  "run_once now owner lease_seconds sync_runtimes sync_trino_jobs reconcile_bindings sync_sql_jobs = (\<lambda>(rows, w).
     case acquire_or_renew now ''continuous-runtime-sync'' owner lease_seconds rows of
       (Inl e, rows') \<Rightarrow> (Inl e, (rows', w))
     | (Inr None, rows') \<Rightarrow> (Inr False, (rows', w))
     | (Inr (Some generation), rows') \<Rightarrow>
         (case bind_op sync_runtimes (\<lambda>_. bind_op sync_trino_jobs (\<lambda>_.
                 bind_op reconcile_bindings (\<lambda>_. sync_sql_jobs))) w of
            (Inl e, w') \<Rightarrow> (Inl e, (rows', w'))
          | (Inr _, w') \<Rightarrow> (Inr True, (rows', w'))))"

subsection \<open>What one statement does\<close>

interpretation leasing: row_upsert l_control_plane "\<lambda>_. True" "\<lambda>_ _. True"
    "fresh_lease plane owner expires" "lease_free now owner" "take_lease owner expires"
  for plane owner expires now
  by unfold_locales (simp add: take_lease_def)

lemma plane_fresh_lease [simp]: "l_control_plane (fresh_lease plane owner expires) = plane"
  by (simp add: fresh_lease_def)

lemma plane_take_lease [simp]: "l_control_plane (take_lease owner expires r) = l_control_plane r"
  by (simp add: take_lease_def)

text \<open>The row of the plane before the statement decides the answer and the row after it.\<close>

definition lease_answer ::
  "timestamp \<Rightarrow> string \<Rightarrow> string \<Rightarrow> int \<Rightarrow> lease_row option \<Rightarrow> int option \<times> lease_row" where
  "lease_answer now plane owner secs r =
     (let expires = now + seconds secs in
      case r of
        None \<Rightarrow> (Some 1, fresh_lease plane owner expires)
      | Some old \<Rightarrow>
          if lease_free now owner old
          then (Some (l_generation (take_lease owner expires old)), take_lease owner expires old)
          else (None, old))"

lemma acquire_or_renew_answer:
  assumes "keyed l_control_plane rows" and "1 \<le> secs"
  shows "\<exists>rows'. acquire_or_renew now plane owner secs rows
      = (Inr (fst (lease_answer now plane owner secs (lookup_key l_control_plane plane rows))), rows')
    \<and> keyed l_control_plane rows'
    \<and> lookup_key l_control_plane plane rows'
      = Some (snd (lease_answer now plane owner secs (lookup_key l_control_plane plane rows)))
    \<and> (\<forall>q. q \<noteq> plane \<longrightarrow> lookup_key l_control_plane q rows' = lookup_key l_control_plane q rows)"
proof -
  let ?e = "now + seconds secs"
  let ?new = "fresh_lease plane owner ?e"
  obtain rows' n where up: "sql_upsert l_control_plane (\<lambda>_. True) (\<lambda>_ _. True) ?new
      (lease_free now owner) (take_lease owner ?e) rows = Inr (rows', n)"
    using leasing.succeeds by blast
  have keyed: "keyed l_control_plane rows'"
    using leasing.keeps [OF up] assms(1) by (simp add: table_ok_def)
  have look: "lookup_key l_control_plane q rows' =
      (if q = plane then Some (snd (lease_answer now plane owner secs (lookup_key l_control_plane plane rows)))
       else lookup_key l_control_plane q rows)" for q
    using leasing.lookup [OF up, of q] by (auto simp: lease_answer_def Let_def split: option.splits)
  have count: "n = (case lookup_key l_control_plane plane rows of
      None \<Rightarrow> 1 | Some old \<Rightarrow> if lease_free now owner old then 1 else 0)"
  proof (cases "lookup_key l_control_plane plane rows")
    case None
    then show ?thesis using up by (simp add: sql_upsert_def lookup_key_def)
  next
    case (Some old)
    then have n: "n = rowcount (\<lambda>r. l_control_plane r = plane \<and> lease_free now owner r) rows"
      using up by (simp add: sql_upsert_def sql_update_def lookup_key_def)
    have "(\<exists>r \<in> set rows. l_control_plane r = plane \<and> lease_free now owner r) \<longleftrightarrow> lease_free now owner old"
      using lookup_key_Some [OF Some] keyed_same_row [OF assms(1)] by blast
    moreover have "n = (if \<exists>r \<in> set rows. l_control_plane r = plane \<and> lease_free now owner r then 1 else 0)"
      unfolding n by (rule keyed_rowcount [OF assms(1)]) simp
    ultimately show ?thesis using Some by simp
  qed
  have "acquire_or_renew now plane owner secs rows =
      (Inr (fst (lease_answer now plane owner secs (lookup_key l_control_plane plane rows))), rows')"
    using assms(2) up count look [of plane]
    by (auto simp: acquire_or_renew_def bind_op_def check_op_def return_op_def Let_def lease_answer_def
        fresh_lease_def split: option.splits)
  then show ?thesis using keyed look by auto
qed

subsection \<open>Runs of requests by several workers\<close>

record lease_request =
  q_time :: timestamp
  q_owner :: string

record lease_grant =
  g_time :: timestamp
  g_owner :: string
  g_generation :: int

fun lease_run :: "string \<Rightarrow> int \<Rightarrow> lease_request list \<Rightarrow> lease_row list \<Rightarrow> lease_grant list" where
  "lease_run plane secs [] rows = []"
| "lease_run plane secs (q # qs) rows =
     (case acquire_or_renew (q_time q) plane (q_owner q) secs rows of
        (Inr (Some g), rows') \<Rightarrow>
          \<lparr>g_time = q_time q, g_owner = q_owner q, g_generation = g\<rparr> # lease_run plane secs qs rows'
      | (_, rows') \<Rightarrow> lease_run plane secs qs rows')"

text \<open>The same run on the row of the plane alone.\<close>

fun row_run :: "string \<Rightarrow> int \<Rightarrow> lease_request list \<Rightarrow> lease_row option \<Rightarrow> lease_grant list" where
  "row_run plane secs [] r = []"
| "row_run plane secs (q # qs) r =
     (let (g, r') = lease_answer (q_time q) plane (q_owner q) secs r in
      case g of
        None \<Rightarrow> row_run plane secs qs (Some r')
      | Some n \<Rightarrow> \<lparr>g_time = q_time q, g_owner = q_owner q, g_generation = n\<rparr> # row_run plane secs qs (Some r'))"

lemma lease_run_row:
  assumes "keyed l_control_plane rows" and "1 \<le> secs"
  shows "lease_run plane secs qs rows = row_run plane secs qs (lookup_key l_control_plane plane rows)"
  using assms(1)
proof (induction qs arbitrary: rows)
  case (Cons q qs)
  obtain rows' where step: "acquire_or_renew (q_time q) plane (q_owner q) secs rows
      = (Inr (fst (lease_answer (q_time q) plane (q_owner q) secs (lookup_key l_control_plane plane rows))), rows')"
    and keyed: "keyed l_control_plane rows'"
    and look: "lookup_key l_control_plane plane rows'
      = Some (snd (lease_answer (q_time q) plane (q_owner q) secs (lookup_key l_control_plane plane rows)))"
    using acquire_or_renew_answer [OF Cons.prems assms(2)] by blast
  show ?case using step look Cons.IH [OF keyed]
    by (auto simp: Let_def split: option.splits prod.splits)
qed simp

text \<open>A grant that starts after the holder's expiry, or continues the holder's own lease.\<close>

definition grants_ordered :: "int \<Rightarrow> lease_grant \<Rightarrow> lease_grant \<Rightarrow> bool" where
  "grants_ordered secs a b \<longleftrightarrow>
     (if g_owner a = g_owner b then g_generation a \<le> g_generation b
      else g_generation a < g_generation b \<and> g_time a + seconds secs \<le> g_time b)"

text \<open>The row written by the grant \<open>g\<close>: it names the holder, its generation and its expiry.\<close>

definition holds :: "int \<Rightarrow> lease_row \<Rightarrow> lease_grant \<Rightarrow> bool" where
  "holds secs r g \<longleftrightarrow>
     l_owner_id r = Some (g_owner g) \<and> l_generation r = g_generation g
     \<and> l_expires_at r = Some (g_time g + seconds secs)"

definition grant_order :: "int \<Rightarrow> lease_grant \<Rightarrow> lease_grant \<Rightarrow> bool" where
  "grant_order secs a b \<longleftrightarrow> g_time a \<le> g_time b \<and> grants_ordered secs a b"

lemma transp_grant_order: "transp (grant_order secs)"
  unfolding transp_def grant_order_def grants_ordered_def by (auto split: if_splits)

lemma holder_answer:
  assumes "holds secs r g" and "g_time g \<le> q_time q"
  shows "lease_answer (q_time q) plane (q_owner q) secs (Some r) = (None, r)
    \<or> (\<exists>n r'. lease_answer (q_time q) plane (q_owner q) secs (Some r) = (Some n, r')
        \<and> holds secs r' \<lparr>g_time = q_time q, g_owner = q_owner q, g_generation = n\<rparr>
        \<and> grant_order secs g \<lparr>g_time = q_time q, g_owner = q_owner q, g_generation = n\<rparr>)"
proof (cases "lease_free (q_time q) (q_owner q) r")
  case False
  then show ?thesis by (simp add: lease_answer_def)
next
  case True
  then show ?thesis using assms
    by (auto simp: lease_answer_def Let_def take_lease_def holds_def grant_order_def grants_ordered_def lease_free_def)
qed

lemma row_run_ordered:
  assumes "holds secs r g" and "sorted (map q_time qs)" and "\<forall>q \<in> set qs. g_time g \<le> q_time q"
  shows "sorted_wrt (grant_order secs) (g # row_run plane secs qs (Some r))"
  using assms
proof (induction qs arbitrary: r g)
  case (Cons q qs)
  from Cons.prems have t: "g_time g \<le> q_time q" and qs: "sorted (map q_time qs)"
    and later: "\<forall>p \<in> set qs. q_time q \<le> q_time p" "\<forall>p \<in> set qs. g_time g \<le> q_time p" by auto
  from holder_answer [OF Cons.prems(1) t, of plane] show ?case
  proof
    assume "lease_answer (q_time q) plane (q_owner q) secs (Some r) = (None, r)"
    then show ?thesis using Cons.IH [OF Cons.prems(1) qs later(2)] by simp
  next
    assume "\<exists>n r'. lease_answer (q_time q) plane (q_owner q) secs (Some r) = (Some n, r')
        \<and> holds secs r' \<lparr>g_time = q_time q, g_owner = q_owner q, g_generation = n\<rparr>
        \<and> grant_order secs g \<lparr>g_time = q_time q, g_owner = q_owner q, g_generation = n\<rparr>"
    then obtain n r' where a: "lease_answer (q_time q) plane (q_owner q) secs (Some r) = (Some n, r')"
      and h: "holds secs r' \<lparr>g_time = q_time q, g_owner = q_owner q, g_generation = n\<rparr>"
      and o: "grant_order secs g \<lparr>g_time = q_time q, g_owner = q_owner q, g_generation = n\<rparr>" by blast
    have "sorted_wrt (grant_order secs)
        (\<lparr>g_time = q_time q, g_owner = q_owner q, g_generation = n\<rparr> # row_run plane secs qs (Some r'))"
      using Cons.IH [OF h qs] later(1) by simp
    moreover from this have "grant_order secs g x" if "x \<in> set (row_run plane secs qs (Some r'))" for x
      using that o transp_grant_order [of secs] by (auto elim: transpE)
    ultimately show ?thesis using o a by simp
  qed
qed simp

text \<open>C9. The control lease excludes: when workers with a common clock ask for one plane in any order, of two
  grants to different owners the later one starts only after the earlier one has expired and has a
  strictly larger generation, so that no generation is ever held by two owners.\<close>

theorem control_lease_exclusive:
  assumes "keyed l_control_plane rows" and "plane \<notin> l_control_plane ` set rows" and "1 \<le> secs"
    and "sorted (map q_time qs)"
  shows "sorted_wrt (\<lambda>a b.
      if g_owner a = g_owner b then g_generation a \<le> g_generation b
      else g_generation a < g_generation b \<and> g_time a + seconds secs \<le> g_time b)
    (lease_run plane secs qs rows)"
proof (cases qs)
  case (Cons q qs')
  let ?g = "\<lparr>g_time = q_time q, g_owner = q_owner q, g_generation = 1\<rparr>"
  let ?r = "fresh_lease plane (q_owner q) (q_time q + seconds secs)"
  have "lease_run plane secs qs rows = ?g # row_run plane secs qs' (Some ?r)"
    using assms(2) unfolding lease_run_row [OF assms(1,3)] Cons
    by (simp add: lease_answer_def lookup_key_None [symmetric])
  moreover have "holds secs ?r ?g" by (simp add: holds_def fresh_lease_def)
  then have "sorted_wrt (grant_order secs) (?g # row_run plane secs qs' (Some ?r))"
    by (rule row_run_ordered) (use assms(4) Cons in auto)
  ultimately show ?thesis
    by (auto simp: grant_order_def grants_ordered_def elim!: sorted_wrt_mono_rel [rotated] split: if_splits)
qed simp

theorem control_lease_exclusive_witness:
  "lease_run ''plane'' 30
     [\<lparr>q_time = 0, q_owner = ''a''\<rparr>, \<lparr>q_time = 10000000, q_owner = ''b''\<rparr>, \<lparr>q_time = 31000000, q_owner = ''b''\<rparr>] []
   = [\<lparr>g_time = 0, g_owner = ''a'', g_generation = 1\<rparr>, \<lparr>g_time = 31000000, g_owner = ''b'', g_generation = 2\<rparr>]
   \<and> (1 :: int) < 2 \<and> 0 + seconds 30 \<le> 31000000"
proof -
  define qs where "qs = [\<lparr>q_time = 0, q_owner = ''a''\<rparr>, \<lparr>q_time = 10000000, q_owner = ''b''\<rparr>,
      \<lparr>q_time = 31000000, q_owner = ''b''\<rparr>]"
  have run: "lease_run ''plane'' 30 qs [] =
      [\<lparr>g_time = 0, g_owner = ''a'', g_generation = 1\<rparr>, \<lparr>g_time = 31000000, g_owner = ''b'', g_generation = 2\<rparr>]"
    unfolding qs_def by code_simp
  have "sorted (map q_time qs)" by (simp add: qs_def)
  from control_lease_exclusive [OF _ _ _ this, of "[]" "''plane''" 30] run show ?thesis
    by (simp add: qs_def)
qed

text \<open>A plane whose lease has expired, or was never taken, is granted to whoever asks.\<close>

lemma lease_available_after_expiry:
  assumes "keyed l_control_plane rows" and "1 \<le> secs"
    and "case lookup_key l_control_plane plane rows of
        None \<Rightarrow> True | Some r \<Rightarrow> (case l_expires_at r of None \<Rightarrow> True | Some e \<Rightarrow> e \<le> now)"
  shows "\<exists>g. fst (acquire_or_renew now plane owner secs rows) = Inr (Some g)"
proof -
  have "\<exists>g. fst (lease_answer now plane owner secs (lookup_key l_control_plane plane rows)) = Some g"
    using assms(3) by (auto simp: lease_answer_def Let_def lease_free_def split: option.splits)
  then show ?thesis using acquire_or_renew_answer [OF assms(1,2), of now plane owner] by force
qed

text \<open>A worker that does not hold the lease touches nothing.\<close>

lemma run_once_needs_lease:
  assumes "keyed l_control_plane rows" and "1 \<le> secs"
    and "lookup_key l_control_plane ''continuous-runtime-sync'' rows = Some r"
    and "l_owner_id r \<noteq> Some owner" and "l_expires_at r = Some e" and "now < e"
  shows "\<exists>rows'. run_once now owner secs f1 f2 f3 f4 (rows, w) = (Inr False, (rows', w))
    \<and> (\<forall>q. lookup_key l_control_plane q rows' = lookup_key l_control_plane q rows)"
proof -
  have "lease_answer now ''continuous-runtime-sync'' owner secs (Some r) = (None, r)"
    using assms(4,5,6) by (simp add: lease_answer_def lease_free_def)
  with acquire_or_renew_answer [OF assms(1,2), of now "''continuous-runtime-sync''" owner] assms(3)
  obtain rows' where step: "acquire_or_renew now ''continuous-runtime-sync'' owner secs rows = (Inr None, rows')"
    and row: "lookup_key l_control_plane ''continuous-runtime-sync'' rows' = Some r"
    and others: "\<forall>q. q \<noteq> ''continuous-runtime-sync'' \<longrightarrow> lookup_key l_control_plane q rows' = lookup_key l_control_plane q rows"
    by auto
  have "lookup_key l_control_plane q rows' = lookup_key l_control_plane q rows" for q
    using row others assms(3) by (cases "q = ''continuous-runtime-sync''") simp_all
  then show ?thesis using step by (simp add: run_once_def)
qed

end
