(* ===== verification/Unicode.thy ===== *)
theory Unicode
  imports Json
begin

section \<open>Text outside ASCII\<close>

text \<open>
  \<open>utf8\<close> encodes a list of Unicode scalar values, so that the Korean literals of the source can be
  written by their code points; \<open>utf8_decode\<close> of theory Json reads it back.
\<close>

definition scalar_value :: "nat \<Rightarrow> bool" where
  "scalar_value cp \<longleftrightarrow> cp \<le> 1114111 \<and> \<not> (55296 \<le> cp \<and> cp \<le> 57343)"

definition utf8_bytes :: "nat \<Rightarrow> nat list" where
  "utf8_bytes cp =
     (if cp < 128 then [cp]
      else if cp < 2048 then [192 + cp div 64, 128 + cp mod 64]
      else if cp < 65536 then [224 + cp div 4096, 128 + cp div 64 mod 64, 128 + cp mod 64]
      else [240 + cp div 262144, 128 + cp div 4096 mod 64, 128 + cp div 64 mod 64, 128 + cp mod 64])"

definition utf8 :: "nat list \<Rightarrow> string" where
  "utf8 cps = map char_of (concat (map utf8_bytes cps))"

lemma utf8_bytes_small: "scalar_value cp \<Longrightarrow> b \<in> set (utf8_bytes cp) \<Longrightarrow> b < 256"
  by (auto simp: utf8_bytes_def scalar_value_def less_mult_imp_div_less split: if_splits)

lemma utf8_decode_step:
  assumes "scalar_value cp"
  shows "utf8_decode (utf8_bytes cp @ bytes) = map_option (Cons cp) (utf8_decode bytes)"
proof -
  have a: "cp div 64 * 64 + cp mod 64 = cp" by simp
  have b: "cp div 4096 * 4096 + cp div 64 mod 64 * 64 + cp mod 64 = cp"
  proof -
    have "cp div 4096 = cp div 64 div 64" by (simp add: div_mult2_eq [symmetric])
    then have "cp div 4096 * 64 + cp div 64 mod 64 = cp div 64" by simp
    then show ?thesis using a by linarith
  qed
  have c: "cp div 262144 * 262144 + cp div 4096 mod 64 * 4096 + cp div 64 mod 64 * 64 + cp mod 64 = cp"
  proof -
    have "cp div 262144 = cp div 4096 div 64" by (simp add: div_mult2_eq [symmetric])
    then have "cp div 262144 * 64 + cp div 4096 mod 64 = cp div 4096" by simp
    then show ?thesis using b by linarith
  qed
  consider "cp < 128" | "128 \<le> cp" "cp < 2048" | "2048 \<le> cp" "cp < 65536" | "65536 \<le> cp" by linarith
  then show ?thesis
  proof cases
    case 1
    then show ?thesis by (simp add: utf8_bytes_def)
  next
    case 2
    then have "2 \<le> cp div 64" "cp div 64 \<le> 31" by linarith+
    then show ?thesis using 2 a by (auto simp: utf8_bytes_def cont_byte_def)
  next
    case 3
    then have "cp div 4096 \<le> 15" by linarith
    then show ?thesis using 3 b assms by (auto simp: utf8_bytes_def cont_byte_def scalar_value_def Let_def)
  next
    case 4
    then have "cp div 262144 \<le> 4" using assms unfolding scalar_value_def by linarith
    then show ?thesis using 4 c assms by (auto simp: utf8_bytes_def cont_byte_def scalar_value_def Let_def)
  qed
qed

lemma utf8_decode_encode:
  assumes "list_all scalar_value cps"
  shows "utf8_decode (map char_code (utf8 cps)) = Some cps"
proof -
  have "map char_code (utf8 cps) = concat (map utf8_bytes cps)"
    unfolding utf8_def char_code_def map_map
    by (rule map_idI) (use assms utf8_bytes_small in \<open>auto simp: list_all_iff\<close>)
  moreover have "utf8_decode (concat (map utf8_bytes cps)) = Some cps"
    using assms by (induction cps) (simp_all add: utf8_decode_step)
  ultimately show ?thesis by simp
qed

end
