(* ===== verification/Continuous_Runtime.thy ===== *)
theory Continuous_Runtime
  imports Unicode
begin

section \<open>The runtime contract of Kafka Continuous jobs\<close>

text \<open>
  \<open>domain/continuous_runtime.py\<close>: the desired, observed and public states of a Continuous runtime, the
  command policy, and the contract kept in the \<open>metrics\<close> document of the runtime row. The document is
  a JSON dictionary or \<open>None\<close>. Counters of the metrics endpoint (\<open>increment_metric\<close>) are left out; the
  correlation id of the request and the fresh id drawn when there is none are arguments.

  The abstract view of a contract is its revision, its desired and observed states and its fencing
  token; every operation of the module refines an operation on that view.
\<close>

subsection \<open>States\<close>

datatype ContinuousDesiredState = DesiredRunning | DesiredPaused | DesiredStopped

datatype ContinuousObservedState =
    ObservedUnknown | ObservedStarting | ObservedRunning | ObservedStopping | ObservedStopped | ObservedFailed

datatype ContinuousPublicStatus =
    PublicStarting | PublicRunning | PublicPausing | PublicPaused | PublicStopping | PublicStopped | PublicFailed

datatype ContinuousErrorStage =
    StageValidation | StageRuntimeStorage | StageSubmission | StageExecution | StageReport
  | StageCheckpoint | StageMaterialization | StageCatalog | StageDashboardPublication | StageReconciliation

primrec desired_value :: "ContinuousDesiredState \<Rightarrow> string" where
  "desired_value DesiredRunning = ''running''"
| "desired_value DesiredPaused = ''paused''"
| "desired_value DesiredStopped = ''stopped''"

primrec observed_value :: "ContinuousObservedState \<Rightarrow> string" where
  "observed_value ObservedUnknown = ''unknown''"
| "observed_value ObservedStarting = ''starting''"
| "observed_value ObservedRunning = ''running''"
| "observed_value ObservedStopping = ''stopping''"
| "observed_value ObservedStopped = ''stopped''"
| "observed_value ObservedFailed = ''failed''"

primrec public_value :: "ContinuousPublicStatus \<Rightarrow> string" where
  "public_value PublicStarting = ''starting''"
| "public_value PublicRunning = ''running''"
| "public_value PublicPausing = ''pausing''"
| "public_value PublicPaused = ''paused''"
| "public_value PublicStopping = ''stopping''"
| "public_value PublicStopped = ''stopped''"
| "public_value PublicFailed = ''failed''"

primrec stage_value :: "ContinuousErrorStage \<Rightarrow> string" where
  "stage_value StageValidation = ''validation''"
| "stage_value StageRuntimeStorage = ''runtime_storage''"
| "stage_value StageSubmission = ''submission''"
| "stage_value StageExecution = ''execution''"
| "stage_value StageReport = ''report''"
| "stage_value StageCheckpoint = ''checkpoint''"
| "stage_value StageMaterialization = ''materialization''"
| "stage_value StageCatalog = ''catalog''"
| "stage_value StageDashboardPublication = ''dashboard_publication''"
| "stage_value StageReconciliation = ''reconciliation''"

text \<open>The members of each enumeration, and the lookup of a member by its value.\<close>

definition desired_members :: "ContinuousDesiredState list" where
  "desired_members = [DesiredRunning, DesiredPaused, DesiredStopped]"

definition observed_members :: "ContinuousObservedState list" where
  "observed_members =
     [ObservedUnknown, ObservedStarting, ObservedRunning, ObservedStopping, ObservedStopped, ObservedFailed]"

definition public_members :: "ContinuousPublicStatus list" where
  "public_members =
     [PublicStarting, PublicRunning, PublicPausing, PublicPaused, PublicStopping, PublicStopped, PublicFailed]"

definition stage_members :: "ContinuousErrorStage list" where
  "stage_members =
     [StageValidation, StageRuntimeStorage, StageSubmission, StageExecution, StageReport,
      StageCheckpoint, StageMaterialization, StageCatalog, StageDashboardPublication, StageReconciliation]"

definition enum_of :: "('e \<Rightarrow> string) \<Rightarrow> 'e list \<Rightarrow> string \<Rightarrow> 'e option" where
  "enum_of val members v = find (\<lambda>e. val e = v) members"

definition enum_res :: "string \<Rightarrow> ('e \<Rightarrow> string) \<Rightarrow> 'e list \<Rightarrow> string \<Rightarrow> 'e res" where
  "enum_res name val members v =
     (case enum_of val members v of
        Some e \<Rightarrow> Inr e
      | None \<Rightarrow> Inl (ValueError (py_repr_str v @ '' is not a valid '' @ name)))"

definition desired_res :: "string \<Rightarrow> ContinuousDesiredState res" where
  "desired_res = enum_res ''ContinuousDesiredState'' desired_value desired_members"

definition observed_res :: "string \<Rightarrow> ContinuousObservedState res" where
  "observed_res = enum_res ''ContinuousObservedState'' observed_value observed_members"

definition stage_res :: "string \<Rightarrow> ContinuousErrorStage res" where
  "stage_res = enum_res ''ContinuousErrorStage'' stage_value stage_members"

definition ACTIVE_PUBLIC_STATUSES :: "string list" where
  "ACTIVE_PUBLIC_STATUSES = [''starting'', ''running'', ''pausing'', ''stopping'']"

definition VALID_PUBLIC_STATUSES :: "string list" where
  "VALID_PUBLIC_STATUSES = map public_value public_members"

definition RUNTIME_CONTRACT_VERSION :: string where
  "RUNTIME_CONTRACT_VERSION = ''1.0''"

definition RUNTIME_CONTRACT_KEY :: string where
  "RUNTIME_CONTRACT_KEY = ''runtimeContract''"

text \<open>\<open>str(value or default)\<close> for an optional string, and \<open>a or b\<close> on optional strings.\<close>

definition str_or :: "string \<Rightarrow> string \<Rightarrow> string" where
  "str_or s dflt = (if s = [] then dflt else s)"

definition opt_text :: "string option \<Rightarrow> string" where
  "opt_text v = (case v of None \<Rightarrow> [] | Some s \<Rightarrow> s)"

definition opt_or :: "string option \<Rightarrow> string option \<Rightarrow> string option" where
  "opt_or a b = (if opt_text a = [] then b else a)"

definition nonempty :: "string \<Rightarrow> string option" where
  "nonempty s = (if s = [] then None else Some s)"

definition normalized :: "string \<Rightarrow> string" where
  "normalized s = py_lower (py_strip s)"

subsection \<open>The command policy\<close>

record ContinuousCommandTransition =
  ct_command :: string
  ct_current_status :: string
  ct_allowed :: bool
  ct_desired_state :: ContinuousDesiredState
  ct_next_status :: ContinuousPublicStatus
  ct_rejection :: "string option"

definition desired_state_from_public_status :: "string \<Rightarrow> ContinuousDesiredState" where
  "desired_state_from_public_status status =
     (let n = normalized status in
      if n \<in> {''starting'', ''running''} then DesiredRunning
      else if n \<in> {''pausing'', ''paused''} then DesiredPaused
      else DesiredStopped)"

definition public_status_or_stopped :: "string \<Rightarrow> ContinuousPublicStatus" where
  "public_status_or_stopped status =
     (case enum_of public_value public_members (normalized status) of
        Some p \<Rightarrow> p | None \<Rightarrow> PublicStopped)"

definition command_transition :: "string \<Rightarrow> string \<Rightarrow> ContinuousCommandTransition" where
  "command_transition current_status command =
     (let n = normalized (str_or current_status ''stopped'') in
      if command \<in> {''startContinuous'', ''resumeContinuous''} then
        (let allowed = n \<in> {''paused'', ''stopped'', ''failed''};
             rejection = (if n \<in> set ACTIVE_PUBLIC_STATUSES then ''already_active'' else ''invalid_state'')
         in \<lparr>ct_command = command, ct_current_status = n, ct_allowed = allowed,
             ct_desired_state = DesiredRunning, ct_next_status = PublicStarting,
             ct_rejection = (if allowed then None else Some rejection)\<rparr>)
      else if command = ''pauseContinuous'' then
        (let allowed = n \<in> {''starting'', ''running''}
         in \<lparr>ct_command = command, ct_current_status = n, ct_allowed = allowed,
             ct_desired_state = DesiredPaused, ct_next_status = PublicPausing,
             ct_rejection = (if allowed then None else Some ''invalid_state'')\<rparr>)
      else if command = ''stopContinuous'' then
        (let allowed = n \<in> {''starting'', ''running'', ''pausing'', ''paused'', ''failed''}
         in \<lparr>ct_command = command, ct_current_status = n, ct_allowed = allowed,
             ct_desired_state = DesiredStopped, ct_next_status = PublicStopping,
             ct_rejection = (if allowed then None else Some ''invalid_state'')\<rparr>)
      else
        \<lparr>ct_command = command, ct_current_status = n, ct_allowed = False,
         ct_desired_state = desired_state_from_public_status n,
         ct_next_status = public_status_or_stopped n,
         ct_rejection = Some ''unsupported_command''\<rparr>)"

definition public_status_of :: "ContinuousDesiredState \<Rightarrow> ContinuousObservedState \<Rightarrow> ContinuousPublicStatus" where
  "public_status_of desired observed =
     (if observed = ObservedFailed then PublicFailed
      else case desired of
        DesiredRunning \<Rightarrow> if observed = ObservedRunning then PublicRunning else PublicStarting
      | DesiredPaused \<Rightarrow> if observed = ObservedStopped then PublicPaused else PublicPausing
      | DesiredStopped \<Rightarrow> if observed = ObservedStopped then PublicStopped else PublicStopping)"

definition derive_public_status :: "string \<Rightarrow> string \<Rightarrow> ContinuousPublicStatus res" where
  "derive_public_status desired_state observed_state =
     bind_res (desired_res desired_state) (\<lambda>desired.
     bind_res (observed_res observed_state) (\<lambda>observed.
     Inr (public_status_of desired observed)))"

definition observed_state_from_evidence :: "string option \<Rightarrow> string option \<Rightarrow> ContinuousObservedState" where
  "observed_state_from_evidence report_status container_state =
     (let report = normalized (opt_text report_status) in
      if report = ''failed'' then ObservedFailed
      else if report = ''starting'' then ObservedStarting
      else if report \<in> {''running'', ''pausing''} then ObservedRunning
      else if report = ''stopping'' then ObservedStopping
      else if report \<in> {''paused'', ''stopped''} then ObservedStopped
      else
        (let container = normalized (opt_text container_state) in
         if container \<in> {''running'', ''healthy''} then ObservedRunning
         else if container \<in> {''created'', ''restarting'', ''starting''} then ObservedStarting
         else if container \<in> {''exited'', ''missing'', ''not_running'', ''stopped'', ''dead''} then ObservedStopped
         else ObservedUnknown))"

subsection \<open>Runtime errors\<close>

record ContinuousRuntimeError =
  re_stage :: ContinuousErrorStage
  re_code :: string
  re_message :: string
  re_retryable :: bool
  re_context :: "dict option"
  re_operator_message :: "string option"
  re_user_message :: "string option"
  re_diagnostic_id :: "string option"

definition optional_entry :: "string \<Rightarrow> string option \<Rightarrow> dict" where
  "optional_entry k v = (if opt_text v = [] then [] else [(k, JStr (opt_text v))])"

definition error_as_dict :: "ContinuousRuntimeError \<Rightarrow> dict" where
  "error_as_dict e =
     [(''stage'', JStr (stage_value (re_stage e))),
      (''code'', JStr (re_code e)),
      (''message'', JStr (re_message e)),
      (''retryable'', JBool (re_retryable e))]
     @ (case re_context e of Some (kv # d) \<Rightarrow> [(''context'', JObj (kv # d))] | _ \<Rightarrow> [])
     @ optional_entry ''operatorMessage'' (re_operator_message e)
     @ optional_entry ''userMessage'' (re_user_message e)
     @ optional_entry ''diagnosticId'' (re_diagnostic_id e)"

text \<open>"start failed" in Korean, one of the words the submission errors are recognised by.\<close>

definition start_failed_ko :: string where
  "start_failed_ko = utf8 [0xC2DC, 0xC791, 0x20, 0xC2E4, 0xD328]"

definition classify_legacy_error :: "string \<Rightarrow> ContinuousRuntimeError" where
  "classify_legacy_error message =
     (let trimmed = py_strip message; lowered = py_lower trimmed;
          found = (\<lambda>words. \<exists>w \<in> set words. py_in w lowered);
          mk = (\<lambda>stage code retryable.
            \<lparr>re_stage = stage, re_code = code, re_message = trimmed, re_retryable = retryable,
             re_context = None, re_operator_message = None, re_user_message = None,
             re_diagnostic_id = None\<rparr>)
      in if found [''dashboard''] then mk StageDashboardPublication ''dashboard_publication_failed'' True
         else if found [''catalog''] then mk StageCatalog ''catalog_materialization_pending'' True
         else if found [''checkpoint'', ''fingerprint''] then mk StageCheckpoint ''checkpoint_contract_failed'' False
         else if found [''report''] then mk StageReport ''runtime_report_failed'' True
         else if found [''permission'', ''storage'', ''read-only'', ''path'']
           then mk StageRuntimeStorage ''runtime_storage_failed'' True
         else if found [''submit'', ''submission'', ''start failed'', start_failed_ko]
           then mk StageSubmission ''worker_submission_failed'' True
         else if found [''materialization'', ''manifest'', ''output'']
           then mk StageMaterialization ''materialization_failed'' True
         else mk StageExecution ''continuous_execution_failed'' True)"

subsection \<open>Reading the contract\<close>

definition contract :: "dict option \<Rightarrow> dict" where
  "contract metrics =
     (case metrics of
        None \<Rightarrow> []
      | Some m \<Rightarrow> (case as_dict (jget RUNTIME_CONTRACT_KEY m) of None \<Rightarrow> [] | Some d \<Rightarrow> d))"

definition metrics_dict :: "dict option \<Rightarrow> dict" where
  "metrics_dict metrics = (case metrics of None \<Rightarrow> [] | Some m \<Rightarrow> m)"

definition fencing_token :: "dict \<Rightarrow> dict option \<Rightarrow> string option" where
  "fencing_token c metrics =
     (let candidate = jget ''activeWorkerAttemptId'' c;
          candidate = (if truthy candidate then candidate
                       else case metrics of
                         None \<Rightarrow> candidate
                       | Some m \<Rightarrow> jget ''currentWorkerAttemptId'' m)
      in nonempty (clean_str candidate))"

definition enum_value :: "('e \<Rightarrow> string) \<Rightarrow> 'e list \<Rightarrow> json \<Rightarrow> string \<Rightarrow> string" where
  "enum_value val members value fallback =
     (case enum_of val members (py_lower (clean_str value)) of
        Some e \<Rightarrow> val e | None \<Rightarrow> fallback)"

definition nonnegative_int :: "json \<Rightarrow> int" where
  "nonnegative_int value = (case py_int (por value (JInt 0)) of Inr n \<Rightarrow> max 0 n | Inl _ \<Rightarrow> 0)"

definition structured_error :: "json \<Rightarrow> dict option" where
  "structured_error value =
     (case as_dict value of
        None \<Rightarrow> None
      | Some d \<Rightarrow>
          (let stage = enum_value stage_value stage_members (jget ''stage'' d) [];
               code = clean_str (jget ''code'' d);
               message = clean_str (jget ''message'' d)
           in if stage = [] \<or> code = [] \<or> message = [] then None
              else Some
                ([(''stage'', JStr stage), (''code'', JStr code), (''message'', JStr message),
                  (''retryable'', JBool (truthy (jget ''retryable'' d)))]
                 @ (case as_dict (jget ''context'' d) of
                      Some c \<Rightarrow> [(''context'', JObj c)] | None \<Rightarrow> [])
                 @ concat (map (\<lambda>k. if clean_str (jget k d) = [] then [] else [(k, JStr (py_str (jget k d)))])
                     [''operatorMessage'', ''userMessage'', ''diagnosticId'']))))"

definition runtime_contract_initialized :: "dict option \<Rightarrow> bool" where
  "runtime_contract_initialized metrics \<longleftrightarrow>
     jget ''version'' (contract metrics) = JStr RUNTIME_CONTRACT_VERSION
     \<and> truthy (jget ''desiredState'' (contract metrics))"

definition observation_is_current :: "dict option \<Rightarrow> string option \<Rightarrow> bool" where
  "observation_is_current metrics worker_attempt_id \<longleftrightarrow>
     (let expected = fencing_token (contract metrics) metrics;
          observed = py_strip (opt_text worker_attempt_id)
      in expected = None \<or> observed = [] \<or> expected = Some observed)"

definition runtime_contract_projection :: "dict option \<Rightarrow> string \<Rightarrow> string option \<Rightarrow> dict" where
  "runtime_contract_projection metrics public_status legacy_error =
     (let c = contract metrics;
          desired = enum_value desired_value desired_members (jget ''desiredState'' c)
            (desired_value (desired_state_from_public_status public_status));
          observed = enum_value observed_value observed_members (jget ''observedState'' c)
            (observed_value (observed_state_from_evidence (Some public_status) None));
          error_detail = (case structured_error (jget ''lastError'' c) of
              Some d \<Rightarrow> Some d
            | None \<Rightarrow> if opt_text legacy_error = [] then None
                else Some (error_as_dict (classify_legacy_error (opt_text legacy_error))))
      in [(''desiredState'', JStr desired),
          (''observedState'', JStr observed),
          (''stateRevision'', JInt (nonnegative_int (jget ''stateRevision'' c))),
          (''fencingToken'', of_opt_str (fencing_token c metrics)),
          (''errorDetail'', case error_detail of None \<Rightarrow> JNull | Some d \<Rightarrow> JObj d)])"

subsection \<open>Recording commands, attempts, observations and errors\<close>

definition fence :: "string option \<Rightarrow> dict \<Rightarrow> dict \<Rightarrow> dict \<times> dict" where
  "fence token c m =
     (case token of
        None \<Rightarrow> (c, m)
      | Some w \<Rightarrow>
          if w = [] then (c, m)
          else (jset ''activeWorkerAttemptId'' (JStr w) c, jset ''currentWorkerAttemptId'' (JStr w) m))"

definition store_contract :: "dict \<times> dict \<Rightarrow> dict" where
  "store_contract cm = jset RUNTIME_CONTRACT_KEY (JObj (fst cm)) (snd cm)"

definition record_runtime_command ::
  "dict option \<Rightarrow> ContinuousCommandTransition \<Rightarrow> string option \<Rightarrow> dict res" where
  "record_runtime_command metrics transition worker_attempt_id =
     (if \<not> ct_allowed transition
      then Inl (ValueError (''Cannot record rejected Continuous command: ''
        @ py_str (of_opt_str (ct_rejection transition))))
      else
        (let previous = contract metrics;
             token = opt_or worker_attempt_id (fencing_token previous metrics);
             c = jmerge previous
               [(''version'', JStr RUNTIME_CONTRACT_VERSION),
                (''desiredState'', JStr (desired_value (ct_desired_state transition))),
                (''observedState'', por (jget ''observedState'' previous)
                   (JStr (observed_value
                     (observed_state_from_evidence (Some (ct_current_status transition)) None)))),
                (''stateRevision'', JInt (nonnegative_int (jget ''stateRevision'' previous) + 1)),
                (''lastCommand'', JStr (ct_command transition)),
                (''lastError'', JNull)]
         in Inr (store_contract (fence token c (metrics_dict metrics)))))"

definition bind_worker_attempt :: "dict option \<Rightarrow> string option \<Rightarrow> dict" where
  "bind_worker_attempt metrics worker_attempt_id =
     (if opt_text worker_attempt_id = [] then metrics_dict metrics
      else
        (let w = JStr (opt_text worker_attempt_id);
             c = jmerge (contract metrics)
               [(''version'', JStr RUNTIME_CONTRACT_VERSION), (''activeWorkerAttemptId'', w)]
         in jset RUNTIME_CONTRACT_KEY (JObj c)
              (jset ''currentWorkerAttemptId'' w (metrics_dict metrics))))"

definition record_runtime_observation ::
  "dict option \<Rightarrow> string \<Rightarrow> string \<Rightarrow> string option \<Rightarrow> dict res" where
  "record_runtime_observation metrics observed_state default_public_status worker_attempt_id =
     (let previous = contract metrics in
      bind_res (observed_res observed_state) (\<lambda>observed.
      let c = jmerge previous
            [(''version'', JStr RUNTIME_CONTRACT_VERSION),
             (''desiredState'', por (jget ''desiredState'' previous)
                (JStr (desired_value (desired_state_from_public_status default_public_status)))),
             (''observedState'', JStr (observed_value observed)),
             (''stateRevision'', JInt (nonnegative_int (jget ''stateRevision'' previous)))];
          token = opt_or worker_attempt_id (fencing_token previous metrics)
      in Inr (store_contract (fence token c (metrics_dict metrics)))))"

record request_context =
  rc_correlation :: "string option"
  rc_fresh :: string

record error_report =
  er_stage :: string
  er_code :: string
  er_message :: string
  er_retryable :: bool
  er_context :: "dict option"
  er_operator_message :: "string option"
  er_user_message :: "string option"
  er_diagnostic_id :: "string option"

definition record_runtime_error :: "request_context \<Rightarrow> dict option \<Rightarrow> error_report \<Rightarrow> dict res" where
  "record_runtime_error rc metrics r =
     bind_res (stage_res (er_stage r)) (\<lambda>stage.
     let detail =
       \<lparr>re_stage = stage, re_code = er_code r, re_message = er_message r, re_retryable = er_retryable r,
        re_context = (case er_context r of Some [] \<Rightarrow> None | ctx \<Rightarrow> ctx),
        re_operator_message = opt_or (er_operator_message r) (Some (er_message r)),
        re_user_message = opt_or (er_user_message r) (Some (er_message r)),
        re_diagnostic_id = opt_or (er_diagnostic_id r) (opt_or (rc_correlation rc) (Some (rc_fresh rc)))\<rparr>
     in Inr (jset RUNTIME_CONTRACT_KEY
          (JObj (jmerge (contract metrics)
            [(''version'', JStr RUNTIME_CONTRACT_VERSION),
             (''lastError'', JObj (error_as_dict detail))]))
          (metrics_dict metrics)))"

definition clear_runtime_error :: "dict option \<Rightarrow> dict" where
  "clear_runtime_error metrics =
     jset RUNTIME_CONTRACT_KEY
       (JObj (jmerge (contract metrics)
         [(''version'', JStr RUNTIME_CONTRACT_VERSION), (''lastError'', JNull)]))
       (metrics_dict metrics)"

subsection \<open>The abstract view and the operations on it\<close>

record runtime_view =
  rv_revision :: int
  rv_desired :: "string option"
  rv_observed :: "string option"
  rv_token :: "string option"

definition truthy_str :: "json \<Rightarrow> string option" where
  "truthy_str v = (if truthy v then Some (py_str v) else None)"

definition runtime_view :: "dict option \<Rightarrow> runtime_view" where
  "runtime_view metrics =
     (let c = contract metrics in
      \<lparr>rv_revision = nonnegative_int (jget ''stateRevision'' c),
       rv_desired = truthy_str (jget ''desiredState'' c),
       rv_observed = truthy_str (jget ''observedState'' c),
       rv_token = fencing_token c metrics\<rparr>)"

datatype runtime_event =
    RuntimeCommand ContinuousCommandTransition "string option"
  | WorkerBound "string option"
  | Observation string string "string option"
  | ErrorRaised request_context error_report
  | ErrorCleared

primrec runtime_event_step :: "runtime_event \<Rightarrow> dict option \<Rightarrow> dict res" where
  "runtime_event_step (RuntimeCommand tr w) m = record_runtime_command m tr w"
| "runtime_event_step (WorkerBound w) m = Inr (bind_worker_attempt m w)"
| "runtime_event_step (Observation obs dflt w) m = record_runtime_observation m obs dflt w"
| "runtime_event_step (ErrorRaised rc r) m = record_runtime_error rc m r"
| "runtime_event_step ErrorCleared m = Inr (clear_runtime_error m)"

fun runtime_events :: "runtime_event list \<Rightarrow> dict option \<Rightarrow> dict option res" where
  "runtime_events [] m = Inr m"
| "runtime_events (e # es) m = bind_res (runtime_event_step e m) (\<lambda>d. runtime_events es (Some d))"

text \<open>A token that is not blank replaces the fence; a blank one lifts it; none leaves it.\<close>

definition new_token :: "string option \<Rightarrow> string option \<Rightarrow> string option" where
  "new_token w t = (if opt_text w = [] then t else nonempty (py_strip (opt_text w)))"

primrec view_step :: "runtime_event \<Rightarrow> runtime_view \<Rightarrow> runtime_view res" where
  "view_step (RuntimeCommand tr w) v =
     (if ct_allowed tr
      then Inr \<lparr>rv_revision = rv_revision v + 1,
                rv_desired = Some (desired_value (ct_desired_state tr)),
                rv_observed = (case rv_observed v of
                    Some s \<Rightarrow> Some s
                  | None \<Rightarrow> Some (observed_value (observed_state_from_evidence (Some (ct_current_status tr)) None))),
                rv_token = new_token w (rv_token v)\<rparr>
      else Inl (ValueError (''Cannot record rejected Continuous command: '' @ py_str (of_opt_str (ct_rejection tr)))))"
| "view_step (WorkerBound w) v = Inr (v\<lparr>rv_token := new_token w (rv_token v)\<rparr>)"
| "view_step (Observation obs dflt w) v =
     bind_res (observed_res obs) (\<lambda>observed.
     Inr (v\<lparr>rv_desired := (case rv_desired v of
                Some s \<Rightarrow> Some s
              | None \<Rightarrow> Some (desired_value (desired_state_from_public_status dflt))),
            rv_observed := Some (observed_value observed),
            rv_token := new_token w (rv_token v)\<rparr>))"
| "view_step (ErrorRaised rc r) v = bind_res (stage_res (er_stage r)) (\<lambda>_. Inr v)"
| "view_step ErrorCleared v = Inr v"

subsection \<open>Facts about the documents\<close>

lemma contract_None [simp]: "contract None = []"
  by (simp add: contract_def)

lemma contract_store [simp]: "contract (Some (jset RUNTIME_CONTRACT_KEY (JObj c) m)) = c"
  by (simp add: contract_def)

lemma metrics_dict_simps [simp]: "metrics_dict None = []" "metrics_dict (Some m) = m"
  by (simp_all add: metrics_dict_def)

lemma keys_distinct [simp]:
  "RUNTIME_CONTRACT_KEY \<noteq> ''currentWorkerAttemptId''" "''currentWorkerAttemptId'' \<noteq> RUNTIME_CONTRACT_KEY"
  by (simp_all add: RUNTIME_CONTRACT_KEY_def)

lemma jmerge_simps [simp]:
  "jmerge d [] = d"
  "jmerge d ((k, v) # e) = jmerge (jset k v d) e"
  by (simp_all add: jmerge_def)

lemma value_not_Nil [simp]: "desired_value d \<noteq> []" "observed_value ob \<noteq> []" "stage_value st \<noteq> []"
    apply (cases d; simp)
   apply (cases ob; simp)
  apply (cases st; simp)
  done

lemma truthy_JStr [simp]: "truthy (JStr s) \<longleftrightarrow> s \<noteq> []"
  by simp

lemma nonnegative_int_ge [simp]: "0 \<le> nonnegative_int v"
  by (simp add: nonnegative_int_def split: sum.splits)

lemma nonnegative_int_JInt [simp]: "0 \<le> n \<Longrightarrow> nonnegative_int (JInt n) = n"
  by (simp add: nonnegative_int_def por_def)

lemma truthy_str_por [simp]:
  "s \<noteq> [] \<Longrightarrow> truthy_str (por v (JStr s)) = (case truthy_str v of Some t \<Rightarrow> Some t | None \<Rightarrow> Some s)"
  by (simp add: truthy_str_def por_def)

lemma truthy_str_JStr [simp]: "s \<noteq> [] \<Longrightarrow> truthy_str (JStr s) = Some s"
  by (simp add: truthy_str_def)

lemma clean_str_JStr [simp]: "clean_str (JStr s) = py_strip s"
  by (cases s) (simp_all add: clean_str_def por_def)

lemma nonempty_eq [simp]:
  "nonempty s = None \<longleftrightarrow> s = []"
  "nonempty s = Some t \<longleftrightarrow> t = s \<and> s \<noteq> []"
  by (auto simp: nonempty_def)

lemma fencing_token_stripped: "fencing_token c m = Some t \<Longrightarrow> t \<noteq> [] \<and> py_strip t = t"
  by (auto simp: fencing_token_def Let_def clean_str_def)

subsection \<open>Every operation refines its abstract counterpart\<close>

lemma contract_store_contract [simp]: "contract (Some (store_contract cm)) = fst cm"
  by (simp add: store_contract_def)

lemma fence_keeps [simp]:
  "k \<noteq> ''activeWorkerAttemptId'' \<Longrightarrow> jget k (fst (fence token c m)) = jget k c"
  by (simp add: fence_def split: option.splits)

lemma fencing_token_cong:
  assumes "jget ''activeWorkerAttemptId'' c = jget ''activeWorkerAttemptId'' c'"
    and "jget ''currentWorkerAttemptId'' (metrics_dict m) = jget ''currentWorkerAttemptId'' (metrics_dict m')"
  shows "fencing_token c m = fencing_token c' m'"
proof -
  have N: "nonempty (clean_str v) = None" if "\<not> truthy v" for v
    using that by (simp add: clean_str_def por_def)
  have "fencing_token c m =
      nonempty (clean_str (por (jget ''activeWorkerAttemptId'' c) (jget ''currentWorkerAttemptId'' (metrics_dict m))))"
    for c m
    by (cases m) (auto simp: fencing_token_def Let_def por_def N clean_str_def)
  then show ?thesis using assms by simp
qed

lemma fencing_token_active:
  "w \<noteq> [] \<Longrightarrow> jget ''activeWorkerAttemptId'' c = JStr w \<Longrightarrow> fencing_token c m = nonempty (py_strip w)"
  by (simp add: fencing_token_def Let_def)

lemma fencing_token_fence:
  fixes w :: "string option"
  assumes "jget ''activeWorkerAttemptId'' c = jget ''activeWorkerAttemptId'' (contract m)"
  defines "cm \<equiv> fence (opt_or w (fencing_token (contract m) m)) c (metrics_dict m)"
  shows "fencing_token (fst cm) (Some (store_contract cm)) = new_token w (fencing_token (contract m) m)"
proof (cases "opt_or w (fencing_token (contract m) m)")
  case None
  then have w: "opt_text w = []" and t: "fencing_token (contract m) m = None"
    by (auto simp: opt_or_def opt_text_def split: if_splits)
  have "cm = (c, metrics_dict m)" using None by (simp add: cm_def fence_def)
  then have "fencing_token (fst cm) (Some (store_contract cm)) = fencing_token (contract m) m"
    using assms(1) by (intro fencing_token_cong) (simp_all add: store_contract_def)
  then show ?thesis using w by (simp add: new_token_def)
next
  case (Some v)
  have v: "v \<noteq> []" using Some fencing_token_stripped
    by (auto simp: opt_or_def opt_text_def split: if_splits option.splits)
  have "jget ''activeWorkerAttemptId'' (fst cm) = JStr v" using Some v by (simp add: cm_def fence_def)
  then have "fencing_token (fst cm) (Some (store_contract cm)) = nonempty (py_strip v)"
    using v by (rule fencing_token_active [rotated])
  moreover have "nonempty (py_strip v) = new_token w (fencing_token (contract m) m)"
    using Some fencing_token_stripped [of "contract m" m v]
    by (auto simp: opt_or_def new_token_def opt_text_def split: if_splits option.splits)
  ultimately show ?thesis by simp
qed

lemma runtime_view_sel:
  "rv_revision (runtime_view m) = nonnegative_int (jget ''stateRevision'' (contract m))"
  "rv_desired (runtime_view m) = truthy_str (jget ''desiredState'' (contract m))"
  "rv_observed (runtime_view m) = truthy_str (jget ''observedState'' (contract m))"
  "rv_token (runtime_view m) = fencing_token (contract m) m"
  by (simp_all add: runtime_view_def Let_def)

lemma runtime_view_eqI:
  "rv_revision a = rv_revision b \<Longrightarrow> rv_desired a = rv_desired b \<Longrightarrow> rv_observed a = rv_observed b
   \<Longrightarrow> rv_token a = rv_token b \<Longrightarrow> a = (b :: runtime_view)"
  by simp

lemma command_refines:
  "map_sum id (\<lambda>d. runtime_view (Some d)) (record_runtime_command m tr w) =
   view_step (RuntimeCommand tr w) (runtime_view m)"
  by (auto simp: record_runtime_command_def Let_def runtime_view_sel fencing_token_fence
      intro!: runtime_view_eqI)

lemma observation_refines:
  "map_sum id (\<lambda>d. runtime_view (Some d)) (record_runtime_observation m obs dflt w) =
   view_step (Observation obs dflt w) (runtime_view m)"
  by (cases "observed_res obs")
    (auto simp: record_runtime_observation_def Let_def runtime_view_sel fencing_token_fence
      intro!: runtime_view_eqI)

lemma bind_refines:
  "runtime_view (Some (bind_worker_attempt m w)) = (runtime_view m)\<lparr>rv_token := new_token w (rv_token (runtime_view m))\<rparr>"
proof (cases "opt_text w = []")
  case True
  have c: "contract (Some (metrics_dict m)) = contract m" by (cases m) (simp_all add: contract_def)
  show ?thesis using True c
    by (auto simp: bind_worker_attempt_def runtime_view_sel new_token_def
        intro!: runtime_view_eqI fencing_token_cong)
next
  case False
  then show ?thesis
    by (auto simp: bind_worker_attempt_def Let_def runtime_view_sel new_token_def fencing_token_active
        intro!: runtime_view_eqI)
qed

lemma error_entry_keeps_view:
  assumes "\<And>k. k \<noteq> ''lastError'' \<Longrightarrow> k \<noteq> ''version'' \<Longrightarrow> jget k c = jget k (contract m)"
  shows "runtime_view (Some (jset RUNTIME_CONTRACT_KEY (JObj c) (metrics_dict m))) = runtime_view m"
proof -
  have "fencing_token c (Some (jset RUNTIME_CONTRACT_KEY (JObj c) (metrics_dict m))) = fencing_token (contract m) m"
    by (rule fencing_token_cong) (simp_all add: assms)
  then show ?thesis by (intro runtime_view_eqI) (simp_all add: runtime_view_sel assms)
qed

lemma runtime_event_refines:
  "map_sum id (\<lambda>d. runtime_view (Some d)) (runtime_event_step e m) = view_step e (runtime_view m)"
proof (cases e)
  case (ErrorRaised rc r)
  then show ?thesis
    by (cases "stage_res (er_stage r)")
      (simp_all add: record_runtime_error_def Let_def error_entry_keeps_view)
next
  case ErrorCleared
  then show ?thesis by (simp add: clear_runtime_error_def error_entry_keeps_view)
qed (simp_all add: command_refines observation_refines bind_refines)

subsection \<open>Runs of the contract\<close>

fun view_events :: "runtime_event list \<Rightarrow> runtime_view \<Rightarrow> runtime_view res" where
  "view_events [] v = Inr v"
| "view_events (e # es) v = bind_res (view_step e v) (view_events es)"

primrec is_command :: "runtime_event \<Rightarrow> bool" where
  "is_command (RuntimeCommand tr w) = True"
| "is_command (WorkerBound w) = False"
| "is_command (Observation obs dflt w) = False"
| "is_command (ErrorRaised rc r) = False"
| "is_command ErrorCleared = False"

primrec event_attempt :: "runtime_event \<Rightarrow> string option" where
  "event_attempt (RuntimeCommand tr w) = w"
| "event_attempt (WorkerBound w) = w"
| "event_attempt (Observation obs dflt w) = w"
| "event_attempt (ErrorRaised rc r) = None"
| "event_attempt ErrorCleared = None"

lemma view_step_cases:
  assumes "view_step e v = Inr v'"
  shows "rv_revision v' = rv_revision v + (if is_command e then 1 else 0)"
    and "rv_token v' = new_token (event_attempt e) (rv_token v)"
    and "\<not> is_command e \<Longrightarrow> rv_desired v \<noteq> None \<Longrightarrow> rv_desired v' = rv_desired v"
  using assms by (cases e; auto simp: bind_res_Inr_iff new_token_def opt_text_def split: if_splits)+

lemma view_events_append:
  "view_events (es @ fs) v = bind_res (view_events es v) (view_events fs)"
proof (induction es arbitrary: v)
  case (Cons e es)
  then show ?case by (cases "view_step e v") simp_all
qed simp

lemma view_events_revision:
  "view_events es v = Inr v' \<Longrightarrow> rv_revision v' = rv_revision v + int (length (filter is_command es))"
  by (induction es arbitrary: v) (auto simp: bind_res_Inr_iff dest!: view_step_cases(1))

lemma view_events_token:
  "view_events es v = Inr v' \<Longrightarrow> rv_token v' = foldl (\<lambda>t e. new_token (event_attempt e) t) (rv_token v) es"
  by (induction es arbitrary: v) (auto simp: bind_res_Inr_iff dest!: view_step_cases(2))

lemma view_events_desired:
  "view_events es v = Inr v' \<Longrightarrow> filter is_command es = [] \<Longrightarrow> rv_desired v \<noteq> None \<Longrightarrow> rv_desired v' = rv_desired v"
proof (induction es arbitrary: v)
  case (Cons e es)
  then obtain u where u: "view_step e v = Inr u" "view_events es u = Inr v'" by (auto simp: bind_res_Inr_iff)
  have "rv_desired u = rv_desired v"
    using view_step_cases(3) [OF u(1)] Cons.prems by (auto split: if_splits)
  then show ?case using Cons.IH [OF u(2)] Cons.prems by (simp split: if_splits)
qed simp

text \<open>The events that raise nothing: accepted commands, and states and stages the enumerations know.\<close>

primrec event_ok :: "runtime_event \<Rightarrow> bool" where
  "event_ok (RuntimeCommand tr w) = ct_allowed tr"
| "event_ok (WorkerBound w) = True"
| "event_ok (Observation obs dflt w) = (obs \<in> set (map observed_value observed_members))"
| "event_ok (ErrorRaised rc r) = (er_stage r \<in> set (map stage_value stage_members))"
| "event_ok ErrorCleared = True"

lemma enum_res_total: "v \<in> set (map val members) \<Longrightarrow> \<exists>e. enum_res name val members v = Inr e"
  by (auto simp: enum_res_def enum_of_def find_None_iff split: option.splits)

lemma runtime_event_total:
  assumes "event_ok e"
  shows "\<exists>d. runtime_event_step e m = Inr d"
proof (cases e)
  case (Observation obs dflt w)
  with assms obtain ob where "observed_res obs = Inr ob"
    using enum_res_total [of obs observed_value observed_members] by (auto simp: observed_res_def simp del: set_map)
  then show ?thesis using Observation by (simp add: record_runtime_observation_def Let_def)
next
  case (ErrorRaised rc r)
  with assms obtain st where "stage_res (er_stage r) = Inr st"
    using enum_res_total [of "er_stage r" stage_value stage_members] by (auto simp: stage_res_def simp del: set_map)
  then show ?thesis using ErrorRaised by (simp add: record_runtime_error_def Let_def)
qed (use assms in \<open>auto simp: record_runtime_command_def Let_def\<close>)

lemma runtime_events_total: "list_all event_ok es \<Longrightarrow> \<exists>m'. runtime_events es m = Inr m'"
proof (induction es arbitrary: m)
  case (Cons e es)
  then obtain d where "runtime_event_step e m = Inr d" using runtime_event_total [of e m] by auto
  then show ?case using Cons by auto
qed simp

text \<open>Once a command or an observation has been recorded, the version is there for good.\<close>

definition versioned :: "dict option \<Rightarrow> bool" where
  "versioned m \<longleftrightarrow> jget ''version'' (contract m) = JStr RUNTIME_CONTRACT_VERSION"

lemma runtime_event_versioned:
  assumes "runtime_event_step e m = Inr d" and "is_command e \<or> versioned m"
  shows "versioned (Some d)"
proof (cases e)
  case (WorkerBound w)
  have "contract (Some (metrics_dict m)) = contract m" by (cases m) (simp_all add: contract_def)
  then show ?thesis using WorkerBound assms by (auto simp: bind_worker_attempt_def Let_def versioned_def)
qed (use assms in \<open>auto simp: record_runtime_command_def record_runtime_observation_def
    record_runtime_error_def clear_runtime_error_def Let_def bind_res_Inr_iff versioned_def split: if_splits\<close>)

lemma runtime_events_append:
  "runtime_events (es @ fs) m = bind_res (runtime_events es m) (runtime_events fs)"
proof (induction es arbitrary: m)
  case (Cons e es)
  then show ?case by (cases "runtime_event_step e m") simp_all
qed simp

lemma runtime_events_versioned: "runtime_events es m = Inr m' \<Longrightarrow> versioned m \<Longrightarrow> versioned m'"
  by (induction es arbitrary: m) (auto simp: bind_res_Inr_iff dest: runtime_event_versioned)

lemma runtime_events_version:
  assumes "runtime_events (es @ RuntimeCommand tr w # fs) m = Inr m'"
  shows "jget ''version'' (contract m') = JStr RUNTIME_CONTRACT_VERSION"
proof -
  obtain u d where "runtime_event_step (RuntimeCommand tr w) u = Inr d" "runtime_events fs (Some d) = Inr m'"
    using assms by (auto simp: runtime_events_append bind_res_Inr_iff simp del: runtime_event_step.simps)
  then show ?thesis using runtime_events_versioned runtime_event_versioned
    by (metis is_command.simps(1) versioned_def)
qed

lemma new_token_idle: "\<forall>e \<in> set es. opt_text (event_attempt e) = [] \<Longrightarrow>
    foldl (\<lambda>t e. new_token (event_attempt e) t) t es = t"
  by (induction es) (simp_all add: new_token_def)

lemmas text_evals = normalized_def py_lower_def py_strip_def py_space_def char_code_def lower_char_def is_upper_def

lemma enum_value_member:
  "enum_value desired_value desired_members (JStr (desired_value d)) fb = desired_value d"
  "enum_value observed_value observed_members (JStr (observed_value ob)) fb = observed_value ob"
   apply (cases d; simp add: enum_value_def enum_of_def desired_members_def text_evals)
  apply (cases ob; simp add: enum_value_def enum_of_def observed_members_def text_evals)
  done

text \<open>C3. Every sequence of commands, worker bindings, observations and error reports on a runtime's metrics
  document behaves like the same sequence on the four-field view (revision, desired state, observed
  state, fencing token), raising the same exceptions at the same points, whatever document it starts
  from.\<close>

theorem runtime_contract_refines_view:
  "map_sum id runtime_view (runtime_events es m) = view_events es (runtime_view m)"
proof (induction es arbitrary: m)
  case (Cons e es)
  show ?case
  proof (cases "runtime_event_step e m")
    case (Inl err)
    then show ?thesis using runtime_event_refines [of e m] by (simp add: eq_commute [of "Inl err"])
  next
    case (Inr d)
    then have "view_step e (runtime_view m) = Inr (runtime_view (Some d))"
      using runtime_event_refines [of e m] by simp
    then show ?thesis using Cons.IH [of "Some d"] Inr by simp
  qed
qed simp

lemma runtime_events_view:
  assumes "runtime_events es m = Inr m'"
  shows "view_events es (runtime_view m) = Inr (runtime_view m')"
  using assms
proof (induction es arbitrary: m)
  case (Cons e es)
  then obtain d where d: "runtime_event_step e m = Inr d" "runtime_events es (Some d) = Inr m'"
    by (auto simp: bind_res_Inr_iff)
  then show ?case using Cons.IH runtime_event_refines [of e m, symmetric] by simp
qed simp

text \<open>A contract built from nothing records its history: the projected revision is the number of commands
  accepted, the projected desired state is that of the last command, and the projected fencing token
  is the last worker attempt id given, stripped.\<close>

theorem contract_tracks_history:
  assumes "runtime_events (es @ RuntimeCommand tr w # fs) None = Inr m"
    and "filter is_command fs = []"
  shows "jget ''stateRevision'' (runtime_contract_projection m ps le) = JInt (int (length (filter is_command es)) + 1)
    \<and> jget ''desiredState'' (runtime_contract_projection m ps le) = JStr (desired_value (ct_desired_state tr))
    \<and> jget ''fencingToken'' (runtime_contract_projection m ps le) =
      of_opt_str (foldl (\<lambda>t e. new_token (event_attempt e) t) None (es @ RuntimeCommand tr w # fs))
    \<and> runtime_contract_initialized m"
proof -
  have v: "view_events (es @ RuntimeCommand tr w # fs) (runtime_view None) = Inr (runtime_view m)"
    using assms(1) by (rule runtime_events_view)
  have v0: "rv_revision (runtime_view None) = 0" "rv_token (runtime_view None) = None"
    by (simp_all add: runtime_view_sel nonnegative_int_def por_def fencing_token_def clean_str_def)
  have rev: "rv_revision (runtime_view m) = int (length (filter is_command es)) + 1"
    using view_events_revision [OF v] v0 assms(2) by simp
  have tok: "rv_token (runtime_view m) =
      foldl (\<lambda>t e. new_token (event_attempt e) t) None (es @ RuntimeCommand tr w # fs)"
    using view_events_token [OF v] v0 by simp
  obtain u u' where u: "view_step (RuntimeCommand tr w) u = Inr u'" "view_events fs u' = Inr (runtime_view m)"
    using v by (auto simp: view_events_append bind_res_Inr_iff simp del: view_step.simps)
  then have "rv_desired u' = Some (desired_value (ct_desired_state tr))" by (auto split: if_splits)
  then have des: "rv_desired (runtime_view m) = Some (desired_value (ct_desired_state tr))"
    using view_events_desired [OF u(2) assms(2)] by simp
  then have dj: "truthy (jget ''desiredState'' (contract m))"
    "py_str (jget ''desiredState'' (contract m)) = desired_value (ct_desired_state tr)"
    by (auto simp: runtime_view_sel truthy_str_def split: if_splits)
  have "enum_value desired_value desired_members (jget ''desiredState'' (contract m)) fb =
      enum_value desired_value desired_members (JStr (desired_value (ct_desired_state tr))) fb" for fb
    using dj by (simp add: enum_value_def clean_str_def por_def)
  then have "jget ''desiredState'' (runtime_contract_projection m ps le) = JStr (desired_value (ct_desired_state tr))"
    by (simp add: runtime_contract_projection_def Let_def enum_value_member)
  moreover have "jget ''stateRevision'' (runtime_contract_projection m ps le) = JInt (int (length (filter is_command es)) + 1)"
    using rev by (simp add: runtime_contract_projection_def Let_def runtime_view_sel)
  moreover have "jget ''fencingToken'' (runtime_contract_projection m ps le) =
      of_opt_str (foldl (\<lambda>t e. new_token (event_attempt e) t) None (es @ RuntimeCommand tr w # fs))"
    using tok by (simp add: runtime_contract_projection_def Let_def runtime_view_sel)
  moreover have "runtime_contract_initialized m"
    using dj(1) runtime_events_version [OF assms(1)] by (simp add: runtime_contract_initialized_def)
  ultimately show ?thesis by simp
qed

theorem contract_tracks_history_witness:
  "\<exists>m. runtime_events
        [RuntimeCommand (command_transition ''stopped'' ''startContinuous'') (Some ''start-1''),
         Observation ''running'' ''starting'' (Some ''container-1''),
         RuntimeCommand (command_transition ''running'' ''pauseContinuous'') None,
         Observation ''stopping'' ''pausing'' None] None = Inr m
     \<and> jget ''stateRevision'' (runtime_contract_projection m ''pausing'' None) = JInt 2
     \<and> jget ''desiredState'' (runtime_contract_projection m ''pausing'' None) = JStr ''paused''
     \<and> jget ''fencingToken'' (runtime_contract_projection m ''pausing'' None) = JStr ''container-1''"
proof -
  define es where "es = [RuntimeCommand (command_transition ''stopped'' ''startContinuous'') (Some ''start-1''),
      Observation ''running'' ''starting'' (Some ''container-1'')]"
  define fs where "fs = [Observation ''stopping'' ''pausing'' None]"
  define tr where "tr = command_transition ''running'' ''pauseContinuous''"
  have "list_all event_ok (es @ RuntimeCommand tr None # fs)"
    unfolding es_def fs_def tr_def by code_simp
  then obtain m where m: "runtime_events (es @ RuntimeCommand tr None # fs) None = Inr m"
    using runtime_events_total by blast
  have tok: "foldl (\<lambda>t e. new_token (event_attempt e) t) None (es @ RuntimeCommand tr None # fs) = Some ''container-1''"
    unfolding es_def fs_def tr_def by code_simp
  have len: "length (filter is_command es) = 1" unfolding es_def by code_simp
  have des: "desired_value (ct_desired_state tr) = ''paused''" unfolding tr_def by code_simp
  have "filter is_command fs = []" by (simp add: fs_def)
  note history = contract_tracks_history [OF m this, of "''pausing''" None, unfolded tok len des]
  have "jget ''stateRevision'' (runtime_contract_projection m ''pausing'' None) = JInt 2"
    and "jget ''desiredState'' (runtime_contract_projection m ''pausing'' None) = JStr ''paused''"
    and "jget ''fencingToken'' (runtime_contract_projection m ''pausing'' None) = JStr ''container-1''"
    using history by (simp_all add: of_opt_str_def)
  then show ?thesis using m unfolding es_def fs_def tr_def append_Cons append_Nil by blast
qed

text \<open>C12. The fencing token does its work: after a worker attempt id has been recorded, and as long as no other
  id is recorded, a report counts as current exactly when it names no attempt or names that one.\<close>

theorem stale_worker_is_fenced:
  assumes "runtime_events (es @ e # fs) m = Inr m'"
    and "event_attempt e = Some w" and "py_strip w \<noteq> []"
    and "\<forall>f \<in> set fs. opt_text (event_attempt f) = []"
  shows "observation_is_current m' x \<longleftrightarrow> py_strip (opt_text x) = [] \<or> py_strip (opt_text x) = py_strip w"
proof -
  have "w \<noteq> []" using assms(3) by auto
  then have "rv_token (runtime_view m') = Some (py_strip w)"
    using view_events_token [OF runtime_events_view [OF assms(1)]] assms(2,3,4)
    by (simp add: new_token_idle) (simp add: new_token_def opt_text_def)
  then show ?thesis by (auto simp: observation_is_current_def Let_def runtime_view_sel)
qed

theorem stale_worker_is_fenced_witness:
  "\<exists>m. runtime_events
        [RuntimeCommand (command_transition ''stopped'' ''startContinuous'') (Some ''start-1''),
         Observation ''starting'' ''starting'' None] None = Inr m
     \<and> \<not> observation_is_current m (Some ''start-0'') \<and> observation_is_current m (Some ''start-1'')
     \<and> observation_is_current m None"
proof -
  define e where "e = RuntimeCommand (command_transition ''stopped'' ''startContinuous'') (Some ''start-1'')"
  define fs where "fs = [Observation ''starting'' ''starting'' None]"
  have "list_all event_ok ([] @ e # fs)" unfolding e_def fs_def by code_simp
  then obtain m where m: "runtime_events ([] @ e # fs) None = Inr m"
    using runtime_events_total by blast
  have w: "event_attempt e = Some ''start-1''" "py_strip ''start-1'' \<noteq> []" "py_strip ''start-0'' \<noteq> []"
    "py_strip ''start-0'' \<noteq> py_strip ''start-1''"
    unfolding e_def by code_simp+
  have "\<forall>f \<in> set fs. opt_text (event_attempt f) = []" by (simp add: fs_def opt_text_def)
  note fenced = stale_worker_is_fenced [OF m w(1,2) this]
  have "\<not> observation_is_current m (Some ''start-0'')" and "observation_is_current m (Some ''start-1'')"
    and "observation_is_current m None"
    using w(3,4) unfolding fenced by (simp_all only: opt_text_def option.case py_strip_Nil simp_thms)
  then show ?thesis using m unfolding e_def fs_def append_Nil by blast
qed

text \<open>Reading a public status as intent and evidence loses nothing: the desired state and the observed
  state recovered from any public status derive that status again, whatever the container says.\<close>

theorem public_status_roundtrip:
  "derive_public_status (desired_value (desired_state_from_public_status (public_value p)))
     (observed_value (observed_state_from_evidence (Some (public_value p)) container)) = Inr p"
  by (cases p)
    (simp_all add: derive_public_status_def desired_state_from_public_status_def
      observed_state_from_evidence_def desired_res_def observed_res_def enum_res_def enum_of_def
      desired_members_def observed_members_def public_status_of_def opt_text_def text_evals)

end
