(* ===== verification/Continuous_Control.thy ===== *)
theory Continuous_Control
  imports Continuous_Runtime Store
begin

section \<open>State and repository of the Continuous control plane\<close>

text \<open>
  The rows the Continuous use cases work on (\<open>models/etl.py\<close>) and the functions of
  \<open>repositories/etl_repository.py\<close> they call. A use case holds the job and its runtime as in-memory
  objects (\<open>c_job\<close>, \<open>c_runtime\<close>), writes them with \<open>save_kafka_continuous_command\<close>, and talks to the worker
  and to other services, which act on the rest \<open>c_world\<close> of the world. The trace \<open>c_trace\<close> records, newest
  first, every commit and every call of the worker, so that their order can be stated.

  The list \<open>c_runtimes\<close> is the table of runtimes, most recently updated first; \<open>c_snapshots\<close> is the table of
  Kafka snapshots, most recently created first; \<open>c_sessions\<close> holds the sessions, most recently started first.
\<close>

record etl_job =
  j_id :: string
  j_execution_mode :: string
  j_status :: string
  j_last_state :: string
  j_progress :: "dict option"

record runtime_row =
  rt_job_id :: string
  rt_broker :: string
  rt_topic :: string
  rt_consumer_group_id :: string
  rt_checkpoint_path :: string
  rt_status :: string
  rt_heartbeat_at :: "string option"
  rt_last_flush_at :: "string option"
  rt_last_batch_id :: "string option"
  rt_lag :: "int option"
  rt_metrics :: "dict option"
  rt_schema_state :: "dict option"
  rt_consumed_count :: int
  rt_stored_count :: int
  rt_quarantined_count :: int
  rt_failed_count :: int
  rt_last_error :: "string option"

record snapshot_row =
  sn_snapshot_id :: string
  sn_job_id :: "string option"
  sn_topic :: string
  sn_consumer_group_id :: string
  sn_status :: string
  sn_snapshot :: dict

record session_row =
  se_session_id :: string
  se_job_id :: string
  se_worker_attempt_id :: "string option"
  se_status :: string
  se_started_at :: string
  se_ended_at :: "string option"
  se_end_reason :: "string option"
  se_checkpoint_path :: string
  se_baseline_counts :: dict
  se_failed_count :: int
  se_last_error :: "string option"

datatype control_event =
    Saved etl_job runtime_row
  | WorkerCalled string "dict option"

record 'w control =
  c_job :: etl_job
  c_runtime :: runtime_row
  c_runtimes :: "runtime_row list"
  c_snapshots :: "snapshot_row list"
  c_sessions :: "session_row list"
  c_trace :: "control_event list"
  c_world :: 'w

type_synonym 'w worker = "etl_job \<Rightarrow> runtime_row \<Rightarrow> string \<Rightarrow> dict option \<Rightarrow> ('w, dict) op"

subsection \<open>Access to the in-memory objects\<close>

definition set_runtime :: "(runtime_row \<Rightarrow> runtime_row) \<Rightarrow> ('w control, unit) op" where
  "set_runtime f = write_op (\<lambda>s. s\<lparr>c_runtime := f (c_runtime s)\<rparr>)"

definition set_job :: "(etl_job \<Rightarrow> etl_job) \<Rightarrow> ('w control, unit) op" where
  "set_job f = write_op (\<lambda>s. s\<lparr>c_job := f (c_job s)\<rparr>)"

text \<open>\<open>runtime.metrics = f(runtime.metrics)\<close>, for a function that may raise.\<close>

definition put_metrics :: "(dict option \<Rightarrow> dict res) \<Rightarrow> ('w control, unit) op" where
  "put_metrics f = (\<lambda>s.
     case f (rt_metrics (c_runtime s)) of
       Inl e \<Rightarrow> (Inl e, s)
     | Inr d \<Rightarrow> (Inr (), s\<lparr>c_runtime := (c_runtime s)\<lparr>rt_metrics := Some d\<rparr>\<rparr>))"

definition merge_metrics :: "dict \<Rightarrow> ('w control, unit) op" where
  "merge_metrics entries = put_metrics (\<lambda>m. Inr (jmerge (metrics_dict m) entries))"

definition in_world :: "('w, 'a) op \<Rightarrow> ('w control, 'a) op" where
  "in_world m = (\<lambda>s. case m (c_world s) of (r, w) \<Rightarrow> (r, s\<lparr>c_world := w\<rparr>))"

definition call_worker :: "'w worker \<Rightarrow> string \<Rightarrow> dict option \<Rightarrow> ('w control, dict) op" where
  "call_worker worker action options =
     bind_op (write_op (\<lambda>s. s\<lparr>c_trace := WorkerCalled action options # c_trace s\<rparr>)) (\<lambda>_ s.
     in_world (worker (c_job s) (c_runtime s) action options) s)"

text \<open>\<open>_optional_string(value)\<close>\<close>

definition optional_string :: "json \<Rightarrow> string option" where
  "optional_string v = nonempty (clean_str v)"

text \<open>\<open>str(d.get(key) or default)\<close>\<close>

definition str_field :: "string \<Rightarrow> dict \<Rightarrow> string \<Rightarrow> string" where
  "str_field k d dflt = py_str (por (jget k d) (JStr dflt))"

text \<open>Assignments to the attributes of a session object.\<close>

definition set_session :: "string \<Rightarrow> (session_row \<Rightarrow> session_row) \<Rightarrow> ('w control, unit) op" where
  "set_session sid f = write_op (\<lambda>s. s\<lparr>c_sessions := update_where (\<lambda>x. se_session_id x = sid) f (c_sessions s)\<rparr>)"

subsection \<open>The repository\<close>

definition save_row :: "runtime_row \<Rightarrow> runtime_row list \<Rightarrow> runtime_row list" where
  "save_row r rows = (if r \<in> set rows then rows else r # filter (\<lambda>x. rt_job_id x \<noteq> rt_job_id r) rows)"

definition save_kafka_continuous_command :: "('w control, unit) op" where
  "save_kafka_continuous_command = write_op (\<lambda>s.
     s\<lparr>c_runtimes := save_row (c_runtime s) (c_runtimes s),
       c_trace := Saved (c_job s) (c_runtime s) # c_trace s\<rparr>)"

definition find_conflicting_kafka_continuous_runtime ::
  "string \<Rightarrow> string \<Rightarrow> string \<Rightarrow> string \<Rightarrow> runtime_row list \<Rightarrow> runtime_row option" where
  "find_conflicting_kafka_continuous_runtime broker topic consumer_group_id excluded_job_id rows =
     find (\<lambda>r. rt_job_id r \<noteq> excluded_job_id \<and> rt_broker r = broker \<and> rt_topic r = topic
       \<and> rt_consumer_group_id r = consumer_group_id
       \<and> rt_status r \<in> {''starting'', ''running'', ''pausing'', ''stopping''}) rows"

definition find_conflicting_kafka_snapshot ::
  "string \<Rightarrow> string \<Rightarrow> string \<Rightarrow> string option \<Rightarrow> snapshot_row list \<Rightarrow> snapshot_row option" where
  "find_conflicting_kafka_snapshot broker topic consumer_group_id excluded_job_id rows =
     find (\<lambda>s. \<not> (excluded_job_id \<noteq> None \<and> sn_job_id s = excluded_job_id)
       \<and> (let b = py_str (por (jget ''broker'' (sn_snapshot s)) (JStr [])) in b = [] \<or> b = broker))
       (filter (\<lambda>s. sn_topic s = topic \<and> sn_consumer_group_id s = consumer_group_id
          \<and> sn_status s = ''running'') rows)"

definition get_kafka_continuous_session :: "string \<Rightarrow> session_row list \<Rightarrow> session_row option" where
  "get_kafka_continuous_session session_id rows = lookup_key se_session_id session_id rows"

definition get_latest_active_kafka_continuous_session :: "string \<Rightarrow> session_row list \<Rightarrow> session_row option" where
  "get_latest_active_kafka_continuous_session job_id rows =
     find (\<lambda>x. se_job_id x = job_id \<and> se_status x \<in> {''starting'', ''running'', ''stopping''}) rows"

subsection \<open>Facts\<close>

definition rt_identity :: "runtime_row \<Rightarrow> string \<times> string \<times> string \<times> string" where
  "rt_identity r = (rt_job_id r, rt_broker r, rt_topic r, rt_consumer_group_id r)"

lemma set_runtime_iff [op_elims]:
  "set_runtime f s = (Inr u, t) \<longleftrightarrow> t = s\<lparr>c_runtime := f (c_runtime s)\<rparr>"
  by (auto simp: set_runtime_def op_elims)

lemma set_job_iff [op_elims]: "set_job f s = (Inr u, t) \<longleftrightarrow> t = s\<lparr>c_job := f (c_job s)\<rparr>"
  by (auto simp: set_job_def op_elims)

lemma put_metrics_iff [op_elims]:
  "put_metrics f s = (Inr u, t) \<longleftrightarrow>
     (\<exists>d. f (rt_metrics (c_runtime s)) = Inr d
       \<and> t = s\<lparr>c_runtime := (c_runtime s)\<lparr>rt_metrics := Some d\<rparr>\<rparr>)"
  by (auto simp: put_metrics_def split: sum.splits)

lemma merge_metrics_iff [op_elims]:
  "merge_metrics entries s = (Inr u, t) \<longleftrightarrow>
     t = s\<lparr>c_runtime := (c_runtime s)\<lparr>rt_metrics := Some (jmerge (metrics_dict (rt_metrics (c_runtime s))) entries)\<rparr>\<rparr>"
  by (auto simp: merge_metrics_def op_elims)

lemma in_world_iff [op_elims]:
  "in_world m s = (Inr a, t) \<longleftrightarrow> (\<exists>w. m (c_world s) = (Inr a, w) \<and> t = s\<lparr>c_world := w\<rparr>)"
  by (auto simp: in_world_def split: prod.splits)

lemma save_iff [op_elims]:
  "save_kafka_continuous_command s = (Inr u, t) \<longleftrightarrow>
     t = s\<lparr>c_runtimes := save_row (c_runtime s) (c_runtimes s),
           c_trace := Saved (c_job s) (c_runtime s) # c_trace s\<rparr>"
  by (auto simp: save_kafka_continuous_command_def op_elims)

lemma call_worker_iff [op_elims]:
  "call_worker worker action options s = (Inr d, t) \<longleftrightarrow>
     (\<exists>w. worker (c_job s) (c_runtime s) action options (c_world s) = (Inr d, w)
       \<and> t = s\<lparr>c_trace := WorkerCalled action options # c_trace s, c_world := w\<rparr>)"
  by (auto simp: call_worker_def op_elims)

text \<open>Entries beside the contract leave the abstract view of the runtime alone.\<close>

lemma runtime_view_cong:
  assumes "contract m = contract m'"
    and "jget ''currentWorkerAttemptId'' (metrics_dict m) = jget ''currentWorkerAttemptId'' (metrics_dict m')"
  shows "runtime_view m = runtime_view m'"
proof -
  have "fencing_token (contract m) m = fencing_token (contract m') m'"
    by (rule fencing_token_cong) (simp_all only: assms)
  then show ?thesis by (intro runtime_view_eqI) (simp_all only: runtime_view_sel assms(1))
qed

lemma contract_metrics_dict [simp]: "contract (Some (metrics_dict m)) = contract m"
  by (cases m) (simp_all add: contract_def)

lemma contract_jset_other: "k \<noteq> RUNTIME_CONTRACT_KEY \<Longrightarrow> contract (Some (jset k v d)) = contract (Some d)"
  by (auto simp: contract_def)

lemma runtime_view_jset_other:
  "k \<noteq> RUNTIME_CONTRACT_KEY \<Longrightarrow> k \<noteq> ''currentWorkerAttemptId'' \<Longrightarrow>
   runtime_view (Some (jset k v (metrics_dict m))) = runtime_view m"
  by (rule runtime_view_cong) (simp_all add: contract_jset_other)

lemma find_conflicting_runtime_active:
  assumes "find_conflicting_kafka_continuous_runtime broker topic grp job rows = None"
    and "r \<in> set rows" and "rt_job_id r \<noteq> job"
    and "rt_broker r = broker" and "rt_topic r = topic" and "rt_consumer_group_id r = grp"
  shows "rt_status r \<notin> {''starting'', ''running'', ''pausing'', ''stopping''}"
  using assms by (auto simp: find_conflicting_kafka_continuous_runtime_def find_None_iff)

end
