(* ===== verification/Continuous_Reconciliation.thy ===== *)
theory Continuous_Reconciliation
  imports Continuous_Control
begin

section \<open>Reconciliation of Continuous runtimes\<close>

text \<open>
  \<open>application/continuous_reconciliation.py\<close>: one deterministic decision from the evidence about a runtime
  (\<open>decide_reconciliation\<close>), and the use case that gathers the evidence, applies a deferred terminal signal
  and carries the decision out. The hooks of the use case are the callbacks the source passes in; the
  worker and the hooks that only talk to other services act on the world, those that also change the
  job or the runtime are session code. The correlation id and \<open>str(exc)\<close> of an exception are in \<open>control_env\<close>.
  The database session is present (the \<open>db is None\<close> branches serve unit tests).
\<close>

subsection \<open>Evidence and decisions\<close>

datatype JsonDocumentState = DocFound | DocMissing | DocUnreadable | DocInvalid

primrec document_state_value :: "JsonDocumentState \<Rightarrow> string" where
  "document_state_value DocFound = ''found''"
| "document_state_value DocMissing = ''missing''"
| "document_state_value DocUnreadable = ''unreadable''"
| "document_state_value DocInvalid = ''invalid''"

record JsonDocument =
  doc_state :: JsonDocumentState
  doc_value :: "dict option"
  doc_error :: "string option"
  doc_line :: "int option"
  doc_column :: "int option"

datatype ReconciliationAction =
    ApplyReport | ApplyTerminalIntent | IgnoreStaleReport | RecoverPublication | RestartWorker
  | WaitForTerminalConfirmation | WaitForReport | RecordReportError

primrec action_value :: "ReconciliationAction \<Rightarrow> string" where
  "action_value ApplyReport = ''apply_report''"
| "action_value ApplyTerminalIntent = ''apply_terminal_intent''"
| "action_value IgnoreStaleReport = ''ignore_stale_report''"
| "action_value RecoverPublication = ''recover_publication''"
| "action_value RestartWorker = ''restart_worker''"
| "action_value WaitForTerminalConfirmation = ''wait_for_terminal_confirmation''"
| "action_value WaitForReport = ''wait_for_report''"
| "action_value RecordReportError = ''record_report_error''"

datatype ReconciliationCertainty = Confirmed | Uncertain

primrec certainty_value :: "ReconciliationCertainty \<Rightarrow> string" where
  "certainty_value Confirmed = ''confirmed''"
| "certainty_value Uncertain = ''uncertain''"

record RuntimeEvidence =
  ev_desired_state :: string
  ev_public_status :: string
  ev_container_state :: string
  ev_report_state :: JsonDocumentState
  ev_report_status :: "string option"
  ev_expected_attempt :: "string option"
  ev_observed_attempt :: "string option"
  ev_requested_action :: "string option"
  ev_publication_pending :: bool
  ev_contract_initialized :: bool
  ev_output_present :: "bool option"
  ev_manifest_present :: "bool option"
  ev_catalog_applied :: "bool option"
  ev_dashboard_applied :: "bool option"

record ReconciliationDecision =
  dc_action :: ReconciliationAction
  dc_certainty :: ReconciliationCertainty
  dc_reason :: string
  dc_terminal_status :: "string option"

definition decision ::
  "ReconciliationAction \<Rightarrow> ReconciliationCertainty \<Rightarrow> string \<Rightarrow> string option \<Rightarrow> ReconciliationDecision" where
  "decision a c r t = \<lparr>dc_action = a, dc_certainty = c, dc_reason = r, dc_terminal_status = t\<rparr>"

definition requested_terminal :: "RuntimeEvidence \<Rightarrow> string option" where
  "requested_terminal ev =
     (if ev_requested_action ev = Some ''pause'' then Some ''paused''
      else if ev_requested_action ev = Some ''stop'' then Some ''stopped''
      else None)"

definition terminal_intent_is_current :: "RuntimeEvidence \<Rightarrow> bool" where
  "terminal_intent_is_current ev \<longleftrightarrow>
     ev_desired_state ev \<noteq> ''running''
     \<and> (requested_terminal ev \<noteq> None
        \<or> ev_public_status ev \<in> {''pausing'', ''paused'', ''stopping'', ''stopped''})"

definition terminal_status_of :: "RuntimeEvidence \<Rightarrow> string" where
  "terminal_status_of ev =
     (case requested_terminal ev of
        Some t \<Rightarrow> t
      | None \<Rightarrow>
          if ev_public_status ev \<in> {''pausing'', ''paused''} \<or> ev_desired_state ev = ''paused''
          then ''paused'' else ''stopped'')"

definition attempts_differ :: "RuntimeEvidence \<Rightarrow> bool" where
  "attempts_differ ev \<longleftrightarrow>
     opt_text (ev_observed_attempt ev) \<noteq> [] \<and> opt_text (ev_expected_attempt ev) \<noteq> []
     \<and> ev_observed_attempt ev \<noteq> ev_expected_attempt ev"

definition pending_stages :: "RuntimeEvidence \<Rightarrow> string list" where
  "pending_stages ev =
     map fst (filter (\<lambda>(stage, complete). complete = Some False)
       [(''manifest'', ev_manifest_present ev), (''catalog'', ev_catalog_applied ev),
        (''dashboard'', ev_dashboard_applied ev)])"

definition decide_reconciliation :: "RuntimeEvidence \<Rightarrow> ReconciliationDecision" where
  "decide_reconciliation ev =
     (if terminal_intent_is_current ev \<and> ev_container_state ev \<in> {''exited'', ''missing'', ''not_running''} then
        (if ev_report_state ev = DocFound
         then decision ApplyReport Confirmed
           ''apply the final report while preserving the durable terminal command'' (Some (terminal_status_of ev))
         else decision ApplyTerminalIntent Confirmed
           ''terminal command is durable and the worker is no longer active'' (Some (terminal_status_of ev)))
      else if terminal_intent_is_current ev
          \<and> ev_container_state ev \<in> {''created'', ''healthy'', ''running'', ''starting'', ''unknown''} then
        decision WaitForTerminalConfirmation Uncertain
          ''terminal command is durable but authoritative worker termination is not confirmed''
          (Some (terminal_status_of ev))
      else if attempts_differ ev then
        (if ev_desired_state ev = ''running'' \<and> ev_contract_initialized ev
            \<and> ev_container_state ev \<in> {''exited'', ''missing'', ''unknown''}
         then decision RestartWorker Confirmed
           ''stale worker is terminal; submit the durable current start intent'' None
         else decision IgnoreStaleReport Confirmed ''report belongs to an older worker attempt'' None)
      else if ev_report_state ev \<in> {DocInvalid, DocUnreadable} then
        decision RecordReportError Confirmed
          (''runtime report is '' @ document_state_value (ev_report_state ev)) None
      else if ev_report_state ev = DocFound then
        decision ApplyReport Confirmed
          (if pending_stages ev \<noteq> []
           then ''current worker report has pending stages: '' @ py_join '', '' (pending_stages ev)
           else ''current worker report is available'') None
      else if ev_publication_pending ev then
        decision RecoverPublication Confirmed ''durable publication still needs reconciliation'' None
      else if ev_desired_state ev = ''running'' \<and> ev_contract_initialized ev
          \<and> ev_container_state ev \<in> {''running'', ''starting'', ''created'', ''healthy''} then
        decision WaitForReport Uncertain ''worker is active but has not published its first report'' None
      else if ev_desired_state ev = ''running'' \<and> ev_contract_initialized ev
          \<and> ev_container_state ev \<in> {''exited'', ''missing''} then
        decision RestartWorker Uncertain
          ''desired state is running but the deterministic worker is absent'' None
      else
        decision RecoverPublication Uncertain
          ''no current report; recover durable manifests without guessing success'' None)"

subsection \<open>Hooks and environment\<close>

record control_env =
  ce_context :: request_context
  ce_str :: "py_error \<Rightarrow> string"

record 'w reconciliation_hooks =
  h_reconcile_stale_maintenance :: "string \<Rightarrow> ('w control, unit) op"
  h_reconcile_pending_replay :: "('w control, unit) op"
  h_report_path :: "string \<Rightarrow> string"
  h_read_report :: "string \<Rightarrow> ('w, JsonDocument) op"
  h_worker_status :: "etl_job \<Rightarrow> runtime_row \<Rightarrow> ('w, dict) op"
  h_materialize_batch :: "dict \<Rightarrow> bool \<Rightarrow> ('w control, int option) op"
  h_sync_session :: "runtime_row \<Rightarrow> ('w, unit) op"
  h_write_ack :: "string \<Rightarrow> int \<Rightarrow> ('w, unit) op"
  h_mark_failed :: "string \<Rightarrow> ContinuousErrorStage \<Rightarrow> string \<Rightarrow> bool \<Rightarrow> ('w control, unit) op"
  h_apply_report :: "dict \<Rightarrow> dict \<Rightarrow> string option \<Rightarrow> bool \<Rightarrow> ('w control, unit) op"

definition worker_status_op :: "'w reconciliation_hooks \<Rightarrow> ('w control, dict) op" where
  "worker_status_op hooks = (\<lambda>s. in_world (h_worker_status hooks (c_job s) (c_runtime s)) s)"

definition sync_session_op :: "'w reconciliation_hooks \<Rightarrow> ('w control, unit) op" where
  "sync_session_op hooks = (\<lambda>s. in_world (h_sync_session hooks (c_runtime s)) s)"

text \<open>\<open>record_runtime_error\<close> with the arguments the use cases pass.\<close>

definition simple_error :: "ContinuousErrorStage \<Rightarrow> string \<Rightarrow> string \<Rightarrow> bool \<Rightarrow> dict \<Rightarrow> error_report" where
  "simple_error stage code message retryable ctx =
     \<lparr>er_stage = stage_value stage, er_code = code, er_message = message, er_retryable = retryable,
      er_context = Some ctx, er_operator_message = None, er_user_message = None, er_diagnostic_id = None\<rparr>"

definition put_error :: "control_env \<Rightarrow> error_report \<Rightarrow> ('w control, unit) op" where
  "put_error env r = put_metrics (\<lambda>m. record_runtime_error (ce_context env) m r)"

definition put_observation :: "string \<Rightarrow> string \<Rightarrow> string option \<Rightarrow> ('w control, unit) op" where
  "put_observation observed dflt attempt = put_metrics (\<lambda>m. record_runtime_observation m observed dflt attempt)"

definition contract_of :: "runtime_row \<Rightarrow> dict" where
  "contract_of r = runtime_contract_projection (rt_metrics r) (rt_status r) (rt_last_error r)"

definition progress :: "string \<Rightarrow> int \<Rightarrow> dict option" where
  "progress label value = Some [(''label'', JStr label), (''value'', JInt value)]"

subsection \<open>The deferred terminal signal\<close>

definition terminal_worker_options :: "runtime_row \<Rightarrow> dict option" where
  "terminal_worker_options r =
     map_option (\<lambda>w. [(''workerAttemptId'', JStr w)]) (optional_string (jget ''fencingToken'' (contract_of r)))"

definition terminal_signal_identity :: "runtime_row \<Rightarrow> string \<Rightarrow> dict" where
  "terminal_signal_identity r action =
     [(''action'', JStr action),
      (''stateRevision'', JInt (nonnegative_int (jget ''stateRevision'' (contract_of r)))),
      (''workerAttemptId'', of_opt_str (optional_string (jget ''fencingToken'' (contract_of r))))]"

definition inactive_container :: "json \<Rightarrow> bool" where
  "inactive_container v \<longleftrightarrow> v \<in> {JStr ''exited'', JStr ''missing'', JStr ''not_running''}"

definition terminal_signal_already_applied :: "dict option \<Rightarrow> dict \<Rightarrow> bool" where
  "terminal_signal_already_applied metrics identity \<longleftrightarrow>
     (case as_dict (jget ''terminalSignal'' (metrics_dict metrics)) of
        None \<Rightarrow> False
      | Some previous \<Rightarrow>
          list_all (\<lambda>(k, v). json_eq (jget k previous) v) identity
          \<and> inactive_container (jget ''containerState'' previous))"

definition record_terminal_signal :: "dict \<Rightarrow> dict \<Rightarrow> ('w control, unit) op" where
  "record_terminal_signal identity result =
     merge_metrics [(''terminalSignal'', JObj (jmerge identity
       [(''containerState'', JStr (str_field ''containerState'' result ''unknown'')),
        (''requestedAction'', of_opt_str (optional_string (jget ''requestedAction'' result)))]))]"

definition apply_deferred_terminal_signal ::
  "control_env \<Rightarrow> 'w worker \<Rightarrow> 'w reconciliation_hooks \<Rightarrow> dict \<Rightarrow> string
    \<Rightarrow> ('w control, dict \<times> string \<times> bool) op" where
  "apply_deferred_terminal_signal env worker hooks worker_status container_state = (\<lambda>s0.
     let runtime = c_runtime s0;
         should_signal = (rt_status runtime \<in> {''pausing'', ''paused'', ''stopping'', ''stopped''}
           \<and> container_state \<in> {''running'', ''starting'', ''created'', ''healthy'', ''unknown''});
         action = (if rt_status runtime \<in> {''pausing'', ''paused''} then ''pause'' else ''stop'');
         identity = terminal_signal_identity runtime action
     in if \<not> should_signal \<or> terminal_signal_already_applied (rt_metrics runtime) identity
        then (Inr (worker_status, container_state, True), s0)
        else catch_op
          (bind_op (call_worker worker action (terminal_worker_options runtime)) (\<lambda>command_result.
           bind_op (record_terminal_signal identity command_result) (\<lambda>_.
           let command_state = str_field ''containerState'' command_result ''unknown'' in
           if command_state \<in> {''exited'', ''missing'', ''not_running''}
           then return_op (command_result, command_state, True)
           else
             bind_op (worker_status_op hooks) (\<lambda>status.
             return_op (status, str_field ''containerState'' status container_state, True)))))
          (\<lambda>exc.
           bind_op (worker_status_op hooks) (\<lambda>recovered.
           let recovered_state = str_field ''containerState'' recovered ''unknown'';
               recovered_action = optional_string (jget ''requestedAction'' recovered)
           in if recovered_state \<in> {''exited'', ''missing'', ''not_running''} \<or> recovered_action = Some action
              then
                bind_op (record_terminal_signal identity recovered) (\<lambda>_.
                return_op (recovered, recovered_state, True))
              else
                bind_op (\<lambda>s. put_error env (simple_error StageSubmission
                    (''deferred_worker_'' @ action @ ''_failed'')
                    (''Continuous worker could not apply the deferred '' @ action @ '' command: '' @ ce_str env exc)
                    True [(''jobId'', JStr (j_id (c_job s))), (''command'', JStr action)]) s) (\<lambda>_.
                bind_op (set_runtime (\<lambda>r. r\<lparr>rt_last_error := Some (ce_str env exc)\<rparr>)) (\<lambda>_.
                bind_op save_kafka_continuous_command (\<lambda>_.
                return_op (worker_status, container_state, False))))))
          s0)"

subsection \<open>Carrying decisions out\<close>

definition wait_for_terminal_confirmation ::
  "control_env \<Rightarrow> 'w reconciliation_hooks \<Rightarrow> RuntimeEvidence \<Rightarrow> string \<Rightarrow> ('w control, unit) op" where
  "wait_for_terminal_confirmation env hooks ev container_state = (\<lambda>s0.
     let observed = observed_value (observed_state_from_evidence (Some (rt_status (c_runtime s0))) (Some container_state));
         job_id = j_id (c_job s0);
         message = ''Continuous worker termination is pending because the authoritative runner state is unavailable.''
     in bind_op (lift_res (derive_public_status (ev_desired_state ev) observed)) (\<lambda>public.
        bind_op (set_runtime (\<lambda>r. r\<lparr>rt_status := public_value public\<rparr>)) (\<lambda>_.
        bind_op (put_observation observed (public_value public) None) (\<lambda>_.
        bind_op
          (if container_state = ''unknown'' then
             bind_op (put_error env (simple_error StageReconciliation ''terminal_worker_state_unknown'' message True
               [(''jobId'', JStr job_id), (''desiredState'', JStr (ev_desired_state ev)),
                (''expectedWorkerAttemptId'', of_opt_str (ev_expected_attempt ev)),
                (''observedWorkerAttemptId'', of_opt_str (ev_observed_attempt ev))])) (\<lambda>_.
             set_runtime (\<lambda>r. r\<lparr>rt_last_error := Some message\<rparr>))
           else return_op ()) (\<lambda>_.
        bind_op (set_job (\<lambda>j. if ev_desired_state ev = ''paused''
            then j\<lparr>j_status := ''running'',
              j_last_state := (''Continuous worker '' @ utf8 [0xC77C, 0xC2DC, 0xC815, 0xC9C0, 0x20, 0xC644, 0xB8CC, 0x20, 0xD655, 0xC778, 0x20, 0xC911]),
              j_progress := progress (utf8 [0xC77C, 0xC2DC, 0xC815, 0xC9C0, 0x20, 0xD655, 0xC778, 0x20, 0xC911]) 95\<rparr>
            else j\<lparr>j_status := ''running'',
              j_last_state := (''Continuous worker '' @ utf8 [0xC911, 0xC9C0, 0x20, 0xC644, 0xB8CC, 0x20, 0xD655, 0xC778, 0x20, 0xC911]),
              j_progress := progress (utf8 [0xC911, 0xC9C0, 0x20, 0xD655, 0xC778, 0x20, 0xC911]) 95\<rparr>)) (\<lambda>_.
        bind_op (sync_session_op hooks) (\<lambda>_.
        save_kafka_continuous_command)))))) s0)"

definition acknowledge :: "'w reconciliation_hooks \<Rightarrow> int option \<Rightarrow> ('w control, unit) op" where
  "acknowledge hooks cursor = (\<lambda>s.
     case cursor of
       None \<Rightarrow> (Inr (), s)
     | Some n \<Rightarrow> in_world (h_write_ack hooks (j_id (c_job s)) n) s)"

definition apply_terminal_intent ::
  "'w reconciliation_hooks \<Rightarrow> string \<Rightarrow> string \<Rightarrow> ('w control, unit) op" where
  "apply_terminal_intent hooks terminal_status container_state =
     bind_op (set_runtime (\<lambda>r. r\<lparr>rt_status := terminal_status\<rparr>)) (\<lambda>_.
     bind_op (put_observation
       (observed_value (observed_state_from_evidence (Some terminal_status) (Some container_state)))
       terminal_status None) (\<lambda>_.
     bind_op (put_metrics (\<lambda>m. Inr (clear_runtime_error m))) (\<lambda>_.
     bind_op (set_runtime (\<lambda>r. r\<lparr>rt_last_error := None\<rparr>)) (\<lambda>_.
     bind_op (set_job (\<lambda>j. if terminal_status = ''paused''
         then j\<lparr>j_status := ''paused'', j_last_state := (''Continuous worker '' @ utf8 [0xC77C, 0xC2DC, 0xC815, 0xC9C0, 0xB428]), j_progress := None\<rparr>
         else j\<lparr>j_status := ''stopped'',
           j_last_state := (''Continuous worker '' @ utf8 [0xC911, 0xC9C0, 0xB428, 0x20, 0xB7] @ '' checkpoint '' @ utf8 [0xBCF4, 0xC874]), j_progress := None\<rparr>)) (\<lambda>_.
     bind_op (h_materialize_batch hooks [] True) (\<lambda>cursor.
     bind_op (sync_session_op hooks) (\<lambda>_.
     bind_op save_kafka_continuous_command (\<lambda>_.
     acknowledge hooks cursor))))))))"

definition recover_without_report ::
  "'w reconciliation_hooks \<Rightarrow> string \<Rightarrow> ('w control, unit) op" where
  "recover_without_report hooks container_state = (\<lambda>s.
     if rt_status (c_runtime s) \<in> {''paused'', ''stopped'', ''failed''}
        \<or> container_state \<in> {''exited'', ''missing''}
        \<or> jget ''publicationRecoveryPending'' (metrics_dict (rt_metrics (c_runtime s))) = JBool True
     then
       bind_op (h_materialize_batch hooks [] True) (\<lambda>cursor.
       bind_op (sync_session_op hooks) (\<lambda>_.
       bind_op save_kafka_continuous_command (\<lambda>_.
       acknowledge hooks cursor))) s
     else (Inr (), s))"

definition record_report_error :: "control_env \<Rightarrow> JsonDocument \<Rightarrow> ('w control, unit) op" where
  "record_report_error env doc = (\<lambda>s.
     let invalid = (doc_state doc = DocInvalid) in
     bind_op (put_error env (simple_error StageReport
       (if invalid then ''runtime_report_invalid'' else ''runtime_report_unreadable'')
       (if invalid then ''Continuous runtime report is not valid JSON.''
        else ''Continuous runtime report could not be read: ''
          @ str_or (opt_text (doc_error doc)) ''unknown read error'')
       True
       ([(''jobId'', JStr (j_id (c_job s)))]
        @ (case doc_line doc of None \<Rightarrow> [] | Some n \<Rightarrow> [(''line'', JInt n)])
        @ (case doc_column doc of None \<Rightarrow> [] | Some n \<Rightarrow> [(''column'', JInt n)])))) (\<lambda>_.
     save_kafka_continuous_command) s)"

definition restart_missing_worker ::
  "control_env \<Rightarrow> 'w worker \<Rightarrow> 'w reconciliation_hooks \<Rightarrow> ('w control, unit) op" where
  "restart_missing_worker env worker hooks = (\<lambda>s.
     case call_worker worker ''start'' (terminal_worker_options (c_runtime s)) s of
       (Inl exc, s1) \<Rightarrow>
         bind_op (h_mark_failed hooks (''Continuous worker recovery failed: '' @ ce_str env exc)
           StageSubmission ''worker_recovery_failed'' True) (\<lambda>_.
         save_kafka_continuous_command) s1
     | (Inr result, s1) \<Rightarrow>
         (let attempt = optional_string (por (jget ''workerAttemptId'' result) (jget ''containerId'' result)) in
          bind_op (set_runtime (\<lambda>r. r\<lparr>rt_status := ''starting''\<rparr>)) (\<lambda>_.
          bind_op (put_metrics (\<lambda>m. Inr (bind_worker_attempt m attempt))) (\<lambda>_.
          bind_op (put_observation ''starting'' ''starting'' attempt) (\<lambda>_.
          bind_op (set_runtime (\<lambda>r. r\<lparr>rt_last_error := None\<rparr>)) (\<lambda>_.
          bind_op (set_job (\<lambda>j. j\<lparr>j_status := ''running'',
            j_last_state := (''Continuous worker '' @ utf8 [0xC790, 0xB3D9, 0x20, 0xBCF5, 0xAD6C, 0x20, 0xC694, 0xCCAD]),
            j_progress := progress (''Continuous worker '' @ utf8 [0xC790, 0xB3D9, 0x20, 0xBCF5, 0xAD6C, 0x20, 0xC911]) 10\<rparr>)) (\<lambda>_.
          save_kafka_continuous_command))))) s1))"

subsection \<open>Kafka Connect ingestion into ClickHouse\<close>

definition apply_clickhouse_kafka_ingest_v2_terminal ::
  "'w reconciliation_hooks \<Rightarrow> string \<Rightarrow> string \<Rightarrow> ('w control, unit) op" where
  "apply_clickhouse_kafka_ingest_v2_terminal hooks terminal_status container_state =
     bind_op (set_runtime (\<lambda>r. r\<lparr>rt_status := terminal_status\<rparr>)) (\<lambda>_.
     bind_op (put_metrics (\<lambda>m. Inr (clear_runtime_error m))) (\<lambda>_.
     bind_op (put_observation
       (observed_value (observed_state_from_evidence (Some terminal_status) (Some container_state)))
       terminal_status None) (\<lambda>_.
     bind_op (set_runtime (\<lambda>r. r\<lparr>rt_last_error := None\<rparr>)) (\<lambda>_.
     bind_op (set_job (\<lambda>j. if terminal_status = ''paused''
         then j\<lparr>j_status := ''paused'',
           j_last_state := (''Kafka Connect '' @ utf8 [0x2192] @ '' ClickHouse V2 '' @ utf8 [0xC218, 0xC9D1, 0x20, 0xC77C, 0xC2DC, 0xC815, 0xC9C0, 0xB428]), j_progress := None\<rparr>
         else j\<lparr>j_status := ''stopped'',
           j_last_state := (''Kafka Connect '' @ utf8 [0x2192] @ '' ClickHouse V2 '' @ utf8 [0xC218, 0xC9D1, 0x20, 0xC911, 0xC9C0, 0xB428]), j_progress := None\<rparr>)) (\<lambda>_.
     bind_op (sync_session_op hooks) (\<lambda>_.
     save_kafka_continuous_command))))))"

definition fail_clickhouse_status ::
  "control_env \<Rightarrow> 'w reconciliation_hooks \<Rightarrow> string \<Rightarrow> ('w control, unit) op" where
  "fail_clickhouse_status env hooks message = (\<lambda>s0.
     bind_op (set_runtime (\<lambda>r. r\<lparr>
       rt_failed_count := (if rt_status r \<noteq> ''failed'' then rt_failed_count r + 1 else rt_failed_count r),
       rt_status := ''failed'', rt_last_error := Some message\<rparr>)) (\<lambda>_.
     bind_op (put_error env (simple_error StageExecution ''kafka_connect_clickhouse_v2_status_failed'' message True
       [(''jobId'', JStr (j_id (c_job s0)))])) (\<lambda>_.
     bind_op (set_job (\<lambda>j. j\<lparr>j_status := ''failed'',
       j_last_state := (''Kafka Connect '' @ utf8 [0x2192] @ '' ClickHouse V2 '' @ utf8 [0xC218, 0xC9D1, 0x20, 0xC0C1, 0xD0DC, 0x20, 0xD655, 0xC778, 0x20, 0xC2E4, 0xD328]), j_progress := None\<rparr>)) (\<lambda>_.
     bind_op (sync_session_op hooks) (\<lambda>_.
     save_kafka_continuous_command)))) s0)"

definition project_clickhouse_progress ::
  "'w reconciliation_hooks \<Rightarrow> dict \<Rightarrow> string \<Rightarrow> ('w control, unit) op" where
  "project_clickhouse_progress hooks worker_status container_state =
     (let total_rows = nonnegative_int (jget ''storedCount'' worker_status);
          observed = (if container_state \<in> {''running'', ''healthy''} then ''running'' else ''starting'')
      in bind_op (set_runtime (\<lambda>r. r\<lparr>
           rt_consumed_count := max (rt_consumed_count r) total_rows,
           rt_stored_count := max (rt_stored_count r) total_rows,
           rt_status := observed, rt_last_error := None\<rparr>)) (\<lambda>_.
         bind_op (lift_res (py_list (por (jget ''clickhouseOffsets'' worker_status) (JList [])))) (\<lambda>offsets.
         bind_op (merge_metrics [(''clickhouseKafkaIngestV2'', JObj
           [(''offsets'', JList offsets),
            (''publicationRevision'', jget ''publicationRevision'' worker_status),
            (''storedCount'', JInt total_rows),
            (''worker'', JStr ''kafka_connect_clickhouse_v2'')])]) (\<lambda>_.
         bind_op (put_metrics (\<lambda>m. Inr (clear_runtime_error m))) (\<lambda>_.
         bind_op (put_observation observed observed (optional_string (jget ''workerAttemptId'' worker_status))) (\<lambda>_.
         bind_op (set_job (\<lambda>j.
           if observed = ''running'' \<and> total_rows > 0 then
             j\<lparr>j_status := ''running'',
               j_last_state := (''Kafka Connect '' @ utf8 [0x2192] @ '' ClickHouse V2 '' @ utf8 [0xC218, 0xC9D1, 0x20, 0xC911, 0x20, 0xB7] @ '' Catalog/Dashboard '' @ utf8 [0xAC8C, 0xC2DC, 0xB428]),
               j_progress := progress (''Kafka Connect V2 '' @ utf8 [0xC218, 0xC9D1, 0x20, 0xC911]) 70\<rparr>
           else if observed = ''running'' then
             j\<lparr>j_status := ''running'',
               j_last_state := (''Kafka Connect '' @ utf8 [0x2192] @ '' ClickHouse V2 '' @ utf8 [0xCCAB] @ '' offset '' @ utf8 [0xB300, 0xAE30]),
               j_progress := progress (''Kafka Connect V2 '' @ utf8 [0xCCAB, 0x20, 0xB370, 0xC774, 0xD130, 0x20, 0xB300, 0xAE30]) 20\<rparr>
           else
             j\<lparr>j_status := ''running'',
               j_last_state := (''Kafka Connect '' @ utf8 [0x2192] @ '' ClickHouse V2 '' @ utf8 [0xC218, 0xC9D1, 0x20, 0xC2DC, 0xC791, 0x20, 0xD655, 0xC778, 0x20, 0xC911]),
               j_progress := progress (''Kafka Connect V2 '' @ utf8 [0xC2DC, 0xC791, 0x20, 0xD655, 0xC778, 0x20, 0xC911]) 10\<rparr>)) (\<lambda>_.
         bind_op (sync_session_op hooks) (\<lambda>_.
         save_kafka_continuous_command))))))))"

definition reconcile_clickhouse_kafka_ingest_v2 ::
  "control_env \<Rightarrow> 'w worker \<Rightarrow> 'w reconciliation_hooks \<Rightarrow> dict \<Rightarrow> string \<Rightarrow> ('w control, unit) op" where
  "reconcile_clickhouse_kafka_ingest_v2 env worker hooks worker_status container_state = (\<lambda>s.
     let status = rt_status (c_runtime s);
         requested = optional_string (jget ''requestedAction'' worker_status)
     in if container_state \<in> {''exited'', ''missing''}
           \<and> (status \<in> {''pausing'', ''stopping''}
              \<or> requested \<in> {Some ''pause'', Some ''stop'', Some ''terminate''}) then
          apply_clickhouse_kafka_ingest_v2_terminal hooks
            (if status = ''pausing'' \<or> requested = Some ''pause'' then ''paused'' else ''stopped'')
            container_state s
        else if container_state \<in> {''exited'', ''missing''} \<and> status \<in> {''starting'', ''running''} then
          restart_missing_worker env worker hooks s
        else if container_state \<notin> {''running'', ''starting'', ''created'', ''healthy''} then
          (case optional_string (jget ''error'' worker_status) of
             None \<Rightarrow> (Inr (), s)
           | Some message \<Rightarrow> fail_clickhouse_status env hooks message s)
        else project_clickhouse_progress hooks worker_status container_state s)"

subsection \<open>The use case\<close>

definition bool_entry :: "string \<Rightarrow> dict \<Rightarrow> bool option" where
  "bool_entry k d = map_option truthy (map_of d k)"

definition runtime_evidence ::
  "runtime_row \<Rightarrow> JsonDocument \<Rightarrow> dict \<Rightarrow> string \<Rightarrow> dict \<times> bool \<times> RuntimeEvidence" where
  "runtime_evidence runtime doc worker_status container_state =
     (let payload = metrics_dict (doc_value doc);
          metrics = metrics_dict (rt_metrics runtime);
          initialized = runtime_contract_initialized (rt_metrics runtime);
          c = contract_of runtime
      in (payload, initialized,
          \<lparr>ev_desired_state = str_field ''desiredState'' c ''stopped'',
           ev_public_status = rt_status runtime,
           ev_container_state = container_state,
           ev_report_state = doc_state doc,
           ev_report_status = optional_string (jget ''status'' payload),
           ev_expected_attempt = optional_string (jget ''fencingToken'' c),
           ev_observed_attempt = optional_string (jget ''workerAttemptId'' payload),
           ev_requested_action = optional_string (jget ''requestedAction'' worker_status),
           ev_publication_pending = (jget ''publicationRecoveryPending'' metrics = JBool True),
           ev_contract_initialized = initialized,
           ev_output_present = bool_entry ''lastBatchWritten'' payload,
           ev_manifest_present = bool_entry ''publishedBatches'' payload,
           ev_catalog_applied = map_option Not (bool_entry ''publicationRecoveryPending'' metrics),
           ev_dashboard_applied = None\<rparr>))"

definition ignore_stale_report :: "control_env \<Rightarrow> RuntimeEvidence \<Rightarrow> ('w control, unit) op" where
  "ignore_stale_report env ev = (\<lambda>s.
     bind_op (put_error env (simple_error StageReconciliation ''stale_worker_observation''
       ''Ignored a Continuous runtime report from a stale worker attempt.'' False
       [(''jobId'', JStr (j_id (c_job s))),
        (''expectedWorkerAttemptId'', of_opt_str (ev_expected_attempt ev)),
        (''observedWorkerAttemptId'', of_opt_str (ev_observed_attempt ev))])) (\<lambda>_.
     save_kafka_continuous_command) s)"

definition wait_for_report ::
  "RuntimeEvidence \<Rightarrow> dict \<Rightarrow> string \<Rightarrow> ('w control, unit) op" where
  "wait_for_report ev worker_status container_state = (\<lambda>s.
     let observed = observed_value (observed_state_from_evidence (Some (rt_status (c_runtime s))) (Some container_state)) in
     bind_op (lift_res (derive_public_status (ev_desired_state ev) observed)) (\<lambda>public.
     bind_op (set_runtime (\<lambda>r. r\<lparr>rt_status := public_value public\<rparr>)) (\<lambda>_.
     bind_op (put_observation observed (public_value public)
       (optional_string (jget ''workerAttemptId'' worker_status))) (\<lambda>_.
     bind_op (set_job (\<lambda>j. j\<lparr>j_status := ''running'',
       j_last_state := (''Continuous worker report '' @ utf8 [0xB300, 0xAE30]),
       j_progress := progress (''Continuous worker '' @ utf8 [0xC2DC, 0xC791, 0x20, 0xD655, 0xC778, 0x20, 0xC911]) 10\<rparr>)) (\<lambda>_.
     save_kafka_continuous_command)))) s)"

definition last_reconciliation ::
  "ReconciliationDecision \<Rightarrow> string \<Rightarrow> JsonDocument \<Rightarrow> dict" where
  "last_reconciliation d container_state doc =
     [(''lastReconciliation'', JObj
       [(''action'', JStr (action_value (dc_action d))),
        (''certainty'', JStr (certainty_value (dc_certainty d))),
        (''reason'', JStr (dc_reason d)),
        (''containerState'', JStr container_state),
        (''reportState'', JStr (document_state_value (doc_state doc)))])]"

definition carry_out ::
  "control_env \<Rightarrow> 'w worker \<Rightarrow> 'w reconciliation_hooks \<Rightarrow> JsonDocument \<Rightarrow> dict \<Rightarrow> string \<Rightarrow> dict \<Rightarrow> bool
    \<Rightarrow> RuntimeEvidence \<Rightarrow> ReconciliationDecision \<Rightarrow> ('w control, unit) op" where
  "carry_out env worker hooks doc worker_status container_state payload initialized ev d =
     (case dc_action d of
        ApplyTerminalIntent \<Rightarrow>
          apply_terminal_intent hooks (str_or (opt_text (dc_terminal_status d)) ''stopped'') container_state
      | WaitForTerminalConfirmation \<Rightarrow> wait_for_terminal_confirmation env hooks ev container_state
      | IgnoreStaleReport \<Rightarrow> ignore_stale_report env ev
      | RecordReportError \<Rightarrow> record_report_error env doc
      | RestartWorker \<Rightarrow> restart_missing_worker env worker hooks
      | WaitForReport \<Rightarrow> wait_for_report ev worker_status container_state
      | RecoverPublication \<Rightarrow> recover_without_report hooks container_state
      | ApplyReport \<Rightarrow> h_apply_report hooks payload worker_status (dc_terminal_status d) initialized)"

definition reconcile_runtime ::
  "control_env \<Rightarrow> 'w worker \<Rightarrow> 'w reconciliation_hooks \<Rightarrow> ('w control, unit) op" where
  "reconcile_runtime env worker hooks =
     bind_op (\<lambda>s. in_world (h_read_report hooks (h_report_path hooks (j_id (c_job s)))) s) (\<lambda>doc.
     bind_op (worker_status_op hooks) (\<lambda>status0.
     bind_op (apply_deferred_terminal_signal env worker hooks status0 (str_field ''containerState'' status0 ''unknown''))
       (\<lambda>(worker_status, container_state, signal_applied).
     if \<not> signal_applied then return_op ()
     else if jget ''worker'' worker_status = JStr ''kafka_connect_clickhouse_v2''
     then reconcile_clickhouse_kafka_ingest_v2 env worker hooks worker_status container_state
     else (\<lambda>s.
       let (payload, initialized, ev) = runtime_evidence (c_runtime s) doc worker_status container_state;
           d = decide_reconciliation ev
       in bind_op (merge_metrics (last_reconciliation d container_state doc)) (\<lambda>_.
          carry_out env worker hooks doc worker_status container_state payload initialized ev d) s))))"

definition reconcile_continuous_runtime ::
  "control_env \<Rightarrow> 'w worker \<Rightarrow> 'w reconciliation_hooks \<Rightarrow> ('w control, unit) op" where
  "reconcile_continuous_runtime env worker hooks = (\<lambda>s0.
     if j_execution_mode (c_job s0) \<noteq> ''continuous'' then (Inr (), s0)
     else
       bind_op (h_reconcile_stale_maintenance hooks (j_id (c_job s0))) (\<lambda>_.
       bind_op (h_reconcile_pending_replay hooks) (\<lambda>_ s.
       case lookup_key rt_job_id (j_id (c_job s)) (c_runtimes s) of
         None \<Rightarrow> (Inr (), s)
       | Some r \<Rightarrow>
           bind_op (set_runtime (\<lambda>_. r)) (\<lambda>_. reconcile_runtime env worker hooks) s)) s0)"

subsection \<open>Facts about evidence and bookkeeping\<close>

lemma fencing_token_contract_of [simp]:
  "optional_string (jget ''fencingToken'' (contract_of r)) = rv_token (runtime_view (rt_metrics r))"
proof (cases "fencing_token (contract (rt_metrics r)) (rt_metrics r)")
  case None
  then show ?thesis
    by (simp add: contract_of_def runtime_contract_projection_def Let_def of_opt_str_def optional_string_def
        clean_str_def por_def runtime_view_sel nonempty_def)
next
  case (Some w)
  then show ?thesis using fencing_token_stripped [OF Some]
    by (simp add: contract_of_def runtime_contract_projection_def Let_def of_opt_str_def optional_string_def
        runtime_view_sel nonempty_def)
qed

lemma observed_res_value [simp]: "observed_res (observed_value ob) = Inr ob"
  by (cases ob) (simp_all add: observed_res_def enum_res_def enum_of_def observed_members_def)

lemma observed_res_starting [simp]: "observed_res ''starting'' = Inr ObservedStarting"
  using observed_res_value [of ObservedStarting] by simp

lemma stage_res_value [simp]: "stage_res (stage_value st) = Inr st"
  by (cases st) (simp_all add: stage_res_def enum_res_def enum_of_def stage_members_def)

text \<open>Recording an error succeeds and leaves the abstract view alone.\<close>

lemma put_error_run:
  "\<exists>d. put_error env (simple_error stage code msg ret ctx) s =
     (Inr (), s\<lparr>c_runtime := (c_runtime s)\<lparr>rt_metrics := Some d\<rparr>\<rparr>)
   \<and> runtime_view (Some d) = runtime_view (rt_metrics (c_runtime s))"
proof -
  obtain d where d: "record_runtime_error (ce_context env) (rt_metrics (c_runtime s)) (simple_error stage code msg ret ctx) = Inr d"
    by (simp add: record_runtime_error_def simple_error_def Let_def)
  have "runtime_view (Some d) = runtime_view (rt_metrics (c_runtime s))"
    using runtime_event_refines [of "ErrorRaised (ce_context env) (simple_error stage code msg ret ctx)"
        "rt_metrics (c_runtime s)"] d
    by (simp add: simple_error_def)
  then show ?thesis using d by (auto simp: put_error_def put_metrics_def)
qed

text \<open>Recording an observation succeeds; its effect on the view is the abstract one.\<close>

lemma put_observation_run:
  assumes "record_runtime_observation (rt_metrics (c_runtime s)) obs dflt w = Inr d"
  shows "put_observation obs dflt w s = (Inr (), s\<lparr>c_runtime := (c_runtime s)\<lparr>rt_metrics := Some d\<rparr>\<rparr>)"
  using assms by (simp add: put_observation_def put_metrics_def)

lemma observation_run:
  assumes "observed_res obs = Inr ob"
  shows "\<exists>d. record_runtime_observation m obs dflt w = Inr d
    \<and> runtime_view (Some d) =
      (runtime_view m)\<lparr>rv_desired := (case rv_desired (runtime_view m) of
           Some x \<Rightarrow> Some x | None \<Rightarrow> Some (desired_value (desired_state_from_public_status dflt))),
         rv_observed := Some (observed_value ob), rv_token := new_token w (rv_token (runtime_view m))\<rparr>"
proof -
  obtain d where d: "record_runtime_observation m obs dflt w = Inr d"
    using assms by (simp add: record_runtime_observation_def Let_def)
  with observation_refines [of m obs dflt w] assms show ?thesis by simp
qed

lemma merge_last_reconciliation:
  "\<exists>d. merge_metrics (last_reconciliation dec cs doc) s =
     (Inr (), s\<lparr>c_runtime := (c_runtime s)\<lparr>rt_metrics := Some d\<rparr>\<rparr>)
   \<and> runtime_view (Some d) = runtime_view (rt_metrics (c_runtime s))"
  by (rule exI [of _ "jmerge (metrics_dict (rt_metrics (c_runtime s))) (last_reconciliation dec cs doc)"])
    (simp add: merge_metrics_def put_metrics_def last_reconciliation_def runtime_view_jset_other
      RUNTIME_CONTRACT_KEY_def)

lemma no_terminal_signal:
  assumes "rt_status (c_runtime s) \<notin> {''pausing'', ''paused'', ''stopping'', ''stopped''}"
  shows "apply_deferred_terminal_signal env worker hooks ws cs s = (Inr (ws, cs, True), s)"
  using assms by (simp add: apply_deferred_terminal_signal_def Let_def)

subsection \<open>The decision\<close>

lemmas decision_defs = decide_reconciliation_def decision_def

lemma decision_terminal:
  assumes "terminal_intent_is_current ev" and "ev_container_state ev \<in> {''exited'', ''missing'', ''not_running''}"
  shows "decide_reconciliation ev =
    (if ev_report_state ev = DocFound
     then decision ApplyReport Confirmed
       ''apply the final report while preserving the durable terminal command'' (Some (terminal_status_of ev))
     else decision ApplyTerminalIntent Confirmed
       ''terminal command is durable and the worker is no longer active'' (Some (terminal_status_of ev)))"
  unfolding decide_reconciliation_def by (simp only: assms simp_thms if_True)

lemma decision_waiting:
  assumes "terminal_intent_is_current ev" and "ev_container_state ev \<notin> {''exited'', ''missing'', ''not_running''}"
    and "ev_container_state ev \<in> {''created'', ''healthy'', ''running'', ''starting'', ''unknown''}"
  shows "decide_reconciliation ev =
    decision WaitForTerminalConfirmation Uncertain
      ''terminal command is durable but authoritative worker termination is not confirmed''
      (Some (terminal_status_of ev))"
  unfolding decide_reconciliation_def by (simp only: assms simp_thms if_True if_False)

lemma decision_other:
  assumes "\<not> (terminal_intent_is_current ev \<and> ev_container_state ev \<in> {''exited'', ''missing'', ''not_running''})"
    and "\<not> (terminal_intent_is_current ev
      \<and> ev_container_state ev \<in> {''created'', ''healthy'', ''running'', ''starting'', ''unknown''})"
  shows "(dc_action (decide_reconciliation ev) = RestartWorker \<longrightarrow>
      ev_desired_state ev = ''running'' \<and> ev_contract_initialized ev
      \<and> (ev_container_state ev = ''exited'' \<or> ev_container_state ev = ''missing'' \<or> ev_container_state ev = ''unknown''))
   \<and> (dc_action (decide_reconciliation ev) = ApplyReport \<longrightarrow> ev_report_state ev = DocFound \<and> \<not> attempts_differ ev)
   \<and> dc_terminal_status (decide_reconciliation ev) = None"
proof (cases "attempts_differ ev")
  case True
  then show ?thesis unfolding decide_reconciliation_def if_not_P [OF assms(1)] if_not_P [OF assms(2)] by (simp add: decision_def)
next
  case False
  then show ?thesis
    unfolding decide_reconciliation_def if_not_P [OF assms(1)] if_not_P [OF assms(2)] if_not_P [OF False]
    by (cases "ev_report_state ev"; cases "ev_publication_pending ev";
        cases "ev_desired_state ev = ''running'' \<and> ev_contract_initialized ev") (simp_all add: decision_def, blast?)
qed



subsection \<open>Stale reports\<close>

text \<open>Without a pending terminal signal the use case comes down to carrying out one decision.\<close>

lemma reconcile_decided:
  assumes "h_read_report hooks (h_report_path hooks (j_id (c_job s))) (c_world s) = (Inr doc, w1)"
    and "h_worker_status hooks (c_job s) (c_runtime s) w1 = (Inr ws, w2)"
    and "jget ''worker'' ws \<noteq> JStr ''kafka_connect_clickhouse_v2''"
    and "str_field ''containerState'' ws ''unknown'' = cs"
    and "rt_status (c_runtime s) \<notin> {''pausing'', ''paused'', ''stopping'', ''stopped''}"
    and "runtime_evidence (c_runtime s) doc ws cs = (payload, initialized, ev)"
  obtains m where
    "reconcile_runtime env worker hooks s =
       carry_out env worker hooks doc ws cs payload initialized ev (decide_reconciliation ev)
         (s\<lparr>c_world := w2, c_runtime := (c_runtime s)\<lparr>rt_metrics := Some m\<rparr>\<rparr>)"
    "runtime_view (Some m) = runtime_view (rt_metrics (c_runtime s))"
proof -
  define u where "u = s\<lparr>c_world := w2\<rparr>"
  obtain m where m: "merge_metrics (last_reconciliation (decide_reconciliation ev) cs doc) u =
      (Inr (), u\<lparr>c_runtime := (c_runtime u)\<lparr>rt_metrics := Some m\<rparr>\<rparr>)"
    "runtime_view (Some m) = runtime_view (rt_metrics (c_runtime u))"
    using merge_last_reconciliation by blast
  show ?thesis
  proof (rule that)
    show "reconcile_runtime env worker hooks s =
       carry_out env worker hooks doc ws cs payload initialized ev (decide_reconciliation ev)
         (s\<lparr>c_world := w2, c_runtime := (c_runtime s)\<lparr>rt_metrics := Some m\<rparr>\<rparr>)"
      using assms m(1)
      by (simp add: reconcile_runtime_def bind_op_def in_world_def worker_status_op_def no_terminal_signal u_def)
    show "runtime_view (Some m) = runtime_view (rt_metrics (c_runtime s))" using m(2) by (simp add: u_def)
  qed
qed

lemma ignore_stale_report_run:
  "\<exists>t. ignore_stale_report env ev s = (Inr (), t)
     \<and> rt_status (c_runtime t) = rt_status (c_runtime s)
     \<and> runtime_view (rt_metrics (c_runtime t)) = runtime_view (rt_metrics (c_runtime s))
     \<and> c_job t = c_job s \<and> c_trace t = Saved (c_job t) (c_runtime t) # c_trace s \<and> c_world t = c_world s"
proof -
  obtain d where d: "put_error env (simple_error StageReconciliation ''stale_worker_observation''
       ''Ignored a Continuous runtime report from a stale worker attempt.'' False
       [(''jobId'', JStr (j_id (c_job s))),
        (''expectedWorkerAttemptId'', of_opt_str (ev_expected_attempt ev)),
        (''observedWorkerAttemptId'', of_opt_str (ev_observed_attempt ev))]) s =
     (Inr (), s\<lparr>c_runtime := (c_runtime s)\<lparr>rt_metrics := Some d\<rparr>\<rparr>)"
    "runtime_view (Some d) = runtime_view (rt_metrics (c_runtime s))"
    using put_error_run by blast
  then show ?thesis
    by (simp add: ignore_stale_report_def bind_op_def save_kafka_continuous_command_def write_op_def)
qed

text \<open>A report of a superseded worker attempt has no effect on a runtime that is meant to run: reconciliation
  succeeds, keeps the public status, the revision, the desired and the observed state, the fencing
  token and the job, calls no worker, and commits once with the incident noted.\<close>

theorem stale_report_changes_nothing:
  assumes "h_read_report hooks (h_report_path hooks (j_id (c_job s))) (c_world s) = (Inr doc, w1)"
    and "h_worker_status hooks (c_job s) (c_runtime s) w1 = (Inr ws, w2)"
    and "jget ''worker'' ws \<noteq> JStr ''kafka_connect_clickhouse_v2''"
    and "str_field ''containerState'' ws ''unknown'' = cs" and "cs \<notin> {''exited'', ''missing'', ''unknown''}"
    and "rt_status (c_runtime s) \<notin> {''pausing'', ''paused'', ''stopping'', ''stopped''}"
    and "runtime_evidence (c_runtime s) doc ws cs = (payload, initialized, ev)"
    and "ev_desired_state ev = ''running''" and "attempts_differ ev"
  shows "\<exists>t. reconcile_runtime env worker hooks s = (Inr (), t)
    \<and> rt_status (c_runtime t) = rt_status (c_runtime s)
    \<and> runtime_view (rt_metrics (c_runtime t)) = runtime_view (rt_metrics (c_runtime s))
    \<and> c_job t = c_job s \<and> c_trace t = Saved (c_job t) (c_runtime t) # c_trace s"
proof -
  have "ev_container_state ev = cs" using assms(7) by (auto simp: runtime_evidence_def Let_def)
  then have action: "dc_action (decide_reconciliation ev) = IgnoreStaleReport"
    using assms(5,8,9) by (auto simp: decision_defs terminal_intent_is_current_def)
  obtain m where m: "reconcile_runtime env worker hooks s =
       carry_out env worker hooks doc ws cs payload initialized ev (decide_reconciliation ev)
         (s\<lparr>c_world := w2, c_runtime := (c_runtime s)\<lparr>rt_metrics := Some m\<rparr>\<rparr>)"
    "runtime_view (Some m) = runtime_view (rt_metrics (c_runtime s))"
    using reconcile_decided [OF assms(1-4) assms(6,7)] by blast
  then show ?thesis
    using ignore_stale_report_run [of env ev "s\<lparr>c_world := w2, c_runtime := (c_runtime s)\<lparr>rt_metrics := Some m\<rparr>\<rparr>"]
    by (auto simp: carry_out_def action)
qed

text \<open>Concrete hooks and a running job, for the examples below.\<close>

definition sample_hooks :: "JsonDocument \<Rightarrow> dict \<Rightarrow> unit reconciliation_hooks" where
  "sample_hooks doc status =
     \<lparr>h_reconcile_stale_maintenance = (\<lambda>_. return_op ()),
      h_reconcile_pending_replay = return_op (),
      h_report_path = (\<lambda>job. job @ ''.json''),
      h_read_report = (\<lambda>_. return_op doc),
      h_worker_status = (\<lambda>_ _. return_op status),
      h_materialize_batch = (\<lambda>_ _. return_op None),
      h_sync_session = (\<lambda>_. return_op ()),
      h_write_ack = (\<lambda>_ _. return_op ()),
      h_mark_failed = (\<lambda>_ _ _ _. return_op ()),
      h_apply_report = (\<lambda>_ _ _ _. return_op ())\<rparr>"

definition sample_runtime :: "string \<Rightarrow> string \<Rightarrow> string \<Rightarrow> runtime_row" where
  "sample_runtime status desired token =
     \<lparr>rt_job_id = ''job'', rt_broker = ''b'', rt_topic = ''t'', rt_consumer_group_id = ''g'', rt_checkpoint_path = ''c'',
      rt_status = status,
      rt_heartbeat_at = None, rt_last_flush_at = None, rt_last_batch_id = None, rt_lag = None,
      rt_metrics = Some [(''runtimeContract'', JObj
        [(''version'', JStr ''1.0''), (''desiredState'', JStr desired), (''activeWorkerAttemptId'', JStr token)])],
      rt_schema_state = None, rt_consumed_count = 0, rt_stored_count = 0, rt_quarantined_count = 0,
      rt_failed_count = 0, rt_last_error = None\<rparr>"

definition sample_control :: "runtime_row \<Rightarrow> unit control" where
  "sample_control r =
     \<lparr>c_job = \<lparr>j_id = ''job'', j_execution_mode = ''continuous'', j_status = ''running'', j_last_state = [],
        j_progress = None\<rparr>,
      c_runtime = r, c_runtimes = [r], c_snapshots = [], c_sessions = [], c_trace = [], c_world = ()\<rparr>"

definition sample_report :: "string \<Rightarrow> JsonDocument" where
  "sample_report attempt =
     \<lparr>doc_state = DocFound, doc_value = Some [(''workerAttemptId'', JStr attempt), (''status'', JStr ''running'')],
      doc_error = None, doc_line = None, doc_column = None\<rparr>"

definition sample_env :: control_env where
  "sample_env = \<lparr>ce_context = \<lparr>rc_correlation = None, rc_fresh = ''id''\<rparr>, ce_str = (\<lambda>_. ''error'')\<rparr>"

theorem stale_report_changes_nothing_witness:
  "\<exists>t. reconcile_runtime sample_env (\<lambda>_ _ _ _. return_op [])
       (sample_hooks (sample_report ''old'') [(''containerState'', JStr ''running'')])
       (sample_control (sample_runtime ''running'' ''running'' ''new'')) = (Inr (), t)
     \<and> rt_status (c_runtime t) = ''running''"
proof -
  let ?doc = "sample_report ''old''" and ?ws = "[(''containerState'', JStr ''running'')]"
  let ?h = "sample_hooks ?doc ?ws" and ?s = "sample_control (sample_runtime ''running'' ''running'' ''new'')"
  obtain payload initialized ev where ev: "runtime_evidence (c_runtime ?s) ?doc ?ws ''running'' = (payload, initialized, ev)"
    by (metis surj_pair)
  have "ev_desired_state (snd (snd (runtime_evidence (c_runtime ?s) ?doc ?ws ''running''))) = ''running''"
    and "attempts_differ (snd (snd (runtime_evidence (c_runtime ?s) ?doc ?ws ''running'')))" by code_simp+
  then have des: "ev_desired_state ev = ''running''" and diff: "attempts_differ ev" unfolding ev by simp_all
  have r: "h_read_report ?h (h_report_path ?h (j_id (c_job ?s))) (c_world ?s) = (Inr ?doc, ())"
    and st: "h_worker_status ?h (c_job ?s) (c_runtime ?s) () = (Inr ?ws, ())"
    by (simp_all add: sample_hooks_def sample_control_def return_op_def)
  have k: "jget ''worker'' ?ws \<noteq> JStr ''kafka_connect_clickhouse_v2''"
    and c: "str_field ''containerState'' ?ws ''unknown'' = ''running''"
    and n: "''running'' \<notin> {''exited'', ''missing'', ''unknown''}"
    and q: "rt_status (c_runtime ?s) \<notin> {''pausing'', ''paused'', ''stopping'', ''stopped''}"
    and e: "rt_status (c_runtime ?s) = ''running''"
    by (simp_all add: str_field_def por_def sample_control_def sample_runtime_def)
  from stale_report_changes_nothing [OF r st k c n q ev des diff] e show ?thesis by auto
qed

subsection \<open>Restarting a missing worker\<close>

lemma restart_run:
  assumes "worker (c_job s) (c_runtime s) ''start'' (terminal_worker_options (c_runtime s)) (c_world s) = (Inr result, w)"
    and "optional_string (por (jget ''workerAttemptId'' result) (jget ''containerId'' result)) = attempt"
    and "runtime_view (rt_metrics (c_runtime s)) = v"
  shows "\<exists>t. restart_missing_worker env worker hooks s = (Inr (), t)
    \<and> c_trace t = Saved (c_job t) (c_runtime t)
        # WorkerCalled ''start'' (map_option (\<lambda>x. [(''workerAttemptId'', JStr x)]) (rv_token v)) # c_trace s
    \<and> rt_status (c_runtime t) = ''starting'' \<and> rt_last_error (c_runtime t) = None
    \<and> rt_identity (c_runtime t) = rt_identity (c_runtime s) \<and> c_runtimes t = save_row (c_runtime t) (c_runtimes s)
    \<and> runtime_view (rt_metrics (c_runtime t)) =
        v\<lparr>rv_desired := Some (case rv_desired v of Some x \<Rightarrow> x | None \<Rightarrow> ''running''),
          rv_observed := Some ''starting'', rv_token := new_token attempt (rv_token v)\<rparr>"
proof -
  let ?m = "bind_worker_attempt (rt_metrics (c_runtime s)) attempt"
  obtain d where d: "record_runtime_observation (Some ?m) ''starting'' ''starting'' attempt = Inr d"
    and view: "runtime_view (Some d) =
      (runtime_view (Some ?m))\<lparr>rv_desired := (case rv_desired (runtime_view (Some ?m)) of
           Some x \<Rightarrow> Some x | None \<Rightarrow> Some (desired_value (desired_state_from_public_status ''starting''))),
         rv_observed := Some (observed_value ObservedStarting),
         rv_token := new_token attempt (rv_token (runtime_view (Some ?m)))\<rparr>"
    using observation_run [OF observed_res_starting] by blast
  have starting: "desired_state_from_public_status ''starting'' = DesiredRunning"
    by (simp add: desired_state_from_public_status_def text_evals)
  have "new_token a (new_token a x) = new_token a x" for a x by (simp add: new_token_def)
  then have view': "runtime_view (Some d) =
      v\<lparr>rv_desired := Some (case rv_desired v of Some x \<Rightarrow> x | None \<Rightarrow> ''running''),
        rv_observed := Some ''starting'', rv_token := new_token attempt (rv_token v)\<rparr>"
    unfolding view bind_refines assms(3) starting by (simp split: option.splits)
  have opts: "terminal_worker_options (c_runtime s) =
      map_option (\<lambda>x. [(''workerAttemptId'', JStr x)]) (rv_token v)"
    using assms(3) by (simp add: terminal_worker_options_def)
  show ?thesis using assms(1,2) d view' opts
    by (simp add: restart_missing_worker_def call_worker_def in_world_def write_op_def set_runtime_def
        set_job_def put_metrics_def put_observation_def save_kafka_continuous_command_def bind_op_def Let_def rt_identity_def)
qed

text \<open>A missing worker is resubmitted under the fence that the last start committed: the worker is called
  once with the current fencing token, and when it answers, the runtime is starting with no error,
  the revision is unchanged, the desired state stays, the fence becomes the attempt id in the answer
  (or stays when there is none), and the result is committed.\<close>

theorem restart_submits_current_fence:
  assumes "worker (c_job s) (c_runtime s) ''start'' (terminal_worker_options (c_runtime s)) (c_world s) = (Inr result, w)"
    and "optional_string (por (jget ''workerAttemptId'' result) (jget ''containerId'' result)) = attempt"
    and "runtime_view (rt_metrics (c_runtime s)) = v"
  shows "\<exists>t. restart_missing_worker env worker hooks s = (Inr (), t)
    \<and> c_trace t = Saved (c_job t) (c_runtime t)
        # WorkerCalled ''start'' (map_option (\<lambda>x. [(''workerAttemptId'', JStr x)]) (rv_token v)) # c_trace s
    \<and> rt_status (c_runtime t) = ''starting'' \<and> rt_last_error (c_runtime t) = None
    \<and> runtime_view (rt_metrics (c_runtime t)) =
        v\<lparr>rv_desired := Some (case rv_desired v of Some x \<Rightarrow> x | None \<Rightarrow> ''running''),
          rv_observed := Some ''starting'', rv_token := new_token attempt (rv_token v)\<rparr>"
  using restart_run [where worker = worker and s = s, OF assms] by blast

theorem restart_submits_current_fence_witness:
  "\<exists>t. restart_missing_worker sample_env (\<lambda>_ _ _ _. return_op [(''containerId'', JStr ''c1'')])
       (sample_hooks (sample_report ''old'') []) (sample_control (sample_runtime ''running'' ''running'' ''a1'')) = (Inr (), t)
     \<and> rt_status (c_runtime t) = ''starting'' \<and> rv_token (runtime_view (rt_metrics (c_runtime t))) = Some ''c1''"
proof -
  let ?s = "sample_control (sample_runtime ''running'' ''running'' ''a1'')"
  let ?w = "\<lambda>_ _ _ _. return_op [(''containerId'', JStr ''c1'')] :: (unit, dict) op"
  have a: "?w (c_job ?s) (c_runtime ?s) ''start'' (terminal_worker_options (c_runtime ?s)) (c_world ?s)
      = (Inr [(''containerId'', JStr ''c1'')], ())" by (simp add: return_op_def)
  have b: "optional_string (por (jget ''workerAttemptId'' [(''containerId'', JStr ''c1'')])
      (jget ''containerId'' [(''containerId'', JStr ''c1'')])) = Some ''c1''" by code_simp
  have c: "new_token (Some ''c1'') x = Some ''c1''" for x
    by (simp add: new_token_def opt_text_def nonempty_def text_evals)
  from restart_submits_current_fence [where worker = ?w and s = ?s and env = sample_env
      and hooks = "sample_hooks (sample_report ''old'') []", OF a b refl] c
  show ?thesis by auto
qed

subsection \<open>A paused connector hides the command\<close>

text \<open>The status probe of the ClickHouse ingestion answers "exited, pause" for every paused connector, and
  reconciliation then takes the runtime to paused whatever was asked: a job whose desired state is
  stopped (or running) ends with public status and job status paused, while its contract still says
  what was asked.\<close>

theorem paused_connector_overrides_intent:
  assumes "container_state \<in> {''exited'', ''missing''}"
    and "optional_string (jget ''requestedAction'' ws) = Some ''pause''"
    and "rv_desired (runtime_view (rt_metrics (c_runtime s))) = Some desired"
    and sync: "\<And>r w. \<exists>w'. h_sync_session hooks r w = (Inr (), w')"
  shows "\<exists>t. reconcile_clickhouse_kafka_ingest_v2 env worker hooks ws container_state s = (Inr (), t)
    \<and> rt_status (c_runtime t) = ''paused'' \<and> j_status (c_job t) = ''paused''
    \<and> rv_desired (runtime_view (rt_metrics (c_runtime t))) = Some desired"
proof -
  let ?m = "clear_runtime_error (rt_metrics (c_runtime s))"
  have "runtime_view (Some ?m) = runtime_view (rt_metrics (c_runtime s))"
    using runtime_event_refines [of ErrorCleared "rt_metrics (c_runtime s)"] by simp
  moreover obtain ob where ob: "observed_state_from_evidence (Some ''paused'') (Some container_state) = ob" by blast
  obtain d where d: "record_runtime_observation (Some ?m) (observed_value ob) ''paused'' None = Inr d"
    and "runtime_view (Some d) =
      (runtime_view (Some ?m))\<lparr>rv_desired := (case rv_desired (runtime_view (Some ?m)) of
           Some x \<Rightarrow> Some x | None \<Rightarrow> Some (desired_value (desired_state_from_public_status ''paused''))),
         rv_observed := Some (observed_value ob), rv_token := new_token None (rv_token (runtime_view (Some ?m)))\<rparr>"
    using observation_run [OF observed_res_value] by blast
  ultimately have view: "rv_desired (runtime_view (Some d)) = Some desired" using assms(3) by simp
  obtain w' where w': "h_sync_session hooks
      ((c_runtime s)\<lparr>rt_status := ''paused'', rt_metrics := Some d, rt_last_error := None\<rparr>) (c_world s) = (Inr (), w')"
    using sync by blast
  have "reconcile_clickhouse_kafka_ingest_v2 env worker hooks ws container_state s =
      apply_clickhouse_kafka_ingest_v2_terminal hooks ''paused'' container_state s"
    using assms(1,2) unfolding reconcile_clickhouse_kafka_ingest_v2_def by (simp only: Let_def) simp
  then show ?thesis using d view w' ob
    by (simp add: apply_clickhouse_kafka_ingest_v2_terminal_def bind_op_def set_runtime_def set_job_def write_op_def
        put_metrics_def put_observation_def sync_session_op_def in_world_def save_kafka_continuous_command_def)
qed

theorem paused_connector_overrides_intent_witness:
  "\<exists>t. reconcile_clickhouse_kafka_ingest_v2 sample_env (\<lambda>_ _ _ _. return_op [])
       (sample_hooks (sample_report ''old'') []) [(''requestedAction'', JStr ''pause'')] ''exited''
       (sample_control (sample_runtime ''stopping'' ''stopped'' ''a1'')) = (Inr (), t)
     \<and> rt_status (c_runtime t) = ''paused'' \<and> rv_desired (runtime_view (rt_metrics (c_runtime t))) = Some ''stopped''"
proof -
  let ?s = "sample_control (sample_runtime ''stopping'' ''stopped'' ''a1'')"
  let ?h = "sample_hooks (sample_report ''old'') []"
  have a: "optional_string (jget ''requestedAction'' [(''requestedAction'', JStr ''pause'')]) = Some ''pause''"
    and b: "rv_desired (runtime_view (rt_metrics (c_runtime ?s))) = Some ''stopped''" by code_simp+
  have sync: "\<exists>w'. h_sync_session ?h r w = (Inr (), w')" for r w by (simp add: sample_hooks_def return_op_def)
  have "''exited'' \<in> {''exited'', ''missing''}" by simp
  from paused_connector_overrides_intent [OF this a b sync, of sample_env "\<lambda>_ _ _ _. return_op []"]
  show ?thesis by auto
qed

end
