(* ===== verification/Continuous_Session.thy ===== *)
theory Continuous_Session
  imports Continuous_Control
begin

section \<open>Sessions of Continuous jobs\<close>

text \<open>
  The part of \<open>services/etl/continuous_session.py\<close> that opens, finds, fails and closes the session of a
  Continuous job. The random suffix of a session id and the clock are arguments. These functions are
  the session hooks of the command use case; the contract \<open>session_hook\<close> says what that use case relies
  on: they leave the trace, the status and the abstract contract of the runtime alone.
\<close>

definition baseline_counts :: "runtime_row \<Rightarrow> dict" where
  "baseline_counts r =
     [(''consumedCount'', JInt (rt_consumed_count r)), (''storedCount'', JInt (rt_stored_count r)),
      (''quarantinedCount'', JInt (rt_quarantined_count r)), (''failedCount'', JInt (rt_failed_count r)),
      (''lastBatchId'', of_opt_str (rt_last_batch_id r))]"

definition begin_kafka_continuous_session :: "string \<Rightarrow> string \<Rightarrow> ('w control, string option) op" where
  "begin_kafka_continuous_session token now = (\<lambda>s.
     let session_id = ''SESSION-'' @ j_id (c_job s) @ ''-'' @ token;
         counts = baseline_counts (c_runtime s)
     in bind_op (merge_metrics [(''currentSessionId'', JStr session_id), (''currentSessionEndReason'', JNull)]) (\<lambda>_.
        bind_op (write_op (\<lambda>s. s\<lparr>c_sessions :=
          \<lparr>se_session_id = session_id, se_job_id = j_id (c_job s), se_worker_attempt_id = None,
           se_status = ''starting'', se_started_at = now, se_ended_at = None, se_end_reason = None,
           se_checkpoint_path = rt_checkpoint_path (c_runtime s), se_baseline_counts = counts,
           se_failed_count = 0, se_last_error = None\<rparr> # c_sessions s\<rparr>)) (\<lambda>_.
        return_op (Some session_id))) s)"

definition current_kafka_continuous_session :: "runtime_row \<Rightarrow> session_row list \<Rightarrow> session_row option" where
  "current_kafka_continuous_session r rows =
     (let named = (case optional_string (jget ''currentSessionId'' (metrics_dict (rt_metrics r))) of
          None \<Rightarrow> None
        | Some sid \<Rightarrow> (case get_kafka_continuous_session sid rows of
              Some x \<Rightarrow> if se_job_id x = rt_job_id r then Some x else None
            | None \<Rightarrow> None))
      in case named of
           Some x \<Rightarrow> Some x
         | None \<Rightarrow> get_latest_active_kafka_continuous_session (rt_job_id r) rows)"

definition fail_kafka_continuous_session ::
  "string \<Rightarrow> string option \<Rightarrow> string \<Rightarrow> string \<Rightarrow> ('w control, unit) op" where
  "fail_kafka_continuous_session now session message reason =
     (case session of
        None \<Rightarrow> return_op ()
      | Some sid \<Rightarrow> set_session sid (\<lambda>x. x\<lparr>
          se_status := ''failed'', se_ended_at := opt_or (se_ended_at x) (Some now), se_end_reason := Some reason,
          se_failed_count := max (se_failed_count x) 1, se_last_error := Some message\<rparr>))"

definition mark_kafka_continuous_session_stopping :: "string \<Rightarrow> ('w control, unit) op" where
  "mark_kafka_continuous_session_stopping reason =
     bind_op (merge_metrics [(''currentSessionEndReason'', JStr reason)]) (\<lambda>_ s.
     case current_kafka_continuous_session (c_runtime s) (c_sessions s) of
       Some x \<Rightarrow>
         if se_status x \<notin> {''stopped'', ''failed''}
         then set_session (se_session_id x) (\<lambda>x. x\<lparr>se_status := ''stopping'', se_end_reason := Some reason\<rparr>) s
         else (Inr (), s)
     | None \<Rightarrow> (Inr (), s))"

subsection \<open>The contract of a session hook\<close>

definition same_intent :: "'w control \<Rightarrow> 'w control \<Rightarrow> bool" where
  "same_intent s t \<longleftrightarrow>
     rt_status (c_runtime t) = rt_status (c_runtime s)
     \<and> runtime_view (rt_metrics (c_runtime t)) = runtime_view (rt_metrics (c_runtime s))
     \<and> rt_identity (c_runtime t) = rt_identity (c_runtime s)
     \<and> c_job t = c_job s \<and> c_runtimes t = c_runtimes s"

locale session_hook =
  fixes hook :: "('w control, 'a) op"
  assumes quiet: "c_trace (snd (hook s)) = c_trace s"
    and keeps: "same_intent s (snd (hook s))"
begin

lemma run: "hook s = (r, t) \<Longrightarrow> c_trace t = c_trace s \<and> same_intent s t"
  using quiet [of s] keeps [of s] by simp

end

lemma same_intent_refl [simp]: "same_intent s s"
  by (simp add: same_intent_def)

lemma merge_entry_same_intent:
  assumes "\<forall>kv \<in> set entries. fst kv \<noteq> RUNTIME_CONTRACT_KEY \<and> fst kv \<noteq> ''currentWorkerAttemptId''"
  shows "runtime_view (Some (jmerge (metrics_dict m) entries)) = runtime_view m"
  using assms
proof (induction entries arbitrary: m)
  case Nil
  have "runtime_view (Some (metrics_dict m)) = runtime_view m" by (rule runtime_view_cong) simp_all
  then show ?case by simp
next
  case (Cons kv entries)
  obtain k v where kv: "kv = (k, v)" by (cases kv)
  have "runtime_view (Some (jmerge (metrics_dict (Some (jset k v (metrics_dict m)))) entries)) =
      runtime_view (Some (jset k v (metrics_dict m)))"
    using Cons.prems by (intro Cons.IH) simp
  also have "\<dots> = runtime_view m" using Cons.prems kv by (intro runtime_view_jset_other) simp_all
  finally show ?case by (simp add: kv)
qed

interpretation beginning: session_hook "begin_kafka_continuous_session token now" for token now
proof
  fix s :: "'w control"
  show "c_trace (snd (begin_kafka_continuous_session token now s)) = c_trace s"
    by (simp add: begin_kafka_continuous_session_def Let_def bind_op_def merge_metrics_def put_metrics_def
        write_op_def return_op_def)
  show "same_intent s (snd (begin_kafka_continuous_session token now s))"
    using merge_entry_same_intent [of "[(''currentSessionId'', JStr (''SESSION-'' @ j_id (c_job s) @ ''-'' @ token)),
        (''currentSessionEndReason'', JNull)]" "rt_metrics (c_runtime s)"]
    by (simp add: begin_kafka_continuous_session_def Let_def bind_op_def merge_metrics_def put_metrics_def
        write_op_def return_op_def same_intent_def rt_identity_def RUNTIME_CONTRACT_KEY_def)
qed

interpretation stopping: session_hook "mark_kafka_continuous_session_stopping reason" for reason
proof
  fix s :: "'w control"
  show "c_trace (snd (mark_kafka_continuous_session_stopping reason s)) = c_trace s"
    by (simp add: mark_kafka_continuous_session_stopping_def bind_op_def merge_metrics_def put_metrics_def
        set_session_def write_op_def split: option.splits)
  show "same_intent s (snd (mark_kafka_continuous_session_stopping reason s))"
    using merge_entry_same_intent [of "[(''currentSessionEndReason'', JStr reason)]" "rt_metrics (c_runtime s)"]
    by (simp add: mark_kafka_continuous_session_stopping_def bind_op_def merge_metrics_def put_metrics_def
        set_session_def write_op_def same_intent_def rt_identity_def RUNTIME_CONTRACT_KEY_def split: option.splits)
qed

interpretation failing: session_hook "fail_kafka_continuous_session now session message reason"
  for now session message reason
  by unfold_locales
    (simp_all add: fail_kafka_continuous_session_def set_session_def write_op_def return_op_def same_intent_def rt_identity_def
      split: option.splits)

end
