(* ===== verification/Continuous_Commands.thy ===== *)
theory Continuous_Commands
  imports Continuous_Reconciliation Continuous_Session
begin

section \<open>Lifecycle commands of Continuous jobs\<close>

text \<open>
  \<open>application/continuous_commands.py\<close>: start, resume, pause and stop. A command reserves the desired state
  and a new fence, commits them, and only then calls the worker; a lost answer is recovered by a
  status probe, a failed submission is recorded and raised again. Hooks are the callbacks the source
  passes in; \<open>uuid\<close> is the fresh id of the start fence.
\<close>

subsection \<open>Hooks and responses\<close>

record 'w command_hooks =
  k_is_kafka_job :: "etl_job \<Rightarrow> bool"
  k_runtime_from_job :: "etl_job \<Rightarrow> runtime_row"
  k_reconcile_stale_maintenance :: "string \<Rightarrow> ('w control, unit) op"
  k_require_no_active_maintenance :: "string \<Rightarrow> ('w control, unit) op"
  k_reconcile_pending_replay :: "('w control, unit) op"
  k_has_pending_replay :: "('w control, bool) op"
  k_begin_session :: "('w control, string option) op"
  k_persisted_partition_cursors :: "('w control, json) op"
  k_fail_session :: "string option \<Rightarrow> string \<Rightarrow> string \<Rightarrow> ('w control, unit) op"
  k_mark_session_stopping :: "string \<Rightarrow> ('w control, unit) op"
  k_with_permissions :: "etl_job \<Rightarrow> ('w control, json) op"
  k_worker_kind :: "etl_job \<Rightarrow> string"

record command_response =
  cr_action :: string
  cr_api_path :: string
  cr_job :: json
  cr_processing_result :: dict

definition action_by_command :: "string \<Rightarrow> string option" where
  "action_by_command = map_of
     [(''startContinuous'', ''etl.continuous.start_requested''),
      (''pauseContinuous'', ''etl.continuous.pause_requested''),
      (''resumeContinuous'', ''etl.continuous.resume_requested''),
      (''stopContinuous'', ''etl.continuous.stop_requested'')]"

definition respond :: "'w command_hooks \<Rightarrow> string \<Rightarrow> dict \<Rightarrow> ('w control, command_response) op" where
  "respond hooks action result = (\<lambda>s.
     bind_op (k_with_permissions hooks (c_job s)) (\<lambda>job.
     return_op \<lparr>cr_action = action, cr_api_path = ''/api/etl/jobs/'' @ j_id (c_job s) @ ''/commands'',
       cr_job = job, cr_processing_result = result\<rparr>) s)"

subsection \<open>Guards\<close>

definition lock_start_resources :: "'w command_hooks \<Rightarrow> ('w control, unit) op" where
  "lock_start_resources hooks = (\<lambda>s0. let job_id = j_id (c_job s0) in
     bind_op (k_reconcile_stale_maintenance hooks job_id) (\<lambda>_.
     bind_op (k_require_no_active_maintenance hooks job_id) (\<lambda>_.
     bind_op (k_reconcile_pending_replay hooks) (\<lambda>_.
     bind_op (k_has_pending_replay hooks) (\<lambda>pending.
     bind_op (check_op (\<not> pending)
       (ApiError ''CONFLICT'' ''Continuous Job cannot start until the committed Kafka replay is finalized.'' 409
         [(''jobId'', Some job_id), (''reason'', Some ''replay_catalog_pending'')])) (\<lambda>_ s.
     case lookup_key rt_job_id job_id (c_runtimes s) of
       None \<Rightarrow> (Inr (), s)
     | Some r \<Rightarrow> set_runtime (\<lambda>_. r) s))))) s0)"

definition require_allowed_transition ::
  "ContinuousCommandTransition \<Rightarrow> string \<Rightarrow> ('w control, unit) op" where
  "require_allowed_transition transition verb = (\<lambda>s.
     if ct_allowed transition then (Inr (), s)
     else if ct_rejection transition = Some ''already_active''
     then (Inl (ApiError ''CONFLICT'' (''Continuous Job is already active: '' @ j_id (c_job s)) 409 []), s)
     else (Inl (ApiError ''INVALID_JOB_STATE''
       (''Continuous Job cannot '' @ verb @ '' from: '' @ rt_status (c_runtime s)) 422 []), s))"

definition require_consumer_identity_available :: "('w control, unit) op" where
  "require_consumer_identity_available = (\<lambda>s.
     let r = c_runtime s; job_id = j_id (c_job s) in
     case find_conflicting_kafka_continuous_runtime (rt_broker r) (rt_topic r) (rt_consumer_group_id r) job_id
            (c_runtimes s) of
       Some conflict \<Rightarrow>
         (Inl (ApiError ''CONFLICT''
           (''Continuous consumer identity is already active on Job: '' @ rt_job_id conflict) 409
           [(''activeJobId'', Some (rt_job_id conflict)), (''runtimeStatus'', Some (rt_status conflict))]), s)
     | None \<Rightarrow>
         (case find_conflicting_kafka_snapshot (rt_broker r) (rt_topic r) (rt_consumer_group_id r) (Some job_id)
                (c_snapshots s) of
            Some snapshot \<Rightarrow>
              (Inl (ApiError ''CONFLICT''
                (''Kafka snapshot is already active: '' @ sn_snapshot_id snapshot) 409
                [(''activeSnapshotId'', Some (sn_snapshot_id snapshot)), (''activeJobId'', sn_job_id snapshot)]), s)
          | None \<Rightarrow> (Inr (), s)))"

subsection \<open>Calling the worker\<close>

definition deferred_result :: "'w command_hooks \<Rightarrow> etl_job \<Rightarrow> dict" where
  "deferred_result hooks job =
     [(''deferred'', JBool True), (''owner'', JStr ''continuous-worker''), (''worker'', JStr (k_worker_kind hooks job))]"

definition recover_lost_start_response :: "'w worker \<Rightarrow> ('w control, dict option) op" where
  "recover_lost_start_response worker = (\<lambda>s.
     case call_worker worker ''status'' None s of
       (Inl (ApiError code msg st det), s1) \<Rightarrow> (Inr None, s1)
     | (Inl e, s1) \<Rightarrow> (Inl e, s1)
     | (Inr observed, s1) \<Rightarrow>
         (Inr (if py_lower (py_str (por (jget ''containerState'' observed) (JStr [])))
                  \<in> {''created'', ''healthy'', ''running'', ''starting'', ''submitted'', ''waiting''}
               then Some (jmerge observed [(''submissionRecovered'', JBool True), (''started'', JBool False)])
               else None), s1))"

definition record_start_failure ::
  "control_env \<Rightarrow> 'w command_hooks \<Rightarrow> string option \<Rightarrow> string \<Rightarrow> string \<Rightarrow> ('w control, unit) op" where
  "record_start_failure env hooks session command message =
     bind_op (set_runtime (\<lambda>r. r\<lparr>rt_status := ''failed'', rt_failed_count := rt_failed_count r + 1,
       rt_last_error := Some message\<rparr>)) (\<lambda>_.
     bind_op (put_observation ''failed'' ''failed'' None) (\<lambda>_.
     bind_op (\<lambda>s. put_error env (simple_error StageSubmission ''continuous_worker_start_failed'' message True
       [(''jobId'', JStr (j_id (c_job s))), (''command'', JStr command)]) s) (\<lambda>_.
     bind_op (k_fail_session hooks session message ''start_failed'') (\<lambda>_.
     bind_op (set_job (\<lambda>j. j\<lparr>j_status := ''failed'', j_last_state := (''Continuous worker '' @ utf8 [0xC2DC, 0xC791, 0x20, 0xC2E4, 0xD328])\<rparr>)) (\<lambda>_.
     save_kafka_continuous_command)))))"

definition dispatch_start ::
  "control_env \<Rightarrow> 'w worker \<Rightarrow> 'w command_hooks \<Rightarrow> string option \<Rightarrow> string \<Rightarrow> bool \<Rightarrow> ('w control, dict) op" where
  "dispatch_start env worker hooks session command dispatch_worker = (\<lambda>s.
     if \<not> dispatch_worker then (Inr (deferred_result hooks (c_job s)), s)
     else case call_worker worker ''start'' (terminal_worker_options (c_runtime s)) s of
       (Inl (ApiError code msg st det), s1) \<Rightarrow>
         bind_op (recover_lost_start_response worker) (\<lambda>recovered.
         case recovered of
           Some d \<Rightarrow> return_op d
         | None \<Rightarrow>
             bind_op (record_start_failure env hooks session command msg) (\<lambda>_.
             raise_op (ApiError code msg st det))) s1
     | (Inl e, s1) \<Rightarrow> (Inl e, s1)
     | (Inr d, s1) \<Rightarrow> (Inr d, s1))"

definition dispatch_terminal ::
  "control_env \<Rightarrow> 'w worker \<Rightarrow> 'w command_hooks \<Rightarrow> string \<Rightarrow> string \<Rightarrow> bool \<Rightarrow> ('w control, dict) op" where
  "dispatch_terminal env worker hooks command verb dispatch_worker = (\<lambda>s.
     if \<not> dispatch_worker then (Inr (deferred_result hooks (c_job s)), s)
     else case call_worker worker verb (terminal_worker_options (c_runtime s)) s of
       (Inl (ApiError code msg st det), s1) \<Rightarrow>
         bind_op (\<lambda>s. put_error env (simple_error StageSubmission (''continuous_worker_'' @ verb @ ''_unknown'') msg True
           [(''jobId'', JStr (j_id (c_job s))), (''command'', JStr command)]) s) (\<lambda>_.
         bind_op (set_runtime (\<lambda>r. r\<lparr>rt_last_error := Some msg\<rparr>)) (\<lambda>_.
         bind_op save_kafka_continuous_command (\<lambda>_.
         raise_op (ApiError code msg st det)))) s1
     | (Inl e, s1) \<Rightarrow> (Inl e, s1)
     | (Inr d, s1) \<Rightarrow> (Inr d, s1))"

subsection \<open>The two kinds of command\<close>

definition reserve_start ::
  "'w command_hooks \<Rightarrow> string \<Rightarrow> string \<Rightarrow> ('w control, string option) op" where
  "reserve_start hooks uuid command =
     bind_op (lock_start_resources hooks) (\<lambda>_ s0.
     let transition = command_transition (rt_status (c_runtime s0)) command in
     bind_op (require_allowed_transition transition ''start'') (\<lambda>_.
     bind_op require_consumer_identity_available (\<lambda>_.
     bind_op (k_begin_session hooks) (\<lambda>session.
     bind_op (k_persisted_partition_cursors hooks) (\<lambda>cursors.
     bind_op (merge_metrics [(''streamPartitionCursors'', cursors)]) (\<lambda>_.
     bind_op (put_metrics (\<lambda>m. record_runtime_command m transition (Some (''start-'' @ uuid)))) (\<lambda>_.
     bind_op (set_runtime (\<lambda>r. r\<lparr>rt_status := public_value (ct_next_status transition)\<rparr>)) (\<lambda>_.
     bind_op (set_job (\<lambda>j. j\<lparr>j_status := ''running'',
       j_last_state := (''Continuous Spark worker '' @ utf8 [0xC2DC, 0xC791, 0x20, 0xC694, 0xCCAD]),
       j_progress := progress (''Continuous worker '' @ utf8 [0xC2DC, 0xC791, 0x20, 0xC694, 0xCCAD]) 5\<rparr>)) (\<lambda>_.
     return_op session)))))))) s0)"

definition run_start ::
  "control_env \<Rightarrow> 'w worker \<Rightarrow> 'w command_hooks \<Rightarrow> string \<Rightarrow> string \<Rightarrow> bool \<Rightarrow> ('w control, dict) op" where
  "run_start env worker hooks uuid command dispatch_worker =
     bind_op (reserve_start hooks uuid command) (\<lambda>session.
     bind_op save_kafka_continuous_command (\<lambda>_.
     bind_op (dispatch_start env worker hooks session command dispatch_worker) (\<lambda>result.
     let attempt = (case optional_string (por (jget ''workerAttemptId'' result) (jget ''containerId'' result)) of
           Some w \<Rightarrow> w | None \<Rightarrow> ''start-'' @ uuid)
     in bind_op (if jget ''worker'' result = JStr ''kafka_connect_clickhouse_v2''
          then set_job (\<lambda>j. j\<lparr>j_last_state := (''Kafka Connect '' @ utf8 [0x2192] @ '' ClickHouse V2 '' @ utf8 [0xC218, 0xC9D1, 0x20, 0xC2DC, 0xC791, 0x20, 0xC694, 0xCCAD]),
            j_progress := progress (''Kafka Connect V2 '' @ utf8 [0xC2DC, 0xC791, 0x20, 0xC694, 0xCCAD]) 5\<rparr>)
          else return_op ()) (\<lambda>_.
        bind_op (case session of
            None \<Rightarrow> return_op ()
          | Some sid \<Rightarrow> set_session sid (\<lambda>x. x\<lparr>se_worker_attempt_id := Some attempt\<rparr>)) (\<lambda>_.
        bind_op (put_metrics (\<lambda>m. Inr (bind_worker_attempt m (Some attempt)))) (\<lambda>_.
        bind_op (\<lambda>s. put_observation ''starting'' (rt_status (c_runtime s)) (Some attempt) s) (\<lambda>_.
        bind_op (set_runtime (\<lambda>r. r\<lparr>rt_last_error := None\<rparr>)) (\<lambda>_.
        return_op result))))))))"

definition reserve_terminal :: "'w command_hooks \<Rightarrow> string \<Rightarrow> ('w control, unit) op" where
  "reserve_terminal hooks command = (\<lambda>s0.
     let transition = command_transition (rt_status (c_runtime s0)) command;
         pause = (command = ''pauseContinuous'')
     in bind_op (require_allowed_transition transition (if pause then ''pause'' else ''stop'')) (\<lambda>_.
        bind_op (set_runtime (\<lambda>r. r\<lparr>rt_status := public_value (ct_next_status transition)\<rparr>)) (\<lambda>_.
        bind_op (put_metrics (\<lambda>m. record_runtime_command m transition None)) (\<lambda>_.
        bind_op (k_mark_session_stopping hooks (if pause then ''paused'' else ''stopped'')) (\<lambda>_.
        set_job (\<lambda>j. if pause
          then j\<lparr>j_status := ''running'',
            j_last_state := (''Continuous worker '' @ utf8 [0xB9C8, 0xC774, 0xD06C, 0xB85C, 0xBC30, 0xCE58, 0x20, 0xC885, 0xB8CC, 0x20, 0xB300, 0xAE30]), j_progress := progress (utf8 [0xC77C, 0xC2DC, 0xC815, 0xC9C0, 0x20, 0xC911]) 95\<rparr>
          else j\<lparr>j_status := ''running'',
            j_last_state := (''Continuous worker '' @ utf8 [0xC911, 0xC9C0, 0x20, 0xC694, 0xCCAD]), j_progress := progress (utf8 [0xC911, 0xC9C0, 0x20, 0xC911]) 95\<rparr>))))) s0)"

definition run_terminal ::
  "control_env \<Rightarrow> 'w worker \<Rightarrow> 'w command_hooks \<Rightarrow> string \<Rightarrow> bool \<Rightarrow> ('w control, dict) op" where
  "run_terminal env worker hooks command dispatch_worker =
     bind_op (reserve_terminal hooks command) (\<lambda>_.
     bind_op save_kafka_continuous_command (\<lambda>_.
     bind_op (dispatch_terminal env worker hooks command
       (if command = ''pauseContinuous'' then ''pause'' else ''stop'') dispatch_worker) (\<lambda>result.
     bind_op (\<lambda>s. put_observation ''stopping'' (rt_status (c_runtime s)) None s) (\<lambda>_.
     return_op result))))"

subsection \<open>The use case\<close>

definition load_runtime :: "'w command_hooks \<Rightarrow> ('w control, unit) op" where
  "load_runtime hooks = (\<lambda>s. set_runtime (\<lambda>_.
     case lookup_key rt_job_id (j_id (c_job s)) (c_runtimes s) of
       Some r \<Rightarrow> r | None \<Rightarrow> k_runtime_from_job hooks (c_job s)) s)"

definition repeat_stop :: "'w command_hooks \<Rightarrow> string \<Rightarrow> bool \<Rightarrow> ('w control, command_response) op" where
  "repeat_stop hooks action dispatch_worker =
     bind_op save_kafka_continuous_command (\<lambda>_ s.
     let status = rt_status (c_runtime s) in
     respond hooks action
       [(''controlPlaneOnly'', JBool (\<not> dispatch_worker)), (''idempotent'', JBool True),
        (''runtimeStatus'', JStr status), (''worker'', JStr (k_worker_kind hooks (c_job s))),
        (''workerResult'', JObj
          [(''alreadyRequested'', JBool (status = ''stopping'')), (''alreadyTerminal'', JBool (status = ''stopped''))])] s)"

definition execute_continuous_command ::
  "control_env \<Rightarrow> 'w worker \<Rightarrow> 'w command_hooks \<Rightarrow> string \<Rightarrow> string \<Rightarrow> bool
    \<Rightarrow> ('w control, command_response) op" where
  "execute_continuous_command env worker hooks uuid command dispatch_worker = (\<lambda>s0.
     case action_by_command command of
       None \<Rightarrow> (Inl (ApiError ''VALIDATION_ERROR'' (''Unsupported Continuous command: '' @ command) 400 []), s0)
     | Some action \<Rightarrow>
         if j_execution_mode (c_job s0) \<noteq> ''continuous'' \<or> \<not> k_is_kafka_job hooks (c_job s0)
         then (Inl (ApiError ''INVALID_JOB_STATE''
           ''Continuous commands require a Kafka Job created with executionMode=continuous.'' 422 []), s0)
         else
           bind_op (load_runtime hooks) (\<lambda>_ s.
           if command = ''stopContinuous'' \<and> rt_status (c_runtime s) \<in> {''stopping'', ''stopped''}
           then repeat_stop hooks action dispatch_worker s
           else
             bind_op
               (if command \<in> {''startContinuous'', ''resumeContinuous''}
                then run_start env worker hooks uuid command dispatch_worker
                else run_terminal env worker hooks command dispatch_worker) (\<lambda>result.
             bind_op save_kafka_continuous_command (\<lambda>_ t.
             respond hooks action
               [(''controlPlaneOnly'', JBool (\<not> dispatch_worker)),
                (''runtimeStatus'', JStr (rt_status (c_runtime t))),
                (''worker'', JStr (str_field ''worker'' result ''spark_structured_streaming'')),
                (''workerResult'', JObj result)] t)) s) s0)"

subsection \<open>What a run may write\<close>

text \<open>
  \<open>same_trace\<close> says that code committed nothing and called no worker, \<open>no_call\<close> that it called no worker, and
  \<open>later\<close> that it only added to the trace; each whatever the outcome.
\<close>

primrec is_call :: "control_event \<Rightarrow> bool" where
  "is_call (Saved j r) = False"
| "is_call (WorkerCalled action options) = True"

definition no_call :: "'w control \<Rightarrow> 'a res \<times> 'w control \<Rightarrow> bool" where
  "no_call s p \<longleftrightarrow> (\<exists>pre. c_trace (snd p) = pre @ c_trace s \<and> filter is_call pre = [])"

definition same_trace :: "'w control \<Rightarrow> 'a res \<times> 'w control \<Rightarrow> bool" where
  "same_trace s p \<longleftrightarrow> c_trace (snd p) = c_trace s"

definition later :: "'w control \<Rightarrow> 'a res \<times> 'w control \<Rightarrow> bool" where
  "later s p \<longleftrightarrow> (\<exists>es. c_trace (snd p) = es @ c_trace s)"

named_theorems trace_rules \<open>what code may add to the trace\<close>

lemma same_trace_bind [trace_rules]:
  assumes "same_trace s (m s)" and "\<And>a t. c_trace t = c_trace s \<Longrightarrow> same_trace t (f a t)"
  shows "same_trace s (bind_op m f s)"
  using assms by (cases "m s") (auto simp: same_trace_def bind_op_def split: sum.splits)

lemma no_call_bind [trace_rules]:
  assumes "no_call s (m s)" and "\<And>a t. no_call t (f a t)"
  shows "no_call s (bind_op m f s)"
proof (cases "m s")
  case (Pair r t)
  obtain pre where pre: "c_trace t = pre @ c_trace s" "filter is_call pre = []" using Pair assms(1) by (auto simp: no_call_def)
  show ?thesis
  proof (cases r)
    case (Inl e)
    then show ?thesis using Pair assms(1) by (simp add: no_call_def bind_op_def)
  next
    case (Inr a)
    obtain pre' where "c_trace (snd (f a t)) = pre' @ c_trace t" "filter is_call pre' = []"
      using assms(2) [of t a] by (auto simp: no_call_def)
    then have "c_trace (snd (bind_op m f s)) = (pre' @ pre) @ c_trace s \<and> filter is_call (pre' @ pre) = []"
      using Pair Inr pre by (simp add: bind_op_def)
    then show ?thesis unfolding no_call_def by blast
  qed
qed

lemma later_bind [trace_rules]:
  assumes "later s (m s)" and "\<And>a t. later t (f a t)"
  shows "later s (bind_op m f s)"
proof (cases "m s")
  case (Pair r t)
  show ?thesis
  proof (cases r)
    case (Inl e)
    then show ?thesis using Pair assms(1) by (simp add: later_def bind_op_def)
  next
    case (Inr a)
    obtain es where "c_trace t = es @ c_trace s" using Pair assms(1) by (auto simp: later_def)
    moreover obtain fs where "c_trace (snd (f a t)) = fs @ c_trace t" using assms(2) [of t a] by (auto simp: later_def)
    ultimately show ?thesis using Pair Inr by (simp add: later_def bind_op_def)
  qed
qed

lemma same_trace_later: "same_trace s p \<Longrightarrow> later s p"
  by (simp add: same_trace_def later_def)

lemma same_trace_no_call: "same_trace s p \<Longrightarrow> no_call s p"
  by (simp add: same_trace_def no_call_def)

lemma same_trace_simps [simp]:
  "same_trace s (r, s)"
  "same_trace s (return_op a s)"
  "same_trace s (raise_op e s)"
  "same_trace s (check_op b e s)"
  "same_trace s (set_runtime f s)"
  "same_trace s (set_job g s)"
  "same_trace s (set_session sid h s)"
  "same_trace s (put_metrics q s)"
  "same_trace s (merge_metrics d s)"
  "same_trace s (put_error env er s)"
  "same_trace s (put_observation obs dflt w s)"
  by (simp_all add: same_trace_def return_op_def raise_op_def check_op_def set_runtime_def set_job_def
      set_session_def write_op_def put_metrics_def merge_metrics_def put_error_def put_observation_def
      split: sum.splits)

lemma later_simps [simp]:
  "later s (r, s)"
  "later s (return_op a s)"
  "later s (raise_op e s)"
  "later s (check_op b e s)"
  "later s (set_runtime f s)"
  "later s (set_job g s)"
  "later s (set_session sid h s)"
  "later s (put_metrics q s)"
  "later s (merge_metrics d s)"
  "later s (put_error env er s)"
  "later s (put_observation obs dflt w s)"
  by (simp_all add: same_trace_later)

lemma later_save [simp]: "later s (save_kafka_continuous_command s)"
  by (simp add: later_def save_kafka_continuous_command_def write_op_def)

lemma later_call_worker [simp]: "later s (call_worker worker action options s)"
  by (auto simp: later_def call_worker_def bind_op_def write_op_def in_world_def split: prod.splits)

lemma later_into:
  assumes "later s (m s)" and "m s = (r, t)" and "later t p"
  shows "later s p"
  using assms by (auto simp: later_def)

subsection \<open>The hooks\<close>

text \<open>
  What the command use case relies on. The maintenance and replay hooks may commit counters, but they do
  not call the worker. The others neither commit nor change the status, the identity or the contract
  of the runtime.
\<close>

definition hooks_ok :: "'w command_hooks \<Rightarrow> bool" where
  "hooks_ok hooks \<longleftrightarrow>
     (\<forall>job s. no_call s (k_reconcile_stale_maintenance hooks job s))
     \<and> (\<forall>job s. no_call s (k_require_no_active_maintenance hooks job s))
     \<and> (\<forall>s. no_call s (k_reconcile_pending_replay hooks s)) \<and> (\<forall>s. no_call s (k_has_pending_replay hooks s))
     \<and> session_hook (k_persisted_partition_cursors hooks) \<and> (\<forall>job. session_hook (k_with_permissions hooks job))
     \<and> session_hook (k_begin_session hooks)
     \<and> (\<forall>session msg reason. session_hook (k_fail_session hooks session msg reason))
     \<and> (\<forall>reason. session_hook (k_mark_session_stopping hooks reason))"

lemma session_hook_same_trace: "session_hook m \<Longrightarrow> same_trace s (m s)"
  by (simp add: same_trace_def session_hook.quiet)

lemma hooks_ok_same_trace:
  assumes "hooks_ok hooks"
  shows "same_trace s (k_begin_session hooks s)" "same_trace s (k_persisted_partition_cursors hooks s)"
    "same_trace s (k_fail_session hooks session msg reason s)" "same_trace s (k_with_permissions hooks j s)"
    "same_trace s (k_mark_session_stopping hooks reason s)"
  using assms by (simp_all add: hooks_ok_def session_hook_same_trace)

lemma hooks_ok_no_call:
  assumes "hooks_ok hooks"
  shows "no_call s (k_reconcile_stale_maintenance hooks job s)" "no_call s (k_require_no_active_maintenance hooks job s)"
    "no_call s (k_reconcile_pending_replay hooks s)" "no_call s (k_has_pending_replay hooks s)"
  using assms by (simp_all add: hooks_ok_def)

lemma respond_same_trace: "hooks_ok hooks \<Longrightarrow> same_trace s (respond hooks action result s)"
  unfolding respond_def by (rule same_trace_bind) (simp_all add: hooks_ok_same_trace)

lemma lock_no_call:
  assumes "hooks_ok hooks"
  shows "no_call s (lock_start_resources hooks s)"
  unfolding lock_start_resources_def Let_def
  by (intro no_call_bind) (simp_all add: hooks_ok_no_call [OF assms] same_trace_no_call split: option.splits)

lemma guards_same_trace [simp]:
  "same_trace s (require_allowed_transition tr verb s)"
  "same_trace s (require_consumer_identity_available s)"
  by (simp_all add: require_allowed_transition_def require_consumer_identity_available_def Let_def split: option.splits)

lemma reserve_start_no_call:
  assumes "hooks_ok hooks"
  shows "no_call s (reserve_start hooks uuid command s)"
  unfolding reserve_start_def Let_def
  by (intro no_call_bind)
    (simp_all add: hooks_ok_same_trace [OF assms] lock_no_call [OF assms] same_trace_no_call)

lemma reserve_terminal_no_call:
  assumes "hooks_ok hooks"
  shows "no_call s (reserve_terminal hooks command s)"
  unfolding reserve_terminal_def Let_def
  by (intro no_call_bind) (simp_all add: hooks_ok_same_trace [OF assms] same_trace_no_call)

lemma record_start_failure_later:
  assumes "hooks_ok hooks"
  shows "later s (record_start_failure env hooks session command msg s)"
  unfolding record_start_failure_def
  by (intro later_bind) (simp_all add: same_trace_later hooks_ok_same_trace [OF assms])

lemma recover_later: "later s (recover_lost_start_response worker s)"
  using later_call_worker [of s worker "''status''" None]
  by (auto simp: recover_lost_start_response_def later_def split: prod.splits sum.splits py_error.splits)

lemma dispatch_start_later:
  fixes worker :: "'w worker"
  assumes "hooks_ok hooks"
  shows "later s (dispatch_start env worker hooks session command dispatch s)"
proof -
  have rest: "later t (bind_op (recover_lost_start_response worker) (\<lambda>recovered.
      case recovered of Some d \<Rightarrow> return_op d
      | None \<Rightarrow> bind_op (record_start_failure env hooks session command msg) (\<lambda>_. raise_op e)) t)" for t msg e
    by (intro later_bind) (auto simp: recover_later intro!: later_bind record_start_failure_later [OF assms] split: option.splits)
  obtain r t where call: "call_worker worker ''start'' (terminal_worker_options (c_runtime s)) s = (r, t)"
    by (meson surj_pair)
  note into = later_into [where m = "call_worker worker ''start'' (terminal_worker_options (c_runtime s))",
      OF later_call_worker call]
  show ?thesis
  proof (cases r)
    case (Inl e)
    then show ?thesis using call into [OF rest] into [of "(Inl e, t) :: dict res \<times> 'w control"]
      by (cases e) (simp_all add: dispatch_start_def)
  next
    case (Inr d)
    then show ?thesis using call into [of "(Inr d, t) :: dict res \<times> 'w control"] by (simp add: dispatch_start_def)
  qed
qed

lemma dispatch_terminal_later:
  fixes worker :: "'w worker"
  shows "later s (dispatch_terminal env worker hooks command verb dispatch s)"
proof -
  have rest: "later t (bind_op (\<lambda>s. put_error env (er s) s) (\<lambda>_.
      bind_op (set_runtime f) (\<lambda>_. bind_op save_kafka_continuous_command (\<lambda>_. raise_op e))) t :: dict res \<times> 'w control)"
    for t er f and e :: py_error
    by (intro later_bind) simp_all
  obtain r t where call: "call_worker worker verb (terminal_worker_options (c_runtime s)) s = (r, t)"
    by (meson surj_pair)
  note into = later_into [where m = "call_worker worker verb (terminal_worker_options (c_runtime s))",
      OF later_call_worker call]
  show ?thesis
  proof (cases r)
    case (Inl e)
    then show ?thesis using call into [OF rest] into [of "(Inl e, t) :: dict res \<times> 'w control"]
      by (cases e) (simp_all add: dispatch_terminal_def)
  next
    case (Inr d)
    then show ?thesis using call into [of "(Inr d, t) :: dict res \<times> 'w control"] by (simp add: dispatch_terminal_def)
  qed
qed

subsection \<open>What is committed before the worker hears of it\<close>

lemma require_allowed_transition_iff [op_elims]:
  "require_allowed_transition tr verb s = (Inr u, t) \<longleftrightarrow> ct_allowed tr \<and> t = s"
  by (auto simp: require_allowed_transition_def)

lemma record_command_view:
  assumes "record_runtime_command m tr w = Inr d"
  shows "rv_desired (runtime_view (Some d)) = Some (desired_value (ct_desired_state tr))
    \<and> rv_revision (runtime_view (Some d)) = rv_revision (runtime_view m) + 1
    \<and> rv_token (runtime_view (Some d)) = new_token w (rv_token (runtime_view m))"
  using command_refines [of m tr w] assms by (auto split: if_splits)

lemma start_transition:
  "command \<in> {''startContinuous'', ''resumeContinuous''} \<Longrightarrow>
   ct_desired_state (command_transition st command) = DesiredRunning
   \<and> ct_next_status (command_transition st command) = PublicStarting"
  by (auto simp: command_transition_def Let_def)

lemma reserve_start_intent:
  assumes "reserve_start hooks uuid command s = (Inr session, t)"
    and "command \<in> {''startContinuous'', ''resumeContinuous''}"
  shows "rt_status (c_runtime t) = ''starting''
    \<and> rv_desired (runtime_view (rt_metrics (c_runtime t))) = Some ''running''
    \<and> rv_token (runtime_view (rt_metrics (c_runtime t))) = nonempty (py_strip (''start-'' @ uuid))"
  using assms(1) start_transition [OF assms(2)]
  by (auto simp: reserve_start_def Let_def op_elims new_token_def opt_text_def dest!: record_command_view)

lemma terminal_transition:
  "ct_desired_state (command_transition st ''pauseContinuous'') = DesiredPaused"
  "ct_next_status (command_transition st ''pauseContinuous'') = PublicPausing"
  "ct_desired_state (command_transition st ''stopContinuous'') = DesiredStopped"
  "ct_next_status (command_transition st ''stopContinuous'') = PublicStopping"
  by (simp_all add: command_transition_def Let_def)

lemma reserve_terminal_intent:
  assumes "reserve_terminal hooks command s = (Inr (), t)" and "hooks_ok hooks"
    and "command = ''pauseContinuous'' \<and> status = ''pausing'' \<and> desired = ''paused''
      \<or> command = ''stopContinuous'' \<and> status = ''stopping'' \<and> desired = ''stopped''"
  shows "rt_status (c_runtime t) = status
    \<and> rv_desired (runtime_view (rt_metrics (c_runtime t))) = Some desired"
proof -
  define tr where "tr = command_transition (rt_status (c_runtime s)) command"
  have tr: "public_value (ct_next_status tr) = status" "desired_value (ct_desired_state tr) = desired"
    using assms(3) by (auto simp: tr_def terminal_transition)
  obtain d u reason where d: "record_runtime_command (rt_metrics (c_runtime s)) tr None = Inr d"
    and mark: "k_mark_session_stopping hooks reason
      (s\<lparr>c_runtime := (c_runtime s)\<lparr>rt_status := public_value (ct_next_status tr), rt_metrics := Some d\<rparr>\<rparr>) = (Inr (), u)"
    and t: "c_runtime t = c_runtime u"
    using assms(1) by (auto simp: reserve_terminal_def Let_def op_elims tr_def)
  have "session_hook (k_mark_session_stopping hooks reason)" using assms(2) by (simp add: hooks_ok_def)
  from session_hook.run [OF this mark] show ?thesis
    using t tr record_command_view [OF d] by (auto simp: same_intent_def)
qed

text \<open>The commit that every command makes before anything else becomes visible.\<close>

definition committed_intent :: "string \<Rightarrow> string \<Rightarrow> control_event list \<Rightarrow> runtime_row \<Rightarrow> bool" where
  "committed_intent uuid command es r \<longleftrightarrow>
     (let v = runtime_view (rt_metrics r) in
      if command \<in> {''startContinuous'', ''resumeContinuous''} then
        rt_status r = ''starting'' \<and> rv_desired v = Some ''running''
        \<and> rv_token v = nonempty (py_strip (''start-'' @ uuid))
      else if command = ''pauseContinuous'' then rt_status r = ''pausing'' \<and> rv_desired v = Some ''paused''
      else rt_status r \<in> {''stopping'', ''stopped''} \<and> (es \<noteq> [] \<longrightarrow> rt_status r = ''stopping'' \<and> rv_desired v = Some ''stopped''))"

lemma commit_then_later:
  assumes "bind_op m (\<lambda>a. bind_op save_kafka_continuous_command (\<lambda>_. f a)) s = (r, t)"
    and "no_call s (m s)" and "\<And>a u. later u (f a u)"
  obtains (failed) pre where "c_trace t = pre @ c_trace s" "filter is_call pre = []"
    | (committed) a u es pre where "m s = (Inr a, u)" "filter is_call pre = []"
        "c_trace t = es @ Saved (c_job u) (c_runtime u) # pre @ c_trace s"
proof (cases "m s")
  case (Pair x u)
  obtain pre where pre: "c_trace u = pre @ c_trace s" "filter is_call pre = []" using Pair assms(2) by (auto simp: no_call_def)
  show ?thesis
  proof (cases x)
    case (Inl e)
    then show ?thesis using Pair assms(1) pre failed [of pre] by (simp add: bind_op_def)
  next
    case (Inr a)
    define v where "v = u\<lparr>c_runtimes := save_row (c_runtime u) (c_runtimes u),
        c_trace := Saved (c_job u) (c_runtime u) # c_trace u\<rparr>"
    have "f a v = (r, t)" using Pair Inr assms(1)
      by (simp add: bind_op_def save_kafka_continuous_command_def write_op_def v_def)
    moreover obtain es where "c_trace (snd (f a v)) = es @ c_trace v" using assms(3) by (auto simp: later_def)
    ultimately have "c_trace t = es @ Saved (c_job u) (c_runtime u) # pre @ c_trace s"
      using pre by (simp add: v_def)
    then show ?thesis using Pair Inr pre(2) committed [of a u pre es] by simp
  qed
qed

text \<open>The conclusion of the theorem below, for one run.\<close>

definition intent_first :: "string \<Rightarrow> string \<Rightarrow> 'w control \<Rightarrow> 'w control \<Rightarrow> bool" where
  "intent_first uuid command s t \<longleftrightarrow>
     (\<exists>pre. filter is_call pre = [] \<and>
       (c_trace t = pre @ c_trace s
        \<or> (\<exists>es j row. c_trace t = es @ Saved j row # pre @ c_trace s \<and> committed_intent uuid command es row)))"

lemma run_start_commits:
  assumes "hooks_ok hooks" and "command \<in> {''startContinuous'', ''resumeContinuous''}"
    and "\<And>d v. later v (fin d v)"
    and "bind_op (run_start env worker hooks uuid command dispatch) fin s = (r, t)"
  shows "intent_first uuid command s t"
  using assms(4) [unfolded run_start_def bind_op_assoc] reserve_start_no_call [OF assms(1)]
proof (rule commit_then_later)
  fix a u es pre
  assume "reserve_start hooks uuid command s = (Inr a, u)" and pre: "filter is_call pre = []"
    and t: "c_trace t = es @ Saved (c_job u) (c_runtime u) # pre @ c_trace s"
  from reserve_start_intent [OF this(1) assms(2)] have "committed_intent uuid command es (c_runtime u)"
    using assms(2) by (simp add: committed_intent_def)
  then show ?thesis using t pre unfolding intent_first_def by blast
qed (unfold Let_def, (intro later_bind,
    simp_all add: dispatch_start_later [OF assms(1)] assms(3) split: option.split if_split)?,
  auto simp: intent_first_def)

lemma run_terminal_commits:
  assumes "hooks_ok hooks" and "command = ''pauseContinuous'' \<or> command = ''stopContinuous''"
    and "\<And>d v. later v (fin d v)"
    and "bind_op (run_terminal env worker hooks command dispatch) fin s = (r, t)"
  shows "intent_first uuid command s t"
  using assms(4) [unfolded run_terminal_def bind_op_assoc] reserve_terminal_no_call [OF assms(1)]
proof (rule commit_then_later)
  define status where "status = (if command = ''pauseContinuous'' then ''pausing'' else ''stopping'')"
  define desired where "desired = (if command = ''pauseContinuous'' then ''paused'' else ''stopped'')"
  have sd: "command = ''pauseContinuous'' \<and> status = ''pausing'' \<and> desired = ''paused''
      \<or> command = ''stopContinuous'' \<and> status = ''stopping'' \<and> desired = ''stopped''"
    using assms(2) by (auto simp: status_def desired_def)
  fix a u es pre
  assume "reserve_terminal hooks command s = (Inr a, u)" and pre: "filter is_call pre = []"
    and t: "c_trace t = es @ Saved (c_job u) (c_runtime u) # pre @ c_trace s"
  from reserve_terminal_intent [OF this(1) [unfolded unit_eq [of a]] assms(1) sd]
  have "committed_intent uuid command es (c_runtime u)"
    using sd by (auto simp: committed_intent_def Let_def)
  then show ?thesis using t pre unfolding intent_first_def by blast
qed ((intro later_bind, simp_all add: dispatch_terminal_later assms(3))?, auto simp: intent_first_def)

lemma repeat_stop_commits:
  assumes "hooks_ok hooks" and "rt_status (c_runtime s) \<in> {''stopping'', ''stopped''}"
    and "repeat_stop hooks action dispatch s = (r, t)"
  shows "intent_first uuid ''stopContinuous'' s t"
proof -
  define v where "v = s\<lparr>c_runtimes := save_row (c_runtime s) (c_runtimes s),
      c_trace := Saved (c_job s) (c_runtime s) # c_trace s\<rparr>"
  obtain result where "respond hooks action result v = (r, t)"
    using assms(3) by (simp add: repeat_stop_def bind_op_def save_kafka_continuous_command_def write_op_def
        Let_def v_def [symmetric])
  then have "c_trace t = [] @ Saved (c_job s) (c_runtime s) # [] @ c_trace s"
    using respond_same_trace [OF assms(1), of v action result] by (simp add: same_trace_def v_def)
  moreover have "committed_intent uuid ''stopContinuous'' [] (c_runtime s)"
    using assms(2) by (simp add: committed_intent_def)
  ultimately show ?thesis unfolding intent_first_def by (metis filter.simps(1))
qed

text \<open>The shape of a run: refused, a repeated stop, or a start or terminal command followed by code that only adds to the trace.\<close>

lemma execute_cases:
  assumes "hooks_ok hooks" and "execute_continuous_command env worker hooks uuid command dispatch s = (r, t)"
    and "load_runtime hooks s = (Inr (), u)"
  obtains (refused) "t = s"
    | (repeated) action where "command = ''stopContinuous''" "rt_status (c_runtime u) \<in> {''stopping'', ''stopped''}"
        "repeat_stop hooks action dispatch u = (r, t)"
    | (start) fin where "command \<in> {''startContinuous'', ''resumeContinuous''}" "\<And>d v. later v (fin d v)"
        "bind_op (run_start env worker hooks uuid command dispatch) fin u = (r, t)"
    | (terminal) fin where "command = ''pauseContinuous'' \<or> command = ''stopContinuous''" "\<And>d v. later v (fin d v)"
        "bind_op (run_terminal env worker hooks command dispatch) fin u = (r, t)"
proof (cases "action_by_command command = None
    \<or> (j_execution_mode (c_job s) \<noteq> ''continuous'' \<or> \<not> k_is_kafka_job hooks (c_job s))")
  case True
  then show ?thesis using assms(2) refused unfolding execute_continuous_command_def
    by (cases "action_by_command command") (simp_all split: if_splits)
next
  case False
  then obtain action where action: "action_by_command command = Some action"
    and guarded: "\<not> (j_execution_mode (c_job s) \<noteq> ''continuous'' \<or> \<not> k_is_kafka_job hooks (c_job s))" by auto
  define fin where "fin = (\<lambda>result. bind_op save_kafka_continuous_command (\<lambda>_ t.
      respond hooks action
        [(''controlPlaneOnly'', JBool (\<not> dispatch)), (''runtimeStatus'', JStr (rt_status (c_runtime t))),
         (''worker'', JStr (str_field ''worker'' result ''spark_structured_streaming'')),
         (''workerResult'', JObj result)] t))"
  have fin: "later v (fin d v)" for d v
    unfolding fin_def by (intro later_bind) (simp_all add: same_trace_later respond_same_trace [OF assms(1)])
  have run: "(if command = ''stopContinuous'' \<and> rt_status (c_runtime u) \<in> {''stopping'', ''stopped''}
      then repeat_stop hooks action dispatch u
      else bind_op (if command \<in> {''startContinuous'', ''resumeContinuous''}
          then run_start env worker hooks uuid command dispatch
          else run_terminal env worker hooks command dispatch) fin u) = (r, t)"
    using assms(2) unfolding execute_continuous_command_def action option.case if_not_P [OF guarded] fin_def
      bind_op_step [where m = "load_runtime hooks", OF assms(3)] .
  have "command \<in> {''startContinuous'', ''resumeContinuous''} \<or> command = ''pauseContinuous'' \<or> command = ''stopContinuous''"
    using action by (auto simp: action_by_command_def split: if_splits)
  then show ?thesis
    using run repeated [of action] start [of fin, OF _ fin] terminal [of fin, OF _ fin]
    by (simp only: split: if_split_asm) blast+
qed

text \<open>C4. A command commits its intent before the worker can hear of it: whatever the outcome of the command,
  either no worker was called, or before the first call there is a commit of the runtime in its new
  status with the new desired state, and for a start with the new fence; every worker call and every
  further commit of the command come after it.\<close>

theorem intent_committed_before_signal:
  assumes "hooks_ok hooks"
    and "execute_continuous_command env worker hooks uuid command dispatch s = (r, t)"
  shows "\<exists>pre. filter is_call pre = [] \<and>
    (c_trace t = pre @ c_trace s
     \<or> (\<exists>es j row. c_trace t = es @ Saved j row # pre @ c_trace s \<and> committed_intent uuid command es row))"
proof -
  obtain u where u: "load_runtime hooks s = (Inr (), u)" "c_trace u = c_trace s"
    by (simp add: load_runtime_def set_runtime_def write_op_def)
  from assms(1,2) u(1) have "intent_first uuid command u t \<or> t = s"
  proof (cases rule: execute_cases)
    case (repeated action)
    then show ?thesis using repeat_stop_commits [OF assms(1) repeated(2,3)] by simp
  next
    case (start fin)
    then show ?thesis using run_start_commits [OF assms(1) start] by blast
  next
    case (terminal fin)
    then show ?thesis using run_terminal_commits [OF assms(1) terminal] by blast
  qed simp
  then show ?thesis using u(2) unfolding intent_first_def by (metis append_Nil filter.simps(1))
qed

definition sample_command_hooks :: "'w command_hooks" where
  "sample_command_hooks =
     \<lparr>k_is_kafka_job = (\<lambda>_. True),
      k_runtime_from_job = (\<lambda>j. (sample_runtime ''stopped'' ''stopped'' ''a1'')\<lparr>rt_job_id := j_id j\<rparr>),
      k_reconcile_stale_maintenance = (\<lambda>_. return_op ()), k_require_no_active_maintenance = (\<lambda>_. return_op ()),
      k_reconcile_pending_replay = return_op (), k_has_pending_replay = return_op False,
      k_begin_session = begin_kafka_continuous_session ''0123'' ''2025-01-01T00:00:00+00:00'',
      k_persisted_partition_cursors = return_op (JList []),
      k_fail_session = fail_kafka_continuous_session ''2025-01-01T00:00:00+00:00'',
      k_mark_session_stopping = mark_kafka_continuous_session_stopping,
      k_with_permissions = (\<lambda>j. return_op (JStr (j_id j))), k_worker_kind = (\<lambda>_. ''spark_structured_streaming'')\<rparr>"

lemma return_session_hook: "session_hook (return_op a)"
  by unfold_locales (simp_all add: return_op_def)

lemma sample_command_hooks_ok: "hooks_ok sample_command_hooks"
  unfolding hooks_ok_def sample_command_hooks_def
  by (simp add: same_trace_no_call return_session_hook beginning.session_hook_axioms
      stopping.session_hook_axioms failing.session_hook_axioms)

theorem intent_committed_before_signal_witness:
  "\<exists>r t pre. execute_continuous_command sample_env (\<lambda>_ _ _ _. return_op []) sample_command_hooks ''u1''
       ''startContinuous'' True (sample_control (sample_runtime ''stopped'' ''stopped'' ''a1'')) = (r, t)
     \<and> filter is_call pre = []
     \<and> (c_trace t = pre
        \<or> (\<exists>es j row. c_trace t = es @ Saved j row # pre \<and> committed_intent ''u1'' ''startContinuous'' es row))"
proof -
  obtain r t where run: "execute_continuous_command sample_env (\<lambda>_ _ _ _. return_op []) sample_command_hooks ''u1''
       ''startContinuous'' True (sample_control (sample_runtime ''stopped'' ''stopped'' ''a1'')) = (r, t)"
    by (meson surj_pair)
  have "c_trace (sample_control (sample_runtime ''stopped'' ''stopped'' ''a1'')) = []" by (simp add: sample_control_def)
  then show ?thesis
    using run intent_committed_before_signal [OF sample_command_hooks_ok run] by auto
qed

end
