(* ===== verification/Consumer_Identity.thy ===== *)
theory Consumer_Identity
  imports Continuous_Commands
begin

section \<open>One consumer per Kafka identity\<close>

text \<open>
  A runtime that starts, runs or pauses holds its Kafka identity: broker, topic and consumer group. The
  start command refuses an identity that is already held, so the commands keep the table of runtimes free
  of two jobs with the same identity. The automatic restart of reconciliation makes no such check.

  The proofs use triples \<open>outcome P m Q\<close>: from a state in \<open>P\<close> the code \<open>m\<close> ends in \<open>Q\<close>, and when it raises,
  the table is still in order.
\<close>

definition consuming :: "runtime_row \<Rightarrow> bool" where
  "consuming r \<longleftrightarrow> rt_status r \<in> {''starting'', ''running'', ''pausing''}"

definition same_consumer :: "runtime_row \<Rightarrow> runtime_row \<Rightarrow> bool" where
  "same_consumer a b \<longleftrightarrow>
     rt_broker a = rt_broker b \<and> rt_topic a = rt_topic b \<and> rt_consumer_group_id a = rt_consumer_group_id b"

definition consumers_exclusive :: "runtime_row list \<Rightarrow> bool" where
  "consumers_exclusive rows \<longleftrightarrow>
     (\<forall>a \<in> set rows. \<forall>b \<in> set rows. consuming a \<and> consuming b \<and> same_consumer a b \<longrightarrow> rt_job_id a = rt_job_id b)"

definition runtimes_ok :: "runtime_row list \<Rightarrow> bool" where
  "runtimes_ok rows \<longleftrightarrow>
     consumers_exclusive rows \<and> (\<forall>r \<in> set rows. rt_status r \<in> set VALID_PUBLIC_STATUSES)"

text \<open>Nobody else holds the identity of the row.\<close>

definition unclaimed :: "runtime_row \<Rightarrow> runtime_row list \<Rightarrow> bool" where
  "unclaimed r rows \<longleftrightarrow> (\<forall>b \<in> set rows. consuming b \<and> same_consumer r b \<longrightarrow> rt_job_id b = rt_job_id r)"

definition in_order :: "'w control \<Rightarrow> bool" where
  "in_order s \<longleftrightarrow> runtimes_ok (c_runtimes s)"

text \<open>The runtime in hand belongs to the job and may be written.\<close>

definition in_hand :: "'w control \<Rightarrow> bool" where
  "in_hand s \<longleftrightarrow> rt_job_id (c_runtime s) = j_id (c_job s) \<and> rt_status (c_runtime s) \<in> set VALID_PUBLIC_STATUSES"

definition exclusive :: "'w control \<Rightarrow> bool" where
  "exclusive s \<longleftrightarrow>
     in_order s \<and> in_hand s \<and> (consuming (c_runtime s) \<longrightarrow> unclaimed (c_runtime s) (c_runtimes s))"

definition claimable :: "'w control \<Rightarrow> bool" where
  "claimable s \<longleftrightarrow> in_order s \<and> in_hand s \<and> unclaimed (c_runtime s) (c_runtimes s)"

definition outcome :: "('w control \<Rightarrow> bool) \<Rightarrow> ('w control, 'a) op \<Rightarrow> ('w control \<Rightarrow> bool) \<Rightarrow> bool" where
  "outcome P m Q \<longleftrightarrow> (\<forall>s. P s \<longrightarrow> (case m s of (Inr a, t) \<Rightarrow> Q t | (Inl e, t) \<Rightarrow> in_order t))"

subsection \<open>Writing the row\<close>

lemma same_consumer_sym: "same_consumer a b \<longleftrightarrow> same_consumer b a"
  unfolding same_consumer_def by (simp only: eq_commute [of "rt_broker a"] eq_commute [of "rt_topic a"]
      eq_commute [of "rt_consumer_group_id a"])

lemma set_save_row: "x \<in> set (save_row r rows) \<Longrightarrow> x = r \<or> x \<in> set rows"
  by (simp add: save_row_def split: if_splits) blast

lemma save_row_ok:
  assumes ok: "runtimes_ok rows" and valid: "rt_status r \<in> set VALID_PUBLIC_STATUSES"
    and free: "consuming r \<longrightarrow> unclaimed r rows"
  shows "runtimes_ok (save_row r rows)"
proof -
  have "rt_job_id a = rt_job_id b"
    if a: "a \<in> set (save_row r rows)" and b: "b \<in> set (save_row r rows)"
      and cs: "consuming a" "consuming b" "same_consumer a b" for a b
  proof -
    consider "a = r" "b = r" | "a = r" "b \<in> set rows" | "a \<in> set rows" "b = r" | "a \<in> set rows" "b \<in> set rows"
      using set_save_row [OF a] set_save_row [OF b] by blast
    then show ?thesis
    proof cases
      case 1
      then show ?thesis by simp
    next
      case 2
      then show ?thesis using cs free unfolding unclaimed_def by metis
    next
      case 3
      then show ?thesis using cs free same_consumer_sym [of a b] unfolding unclaimed_def by metis
    next
      case 4
      then show ?thesis using cs ok unfolding runtimes_ok_def consumers_exclusive_def by blast
    qed
  qed
  moreover have "rt_status a \<in> set VALID_PUBLIC_STATUSES" if "a \<in> set (save_row r rows)" for a
    using set_save_row [OF that] ok valid unfolding runtimes_ok_def by metis
  ultimately show ?thesis unfolding runtimes_ok_def consumers_exclusive_def by metis
qed

lemma save_row_unclaimed:
  assumes "unclaimed r rows"
  shows "unclaimed r (save_row r rows)"
  unfolding unclaimed_def
proof (intro ballI impI)
  fix b assume "b \<in> set (save_row r rows)" and b: "consuming b \<and> same_consumer r b"
  from set_save_row [OF this(1)] show "rt_job_id b = rt_job_id r"
    using assms b unfolding unclaimed_def by metis
qed

lemma table_row_unclaimed:
  assumes "runtimes_ok rows" and "r \<in> set rows" and "consuming r"
  shows "unclaimed r rows"
  using assms unfolding runtimes_ok_def consumers_exclusive_def unclaimed_def by metis

subsection \<open>Rules of the triples\<close>

named_theorems outcome_rules \<open>triples about exclusive consumers\<close>

lemma outcomeI:
  assumes "\<And>s a t. P s \<Longrightarrow> m s = (Inr a, t) \<Longrightarrow> Q t" and "\<And>s e t. P s \<Longrightarrow> m s = (Inl e, t) \<Longrightarrow> in_order t"
  shows "outcome P m Q"
  using assms by (auto simp: outcome_def split: prod.split sum.split)

lemma outcomeD:
  assumes "outcome P m Q" and "P s"
  shows "m s = (Inr a, t) \<Longrightarrow> Q t" and "m s = (Inl e, t) \<Longrightarrow> in_order t"
  using assms unfolding outcome_def by (metis (mono_tags, lifting) case_prod_conv old.sum.simps)+

lemma outcome_bind [outcome_rules]:
  assumes "outcome P m Q" and "\<And>a. outcome Q (f a) R"
  shows "outcome P (bind_op m f) R"
proof -
  have "case bind_op m f s of (Inr a, t) \<Rightarrow> R t | (Inl e, t) \<Rightarrow> in_order t" if s: "P s" for s
  proof (cases "m s")
    case (Pair r t)
    then show ?thesis
    proof (cases r)
      case (Inl e)
      then show ?thesis using Pair outcomeD(2) [OF assms(1) s] by (simp add: bind_op_def)
    next
      case (Inr a)
      then have "Q t" using Pair outcomeD(1) [OF assms(1) s] by simp
      then show ?thesis using Pair Inr assms(2) [of a] by (simp add: bind_op_def outcome_def)
    qed
  qed
  then show ?thesis unfolding outcome_def by blast
qed

lemma outcome_state [outcome_rules]:
  assumes "\<And>s. outcome P (m s) Q"
  shows "outcome P (\<lambda>s. m s s) Q"
  using assms by (simp add: outcome_def)

lemma outcome_quiet:
  assumes "\<And>s. P s \<Longrightarrow> P (snd (m s))" and "\<And>s. P s \<Longrightarrow> Q s" and "\<And>s. P s \<Longrightarrow> in_order s"
  shows "outcome P m Q"
proof (rule outcomeI)
  fix s a t assume "P s" and "m s = (Inr a, t)"
  then show "Q t" using assms(1) [of s] assms(2) [of t] by simp
next
  fix s e t assume "P s" and "m s = (Inl e, t)"
  then show "in_order t" using assms(1) [of s] assms(3) [of t] by simp
qed

text \<open>Code that leaves the table, the job and the identity and status of the runtime alone.\<close>

definition same_row :: "'w control \<Rightarrow> 'w control \<Rightarrow> bool" where
  "same_row s t \<longleftrightarrow>
     c_runtimes t = c_runtimes s \<and> j_id (c_job t) = j_id (c_job s)
     \<and> rt_identity (c_runtime t) = rt_identity (c_runtime s) \<and> rt_status (c_runtime t) = rt_status (c_runtime s)"

lemma same_row_unclaimed:
  assumes "rt_identity r = rt_identity r'"
  shows "unclaimed r rows \<longleftrightarrow> unclaimed r' rows"
  using assms unfolding unclaimed_def same_consumer_def rt_identity_def by simp

lemma same_row_invariants:
  assumes "same_row s t"
  shows "in_order t = in_order s" "exclusive t = exclusive s" "claimable t = claimable s"
  using assms same_row_unclaimed [of "c_runtime t" "c_runtime s"]
  by (simp_all only: same_row_def in_order_def exclusive_def claimable_def in_hand_def consuming_def
      rt_identity_def prod.inject)

lemma exclusive_in_order: "exclusive s \<Longrightarrow> in_order s" and claimable_in_order: "claimable s \<Longrightarrow> in_order s"
  and claimable_exclusive: "claimable s \<Longrightarrow> exclusive s"
  by (simp_all add: exclusive_def claimable_def)

lemma outcome_same_row:
  assumes "\<And>s. same_row s (snd (m s))"
  shows "outcome exclusive m exclusive" "outcome claimable m claimable" "outcome in_order m in_order"
  by (intro outcome_quiet; simp add: same_row_invariants [OF assms] exclusive_in_order claimable_in_order)+

lemma same_row_ops:
  "same_row s (snd (return_op a s))"
  "same_row s (snd (raise_op e s))"
  "same_row s (snd (check_op b e s))"
  "same_row s (snd (put_metrics q s))"
  "same_row s (snd (set_session sid h s))"
  "same_row s (snd (require_allowed_transition tr verb s))"
  "same_row s (snd (call_worker worker action options s))"
  by (simp_all add: same_row_def return_op_def raise_op_def check_op_def put_metrics_def set_session_def
      write_op_def require_allowed_transition_def call_worker_def bind_op_def in_world_def rt_identity_def
      split: sum.split prod.split)

lemma same_row_derived:
  "same_row s (snd (merge_metrics d s))"
  "same_row s (snd (put_error env er s))"
  "same_row s (snd (put_observation obs dflt w s))"
  by (simp_all add: merge_metrics_def put_error_def put_observation_def same_row_ops)

lemma same_row_set_job: "(\<And>j. j_id (g j) = j_id j) \<Longrightarrow> same_row s (snd (set_job g s))"
  by (simp add: same_row_def set_job_def write_op_def)

lemma same_row_set_runtime:
  "(\<And>r. rt_identity (g r) = rt_identity r \<and> rt_status (g r) = rt_status r) \<Longrightarrow> same_row s (snd (set_runtime g s))"
  by (simp add: same_row_def set_runtime_def write_op_def)

lemma same_row_hook: "session_hook m \<Longrightarrow> same_row s (snd (m s))"
  using session_hook.keeps [of m s] by (simp add: same_row_def same_intent_def)

lemmas outcome_ops [outcome_rules] =
  outcome_same_row [OF same_row_ops(1)] outcome_same_row [OF same_row_ops(2)] outcome_same_row [OF same_row_ops(3)]
  outcome_same_row [OF same_row_ops(4)] outcome_same_row [OF same_row_ops(5)] outcome_same_row [OF same_row_ops(6)]
  outcome_same_row [OF same_row_ops(7)] outcome_same_row [OF same_row_derived(1)]
  outcome_same_row [OF same_row_derived(2)] outcome_same_row [OF same_row_derived(3)]

lemma outcome_raise: "outcome in_order (raise_op e) Q"
  by (rule outcomeI) (auto simp: raise_op_def)

lemma outcome_save [outcome_rules]: "outcome exclusive save_kafka_continuous_command exclusive"
proof (rule outcomeI)
  fix s :: "'w control" and a t
  assume s: "exclusive s" and "save_kafka_continuous_command s = (Inr a, t)"
  then have t: "t = s\<lparr>c_runtimes := save_row (c_runtime s) (c_runtimes s),
      c_trace := Saved (c_job s) (c_runtime s) # c_trace s\<rparr>" by (simp add: save_iff)
  have "runtimes_ok (save_row (c_runtime s) (c_runtimes s))"
    using s unfolding exclusive_def in_order_def in_hand_def by (intro save_row_ok) simp_all
  then show "exclusive t" using s save_row_unclaimed [of "c_runtime s" "c_runtimes s"]
    unfolding t exclusive_def in_order_def in_hand_def by simp
qed (simp add: save_kafka_continuous_command_def write_op_def)

text \<open>Changing the status: towards a consuming one only when the identity is free or already held.\<close>

lemma outcome_status:
  assumes "\<And>r. rt_identity (g r) = rt_identity r" and "\<And>r. rt_status (g r) \<in> set VALID_PUBLIC_STATUSES"
  shows "outcome claimable (set_runtime g) exclusive"
    and "(\<And>r. \<not> consuming (g r)) \<Longrightarrow> outcome exclusive (set_runtime g) exclusive"
proof -
  have id: "rt_job_id (g r) = rt_job_id r" for r using assms(1) [of r] by (simp add: rt_identity_def)
  have "unclaimed (g r) rows = unclaimed r rows" for r rows by (rule same_row_unclaimed) (rule assms(1))
  then show "outcome claimable (set_runtime g) exclusive"
    using assms(2) by (intro outcomeI)
      (auto simp: set_runtime_def write_op_def claimable_def exclusive_def in_order_def in_hand_def id)
  assume "\<And>r. \<not> consuming (g r)"
  then show "outcome exclusive (set_runtime g) exclusive"
    using assms(2) by (intro outcomeI)
      (auto simp: set_runtime_def write_op_def exclusive_def in_order_def in_hand_def id)
qed

lemma outcome_pre: "outcome P m Q \<Longrightarrow> (\<And>s. P' s \<Longrightarrow> P s) \<Longrightarrow> outcome P' m Q"
  by (simp add: outcome_def)

lemma outcome_at:
  assumes "\<And>s0. P s0 \<Longrightarrow> outcome ((=) s0) (m s0) Q"
  shows "outcome P (\<lambda>s. m s s) Q"
  using assms by (simp add: outcome_def)

lemma outcome_allowed:
  assumes "in_order s0"
  shows "outcome ((=) s0) (require_allowed_transition tr verb) (\<lambda>s. s = s0 \<and> ct_allowed tr)"
  using assms by (intro outcomeI) (auto simp: require_allowed_transition_def split: if_splits)

lemma public_value_valid: "public_value p \<in> set VALID_PUBLIC_STATUSES"
  by (cases p) (simp_all add: VALID_PUBLIC_STATUSES_def public_members_def)

subsection \<open>The hooks\<close>

text \<open>The maintenance and replay hooks keep the job and the exclusivity of the consumers.\<close>

definition keeps_consumers :: "('w control, 'a) op \<Rightarrow> bool" where
  "keeps_consumers m \<longleftrightarrow>
     (\<forall>s. exclusive s \<longrightarrow> exclusive (snd (m s)) \<and> j_id (c_job (snd (m s))) = j_id (c_job s))"

definition hooks_keep_consumers :: "'w command_hooks \<Rightarrow> bool" where
  "hooks_keep_consumers hooks \<longleftrightarrow>
     (\<forall>job. keeps_consumers (k_reconcile_stale_maintenance hooks job))
     \<and> (\<forall>job. keeps_consumers (k_require_no_active_maintenance hooks job))
     \<and> keeps_consumers (k_reconcile_pending_replay hooks) \<and> keeps_consumers (k_has_pending_replay hooks)
     \<and> (\<forall>j. rt_job_id (k_runtime_from_job hooks j) = j_id j \<and> rt_status (k_runtime_from_job hooks j) = ''stopped'')"

definition of_job :: "string \<Rightarrow> 'w control \<Rightarrow> bool" where
  "of_job job_id s \<longleftrightarrow> exclusive s \<and> j_id (c_job s) = job_id"

lemma outcome_keeps: "keeps_consumers m \<Longrightarrow> outcome (of_job job_id) m (of_job job_id)"
  by (rule outcome_quiet) (simp_all add: keeps_consumers_def of_job_def exclusive_in_order)

lemma outcome_hooks:
  assumes "session_hook m"
  shows "outcome exclusive m exclusive" "outcome claimable m claimable"
  by (rule outcome_same_row, rule same_row_hook [OF assms])+

lemma find_row: "lookup_key rt_job_id job_id rows = Some r \<Longrightarrow> r \<in> set rows \<and> rt_job_id r = job_id"
  by (simp add: lookup_key_def find_Some_iff) (metis nth_mem)

lemma table_row_exclusive:
  assumes "in_order s" and "lookup_key rt_job_id (j_id (c_job s)) (c_runtimes s) = Some r"
  shows "exclusive (s\<lparr>c_runtime := r\<rparr>)"
proof -
  have r: "r \<in> set (c_runtimes s)" "rt_job_id r = j_id (c_job s)" using find_row [OF assms(2)] by simp_all
  have "rt_status r \<in> set VALID_PUBLIC_STATUSES" using r(1) assms(1) unfolding in_order_def runtimes_ok_def by blast
  moreover have "consuming r \<longrightarrow> unclaimed r (c_runtimes s)"
    using table_row_unclaimed [OF assms(1) [unfolded in_order_def] r(1)] by blast
  ultimately show ?thesis using assms(1) r(2) by (simp add: exclusive_def in_order_def in_hand_def)
qed

subsection \<open>The commands\<close>

lemma reload_outcome:
  "outcome (of_job job_id) (\<lambda>s. case lookup_key rt_job_id job_id (c_runtimes s) of
      None \<Rightarrow> (Inr (), s) | Some r \<Rightarrow> set_runtime (\<lambda>_. r) s) exclusive"
proof (rule outcomeI)
  fix s :: "'w control" and a t
  assume s: "of_job job_id s" and run: "(case lookup_key rt_job_id job_id (c_runtimes s) of
      None \<Rightarrow> (Inr (), s) | Some r \<Rightarrow> set_runtime (\<lambda>_. r) s) = (Inr a, t)"
  show "exclusive t"
  proof (cases "lookup_key rt_job_id job_id (c_runtimes s)")
    case None
    then show ?thesis using s run by (simp add: of_job_def)
  next
    case (Some r)
    then show ?thesis using s run table_row_exclusive [of s r]
      by (simp add: of_job_def set_runtime_def write_op_def exclusive_in_order)
  qed
qed (simp add: set_runtime_def write_op_def split: option.splits)

lemma check_outcome: "outcome (of_job job_id) (check_op b e) (of_job job_id)"
  by (rule outcome_quiet) (simp_all add: check_op_def return_op_def raise_op_def of_job_def exclusive_in_order)

lemma lock_outcome:
  assumes "hooks_keep_consumers hooks"
  shows "outcome exclusive (lock_start_resources hooks) exclusive"
proof -
  have "outcome (of_job job_id)
     (bind_op (k_reconcile_stale_maintenance hooks job_id) (\<lambda>_.
      bind_op (k_require_no_active_maintenance hooks job_id) (\<lambda>_.
      bind_op (k_reconcile_pending_replay hooks) (\<lambda>_.
      bind_op (k_has_pending_replay hooks) (\<lambda>pending.
      bind_op (check_op (\<not> pending) e) (\<lambda>_ s.
      case lookup_key rt_job_id job_id (c_runtimes s) of
        None \<Rightarrow> (Inr (), s) | Some r \<Rightarrow> set_runtime (\<lambda>_. r) s)))))) exclusive" for job_id and e :: py_error
    using assms unfolding hooks_keep_consumers_def
    by (intro outcome_bind [OF outcome_keeps] outcome_bind [OF check_outcome] reload_outcome) simp_all
  then show ?thesis unfolding lock_start_resources_def Let_def
    by (rule outcome_at [OF outcome_pre]) (simp add: of_job_def)
qed

lemma identity_outcome: "outcome exclusive require_consumer_identity_available claimable"
proof (rule outcomeI)
  fix s :: "'w control" and a t
  assume s: "exclusive s" and run: "require_consumer_identity_available s = (Inr a, t)"
  let ?r = "c_runtime s"
  have t: "t = s" and none: "find_conflicting_kafka_continuous_runtime (rt_broker ?r) (rt_topic ?r)
      (rt_consumer_group_id ?r) (j_id (c_job s)) (c_runtimes s) = None"
    using run by (auto simp: require_consumer_identity_available_def Let_def split: option.splits)
  have "rt_job_id b = rt_job_id ?r" if "b \<in> set (c_runtimes s)" "consuming b" "same_consumer ?r b" for b
  proof (rule ccontr)
    assume "rt_job_id b \<noteq> rt_job_id ?r"
    then have "rt_job_id b \<noteq> j_id (c_job s)" using s by (simp add: exclusive_def in_hand_def)
    from find_conflicting_runtime_active [OF none that(1) this] that(3)
    have "rt_status b \<notin> {''starting'', ''running'', ''pausing'', ''stopping''}"
      unfolding same_consumer_def by metis
    then show False using that(2) unfolding consuming_def by blast
  qed
  then show "claimable t" using s unfolding t claimable_def exclusive_def unclaimed_def by blast
qed (auto simp: require_consumer_identity_available_def Let_def exclusive_in_order split: option.splits)

lemma job_outcome: "(\<And>j. j_id (g j) = j_id j) \<Longrightarrow> outcome exclusive (set_job g) exclusive"
  by (rule outcome_same_row, rule same_row_set_job)

lemma start_outcome:
  assumes "hooks_ok hooks" and "hooks_keep_consumers hooks"
  shows "outcome exclusive (reserve_start hooks uuid command) exclusive"
proof -
  have hook: "session_hook (k_begin_session hooks)" "session_hook (k_persisted_partition_cursors hooks)"
    using assms(1) by (simp_all add: hooks_ok_def)
  have status: "outcome claimable (set_runtime (\<lambda>r. r\<lparr>rt_status := public_value st\<rparr>)) exclusive" for st
    by (rule outcome_status(1)) (simp_all add: rt_identity_def public_value_valid)
  have "outcome exclusive (bind_op (require_allowed_transition tr ''start'') (\<lambda>_.
     bind_op require_consumer_identity_available (\<lambda>_.
     bind_op (k_begin_session hooks) (\<lambda>session.
     bind_op (k_persisted_partition_cursors hooks) (\<lambda>cursors.
     bind_op (merge_metrics [(''streamPartitionCursors'', cursors)]) (\<lambda>_.
     bind_op (put_metrics (\<lambda>m. record_runtime_command m tr (Some (''start-'' @ uuid)))) (\<lambda>_.
     bind_op (set_runtime (\<lambda>r. r\<lparr>rt_status := public_value (ct_next_status tr)\<rparr>)) (\<lambda>_.
     bind_op (set_job (\<lambda>j. j\<lparr>j_status := x, j_last_state := y, j_progress := z\<rparr>)) (\<lambda>_.
     return_op session))))))))) exclusive" for tr x y z
    by (intro outcome_bind [OF outcome_ops(16)] outcome_bind [OF identity_outcome]
        outcome_bind [OF outcome_hooks(2) [OF hook(1)]] outcome_bind [OF outcome_hooks(2) [OF hook(2)]]
        outcome_bind [OF outcome_ops(23)] outcome_bind [OF outcome_ops(11)] outcome_bind [OF status]
        outcome_bind [OF job_outcome] outcome_ops(1)) simp
  then show ?thesis unfolding reserve_start_def Let_def
    by (intro outcome_bind [OF lock_outcome [OF assms(2)]]) (rule outcome_state)
qed

lemma pause_allowed:
  "ct_allowed (command_transition (public_value p) ''pauseContinuous'') \<longleftrightarrow> p = PublicStarting \<or> p = PublicRunning"
  by (cases p; hypsubst; code_simp)

lemma allowed_terminal:
  assumes "status \<in> set VALID_PUBLIC_STATUSES" and "ct_allowed (command_transition status ''pauseContinuous'')"
  shows "status \<in> {''starting'', ''running'', ''pausing''}"
proof -
  obtain p where p: "status = public_value p" using assms(1) by (auto simp: VALID_PUBLIC_STATUSES_def)
  show ?thesis using assms(2) unfolding p pause_allowed by auto
qed

lemma terminal_status_outcome:
  assumes "command = ''pauseContinuous'' \<or> command = ''stopContinuous''" and s0: "exclusive s0"
    and tr: "tr = command_transition (rt_status (c_runtime s0)) command"
  shows "outcome (\<lambda>s. s = s0 \<and> ct_allowed tr)
    (set_runtime (\<lambda>r. r\<lparr>rt_status := public_value (ct_next_status tr)\<rparr>)) exclusive"
  using assms(1)
proof
  assume c: "command = ''pauseContinuous''"
  have "claimable s0" if "ct_allowed tr"
  proof -
    have "rt_status (c_runtime s0) \<in> {''starting'', ''running'', ''pausing''}"
      using s0 that unfolding tr c by (intro allowed_terminal) (simp_all add: exclusive_def in_hand_def)
    then have "consuming (c_runtime s0)" by (simp only: consuming_def)
    then show ?thesis using s0 by (simp add: claimable_def exclusive_def)
  qed
  then show ?thesis
    by (intro outcome_pre [OF outcome_status(1)]) (auto simp: rt_identity_def public_value_valid)
next
  assume c: "command = ''stopContinuous''"
  show ?thesis using s0
    by (intro outcome_pre [OF outcome_status(2)])
      (auto simp: rt_identity_def public_value_valid [of PublicStopping, simplified] consuming_def tr c terminal_transition)
qed

lemma terminal_outcome:
  assumes "hooks_ok hooks" and "command = ''pauseContinuous'' \<or> command = ''stopContinuous''"
  shows "outcome exclusive (reserve_terminal hooks command) exclusive"
proof -
  have hook: "session_hook (k_mark_session_stopping hooks reason)" for reason
    using assms(1) by (simp add: hooks_ok_def)
  have "outcome ((=) s0) (bind_op (require_allowed_transition tr verb) (\<lambda>_.
        bind_op (set_runtime (\<lambda>r. r\<lparr>rt_status := public_value (ct_next_status tr)\<rparr>)) (\<lambda>_.
        bind_op (put_metrics (\<lambda>m. record_runtime_command m tr None)) (\<lambda>_.
        bind_op (k_mark_session_stopping hooks reason) (\<lambda>_. set_job g))))) exclusive"
    if "exclusive s0" and "tr = command_transition (rt_status (c_runtime s0)) command"
      and "\<And>j. j_id (g j) = j_id j" for s0 tr verb reason g
    by (intro outcome_bind [OF outcome_allowed [OF exclusive_in_order [OF that(1)]]]
        outcome_bind [OF terminal_status_outcome [OF assms(2) that(1,2)]] outcome_bind [OF outcome_ops(10)]
        outcome_bind [OF outcome_hooks(1) [OF hook]] job_outcome that(3))
  then show ?thesis unfolding reserve_terminal_def Let_def by (rule outcome_at) simp_all
qed

lemma raise_outcome: "outcome exclusive (raise_op e) Q"
  by (rule outcome_pre [OF outcome_raise]) (rule exclusive_in_order)

lemma note_outcome:
  "outcome exclusive (set_runtime (\<lambda>r. r\<lparr>rt_last_error := msg\<rparr>)) exclusive"
  by (rule outcome_same_row, rule same_row_set_runtime) (simp add: rt_identity_def)

lemma recover_outcome:
  fixes worker :: "'w worker"
  shows "outcome exclusive (recover_lost_start_response worker) exclusive"
proof (rule outcome_same_row)
  fix s :: "'w control"
  show "same_row s (snd (recover_lost_start_response worker s))"
  proof (cases "call_worker worker ''status'' None s")
    case (Pair r t)
    then have "same_row s t" using same_row_ops(7) [of s worker "''status''" None] by simp
    then show ?thesis using Pair
      by (simp add: recover_lost_start_response_def split: sum.split py_error.split)
  qed
qed

lemma failure_outcome:
  fixes hooks :: "'w command_hooks"
  assumes "hooks_ok hooks"
  shows "outcome exclusive (record_start_failure env hooks session command msg) exclusive"
proof -
  have hook: "session_hook (k_fail_session hooks session msg reason)" for reason
    using assms by (simp add: hooks_ok_def)
  have status: "outcome exclusive (set_runtime (\<lambda>r. r\<lparr>rt_status := ''failed'', rt_failed_count := rt_failed_count r + 1,
      rt_last_error := Some msg\<rparr>)) exclusive"
    by (rule outcome_status(2))
      (simp_all add: rt_identity_def consuming_def public_value_valid [of PublicFailed, simplified])
  have error: "outcome exclusive (\<lambda>s. put_error env (er s) s) exclusive" for er :: "'w control \<Rightarrow> error_report"
    by (rule outcome_same_row) (rule same_row_derived(2))
  show ?thesis unfolding record_start_failure_def
    by (intro outcome_bind [OF status] outcome_bind [OF outcome_ops(28)] outcome_bind [OF error]
        outcome_bind [OF outcome_hooks(1) [OF hook]] outcome_bind [OF job_outcome] outcome_save) simp
qed

text \<open>A worker call that may raise, with the handlers of the two dispatchers.\<close>

lemma try_worker:
  fixes worker :: "'w worker"
  assumes "\<And>code msg st det. outcome exclusive (h code msg st det) exclusive"
  shows "outcome exclusive (\<lambda>s. case call_worker worker action (options s) s of
       (Inl (ApiError code msg st det), s1) \<Rightarrow> h code msg st det s1
     | (Inl e, s1) \<Rightarrow> (Inl e, s1)
     | (Inr d, s1) \<Rightarrow> (Inr d, s1)) exclusive"
  unfolding outcome_def
proof (intro allI impI)
  fix s :: "'w control" assume s: "exclusive s"
  obtain r t where call: "call_worker worker action (options s) s = (r, t)" by (meson surj_pair)
  then have t: "exclusive t" using s same_row_invariants(2) [OF same_row_ops(7) [of s worker action "options s"]] by simp
  show "case (case call_worker worker action (options s) s of
       (Inl (ApiError code msg st det), s1) \<Rightarrow> h code msg st det s1
     | (Inl e, s1) \<Rightarrow> (Inl e, s1) | (Inr d, s1) \<Rightarrow> (Inr d, s1)) of (Inr a, t) \<Rightarrow> exclusive t | (Inl e, t) \<Rightarrow> in_order t"
  proof (cases r)
    case (Inl e)
    then show ?thesis using t exclusive_in_order [OF t] assms unfolding call outcome_def by (cases e) simp_all
  next
    case (Inr d)
    then show ?thesis using t unfolding call by simp
  qed
qed

lemma dispatch_start_outcome:
  assumes "hooks_ok hooks"
  shows "outcome exclusive (dispatch_start env worker hooks session command dispatch) exclusive"
proof (cases dispatch)
  case True
  have "outcome exclusive (bind_op (recover_lost_start_response worker) (\<lambda>recovered.
      case recovered of Some d \<Rightarrow> return_op d
      | None \<Rightarrow> bind_op (record_start_failure env hooks session command msg) (\<lambda>_. raise_op e))) exclusive" for msg e
    by (rule outcome_bind [OF recover_outcome])
      (simp add: outcome_ops(1) outcome_bind [OF failure_outcome [OF assms] raise_outcome] split: option.split)
  from try_worker [OF this] show ?thesis using True by (simp add: dispatch_start_def)
next
  case False
  then show ?thesis by (simp add: dispatch_start_def outcome_quiet exclusive_in_order)
qed

lemma dispatch_terminal_outcome:
  fixes worker :: "'w worker"
  shows "outcome exclusive (dispatch_terminal env worker hooks command verb dispatch) exclusive"
proof (cases dispatch)
  case True
  have error: "outcome exclusive (\<lambda>s. put_error env (er s) s) exclusive" for er :: "'w control \<Rightarrow> error_report"
    by (rule outcome_same_row) (rule same_row_derived(2))
  have "outcome exclusive (bind_op (\<lambda>s. put_error env (er s) s) (\<lambda>_.
      bind_op (set_runtime (\<lambda>r. r\<lparr>rt_last_error := Some msg\<rparr>)) (\<lambda>_.
      bind_op save_kafka_continuous_command (\<lambda>_. raise_op e)))) exclusive"
    for er :: "'w control \<Rightarrow> error_report" and msg e
    by (intro outcome_bind [OF error] outcome_bind [OF note_outcome] outcome_bind [OF outcome_save] raise_outcome)
  from try_worker [OF this] show ?thesis using True by (simp add: dispatch_terminal_def)
next
  case False
  then show ?thesis by (simp add: dispatch_terminal_def outcome_quiet exclusive_in_order)
qed

lemma run_start_outcome:
  fixes hooks :: "'w command_hooks"
  assumes "hooks_ok hooks" and "hooks_keep_consumers hooks"
  shows "outcome exclusive (run_start env worker hooks uuid command dispatch) exclusive"
proof -
  have observe: "outcome exclusive (\<lambda>s. put_observation ob (rt_status (c_runtime s)) w s) exclusive"
    for ob w and ty :: "'w itself"
    by (rule outcome_same_row) (rule same_row_derived(3))
  have session: "outcome exclusive (case session of None \<Rightarrow> return_op () | Some sid \<Rightarrow> set_session sid g) exclusive"
    for session g by (cases session) (simp_all add: outcome_ops(1) outcome_ops(13))
  have label: "outcome exclusive (if b then set_job (\<lambda>j. j\<lparr>j_last_state := x, j_progress := y\<rparr>) else return_op ()) exclusive"
    for b x y by (cases b) (simp_all add: outcome_ops(1) job_outcome)
  show ?thesis unfolding run_start_def Let_def
    by (intro outcome_bind [OF start_outcome [OF assms]] outcome_bind [OF outcome_save]
        outcome_bind [OF dispatch_start_outcome [OF assms(1)]] outcome_bind [OF label] outcome_bind [OF session]
        outcome_bind [OF outcome_ops(10)] outcome_bind [OF observe] outcome_bind [OF note_outcome] outcome_ops(1))
qed

lemma run_terminal_outcome:
  fixes hooks :: "'w command_hooks"
  assumes "hooks_ok hooks" and "command = ''pauseContinuous'' \<or> command = ''stopContinuous''"
  shows "outcome exclusive (run_terminal env worker hooks command dispatch) exclusive"
proof -
  have observe: "outcome exclusive (\<lambda>s. put_observation ob (rt_status (c_runtime s)) w s) exclusive"
    for ob w and ty :: "'w itself"
    by (rule outcome_same_row) (rule same_row_derived(3))
  show ?thesis unfolding run_terminal_def
    by (intro outcome_bind [OF terminal_outcome [OF assms]] outcome_bind [OF outcome_save]
        outcome_bind [OF dispatch_terminal_outcome] outcome_bind [OF observe] outcome_ops(1))
qed

lemma respond_outcome:
  assumes "hooks_ok hooks"
  shows "outcome exclusive (\<lambda>s. respond hooks action (result s) s) exclusive"
proof -
  have hook: "session_hook (k_with_permissions hooks job)" for job using assms by (simp add: hooks_ok_def)
  have "outcome exclusive (bind_op (k_with_permissions hooks job) (\<lambda>x. return_op (g x))) exclusive" for job g
    by (rule outcome_bind [OF outcome_hooks(1) [OF hook]]) (rule outcome_ops(1))
  then show ?thesis unfolding respond_def by (rule outcome_state)
qed

lemma load_outcome:
  fixes hooks :: "'w command_hooks"
  assumes "hooks_keep_consumers hooks"
  shows "outcome in_order (load_runtime hooks) exclusive"
proof (rule outcomeI)
  fix s :: "'w control" and a t
  assume s: "in_order s" and run: "load_runtime hooks s = (Inr a, t)"
  show "exclusive t"
  proof (cases "lookup_key rt_job_id (j_id (c_job s)) (c_runtimes s)")
    case None
    then show ?thesis using assms s run
      by (simp add: load_runtime_def set_runtime_iff hooks_keep_consumers_def exclusive_def in_order_def in_hand_def
          consuming_def public_value_valid [of PublicStopped, simplified])
  next
    case (Some r)
    then show ?thesis using table_row_exclusive [OF s Some] run
      by (simp add: load_runtime_def set_runtime_iff)
  qed
qed (simp add: load_runtime_def set_runtime_def write_op_def)

lemma execute_outcome:
  fixes hooks :: "'w command_hooks"
  assumes "hooks_ok hooks" and "hooks_keep_consumers hooks"
  shows "outcome in_order (execute_continuous_command env worker hooks uuid command dispatch) exclusive"
proof (cases "action_by_command command")
  case None
  then show ?thesis by (simp add: execute_continuous_command_def outcome_def)
next
  case (Some action)
  have kinds: "command = ''pauseContinuous'' \<or> command = ''stopContinuous''"
    if "command \<notin> {''startContinuous'', ''resumeContinuous''}"
    using Some that by (auto simp: action_by_command_def split: if_splits)
  have fin: "outcome exclusive (bind_op save_kafka_continuous_command (\<lambda>_ t. respond hooks action (result t) t)) exclusive"
    for result by (rule outcome_bind [OF outcome_save]) (rule respond_outcome [OF assms(1)])
  have stop: "outcome exclusive (repeat_stop hooks action dispatch) exclusive"
    unfolding repeat_stop_def Let_def by (rule fin)
  have run: "outcome exclusive
      (if command \<in> {''startContinuous'', ''resumeContinuous''}
       then run_start env worker hooks uuid command dispatch
       else run_terminal env worker hooks command dispatch) exclusive"
    using run_start_outcome [OF assms] run_terminal_outcome [OF assms(1) kinds] by (simp only: split: if_split) blast
  have body: "outcome exclusive (\<lambda>s. if command = ''stopContinuous'' \<and> rt_status (c_runtime s) \<in> {''stopping'', ''stopped''}
      then repeat_stop hooks action dispatch s
      else bind_op
        (if command \<in> {''startContinuous'', ''resumeContinuous''}
         then run_start env worker hooks uuid command dispatch
         else run_terminal env worker hooks command dispatch) (\<lambda>result.
        bind_op save_kafka_continuous_command (\<lambda>_ t. respond hooks action (g result t) t)) s) exclusive" for g
    using stop outcome_bind [OF run fin] unfolding outcome_def by presburger
  have "outcome in_order (\<lambda>s0. if j_execution_mode (c_job s0) \<noteq> ''continuous'' \<or> \<not> k_is_kafka_job hooks (c_job s0)
      then (Inl e, s0) else m s0) exclusive"
    if "outcome in_order m exclusive" for e and m :: "('w control, command_response) op"
    using that by (simp add: outcome_def)
  from this [OF outcome_bind [OF load_outcome [OF assms(2)] body]]
  show ?thesis unfolding execute_continuous_command_def Some option.case .
qed


lemma return_keeps_consumers: "keeps_consumers (return_op a)"
  by (simp add: keeps_consumers_def return_op_def)

lemma sample_hooks_keep_consumers: "hooks_keep_consumers sample_command_hooks"
  by (simp add: hooks_keep_consumers_def sample_command_hooks_def return_keeps_consumers sample_runtime_def)


subsection \<open>The automatic restart\<close>

lemma decision_restart:
  assumes "ev_desired_state ev = ''running''" and "ev_contract_initialized ev" and "\<not> attempts_differ ev"
    and "ev_report_state ev = DocMissing" and "\<not> ev_publication_pending ev" and "ev_container_state ev = ''missing''"
  shows "dc_action (decide_reconciliation ev) = RestartWorker"
  using assms unfolding decide_reconciliation_def by (simp add: decision_def terminal_intent_is_current_def)

lemma duplicate_consumer:
  assumes "consuming r" and "b \<in> set rows" and "consuming b" and "same_consumer r b" and "rt_job_id b \<noteq> rt_job_id r"
  shows "\<not> consumers_exclusive (save_row r rows)"
proof -
  have "r \<in> set (save_row r rows)" by (simp add: save_row_def)
  moreover have "b \<in> set (save_row r rows)" using assms(2,5) by (simp add: save_row_def)
  ultimately show ?thesis using assms(1,3,4,5) unfolding consumers_exclusive_def by metis
qed

text \<open>C39. The automatic restart does not look at the other consumers: when a failed runtime whose desired state is
  running is reconciled while its worker is missing, and another job meanwhile consumes the same broker,
  topic and consumer group, the runtime is started all the same and two jobs hold one identity, which the
  start command would have refused.\<close>

theorem automatic_restart_duplicates_consumer:
  assumes "h_read_report hooks (h_report_path hooks (j_id (c_job s))) (c_world s) = (Inr doc, w1)"
    and "h_worker_status hooks (c_job s) (c_runtime s) w1 = (Inr ws, w2)"
    and "jget ''worker'' ws \<noteq> JStr ''kafka_connect_clickhouse_v2''"
    and "str_field ''containerState'' ws ''unknown'' = ''missing''"
    and "rt_status (c_runtime s) = ''failed''"
    and "runtime_evidence (c_runtime s) doc ws ''missing'' = (payload, initialized, ev)"
    and "ev_desired_state ev = ''running''" and "ev_contract_initialized ev" and "\<not> attempts_differ ev"
    and "ev_report_state ev = DocMissing" and "\<not> ev_publication_pending ev"
    and worker: "\<And>job r options w. \<exists>w'. worker job r ''start'' options w = (Inr result, w')"
    and "b \<in> set (c_runtimes s)" and "consuming b" and "same_consumer (c_runtime s) b"
    and "rt_job_id b \<noteq> rt_job_id (c_runtime s)"
  shows "\<exists>t. reconcile_runtime env worker hooks s = (Inr (), t) \<and> \<not> consumers_exclusive (c_runtimes t)"
proof -
  have "rt_status (c_runtime s) \<notin> {''pausing'', ''paused'', ''stopping'', ''stopped''}" by (simp add: assms(5))
  from reconcile_decided [OF assms(1-4) this assms(6)] obtain m where
    m: "reconcile_runtime env worker hooks s =
       carry_out env worker hooks doc ws ''missing'' payload initialized ev (decide_reconciliation ev)
         (s\<lparr>c_world := w2, c_runtime := (c_runtime s)\<lparr>rt_metrics := Some m\<rparr>\<rparr>)" by blast
  define v where "v = s\<lparr>c_world := w2, c_runtime := (c_runtime s)\<lparr>rt_metrics := Some m\<rparr>\<rparr>"
  have "ev_container_state ev = ''missing''" using assms(6) by (auto simp: runtime_evidence_def Let_def)
  from decision_restart [OF assms(7-11) this] have run: "reconcile_runtime env worker hooks s =
      restart_missing_worker env worker hooks v" by (simp add: m carry_out_def v_def)
  obtain w' where "worker (c_job v) (c_runtime v) ''start'' (terminal_worker_options (c_runtime v)) (c_world v) = (Inr result, w')"
    using worker by blast
  from restart_run [where worker = worker and s = v, OF this refl refl]
  obtain t where t: "restart_missing_worker env worker hooks v = (Inr (), t)" "rt_status (c_runtime t) = ''starting''"
    "rt_identity (c_runtime t) = rt_identity (c_runtime v)" "c_runtimes t = save_row (c_runtime t) (c_runtimes v)" by blast
  have "consuming (c_runtime t)" by (simp add: consuming_def t(2))
  moreover have "same_consumer (c_runtime t) b" "rt_job_id b \<noteq> rt_job_id (c_runtime t)"
    using t(3) assms(15,16) by (simp_all add: rt_identity_def same_consumer_def v_def)
  ultimately have "\<not> consumers_exclusive (c_runtimes t)"
    using duplicate_consumer [OF _ assms(13,14)] t(4) by (simp add: v_def)
  then show ?thesis using run t(1) by simp
qed

definition missing_report :: JsonDocument where
  "missing_report = \<lparr>doc_state = DocMissing, doc_value = None, doc_error = None, doc_line = None, doc_column = None\<rparr>"

definition other_runtime :: runtime_row where
  "other_runtime = (sample_runtime ''running'' ''running'' ''b1'')\<lparr>rt_job_id := ''other''\<rparr>"

definition two_jobs :: "unit control" where
  "two_jobs = (sample_control (sample_runtime ''failed'' ''running'' ''a1''))
     \<lparr>c_runtimes := [sample_runtime ''failed'' ''running'' ''a1'', other_runtime]\<rparr>"

theorem automatic_restart_duplicates_consumer_witness:
  "\<exists>t. reconcile_runtime sample_env (\<lambda>_ _ _ _. return_op [])
       (sample_hooks missing_report [(''containerState'', JStr ''missing'')]) two_jobs = (Inr (), t)
     \<and> \<not> consumers_exclusive (c_runtimes t)"
proof -
  let ?ws = "[(''containerState'', JStr ''missing'')]"
  let ?h = "sample_hooks missing_report ?ws"
  let ?ev = "snd (snd (runtime_evidence (c_runtime two_jobs) missing_report ?ws ''missing''))"
  obtain payload initialized ev where ev: "runtime_evidence (c_runtime two_jobs) missing_report ?ws ''missing''
      = (payload, initialized, ev)" by (metis surj_pair)
  have "ev_desired_state ?ev = ''running''" "ev_contract_initialized ?ev" "\<not> attempts_differ ?ev"
    "ev_report_state ?ev = DocMissing" "\<not> ev_publication_pending ?ev" by code_simp+
  then have e: "ev_desired_state ev = ''running''" "ev_contract_initialized ev" "\<not> attempts_differ ev"
    "ev_report_state ev = DocMissing" "\<not> ev_publication_pending ev" unfolding ev by simp_all
  have a: "h_read_report ?h (h_report_path ?h (j_id (c_job two_jobs))) (c_world two_jobs) = (Inr missing_report, ())"
    "h_worker_status ?h (c_job two_jobs) (c_runtime two_jobs) () = (Inr ?ws, ())"
    "jget ''worker'' ?ws \<noteq> JStr ''kafka_connect_clickhouse_v2''"
    "str_field ''containerState'' ?ws ''unknown'' = ''missing''" "rt_status (c_runtime two_jobs) = ''failed''"
    by (simp_all add: sample_hooks_def return_op_def str_field_def por_def two_jobs_def sample_control_def sample_runtime_def)
  have w: "\<exists>w'. (\<lambda>_ _ _ _. return_op []) job r ''start'' options w = (Inr ([] :: dict), w')"
    for job :: etl_job and r :: runtime_row and options :: "dict option" and w :: unit by (simp add: return_op_def)
  have b: "other_runtime \<in> set (c_runtimes two_jobs)" "consuming other_runtime"
    "same_consumer (c_runtime two_jobs) other_runtime" "rt_job_id other_runtime \<noteq> rt_job_id (c_runtime two_jobs)"
    by (simp_all add: two_jobs_def other_runtime_def consuming_def same_consumer_def sample_control_def sample_runtime_def)
  show ?thesis by (rule automatic_restart_duplicates_consumer [OF a ev e w b])
qed

end
