(* ===== verification/Continuous_Publication.thy ===== *)
theory Continuous_Publication
  imports Continuous_Reconciliation "HOL-Library.Multiset"
begin

section \<open>Publication of a micro-batch\<close>

text \<open>
  The first half of \<open>application/continuous_publication.py\<close>: the identity of a publication, the record of its
  stages in the metrics of the runtime, and the four stages (output, manifest, catalog, dashboard) with
  their failure handling. The hooks are the callbacks the source passes in; \<open>rollback\<close> is the rollback of
  the database session, which expires the objects in memory, so it may change the state in any way.
  A \<open>stages\<close> entry that is not an object is never written by this code; reading one raises here.
\<close>

subsection \<open>Data\<close>

datatype PublicationStage = PubOutput | PubManifest | PubCatalog | PubDashboard

primrec publication_stage_value :: "PublicationStage \<Rightarrow> string" where
  "publication_stage_value PubOutput = ''output''"
| "publication_stage_value PubManifest = ''manifest''"
| "publication_stage_value PubCatalog = ''catalog''"
| "publication_stage_value PubDashboard = ''dashboard''"

definition publication_stages :: "PublicationStage list" where
  "publication_stages = [PubOutput, PubManifest, PubCatalog, PubDashboard]"

datatype PublicationStageStatus = PubRunning | PubSucceeded | PubFailed | PubSkipped

primrec stage_status_value :: "PublicationStageStatus \<Rightarrow> string" where
  "stage_status_value PubRunning = ''running''"
| "stage_status_value PubSucceeded = ''succeeded''"
| "stage_status_value PubFailed = ''failed''"
| "stage_status_value PubSkipped = ''skipped''"

record PublicationIdentity =
  pi_job_id :: string
  pi_batch_id :: int
  pi_run_id :: string
  pi_manifest_fingerprint :: string
  pi_output_fingerprint :: string
  pi_idempotency_key :: string

record PublicationInputEvidence =
  pin_data_path :: "string option"
  pin_manifest_path :: string
  pin_source_ranges :: "dict list"

record PublicationOutputEvidence =
  po_target_uri :: string
  po_verified_result :: dict

record PublicationCatalogEvidence =
  pc_dataset_id :: string
  pc_materialization_mode :: string
  pc_catalog_created :: bool
  pc_catalog_skipped :: bool

record 'w publication_hooks =
  p_prepare :: "dict \<Rightarrow> PublicationIdentity \<Rightarrow> ('w control, PublicationInputEvidence) op"
  p_verify_output :: "dict \<Rightarrow> PublicationIdentity \<Rightarrow> PublicationInputEvidence \<Rightarrow> ('w control, PublicationOutputEvidence) op"
  p_verify_manifest :: "dict \<Rightarrow> PublicationInputEvidence \<Rightarrow> ('w control, unit) op"
  p_register_catalog :: "dict \<Rightarrow> PublicationIdentity \<Rightarrow> PublicationInputEvidence \<Rightarrow> PublicationOutputEvidence option
    \<Rightarrow> ('w control, PublicationCatalogEvidence) op"
  p_publish_dashboard :: "dict \<Rightarrow> PublicationIdentity \<Rightarrow> PublicationInputEvidence \<Rightarrow> PublicationOutputEvidence option
    \<Rightarrow> PublicationCatalogEvidence \<Rightarrow> ('w control, unit) op"
  p_update_job_stats :: "PublicationOutputEvidence option \<Rightarrow> ('w control, unit) op"
  p_compact_error :: "py_error \<Rightarrow> string"

subsection \<open>Reading numbers\<close>

definition optional_int :: "json \<Rightarrow> int option" where
  "optional_int value = (if value = JNull then None else case py_int value of Inr n \<Rightarrow> Some n | Inl _ \<Rightarrow> None)"

definition nonnegative_int_or :: "json \<Rightarrow> int \<Rightarrow> int" where
  "nonnegative_int_or value fallback =
     (case optional_int value of None \<Rightarrow> fallback | Some n \<Rightarrow> if n \<ge> 0 then n else fallback)"

subsection \<open>Identity\<close>

definition sha256_json :: "json \<Rightarrow> string" where
  "sha256_json value = sha256_hex (json_dumps True value)"

definition range_int :: "string \<Rightarrow> dict \<Rightarrow> int" where
  "range_int k item = (case optional_int (jget k item) of None \<Rightarrow> 0 | Some n \<Rightarrow> n)"

definition range_key :: "dict \<Rightarrow> string \<times> int \<times> int \<times> int \<times> string" where
  "range_key item =
     (py_str (por (jget ''topic'' item) (JStr [])), range_int ''partition'' item, range_int ''startOffset'' item,
      range_int ''endOffset'' item, sha256_json (JObj item))"

definition fingerprint_source_ranges :: "json \<Rightarrow> dict list" where
  "fingerprint_source_ranges value =
     (case as_list value of
        None \<Rightarrow> []
      | Some items \<Rightarrow> sort_key range_key (List.map_filter as_dict items))"

definition ranges_json :: "dict list \<Rightarrow> json" where
  "ranges_json rs = JList (map JObj rs)"

definition fingerprint_source_boundary :: "json \<Rightarrow> json" where
  "fingerprint_source_boundary value =
     (case as_dict value of
        None \<Rightarrow> JNull
      | Some d \<Rightarrow>
          JObj (if as_list (jget ''sourceRanges'' d) \<noteq> None
                then jset ''sourceRanges'' (ranges_json (fingerprint_source_ranges (jget ''sourceRanges'' d))) d
                else d))"

definition manifest_payload :: "dict \<Rightarrow> json" where
  "manifest_payload publication = JObj
     [(''manifestPath'', of_opt_str (optional_string (jget ''manifestPath'' publication))),
      (''sourceBoundary'', fingerprint_source_boundary (jget ''sourceBoundary'' publication)),
      (''sourceRanges'', ranges_json (fingerprint_source_ranges (jget ''sourceRanges'' publication)))]"

definition output_payload :: "dict \<Rightarrow> json" where
  "output_payload publication =
     (let commit = (case as_dict (jget ''icebergCommit'' publication) of None \<Rightarrow> [] | Some d \<Rightarrow> d) in JObj
     [(''dataPath'', of_opt_str (optional_string (jget ''dataPath'' publication))),
      (''icebergCommit'', JObj
        [(''operation'', of_opt_str (optional_string (jget ''operation'' commit))),
         (''runId'', of_opt_str (optional_string (jget ''runId'' commit))),
         (''snapshotId'', of_opt_str (optional_string (jget ''snapshotId'' commit))),
         (''sourceBoundary'', fingerprint_source_boundary (jget ''sourceBoundary'' commit))]),
      (''storedCount'', JInt (nonnegative_int_or (jget ''storedCount'' publication) 0))])"

definition build_publication_identity :: "etl_job \<Rightarrow> dict \<Rightarrow> PublicationIdentity res" where
  "build_publication_identity job publication =
     (case optional_int (jget ''batchId'' publication) of
        None \<Rightarrow> Inl (ValueError ''Continuous publication batch identity is invalid.'')
      | Some batch_id \<Rightarrow>
          if batch_id < 0 then Inl (ValueError ''Continuous publication batch identity is invalid.'')
          else
            (let run_id = opt_text (optional_string (jget ''runId'' publication));
                 prefix = ''continuous:'' @ j_id job @ '':batch:'' @ show_int batch_id @ '':'' in
             if \<not> starts_with prefix run_id
             then Inl (ValueError ''Continuous publication run identity is invalid.'')
             else
               (let manifest_fingerprint = sha256_json (manifest_payload publication);
                    output_fingerprint = sha256_json (output_payload publication);
                    key = sha256_json (JObj
                      [(''batchId'', JInt batch_id), (''jobId'', JStr (j_id job)),
                       (''manifestFingerprint'', JStr manifest_fingerprint),
                       (''outputFingerprint'', JStr output_fingerprint), (''runId'', JStr run_id)])
                in Inr \<lparr>pi_job_id = j_id job, pi_batch_id = batch_id, pi_run_id = run_id,
                     pi_manifest_fingerprint = manifest_fingerprint, pi_output_fingerprint = output_fingerprint,
                     pi_idempotency_key = key\<rparr>)))"

subsection \<open>The record of the stages\<close>

fun any_failed :: "json list \<Rightarrow> bool res" where
  "any_failed [] = Inr False"
| "any_failed (JObj d # items) =
     (if json_eq (jget ''status'' d) (JStr ''failed'') then Inr True else any_failed items)"
| "any_failed (v # items) = Inl (AttributeError ''get'')"

definition stage_terminal :: "dict \<Rightarrow> PublicationStage \<Rightarrow> bool" where
  "stage_terminal stages st \<longleftrightarrow>
     (case as_dict (jget (publication_stage_value st) stages) of
        None \<Rightarrow> False
      | Some d \<Rightarrow> jget ''status'' d \<in> {JStr ''succeeded'', JStr ''skipped''})"

definition workflow_status :: "dict \<Rightarrow> string res" where
  "workflow_status stages =
     (case any_failed (map snd stages) of
        Inl e \<Rightarrow> Inl e
      | Inr failed \<Rightarrow>
          Inr (if failed then ''partial_failure''
               else if list_all (stage_terminal stages) publication_stages then ''completed''
               else ''in_progress''))"

definition previous_workflow :: "PublicationIdentity \<Rightarrow> dict \<Rightarrow> dict" where
  "previous_workflow identity metrics =
     (case as_dict (jget ''publicationWorkflow'' metrics) of
        None \<Rightarrow> []
      | Some d \<Rightarrow> if json_eq (jget ''idempotencyKey'' d) (JStr (pi_idempotency_key identity)) then d else [])"

definition workflow_stages :: "dict \<Rightarrow> dict res" where
  "workflow_stages previous =
     (case por (jget ''stages'' previous) (JObj []) of
        JObj d \<Rightarrow> Inr d
      | _ \<Rightarrow> Inl (TypeError ''dict() argument''))"

definition stage_attempts :: "dict \<Rightarrow> PublicationStage \<Rightarrow> int res" where
  "stage_attempts stages st =
     (let previous = (case as_dict (jget (publication_stage_value st) stages) of None \<Rightarrow> [] | Some d \<Rightarrow> d)
      in py_int (por (jget ''attempts'' previous) (JInt 0)))"

definition stage_state ::
  "int \<Rightarrow> PublicationStageStatus \<Rightarrow> string option \<Rightarrow> string option \<Rightarrow> dict" where
  "stage_state attempts status error_code message =
     [(''attempts'', JInt attempts), (''status'', JStr (stage_status_value status))]
     @ optional_entry ''errorCode'' error_code @ optional_entry ''message'' message"

definition workflow_document :: "PublicationIdentity \<Rightarrow> dict \<Rightarrow> string \<Rightarrow> dict" where
  "workflow_document identity stages status =
     [(''batchId'', JInt (pi_batch_id identity)), (''idempotencyKey'', JStr (pi_idempotency_key identity)),
      (''jobId'', JStr (pi_job_id identity)), (''manifestFingerprint'', JStr (pi_manifest_fingerprint identity)),
      (''outputFingerprint'', JStr (pi_output_fingerprint identity)), (''runId'', JStr (pi_run_id identity)),
      (''stages'', JObj stages), (''status'', JStr status)]"

definition record_stage ::
  "PublicationIdentity \<Rightarrow> PublicationStage \<Rightarrow> PublicationStageStatus \<Rightarrow> string option \<Rightarrow> string option
    \<Rightarrow> dict option \<Rightarrow> dict res" where
  "record_stage identity st status error_code message m =
     bind_res (workflow_stages (previous_workflow identity (metrics_dict m))) (\<lambda>stages0.
     bind_res (stage_attempts stages0 st) (\<lambda>attempts0.
     let attempts = (if status = PubRunning then attempts0 + 1 else attempts0);
         stages = jset (publication_stage_value st) (JObj (stage_state attempts status error_code message)) stages0
     in bind_res (workflow_status stages) (\<lambda>wf.
        Inr (jset ''publicationWorkflow'' (JObj (workflow_document identity stages wf)) (metrics_dict m)))))"

definition put_stage ::
  "PublicationIdentity \<Rightarrow> PublicationStage \<Rightarrow> PublicationStageStatus \<Rightarrow> ('w control, unit) op" where
  "put_stage identity st status = put_metrics (record_stage identity st status None None)"

subsection \<open>Failures\<close>

definition failure_stage :: "PublicationStage \<Rightarrow> ContinuousErrorStage" where
  "failure_stage st =
     (case st of
        PubOutput \<Rightarrow> StageMaterialization
      | PubManifest \<Rightarrow> StageMaterialization
      | PubCatalog \<Rightarrow> StageCatalog
      | PubDashboard \<Rightarrow> StageDashboardPublication)"

definition record_unidentified_failure :: "control_env \<Rightarrow> dict \<Rightarrow> string \<Rightarrow> ('w control, unit) op" where
  "record_unidentified_failure env publication message =
     bind_op (put_error env (simple_error StageMaterialization ''publication_identity_invalid'' message False
       [(''batchId'', case optional_int (jget ''batchId'' publication) of None \<Rightarrow> JNull | Some n \<Rightarrow> JInt n),
        (''publicationStage'', JStr (publication_stage_value PubOutput))])) (\<lambda>_.
     set_runtime (\<lambda>r. r\<lparr>rt_last_error := Some (''Catalog materialization pending retry: '' @ message)\<rparr>))"

definition record_stage_failure ::
  "control_env \<Rightarrow> PublicationIdentity \<Rightarrow> PublicationStage \<Rightarrow> string \<Rightarrow> string \<Rightarrow> ('w control, unit) op" where
  "record_stage_failure env identity st code message =
     bind_op (put_metrics (record_stage identity st PubFailed (Some code) (Some message))) (\<lambda>_.
     bind_op (put_error env (simple_error (failure_stage st) code message True
       [(''batchId'', JInt (pi_batch_id identity)), (''idempotencyKey'', JStr (pi_idempotency_key identity)),
        (''jobId'', JStr (pi_job_id identity)), (''outputFingerprint'', JStr (pi_output_fingerprint identity)),
        (''publicationStage'', JStr (publication_stage_value st)), (''runId'', JStr (pi_run_id identity))])) (\<lambda>_.
     set_runtime (\<lambda>r. r\<lparr>rt_last_error := Some
       ((if st = PubDashboard then ''Dashboard revision pending retry:'' else ''Catalog materialization pending retry:'')
        @ '' '' @ message)\<rparr>)))"

definition pending_retry :: "string option \<Rightarrow> bool" where
  "pending_retry last_error \<longleftrightarrow>
     starts_with ''Catalog materialization pending retry:'' (opt_text last_error)
     \<or> starts_with ''Dashboard revision pending retry:'' (opt_text last_error)"

definition clear_publication_error :: "('w control, unit) op" where
  "clear_publication_error = (\<lambda>s.
     if pending_retry (rt_last_error (c_runtime s))
     then bind_op (set_runtime (\<lambda>r. r\<lparr>rt_last_error := None\<rparr>)) (\<lambda>_.
          put_metrics (\<lambda>m. Inr (clear_runtime_error m))) s
     else (Inr (), s))"

definition rollback_preserving_workflow :: "('w control \<Rightarrow> 'w control) \<Rightarrow> ('w control, unit) op" where
  "rollback_preserving_workflow rollback = (\<lambda>s.
     case as_dict (jget ''publicationWorkflow'' (metrics_dict (rt_metrics (c_runtime s)))) of
       None \<Rightarrow> (Inr (), rollback s)
     | Some workflow \<Rightarrow> merge_metrics [(''publicationWorkflow'', JObj workflow)] (rollback s))"

subsection \<open>The stages\<close>

definition fail_stage ::
  "control_env \<Rightarrow> ('w control \<Rightarrow> 'w control) \<Rightarrow> 'w publication_hooks \<Rightarrow> PublicationIdentity \<Rightarrow> PublicationStage
    \<Rightarrow> string \<Rightarrow> py_error \<Rightarrow> ('w control, unit) op" where
  "fail_stage env rollback hooks identity st code exc =
     bind_op (rollback_preserving_workflow rollback) (\<lambda>_.
     record_stage_failure env identity st code (p_compact_error hooks exc))"

definition prepare_publication_context ::
  "control_env \<Rightarrow> ('w control \<Rightarrow> 'w control) \<Rightarrow> 'w publication_hooks \<Rightarrow> dict
    \<Rightarrow> ('w control, (PublicationIdentity \<times> PublicationInputEvidence \<times> int) option) op" where
  "prepare_publication_context env rollback hooks publication = (\<lambda>s.
     case build_publication_identity (c_job s) publication of
       Inl exc \<Rightarrow>
         bind_op (record_unidentified_failure env publication (p_compact_error hooks exc)) (\<lambda>_. return_op None) (rollback s)
     | Inr identity \<Rightarrow>
         catch_op
           (bind_op (p_prepare hooks publication identity) (\<lambda>inputs.
            return_op (Some (identity, inputs, nonnegative_int_or (jget ''storedCount'' publication) 0))))
           (\<lambda>exc. bind_op (fail_stage env rollback hooks identity PubOutput ''publication_input_invalid'' exc) (\<lambda>_.
            return_op None)) s)"

definition verify_output_stage ::
  "control_env \<Rightarrow> ('w control \<Rightarrow> 'w control) \<Rightarrow> 'w publication_hooks \<Rightarrow> dict \<Rightarrow> PublicationIdentity
    \<Rightarrow> PublicationInputEvidence \<Rightarrow> int \<Rightarrow> ('w control, bool \<times> PublicationOutputEvidence option) op" where
  "verify_output_stage env rollback hooks publication identity inputs stored_count =
     (if stored_count = 0
      then bind_op (put_stage identity PubOutput PubSkipped) (\<lambda>_. return_op (True, None))
      else
        bind_op (put_stage identity PubOutput PubRunning) (\<lambda>_.
        bind_op (catch_op
          (bind_op (p_verify_output hooks publication identity inputs) (\<lambda>output. return_op (Some output)))
          (\<lambda>exc. bind_op (fail_stage env rollback hooks identity PubOutput ''publication_output_unverified'' exc) (\<lambda>_.
           return_op None))) (\<lambda>verified.
        case verified of
          None \<Rightarrow> return_op (False, None)
        | Some output \<Rightarrow>
            bind_op (put_stage identity PubOutput PubSucceeded) (\<lambda>_. return_op (True, Some output)))))"

definition verify_manifest_stage ::
  "control_env \<Rightarrow> ('w control \<Rightarrow> 'w control) \<Rightarrow> 'w publication_hooks \<Rightarrow> dict \<Rightarrow> PublicationIdentity
    \<Rightarrow> PublicationInputEvidence \<Rightarrow> ('w control, bool) op" where
  "verify_manifest_stage env rollback hooks publication identity inputs =
     bind_op (put_stage identity PubManifest PubRunning) (\<lambda>_.
     bind_op (catch_op
       (bind_op (p_verify_manifest hooks publication inputs) (\<lambda>_. return_op True))
       (\<lambda>exc. bind_op (fail_stage env rollback hooks identity PubManifest ''publication_manifest_unavailable'' exc) (\<lambda>_.
        return_op False))) (\<lambda>ok.
     if ok then bind_op (put_stage identity PubManifest PubSucceeded) (\<lambda>_. return_op True)
     else return_op False))"

definition register_catalog_stage ::
  "control_env \<Rightarrow> ('w control \<Rightarrow> 'w control) \<Rightarrow> 'w publication_hooks \<Rightarrow> dict \<Rightarrow> PublicationIdentity
    \<Rightarrow> PublicationInputEvidence \<Rightarrow> PublicationOutputEvidence option
    \<Rightarrow> ('w control, PublicationCatalogEvidence option) op" where
  "register_catalog_stage env rollback hooks publication identity inputs output =
     bind_op (put_stage identity PubCatalog PubRunning) (\<lambda>_.
     bind_op (catch_op
       (bind_op (p_register_catalog hooks publication identity inputs output) (\<lambda>catalog. return_op (Some catalog)))
       (\<lambda>exc. bind_op (fail_stage env rollback hooks identity PubCatalog ''catalog_publication_pending'' exc) (\<lambda>_.
        return_op None))) (\<lambda>registered.
     case registered of
       None \<Rightarrow> return_op None
     | Some catalog \<Rightarrow>
         bind_op (put_stage identity PubCatalog (if pc_catalog_skipped catalog then PubSkipped else PubSucceeded)) (\<lambda>_.
         return_op (Some catalog))))"

definition publish_dashboard_stage ::
  "control_env \<Rightarrow> ('w control \<Rightarrow> 'w control) \<Rightarrow> 'w publication_hooks \<Rightarrow> dict \<Rightarrow> PublicationIdentity
    \<Rightarrow> PublicationInputEvidence \<Rightarrow> PublicationOutputEvidence option \<Rightarrow> PublicationCatalogEvidence
    \<Rightarrow> ('w control, bool) op" where
  "publish_dashboard_stage env rollback hooks publication identity inputs output catalog =
     bind_op (put_stage identity PubDashboard PubRunning) (\<lambda>_.
     bind_op (catch_op
       (bind_op (p_publish_dashboard hooks publication identity inputs output catalog) (\<lambda>_. return_op True))
       (\<lambda>exc. bind_op (fail_stage env rollback hooks identity PubDashboard ''dashboard_publication_pending'' exc) (\<lambda>_.
        return_op False))) (\<lambda>ok.
     if ok then bind_op (put_stage identity PubDashboard PubSucceeded) (\<lambda>_. return_op True)
     else return_op False))"

definition execute_continuous_publication ::
  "control_env \<Rightarrow> ('w control \<Rightarrow> 'w control) \<Rightarrow> 'w publication_hooks \<Rightarrow> dict \<Rightarrow> ('w control, bool) op" where
  "execute_continuous_publication env rollback hooks publication =
     bind_op (prepare_publication_context env rollback hooks publication) (\<lambda>ctx.
     case ctx of
       None \<Rightarrow> return_op False
     | Some (identity, inputs, stored_count) \<Rightarrow>
         bind_op (verify_output_stage env rollback hooks publication identity inputs stored_count) (\<lambda>(output_ok, output).
         if \<not> output_ok then return_op False
         else
         bind_op (verify_manifest_stage env rollback hooks publication identity inputs) (\<lambda>manifest_ok.
         if \<not> manifest_ok then return_op False
         else
         bind_op (register_catalog_stage env rollback hooks publication identity inputs output) (\<lambda>registered.
         case registered of
           None \<Rightarrow> return_op False
         | Some catalog \<Rightarrow>
             bind_op (publish_dashboard_stage env rollback hooks publication identity inputs output catalog) (\<lambda>published.
             if \<not> published then return_op False
             else
             bind_op (p_update_job_stats hooks output) (\<lambda>_.
             bind_op clear_publication_error (\<lambda>_.
             return_op True)))))))"

subsection \<open>The abstract workflow\<close>

text \<open>
  Abstractly a workflow maps each stage to its attempts and its status. \<open>represents\<close> relates the JSON of the
  stages to it, and \<open>tracks\<close> the metrics of the runtime, for one identity; the workflow of another identity
  counts as empty.
\<close>

type_synonym workflow = "PublicationStage \<Rightarrow> (int \<times> PublicationStageStatus) option"

definition wf_record :: "PublicationStage \<Rightarrow> PublicationStageStatus \<Rightarrow> workflow \<Rightarrow> workflow" where
  "wf_record st status f =
     f(st \<mapsto> ((case f st of None \<Rightarrow> 0 | Some (a, _) \<Rightarrow> a) + (if status = PubRunning then 1 else 0), status))"

definition stage_complete :: "workflow \<Rightarrow> PublicationStage \<Rightarrow> bool" where
  "stage_complete f st \<longleftrightarrow> (\<exists>a. f st = Some (a, PubSucceeded) \<or> f st = Some (a, PubSkipped))"

definition stage_failed :: "workflow \<Rightarrow> PublicationStage \<Rightarrow> bool" where
  "stage_failed f st \<longleftrightarrow> (\<exists>a. f st = Some (a, PubFailed))"

definition wf_status :: "workflow \<Rightarrow> string" where
  "wf_status f =
     (if \<exists>st. stage_failed f st then ''partial_failure''
      else if \<forall>st. stage_complete f st then ''completed''
      else ''in_progress'')"

definition represents :: "dict \<Rightarrow> workflow \<Rightarrow> bool" where
  "represents d f \<longleftrightarrow>
     distinct (map fst d) \<and> fst ` set d \<subseteq> range publication_stage_value
     \<and> (\<forall>st. case f st of
           None \<Rightarrow> map_of d (publication_stage_value st) = None
         | Some (a, status) \<Rightarrow>
             \<exists>code msg. map_of d (publication_stage_value st) = Some (JObj (stage_state a status code msg)))"

definition workflow_entry :: "dict option \<Rightarrow> json" where
  "workflow_entry m = jget ''publicationWorkflow'' (metrics_dict m)"

definition tracks :: "PublicationIdentity \<Rightarrow> dict option \<Rightarrow> workflow \<Rightarrow> bool" where
  "tracks identity m f \<longleftrightarrow>
     (\<exists>d. workflow_stages (previous_workflow identity (metrics_dict m)) = Inr d \<and> represents d f)"

lemma stage_value_inj [simp]: "publication_stage_value a = publication_stage_value b \<longleftrightarrow> a = b"
  by (cases a; cases b) simp_all

lemma stage_state_sel [simp]:
  "jget ''status'' (stage_state a status code msg) = JStr (stage_status_value status)"
  "jget ''attempts'' (stage_state a status code msg) = JInt a"
  by (simp_all add: stage_state_def)

lemma represents_empty [simp]: "represents [] Map.empty"
  by (simp add: represents_def)

lemma represents_lookup:
  assumes "represents d f"
  shows "f st = Some (a, status) \<Longrightarrow>
      \<exists>code msg. jget (publication_stage_value st) d = JObj (stage_state a status code msg)"
    and "f st = None \<Longrightarrow> jget (publication_stage_value st) d = JNull"
proof -
  have at: "case f st of None \<Rightarrow> map_of d (publication_stage_value st) = None
      | Some (a, status) \<Rightarrow> \<exists>code msg. map_of d (publication_stage_value st) = Some (JObj (stage_state a status code msg))"
    using assms unfolding represents_def by blast
  show "\<exists>code msg. jget (publication_stage_value st) d = JObj (stage_state a status code msg)"
    if "f st = Some (a, status)"
    using at unfolding that option.case prod.case jget_def by (elim exE) (intro exI, simp)
  show "jget (publication_stage_value st) d = JNull" if "f st = None" using at by (simp add: that jget_def)
qed

lemma represents_entry:
  assumes "represents d f" and "(k, v) \<in> set d"
  obtains st a status code msg where "k = publication_stage_value st" "f st = Some (a, status)"
    "v = JObj (stage_state a status code msg)"
proof -
  obtain st where st: "k = publication_stage_value st" using assms by (force simp: represents_def)
  have "map_of d k = Some v" using assms by (simp add: represents_def)
  moreover have "case f st of None \<Rightarrow> map_of d k = None
      | Some (a, status) \<Rightarrow> \<exists>code msg. map_of d k = Some (JObj (stage_state a status code msg))"
    using assms(1) unfolding represents_def st by blast
  ultimately show ?thesis using st that by (auto split: option.splits)
qed

lemma any_failed_stages:
  "(\<And>v. v \<in> set vs \<Longrightarrow> \<exists>a status code msg. v = JObj (stage_state a status code msg)) \<Longrightarrow>
   any_failed vs = Inr (\<exists>a code msg. JObj (stage_state a PubFailed code msg) \<in> set vs)"
proof (induction vs)
  case (Cons v vs)
  have "\<exists>a status code msg. v = JObj (stage_state a status code msg)" by (rule Cons.prems) simp
  then obtain a status code msg where v: "v = JObj (stage_state a status code msg)" by blast
  have ih: "any_failed vs = Inr (\<exists>a code msg. JObj (stage_state a PubFailed code msg) \<in> set vs)"
    using Cons by simp
  have "(\<exists>a' code' msg'. stage_state a' PubFailed code' msg' = stage_state a status code msg) \<longleftrightarrow> status = PubFailed"
  proof
    assume "\<exists>a' code' msg'. stage_state a' PubFailed code' msg' = stage_state a status code msg"
    then have "JStr (stage_status_value status) = JStr ''failed''"
      by (metis stage_state_sel(1) stage_status_value.simps(3))
    then show "status = PubFailed" by (cases status) simp_all
  qed auto
  moreover have "json_eq (JStr (stage_status_value status)) (JStr ''failed'') \<longleftrightarrow> status = PubFailed"
    by (cases status) (simp_all add: json_eq_def)
  ultimately show ?case using ih by (auto simp: v)
qed simp

lemma stage_terminal_iff: "represents d f \<Longrightarrow> stage_terminal d st \<longleftrightarrow> stage_complete f st"
proof (cases "f st")
  case None
  assume "represents d f"
  then show ?thesis using None represents_lookup(2) [of d f st]
    by (simp add: stage_terminal_def stage_complete_def)
next
  case (Some p)
  assume r: "represents d f"
  obtain a status where p: "p = (a, status)" by (cases p)
  obtain code msg where "jget (publication_stage_value st) d = JObj (stage_state a status code msg)"
    using represents_lookup(1) [OF r] Some p by blast
  then show ?thesis using Some p by (cases status) (simp_all add: stage_terminal_def stage_complete_def)
qed

lemma all_stages: "list_all P publication_stages \<longleftrightarrow> (\<forall>st. P st)"
  unfolding publication_stages_def by (auto, metis PublicationStage.exhaust)

lemma workflow_status_represents:
  assumes "represents d f"
  shows "workflow_status d = Inr (wf_status f)"
proof -
  have "any_failed (map snd d) = Inr (\<exists>a code msg. JObj (stage_state a PubFailed code msg) \<in> set (map snd d))"
  proof (rule any_failed_stages)
    fix v assume "v \<in> set (map snd d)"
    then obtain k where "(k, v) \<in> set d" by auto
    then show "\<exists>a status code msg. v = JObj (stage_state a status code msg)"
      using represents_entry [OF assms] by metis
  qed
  moreover have "(\<exists>a code msg. JObj (stage_state a PubFailed code msg) \<in> set (map snd d)) \<longleftrightarrow> (\<exists>st. stage_failed f st)"
  proof
    assume "\<exists>a code msg. JObj (stage_state a PubFailed code msg) \<in> set (map snd d)"
    then obtain a code msg k where "(k, JObj (stage_state a PubFailed code msg)) \<in> set d" by auto
    from represents_entry [OF assms this] obtain st a' status code' msg'
      where st: "f st = Some (a', status)" "JObj (stage_state a PubFailed code msg) = JObj (stage_state a' status code' msg')" by metis
    then have "JStr (stage_status_value PubFailed) = JStr (stage_status_value status)"
      by (metis json.inject(5) stage_state_sel(1))
    then have "status = PubFailed" by (cases status) simp_all
    then show "\<exists>st. stage_failed f st" using st(1) unfolding stage_failed_def by blast
  next
    assume "\<exists>st. stage_failed f st"
    then obtain st a where "f st = Some (a, PubFailed)" unfolding stage_failed_def by blast
    from represents_lookup(1) [OF assms this] obtain code msg
      where "jget (publication_stage_value st) d = JObj (stage_state a PubFailed code msg)" by blast
    then have "map_of d (publication_stage_value st) = Some (JObj (stage_state a PubFailed code msg))"
      by (simp add: jget_def split: option.splits)
    then show "\<exists>a code msg. JObj (stage_state a PubFailed code msg) \<in> set (map snd d)"
      by (force dest: map_of_SomeD)
  qed
  ultimately show ?thesis
    by (simp add: workflow_status_def wf_status_def all_stages stage_terminal_iff [OF assms])
qed

lemma represents_record:
  assumes "represents d f"
  shows "represents (jset (publication_stage_value st) (JObj (stage_state a status code msg)) d) (f(st \<mapsto> (a, status)))"
  unfolding represents_def
proof (intro conjI allI)
  show "distinct (map fst (jset (publication_stage_value st) (JObj (stage_state a status code msg)) d))"
    using assms by (simp add: represents_def jset_def distinct_update)
  show "fst ` set (jset (publication_stage_value st) (JObj (stage_state a status code msg)) d) \<subseteq> range publication_stage_value"
    using assms by (auto simp: represents_def keys_jset)
  fix st'
  have old: "case f st' of None \<Rightarrow> map_of d (publication_stage_value st') = None
      | Some (a, status) \<Rightarrow> \<exists>code msg. map_of d (publication_stage_value st') = Some (JObj (stage_state a status code msg))"
    using assms unfolding represents_def by blast
  show "case (f(st \<mapsto> (a, status))) st' of
      None \<Rightarrow> map_of (jset (publication_stage_value st) (JObj (stage_state a status code msg)) d) (publication_stage_value st') = None
    | Some (a', status') \<Rightarrow> \<exists>code' msg'. map_of (jset (publication_stage_value st) (JObj (stage_state a status code msg)) d)
        (publication_stage_value st') = Some (JObj (stage_state a' status' code' msg'))"
  proof (cases "st' = st")
    case True
    then show ?thesis by (auto simp: map_of_jset)
  next
    case False
    then have same: "map_of (jset (publication_stage_value st) (JObj (stage_state a status code msg)) d)
        (publication_stage_value st') = map_of d (publication_stage_value st')" by (simp add: map_of_jset)
    show ?thesis using False old unfolding same by simp
  qed
qed

lemma stage_attempts_represents:
  assumes "represents d f"
  shows "stage_attempts d st = Inr (case f st of None \<Rightarrow> 0 | Some (a, _) \<Rightarrow> a)"
proof (cases "f st")
  case None
  then show ?thesis using represents_lookup(2) [OF assms None] by (simp add: stage_attempts_def por_def)
next
  case (Some p)
  obtain a status where p: "p = (a, status)" by (cases p)
  obtain code msg where "jget (publication_stage_value st) d = JObj (stage_state a status code msg)"
    using represents_lookup(1) [OF assms] Some p by blast
  then show ?thesis using Some p by (simp add: stage_attempts_def por_def)
qed

text \<open>Recording a stage is the abstract step, and the status in the document is that of the abstract workflow.\<close>

definition documents :: "PublicationIdentity \<Rightarrow> dict option \<Rightarrow> workflow \<Rightarrow> bool" where
  "documents identity m f \<longleftrightarrow>
     (\<exists>d. workflow_entry m = JObj (workflow_document identity d (wf_status f)) \<and> represents d f)"

lemma previous_workflow_entry:
  "previous_workflow identity (metrics_dict m) =
     (case as_dict (workflow_entry m) of
        None \<Rightarrow> []
      | Some d \<Rightarrow> if json_eq (jget ''idempotencyKey'' d) (JStr (pi_idempotency_key identity)) then d else [])"
  by (simp add: previous_workflow_def workflow_entry_def)

lemma tracks_cong: "workflow_entry m = workflow_entry m' \<Longrightarrow> tracks identity m f = tracks identity m' f"
  by (simp add: tracks_def previous_workflow_entry)

lemma documents_cong: "workflow_entry m = workflow_entry m' \<Longrightarrow> documents identity m f = documents identity m' f"
  by (simp add: documents_def)

lemma documents_tracks:
  assumes "documents identity m f"
  shows "tracks identity m f"
proof -
  obtain d where d: "workflow_entry m = JObj (workflow_document identity d (wf_status f))" "represents d f"
    using assms unfolding documents_def by blast
  have "workflow_stages (workflow_document identity d (wf_status f)) = Inr d"
    by (cases d) (simp_all add: workflow_stages_def workflow_document_def por_def)
  then show ?thesis using d
    by (simp add: tracks_def previous_workflow_entry) (simp add: workflow_document_def)
qed

lemma record_stage_documents:
  assumes "tracks identity m f"
  obtains d where "record_stage identity st status code msg m = Inr d"
    and "documents identity (Some d) (wf_record st status f)"
proof -
  obtain d where d: "workflow_stages (previous_workflow identity (metrics_dict m)) = Inr d" "represents d f"
    using assms unfolding tracks_def by blast
  define a where "a = (case f st of None \<Rightarrow> 0 | Some (a, _) \<Rightarrow> a) + (if status = PubRunning then 1 else 0)"
  define d' where "d' = jset (publication_stage_value st) (JObj (stage_state a status code msg)) d"
  have r: "represents d' (wf_record st status f)"
    using represents_record [OF d(2)] by (simp add: d'_def wf_record_def a_def)
  have "record_stage identity st status code msg m =
      Inr (jset ''publicationWorkflow'' (JObj (workflow_document identity d' (wf_status (wf_record st status f)))) (metrics_dict m))"
  proof -
    have "(if status = PubRunning then (case f st of None \<Rightarrow> 0 | Some (a, _) \<Rightarrow> a) + 1
        else case f st of None \<Rightarrow> 0 | Some (a, _) \<Rightarrow> a) = a" by (simp add: a_def)
    then show ?thesis unfolding record_stage_def d(1) bind_res_simps stage_attempts_represents [OF d(2)] Let_def
      by (simp only: d'_def [symmetric] workflow_status_represents [OF r] bind_res_simps)
  qed
  moreover have "documents identity (Some (jset ''publicationWorkflow''
      (JObj (workflow_document identity d' (wf_status (wf_record st status f)))) (metrics_dict m))) (wf_record st status f)"
    using r by (auto simp: documents_def workflow_entry_def metrics_dict_def)
  ultimately show ?thesis by (rule that)
qed

abbreviation (input) metrics_of :: "'w control \<Rightarrow> dict option" where
  "metrics_of s \<equiv> rt_metrics (c_runtime s)"

lemma put_stage_run:
  assumes "tracks identity (metrics_of s) f"
  obtains t where "put_metrics (record_stage identity st status code msg) s = (Inr (), t)"
    and "documents identity (metrics_of t) (wf_record st status f)"
proof -
  obtain d where "record_stage identity st status code msg (metrics_of s) = Inr d"
    "documents identity (Some d) (wf_record st status f)"
    using record_stage_documents [OF assms] by blast
  then show ?thesis using that [of "s\<lparr>c_runtime := (c_runtime s)\<lparr>rt_metrics := Some d\<rparr>\<rparr>"] by (simp add: put_metrics_def)
qed

subsection \<open>Code that leaves the workflow alone\<close>

locale workflow_keeper =
  fixes m :: "('w control, 'a) op"
  assumes keeps: "workflow_entry (metrics_of (snd (m s))) = workflow_entry (metrics_of s)"
begin

lemma keeps_documents: "m s = (r, t) \<Longrightarrow> documents identity (metrics_of t) f = documents identity (metrics_of s) f"
  using keeps [of s] by (intro documents_cong) simp

lemma keeps_tracks: "m s = (r, t) \<Longrightarrow> tracks identity (metrics_of t) f = tracks identity (metrics_of s) f"
  using keeps [of s] by (intro tracks_cong) simp

end

lemma record_runtime_error_entry:
  assumes "record_runtime_error env m er = Inr d"
  shows "jget ''publicationWorkflow'' d = jget ''publicationWorkflow'' (metrics_dict m)"
  using assms by (cases "stage_res (er_stage er)")
    (auto simp: record_runtime_error_def Let_def RUNTIME_CONTRACT_KEY_def)

interpretation error_keeper: workflow_keeper "put_error env er" for env er
proof
  fix s :: "'w control"
  show "workflow_entry (metrics_of (snd (put_error env er s))) = workflow_entry (metrics_of s)"
    using record_runtime_error_entry [of "ce_context env" "metrics_of s" er]
    by (cases "record_runtime_error (ce_context env) (metrics_of s) er")
      (simp_all add: put_error_def put_metrics_def workflow_entry_def metrics_dict_def)
qed

interpretation clear_keeper: workflow_keeper clear_publication_error
proof
  fix s :: "'w control"
  show "workflow_entry (metrics_of (snd (clear_publication_error s))) = workflow_entry (metrics_of s)"
    by (auto simp: clear_publication_error_def put_metrics_def bind_op_def set_runtime_def write_op_def
        clear_runtime_error_def Let_def workflow_entry_def metrics_dict_def RUNTIME_CONTRACT_KEY_def split: option.splits)
qed

subsection \<open>Running a stage\<close>

lemma rollback_tracks:
  assumes "tracks identity (metrics_of s) f"
    and "as_dict (workflow_entry (metrics_of s)) = None \<Longrightarrow> as_dict (workflow_entry (metrics_of (rollback s))) = None"
  obtains t where "rollback_preserving_workflow rollback s = (Inr (), t)" and "tracks identity (metrics_of t) f"
proof (cases "as_dict (workflow_entry (metrics_of s))")
  case None
  have "tracks identity (metrics_of (rollback s)) f"
    using assms None by (simp add: tracks_def previous_workflow_entry)
  then show ?thesis using None that [of "rollback s"]
    by (simp add: rollback_preserving_workflow_def workflow_entry_def)
next
  case (Some w)
  define t where "t = (rollback s)\<lparr>c_runtime := (c_runtime (rollback s))
      \<lparr>rt_metrics := Some (jset ''publicationWorkflow'' (JObj w) (metrics_dict (metrics_of (rollback s))))\<rparr>\<rparr>"
  have "rollback_preserving_workflow rollback s = (Inr (), t)"
    using Some by (simp add: rollback_preserving_workflow_def workflow_entry_def merge_metrics_def put_metrics_def
        jmerge_def t_def)
  moreover have "workflow_entry (metrics_of t) = workflow_entry (metrics_of s)"
    using Some by (cases "workflow_entry (metrics_of s)") (simp_all add: t_def workflow_entry_def metrics_dict_def)
  ultimately show ?thesis using assms(1) tracks_cong that by blast
qed

lemma fail_stage_run:
  assumes "tracks identity (metrics_of s) f"
    and "as_dict (workflow_entry (metrics_of s)) = None \<Longrightarrow> as_dict (workflow_entry (metrics_of (rollback s))) = None"
  obtains t where "fail_stage env rollback hooks identity st code exc s = (Inr (), t)"
    and "documents identity (metrics_of t) (wf_record st PubFailed f)" and "pending_retry (rt_last_error (c_runtime t))"
proof -
  let ?msg = "p_compact_error hooks exc"
  obtain s1 where s1: "rollback_preserving_workflow rollback s = (Inr (), s1)" "tracks identity (metrics_of s1) f"
    using rollback_tracks [where rollback = rollback, OF assms] by blast
  obtain s2 where s2: "put_metrics (record_stage identity st PubFailed (Some code) (Some ?msg)) s1 = (Inr (), s2)"
    "documents identity (metrics_of s2) (wf_record st PubFailed f)"
    using put_stage_run [OF s1(2)] by blast
  let ?er = "simple_error (failure_stage st) code ?msg True
     [(''batchId'', JInt (pi_batch_id identity)), (''idempotencyKey'', JStr (pi_idempotency_key identity)),
      (''jobId'', JStr (pi_job_id identity)), (''outputFingerprint'', JStr (pi_output_fingerprint identity)),
      (''publicationStage'', JStr (publication_stage_value st)), (''runId'', JStr (pi_run_id identity))]"
  obtain s3 where s3: "put_error env ?er s2 = (Inr (), s3)" using put_error_run by blast
  let ?text = "(if st = PubDashboard then ''Dashboard revision pending retry:'' else ''Catalog materialization pending retry:'')
      @ '' '' @ ?msg"
  define t where "t = s3\<lparr>c_runtime := (c_runtime s3)\<lparr>rt_last_error := Some ?text\<rparr>\<rparr>"
  show ?thesis
  proof (rule that)
    show "fail_stage env rollback hooks identity st code exc s = (Inr (), t)"
      by (simp add: fail_stage_def record_stage_failure_def bind_op_def s1(1) s2(1) s3 set_runtime_def write_op_def t_def)
    show "documents identity (metrics_of t) (wf_record st PubFailed f)"
      using s2(2) error_keeper.keeps_documents [OF s3] by (simp add: t_def)
    show "pending_retry (rt_last_error (c_runtime t))" by (simp add: t_def pending_retry_def opt_text_def)
  qed
qed

text \<open>What a run of one stage leaves behind; \<open>ok\<close> says whether it went through.\<close>

definition stage_result :: "PublicationIdentity \<Rightarrow> PublicationStage \<Rightarrow> workflow \<Rightarrow> bool \<Rightarrow> 'w control \<Rightarrow> bool" where
  "stage_result identity st f ok t \<longleftrightarrow>
     (\<exists>g. documents identity (metrics_of t) g \<and> (\<forall>st'. st' \<noteq> st \<longrightarrow> g st' = f st')
       \<and> (if ok then stage_complete g st else stage_failed g st \<and> pending_retry (rt_last_error (c_runtime t))))"

lemma stage_resultE:
  assumes "stage_result identity st f ok t"
  obtains g where "documents identity (metrics_of t) g" "\<And>st'. st' \<noteq> st \<Longrightarrow> g st' = f st'"
    "ok \<Longrightarrow> stage_complete g st" "\<not> ok \<Longrightarrow> stage_failed g st" "\<not> ok \<Longrightarrow> pending_retry (rt_last_error (c_runtime t))"
  using assms unfolding stage_result_def by (cases ok) auto

lemma finish_stage:
  assumes "tracks identity (metrics_of s) (wf_record st PubRunning f)" and "status = PubSucceeded \<or> status = PubSkipped"
  obtains t where "put_stage identity st status s = (Inr (), t)" and "stage_result identity st f True t"
proof -
  obtain t where t: "put_stage identity st status s = (Inr (), t)"
    "documents identity (metrics_of t) (wf_record st status (wf_record st PubRunning f))"
    using put_stage_run [OF assms(1)] unfolding put_stage_def by blast
  moreover have "stage_complete (wf_record st status (wf_record st PubRunning f)) st"
    using assms(2) by (auto simp: stage_complete_def wf_record_def)
  ultimately show ?thesis by (intro that) (auto simp: stage_result_def wf_record_def)
qed

lemma attempt_stage:
  assumes "tracks identity (metrics_of s) f" and "workflow_keeper hook"
  obtains (good) x t where
      "bind_op (put_stage identity st PubRunning) (\<lambda>_. bind_op (catch_op (bind_op hook (\<lambda>x. return_op (g x)))
         (\<lambda>exc. bind_op (fail_stage env rollback hooks identity st code exc) (\<lambda>_. return_op bad))) k) s = k (g x) t"
      "tracks identity (metrics_of t) (wf_record st PubRunning f)"
    | (bad) t where
      "bind_op (put_stage identity st PubRunning) (\<lambda>_. bind_op (catch_op (bind_op hook (\<lambda>x. return_op (g x)))
         (\<lambda>exc. bind_op (fail_stage env rollback hooks identity st code exc) (\<lambda>_. return_op bad))) k) s = k bad t"
      "stage_result identity st f False t"
proof -
  obtain s1 where s1: "put_stage identity st PubRunning s = (Inr (), s1)"
    "documents identity (metrics_of s1) (wf_record st PubRunning f)"
    using put_stage_run [OF assms(1)] unfolding put_stage_def by blast
  obtain r s2 where s2: "hook s1 = (r, s2)" by (meson surj_pair)
  have d2: "documents identity (metrics_of s2) (wf_record st PubRunning f)"
    using workflow_keeper.keeps_documents [OF assms(2) s2] s1(2) by simp
  note t2 = documents_tracks [OF d2]
  show ?thesis
  proof (cases r)
    case (Inr x)
    show ?thesis by (rule good [OF _ t2]) (simp add: bind_op_def catch_op_def return_op_def s1(1) s2 Inr)
  next
    case (Inl exc)
    have "as_dict (workflow_entry (metrics_of s2)) \<noteq> None" using d2 by (auto simp: documents_def)
    then have "as_dict (workflow_entry (metrics_of s2)) = None \<Longrightarrow> as_dict (workflow_entry (metrics_of (rollback s2))) = None"
      by simp
    then obtain t where t: "fail_stage env rollback hooks identity st code exc s2 = (Inr (), t)"
      "documents identity (metrics_of t) (wf_record st PubFailed (wf_record st PubRunning f))"
      "pending_retry (rt_last_error (c_runtime t))"
      by (rule fail_stage_run [where rollback = rollback, OF t2])
    have "stage_result identity st f False t"
      using t(2,3) by (auto simp: stage_result_def stage_failed_def wf_record_def)
    then show ?thesis
      by (rule bad [rotated]) (simp add: bind_op_def catch_op_def return_op_def s1(1) s2 Inl t(1))
  qed
qed

subsection \<open>The outcome of a publication\<close>

definition publication_hooks_ok :: "'w publication_hooks \<Rightarrow> bool" where
  "publication_hooks_ok hooks \<longleftrightarrow>
     (\<forall>p i. workflow_keeper (p_prepare hooks p i)) \<and> (\<forall>p i x. workflow_keeper (p_verify_output hooks p i x))
     \<and> (\<forall>p x. workflow_keeper (p_verify_manifest hooks p x))
     \<and> (\<forall>p i x y. workflow_keeper (p_register_catalog hooks p i x y))
     \<and> (\<forall>p i x y z. workflow_keeper (p_publish_dashboard hooks p i x y z))
     \<and> (\<forall>y. workflow_keeper (p_update_job_stats hooks y))"

lemma output_stage:
  assumes "tracks identity (metrics_of s) f" and "publication_hooks_ok hooks"
  obtains ok out t where "verify_output_stage env rollback hooks publication identity inputs stored_count s = (Inr (ok, out), t)"
    and "stage_result identity PubOutput f ok t"
proof (cases "stored_count = 0")
  case True
  obtain t where t: "put_stage identity PubOutput PubSkipped s = (Inr (), t)"
    "documents identity (metrics_of t) (wf_record PubOutput PubSkipped f)"
    using put_stage_run [OF assms(1)] unfolding put_stage_def by blast
  have "stage_result identity PubOutput f True t"
    using t(2) by (auto simp: stage_result_def stage_complete_def wf_record_def)
  then show ?thesis using True t(1)
    by (intro that [of True None t]) (simp_all add: verify_output_stage_def bind_op_def return_op_def)
next
  case False
  have k: "workflow_keeper (p_verify_output hooks publication identity inputs)"
    using assms(2) by (simp add: publication_hooks_ok_def)
  let ?k = "\<lambda>verified. case verified of
        None \<Rightarrow> return_op (False, None)
      | Some output \<Rightarrow> bind_op (put_stage identity PubOutput PubSucceeded) (\<lambda>_. return_op (True, Some output))"
  note run = verify_output_stage_def [of env rollback hooks publication identity inputs stored_count, unfolded if_not_P [OF False]]
  show ?thesis
  proof (rule attempt_stage [where st = PubOutput and g = Some and bad = None and env = env and rollback = rollback
      and hooks = hooks and code = "''publication_output_unverified''" and k = ?k, OF assms(1) k, folded run])
    fix x t assume x: "verify_output_stage env rollback hooks publication identity inputs stored_count s = ?k (Some x) t"
      and t: "tracks identity (metrics_of t) (wf_record PubOutput PubRunning f)"
    obtain u where "put_stage identity PubOutput PubSucceeded t = (Inr (), u)" "stage_result identity PubOutput f True u"
      using finish_stage [OF t] by blast
    then show ?thesis using x by (intro that [of True "Some x" u]) (simp_all add: bind_op_def return_op_def)
  qed (rule that [of False None], simp_all add: return_op_def)
qed

lemma manifest_stage:
  assumes "tracks identity (metrics_of s) f" and "publication_hooks_ok hooks"
  obtains ok t where "verify_manifest_stage env rollback hooks publication identity inputs s = (Inr ok, t)"
    and "stage_result identity PubManifest f ok t"
proof -
  have k: "workflow_keeper (p_verify_manifest hooks publication inputs)"
    using assms(2) by (simp add: publication_hooks_ok_def)
  note run = verify_manifest_stage_def [of env rollback hooks publication identity inputs]
  show ?thesis
  proof (rule attempt_stage [where st = PubManifest and g = "\<lambda>_. True" and bad = False and env = env and rollback = rollback
      and hooks = hooks and code = "''publication_manifest_unavailable''" and k = "\<lambda>ok.
       if ok then bind_op (put_stage identity PubManifest PubSucceeded) (\<lambda>_. return_op True) else return_op False",
      OF assms(1) k, folded run])
    fix t assume x: "verify_manifest_stage env rollback hooks publication identity inputs s =
        (if True then bind_op (put_stage identity PubManifest PubSucceeded) (\<lambda>_. return_op True) else return_op False) t"
      and t: "tracks identity (metrics_of t) (wf_record PubManifest PubRunning f)"
    obtain u where "put_stage identity PubManifest PubSucceeded t = (Inr (), u)" "stage_result identity PubManifest f True u"
      using finish_stage [OF t] by blast
    then show ?thesis using x by (intro that [of True u]) (simp_all add: bind_op_def return_op_def)
  qed (rule that [of False], simp_all add: return_op_def)
qed

lemma dashboard_stage:
  assumes "tracks identity (metrics_of s) f" and "publication_hooks_ok hooks"
  obtains ok t where "publish_dashboard_stage env rollback hooks publication identity inputs output catalog s = (Inr ok, t)"
    and "stage_result identity PubDashboard f ok t"
proof -
  have k: "workflow_keeper (p_publish_dashboard hooks publication identity inputs output catalog)"
    using assms(2) by (simp add: publication_hooks_ok_def)
  note run = publish_dashboard_stage_def [of env rollback hooks publication identity inputs "output" catalog]
  show ?thesis
  proof (rule attempt_stage [where st = PubDashboard and g = "\<lambda>_. True" and bad = False and env = env and rollback = rollback
      and hooks = hooks and code = "''dashboard_publication_pending''" and k = "\<lambda>ok.
       if ok then bind_op (put_stage identity PubDashboard PubSucceeded) (\<lambda>_. return_op True) else return_op False",
      OF assms(1) k, folded run])
    fix t assume x: "publish_dashboard_stage env rollback hooks publication identity inputs output catalog s =
        (if True then bind_op (put_stage identity PubDashboard PubSucceeded) (\<lambda>_. return_op True) else return_op False) t"
      and t: "tracks identity (metrics_of t) (wf_record PubDashboard PubRunning f)"
    obtain u where "put_stage identity PubDashboard PubSucceeded t = (Inr (), u)" "stage_result identity PubDashboard f True u"
      using finish_stage [OF t] by blast
    then show ?thesis using x by (intro that [of True u]) (simp_all add: bind_op_def return_op_def)
  qed (rule that [of False], simp_all add: return_op_def)
qed

lemma catalog_stage:
  assumes "tracks identity (metrics_of s) f" and "publication_hooks_ok hooks"
  obtains registered t where "register_catalog_stage env rollback hooks publication identity inputs output s = (Inr registered, t)"
    and "stage_result identity PubCatalog f (registered \<noteq> None) t"
proof -
  have k: "workflow_keeper (p_register_catalog hooks publication identity inputs output)"
    using assms(2) by (simp add: publication_hooks_ok_def)
  note run = register_catalog_stage_def [of env rollback hooks publication identity inputs "output"]
  let ?k = "\<lambda>registered. case registered of
       None \<Rightarrow> return_op None
     | Some catalog \<Rightarrow>
         bind_op (put_stage identity PubCatalog (if pc_catalog_skipped catalog then PubSkipped else PubSucceeded)) (\<lambda>_.
         return_op (Some catalog))"
  show ?thesis
  proof (rule attempt_stage [where st = PubCatalog and g = Some and bad = None and env = env and rollback = rollback
      and hooks = hooks and code = "''catalog_publication_pending''" and k = ?k, OF assms(1) k, folded run])
    fix x t assume x: "register_catalog_stage env rollback hooks publication identity inputs output s = ?k (Some x) t"
      and t: "tracks identity (metrics_of t) (wf_record PubCatalog PubRunning f)"
    obtain u where "put_stage identity PubCatalog (if pc_catalog_skipped x then PubSkipped else PubSucceeded) t = (Inr (), u)"
      "stage_result identity PubCatalog f True u"
      by (rule finish_stage [OF t, of "if pc_catalog_skipped x then PubSkipped else PubSucceeded"]) simp
    then show ?thesis using x by (intro that [of "Some x" u]) (simp_all add: bind_op_def return_op_def)
  qed (rule that [of None], simp_all add: return_op_def)
qed

primrec stage_index :: "PublicationStage \<Rightarrow> nat" where
  "stage_index PubOutput = 0"
| "stage_index PubManifest = 1"
| "stage_index PubCatalog = 2"
| "stage_index PubDashboard = 3"

text \<open>The publication failed in stage \<open>st\<close>: every earlier stage is complete.\<close>

definition failed_in :: "workflow \<Rightarrow> PublicationStage \<Rightarrow> bool" where
  "failed_in g st \<longleftrightarrow> stage_failed g st \<and> (\<forall>st'. stage_index st' < stage_index st \<longrightarrow> stage_complete g st')"

definition publication_record :: "PublicationIdentity \<Rightarrow> bool \<Rightarrow> 'w control \<Rightarrow> bool" where
  "publication_record identity ok t \<longleftrightarrow>
     (\<exists>g. documents identity (metrics_of t) g
       \<and> (if ok then (\<forall>st. stage_complete g st) \<and> \<not> pending_retry (rt_last_error (c_runtime t))
          else (\<exists>st. failed_in g st) \<and> pending_retry (rt_last_error (c_runtime t))))"

definition complete_through :: "nat \<Rightarrow> workflow \<Rightarrow> bool" where
  "complete_through n g \<longleftrightarrow> (\<forall>st. stage_index st < n \<longrightarrow> stage_complete g st)"

lemma stage_index_inj: "stage_index a = stage_index b \<Longrightarrow> a = b"
  by (cases a; cases b) simp_all

lemma stage_progress:
  assumes "stage_result identity st f ok t" and "complete_through (stage_index st) f"
  obtains (failed) "\<not> ok" "publication_record identity False t"
    | (passed) g where "ok" "documents identity (metrics_of t) g" "complete_through (Suc (stage_index st)) g"
proof -
  obtain g where g: "documents identity (metrics_of t) g" "\<And>st'. st' \<noteq> st \<Longrightarrow> g st' = f st'"
    "ok \<Longrightarrow> stage_complete g st" "\<not> ok \<Longrightarrow> stage_failed g st" "\<not> ok \<Longrightarrow> pending_retry (rt_last_error (c_runtime t))"
    using stage_resultE [OF assms(1)] by blast
  have before: "stage_complete g st'" if "stage_index st' < stage_index st" for st'
  proof -
    have "g st' = f st'" using that by (intro g(2)) auto
    then show ?thesis using assms(2) that by (simp add: complete_through_def stage_complete_def)
  qed
  show ?thesis
  proof (cases ok)
    case True
    then have "complete_through (Suc (stage_index st)) g"
      using before g(3) by (auto simp: complete_through_def less_Suc_eq dest: stage_index_inj)
    then show ?thesis using passed True g(1) by blast
  next
    case False
    then have "failed_in g st" using g(4) before by (simp add: failed_in_def)
    then show ?thesis using failed False g(1,5) unfolding publication_record_def by auto
  qed
qed

lemma clear_total: "\<exists>t. clear_publication_error s = (Inr (), t)"
  by (simp add: clear_publication_error_def bind_op_def set_runtime_def write_op_def put_metrics_def)

lemma finish_record:
  assumes "documents identity (metrics_of s) g" and "complete_through 4 g" and "publication_hooks_ok hooks"
    and "\<And>s. \<exists>t. p_update_job_stats hooks out s = (Inr (), t)"
  obtains t where
    "bind_op (p_update_job_stats hooks out) (\<lambda>_. bind_op clear_publication_error (\<lambda>_. return_op True)) s = (Inr True, t)"
    "publication_record identity True t"
proof -
  obtain s1 where s1: "p_update_job_stats hooks out s = (Inr (), s1)" using assms(4) by blast
  obtain t where c: "clear_publication_error s1 = (Inr (), t)" using clear_total by blast
  have k: "workflow_keeper (p_update_job_stats hooks out)" using assms(3) by (simp add: publication_hooks_ok_def)
  have "documents identity (metrics_of t) g"
    using assms(1) workflow_keeper.keeps_documents [OF k s1] clear_keeper.keeps_documents [OF c] by simp
  moreover have "\<not> pending_retry (rt_last_error (c_runtime t))"
    using c by (auto simp: clear_publication_error_def op_elims pending_retry_def opt_text_def split: if_splits)
  moreover have "stage_complete g st" for st using assms(2) by (cases st) (simp_all add: complete_through_def)
  ultimately have "publication_record identity True t" unfolding publication_record_def by auto
  then show ?thesis using that [of t] s1 c by (simp add: bind_op_def return_op_def)
qed

lemma stages_record:
  assumes hooks: "publication_hooks_ok hooks" and start: "tracks identity (metrics_of s) f"
    and stats: "\<And>out s. \<exists>t. p_update_job_stats hooks out s = (Inr (), t)"
  obtains ok t where "bind_op (verify_output_stage env rollback hooks publication identity inputs stored_count) (\<lambda>(output_ok, output).
         if \<not> output_ok then return_op False
         else
         bind_op (verify_manifest_stage env rollback hooks publication identity inputs) (\<lambda>manifest_ok.
         if \<not> manifest_ok then return_op False
         else
         bind_op (register_catalog_stage env rollback hooks publication identity inputs output) (\<lambda>registered.
         case registered of
           None \<Rightarrow> return_op False
         | Some catalog \<Rightarrow>
             bind_op (publish_dashboard_stage env rollback hooks publication identity inputs output catalog) (\<lambda>published.
             if \<not> published then return_op False
             else
             bind_op (p_update_job_stats hooks output) (\<lambda>_.
             bind_op clear_publication_error (\<lambda>_. return_op True)))))) s = (Inr ok, t)"
    "publication_record identity ok t"
proof -
  have first: "complete_through (stage_index PubOutput) f" by (simp add: complete_through_def)
  obtain ok1 out s1 where r1: "verify_output_stage env rollback hooks publication identity inputs stored_count s = (Inr (ok1, out), s1)"
    and s1: "stage_result identity PubOutput f ok1 s1" by (rule output_stage [OF start hooks])
  note run1 = that [unfolded bind_op_step [where m = "verify_output_stage env rollback hooks publication identity inputs stored_count",
        OF r1] prod.case]
  show ?thesis
  proof (rule stage_progress [OF s1 first])
    fix g1 assume g1: ok1 "documents identity (metrics_of s1) g1" "complete_through (Suc (stage_index PubOutput)) g1"
    obtain ok2 s2 where r2: "verify_manifest_stage env rollback hooks publication identity inputs s1 = (Inr ok2, s2)"
      and s2: "stage_result identity PubManifest g1 ok2 s2" by (rule manifest_stage [OF documents_tracks [OF g1(2)] hooks])
    show ?thesis
    proof (rule stage_progress [OF s2])
      fix g2 assume g2: ok2 "documents identity (metrics_of s2) g2" "complete_through (Suc (stage_index PubManifest)) g2"
      obtain reg s3 where r3: "register_catalog_stage env rollback hooks publication identity inputs out s2 = (Inr reg, s3)"
        and s3: "stage_result identity PubCatalog g2 (reg \<noteq> None) s3" by (rule catalog_stage [OF documents_tracks [OF g2(2)] hooks])
      show ?thesis
      proof (rule stage_progress [OF s3])
        fix g3 assume g3: "reg \<noteq> None" "documents identity (metrics_of s3) g3" "complete_through (Suc (stage_index PubCatalog)) g3"
        then obtain catalog where reg: "reg = Some catalog" by auto
        obtain ok4 s4 where r4: "publish_dashboard_stage env rollback hooks publication identity inputs out catalog s3 = (Inr ok4, s4)"
          and s4: "stage_result identity PubDashboard g3 ok4 s4" by (rule dashboard_stage [OF documents_tracks [OF g3(2)] hooks])
        show ?thesis
        proof (rule stage_progress [OF s4])
          fix g4 assume g4: ok4 "documents identity (metrics_of s4) g4" "complete_through (Suc (stage_index PubDashboard)) g4"
          from g4(3) have "complete_through 4 g4" by (simp add: eval_nat_numeral)
          from finish_record [OF g4(2) this hooks stats] obtain t where
            t: "bind_op (p_update_job_stats hooks out) (\<lambda>_. bind_op clear_publication_error (\<lambda>_. return_op True)) s4 = (Inr True, t)"
              "publication_record identity True t" by blast
          show ?thesis using t g1(1) g2(1) g4(1)
            by (intro run1 [of True t]) (simp_all add: bind_op_def r2 r3 r4 reg)
        qed (use run1 [of False s4] g1(1) g2(1) g3(3) in \<open>simp_all add: bind_op_def r2 r3 r4 reg
            return_op_def eval_nat_numeral\<close>)
      qed (use run1 [of False s3] g1(1) g2(1,3) in \<open>simp_all add: bind_op_def r2 r3 return_op_def eval_nat_numeral\<close>)
    qed (use run1 [of False s2] g1(1,3) in \<open>simp_all add: bind_op_def r2 return_op_def\<close>)
  qed (use run1 [of False s1] in \<open>simp add: return_op_def\<close>)
qed

lemma publication_recorded:
  assumes hooks: "publication_hooks_ok hooks"
    and rollback: "\<forall>s. as_dict (workflow_entry (rt_metrics (c_runtime s))) = None \<longrightarrow>
      as_dict (workflow_entry (rt_metrics (c_runtime (rollback s)))) = None"
    and identity: "build_publication_identity (c_job s) publication = Inr identity"
    and start: "tracks identity (rt_metrics (c_runtime s)) f"
    and stats: "\<And>out s. \<exists>t. p_update_job_stats hooks out s = (Inr (), t)"
  obtains ok t where "execute_continuous_publication env rollback hooks publication s = (Inr ok, t)"
    and "publication_record identity ok t"
proof (cases "p_prepare hooks publication identity s")
  case (Pair r s1)
  have k: "workflow_keeper (p_prepare hooks publication identity)" using hooks by (simp add: publication_hooks_ok_def)
  have s1: "tracks identity (rt_metrics (c_runtime s1)) f" using workflow_keeper.keeps_tracks [OF k Pair] start by simp
  show ?thesis
  proof (cases r)
    case (Inr inputs)
    then have "prepare_publication_context env rollback hooks publication s =
        (Inr (Some (identity, inputs, nonnegative_int_or (jget ''storedCount'' publication) 0)), s1)"
      using Pair identity by (simp add: prepare_publication_context_def catch_op_def bind_op_def return_op_def)
    note step = bind_op_step [where m = "prepare_publication_context env rollback hooks publication", OF this]
    show ?thesis
      by (rule stages_record [OF hooks s1 stats, of env rollback publication inputs
            "nonnegative_int_or (jget ''storedCount'' publication) 0"])
        (rule that, simp_all only: execute_continuous_publication_def step option.case prod.case)
  next
    case (Inl exc)
    obtain u where u: "fail_stage env rollback hooks identity PubOutput ''publication_input_invalid'' exc s1 = (Inr (), u)"
      "documents identity (rt_metrics (c_runtime u)) (wf_record PubOutput PubFailed f)" "pending_retry (rt_last_error (c_runtime u))"
      using fail_stage_run [where rollback = rollback, OF s1] rollback by blast
    have "execute_continuous_publication env rollback hooks publication s = (Inr False, u)"
      using Pair Inl identity u(1)
      by (simp add: execute_continuous_publication_def prepare_publication_context_def catch_op_def bind_op_def return_op_def)
    moreover have "failed_in (wf_record PubOutput PubFailed f) PubOutput"
      by (simp add: failed_in_def stage_failed_def wf_record_def)
    ultimately show ?thesis using u(2,3) by (intro that [of False u]) (auto simp: publication_record_def)
  qed
qed

lemma wf_status_outcome:
  assumes "if ok then \<forall>st. stage_complete g st else \<exists>st. failed_in g st"
  shows "wf_status g = (if ok then ''completed'' else ''partial_failure'')"
proof (cases ok)
  case True
  then have c: "stage_complete g st" for st using assms by simp
  have "\<not> stage_failed g st" for st using c [of st] by (auto simp: stage_failed_def stage_complete_def)
  then show ?thesis using True c by (simp add: wf_status_def)
next
  case False
  then show ?thesis using assms by (auto simp: wf_status_def failed_in_def)
qed


definition sample_publication :: dict where
  "sample_publication =
     [(''batchId'', JInt 7), (''runId'', JStr ''continuous:job:batch:7:r''), (''storedCount'', JInt 2),
      (''manifestPath'', JStr ''m/7'')]"

definition sample_publication_hooks :: "unit publication_hooks" where
  "sample_publication_hooks =
     \<lparr>p_prepare = (\<lambda>_ _. return_op \<lparr>pin_data_path = Some ''d'', pin_manifest_path = ''m'', pin_source_ranges = []\<rparr>),
      p_verify_output = (\<lambda>_ _ _. return_op \<lparr>po_target_uri = ''u'', po_verified_result = []\<rparr>),
      p_verify_manifest = (\<lambda>_ _. return_op ()),
      p_register_catalog = (\<lambda>_ _ _ _. raise_op (RuntimeError ''catalog'')),
      p_publish_dashboard = (\<lambda>_ _ _ _ _. return_op ()),
      p_update_job_stats = (\<lambda>_. return_op ()),
      p_compact_error = (\<lambda>_. ''error'')\<rparr>"

lemma sample_publication_hooks_ok: "publication_hooks_ok sample_publication_hooks"
  by (simp add: publication_hooks_ok_def sample_publication_hooks_def workflow_keeper_def return_op_def raise_op_def)

lemma fresh_tracks:
  "jget ''publicationWorkflow'' (metrics_dict m) = JNull \<Longrightarrow> tracks identity m Map.empty"
  by (simp add: tracks_def previous_workflow_def workflow_stages_def por_def)


subsection \<open>The idempotency key\<close>

lemma mset_map_filter: "mset xs = mset ys \<Longrightarrow> mset (List.map_filter f xs) = mset (List.map_filter f ys)"
  by (simp add: map_filter_def mset_map mset_filter)

lemma ranges_permuted:
  assumes "mset xs = mset ys" and "inj_on range_key (set (List.map_filter as_dict xs))"
  shows "fingerprint_source_ranges (JList xs) = fingerprint_source_ranges (JList ys)"
proof -
  let ?d = "List.map_filter as_dict"
  have m: "mset (?d xs) = mset (sort_key range_key (?d ys))" using mset_map_filter [OF assms(1), of as_dict] by simp
  have "sort_key range_key (?d xs) = sort_key range_key (?d ys)"
    by (rule sort_key_inj_key_eq [OF m assms(2)]) (simp add: sorted_sort_key)
  then show ?thesis by (simp add: fingerprint_source_ranges_def)
qed

text \<open>The identity of a publication does not depend on the order in which the worker reports its source
  ranges: a report with the ranges in another order has the same fingerprints and the same
  idempotency key, so a retry continues the same workflow. (The sort key of a range contains the digest
  of the range; the ranges must not collide in it.)\<close>

theorem publication_key_ignores_range_order:
  assumes "jget ''sourceRanges'' publication = JList xs" and "mset xs = mset ys"
    and "inj_on range_key (set (List.map_filter as_dict xs))"
  shows "build_publication_identity job (jset ''sourceRanges'' (JList ys) publication) =
    build_publication_identity job publication"
proof -
  have "manifest_payload (jset ''sourceRanges'' (JList ys) publication) = manifest_payload publication"
    using assms(1) ranges_permuted [OF assms(2,3)] by (simp add: manifest_payload_def)
  moreover have "output_payload (jset ''sourceRanges'' (JList ys) publication) = output_payload publication"
    by (simp add: output_payload_def)
  moreover have "jget ''batchId'' (jset ''sourceRanges'' (JList ys) publication) = jget ''batchId'' publication"
    "jget ''runId'' (jset ''sourceRanges'' (JList ys) publication) = jget ''runId'' publication" by simp_all
  ultimately show ?thesis by (simp only: build_publication_identity_def)
qed

definition sample_range :: "int \<Rightarrow> json" where
  "sample_range n = JObj [(''topic'', JStr ''t''), (''partition'', JInt n)]"

theorem publication_key_ignores_range_order_witness:
  "build_publication_identity (c_job (sample_control (sample_runtime ''running'' ''running'' ''a1'')))
     (jset ''sourceRanges'' (JList [sample_range 1, sample_range 0])
       ((''sourceRanges'', JList [sample_range 0, sample_range 1]) # sample_publication)) =
   build_publication_identity (c_job (sample_control (sample_runtime ''running'' ''running'' ''a1'')))
     ((''sourceRanges'', JList [sample_range 0, sample_range 1]) # sample_publication)"
proof -
  let ?d = "\<lambda>n. [(''topic'', JStr ''t''), (''partition'', JInt n)]"
  have part: "fst (snd (range_key (?d n))) = n" for n by (simp add: range_key_def range_int_def optional_int_def)
  have "range_key (?d 0) \<noteq> range_key (?d 1)" using part [of 0] part [of 1] by (metis zero_neq_one)
  then have "inj_on range_key (set (List.map_filter as_dict [sample_range 0, sample_range 1]))"
    by (auto simp: inj_on_def map_filter_def sample_range_def)
  then show ?thesis by (intro publication_key_ignores_range_order [where xs = "[sample_range 0, sample_range 1]"]) simp_all
qed

end
