(* ===== verification/Publication_Batches.thy ===== *)
theory Publication_Batches
  imports Continuous_Publication
begin

section \<open>Publication of the batches of a report\<close>

text \<open>
  The second half of \<open>application/continuous_publication.py\<close>: which batches of a report or of the stored
  manifests are due, and the loop that publishes them in order and advances the catalog cursor, which is
  acknowledged to the worker. A batch is published by \<open>b_publish_one\<close>, in the program
  \<open>execute_continuous_publication\<close>. The runtime is the object in memory: the lock taken after each batch
  finds the row but does not reload attributes (\<open>select ... for update\<close> without \<open>populate_existing\<close>).
\<close>

record 'w batch_hooks =
  b_list_manifest_batch_ids :: "int \<Rightarrow> int option \<Rightarrow> ('w control, int list option) op"
  b_read_manifest :: "string \<Rightarrow> ('w control, dict option) op"
  b_publish_one :: "dict \<Rightarrow> ('w control, bool) op"
  b_dataset_id :: "etl_job \<Rightarrow> string"
  b_list_partition_cursors :: "string \<Rightarrow> string \<Rightarrow> ('w control, json option) op"
  b_merge_partition_cursors :: "json \<Rightarrow> json \<Rightarrow> json"

subsection \<open>Selecting the publications\<close>

definition batch_after :: "int option \<Rightarrow> int" where
  "batch_after cursor = (case cursor of None \<Rightarrow> -1 | Some c \<Rightarrow> c)"

definition beyond :: "int option \<Rightarrow> int \<Rightarrow> bool" where
  "beyond cursor b \<longleftrightarrow> (case cursor of None \<Rightarrow> True | Some c \<Rightarrow> b > c)"

definition record_manifest_recovery_failure :: "dict \<Rightarrow> string \<Rightarrow> ('w control, unit) op" where
  "record_manifest_recovery_failure metrics reason =
     set_runtime (\<lambda>r. r\<lparr>rt_metrics := Some (jset ''publicationRecoveryPending'' (JBool True) metrics),
       rt_last_error := Some (''Catalog materialization pending retry: '' @ reason
         @ ''; Catalog ACK was not advanced.'')\<rparr>)"

text \<open>The manifests of the given batches, or \<open>None\<close> and the first batch whose manifest is missing.\<close>

fun read_manifests :: "(int \<Rightarrow> ('w control, dict option) op) \<Rightarrow> int list \<Rightarrow> ('w control, int + dict list) op" where
  "read_manifests read [] = return_op (Inr [])"
| "read_manifests read (b # rest) =
     bind_op (read b) (\<lambda>manifest.
     case manifest of
       None \<Rightarrow> return_op (Inl b)
     | Some d \<Rightarrow>
         bind_op (read_manifests read rest) (\<lambda>found.
         return_op (case found of Inl c \<Rightarrow> Inl c | Inr ds \<Rightarrow> Inr (d # ds))))"

definition usable_evidence :: "int \<Rightarrow> json \<Rightarrow> dict option" where
  "usable_evidence b evidence =
     (case as_dict evidence of
        None \<Rightarrow> None
      | Some d \<Rightarrow>
          if optional_int (jget ''batchId'' d) = Some b
             \<and> optional_string (jget ''manifestPath'' d) \<noteq> None
             \<and> as_list (jget ''sourceRanges'' d) \<noteq> None \<and> truthy (jget ''sourceRanges'' d)
             \<and> (nonnegative_int_or (jget ''storedCount'' d) 0 = 0 \<or> optional_string (jget ''dataPath'' d) \<noteq> None)
          then Some d else None)"

definition terminal_manifest_missing :: "int \<Rightarrow> ('w control, json list option) op" where
  "terminal_manifest_missing last_batch_id =
     bind_op (set_runtime (\<lambda>r. r\<lparr>rt_last_error := Some
       (''Catalog materialization pending retry: The terminal Continuous publication manifest for batch ''
        @ show_int last_batch_id @ '' is not durably complete; Catalog ACK was not advanced.'')\<rparr>)) (\<lambda>_.
     return_op None)"

definition recover_terminal_publications ::
  "'w batch_hooks \<Rightarrow> dict \<Rightarrow> int option \<Rightarrow> ('w control, json list option) op" where
  "recover_terminal_publications hooks report cursor = (\<lambda>s.
     case optional_int (jget ''lastBatchId'' report) of
       None \<Rightarrow> (Inr (Some []), s)
     | Some last_batch_id \<Rightarrow>
         if \<not> (last_batch_id \<ge> 0 \<and> truthy (jget ''lastBatchWritten'' report) \<and> beyond cursor last_batch_id)
         then (Inr (Some []), s)
         else
           let evidence = (if as_dict (jget ''lastBatchEvidence'' report) \<noteq> None then jget ''lastBatchEvidence'' report
                 else jget ''lastBatchEvidence'' (metrics_dict (rt_metrics (c_runtime s))))
           in bind_op (b_list_manifest_batch_ids hooks (batch_after cursor) (Some last_batch_id)) (\<lambda>listed.
              case listed of
                None \<Rightarrow> terminal_manifest_missing last_batch_id
              | Some ids \<Rightarrow>
                  if last_batch_id \<notin> set ids then terminal_manifest_missing last_batch_id
                  else
                    bind_op (read_manifests (\<lambda>b. if b = last_batch_id \<and> usable_evidence b evidence \<noteq> None
                        then return_op (usable_evidence b evidence) else b_read_manifest hooks (show_int b)) ids) (\<lambda>found.
                    case found of
                      Inr ds \<Rightarrow> return_op (Some (map JObj ds))
                    | Inl b \<Rightarrow>
                        bind_op (set_runtime (\<lambda>r. r\<lparr>rt_last_error := Some
                          (''Catalog materialization pending retry: Continuous publication manifest gap at batch ''
                           @ show_int b @ ''; Catalog ACK was not advanced.'')\<rparr>)) (\<lambda>_.
                        return_op None))) s)"

text \<open>\<open>isinstance(item, dict)\<close> with a batch id that is a number.\<close>

definition publication_batch :: "json \<Rightarrow> int option" where
  "publication_batch item = (case as_dict item of None \<Rightarrow> None | Some d \<Rightarrow> optional_int (jget ''batchId'' d))"

definition select_publications ::
  "'w batch_hooks \<Rightarrow> dict \<Rightarrow> int option \<Rightarrow> dict \<Rightarrow> bool \<Rightarrow> ('w control, json list option \<times> bool) op" where
  "select_publications hooks report cursor metrics recover_completed_manifests =
     (let reported = (case as_list (jget ''publishedBatches'' report) of None \<Rightarrow> [] | Some xs \<Rightarrow> xs);
          requested = (recover_completed_manifests \<or> jget ''publicationRecoveryPending'' metrics = JBool True)
      in if requested then
           bind_op (b_list_manifest_batch_ids hooks (batch_after cursor) None) (\<lambda>listed.
           case listed of
             None \<Rightarrow>
               bind_op (record_manifest_recovery_failure metrics
                 ''Completed Continuous publication manifests could not be listed'') (\<lambda>_.
               return_op (None, True))
           | Some ids \<Rightarrow>
               bind_op (read_manifests (\<lambda>b. b_read_manifest hooks (show_int b)) ids) (\<lambda>found.
               case found of
                 Inr ds \<Rightarrow> return_op (Some (map JObj ds), True)
               | Inl b \<Rightarrow>
                   bind_op (record_manifest_recovery_failure metrics
                     (''Completed Continuous publication manifest '' @ show_int b @ '' could not be read'')) (\<lambda>_.
                   return_op (None, True))))
         else if list_ex (\<lambda>p. case publication_batch p of None \<Rightarrow> False | Some b \<Rightarrow> beyond cursor b) reported
         then return_op (Some reported, False)
         else
           bind_op (recover_terminal_publications hooks report cursor) (\<lambda>recovered.
           return_op (recovered, False)))"

definition batch_of :: "dict \<Rightarrow> int" where
  "batch_of d = nonnegative_int_or (jget ''batchId'' d) 0"

definition normalize_publications :: "json list \<Rightarrow> dict list" where
  "normalize_publications publications =
     sort_key batch_of (List.map_filter as_dict
       (filter (\<lambda>p. case publication_batch p of None \<Rightarrow> False | Some b \<Rightarrow> b \<ge> 0) publications))"

subsection \<open>Publishing in order\<close>

definition persisted_cursor :: "runtime_row \<Rightarrow> int option" where
  "persisted_cursor r = optional_int (jget ''catalogBatchCursor'' (metrics_dict (rt_metrics r)))"

definition cursor_max :: "int option \<Rightarrow> int \<Rightarrow> int" where
  "cursor_max cursor b = (case cursor of None \<Rightarrow> b | Some c \<Rightarrow> max c b)"

definition observe_persisted ::
  "string \<Rightarrow> int option \<Rightarrow> dict \<Rightarrow> 'w control \<Rightarrow> int option \<times> dict" where
  "observe_persisted job_id cursor metrics s =
     (if lookup_key rt_job_id job_id (c_runtimes s) = None then (cursor, metrics)
      else
        (case persisted_cursor (c_runtime s) of
           None \<Rightarrow> cursor
         | Some p \<Rightarrow> if beyond cursor p then Some p else cursor,
         jmerge metrics (metrics_dict (rt_metrics (c_runtime s)))))"

fun publish_pending_batches ::
  "'w batch_hooks \<Rightarrow> string \<Rightarrow> string \<Rightarrow> dict list \<Rightarrow> int option \<Rightarrow> dict
    \<Rightarrow> ('w control, int option \<times> dict \<times> bool) op" where
  "publish_pending_batches hooks job_id dataset_id [] cursor metrics = return_op (cursor, metrics, False)"
| "publish_pending_batches hooks job_id dataset_id (p # ps) cursor metrics =
     (if \<not> beyond cursor (batch_of p) then publish_pending_batches hooks job_id dataset_id ps cursor metrics
      else
        bind_op (b_publish_one hooks p) (\<lambda>materialized s.
        let (cursor1, metrics1) = observe_persisted job_id cursor metrics s in
        if \<not> materialized then
          let metrics2 = jset ''publicationRecoveryPending'' (JBool True) metrics1
          in bind_op (set_runtime (\<lambda>r. r\<lparr>rt_metrics := Some metrics2\<rparr>)) (\<lambda>_.
             return_op (cursor1, metrics2, True)) s
        else
          bind_op (b_list_partition_cursors hooks dataset_id (rt_topic (c_runtime s))) (\<lambda>persisted.
          let cursors = (case persisted of
                Some v \<Rightarrow> v
              | None \<Rightarrow> b_merge_partition_cursors hooks (jget ''streamPartitionCursors'' metrics1) (jget ''sourceRanges'' p));
              cursor2 = cursor_max cursor1 (batch_of p);
              metrics2 = jset ''catalogBatchCursor'' (JInt cursor2) (jset ''streamPartitionCursors'' cursors metrics1)
          in bind_op (set_runtime (\<lambda>r. r\<lparr>rt_metrics := Some metrics2\<rparr>)) (\<lambda>_.
             publish_pending_batches hooks job_id dataset_id ps (Some cursor2) metrics2)) s))"

definition reconcile_continuous_publications ::
  "'w batch_hooks \<Rightarrow> dict \<Rightarrow> bool \<Rightarrow> ('w control, int option) op" where
  "reconcile_continuous_publications hooks report recover_completed_manifests = (\<lambda>s.
     let metrics0 = metrics_dict (rt_metrics (c_runtime s));
         cursor0 = optional_int (jget ''catalogBatchCursor'' metrics0)
     in bind_op (select_publications hooks report cursor0 metrics0 recover_completed_manifests) (\<lambda>(publications, requested).
        case publications of
          None \<Rightarrow> return_op cursor0
        | Some ps \<Rightarrow> (\<lambda>s.
            bind_op (publish_pending_batches hooks (j_id (c_job s)) (b_dataset_id hooks (c_job s))
                (normalize_publications ps) cursor0 metrics0) (\<lambda>(cursor, metrics, failed).
            bind_op (if requested \<or> failed
              then set_runtime (\<lambda>r. r\<lparr>rt_metrics := Some (jset ''publicationRecoveryPending'' (JBool failed) metrics),
                rt_last_error := (if \<not> failed \<and> pending_retry (rt_last_error r) then None else rt_last_error r)\<rparr>)
              else return_op ()) (\<lambda>_.
            return_op cursor)) s)) s)"

text \<open>\<open>materialize_continuous_publication\<close> and \<open>materialize_continuous_batch\<close> put the two halves together.\<close>

definition materialize_continuous_publication ::
  "control_env \<Rightarrow> ('w control \<Rightarrow> 'w control) \<Rightarrow> 'w publication_hooks \<Rightarrow> dict \<Rightarrow> ('w control, bool) op" where
  "materialize_continuous_publication env rollback hooks publication =
     execute_continuous_publication env rollback hooks publication"

definition materialize_continuous_batch ::
  "control_env \<Rightarrow> ('w control \<Rightarrow> 'w control) \<Rightarrow> 'w publication_hooks \<Rightarrow> 'w batch_hooks \<Rightarrow> dict \<Rightarrow> bool
    \<Rightarrow> ('w control, int option) op" where
  "materialize_continuous_batch env rollback publication_hooks batch_hooks report recover =
     reconcile_continuous_publications
       (batch_hooks\<lparr>b_publish_one := materialize_continuous_publication env rollback publication_hooks\<rparr>) report recover"

subsection \<open>The cursor\<close>

text \<open>A batch is covered by a cursor when it is not beyond it; cursors are compared by what they cover.\<close>

definition cursor_le :: "int option \<Rightarrow> int option \<Rightarrow> bool" where
  "cursor_le a b \<longleftrightarrow> (\<forall>x. \<not> beyond a x \<longrightarrow> \<not> beyond b x)"

lemma beyond_simps [simp]: "beyond None x" "beyond (Some c) x \<longleftrightarrow> x > c"
  by (simp_all add: beyond_def)

lemma cursor_le_refl [simp]: "cursor_le a a"
  by (simp add: cursor_le_def)

lemma cursor_le_trans: "cursor_le a b \<Longrightarrow> cursor_le b c \<Longrightarrow> cursor_le a c"
  by (simp add: cursor_le_def)

lemma cursor_le_max [simp]: "cursor_le a (Some (cursor_max a b))" "\<not> beyond (Some (cursor_max a b)) b"
  by (auto simp: cursor_le_def cursor_max_def split: option.splits)

lemma cursor_le_beyond: "beyond a p \<Longrightarrow> cursor_le a (Some p)"
  by (cases a) (auto simp: cursor_le_def)

lemma observe_persisted_le:
  assumes "observe_persisted job_id cursor metrics s = (c, m)"
  shows "cursor_le cursor c"
proof (cases "lookup_key rt_job_id job_id (c_runtimes s) = None \<or> persisted_cursor (c_runtime s) = None")
  case True
  then show ?thesis using assms by (auto simp: observe_persisted_def split: if_splits)
next
  case False
  then obtain p where p: "persisted_cursor (c_runtime s) = Some p" by auto
  then have "c = (if beyond cursor p then Some p else cursor)" using assms False by (auto simp: observe_persisted_def split: if_splits)
  then show ?thesis by (simp add: cursor_le_beyond)
qed

lemma publish_covers:
  "publish_pending_batches hooks job_id dataset_id ps cursor metrics s = (Inr (c, m, failed), t) \<Longrightarrow>
   cursor_le cursor c \<and> (\<not> failed \<longrightarrow> (\<forall>p \<in> set ps. \<not> beyond c (batch_of p)))"
proof (induction ps arbitrary: cursor metrics s)
  case Nil
  then show ?case by (simp add: return_op_def)
next
  case (Cons p ps)
  show ?case
  proof (cases "beyond cursor (batch_of p)")
    case False
    then show ?thesis using Cons by (auto simp: cursor_le_def)
  next
    case True
    obtain ok s1 where s1: "b_publish_one hooks p s = (Inr ok, s1)"
      using Cons.prems True by (auto simp: op_elims)
    obtain c1 m1 where o: "observe_persisted job_id cursor metrics s1 = (c1, m1)" by (metis surj_pair)
    show ?thesis
    proof (cases ok)
      case False
      then have "c = c1" "failed" using Cons.prems True s1 o by (auto simp: Let_def op_elims)
      then show ?thesis using observe_persisted_le [OF o] by simp
    next
      case ok: True
      obtain m2 s2 where "publish_pending_batches hooks job_id dataset_id ps (Some (cursor_max c1 (batch_of p))) m2 s2
          = (Inr (c, m, failed), t)"
        using Cons.prems True s1 o ok by (auto simp: Let_def op_elims)
      from Cons.IH [OF this] have le: "cursor_le (Some (cursor_max c1 (batch_of p))) c"
        and rest: "\<not> failed \<longrightarrow> (\<forall>p \<in> set ps. \<not> beyond c (batch_of p))" by simp_all
      have "cursor_le cursor c"
        using observe_persisted_le [OF o] le cursor_le_max(1) cursor_le_trans by blast
      moreover have "\<not> beyond c (batch_of p)" using le cursor_le_max(2) unfolding cursor_le_def by blast
      ultimately show ?thesis using rest by simp
    qed
  qed
qed

lemma publish_nothing:
  "(\<And>p. p \<in> set ps \<Longrightarrow> \<not> beyond cursor (batch_of p)) \<Longrightarrow>
   publish_pending_batches hooks job_id dataset_id ps cursor metrics = return_op (cursor, metrics, False)"
  by (induction ps) simp_all

text \<open>The catalog cursor only moves forward, and a pass that does not fail leaves nothing to do: every batch given
  to it is covered by the cursor it returns, so a second pass over the same batches, with any metrics and
  in any state, publishes nothing, changes nothing and returns the same cursor. A failed pass never moves
  the cursor back either.\<close>

theorem batches_published_once:
  assumes "publish_pending_batches hooks job_id dataset_id ps cursor metrics s = (Inr (c, m, failed), t)"
  shows "cursor_le cursor c
    \<and> (\<not> failed \<longrightarrow>
        (\<forall>p \<in> set ps. \<not> beyond c (batch_of p))
        \<and> (\<forall>m' s'. publish_pending_batches hooks job_id dataset_id ps c m' s' = (Inr (c, m', False), s')))"
  using publish_covers [OF assms] publish_nothing [of ps c hooks job_id dataset_id]
  by (auto simp: return_op_def)

definition sample_batch :: "int \<Rightarrow> dict" where
  "sample_batch b = [(''batchId'', JInt b), (''sourceRanges'', JList [])]"

definition sample_batch_hooks :: "unit batch_hooks" where
  "sample_batch_hooks =
     \<lparr>b_list_manifest_batch_ids = (\<lambda>_ _. return_op (Some [])), b_read_manifest = (\<lambda>_. return_op None),
      b_publish_one = (\<lambda>p. return_op (batch_of p \<noteq> 9)), b_dataset_id = j_id,
      b_list_partition_cursors = (\<lambda>_ _. return_op None), b_merge_partition_cursors = (\<lambda>current _. current)\<rparr>"

lemma sample_batch_of [simp]: "b \<ge> 0 \<Longrightarrow> batch_of (sample_batch b) = b"
  by (simp add: batch_of_def sample_batch_def nonnegative_int_or_def optional_int_def)

theorem batches_published_once_witness:
  "\<exists>c m t. publish_pending_batches sample_batch_hooks ''job'' ''ds'' [sample_batch 3, sample_batch 5] (Some 3) []
       (sample_control (sample_runtime ''running'' ''running'' ''a1'')) = (Inr (c, m, False), t)
     \<and> \<not> beyond c 5
     \<and> publish_pending_batches sample_batch_hooks ''job'' ''ds'' [sample_batch 3, sample_batch 5] c [] t = (Inr (c, [], False), t)"
proof -
  let ?s = "sample_control (sample_runtime ''running'' ''running'' ''a1'')"
  have "\<exists>c m t. publish_pending_batches sample_batch_hooks ''job'' ''ds'' [sample_batch 3, sample_batch 5] (Some 3) [] ?s
      = (Inr (c, m, False), t)"
    by (simp add: sample_batch_hooks_def bind_op_def return_op_def Let_def set_runtime_def write_op_def split: prod.split)
  then obtain c m t where run: "publish_pending_batches sample_batch_hooks ''job'' ''ds'' [sample_batch 3, sample_batch 5]
      (Some 3) [] ?s = (Inr (c, m, False), t)" by blast
  have mem: "sample_batch 5 \<in> set [sample_batch 3, sample_batch 5]" by simp
  have "\<not> beyond c (batch_of (sample_batch 5))
      \<and> publish_pending_batches sample_batch_hooks ''job'' ''ds'' [sample_batch 3, sample_batch 5] c [] t = (Inr (c, [], False), t)"
    using batches_published_once [OF run] mem by blast
  then show ?thesis using run by auto
qed

subsection \<open>The loop against a reference\<close>

text \<open>
  The batches that are due: beyond the cursor, each batch once. \<open>publish_each\<close> is the loop one would write
  for them: publish every batch of the list, the cursor being the batch just published.
\<close>

fun due :: "int option \<Rightarrow> dict list \<Rightarrow> dict list" where
  "due cursor [] = []"
| "due cursor (p # ps) =
     (if beyond cursor (batch_of p) then p # due (Some (batch_of p)) ps else due cursor ps)"

fun publish_each ::
  "'w batch_hooks \<Rightarrow> string \<Rightarrow> string \<Rightarrow> dict list \<Rightarrow> int option \<Rightarrow> dict
    \<Rightarrow> ('w control, int option \<times> dict \<times> bool) op" where
  "publish_each hooks job_id dataset_id [] cursor metrics = return_op (cursor, metrics, False)"
| "publish_each hooks job_id dataset_id (p # ps) cursor metrics =
     bind_op (b_publish_one hooks p) (\<lambda>materialized s.
     let metrics1 = snd (observe_persisted job_id cursor metrics s) in
     if \<not> materialized then
       let metrics2 = jset ''publicationRecoveryPending'' (JBool True) metrics1
       in bind_op (set_runtime (\<lambda>r. r\<lparr>rt_metrics := Some metrics2\<rparr>)) (\<lambda>_. return_op (cursor, metrics2, True)) s
     else
       bind_op (b_list_partition_cursors hooks dataset_id (rt_topic (c_runtime s))) (\<lambda>persisted.
       let cursors = (case persisted of
             Some v \<Rightarrow> v
           | None \<Rightarrow> b_merge_partition_cursors hooks (jget ''streamPartitionCursors'' metrics1) (jget ''sourceRanges'' p));
           metrics2 = jset ''catalogBatchCursor'' (JInt (batch_of p)) (jset ''streamPartitionCursors'' cursors metrics1)
       in bind_op (set_runtime (\<lambda>r. r\<lparr>rt_metrics := Some metrics2\<rparr>)) (\<lambda>_.
          publish_each hooks job_id dataset_id ps (Some (batch_of p)) metrics2)) s)"

lemma due_facts:
  assumes "sorted (map batch_of ps)"
  shows "sorted_wrt (<) (map batch_of (due cursor ps))"
    and "batch_of ` set (due cursor ps) = {b \<in> batch_of ` set ps. beyond cursor b}"
proof -
  have sub: "set (due cursor ps) \<subseteq> {p \<in> set ps. beyond cursor (batch_of p)}" for cursor ps
  proof (induction ps arbitrary: cursor)
    case (Cons p ps)
    have "beyond cursor x" if "beyond cursor (batch_of p)" "x > batch_of p" for x using that by (cases cursor) auto
    then show ?case using Cons [of "Some (batch_of p)"] Cons [of cursor] by auto
  qed simp
  show "sorted_wrt (<) (map batch_of (due cursor ps))"
    using assms
  proof (induction ps arbitrary: cursor)
    case (Cons p ps)
    then show ?case using sub [of "Some (batch_of p)" ps] by auto
  qed simp
  show "batch_of ` set (due cursor ps) = {b \<in> batch_of ` set ps. beyond cursor b}"
    using assms
  proof (induction ps arbitrary: cursor)
    case (Cons p ps)
    show ?case
    proof (cases "beyond cursor (batch_of p)")
      case True
      have ih: "batch_of ` set (due (Some (batch_of p)) ps) = {b \<in> batch_of ` set ps. b > batch_of p}" using Cons by simp
      have "b = batch_of p \<or> b > batch_of p" if "b \<in> batch_of ` set ps" for b using Cons.prems that by auto
      moreover have "beyond cursor b" if "b > batch_of p" for b using True that by (cases cursor) auto
      ultimately show ?thesis using True ih by auto
    next
      case False
      then show ?thesis using Cons by auto
    qed
  qed simp
qed

text \<open>Code that leaves the catalog cursor of the runtime alone.\<close>

locale cursor_keeper =
  fixes m :: "('w control, 'a) op"
  assumes keeps: "persisted_cursor (c_runtime (snd (m s))) = persisted_cursor (c_runtime s)"
begin

lemma run: "m s = (r, t) \<Longrightarrow> persisted_cursor (c_runtime t) = persisted_cursor (c_runtime s)"
  using keeps [of s] by simp

end

definition single_publisher :: "'w batch_hooks \<Rightarrow> bool" where
  "single_publisher hooks \<longleftrightarrow>
     (\<forall>p. cursor_keeper (b_publish_one hooks p)) \<and> (\<forall>d x. cursor_keeper (b_list_partition_cursors hooks d x))"

lemma observe_own_cursor:
  assumes "persisted_cursor (c_runtime s) = cursor \<or> persisted_cursor (c_runtime s) = None"
  shows "observe_persisted job_id cursor metrics s = (cursor, snd (observe_persisted job_id cursor metrics s))"
  using assms by (auto simp: observe_persisted_def split: option.splits)

lemma persisted_cursor_set [simp]:
  "persisted_cursor (r\<lparr>rt_metrics := Some (jset ''catalogBatchCursor'' (JInt b) d)\<rparr>) = Some b"
  by (simp add: persisted_cursor_def metrics_dict_def optional_int_def)

lemma cursor_max_beyond: "beyond cursor b \<Longrightarrow> cursor_max cursor b = b"
  by (auto simp: cursor_max_def split: option.splits)

text \<open>C24. The publication loop is the reference loop over the batches that are due: with one publisher at work, so that
  nobody else moves the cursor, publishing the batches of a report in their order is to publish exactly
  the batches beyond the cursor, each once, in increasing order, stopping at the first that fails with
  the cursor on the last one published.\<close>

theorem publish_pending_is_publish_each:
  assumes "single_publisher hooks" and "sorted (map batch_of ps)"
    and "persisted_cursor (c_runtime s) = cursor \<or> persisted_cursor (c_runtime s) = None"
  shows "publish_pending_batches hooks job_id dataset_id ps cursor metrics s =
      publish_each hooks job_id dataset_id (due cursor ps) cursor metrics s
    \<and> sorted_wrt (<) (map batch_of (due cursor ps))
    \<and> batch_of ` set (due cursor ps) = {b \<in> batch_of ` set ps. beyond cursor b}"
proof -
  have "publish_pending_batches hooks job_id dataset_id ps cursor metrics s =
      publish_each hooks job_id dataset_id (due cursor ps) cursor metrics s"
    using assms(3)
  proof (induction ps arbitrary: cursor metrics s)
    case (Cons p ps)
    show ?case
    proof (cases "beyond cursor (batch_of p)")
      case False
      then show ?thesis using Cons by simp
    next
      case True
      obtain r t where t: "b_publish_one hooks p s = (r, t)" by (meson surj_pair)
      have "cursor_keeper (b_publish_one hooks p)" using assms(1) by (simp add: single_publisher_def)
      from cursor_keeper.run [OF this t] Cons.prems
      have "persisted_cursor (c_runtime t) = cursor \<or> persisted_cursor (c_runtime t) = None" by simp
      then obtain m1 where obs: "observe_persisted job_id cursor metrics t = (cursor, m1)"
        using observe_own_cursor by blast
      obtain r2 u where u: "b_list_partition_cursors hooks dataset_id (rt_topic (c_runtime t)) t = (r2, u)" by (meson surj_pair)
      have rest: "publish_pending_batches hooks job_id dataset_id ps (Some (batch_of p))
            (jset ''catalogBatchCursor'' (JInt (batch_of p)) d)
            (u\<lparr>c_runtime := (c_runtime u)\<lparr>rt_metrics := Some (jset ''catalogBatchCursor'' (JInt (batch_of p)) d)\<rparr>\<rparr>) =
          publish_each hooks job_id dataset_id (due (Some (batch_of p)) ps) (Some (batch_of p))
            (jset ''catalogBatchCursor'' (JInt (batch_of p)) d)
            (u\<lparr>c_runtime := (c_runtime u)\<lparr>rt_metrics := Some (jset ''catalogBatchCursor'' (JInt (batch_of p)) d)\<rparr>\<rparr>)" for d
        by (rule Cons.IH) simp
      show ?thesis using True t obs u rest
        by (cases r; cases r2)
          (simp_all add: bind_op_def Let_def cursor_max_beyond set_runtime_def write_op_def return_op_def cong: option.case_cong)
    qed
  qed simp
  then show ?thesis using due_facts [OF assms(2)] by simp
qed

subsection \<open>The publication of one batch is a single publisher\<close>

lemma keeper_bind: "cursor_keeper m \<Longrightarrow> (\<And>a. cursor_keeper (f a)) \<Longrightarrow> cursor_keeper (bind_op m f)"
  by (auto simp: cursor_keeper_def bind_op_def split: prod.splits sum.splits) (metis snd_conv)+

lemma keeper_catch: "cursor_keeper m \<Longrightarrow> (\<And>e. cursor_keeper (h e)) \<Longrightarrow> cursor_keeper (catch_op m h)"
  by (auto simp: cursor_keeper_def catch_op_def split: prod.splits sum.splits) (metis snd_conv)+

lemma keeper_return: "cursor_keeper (return_op a)"
  by (simp add: cursor_keeper_def return_op_def)

lemma keeper_metrics:
  assumes "\<And>m d. q m = Inr d \<Longrightarrow> jget ''catalogBatchCursor'' d = jget ''catalogBatchCursor'' (metrics_dict m)"
  shows "cursor_keeper (put_metrics q)"
proof
  fix s :: "'w control"
  show "persisted_cursor (c_runtime (snd (put_metrics q s))) = persisted_cursor (c_runtime s)"
    using assms [of "rt_metrics (c_runtime s)"]
    by (cases "q (rt_metrics (c_runtime s))") (simp_all add: put_metrics_def persisted_cursor_def metrics_dict_def)
qed

interpretation stage_keeper: cursor_keeper "put_metrics (record_stage identity st status code msg)" for identity st status code msg
proof (rule keeper_metrics)
  fix m d assume "record_stage identity st status code msg m = Inr d"
  then show "jget ''catalogBatchCursor'' d = jget ''catalogBatchCursor'' (metrics_dict m)"
    by (auto simp: record_stage_def Let_def bind_res_Inr_iff)
qed

interpretation failure_keeper: cursor_keeper "put_error env er" for env er
  unfolding put_error_def
proof (rule keeper_metrics)
  fix m d assume "record_runtime_error (ce_context env) m er = Inr d"
  then show "jget ''catalogBatchCursor'' d = jget ''catalogBatchCursor'' (metrics_dict m)"
    by (cases "stage_res (er_stage er)") (auto simp: record_runtime_error_def Let_def RUNTIME_CONTRACT_KEY_def)
qed

interpretation note_keeper: cursor_keeper "set_runtime (\<lambda>r. r\<lparr>rt_last_error := msg\<rparr>)" for msg
  by unfold_locales (simp add: set_runtime_def write_op_def persisted_cursor_def)

interpretation cleared_keeper: cursor_keeper clear_publication_error
proof
  fix s :: "'w control"
  show "persisted_cursor (c_runtime (snd (clear_publication_error s))) = persisted_cursor (c_runtime s)"
    by (cases "rt_metrics (c_runtime s)")
      (simp_all add: clear_publication_error_def bind_op_def set_runtime_def write_op_def put_metrics_def persisted_cursor_def
        clear_runtime_error_def metrics_dict_def RUNTIME_CONTRACT_KEY_def)
qed

definition publication_hooks_keep_cursor :: "('w control \<Rightarrow> 'w control) \<Rightarrow> 'w publication_hooks \<Rightarrow> bool" where
  "publication_hooks_keep_cursor rollback hooks \<longleftrightarrow>
     (\<forall>s. persisted_cursor (c_runtime (rollback s)) = persisted_cursor (c_runtime s))
     \<and> (\<forall>p i. cursor_keeper (p_prepare hooks p i)) \<and> (\<forall>p i x. cursor_keeper (p_verify_output hooks p i x))
     \<and> (\<forall>p x. cursor_keeper (p_verify_manifest hooks p x))
     \<and> (\<forall>p i x y. cursor_keeper (p_register_catalog hooks p i x y))
     \<and> (\<forall>p i x y z. cursor_keeper (p_publish_dashboard hooks p i x y z))
     \<and> (\<forall>y. cursor_keeper (p_update_job_stats hooks y))"

lemma keeper_fail_stage:
  fixes rollback :: "'w control \<Rightarrow> 'w control"
  assumes "\<And>s. persisted_cursor (c_runtime (rollback s)) = persisted_cursor (c_runtime s)"
  shows "cursor_keeper (fail_stage env rollback hooks identity st code exc)"
proof -
  have "cursor_keeper (rollback_preserving_workflow rollback)"
  proof
    fix s :: "'w control"
    have "persisted_cursor (r\<lparr>rt_metrics := Some (jset ''publicationWorkflow'' v (metrics_dict (rt_metrics r)))\<rparr>) = persisted_cursor r"
      for r v by (simp add: persisted_cursor_def metrics_dict_def)
    then show "persisted_cursor (c_runtime (snd (rollback_preserving_workflow rollback s))) = persisted_cursor (c_runtime s)"
      using assms [of s]
      by (simp add: rollback_preserving_workflow_def merge_metrics_def put_metrics_def jmerge_def split: option.split)
  qed
  then show ?thesis unfolding fail_stage_def record_stage_failure_def
    by (intro keeper_bind stage_keeper.cursor_keeper_axioms failure_keeper.cursor_keeper_axioms note_keeper.cursor_keeper_axioms)
qed

lemma publication_keeps_cursor:
  fixes hooks :: "'w publication_hooks"
  assumes "publication_hooks_keep_cursor rollback hooks"
  shows "cursor_keeper (materialize_continuous_publication env rollback hooks publication)"
proof -
  have fail: "cursor_keeper (fail_stage env rollback hooks identity st code exc)" for identity st code exc
    using assms by (intro keeper_fail_stage) (simp add: publication_hooks_keep_cursor_def)
  have stage: "cursor_keeper (put_stage identity st status)" for identity st status
    unfolding put_stage_def by (rule stage_keeper.cursor_keeper_axioms)
  have hook: "cursor_keeper (p_prepare hooks p i)" "cursor_keeper (p_verify_output hooks p i x)"
    "cursor_keeper (p_verify_manifest hooks p x)" "cursor_keeper (p_register_catalog hooks p i x y)"
    "cursor_keeper (p_publish_dashboard hooks p i x y z)" "cursor_keeper (p_update_job_stats hooks y)" for p i x y z
    using assms by (simp_all add: publication_hooks_keep_cursor_def)
  have prepare: "cursor_keeper (prepare_publication_context env rollback hooks publication)"
  proof
    fix s :: "'w control"
    let ?m = "\<lambda>identity. catch_op
           (bind_op (p_prepare hooks publication identity) (\<lambda>inputs.
            return_op (Some (identity, inputs, nonnegative_int_or (jget ''storedCount'' publication) 0))))
           (\<lambda>exc. bind_op (fail_stage env rollback hooks identity PubOutput ''publication_input_invalid'' exc) (\<lambda>_.
            return_op None))"
    have a: "cursor_keeper (?m identity)" for identity by (intro keeper_catch keeper_bind hook fail keeper_return)
    have b: "cursor_keeper (bind_op (record_unidentified_failure env publication msg :: ('w control, unit) op)
        (\<lambda>_. return_op (None :: (PublicationIdentity \<times> PublicationInputEvidence \<times> int) option)))" for msg
      unfolding record_unidentified_failure_def
      by (intro keeper_bind failure_keeper.cursor_keeper_axioms note_keeper.cursor_keeper_axioms keeper_return)
    show "persisted_cursor (c_runtime (snd (prepare_publication_context env rollback hooks publication s))) =
        persisted_cursor (c_runtime s)"
      using assms cursor_keeper.keeps [OF a] cursor_keeper.keeps [OF b]
      by (simp add: prepare_publication_context_def publication_hooks_keep_cursor_def split: sum.split)
  qed
  have stages: "cursor_keeper (verify_output_stage env rollback hooks publication identity inputs n)"
    "cursor_keeper (verify_manifest_stage env rollback hooks publication identity inputs)"
    "cursor_keeper (register_catalog_stage env rollback hooks publication identity inputs out)"
    "cursor_keeper (publish_dashboard_stage env rollback hooks publication identity inputs out catalog)"
    for identity inputs n out catalog
    unfolding verify_output_stage_def verify_manifest_stage_def register_catalog_stage_def publish_dashboard_stage_def
    by (auto intro!: keeper_bind keeper_catch stage hook fail keeper_return split: option.split if_split)
  show ?thesis unfolding materialize_continuous_publication_def execute_continuous_publication_def
    by (auto intro!: keeper_bind prepare stages hook keeper_return cleared_keeper.cursor_keeper_axioms split: option.split if_split)
qed

lemma materializing_single_publisher:
  assumes "publication_hooks_keep_cursor rollback hooks" and "\<And>d x. cursor_keeper (b_list_partition_cursors batch d x)"
  shows "single_publisher (batch\<lparr>b_publish_one := materialize_continuous_publication env rollback hooks\<rparr>)"
  using assms(2) publication_keeps_cursor [OF assms(1)] by (simp add: single_publisher_def)

lemma normalized_sorted: "sorted (map batch_of (normalize_publications ps))"
  by (simp add: normalize_publications_def)

lemma sample_single_publisher: "single_publisher sample_batch_hooks"
  by (simp add: single_publisher_def sample_batch_hooks_def keeper_return)

theorem publish_pending_is_publish_each_witness:
  "publish_pending_batches sample_batch_hooks ''job'' ''ds'' [sample_batch 3, sample_batch 5, sample_batch 5, sample_batch 9] (Some 3) []
      (sample_control (sample_runtime ''running'' ''running'' ''a1'')) =
    publish_each sample_batch_hooks ''job'' ''ds'' [sample_batch 5, sample_batch 9] (Some 3) []
      (sample_control (sample_runtime ''running'' ''running'' ''a1''))"
proof -
  let ?s = "sample_control (sample_runtime ''running'' ''running'' ''a1'')"
  let ?ps = "[sample_batch 3, sample_batch 5, sample_batch 5, sample_batch 9]"
  have "persisted_cursor (c_runtime ?s) = None"
    by (simp add: sample_control_def sample_runtime_def persisted_cursor_def metrics_dict_def optional_int_def)
  then have "persisted_cursor (c_runtime ?s) = Some 3 \<or> persisted_cursor (c_runtime ?s) = None" ..
  moreover have "sorted (map batch_of ?ps)" by simp
  moreover have "due (Some 3) ?ps = [sample_batch 5, sample_batch 9]" by simp
  ultimately show ?thesis using publish_pending_is_publish_each [OF sample_single_publisher, of ?ps ?s "Some 3" "''job''" "''ds''" "[]"]
    by simp
qed

end
