(* ===== verification/Governance.thy ===== *)
theory Governance
  imports Catalog Event_Contract Unicode Py_Datetime
begin

section \<open>Access control: tables, governance and the audit log\<close>

text \<open>
  The tables of \<open>models/identity.py\<close> that access control reads and writes, \<open>repositories/governance_repository.py\<close>
  (blocked principals and locked resources), \<open>domain/audit.py\<close> with the writing half of
  \<open>repositories/audit_repository.py\<close>, and \<open>services/governance_enforcement.py\<close>. Generated identifiers are
  arguments. A query with \<open>LIMIT 1\<close> and no order returns some matching row; here it is the first one.
  The number in the details of an error is given by its digits.
\<close>

subsection \<open>Data\<close>

record ActorContext =
  act_name :: string
  act_role :: string
  act_groups :: "string list"
  act_id :: "string option"
  act_email :: "string option"
  act_title :: "string option"

definition actor_is_admin :: "ActorContext \<Rightarrow> bool" where
  "actor_is_admin a \<longleftrightarrow> casefold (act_role a) = ''admin''"

definition some_text :: "string option \<Rightarrow> string list" where
  "some_text v = (case v of None \<Rightarrow> [] | Some s \<Rightarrow> if s = [] then [] else [s])"

definition actor_principals :: "ActorContext \<Rightarrow> (string \<times> string) list" where
  "actor_principals a =
     filter (\<lambda>(kind, v). v \<noteq> [])
       (map (Pair ''user'') (some_text (Some (act_name a)) @ some_text (act_id a) @ some_text (act_email a))
        @ [(''role'', act_role a)] @ map (Pair ''group'') (act_groups a))"

record auth_user =
  us_id :: string
  us_email :: string
  us_display_name :: string
  us_role :: string
  us_groups :: "string list"
  us_password_hash :: string
  us_password_salt :: string
  us_status :: string
  us_title :: "string option"
  us_last_active_at :: "timestamp option"

record auth_session =
  se_token :: string
  se_user_id :: string
  se_expires_at :: timestamp
  se_user_snapshot :: dict

record permission_grant_row =
  gr_id :: string
  gr_resource_type :: string
  gr_resource_id :: string
  gr_principal_type :: string
  gr_principal_id :: string
  gr_actions :: "string list"
  gr_source :: string
  gr_created_by :: "string option"
  gr_created_at :: timestamp

record principal_control =
  pc_id :: string
  pc_principal_type :: string
  pc_principal_id :: string
  pc_status :: string
  pc_reason :: "string option"
  pc_updated_by :: "string option"

record resource_lock =
  rl_id :: string
  rl_resource_type :: string
  rl_resource_id :: string
  rl_locked :: bool
  rl_reason :: "string option"
  rl_updated_by :: "string option"

datatype AuditTargetType =
    AuditEtlJob | AuditDataset | AuditDashboard | AuditQueryRun | AuditAiModule | AuditAdminModule
  | AuditUi | AuditAuth | AuditUser | AuditGroup | AuditUnknown

record audit_event =
  ae_id :: string
  ae_action :: string
  ae_actor_id :: string
  ae_actor_name :: string
  ae_actor_role :: string
  ae_actor_groups :: "string list"
  ae_api_path :: string
  ae_request_id :: string
  ae_result :: string
  ae_status_code :: "int option"
  ae_target_id :: string
  ae_target_name :: "string option"
  ae_target_type :: string
  ae_http_method :: "string option"
  ae_metadata :: dict

record access_db =
  ad_users :: "auth_user list"
  ad_sessions :: "auth_session list"
  ad_grants :: "permission_grant_row list"
  ad_controls :: "principal_control list"
  ad_locks :: "resource_lock list"
  ad_audits :: "audit_event list"

subsection \<open>Validation\<close>

definition validation_error :: "string \<Rightarrow> py_error" where
  "validation_error msg = ApiError ''VALIDATION_ERROR'' msg 400 []"

definition governance_principal_type :: "string \<Rightarrow> string res" where
  "governance_principal_type v =
     (if py_strip v \<in> {''user'', ''group''} then Inr (py_strip v)
      else Inl (validation_error (''Unsupported principalType: '' @ v)))"

definition validate_principal_status :: "string \<Rightarrow> string res" where
  "validate_principal_status v =
     (if py_strip v \<in> {''active'', ''blocked''} then Inr (py_strip v)
      else Inl (validation_error (''Unsupported principal status: '' @ v)))"

definition governance_resource_type :: "string \<Rightarrow> string res" where
  "governance_resource_type v =
     (if py_strip v \<in> {''dataset'', ''etl_job'', ''dashboard''} then Inr (py_strip v)
      else Inl (validation_error (''Unsupported resourceType: '' @ v)))"

definition validate_required :: "string \<Rightarrow> string \<Rightarrow> string res" where
  "validate_required v label =
     (if py_strip v \<noteq> [] then Inr (py_strip v) else Inl (validation_error (label @ '' is required'')))"

definition normalize_optional :: "string option \<Rightarrow> string option" where
  "normalize_optional v = (case v of None \<Rightarrow> None | Some s \<Rightarrow> if py_strip s = [] then None else Some (py_strip s))"

subsection \<open>Blocked principals and locked resources\<close>

definition control_key :: "principal_control \<Rightarrow> string \<times> string" where
  "control_key r = (pc_principal_type r, pc_principal_id r)"

definition lock_key :: "resource_lock \<Rightarrow> string \<times> string" where
  "lock_key r = (rl_resource_type r, rl_resource_id r)"

definition control_unique :: "principal_control list \<Rightarrow> principal_control \<Rightarrow> bool" where
  "control_unique rows r \<longleftrightarrow> pc_id r \<notin> pc_id ` set rows \<and> control_key r \<notin> control_key ` set rows"

definition lock_unique :: "resource_lock list \<Rightarrow> resource_lock \<Rightarrow> bool" where
  "lock_unique rows r \<longleftrightarrow> rl_id r \<notin> rl_id ` set rows \<and> lock_key r \<notin> lock_key ` set rows"

definition write_control :: "string \<Rightarrow> string option \<Rightarrow> string option \<Rightarrow> principal_control \<Rightarrow> principal_control" where
  "write_control status reason updated_by r =
     r\<lparr>pc_status := status, pc_reason := normalize_optional reason, pc_updated_by := updated_by\<rparr>"

definition write_lock :: "bool \<Rightarrow> string option \<Rightarrow> string option \<Rightarrow> resource_lock \<Rightarrow> resource_lock" where
  "write_lock locked reason updated_by r =
     r\<lparr>rl_locked := locked, rl_reason := normalize_optional reason, rl_updated_by := updated_by\<rparr>"

definition insert_control :: "principal_control \<Rightarrow> (access_db, unit) op" where
  "insert_control row = (\<lambda>s.
     case sql_insert (\<lambda>_. True) control_unique row (ad_controls s) of
       Inl e \<Rightarrow> (Inl e, s) | Inr rows \<Rightarrow> (Inr (), s\<lparr>ad_controls := rows\<rparr>))"

lemma insert_control_iff [op_elims]:
  "insert_control row s = (Inr u, t) \<longleftrightarrow> control_unique (ad_controls s) row \<and> t = s\<lparr>ad_controls := ad_controls s @ [row]\<rparr>"
  by (auto simp: insert_control_def sql_insert_def)

definition insert_lock :: "resource_lock \<Rightarrow> (access_db, unit) op" where
  "insert_lock row = (\<lambda>s.
     case sql_insert (\<lambda>_. True) lock_unique row (ad_locks s) of
       Inl e \<Rightarrow> (Inl e, s) | Inr rows \<Rightarrow> (Inr (), s\<lparr>ad_locks := rows\<rparr>))"

lemma insert_lock_iff [op_elims]:
  "insert_lock row s = (Inr u, t) \<longleftrightarrow> lock_unique (ad_locks s) row \<and> t = s\<lparr>ad_locks := ad_locks s @ [row]\<rparr>"
  by (auto simp: insert_lock_def sql_insert_def)

definition set_principal_control ::
  "string \<Rightarrow> string \<Rightarrow> string \<Rightarrow> string option \<Rightarrow> string \<Rightarrow> string option \<Rightarrow> (access_db, principal_control) op" where
  "set_principal_control uuid principal_type principal_id reason status_value updated_by =
     bind_op (lift_res (governance_principal_type principal_type)) (\<lambda>kind.
     bind_op (lift_res (validate_required principal_id ''principalId'')) (\<lambda>pid.
     bind_op (lift_res (validate_principal_status status_value)) (\<lambda>status.
     bind_op (read_op (\<lambda>s. lookup_key control_key (kind, pid) (ad_controls s))) (\<lambda>found.
       case found of
         None \<Rightarrow>
           (let row = write_control status reason updated_by
                \<lparr>pc_id = ''principal_control_'' @ uuid, pc_principal_type = kind, pc_principal_id = pid,
                 pc_status = status, pc_reason = None, pc_updated_by = None\<rparr>
            in bind_op (insert_control row) (\<lambda>_. return_op row))
       | Some row \<Rightarrow>
           bind_op (write_op (\<lambda>s. s\<lparr>ad_controls := update_where (\<lambda>r. control_key r = (kind, pid))
             (write_control status reason updated_by) (ad_controls s)\<rparr>)) (\<lambda>_.
           return_op (write_control status reason updated_by row))))))"

definition set_resource_lock ::
  "string \<Rightarrow> bool \<Rightarrow> string option \<Rightarrow> string \<Rightarrow> string \<Rightarrow> string option \<Rightarrow> (access_db, resource_lock) op" where
  "set_resource_lock uuid locked reason resource_id resource_type updated_by =
     bind_op (lift_res (governance_resource_type resource_type)) (\<lambda>kind.
     bind_op (lift_res (validate_required resource_id ''resourceId'')) (\<lambda>rid.
     bind_op (read_op (\<lambda>s. lookup_key lock_key (kind, rid) (ad_locks s))) (\<lambda>found.
       case found of
         None \<Rightarrow>
           (let row = write_lock locked reason updated_by
                \<lparr>rl_id = ''resource_lock_'' @ uuid, rl_resource_type = kind, rl_resource_id = rid,
                 rl_locked = locked, rl_reason = None, rl_updated_by = None\<rparr>
            in bind_op (insert_lock row) (\<lambda>_. return_op row))
       | Some row \<Rightarrow>
           bind_op (write_op (\<lambda>s. s\<lparr>ad_locks := update_where (\<lambda>r. lock_key r = (kind, rid))
             (write_lock locked reason updated_by) (ad_locks s)\<rparr>)) (\<lambda>_.
           return_op (write_lock locked reason updated_by row)))))"

text \<open>The fields of an actor, or of a user, that a block may name.\<close>

record principal_subject =
  su_id :: "string option"
  su_email :: "string option"
  su_name :: "string option"
  su_groups :: "string list"

definition actor_subject :: "ActorContext \<Rightarrow> principal_subject" where
  "actor_subject a =
     \<lparr>su_id = act_id a, su_email = act_email a, su_name = Some (act_name a), su_groups = act_groups a\<rparr>"

definition blocked_candidates :: "principal_subject \<Rightarrow> (string \<times> string) list" where
  "blocked_candidates u =
     map (Pair ''user'') (some_text (su_id u) @ some_text (su_email u) @ some_text (su_name u))
     @ map (Pair ''group'') (filter (\<lambda>g. g \<noteq> []) (su_groups u))"

definition blocked_principal_for_actor :: "access_db \<Rightarrow> principal_subject \<Rightarrow> principal_control option" where
  "blocked_principal_for_actor s u =
     (if blocked_candidates u = [] then None
      else find (\<lambda>r. control_key r \<in> set (blocked_candidates u) \<and> pc_status r = ''blocked'') (ad_controls s))"

definition locked_resource_ids :: "string list \<Rightarrow> string \<Rightarrow> (access_db, string set) op" where
  "locked_resource_ids resource_ids resource_type =
     bind_op (lift_res (map_res (\<lambda>rid. validate_required rid ''resourceId'') resource_ids)) (\<lambda>ids.
     if remdups ids = [] then return_op {}
     else bind_op (lift_res (governance_resource_type resource_type)) (\<lambda>kind.
       read_op (\<lambda>s. set (map rl_resource_id
         (filter (\<lambda>r. rl_resource_type r = kind \<and> rl_resource_id r \<in> set ids \<and> rl_locked r) (ad_locks s))))))"

definition locked_actions :: "string list" where
  "locked_actions = [''query'', ''run'', ''manage'', ''delete'', ''share'']"

definition resource_lock_for_action :: "string \<Rightarrow> string \<Rightarrow> string \<Rightarrow> (access_db, resource_lock option) op" where
  "resource_lock_for_action action resource_id resource_type =
     (if action \<notin> set locked_actions then return_op None
      else bind_op (lift_res (governance_resource_type resource_type)) (\<lambda>kind.
        bind_op (lift_res (validate_required resource_id ''resourceId'')) (\<lambda>rid.
        read_op (\<lambda>s. find (\<lambda>r. lock_key r = (kind, rid) \<and> rl_locked r) (ad_locks s)))))"

definition require_actor_not_blocked :: "principal_subject \<Rightarrow> (access_db, unit) op" where
  "require_actor_not_blocked u =
     bind_op (read_op (\<lambda>s. blocked_principal_for_actor s u)) (\<lambda>found.
       case found of
         None \<Rightarrow> return_op ()
       | Some r \<Rightarrow> raise_op (ApiError ''FORBIDDEN'' (utf8 [0xC774, 0x20, 0xB9AC, 0xC18C, 0xC2A4, 0xC5D0, 0x20, 0xC811, 0xADFC, 0xD560, 0x20, 0xAD8C, 0xD55C, 0xC774, 0x20, 0xC5C6, 0xC2B5, 0xB2C8, 0xB2E4] @ ''.'') 403
           [(''principalType'', Some (pc_principal_type r)), (''principalId'', Some (pc_principal_id r))]))"

definition require_resource_not_locked :: "string \<Rightarrow> string \<Rightarrow> string \<Rightarrow> (access_db, unit) op" where
  "require_resource_not_locked action resource_id resource_type =
     bind_op (resource_lock_for_action action resource_id resource_type) (\<lambda>found.
       case found of
         None \<Rightarrow> return_op ()
       | Some r \<Rightarrow> raise_op (ApiError ''FORBIDDEN'' (utf8 [0xD604, 0xC7AC, 0x20, 0xC774, 0x20, 0xB9AC, 0xC18C, 0xC2A4, 0xB294, 0x20, 0xAD00, 0xB9AC, 0x20, 0xC815, 0xCC45, 0xC5D0, 0x20, 0xB530, 0xB77C, 0x20, 0xBCC0, 0xACBD, 0xD560, 0x20, 0xC218, 0x20, 0xC5C6, 0xC2B5, 0xB2C8, 0xB2E4] @ ''.'') 403
           [(''resourceType'', Some (rl_resource_type r)), (''resourceId'', Some (rl_resource_id r))]))"

subsection \<open>The audit log\<close>

primrec audit_target_value :: "AuditTargetType \<Rightarrow> string" where
  "audit_target_value AuditEtlJob = ''etl_job''"
| "audit_target_value AuditDataset = ''dataset''"
| "audit_target_value AuditDashboard = ''dashboard''"
| "audit_target_value AuditQueryRun = ''query_run''"
| "audit_target_value AuditAiModule = ''ai_module''"
| "audit_target_value AuditAdminModule = ''admin_module''"
| "audit_target_value AuditUi = ''ui''"
| "audit_target_value AuditAuth = ''auth''"
| "audit_target_value AuditUser = ''user''"
| "audit_target_value AuditGroup = ''group''"
| "audit_target_value AuditUnknown = ''unknown''"

definition audit_targets :: "AuditTargetType list" where
  "audit_targets = [AuditEtlJob, AuditDataset, AuditDashboard, AuditQueryRun, AuditAiModule, AuditAdminModule,
     AuditUi, AuditAuth, AuditUser, AuditGroup, AuditUnknown]"

text \<open>\<open>AuditTargetType(value)\<close>\<close>

definition audit_target_of :: "string \<Rightarrow> AuditTargetType res" where
  "audit_target_of v =
     (case find (\<lambda>t. audit_target_value t = v) audit_targets of
        None \<Rightarrow> Inl (ValueError (py_repr_str v @ '' is not a valid AuditTargetType'')) | Some t \<Rightarrow> Inr t)"

definition normalize_audit_target_type :: "string \<Rightarrow> AuditTargetType" where
  "normalize_audit_target_type v = (case audit_target_of (py_strip v) of Inl _ \<Rightarrow> AuditUnknown | Inr t \<Rightarrow> t)"

definition require_writable_audit_target_type :: "AuditTargetType \<Rightarrow> AuditTargetType res" where
  "require_writable_audit_target_type t =
     (if t = AuditUnknown then Inl (ValueError ''unknown is reserved for legacy audit read compatibility'') else Inr t)"

definition normalize_result :: "string \<Rightarrow> string" where
  "normalize_result v =
     (let n = py_lower (py_strip v) in if n \<in> {''success'', ''failed'', ''forbidden''} then n else ''failed'')"

record audit_entry =
  en_action :: string
  en_actor :: ActorContext
  en_api_path :: string
  en_target_id :: string
  en_target_type :: AuditTargetType
  en_result :: string
  en_http_method :: "string option"
  en_metadata :: dict
  en_request_id :: "string option"
  en_status_code :: "int option"
  en_target_name :: "string option"

text \<open>The identifiers generated for an audit row.\<close>

record audit_ids =
  ai_audit :: string
  ai_request :: string

definition first_text :: "string option list \<Rightarrow> string \<Rightarrow> string" where
  "first_text vs d = (case concat (map some_text vs) of [] \<Rightarrow> d | v # _ \<Rightarrow> v)"

definition audit_event_row :: "audit_ids \<Rightarrow> audit_entry \<Rightarrow> AuditTargetType \<Rightarrow> audit_event" where
  "audit_event_row ids e target =
     \<lparr>ae_id = ''audit_'' @ ai_audit ids,
      ae_action = (if py_strip (en_action e) = [] then ''audit.event'' else py_strip (en_action e)),
      ae_actor_id = first_text [act_id (en_actor e), act_email (en_actor e)] (act_name (en_actor e)),
      ae_actor_name = act_name (en_actor e), ae_actor_role = act_role (en_actor e),
      ae_actor_groups = act_groups (en_actor e), ae_api_path = en_api_path e,
      ae_request_id = first_text [en_request_id e] (''req_'' @ ai_request ids),
      ae_result = normalize_result (en_result e), ae_status_code = en_status_code e,
      ae_target_id = en_target_id e, ae_target_name = en_target_name e, ae_target_type = audit_target_value target,
      ae_http_method = en_http_method e, ae_metadata = en_metadata e\<rparr>"

definition add_audit_event :: "audit_ids \<Rightarrow> audit_entry \<Rightarrow> (access_db, audit_event) op" where
  "add_audit_event ids e =
     bind_op (lift_res (require_writable_audit_target_type (en_target_type e))) (\<lambda>target.
     bind_op (\<lambda>s. case sql_insert (\<lambda>_. True) (\<lambda>rows r. ae_id r \<notin> ae_id ` set rows) (audit_event_row ids e target) (ad_audits s) of
         Inl err \<Rightarrow> (Inl err, s) | Inr rows \<Rightarrow> (Inr (), s\<lparr>ad_audits := rows\<rparr>)) (\<lambda>_.
     return_op (audit_event_row ids e target)))"

definition record_audit_event :: "audit_ids \<Rightarrow> audit_entry \<Rightarrow> (access_db, audit_event) op" where
  "record_audit_event ids e = add_audit_event ids e"

text \<open>The callers have no pending changes of their own, so the rollback undoes the failed insert only.\<close>

definition safe_record_audit_event :: "audit_ids \<Rightarrow> audit_entry \<Rightarrow> (access_db, audit_event option) op" where
  "safe_record_audit_event ids e = (\<lambda>s.
     case transaction (record_audit_event ids e) s of
       (Inl _, t) \<Rightarrow> (Inr None, t) | (Inr row, t) \<Rightarrow> (Inr (Some row), t))"

subsection \<open>Enforcement\<close>

definition details_dict :: "(string \<times> string option) list \<Rightarrow> dict" where
  "details_dict d = map (\<lambda>(k, v). (k, of_opt_str v)) d"

record access_request =
  rq_action :: string
  rq_api_path :: string
  rq_http_method :: string
  rq_metadata :: dict
  rq_resource_id :: string
  rq_resource_name :: "string option"
  rq_resource_type :: string

definition governance_denial :: "ActorContext \<Rightarrow> access_request \<Rightarrow> nat \<Rightarrow> dict \<Rightarrow> AuditTargetType \<Rightarrow> audit_entry" where
  "governance_denial actor rq status details target =
     \<lparr>en_action = rq_resource_type rq @ ''.'' @ rq_action rq @ ''.governance_forbidden'', en_actor = actor,
      en_api_path = rq_api_path rq, en_target_id = rq_resource_id rq, en_target_type = target,
      en_result = ''forbidden'', en_http_method = Some (rq_http_method rq),
      en_metadata = jmerge (rq_metadata rq) details, en_request_id = None,
      en_status_code = Some (if status = 0 then 403 else int status), en_target_name = rq_resource_name rq\<rparr>"

definition require_governed_access :: "audit_ids \<Rightarrow> ActorContext \<Rightarrow> access_request \<Rightarrow> (access_db, unit) op" where
  "require_governed_access ids actor rq =
     catch_op
       (bind_op (require_actor_not_blocked (actor_subject actor)) (\<lambda>_.
        require_resource_not_locked (rq_action rq) (rq_resource_id rq) (rq_resource_type rq)))
       (\<lambda>exc. case exc of
          ApiError code msg status details \<Rightarrow>
            bind_op (lift_res (audit_target_of (rq_resource_type rq))) (\<lambda>target.
            bind_op (safe_record_audit_event ids (governance_denial actor rq status (details_dict details) target)) (\<lambda>_.
            raise_op exc))
        | _ \<Rightarrow> raise_op exc)"

end
