(* ===== verification/Auth_Service.thy ===== *)
theory Auth_Service
  imports Governance
begin

unbundle bit_operations_syntax

section \<open>Accounts, sessions and logins\<close>

text \<open>
  \<open>services/auth_service.py\<close>. The database is an \<open>access_db\<close>; the failed logins are kept in the memory of the process,
  so a rollback does not restore them. Random values, generated identifiers and the readings of the clock are
  arguments. PBKDF2 is built on the SHA-256 of the development. \<open>casefold\<close> and \<open>isdigit\<close> treat ASCII and the code
  points whose folding is ASCII.
\<close>

subsection \<open>PBKDF2 with HMAC-SHA-256\<close>

definition word_bytes :: "u32 \<Rightarrow> nat list" where
  "word_bytes w = map (\<lambda>i. (unat w div 256 ^ (3 - i)) mod 256) [0..<4]"

definition sha256_digest :: "nat list \<Rightarrow> nat list" where
  "sha256_digest msg =
     (let ws = be_words (sha_pad msg); h = sha_blocks (length ws div 16) sha_init ws
      in concat (map word_bytes [sh_a h, sh_b h, sh_c h, sh_d h, sh_e h, sh_f h, sh_g h, sh_h h]))"

definition hmac_sha256 :: "nat list \<Rightarrow> nat list \<Rightarrow> nat list" where
  "hmac_sha256 key msg =
     (let k = (if 64 < length key then sha256_digest key else key);
          block = k @ replicate (64 - length k) 0
      in sha256_digest (map (\<lambda>b. b XOR 0x5C) block @ sha256_digest (map (\<lambda>b. b XOR 0x36) block @ msg)))"

fun pbkdf2_rounds :: "nat \<Rightarrow> nat list \<Rightarrow> nat list \<Rightarrow> nat list \<Rightarrow> nat list" where
  "pbkdf2_rounds 0 key u acc = acc"
| "pbkdf2_rounds (Suc n) key u acc =
     (let v = hmac_sha256 key u in pbkdf2_rounds n key v (map2 (\<lambda>a b. a XOR b) acc v))"

text \<open>\<open>hashlib.pbkdf2_hmac("sha256", password, salt, iterations).hex()\<close>; one block is 32 bytes long.\<close>

definition pbkdf2_hex :: "string \<Rightarrow> string \<Rightarrow> nat \<Rightarrow> string" where
  "pbkdf2_hex password salt iterations =
     (let key = map char_code password;
          u = hmac_sha256 key (map char_code salt @ [0, 0, 0, 1])
      in concat (map (hex_fixed 2) (pbkdf2_rounds (iterations - 1) key u u)))"

subsection \<open>Passwords\<close>

definition legacy_pbkdf2_iterations :: nat where "legacy_pbkdf2_iterations = 120000"

definition pbkdf2_iterations :: nat where "pbkdf2_iterations = 600000"

definition max_pbkdf2_iterations :: nat where "max_pbkdf2_iterations = 1200000"

definition password_hash_scheme :: string where "password_hash_scheme = ''pbkdf2_sha256''"

definition hash_password :: "string \<Rightarrow> string \<Rightarrow> string" where
  "hash_password password salt =
     password_hash_scheme @ ''$'' @ show_nat pbkdf2_iterations @ ''$'' @ pbkdf2_hex password salt pbkdf2_iterations"

definition password_hash_parts :: "string \<Rightarrow> nat \<times> string" where
  "password_hash_parts v =
     (case split_limit (CHR ''$'') 2 v of
        [scheme, count_text, digest] \<Rightarrow>
          (case (if count_text \<noteq> [] \<and> list_all is_digit count_text then parse_digits 0 False count_text else None) of
             Some iterations \<Rightarrow>
               if scheme = password_hash_scheme \<and> 0 < iterations \<and> iterations \<le> max_pbkdf2_iterations \<and> digest \<noteq> []
               then (iterations, digest) else (legacy_pbkdf2_iterations, v)
           | None \<Rightarrow> (legacy_pbkdf2_iterations, v))
      | _ \<Rightarrow> (legacy_pbkdf2_iterations, v))"

text \<open>\<open>secrets.compare_digest\<close> takes ASCII strings only.\<close>

definition compare_digest :: "string \<Rightarrow> string \<Rightarrow> bool res" where
  "compare_digest a b =
     (if list_all (\<lambda>c. char_code c < 128) a \<and> list_all (\<lambda>c. char_code c < 128) b then Inr (a = b)
      else Inl (TypeError ''comparing strings with non-ASCII characters is not supported''))"

definition verify_password :: "string \<Rightarrow> string \<Rightarrow> string \<Rightarrow> bool res" where
  "verify_password password salt expected_hash =
     (let (iterations, expected_digest) = password_hash_parts expected_hash
      in compare_digest (pbkdf2_hex password salt iterations) expected_digest)"

definition password_needs_rehash :: "string \<Rightarrow> bool" where
  "password_needs_rehash v \<longleftrightarrow>
     \<not> starts_with (password_hash_scheme @ ''$'') v \<or> fst (password_hash_parts v) < pbkdf2_iterations"

definition dummy_password_salt :: string where "dummy_password_salt = ''asklake-dummy-auth-salt-v1''"

definition dummy_password_hash :: string where
  "dummy_password_hash = hash_password ''not-a-real-password'' dummy_password_salt"

subsection \<open>Failed logins\<close>

type_synonym failures = "(string \<times> timestamp list) list"

definition login_failure_limit :: nat where "login_failure_limit = 5"

definition login_failure_window :: timestamp where "login_failure_window = seconds 900"

definition failures_of :: "failures \<Rightarrow> string \<Rightarrow> timestamp list" where
  "failures_of fs key = (case map_of fs key of None \<Rightarrow> [] | Some ts \<Rightarrow> ts)"

definition prune_login_failures :: "timestamp \<Rightarrow> failures \<Rightarrow> failures" where
  "prune_login_failures now fs =
     filter (\<lambda>(key, ts). ts \<noteq> [])
       (map (\<lambda>(key, ts). (key, filter (\<lambda>t. now - login_failure_window \<le> t) ts)) fs)"

definition is_login_rate_limited :: "timestamp \<Rightarrow> string \<Rightarrow> failures \<Rightarrow> bool \<times> failures" where
  "is_login_rate_limited now key fs =
     (let fs' = prune_login_failures now fs in (login_failure_limit < length (failures_of fs' key), fs'))"

definition record_login_failure :: "timestamp \<Rightarrow> string \<Rightarrow> failures \<Rightarrow> bool \<times> failures" where
  "record_login_failure now key fs =
     (let fs' = prune_login_failures now fs; ts = failures_of fs' key @ [now]
      in (login_failure_limit < length ts, AList.update key ts fs'))"

definition clear_login_failures :: "string \<Rightarrow> failures \<Rightarrow> failures" where
  "clear_login_failures key fs = AList.delete key fs"

definition normalize_email :: "string \<Rightarrow> string" where
  "normalize_email email = casefold (py_strip email)"

definition login_failure_key :: "string \<Rightarrow> string option \<Rightarrow> string" where
  "login_failure_key email client_address =
     (let address = casefold (py_strip (first_text [client_address] ''unknown''))
      in normalize_email email @ ''|'' @ (if address = [] then ''unknown'' else address))"

definition login_rate_limited_error :: py_error where
  "login_rate_limited_error =
     ApiError ''RATE_LIMITED'' ''Too many failed login attempts. Try again later.'' 429 [(''retryAfterSeconds'', Some ''900'')]"

subsection \<open>State\<close>

record auth_state =
  au_db :: access_db
  au_failures :: failures

text \<open>The random values and readings of the clock of one call.\<close>

record auth_env =
  ev_user_id :: string
  ev_salt :: string
  ev_token :: string
  ev_checked_at :: timestamp
  ev_failed_at :: timestamp
  ev_active_at :: timestamp
  ev_issued_at :: timestamp

record session_result =
  sr_token :: string
  sr_expires_at :: timestamp
  sr_actor :: dict

definition session_ttl :: timestamp where "session_ttl = seconds (7 * 86400)"

definition user_to_actor :: "auth_user \<Rightarrow> dict" where
  "user_to_actor u =
     [(''id'', JStr (us_id u)), (''name'', JStr (us_display_name u)), (''email'', JStr (us_email u)),
      (''role'', JStr (us_role u)), (''groups'', JList (map JStr (us_groups u))), (''title'', of_opt_str (us_title u))]"

definition user_actor_namespace :: "auth_user \<Rightarrow> principal_subject" where
  "user_actor_namespace u =
     \<lparr>su_id = Some (us_id u), su_email = Some (us_email u), su_name = Some (us_display_name u), su_groups = us_groups u\<rparr>"

definition user_by_email :: "string \<Rightarrow> access_db \<Rightarrow> auth_user option" where
  "user_by_email email s = lookup_key us_email email (ad_users s)"

definition user_unique :: "auth_user list \<Rightarrow> auth_user \<Rightarrow> bool" where
  "user_unique rows u \<longleftrightarrow> us_id u \<notin> us_id ` set rows \<and> us_email u \<notin> us_email ` set rows"

definition add_user :: "auth_user \<Rightarrow> (access_db, unit) op" where
  "add_user u = (\<lambda>s. case sql_insert (\<lambda>_. True) user_unique u (ad_users s) of
     Inl e \<Rightarrow> (Inl e, s) | Inr rows \<Rightarrow> (Inr (), s\<lparr>ad_users := rows\<rparr>))"

definition create_session :: "auth_env \<Rightarrow> auth_user \<Rightarrow> (access_db, session_result) op" where
  "create_session env u =
     (let row = \<lparr>se_token = ev_token env, se_user_id = us_id u, se_expires_at = ev_issued_at env + session_ttl,
                 se_user_snapshot = user_to_actor u\<rparr>
      in bind_op (\<lambda>s. case sql_insert (\<lambda>_. True) (\<lambda>rows r. se_token r \<notin> se_token ` set rows) row (ad_sessions s) of
           Inl e \<Rightarrow> (Inl e, s) | Inr rows \<Rightarrow> (Inr (), s\<lparr>ad_sessions := rows\<rparr>)) (\<lambda>_.
         return_op \<lparr>sr_token = ev_token env, sr_expires_at = ev_issued_at env + session_ttl, sr_actor = user_to_actor u\<rparr>))"

text \<open>Code on the database inside the process.\<close>

definition with_db :: "(access_db, 'a) op \<Rightarrow> (auth_state, 'a) op" where
  "with_db m = (\<lambda>s. case m (au_db s) of (r, d) \<Rightarrow> (r, s\<lparr>au_db := d\<rparr>))"

definition on_failures :: "(failures \<Rightarrow> 'a \<times> failures) \<Rightarrow> (auth_state, 'a) op" where
  "on_failures f = (\<lambda>s. case f (au_failures s) of (a, fs) \<Rightarrow> (Inr a, s\<lparr>au_failures := fs\<rparr>))"

subsection \<open>Operations\<close>

definition after_last_at :: "string \<Rightarrow> string" where
  "after_last_at s = rev (takeWhile (\<lambda>c. c \<noteq> CHR ''@'') (rev s))"

definition plausible_email :: "string \<Rightarrow> bool" where
  "plausible_email e \<longleftrightarrow> CHR ''@'' \<in> set e \<and> CHR ''.'' \<in> set (after_last_at e)"

definition new_user :: "auth_env \<Rightarrow> string \<Rightarrow> string \<Rightarrow> string \<Rightarrow> auth_user" where
  "new_user env email password display_name =
     \<lparr>us_id = ev_user_id env, us_email = email, us_display_name = py_strip display_name, us_role = ''viewer'',
      us_groups = [''analytics''], us_password_hash = hash_password password (ev_salt env), us_password_salt = ev_salt env,
      us_status = ''active'', us_title = Some ''AskLake User'', us_last_active_at = None\<rparr>"

definition signup :: "bool \<Rightarrow> auth_env \<Rightarrow> string \<Rightarrow> string \<Rightarrow> string \<Rightarrow> (auth_state, session_result) op" where
  "signup allows_public_signup env email password display_name =
     bind_op (check_op allows_public_signup
       (ApiError ''FORBIDDEN'' ''Public account signup is disabled. Contact an AskLake administrator.'' 403 [])) (\<lambda>_.
     bind_op (check_op (plausible_email (normalize_email email))
       (ApiError ''VALIDATION_ERROR'' (utf8 [0xC62C, 0xBC14, 0xB978, 0x20, 0xC774, 0xBA54, 0xC77C, 0x20, 0xD615, 0xC2DD, 0xC744, 0x20, 0xC785, 0xB825, 0xD574, 0xC8FC, 0xC138, 0xC694] @ ''.'') 400 [])) (\<lambda>_.
     bind_op (with_db (read_op (user_by_email (normalize_email email)))) (\<lambda>existing.
     bind_op (check_op (existing = None) (ApiError ''CONFLICT'' (utf8 [0xC774, 0xBBF8, 0x20, 0xAC00, 0xC785, 0xB41C, 0x20, 0xC774, 0xBA54, 0xC77C, 0xC785, 0xB2C8, 0xB2E4] @ ''.'') 409 [])) (\<lambda>_.
     with_db (transaction
       (bind_op (add_user (new_user env (normalize_email email) password display_name)) (\<lambda>_.
        create_session env (new_user env (normalize_email email) password display_name))))))))"

definition touch_user :: "auth_env \<Rightarrow> string \<Rightarrow> auth_user \<Rightarrow> auth_user" where
  "touch_user env password u =
     u\<lparr>us_password_hash := (if password_needs_rehash (us_password_hash u) then hash_password password (us_password_salt u)
                            else us_password_hash u),
       us_last_active_at := Some (ev_active_at env)\<rparr>"

definition wrong_password_error :: py_error where
  "wrong_password_error = ApiError ''UNAUTHORIZED'' (utf8 [0xC774, 0xBA54, 0xC77C, 0x20, 0xB610, 0xB294, 0x20, 0xBE44, 0xBC00, 0xBC88, 0xD638, 0xB97C, 0x20, 0xD655, 0xC778, 0xD574, 0xC8FC, 0xC138, 0xC694] @ ''.'') 401 []"

text \<open>The rest of the login once the password is right.\<close>

definition complete_login :: "auth_env \<Rightarrow> string \<Rightarrow> string \<Rightarrow> auth_user \<Rightarrow> (auth_state, session_result) op" where
  "complete_login env password failure_key u =
     bind_op (check_op (us_status u = ''active'') (ApiError ''FORBIDDEN'' (utf8 [0xBE44, 0xD65C, 0xC131, 0xD654, 0xB41C, 0x20, 0xACC4, 0xC815, 0xC785, 0xB2C8, 0xB2E4] @ ''.'') 403 [])) (\<lambda>_.
     bind_op (with_db (read_op (\<lambda>s. blocked_principal_for_actor s (user_actor_namespace u)))) (\<lambda>blocked.
     case blocked of
       Some r \<Rightarrow> raise_op (ApiError ''FORBIDDEN'' (utf8 [0xACC4, 0xC815, 0x20, 0xC811, 0xADFC, 0xC774, 0x20, 0xC81C, 0xD55C, 0xB418, 0xC5C8, 0xC2B5, 0xB2C8, 0xB2E4] @ ''. '' @ utf8 [0xAD00, 0xB9AC, 0xC790, 0xC5D0, 0xAC8C, 0x20, 0xBB38, 0xC758, 0xD558, 0xC138, 0xC694] @ ''.'') 403
         [(''principalType'', Some (pc_principal_type r)), (''principalId'', Some (pc_principal_id r))])
     | None \<Rightarrow>
         bind_op (on_failures (\<lambda>fs. ((), clear_login_failures failure_key fs))) (\<lambda>_.
         with_db (transaction
           (bind_op (write_op (\<lambda>s. s\<lparr>ad_users :=
               update_where (\<lambda>r. us_id r = us_id u) (touch_user env password) (ad_users s)\<rparr>)) (\<lambda>_.
            create_session env (touch_user env password u)))))))"

definition reject_login :: "auth_env \<Rightarrow> string \<Rightarrow> (auth_state, session_result) op" where
  "reject_login env failure_key =
     bind_op (on_failures (record_login_failure (ev_failed_at env) failure_key)) (\<lambda>over.
     raise_op (if over then login_rate_limited_error else wrong_password_error))"

definition login :: "auth_env \<Rightarrow> string \<Rightarrow> string \<Rightarrow> string option \<Rightarrow> (auth_state, session_result) op" where
  "login env email password rate_limit_key =
     (let failure_key = first_text [rate_limit_key] (normalize_email email) in
      bind_op (on_failures (is_login_rate_limited (ev_checked_at env) failure_key)) (\<lambda>limited.
      bind_op (check_op (\<not> limited) login_rate_limited_error) (\<lambda>_.
      bind_op (with_db (read_op (user_by_email (normalize_email email)))) (\<lambda>found.
      bind_op (lift_res (case found of
          None \<Rightarrow> verify_password password dummy_password_salt dummy_password_hash
        | Some u \<Rightarrow> verify_password password (us_password_salt u) (us_password_hash u))) (\<lambda>password_valid.
      case (if password_valid then found else None) of
        None \<Rightarrow> reject_login env failure_key
      | Some u \<Rightarrow> complete_login env password failure_key u)))))"

definition logout :: "string option \<Rightarrow> (access_db, unit) op" where
  "logout token =
     (case some_text token of
        [] \<Rightarrow> return_op ()
      | t # _ \<Rightarrow> write_op (\<lambda>s. s\<lparr>ad_sessions := filter (\<lambda>r. se_token r \<noteq> t) (ad_sessions s)\<rparr>))"

definition active_actor :: "auth_user option \<Rightarrow> access_db \<Rightarrow> dict option" where
  "active_actor found s =
     (case found of
        None \<Rightarrow> None
      | Some u \<Rightarrow>
          if us_status u \<noteq> ''active'' then None
          else if blocked_principal_for_actor s (user_actor_namespace u) \<noteq> None then None
          else Some (user_to_actor u))"

definition actor_for_session :: "timestamp \<Rightarrow> string option \<Rightarrow> (access_db, dict option) op" where
  "actor_for_session now token =
     (case some_text token of
        [] \<Rightarrow> return_op None
      | t # _ \<Rightarrow> (\<lambda>s.
          case lookup_key se_token t (ad_sessions s) of
            None \<Rightarrow> (Inr None, s)
          | Some row \<Rightarrow>
              if se_expires_at row \<le> now
              then (Inr None, s\<lparr>ad_sessions := filter (\<lambda>r. se_token r \<noteq> t) (ad_sessions s)\<rparr>)
              else (Inr (active_actor (lookup_key us_id (se_user_id row) (ad_users s)) s), s)))"

definition load_active_actor_by_user_id :: "access_db \<Rightarrow> string option \<Rightarrow> dict option" where
  "load_active_actor_by_user_id s user_id =
     (let uid = py_strip (first_text [user_id] '''') in
      if uid = [] then None else active_actor (lookup_key us_id uid (ad_users s)) s)"

subsection \<open>Accounts created at startup\<close>

record auth_settings =
  st_header_fallback :: bool
  st_legacy_demo_users :: bool
  st_bootstrap_email :: "string option"
  st_bootstrap_password :: "string option"
  st_bootstrap_name :: string

record demo_item =
  di_id :: string
  di_email :: string
  di_display_name :: string
  di_password :: string
  di_role :: string
  di_groups :: "string list"
  di_title :: string

definition demo_auth_users :: "demo_item list" where
  "demo_auth_users =
     [\<lparr>di_id = ''admin-user'', di_email = ''admin.user@asklake.local'', di_display_name = ''Admin User'',
       di_password = ''asklake-admin'', di_role = ''admin'', di_groups = [], di_title = ''Platform Admin''\<rparr>,
      \<lparr>di_id = ''demo-user'', di_email = ''demo.user@asklake.local'', di_display_name = ''Demo User'',
       di_password = ''asklake-demo'', di_role = ''viewer'', di_groups = [''analytics''], di_title = ''Data Viewer''\<rparr>]"

definition sync_demo_user :: "bool \<Rightarrow> demo_item \<Rightarrow> auth_user \<Rightarrow> auth_user" where
  "sync_demo_user preserve_existing_status i u =
     u\<lparr>us_email := di_email i, us_display_name := di_display_name i, us_role := di_role i, us_groups := di_groups i,
       us_title := Some (di_title i), us_status := (if preserve_existing_status then us_status u else ''active'')\<rparr>"

definition demo_account :: "string \<Rightarrow> demo_item \<Rightarrow> auth_user" where
  "demo_account salt i =
     \<lparr>us_id = di_id i, us_email = di_email i, us_display_name = di_display_name i, us_role = di_role i,
      us_groups = di_groups i, us_password_hash = hash_password (di_password i) salt, us_password_salt = salt,
      us_status = ''active'', us_title = Some (di_title i), us_last_active_at = None\<rparr>"

text \<open>The unique index on the address is checked when the changed row is written.\<close>

definition ensure_demo_user :: "(string \<Rightarrow> string) \<Rightarrow> bool \<Rightarrow> demo_item \<Rightarrow> (access_db, unit) op" where
  "ensure_demo_user salts preserve i = (\<lambda>s.
     case lookup_key us_id (di_id i) (ad_users s) of
       None \<Rightarrow> add_user (demo_account (salts (di_id i)) i) s
     | Some u \<Rightarrow>
         let rows = update_where (\<lambda>r. us_id r = di_id i) (sync_demo_user preserve i) (ad_users s)
         in if distinct (map us_email rows) then (Inr (), s\<lparr>ad_users := rows\<rparr>) else (Inl unique_violation, s))"

definition ensure_demo_users :: "(string \<Rightarrow> string) \<Rightarrow> bool \<Rightarrow> (access_db, unit) op" where
  "ensure_demo_users salts preserve = for_op demo_auth_users (ensure_demo_user salts preserve)"

definition bootstrap_admin :: "auth_env \<Rightarrow> string \<Rightarrow> string \<Rightarrow> string \<Rightarrow> auth_user" where
  "bootstrap_admin env email password name =
     \<lparr>us_id = ev_user_id env, us_email = email,
      us_display_name = (if py_strip name = [] then ''AskLake Administrator'' else py_strip name), us_role = ''admin'',
      us_groups = [], us_password_hash = hash_password password (ev_salt env), us_password_salt = ev_salt env,
      us_status = ''active'', us_title = Some ''Platform Admin'', us_last_active_at = None\<rparr>"

definition ensure_bootstrap_admin :: "auth_settings \<Rightarrow> auth_env \<Rightarrow> (access_db, unit) op" where
  "ensure_bootstrap_admin st env =
     (case (some_text (st_bootstrap_email st), some_text (st_bootstrap_password st)) of
        (email # _, password # _) \<Rightarrow>
          bind_op (read_op (user_by_email (normalize_email email))) (\<lambda>existing.
          case existing of
            Some u \<Rightarrow> check_op (us_role u = ''admin'' \<and> us_status u = ''active'')
              (RuntimeError (''BOOTSTRAP_ADMIN_EMAIL is already assigned to a non-active administrator account. '' @
                ''Choose another bootstrap email or promote the account explicitly before deployment.''))
          | None \<Rightarrow> add_user (bootstrap_admin env (normalize_email email) password (st_bootstrap_name st)))
      | _ \<Rightarrow> return_op ())"

definition initialize_auth :: "auth_settings \<Rightarrow> (string \<Rightarrow> string) \<Rightarrow> auth_env \<Rightarrow> (access_db, unit) op" where
  "initialize_auth st salts env =
     (if st_header_fallback st then transaction (ensure_demo_users salts False)
      else if st_legacy_demo_users st
        then bind_op (transaction (ensure_demo_users salts False)) (\<lambda>_. transaction (ensure_bootstrap_admin st env))
      else transaction (ensure_bootstrap_admin st env))"

subsection \<open>Passwords can be verified\<close>

lemma length_sha256_digest: "length (sha256_digest msg) = 32"
  by (simp add: sha256_digest_def Let_def word_bytes_def)

lemma length_hmac: "length (hmac_sha256 key msg) = 32"
  by (simp add: hmac_sha256_def Let_def length_sha256_digest)

lemma length_pbkdf2_rounds: "length acc = 32 \<Longrightarrow> length (pbkdf2_rounds n key u acc) = 32"
  by (induction n key u acc rule: pbkdf2_rounds.induct) (simp_all add: Let_def length_hmac)

lemma length_concat_fixed: "(\<And>x. length (f x) = k) \<Longrightarrow> length (concat (map f xs)) = k * length xs"
  by (induction xs) simp_all

lemma length_pbkdf2_hex: "length (pbkdf2_hex p s n) = 64"
  by (simp add: pbkdf2_hex_def Let_def length_concat_fixed [where k = 2] length_pbkdf2_rounds length_hmac)

lemma pbkdf2_hex_ascii: "c \<in> set (pbkdf2_hex p s n) \<Longrightarrow> char_code c < 128"
  by (auto simp: pbkdf2_hex_def Let_def hex_fixed_def intro!: hex_digit_ascii)

lemma split_limit_field: "c \<notin> set x \<Longrightarrow> split_limit c (Suc n) (x @ c # y) = x # split_limit c n y"
proof -
  assume c: "c \<notin> set x"
  then have "takeWhile (\<lambda>z. z \<noteq> c) (x @ c # y) = x" "dropWhile (\<lambda>z. z \<noteq> c) (x @ c # y) = c # y"
    by (induction x) auto
  then show ?thesis by simp
qed

lemma iterations_text: "show_nat pbkdf2_iterations = ''600000''"
proof -
  have "char_of (54 :: nat) = CHR ''6''" "char_of (48 :: nat) = CHR ''0''" by code_simp+
  then show ?thesis by (simp add: pbkdf2_iterations_def show_nat.simps digit_char_def)
qed

lemma hash_password_parts: "password_hash_parts (hash_password p s) = (pbkdf2_iterations, pbkdf2_hex p s pbkdf2_iterations)"
proof -
  have "split_limit (CHR ''$'') 2 (hash_password p s) = [password_hash_scheme, ''600000'', pbkdf2_hex p s pbkdf2_iterations]"
    unfolding hash_password_def iterations_text numeral_2_eq_2
    using split_limit_field [of "CHR ''$''" password_hash_scheme 1] split_limit_field [of "CHR ''$''" "''600000''" 0]
    by (simp add: password_hash_scheme_def)
  moreover have "parse_digits 0 False ''600000'' = Some pbkdf2_iterations" "list_all is_digit ''600000''"
    by (simp_all add: is_digit_def digit_value_def char_code_def pbkdf2_iterations_def)
  moreover have "0 < pbkdf2_iterations" "pbkdf2_iterations \<le> max_pbkdf2_iterations"
    by (simp_all add: pbkdf2_iterations_def max_pbkdf2_iterations_def)
  moreover have "pbkdf2_hex p s pbkdf2_iterations \<noteq> []" using length_pbkdf2_hex [of p s pbkdf2_iterations] by auto
  ultimately show ?thesis by (simp add: password_hash_parts_def)
qed

lemma starts_with_append: "starts_with p (p @ s)"
  by (induction p) simp_all

text \<open>A password verifies against its own hash, and such a hash is not hashed again.\<close>

lemma verify_hash_password: "verify_password p s (hash_password p s) = Inr True"
  by (simp add: verify_password_def hash_password_parts compare_digest_def list_all_iff pbkdf2_hex_ascii)

lemma hash_password_current: "\<not> password_needs_rehash (hash_password p s)"
proof -
  have "starts_with (password_hash_scheme @ ''$'') (hash_password p s)"
    using starts_with_append [of "password_hash_scheme @ ''$''"] by (simp add: hash_password_def)
  then show ?thesis by (simp add: password_needs_rehash_def hash_password_parts)
qed

subsection \<open>Sessions\<close>

lemma with_db_iff [op_elims]: "with_db m s = (Inr a, t) \<longleftrightarrow> (\<exists>d. m (au_db s) = (Inr a, d) \<and> t = s\<lparr>au_db := d\<rparr>)"
  by (auto simp: with_db_def split: prod.splits)

lemma on_failures_iff [op_elims]: "on_failures f s = (Inr a, t) \<longleftrightarrow> a = fst (f (au_failures s)) \<and> t = s\<lparr>au_failures := snd (f (au_failures s))\<rparr>"
  by (auto simp: on_failures_def split: prod.splits)

text \<open>The session a token stands for now: not expired, of a user who is active and not blocked.\<close>

definition valid_session :: "timestamp \<Rightarrow> access_db \<Rightarrow> string \<Rightarrow> auth_user \<Rightarrow> bool" where
  "valid_session now s token u \<longleftrightarrow>
     (\<exists>row \<in> set (ad_sessions s). se_token row = token \<and> now < se_expires_at row \<and> se_user_id row = us_id u)
     \<and> u \<in> set (ad_users s) \<and> us_status u = ''active'' \<and> blocked_principal_for_actor s (user_actor_namespace u) = None"

definition identities_ok :: "access_db \<Rightarrow> bool" where
  "identities_ok s \<longleftrightarrow> keyed us_id (ad_users s) \<and> keyed us_email (ad_users s) \<and> keyed se_token (ad_sessions s)"

lemma active_actor_Some:
  "active_actor found s = Some d \<longleftrightarrow> (\<exists>u. found = Some u \<and> us_status u = ''active''
     \<and> blocked_principal_for_actor s (user_actor_namespace u) = None \<and> d = user_to_actor u)"
  by (auto simp: active_actor_def split: option.splits)

lemma actor_for_session_Some:
  assumes "identities_ok s"
  shows "fst (actor_for_session now token s) = Inr (Some d) \<longleftrightarrow>
    (\<exists>t u. token = Some t \<and> t \<noteq> [] \<and> valid_session now s t u \<and> d = user_to_actor u)" (is "?L \<longleftrightarrow> ?R")
proof (cases token)
  case None
  then show ?thesis by (simp add: actor_for_session_def some_text_def return_op_def)
next
  case (Some t)
  show ?thesis
  proof (cases "t = []")
    case True
    then show ?thesis using Some by (simp add: actor_for_session_def some_text_def return_op_def)
  next
    case False
    have keys: "keyed us_id (ad_users s)" "keyed se_token (ad_sessions s)" using assms by (simp_all add: identities_ok_def)
    have L: "?L \<longleftrightarrow> (\<exists>row. lookup_key se_token t (ad_sessions s) = Some row \<and> now < se_expires_at row
        \<and> active_actor (lookup_key us_id (se_user_id row) (ad_users s)) s = Some d)"
      using Some False by (auto simp: actor_for_session_def some_text_def split: option.splits)
    have look: "lookup_key se_token t (ad_sessions s) = Some row \<longleftrightarrow> row \<in> set (ad_sessions s) \<and> se_token row = t" for row
      using keys(2) by (auto dest: lookup_key_Some lookup_key_keyed)
    have user: "lookup_key us_id i (ad_users s) = Some u \<longleftrightarrow> u \<in> set (ad_users s) \<and> i = us_id u" for i u
      using keys(1) by (auto dest: lookup_key_Some lookup_key_keyed)
    show ?thesis unfolding L look active_actor_Some user unfolding valid_session_def Some using False by (simp only: option.inject) blast
  qed
qed

lemma actor_for_session_total: "\<exists>v t. actor_for_session now token s = (Inr v, t)"
  by (auto simp: actor_for_session_def return_op_def split: list.splits option.splits)

text \<open>A logged-out token stands for nobody; other tokens keep their meaning.\<close>

lemma logout_session:
  assumes "logout (Some t) s = (Inr (), s1)" and "t \<noteq> []"
  shows "\<not> valid_session now s1 t u" and "t' \<noteq> t \<Longrightarrow> valid_session now s1 t' u = valid_session now s t' u"
  using assms by (auto simp: logout_def some_text_def op_elims valid_session_def blocked_principal_for_actor_def)

subsection \<open>What a login does to the failed logins\<close>

lemma failures_of_Cons: "failures_of ((k, ts) # fs) key = (if key = k then ts else failures_of fs key)"
  by (simp add: failures_of_def)

lemma failures_of_prune:
  "distinct (map fst fs) \<Longrightarrow>
     failures_of (prune_login_failures now fs) key = filter (\<lambda>t. now - login_failure_window \<le> t) (failures_of fs key)"
proof (induction fs)
  case Nil
  then show ?case by (simp add: prune_login_failures_def failures_of_def)
next
  case (Cons p fs)
  obtain k ts where p: "p = (k, ts)" by (cases p)
  have "failures_of fs k = []" using Cons.prems by (auto simp: p failures_of_def map_of_eq_None_iff [symmetric] split: option.splits)
  then show ?case using Cons by (auto simp: p prune_login_failures_def failures_of_Cons)
qed

lemma prune_distinct: "distinct (map fst fs) \<Longrightarrow> distinct (map fst (prune_login_failures now fs))"
proof -
  have "map fst (map (\<lambda>(key, ts). (key, filter (\<lambda>t. now - login_failure_window \<le> t) ts)) fs) = map fst fs"
    by (induction fs) auto
  then show "distinct (map fst fs) \<Longrightarrow> distinct (map fst (prune_login_failures now fs))"
    unfolding prune_login_failures_def by (intro distinct_map_filter) (simp only:)
qed

lemma failures_of_update: "failures_of (AList.update k ts fs) key = (if key = k then ts else failures_of fs key)"
  by (simp add: failures_of_def update_conv)

lemma failures_of_clear: "key \<noteq> k \<Longrightarrow> failures_of (clear_login_failures k fs) key = failures_of fs key"
  by (simp add: failures_of_def clear_login_failures_def delete_conv)

text \<open>An answer that refuses the login; a failed insert of the session row is not one.\<close>

fun refused :: "'a res \<Rightarrow> bool" where
  "refused (Inl (IntegrityError _)) = False"
| "refused (Inl _) = True"
| "refused (Inr _) = False"

definition failure_key :: "string \<Rightarrow> string option \<Rightarrow> string" where
  "failure_key email rate_limit_key = first_text [rate_limit_key] (normalize_email email)"

lemma verify_not_wrong: "verify_password p s h \<noteq> Inl wrong_password_error"
  by (auto simp: verify_password_def compare_digest_def wrong_password_error_def split: prod.splits)

lemma complete_login_outcome:
  assumes "complete_login env password key u s = (r, t)"
  shows "au_failures t = au_failures s \<and> r \<noteq> Inl wrong_password_error
    \<or> au_failures t = clear_login_failures key (au_failures s) \<and> \<not> refused r"
  using assms
  by (auto simp: complete_login_def op_defs with_db_def on_failures_def transaction_def create_session_def sql_insert_def
      unique_violation_def wrong_password_error_def Let_def split: if_splits option.splits)

lemma login_outcome:
  assumes "login env email password rk s = (r, t)"
  defines "key \<equiv> failure_key email rk" and "fs \<equiv> prune_login_failures (ev_checked_at env) (au_failures s)"
  obtains (pruned) "au_failures t = fs" "r \<noteq> Inl wrong_password_error"
  | (recorded) "au_failures t = snd (record_login_failure (ev_failed_at env) key fs)"
      "r = Inl (if fst (record_login_failure (ev_failed_at env) key fs) then login_rate_limited_error else wrong_password_error)"
  | (cleared) "au_failures t = clear_login_failures key fs" "\<not> refused r"
proof -
  let ?s = "s\<lparr>au_failures := fs\<rparr>"
  let ?found = "user_by_email (normalize_email email) (au_db s)"
  let ?v = "case ?found of None \<Rightarrow> verify_password password dummy_password_salt dummy_password_hash
    | Some u \<Rightarrow> verify_password password (us_password_salt u) (us_password_hash u)"
  have run: "login env email password rk s =
      (if login_failure_limit < length (failures_of fs key) then (Inl login_rate_limited_error, ?s)
       else case ?v of Inl e \<Rightarrow> (Inl e, ?s)
         | Inr valid \<Rightarrow> (case (if valid then ?found else None) of
             None \<Rightarrow> reject_login env key ?s | Some u \<Rightarrow> complete_login env password key u ?s))"
    unfolding login_def Let_def key_def fs_def
    by (simp add: op_defs on_failures_def with_db_def is_login_rate_limited_def Let_def failure_key_def split: sum.splits option.splits)
  show ?thesis
  proof (cases "login_failure_limit < length (failures_of fs key)")
    case True
    then show ?thesis using run assms(1)
      by (intro pruned) (auto simp: login_rate_limited_error_def wrong_password_error_def)
  next
    case False
    show ?thesis
    proof (cases ?v)
      case (Inl e)
      then have "e \<noteq> wrong_password_error" using verify_not_wrong by (metis (no_types, lifting) option.case_eq_if)
      then show ?thesis using run assms(1) False Inl by (intro pruned) auto
    next
      case (Inr valid)
      show ?thesis
      proof (cases "if valid then ?found else None")
        case None
        then have "login env email password rk s = reject_login env key ?s" using run False Inr by simp
        then show ?thesis using assms(1) by (intro recorded) (auto simp: reject_login_def op_defs on_failures_def split: prod.splits)
      next
        case (Some u)
        then have "complete_login env password key u ?s = (r, t)" using run assms(1) False Inr by simp
        from complete_login_outcome [OF this] show ?thesis using pruned cleared by auto
      qed
    qed
  qed
qed

subsection \<open>Guessing passwords\<close>

record login_attempt =
  la_env :: auth_env
  la_email :: string
  la_password :: string
  la_rate_limit_key :: "string option"

definition attempt_key :: "login_attempt \<Rightarrow> string" where
  "attempt_key a = failure_key (la_email a) (la_rate_limit_key a)"

text \<open>A sequence of logins with their answers.\<close>

fun logins :: "login_attempt list \<Rightarrow> auth_state \<Rightarrow> (login_attempt \<times> session_result res) list" where
  "logins [] s = []"
| "logins (a # rest) s =
     (case login (la_env a) (la_email a) (la_password a) (la_rate_limit_key a) s of
        (r, t) \<Rightarrow> (a, r) # logins rest t)"

definition recent :: "timestamp \<Rightarrow> string \<Rightarrow> failures \<Rightarrow> nat" where
  "recent start key fs = length (filter (\<lambda>t. start \<le> t) (failures_of fs key))"

definition attempt_within :: "timestamp \<Rightarrow> login_attempt \<Rightarrow> bool" where
  "attempt_within start a \<longleftrightarrow> start \<le> ev_checked_at (la_env a) \<and> ev_checked_at (la_env a) \<le> start + login_failure_window
     \<and> start \<le> ev_failed_at (la_env a) \<and> ev_failed_at (la_env a) \<le> start + login_failure_window"

lemma recent_prune:
  assumes "distinct (map fst fs)" and "now \<le> start + login_failure_window"
  shows "recent start key (prune_login_failures now fs) = recent start key fs"
proof -
  have "filter (\<lambda>t. start \<le> t \<and> now - login_failure_window \<le> t) ts = filter (\<lambda>t. start \<le> t) ts" for ts
    using assms(2) by (intro filter_cong) auto
  then show ?thesis by (simp add: recent_def failures_of_prune [OF assms(1)] conj_commute)
qed

lemma recent_record:
  assumes "distinct (map fst fs)" and "now \<le> start + login_failure_window" and "start \<le> now"
    and "record_login_failure now k fs = (over, fs')"
  shows "recent start key fs' = recent start key fs + (if key = k then 1 else 0)"
    and "\<not> over \<Longrightarrow> recent start k fs' \<le> login_failure_limit" and "distinct (map fst fs')"
proof -
  let ?p = "prune_login_failures now fs"
  have fs': "fs' = AList.update k (failures_of ?p k @ [now]) ?p" and over: "over \<longleftrightarrow> login_failure_limit < length (failures_of ?p k @ [now])"
    using assms(4) by (auto simp: record_login_failure_def Let_def)
  show "recent start key fs' = recent start key fs + (if key = k then 1 else 0)"
    using recent_prune [OF assms(1,2), of key] assms(3) by (auto simp: fs' recent_def failures_of_update)
  show "recent start k fs' \<le> login_failure_limit" if "\<not> over"
  proof -
    have "recent start k fs' \<le> length (failures_of ?p k @ [now])"
      unfolding fs' recent_def by (simp only: failures_of_update simp_thms if_True length_filter_le)
    then show ?thesis using that over by simp
  qed
  show "distinct (map fst fs')" using prune_distinct [OF assms(1)] by (simp add: fs' distinct_update)
qed

definition wrong_answers :: "string \<Rightarrow> (login_attempt \<times> session_result res) list \<Rightarrow> nat" where
  "wrong_answers key answers = length (filter (\<lambda>(a, r). attempt_key a = key \<and> r = Inl wrong_password_error) answers)"

lemma wrong_answers_Cons:
  "wrong_answers key ((a, r) # answers) =
     (if attempt_key a = key \<and> r = Inl wrong_password_error then 1 else 0) + wrong_answers key answers"
  by (simp add: wrong_answers_def)

lemma login_step_bound:
  assumes "login (la_env a) (la_email a) (la_password a) (la_rate_limit_key a) s = (r, t)" and "attempt_within start a"
    and "distinct (map fst (au_failures s))" and "attempt_key a = key \<Longrightarrow> refused r"
  shows "distinct (map fst (au_failures t))"
    and "(if attempt_key a = key \<and> r = Inl wrong_password_error then 1 else 0) + (login_failure_limit - recent start key (au_failures t))
      \<le> login_failure_limit - recent start key (au_failures s)"
proof -
  let ?fs = "prune_login_failures (ev_checked_at (la_env a)) (au_failures s)"
  have d: "distinct (map fst ?fs)" using prune_distinct [OF assms(3)] .
  have same: "recent start key ?fs = recent start key (au_failures s)"
    using recent_prune [OF assms(3)] assms(2) by (simp add: attempt_within_def)
  have "distinct (map fst (au_failures t)) \<and>
    (if attempt_key a = key \<and> r = Inl wrong_password_error then 1 else 0) + (login_failure_limit - recent start key (au_failures t))
      \<le> login_failure_limit - recent start key (au_failures s)"
    using assms(1)
  proof (cases rule: login_outcome)
    case pruned
    then show ?thesis using d same by simp
  next
    case recorded
    obtain over fs' where rec: "record_login_failure (ev_failed_at (la_env a)) (failure_key (la_email a) (la_rate_limit_key a)) ?fs = (over, fs')"
      by (cases "record_login_failure (ev_failed_at (la_env a)) (failure_key (la_email a) (la_rate_limit_key a)) ?fs")
    have time: "ev_failed_at (la_env a) \<le> start + login_failure_window" "start \<le> ev_failed_at (la_env a)"
      using assms(2) by (simp_all add: attempt_within_def)
    have "login_rate_limited_error \<noteq> wrong_password_error" by (simp add: login_rate_limited_error_def wrong_password_error_def)
    then show ?thesis
      using recorded recent_record [OF d time rec] same by (auto simp: rec attempt_key_def)
  next
    case cleared
    then have "attempt_key a \<noteq> key" using assms(4) by (auto simp: attempt_key_def)
    then show ?thesis using cleared d same
      by (simp add: recent_def failures_of_clear attempt_key_def)
        (simp add: clear_login_failures_def distinct_delete)
  qed
  then show "distinct (map fst (au_failures t))"
    and "(if attempt_key a = key \<and> r = Inl wrong_password_error then 1 else 0) + (login_failure_limit - recent start key (au_failures t))
      \<le> login_failure_limit - recent start key (au_failures s)" by blast+
qed

lemma logins_bound:
  assumes "distinct (map fst (au_failures s))" and "\<forall>a \<in> set attempts. attempt_within start a"
    and "\<forall>(a, r) \<in> set (logins attempts s). attempt_key a = key \<longrightarrow> refused r"
  shows "wrong_answers key (logins attempts s) \<le> login_failure_limit - recent start key (au_failures s)"
  using assms
proof (induction attempts arbitrary: s)
  case Nil
  then show ?case by (simp add: wrong_answers_def)
next
  case (Cons a rest)
  obtain r t where run: "login (la_env a) (la_email a) (la_password a) (la_rate_limit_key a) s = (r, t)" by (cases "login (la_env a) (la_email a) (la_password a) (la_rate_limit_key a) s")
  have refused: "attempt_key a = key \<Longrightarrow> refused r" using Cons.prems(3) by (simp add: run)
  have within: "attempt_within start a" using Cons.prems(2) by simp
  note step = login_step_bound [OF run within Cons.prems(1), of key, OF refused]
  have "wrong_answers key (logins rest t) \<le> login_failure_limit - recent start key (au_failures t)"
    using Cons.IH [OF step(1)] Cons.prems by (simp add: run)
  then show ?case using step(2) by (auto simp add: run wrong_answers_Cons split: if_splits)
qed


lemma verify_dummy: "\<exists>b. verify_password p dummy_password_salt dummy_password_hash = Inr b"
  by (simp add: dummy_password_hash_def verify_password_def hash_password_parts compare_digest_def list_all_iff pbkdf2_hex_ascii)

lemma login_unknown:
  assumes "user_by_email (normalize_email email) (au_db s) = None" and "login env email password rk s = (r, t)"
  shows "refused r \<and> au_db t = au_db s"
proof -
  obtain b where "verify_password password dummy_password_salt dummy_password_hash = Inr b" using verify_dummy by blast
  then show ?thesis using assms
    by (auto simp: login_def Let_def op_defs on_failures_def with_db_def reject_login_def login_rate_limited_error_def
        wrong_password_error_def split: prod.splits if_splits)
qed

lemma logins_unknown:
  assumes "ad_users (au_db s) = []"
  shows "\<forall>(a, r) \<in> set (logins attempts s). refused r"
  using assms
proof (induction attempts arbitrary: s)
  case (Cons a rest)
  obtain r t where run: "login (la_env a) (la_email a) (la_password a) (la_rate_limit_key a) s = (r, t)"
    by (cases "login (la_env a) (la_email a) (la_password a) (la_rate_limit_key a) s")
  have "user_by_email (normalize_email (la_email a)) (au_db s) = None"
    using Cons.prems by (simp add: user_by_email_def lookup_key_def)
  from login_unknown [OF this run] show ?case using Cons.IH [of t] Cons.prems by (simp add: run)
qed simp

definition empty_auth :: auth_state where
  "empty_auth = \<lparr>au_db = \<lparr>ad_users = [], ad_sessions = [], ad_grants = [], ad_controls = [], ad_locks = [], ad_audits = []\<rparr>,
     au_failures = []\<rparr>"

definition sample_auth_env :: auth_env where
  "sample_auth_env = \<lparr>ev_user_id = ''kim-1'', ev_salt = ''salt'', ev_token = ''t1'', ev_checked_at = 0, ev_failed_at = 1,
     ev_active_at = 2, ev_issued_at = 3\<rparr>"

definition sample_attempt :: login_attempt where
  "sample_attempt = \<lparr>la_env = sample_auth_env, la_email = ''kim@asklake.io'', la_password = ''guess'', la_rate_limit_key = Some ''key''\<rparr>"


subsection \<open>From signing up to an authenticated request\<close>

lemma lookup_key_snoc_new: "k \<notin> key ` set rows \<Longrightarrow> key r = k \<Longrightarrow> lookup_key key k (rows @ [r]) = Some r"
  using lookup_key_None [of key k rows] by (auto simp: lookup_key_snoc split: option.splits)

lemma signup_cases:
  assumes "signup allowed env email password name s = (Inr r, t)"
  obtains "us_email (new_user env (normalize_email email) password name) \<notin> us_email ` set (ad_users (au_db s))"
    "ev_user_id env \<notin> us_id ` set (ad_users (au_db s))"
    "ad_users (au_db t) = ad_users (au_db s) @ [new_user env (normalize_email email) password name]"
    "ad_controls (au_db t) = ad_controls (au_db s)" "au_failures t = au_failures s"
  using assms
  by (auto simp: signup_def op_elims transaction_Inr_iff add_user_def create_session_def sql_insert_def user_unique_def
      new_user_def Let_def split: sum.splits if_splits)

lemma complete_login_total:
  assumes "us_status u = ''active''" and "blocked_principal_for_actor (au_db s) (user_actor_namespace u) = None"
    and "ev_token env \<notin> se_token ` set (ad_sessions (au_db s))"
  obtains t where "complete_login env password key u s =
      (Inr \<lparr>sr_token = ev_token env, sr_expires_at = ev_issued_at env + session_ttl, sr_actor = user_to_actor (touch_user env password u)\<rparr>, t)"
    and "ad_users (au_db t) = update_where (\<lambda>r. us_id r = us_id u) (touch_user env password) (ad_users (au_db s))"
    and "ad_sessions (au_db t) = ad_sessions (au_db s) @ [\<lparr>se_token = ev_token env, se_user_id = us_id u,
      se_expires_at = ev_issued_at env + session_ttl, se_user_snapshot = user_to_actor (touch_user env password u)\<rparr>]"
    and "ad_controls (au_db t) = ad_controls (au_db s)"
  using assms
  by (auto simp: complete_login_def op_defs with_db_def on_failures_def transaction_def create_session_def sql_insert_def Let_def
      touch_user_def)

lemma touch_user_fields [simp]:
  "us_id (touch_user env p u) = us_id u" "us_email (touch_user env p u) = us_email u"
  "us_status (touch_user env p u) = us_status u" "us_role (touch_user env p u) = us_role u"
  "user_actor_namespace (touch_user env p u) = user_actor_namespace u"
  by (simp_all add: touch_user_def user_actor_namespace_def)

text \<open>An account works. After a signup, a login with the same address and password succeeds when the key is not
  rate limited, nobody has blocked the account and the token is new; and until it expires, the token stands
  for that user, who is a viewer.\<close>

theorem signup_then_login:
  assumes "signup allowed env email password name s = (Inr r, t)" and "identities_ok (au_db s)"
    and "\<not> fst (is_login_rate_limited (ev_checked_at env') (failure_key email rk) (au_failures t))"
    and "blocked_principal_for_actor (au_db t) (user_actor_namespace (new_user env (normalize_email email) password name)) = None"
    and "ev_token env' \<notin> se_token ` set (ad_sessions (au_db t))"
    and "now < ev_issued_at env' + session_ttl"
  shows "\<exists>r' u v. login env' email password rk t = (Inr r', u) \<and> sr_token r' = ev_token env'
    \<and> valid_session now (au_db u) (ev_token env') v \<and> us_email v = normalize_email email \<and> us_role v = ''viewer''"
  using assms(1)
proof (cases rule: signup_cases)
  case 1
  let ?u = "new_user env (normalize_email email) password name"
  let ?s = "t\<lparr>au_failures := snd (is_login_rate_limited (ev_checked_at env') (failure_key email rk) (au_failures t))\<rparr>"
  have found: "user_by_email (normalize_email email) (au_db t) = Some ?u"
    unfolding user_by_email_def 1(3) using 1(1) by (intro lookup_key_snoc_new) (simp_all add: new_user_def)
  have "verify_password password (us_password_salt ?u) (us_password_hash ?u) = Inr True"
    by (simp add: new_user_def verify_hash_password)
  then have run: "login env' email password rk t = complete_login env' password (failure_key email rk) ?u ?s"
    using assms(3) found
    by (cases "is_login_rate_limited (ev_checked_at env') (failure_key email rk) (au_failures t)")
      (simp add: login_def Let_def op_defs on_failures_def with_db_def failure_key_def)
  obtain u where u: "complete_login env' password (failure_key email rk) ?u ?s =
      (Inr \<lparr>sr_token = ev_token env', sr_expires_at = ev_issued_at env' + session_ttl, sr_actor = user_to_actor (touch_user env' password ?u)\<rparr>, u)"
    "ad_users (au_db u) = update_where (\<lambda>r. us_id r = us_id ?u) (touch_user env' password) (ad_users (au_db t))"
    "ad_sessions (au_db u) = ad_sessions (au_db t) @ [\<lparr>se_token = ev_token env', se_user_id = us_id ?u,
      se_expires_at = ev_issued_at env' + session_ttl, se_user_snapshot = user_to_actor (touch_user env' password ?u)\<rparr>]"
    "ad_controls (au_db u) = ad_controls (au_db t)"
    by (rule complete_login_total [of ?u ?s env']) (use assms(4,5) in \<open>simp_all add: new_user_def\<close>)
  have "touch_user env' password ?u \<in> set (ad_users (au_db u))"
    unfolding u(2) in_update_where by (rule bexI [of _ ?u]) (simp_all add: 1(3))
  moreover have "blocked_principal_for_actor (au_db u) x = blocked_principal_for_actor (au_db t) x" for x
    by (simp add: blocked_principal_for_actor_def u(4))
  ultimately have "valid_session now (au_db u) (ev_token env') (touch_user env' password ?u)"
    using assms(4,6) by (simp add: valid_session_def u(3)) (simp add: new_user_def)
  then show ?thesis using run u(1) by (intro exI conjI) (assumption | simp add: new_user_def)+
qed

lemma sample_signup:
  "\<exists>r. signup True sample_auth_env ''kim@asklake.io'' ''secret'' ''Kim'' empty_auth =
     (Inr r, empty_auth\<lparr>au_db := (au_db empty_auth)\<lparr>
       ad_users := [new_user sample_auth_env (normalize_email ''kim@asklake.io'') ''secret'' ''Kim''],
       ad_sessions := [\<lparr>se_token = ''t1'', se_user_id = ''kim-1'', se_expires_at = 3 + session_ttl,
         se_user_snapshot = user_to_actor (new_user sample_auth_env (normalize_email ''kim@asklake.io'') ''secret'' ''Kim'')\<rparr>]\<rparr>\<rparr>)"
proof -
  have "plausible_email (normalize_email ''kim@asklake.io'')" by code_simp
  then show ?thesis
    by (simp add: signup_def op_defs with_db_def user_by_email_def lookup_key_def add_user_def create_session_def sql_insert_def
        user_unique_def transaction_def empty_auth_def Let_def sample_auth_env_def new_user_def)
qed

theorem signup_then_login_witness:
  "\<exists>t r' u v. login (sample_auth_env\<lparr>ev_token := ''t2''\<rparr>) ''kim@asklake.io'' ''secret'' None t = (Inr r', u)
    \<and> valid_session 10 (au_db u) ''t2'' v \<and> us_role v = ''viewer''"
proof -
  obtain r t where run: "signup True sample_auth_env ''kim@asklake.io'' ''secret'' ''Kim'' empty_auth = (Inr r, t)"
    and t: "t = empty_auth\<lparr>au_db := (au_db empty_auth)\<lparr>
       ad_users := [new_user sample_auth_env (normalize_email ''kim@asklake.io'') ''secret'' ''Kim''],
       ad_sessions := [\<lparr>se_token = ''t1'', se_user_id = ''kim-1'', se_expires_at = 3 + session_ttl,
         se_user_snapshot = user_to_actor (new_user sample_auth_env (normalize_email ''kim@asklake.io'') ''secret'' ''Kim'')\<rparr>]\<rparr>\<rparr>"
    using sample_signup by blast
  have "identities_ok (au_db empty_auth)" by (simp add: identities_ok_def empty_auth_def)
  moreover have "\<not> fst (is_login_rate_limited (ev_checked_at (sample_auth_env\<lparr>ev_token := ''t2''\<rparr>))
      (failure_key ''kim@asklake.io'' None) (au_failures t))"
    by (simp add: t empty_auth_def is_login_rate_limited_def prune_login_failures_def failures_of_def)
  moreover have "blocked_principal_for_actor (au_db t) x = None" for x
    by (simp add: t empty_auth_def blocked_principal_for_actor_def)
  ultimately show ?thesis
    using signup_then_login [OF run, of "sample_auth_env\<lparr>ev_token := ''t2''\<rparr>" None 10]
    by (simp add: t sample_auth_env_def session_ttl_def seconds_def) blast
qed

subsection \<open>Startup\<close>

text \<open>In production, without the demo accounts, startup changes no existing account: it adds one administrator or none,
  and an address in use by somebody else is an error.\<close>

lemma startup_promotes_nobody:
  assumes "\<not> st_header_fallback st" and "\<not> st_legacy_demo_users st" and "initialize_auth st salts env s = (Inr u, t)"
  shows "ad_users t = ad_users s \<or> (\<exists>a. ad_users t = ad_users s @ [a] \<and> us_role a = ''admin'' \<and> us_email a \<notin> us_email ` set (ad_users s))"
  using assms
  by (auto simp: initialize_auth_def transaction_Inr_iff ensure_bootstrap_admin_def op_elims add_user_def sql_insert_def
      user_unique_def bootstrap_admin_def split: list.splits option.splits if_splits)

end
