(* ===== verification/Permissions.thy ===== *)
theory Permissions
  imports Governance
begin

section \<open>Permission grants and decisions\<close>

text \<open>
  The decision functions of \<open>core/auth_context.py\<close>, \<open>repositories/permission_repository.py\<close> and
  \<open>services/resource_permission_service.py\<close>. The pydantic class \<open>PermissionGrant\<close> is a record; validating
  a dictionary and constructing an instance are pydantic's and are arguments, with their contract in the
  locale \<open>grant_validation\<close>. Generated identifiers and the time of a call are arguments.
\<close>

subsection \<open>Data\<close>

record PermissionGrant =
  pg_id :: "string option"
  pg_actions :: "string list"
  pg_principal_id :: string
  pg_principal_name :: "string option"
  pg_principal_type :: string
  pg_source :: string

record ResourcePermissions =
  can_view :: bool
  can_query :: bool
  can_run :: bool
  can_manage :: bool
  can_delete :: bool
  can_share :: bool
  can_publish :: bool
  computed_for :: string
  enforced :: bool

definition principal_types :: "string list" where
  "principal_types = [''user'', ''group'', ''role'', ''public'']"

text \<open>The declared types of the fields.\<close>

definition grant_typed :: "PermissionGrant \<Rightarrow> bool" where
  "grant_typed g \<longleftrightarrow> set (pg_actions g) \<subseteq> set known_actions \<and> pg_principal_type g \<in> set principal_types"

text \<open>\<open>grant.model_dump(by_alias=True)\<close>\<close>

definition grant_dump :: "PermissionGrant \<Rightarrow> dict" where
  "grant_dump g =
     [(''id'', of_opt_str (pg_id g)), (''actions'', JList (map JStr (pg_actions g))),
      (''principalId'', JStr (pg_principal_id g)), (''principalName'', of_opt_str (pg_principal_name g)),
      (''principalType'', JStr (pg_principal_type g)), (''source'', JStr (pg_source g))]"

record grant_model =
  gm_validate :: "dict \<Rightarrow> PermissionGrant res"
  gm_construct :: "PermissionGrant \<Rightarrow> PermissionGrant res"

text \<open>An element of a list of grants: an instance of the class or a plain value.\<close>

datatype grant_item = GrantObject PermissionGrant | GrantValue json

subsection \<open>Decisions\<close>

text \<open>\<open>item in container\<close> for a string item.\<close>

fun py_contains :: "string \<Rightarrow> json \<Rightarrow> bool res" where
  "py_contains a (JList xs) = Inr (JStr a \<in> set xs)"
| "py_contains a (JStr s) = Inr (py_in a s)"
| "py_contains a (JObj d) = Inr (a \<in> fst ` set d)"
| "py_contains a _ = Inl (TypeError ''argument is not iterable'')"

definition grant_principal :: "dict \<Rightarrow> string \<times> string" where
  "grant_principal d =
     (py_str (por (por (jget ''principalType'' d) (jget ''principal_type'' d)) (JStr '''')),
      py_str (por (por (jget ''principalId'' d) (jget ''principal_id'' d)) (JStr '''')))"

definition principal_matches :: "ActorContext \<Rightarrow> dict \<Rightarrow> bool" where
  "principal_matches actor d \<longleftrightarrow>
     fst (grant_principal d) = ''public'' \<or> grant_principal d \<in> set (actor_principals actor)"

fun grants_allow :: "ActorContext \<Rightarrow> string \<Rightarrow> json list \<Rightarrow> bool res" where
  "grants_allow actor action [] = Inr False"
| "grants_allow actor action (g # gs) =
     (case as_dict g of
        None \<Rightarrow> grants_allow actor action gs
      | Some d \<Rightarrow>
          (case py_contains action (por (jget ''actions'' d) (JList [])) of
             Inl e \<Rightarrow> Inl e
           | Inr hit \<Rightarrow> if hit \<and> principal_matches actor d then Inr True else grants_allow actor action gs))"

definition can :: "ActorContext \<Rightarrow> string \<Rightarrow> string option \<Rightarrow> json list \<Rightarrow> bool res" where
  "can actor action owner grants =
     (if py_strip action = [] then Inr False
      else if actor_is_admin actor then Inr True
      else if some_text owner = [act_name actor] then Inr True
      else grants_allow actor (py_strip action) grants)"

definition grant_payloads :: "grant_item list \<Rightarrow> json list" where
  "grant_payloads items =
     concat (map (\<lambda>i. case i of GrantObject g \<Rightarrow> [JObj (grant_dump g)]
        | GrantValue v \<Rightarrow> if as_dict v = None then [] else [v]) items)"

definition forbidden_action :: "ActorContext \<Rightarrow> string \<Rightarrow> string \<Rightarrow> py_error" where
  "forbidden_action actor label resource_label =
     ApiError ''FORBIDDEN'' (''Actor '' @ act_name actor @ '' is not allowed to '' @ label @ '' this '' @ resource_label) 403 []"

definition require_permission :: "ActorContext \<Rightarrow> string \<Rightarrow> string option \<Rightarrow> grant_item list \<Rightarrow> string \<Rightarrow> unit res" where
  "require_permission actor action owner grants resource_label =
     bind_res (can actor action owner (grant_payloads grants)) (\<lambda>ok.
     if ok then Inr () else Inl (forbidden_action actor action resource_label))"

fun any_allowed :: "ActorContext \<Rightarrow> string list \<Rightarrow> string option \<Rightarrow> json list \<Rightarrow> bool res" where
  "any_allowed actor [] owner grants = Inr False"
| "any_allowed actor (a # rest) owner grants =
     (case can actor a owner grants of
        Inl e \<Rightarrow> Inl e | Inr ok \<Rightarrow> if ok then Inr True else any_allowed actor rest owner grants)"

definition require_any_permission ::
  "ActorContext \<Rightarrow> string list \<Rightarrow> string option \<Rightarrow> grant_item list \<Rightarrow> string \<Rightarrow> unit res" where
  "require_any_permission actor actions owner grants resource_label =
     bind_res (any_allowed actor actions owner (grant_payloads grants)) (\<lambda>ok.
     if ok then Inr ()
     else let joined = py_join ''/'' actions
          in Inl (forbidden_action actor (if joined = [] then ''access'' else joined) resource_label))"

definition permissions_for_actor ::
  "ActorContext \<Rightarrow> string option \<Rightarrow> grant_item list \<Rightarrow> bool \<Rightarrow> ResourcePermissions res" where
  "permissions_for_actor actor owner grants enforced_flag =
     (let ps = grant_payloads grants in
      bind_res (can actor ''view'' owner ps) (\<lambda>v.
      bind_res (can actor ''query'' owner ps) (\<lambda>q.
      bind_res (can actor ''run'' owner ps) (\<lambda>r.
      bind_res (can actor ''manage'' owner ps) (\<lambda>m.
      bind_res (can actor ''delete'' owner ps) (\<lambda>d.
      bind_res (can actor ''share'' owner ps) (\<lambda>sh.
      bind_res (can actor ''publish'' owner ps) (\<lambda>p.
        Inr \<lparr>can_view = v \<or> q \<or> r \<or> m \<or> d \<or> sh \<or> p, can_query = q, can_run = r, can_manage = m, can_delete = d,
             can_share = sh, can_publish = p, computed_for = act_name actor, enforced = enforced_flag\<rparr>))))))))"

subsection \<open>The repository of grants\<close>

definition deleted_seed_source :: string where
  "deleted_seed_source = ''admin_seed_deleted''"

definition legacy_permission_source :: string where
  "legacy_permission_source = ''legacy_permission_roles''"

definition ui_managed_sources :: "string list" where
  "ui_managed_sources = [''permission_ui'', legacy_permission_source]"

definition allowed_actions :: "string list" where
  "allowed_actions = [''view'', ''query'', ''run'', ''manage'', ''delete'', ''share'']"

definition allowed_resource_types :: "string list" where
  "allowed_resource_types = [''dataset'', ''etl_job'', ''dashboard'']"

definition validate_resource_type :: "string \<Rightarrow> string res" where
  "validate_resource_type v =
     (if py_strip v \<in> set allowed_resource_types then Inr (py_strip v)
      else Inl (validation_error (''Unsupported resourceType: '' @ v)))"

definition validate_principal_type :: "string \<Rightarrow> string res" where
  "validate_principal_type v =
     (if py_strip v \<in> set principal_types then Inr (py_strip v)
      else Inl (validation_error (''Unsupported principalType: '' @ v)))"

definition validate_actions :: "string list \<Rightarrow> string list res" where
  "validate_actions values =
     (let normalized = map py_strip (filter (\<lambda>v. py_strip v \<noteq> []) values);
          dependent = (\<exists>a \<in> set normalized. a \<in> set allowed_actions - {''view''});
          actions = sorted_set (if dependent then ''view'' # normalized else normalized);
          unsupported = filter (\<lambda>a. a \<notin> set allowed_actions) actions
      in if actions = [] then Inl (validation_error ''At least one permission action is required'')
         else if unsupported \<noteq> [] then Inl (validation_error (''Unsupported permission actions: '' @ py_join '', '' unsupported))
         else Inr actions)"

definition grant_resource :: "permission_grant_row \<Rightarrow> string \<times> string" where
  "grant_resource r = (gr_resource_type r, gr_resource_id r)"

definition row_fields :: "permission_grant_row \<Rightarrow> PermissionGrant" where
  "row_fields r =
     \<lparr>pg_id = Some (gr_id r), pg_actions = gr_actions r, pg_principal_id = gr_principal_id r,
      pg_principal_name = None, pg_principal_type = gr_principal_type r, pg_source = gr_source r\<rparr>"

definition row_to_permission_grant :: "grant_model \<Rightarrow> permission_grant_row \<Rightarrow> PermissionGrant res" where
  "row_to_permission_grant gm r = gm_construct gm (row_fields r)"

text \<open>\<open>list(dict.fromkeys(xs))\<close>\<close>

definition unique_keys :: "'a list \<Rightarrow> 'a list" where
  "unique_keys xs = rev (remdups (rev xs))"

definition grant_sort_key :: "permission_grant_row \<Rightarrow> string \<times> string \<times> timestamp \<times> string" where
  "grant_sort_key r = (gr_resource_type r, gr_resource_id r, gr_created_at r, gr_id r)"

definition live_rows :: "access_db \<Rightarrow> (string \<times> string) list \<Rightarrow> permission_grant_row list" where
  "live_rows s keys =
     sort_key grant_sort_key
       (filter (\<lambda>r. grant_resource r \<in> set keys \<and> gr_source r \<noteq> deleted_seed_source) (ad_grants s))"

definition list_permission_grants_by_resource ::
  "grant_model \<Rightarrow> access_db \<Rightarrow> (string \<times> string) list \<Rightarrow> ((string \<times> string) \<times> PermissionGrant list) list res" where
  "list_permission_grants_by_resource gm s resource_keys =
     (let keys = unique_keys resource_keys in
      if keys = [] then Inr []
      else bind_res
        (map_res (\<lambda>r. bind_res (row_to_permission_grant gm r) (\<lambda>g. Inr (grant_resource r, g))) (live_rows s keys)) (\<lambda>pairs.
        Inr (map (\<lambda>k. (k, map snd (filter (\<lambda>p. fst p = k) pairs))) keys)))"

definition insert_grants :: "permission_grant_row list \<Rightarrow> (access_db, unit) op" where
  "insert_grants rows = (\<lambda>s.
     if distinct (map gr_id rows) \<and> set (map gr_id rows) \<inter> gr_id ` set (ad_grants s) = {}
     then (Inr (), s\<lparr>ad_grants := ad_grants s @ rows\<rparr>) else (Inl unique_violation, s))"

definition principal_id_for :: "string \<Rightarrow> string \<Rightarrow> string res" where
  "principal_id_for kind pid = (if kind = ''public'' then Inr ''public'' else validate_required pid ''principalId'')"

definition create_permission_grant ::
  "string \<Rightarrow> timestamp \<Rightarrow> string \<Rightarrow> string \<Rightarrow> string \<Rightarrow> string \<Rightarrow> string list \<Rightarrow> string option
   \<Rightarrow> (access_db, permission_grant_row) op" where
  "create_permission_grant uuid now resource_type resource_id principal_type principal_id actions created_by =
     bind_op (lift_res (validate_principal_type principal_type)) (\<lambda>kind.
     bind_op (lift_res (validate_resource_type resource_type)) (\<lambda>rtype.
     bind_op (lift_res (validate_required resource_id ''resourceId'')) (\<lambda>rid.
     bind_op (lift_res (principal_id_for kind principal_id)) (\<lambda>pid.
     bind_op (lift_res (validate_actions actions)) (\<lambda>acts.
       let row = \<lparr>gr_id = ''grant_'' @ uuid, gr_resource_type = rtype, gr_resource_id = rid, gr_principal_type = kind,
         gr_principal_id = pid, gr_actions = acts, gr_source = ''admin'', gr_created_by = created_by, gr_created_at = now\<rparr>
       in bind_op (insert_grants [row]) (\<lambda>_. return_op row))))))"

text \<open>The loop over the requested grants: validated, without repetitions, in the order requested.\<close>

fun requested_grants ::
  "(string \<times> string \<times> string list) list \<Rightarrow> PermissionGrant list \<Rightarrow> (string \<times> string \<times> string list) list res" where
  "requested_grants seen [] = Inr []"
| "requested_grants seen (g # gs) =
     (case validate_principal_type (pg_principal_type g) of Inl e \<Rightarrow> Inl e | Inr kind \<Rightarrow>
     (case principal_id_for kind (pg_principal_id g) of Inl e \<Rightarrow> Inl e | Inr pid \<Rightarrow>
     (case validate_actions (pg_actions g) of Inl e \<Rightarrow> Inl e | Inr actions \<Rightarrow>
        if (kind, pid, actions) \<in> set seen then requested_grants seen gs
        else bind_res (requested_grants ((kind, pid, actions) # seen) gs) (\<lambda>rest. Inr ((kind, pid, actions) # rest)))))"

definition grant_row_of ::
  "(nat \<Rightarrow> string) \<Rightarrow> timestamp \<Rightarrow> string \<times> string \<Rightarrow> string \<Rightarrow> string option
   \<Rightarrow> nat \<times> string \<times> string \<times> string list \<Rightarrow> permission_grant_row" where
  "grant_row_of uuids now resource source created_by = (\<lambda>(i, kind, pid, actions).
     \<lparr>gr_id = ''grant_'' @ uuids i, gr_resource_type = fst resource, gr_resource_id = snd resource,
      gr_principal_type = kind, gr_principal_id = pid, gr_actions = actions, gr_source = source,
      gr_created_by = created_by, gr_created_at = now\<rparr>)"

definition ui_managed :: "string \<times> string \<Rightarrow> permission_grant_row \<Rightarrow> bool" where
  "ui_managed resource r \<longleftrightarrow> grant_resource r = resource \<and> gr_source r \<in> set ui_managed_sources"

definition replace_permission_ui_grants ::
  "grant_model \<Rightarrow> (nat \<Rightarrow> string) \<Rightarrow> timestamp \<Rightarrow> string \<Rightarrow> string \<Rightarrow> PermissionGrant list \<Rightarrow> string option
   \<Rightarrow> (access_db, PermissionGrant list) op" where
  "replace_permission_ui_grants gm uuids now resource_type resource_id grants created_by =
     bind_op (lift_res (validate_resource_type resource_type)) (\<lambda>rtype.
     bind_op (lift_res (validate_required resource_id ''resourceId'')) (\<lambda>rid.
     bind_op (write_op (\<lambda>s. s\<lparr>ad_grants := filter (\<lambda>r. \<not> ui_managed (rtype, rid) r) (ad_grants s)\<rparr>)) (\<lambda>_.
     bind_op (lift_res (requested_grants [] grants)) (\<lambda>keys.
       let rows = map (grant_row_of uuids now (rtype, rid) ''permission_ui'' created_by) (enumerate 0 keys)
       in bind_op (insert_grants rows) (\<lambda>_. lift_res (map_res (row_to_permission_grant gm) rows))))))"

definition grants_of :: "((string \<times> string) \<times> PermissionGrant list) list \<Rightarrow> string \<times> string \<Rightarrow> PermissionGrant list" where
  "grants_of d k = (case map_of d k of None \<Rightarrow> [] | Some gs \<Rightarrow> gs)"

definition read_grants :: "grant_model \<Rightarrow> string \<times> string \<Rightarrow> (access_db, PermissionGrant list) op" where
  "read_grants gm k = (\<lambda>s. (bind_res (list_permission_grants_by_resource gm s [k]) (\<lambda>d. Inr (grants_of d k)), s))"

definition ensure_legacy_permission_grants ::
  "grant_model \<Rightarrow> (nat \<Rightarrow> string) \<Rightarrow> timestamp \<Rightarrow> string \<Rightarrow> string \<Rightarrow> PermissionGrant list \<Rightarrow> string option
   \<Rightarrow> (access_db, PermissionGrant list) op" where
  "ensure_legacy_permission_grants gm uuids now resource_type resource_id grants created_by =
     bind_op (lift_res (validate_resource_type resource_type)) (\<lambda>rtype.
     bind_op (lift_res (validate_required resource_id ''resourceId'')) (\<lambda>rid.
     bind_op (read_op (\<lambda>s. filter (ui_managed (rtype, rid)) (ad_grants s))) (\<lambda>existing.
     if existing \<noteq> [] \<or> grants = [] then read_grants gm (rtype, rid)
     else bind_op (lift_res (requested_grants [] grants)) (\<lambda>keys.
       bind_op (insert_grants (map (grant_row_of uuids now (rtype, rid) legacy_permission_source created_by)
         (enumerate 0 keys))) (\<lambda>_.
       read_grants gm (rtype, rid))))))"

definition get_permission_grant_or_404 :: "string \<Rightarrow> (access_db, permission_grant_row) op" where
  "get_permission_grant_or_404 grant_id = (\<lambda>s.
     case lookup_key gr_id grant_id (ad_grants s) of
       None \<Rightarrow> (Inl (ApiError ''NOT_FOUND'' (''Permission grant '' @ grant_id @ '' was not found'') 404 []), s)
     | Some r \<Rightarrow> (Inr r, s))"

definition write_grant_row :: "permission_grant_row \<Rightarrow> (access_db, unit) op" where
  "write_grant_row row =
     write_op (\<lambda>s. s\<lparr>ad_grants := update_where (\<lambda>r. gr_id r = gr_id row) (\<lambda>_. row) (ad_grants s)\<rparr>)"

text \<open>The three optional changes of an update, and the identifier a public grant always has.\<close>

definition change_principal_type :: "string option \<Rightarrow> string option \<Rightarrow> permission_grant_row \<Rightarrow> permission_grant_row res" where
  "change_principal_type principal_type principal_id row =
     (case principal_type of
        None \<Rightarrow> Inr row
      | Some t \<Rightarrow> bind_res (validate_principal_type t) (\<lambda>kind.
          if kind \<noteq> ''public'' \<and> gr_principal_type row = ''public'' \<and> principal_id = None
          then Inl (validation_error ''principalId is required when changing a public grant to a user, group, or role grant'')
          else Inr (row\<lparr>gr_principal_type := kind\<rparr>)))"

definition change_principal_id :: "string option \<Rightarrow> permission_grant_row \<Rightarrow> permission_grant_row res" where
  "change_principal_id principal_id row =
     (case principal_id of
        None \<Rightarrow> Inr row
      | Some p \<Rightarrow> bind_res (validate_required p ''principalId'') (\<lambda>pid. Inr (row\<lparr>gr_principal_id := pid\<rparr>)))"

definition change_actions :: "string list option \<Rightarrow> permission_grant_row \<Rightarrow> permission_grant_row res" where
  "change_actions actions row =
     (case actions of
        None \<Rightarrow> Inr row
      | Some a \<Rightarrow> bind_res (validate_actions a) (\<lambda>acts. Inr (row\<lparr>gr_actions := acts\<rparr>)))"

definition public_principal :: "permission_grant_row \<Rightarrow> permission_grant_row" where
  "public_principal row = (if gr_principal_type row = ''public'' then row\<lparr>gr_principal_id := ''public''\<rparr> else row)"

definition update_permission_grant ::
  "string \<Rightarrow> string option \<Rightarrow> string option \<Rightarrow> string list option \<Rightarrow> (access_db, permission_grant_row) op" where
  "update_permission_grant grant_id principal_type principal_id actions =
     bind_op (get_permission_grant_or_404 grant_id) (\<lambda>row.
     bind_op (lift_res (change_principal_type principal_type principal_id row)) (\<lambda>row1.
     bind_op (lift_res (change_principal_id principal_id row1)) (\<lambda>row2.
     bind_op (lift_res (change_actions actions row2)) (\<lambda>row3.
     bind_op (write_grant_row (public_principal row3)) (\<lambda>_. return_op (public_principal row3))))))"

definition delete_permission_grant :: "string \<Rightarrow> (access_db, permission_grant_row) op" where
  "delete_permission_grant grant_id =
     bind_op (get_permission_grant_or_404 grant_id) (\<lambda>row.
     if gr_source row = ''admin_seed''
     then bind_op (write_grant_row (row\<lparr>gr_source := deleted_seed_source\<rparr>)) (\<lambda>_.
       return_op (row\<lparr>gr_source := deleted_seed_source\<rparr>))
     else bind_op (write_op (\<lambda>s. s\<lparr>ad_grants := filter (\<lambda>r. gr_id r \<noteq> grant_id) (ad_grants s)\<rparr>)) (\<lambda>_.
       return_op row))"

definition build_grant_row ::
  "string \<Rightarrow> timestamp \<Rightarrow> string \<Rightarrow> string \<Rightarrow> string \<Rightarrow> string \<Rightarrow> string list \<Rightarrow> permission_grant_row" where
  "build_grant_row uuid now resource_type resource_id principal_type principal_id actions =
     \<lparr>gr_id = ''grant_'' @ uuid, gr_resource_type = resource_type, gr_resource_id = resource_id,
      gr_principal_type = principal_type, gr_principal_id = principal_id, gr_actions = actions,
      gr_source = ''admin_seed'', gr_created_by = Some ''system'', gr_created_at = now\<rparr>"

definition grant_target :: "permission_grant_row \<Rightarrow> string \<times> string \<times> string \<times> string" where
  "grant_target r = (gr_resource_type r, gr_resource_id r, gr_principal_type r, gr_principal_id r)"

definition demo_rows :: "(nat \<Rightarrow> string) \<Rightarrow> timestamp \<Rightarrow> string list \<Rightarrow> string list \<Rightarrow> string list \<Rightarrow> permission_grant_row list" where
  "demo_rows uuids now dataset_ids job_ids dashboard_ids =
     (case dataset_ids of [] \<Rightarrow> [] | d # _ \<Rightarrow>
        [build_grant_row (uuids 0) now ''dataset'' d ''group'' ''analytics'' [''view'', ''query'']])
     @ (case job_ids of [] \<Rightarrow> [] | j # _ \<Rightarrow>
        [build_grant_row (uuids 1) now ''etl_job'' j ''group'' ''ops'' [''view'', ''run'']])
     @ (case dashboard_ids of [] \<Rightarrow> [] | b # _ \<Rightarrow>
        [build_grant_row (uuids 2) now ''dashboard'' b ''group'' ''analytics'' [''view'']])"

definition seeded_targets :: "access_db \<Rightarrow> (string \<times> string \<times> string \<times> string) set" where
  "seeded_targets s =
     grant_target ` set (filter (\<lambda>r. gr_source r \<in> {''admin_seed'', deleted_seed_source}) (ad_grants s))"

definition ensure_demo_permission_grants ::
  "(nat \<Rightarrow> string) \<Rightarrow> timestamp \<Rightarrow> string list \<Rightarrow> string list \<Rightarrow> string list \<Rightarrow> (access_db, nat) op" where
  "ensure_demo_permission_grants uuids now dataset_ids job_ids dashboard_ids =
     (let desired = demo_rows uuids now dataset_ids job_ids dashboard_ids in
      if desired = [] then return_op 0
      else bind_op (read_op (\<lambda>s. filter (\<lambda>r. grant_target r \<notin> seeded_targets s) desired)) (\<lambda>rows.
        if rows = [] then return_op 0
        else bind_op (insert_grants rows) (\<lambda>_. return_op (length rows))))"

subsection \<open>Grants and governance together\<close>

fun parse_permission_grants :: "grant_model \<Rightarrow> grant_item list \<Rightarrow> PermissionGrant list res" where
  "parse_permission_grants gm [] = Inr []"
| "parse_permission_grants gm (GrantObject g # items) =
     bind_res (parse_permission_grants gm items) (\<lambda>rest. Inr (g # rest))"
| "parse_permission_grants gm (GrantValue v # items) =
     (case as_dict v of
        None \<Rightarrow> parse_permission_grants gm items
      | Some d \<Rightarrow> bind_res (gm_validate gm d) (\<lambda>g.
          bind_res (parse_permission_grants gm items) (\<lambda>rest. Inr (g # rest))))"

definition merge_permission_grants :: "grant_model \<Rightarrow> grant_item list list \<Rightarrow> PermissionGrant list res" where
  "merge_permission_grants gm groups =
     bind_res (map_res (parse_permission_grants gm) groups) (\<lambda>parsed.
     parse_permission_grants gm (map (GrantValue \<circ> JObj) (dedupe_grants (map grant_dump (concat parsed)))))"

definition permission_grants_for_resource ::
  "grant_model \<Rightarrow> access_db \<Rightarrow> string \<times> string \<Rightarrow> PermissionGrant list \<Rightarrow> PermissionGrant list res" where
  "permission_grants_for_resource gm s resource fallback =
     bind_res (list_permission_grants_by_resource gm s [resource]) (\<lambda>d.
     merge_permission_grants gm [map GrantObject fallback, map GrantObject (grants_of d resource)])"

definition permissions_for_actor_with_governance_state ::
  "ActorContext \<Rightarrow> grant_item list \<Rightarrow> string option \<Rightarrow> bool \<Rightarrow> bool \<Rightarrow> ResourcePermissions res" where
  "permissions_for_actor_with_governance_state actor grants owner principal_blocked resource_locked =
     bind_res (permissions_for_actor actor owner grants True) (\<lambda>p.
     if principal_blocked
     then Inr (p\<lparr>can_view := False, can_query := False, can_run := False, can_manage := False,
                 can_delete := False, can_share := False, can_publish := False\<rparr>)
     else if \<not> resource_locked then Inr p
     else Inr (p\<lparr>can_query := False, can_run := False, can_manage := False,
                 can_delete := False, can_share := False, can_publish := False\<rparr>))"

definition permissions_for_actor_with_governance ::
  "ActorContext \<Rightarrow> grant_item list \<Rightarrow> string option \<Rightarrow> string \<Rightarrow> string \<Rightarrow> (access_db, ResourcePermissions) op" where
  "permissions_for_actor_with_governance actor grants owner resource_id resource_type =
     bind_op (read_op (\<lambda>s. blocked_principal_for_actor s (actor_subject actor) \<noteq> None)) (\<lambda>blocked.
     bind_op (resource_lock_for_action ''query'' resource_id resource_type) (\<lambda>lock.
     lift_res (permissions_for_actor_with_governance_state actor grants owner blocked (lock \<noteq> None))))"

subsection \<open>Pydantic's contract\<close>

text \<open>A dumped grant validates to itself, and a grant with fields of the declared types can be constructed.\<close>

locale grant_validation =
  fixes gm :: grant_model
  assumes validate_dump: "grant_typed g \<Longrightarrow> gm_validate gm (grant_dump g) = Inr g"
    and construct_typed: "grant_typed g \<Longrightarrow> gm_construct gm g = Inr g"
begin

lemma parse_dumped:
  "\<forall>g \<in> set gs. grant_typed g \<Longrightarrow> parse_permission_grants gm (map (GrantValue \<circ> JObj) (map grant_dump gs)) = Inr gs"
  by (induction gs) (simp_all add: validate_dump)

lemma construct_row: "grant_typed (row_fields r) \<Longrightarrow> row_to_permission_grant gm r = Inr (row_fields r)"
  by (simp add: row_to_permission_grant_def construct_typed)

end

text \<open>The declarations of \<open>schemas/permissions.py\<close> read as a validator: fields under their alias or their name,
  required principal, literal members.\<close>

definition field :: "string \<Rightarrow> string \<Rightarrow> dict \<Rightarrow> json option" where
  "field alias name d = (case map_of d alias of Some v \<Rightarrow> Some v | None \<Rightarrow> map_of d name)"

fun opt_text_field :: "json option \<Rightarrow> string option option" where
  "opt_text_field None = Some None"
| "opt_text_field (Some JNull) = Some None"
| "opt_text_field (Some (JStr s)) = Some (Some s)"
| "opt_text_field _ = None"

fun text_list :: "json list \<Rightarrow> string list option" where
  "text_list [] = Some []"
| "text_list (JStr s # xs) = map_option (Cons s) (text_list xs)"
| "text_list _ = None"

definition schema_construct :: "PermissionGrant \<Rightarrow> PermissionGrant res" where
  "schema_construct g = (if grant_typed g then Inr g else Inl (ValueError ''validation error for PermissionGrant''))"

definition schema_validate :: "dict \<Rightarrow> PermissionGrant res" where
  "schema_validate d =
     (case (opt_text_field (map_of d ''id''), field ''principalId'' ''principal_id'' d,
            opt_text_field (field ''principalName'' ''principal_name'' d), field ''principalType'' ''principal_type'' d,
            (case map_of d ''source'' of None \<Rightarrow> Some ''metadata'' | Some (JStr v) \<Rightarrow> Some v | Some _ \<Rightarrow> None),
            (case map_of d ''actions'' of None \<Rightarrow> Some [] | Some (JList xs) \<Rightarrow> text_list xs | Some _ \<Rightarrow> None)) of
        (Some gid, Some (JStr pid), Some pname, Some (JStr kind), Some src, Some actions) \<Rightarrow>
          schema_construct \<lparr>pg_id = gid, pg_actions = actions, pg_principal_id = pid, pg_principal_name = pname,
            pg_principal_type = kind, pg_source = src\<rparr>
      | _ \<Rightarrow> Inl (ValueError ''validation error for PermissionGrant''))"

definition schema_grant_model :: grant_model where
  "schema_grant_model = \<lparr>gm_validate = schema_validate, gm_construct = schema_construct\<rparr>"

lemma text_list_map: "text_list (map JStr xs) = Some xs"
  by (induction xs) simp_all

lemma opt_text_field_of: "opt_text_field (Some (of_opt_str v)) = Some v"
  by (cases v) (simp_all add: of_opt_str_def)

interpretation schema: grant_validation schema_grant_model
  by unfold_locales
    (simp_all add: schema_grant_model_def schema_validate_def schema_construct_def grant_dump_def field_def
      text_list_map opt_text_field_of grant_typed_def)

subsection \<open>Decisions over lists of grants\<close>

definition grant_applies :: "ActorContext \<Rightarrow> PermissionGrant \<Rightarrow> bool" where
  "grant_applies actor g \<longleftrightarrow> pg_principal_type g = ''public'' \<or>
     (pg_principal_type g, pg_principal_id g) \<in> set (actor_principals actor)"

definition grants_permit :: "ActorContext \<Rightarrow> string \<Rightarrow> PermissionGrant list \<Rightarrow> bool" where
  "grants_permit actor action gs \<longleftrightarrow> (\<exists>g \<in> set gs. action \<in> set (pg_actions g) \<and> grant_applies actor g)"

lemma str_or_empty: "py_str (por (por (JStr v) x) (JStr '''')) = (if v = [] then py_str (por x (JStr '''')) else v)"
  by (simp add: por_def)

lemma principal_matches_dump: "principal_matches actor (grant_dump g) \<longleftrightarrow> grant_applies actor g"
  by (simp add: principal_matches_def grant_principal_def grant_dump_def str_or_empty grant_applies_def)
    (simp add: por_def)

lemma contains_dump: "py_contains a (por (jget ''actions'' (grant_dump g)) (JList [])) = Inr (a \<in> set (pg_actions g))"
  by (auto simp: grant_dump_def por_def)

lemma grants_allow_objects:
  "grants_allow actor a (grant_payloads (map GrantObject gs)) = Inr (grants_permit actor a gs)"
  by (induction gs)
    (auto simp: grant_payloads_def grants_permit_def contains_dump principal_matches_dump split: if_splits)

lemma can_objects:
  "can actor a owner (grant_payloads (map GrantObject gs)) =
     Inr (py_strip a \<noteq> [] \<and> (actor_is_admin actor \<or> some_text owner = [act_name actor] \<or> grants_permit actor (py_strip a) gs))"
  by (simp add: can_def grants_allow_objects)

text \<open>Two grants with the same key are the same for a decision, so dropping one changes nothing.\<close>

definition same_grant :: "PermissionGrant \<Rightarrow> PermissionGrant \<Rightarrow> bool" where
  "same_grant g h \<longleftrightarrow> grant_key (grant_dump g) = grant_key (grant_dump h)"

lemma grant_key_dump: "grant_key (grant_dump g) = (pg_principal_type g, pg_principal_id g, sort (pg_actions g))"
  by (simp add: grant_key_def grant_dump_def comp_def)

lemma same_grant_permits:
  assumes "same_grant g h"
  shows "grant_applies actor g = grant_applies actor h" and "set (pg_actions g) = set (pg_actions h)"
  using assms by (auto simp: same_grant_def grant_key_dump grant_applies_def dest: arg_cong [where f = set])

lemma dedupe_from_dumps:
  "\<exists>hs. dedupe_from seen (map grant_dump gs) = map grant_dump hs \<and> set hs \<subseteq> set gs
     \<and> (\<forall>g \<in> set gs. grant_key (grant_dump g) \<in> set seen \<or> (\<exists>h \<in> set hs. same_grant h g))"
proof (induction gs arbitrary: seen)
  case Nil
  then show ?case by simp
next
  case (Cons g gs)
  show ?case
  proof (cases "grant_key (grant_dump g) \<in> set seen")
    case True
    obtain hs where "dedupe_from seen (map grant_dump gs) = map grant_dump hs" "set hs \<subseteq> set gs"
      "\<forall>x \<in> set gs. grant_key (grant_dump x) \<in> set seen \<or> (\<exists>h \<in> set hs. same_grant h x)"
      using Cons.IH by blast
    then show ?thesis using True by (intro exI [of _ hs]) auto
  next
    case False
    obtain hs where hs: "dedupe_from (grant_key (grant_dump g) # seen) (map grant_dump gs) = map grant_dump hs"
      "set hs \<subseteq> set gs"
      "\<forall>x \<in> set gs. grant_key (grant_dump x) \<in> set (grant_key (grant_dump g) # seen) \<or> (\<exists>h \<in> set hs. same_grant h x)"
      using Cons.IH by blast
    then show ?thesis using False by (intro exI [of _ "g # hs"]) (auto simp: same_grant_def)
  qed
qed

lemma parse_objects: "parse_permission_grants gm (map GrantObject gs) = Inr gs"
  by (induction gs) simp_all

lemma map_res_parse_objects: "map_res (parse_permission_grants gm) (map (map GrantObject) groups) = Inr groups"
  by (induction groups) (simp_all add: parse_objects)

context grant_validation
begin

lemma merge_permits:
  assumes "\<forall>g \<in> set (concat groups). grant_typed g"
  obtains hs where "merge_permission_grants gm (map (map GrantObject) groups) = Inr hs"
    and "\<And>actor a. grants_permit actor a hs = grants_permit actor a (concat groups)"
    and "set hs \<subseteq> set (concat groups)"
proof -
  obtain hs where hs: "dedupe_from [] (map grant_dump (concat groups)) = map grant_dump hs" "set hs \<subseteq> set (concat groups)"
    "\<forall>g \<in> set (concat groups). \<exists>h \<in> set hs. same_grant h g"
    using dedupe_from_dumps [of "[]" "concat groups"] by auto
  have "parse_permission_grants gm (map (GrantValue \<circ> JObj) (map grant_dump hs)) = Inr hs"
    using assms hs(2) by (intro parse_dumped) auto
  then have "merge_permission_grants gm (map (map GrantObject) groups) = Inr hs"
    using hs(1) by (simp add: merge_permission_grants_def map_res_parse_objects dedupe_grants_def)
  moreover have "grants_permit actor a hs = grants_permit actor a (concat groups)" for actor a
    using hs(2,3) same_grant_permits by (fastforce simp: grants_permit_def)
  ultimately show ?thesis using that hs(2) by blast
qed

end

end
