(* ===== verification/Grant_Table.thy ===== *)
theory Grant_Table
  imports Permissions
begin

section \<open>The table of grants\<close>

text \<open>
  What every call of \<open>repositories/permission_repository.py\<close> keeps of the table, the access matrix the table
  stands for, and the decisions that follow from it: merging, deduplicating and reading grants back never
  changes who may do what.
\<close>

subsection \<open>The invariant\<close>

definition grant_row_ok :: "permission_grant_row \<Rightarrow> bool" where
  "grant_row_ok r \<longleftrightarrow>
     gr_resource_type r \<in> set allowed_resource_types \<and> gr_principal_type r \<in> set principal_types
     \<and> gr_principal_id r \<noteq> [] \<and> (gr_principal_type r = ''public'' \<longrightarrow> gr_principal_id r = ''public'')
     \<and> distinct (gr_actions r) \<and> set (gr_actions r) \<subseteq> set allowed_actions \<and> ''view'' \<in> set (gr_actions r)"

definition grants_ok :: "access_db \<Rightarrow> bool" where
  "grants_ok s \<longleftrightarrow> keyed gr_id (ad_grants s) \<and> (\<forall>r \<in> set (ad_grants s). grant_row_ok r)"

text \<open>The calls of the repository that succeeded; the first argument is the grant that an administrator named.\<close>

inductive grant_call :: "string option \<Rightarrow> access_db \<Rightarrow> access_db \<Rightarrow> bool" where
  create: "create_permission_grant uuid now rtype rid kind pid actions who s = (Inr r, t) \<Longrightarrow> grant_call None s t"
| replace: "replace_permission_ui_grants gm uuids now rtype rid grants who s = (Inr gs, t) \<Longrightarrow> grant_call None s t"
| legacy: "ensure_legacy_permission_grants gm uuids now rtype rid grants who s = (Inr gs, t) \<Longrightarrow> grant_call None s t"
| update: "update_permission_grant gid kind_opt pid_opt actions_opt s = (Inr r, t) \<Longrightarrow> grant_call (Some gid) s t"
| delete: "delete_permission_grant gid s = (Inr r, t) \<Longrightarrow> grant_call (Some gid) s t"
| seed: "ensure_demo_permission_grants uuids now ds js boards s = (Inr n, t) \<Longrightarrow> grant_call None s t"

definition grant_step :: "access_db \<Rightarrow> access_db \<Rightarrow> bool" where
  "grant_step s t \<longleftrightarrow> (\<exists>g. grant_call g s t)"

lemma validate_actions_Inr:
  assumes "validate_actions vs = Inr acts"
  shows "distinct acts" and "set acts \<subseteq> set allowed_actions" and "''view'' \<in> set acts"
proof -
  let ?n = "map py_strip (filter (\<lambda>v. py_strip v \<noteq> []) vs)"
  let ?d = "\<exists>a \<in> set ?n. a \<in> set allowed_actions - {''view''}"
  have acts: "acts = sorted_set (if ?d then ''view'' # ?n else ?n)" and ne: "acts \<noteq> []"
    and sup: "filter (\<lambda>a. a \<notin> set allowed_actions) acts = []"
    using assms by (auto simp: validate_actions_def Let_def split: if_splits)
  show "distinct acts" by (simp add: acts)
  show sub: "set acts \<subseteq> set allowed_actions" using sup by (auto simp: filter_empty_conv)
  show "''view'' \<in> set acts"
  proof (cases ?d)
    case True
    then show ?thesis by (simp add: acts)
  next
    case False
    obtain a where a: "a \<in> set acts" using ne list.set_sel(1) by blast
    have eq: "acts = sorted_set ?n" using acts False by (simp only: if_False)
    then have "a \<in> set ?n" using a by (simp only: set_sorted_set)
    moreover have "a \<in> set allowed_actions" using a sub by blast
    ultimately show ?thesis using False a by blast
  qed
qed

definition grant_key_ok :: "string \<times> string \<times> string list \<Rightarrow> bool" where
  "grant_key_ok = (\<lambda>(kind, pid, acts).
     kind \<in> set principal_types \<and> pid \<noteq> [] \<and> (kind = ''public'' \<longrightarrow> pid = ''public'')
     \<and> distinct acts \<and> set acts \<subseteq> set allowed_actions \<and> ''view'' \<in> set acts)"

lemma validated_key:
  assumes "validate_principal_type t = Inr kind" and "principal_id_for kind p = Inr pid" and "validate_actions vs = Inr acts"
  shows "grant_key_ok (kind, pid, acts)"
proof -
  have "kind \<in> set principal_types" using assms(1) by (auto simp: validate_principal_type_def split: if_splits)
  moreover have "pid \<noteq> []" and "kind = ''public'' \<longrightarrow> pid = ''public''"
    using assms(2) by (auto simp: principal_id_for_def validate_required_def split: if_splits)
  ultimately show ?thesis using validate_actions_Inr [OF assms(3)] by (simp add: grant_key_ok_def)
qed

lemma grant_row_ok_key:
  "grant_row_ok r \<longleftrightarrow> gr_resource_type r \<in> set allowed_resource_types
     \<and> grant_key_ok (gr_principal_type r, gr_principal_id r, gr_actions r)"
  by (simp add: grant_row_ok_def grant_key_ok_def)

lemma validated_resource: "validate_resource_type t = Inr k \<Longrightarrow> k \<in> set allowed_resource_types"
  by (auto simp: validate_resource_type_def split: if_splits)

lemma requested_grants_ok: "requested_grants seen gs = Inr keys \<Longrightarrow> k \<in> set keys \<Longrightarrow> grant_key_ok k"
proof (induction gs arbitrary: seen keys)
  case Nil
  then show ?case by simp
next
  case (Cons g gs)
  obtain kind pid acts where v: "validate_principal_type (pg_principal_type g) = Inr kind"
    "principal_id_for kind (pg_principal_id g) = Inr pid" "validate_actions (pg_actions g) = Inr acts"
    using Cons.prems(1) by (auto split: sum.splits)
  show ?case
  proof (cases "(kind, pid, acts) \<in> set seen")
    case True
    then show ?thesis using Cons v by simp
  next
    case False
    then obtain rest where "requested_grants ((kind, pid, acts) # seen) gs = Inr rest" "keys = (kind, pid, acts) # rest"
      using Cons.prems(1) v by (auto simp: bind_res_Inr_iff)
    then show ?thesis using Cons.IH Cons.prems(2) validated_key [OF v] by auto
  qed
qed

lemma insert_grants_ok:
  assumes "insert_grants rows s = (Inr u, t)" and "grants_ok s" and "\<forall>r \<in> set rows. grant_row_ok r"
  shows "grants_ok t"
proof -
  have t: "t = s\<lparr>ad_grants := ad_grants s @ rows\<rparr>" and "distinct (map gr_id rows)"
    and "set (map gr_id rows) \<inter> gr_id ` set (ad_grants s) = {}"
    using assms(1) by (auto simp: insert_grants_def split: if_splits)
  then have "keyed gr_id (ad_grants t)" using assms(2) by (simp add: grants_ok_def keyed_def Int_commute)
  then show ?thesis using assms(2,3) by (auto simp: grants_ok_def t)
qed

lemma insert_grants_rows:
  "insert_grants rows s = (Inr u, t) \<Longrightarrow> t = s\<lparr>ad_grants := ad_grants s @ rows\<rparr>"
  by (auto simp: insert_grants_def split: if_splits)

lemma requested_rows_ok:
  assumes "requested_grants [] gs = Inr keys" and "fst resource \<in> set allowed_resource_types"
  shows "\<forall>r \<in> set (map (grant_row_of uuids now resource source who) (enumerate 0 keys)). grant_row_ok r"
proof
  fix r assume "r \<in> set (map (grant_row_of uuids now resource source who) (enumerate 0 keys))"
  then obtain i kind pid acts where r: "r = grant_row_of uuids now resource source who (i, kind, pid, acts)"
    and "(i, kind, pid, acts) \<in> set (enumerate 0 keys)" by auto
  then have "(kind, pid, acts) \<in> set keys" by (metis in_set_zip enumerate_eq_zip nth_mem snd_conv)
  from requested_grants_ok [OF assms(1) this]
  show "grant_row_ok r" using assms(2) by (simp add: r grant_row_ok_key grant_row_of_def)
qed

lemma grants_ok_filter: "grants_ok s \<Longrightarrow> grants_ok (s\<lparr>ad_grants := filter P (ad_grants s)\<rparr>)"
  by (auto simp: grants_ok_def keyed_def distinct_map_filter)

lemma write_grant_ok:
  assumes "write_grant_row row s = (Inr u, t)" and "grants_ok s" and "grant_row_ok row"
  shows "grants_ok t"
  using assms
  by (auto simp: write_grant_row_def op_elims grants_ok_def in_update_where intro!: keyed_update_where)

lemma found_row: "get_permission_grant_or_404 gid s = (Inr r, t) \<Longrightarrow> t = s \<and> r \<in> set (ad_grants s) \<and> gr_id r = gid"
  by (auto simp: get_permission_grant_or_404_def dest: lookup_key_Some split: option.splits)

lemma create_ok:
  assumes "create_permission_grant uuid now rtype rid kind pid actions who s = (Inr r, t)" and "grants_ok s"
  shows "grants_ok t" and "ad_grants t = ad_grants s @ [r]" and "gr_source r = ''admin''"
proof -
  obtain k rt p acts where v: "validate_principal_type kind = Inr k" "principal_id_for k pid = Inr p" "validate_actions actions = Inr acts"
    and rt: "validate_resource_type rtype = Inr rt" "gr_resource_type r = rt"
    and r: "gr_principal_type r = k" "gr_principal_id r = p" "gr_actions r = acts" "gr_source r = ''admin''"
    and ins: "insert_grants [r] s = (Inr (), t)"
    using assms(1) by (auto simp: create_permission_grant_def op_elims Let_def)
  have "grant_row_ok r" using validated_key [OF v] validated_resource [OF rt(1)] r rt(2) by (simp add: grant_row_ok_key)
  then show "grants_ok t" using insert_grants_ok [OF ins assms(2)] by simp
  show "ad_grants t = ad_grants s @ [r]" "gr_source r = ''admin''" using insert_grants_rows [OF ins] r by simp_all
qed

lemma replace_cases:
  assumes "replace_permission_ui_grants gm uuids now rtype rid grants who s = (Inr gs, t)"
  obtains rt i keys where "validate_resource_type rtype = Inr rt" "validate_required rid ''resourceId'' = Inr i"
    "requested_grants [] grants = Inr keys"
    "insert_grants (map (grant_row_of uuids now (rt, i) ''permission_ui'' who) (enumerate 0 keys))
       (s\<lparr>ad_grants := filter (\<lambda>r. \<not> ui_managed (rt, i) r) (ad_grants s)\<rparr>) = (Inr (), t)"
    "map_res (row_to_permission_grant gm) (map (grant_row_of uuids now (rt, i) ''permission_ui'' who) (enumerate 0 keys)) = Inr gs"
  using assms by (auto simp: replace_permission_ui_grants_def op_elims Let_def)

lemma replace_ok:
  assumes "replace_permission_ui_grants gm uuids now rtype rid grants who s = (Inr gs, t)" and "grants_ok s"
  shows "grants_ok t"
  using assms(1)
proof (cases rule: replace_cases)
  case (1 rt i keys)
  show ?thesis
    using insert_grants_ok [OF 1(4) grants_ok_filter [OF assms(2)] requested_rows_ok [OF 1(3)]] validated_resource [OF 1(1)]
    by simp
qed

lemma legacy_cases:
  assumes "ensure_legacy_permission_grants gm uuids now rtype rid grants who s = (Inr gs, t)"
  obtains "t = s"
  | rt i keys where "validate_resource_type rtype = Inr rt" "requested_grants [] grants = Inr keys"
      "insert_grants (map (grant_row_of uuids now (rt, i) legacy_permission_source who) (enumerate 0 keys)) s = (Inr (), t)"
  using assms by (auto simp: ensure_legacy_permission_grants_def read_grants_def op_elims split: if_splits)

lemma legacy_ok:
  assumes "ensure_legacy_permission_grants gm uuids now rtype rid grants who s = (Inr gs, t)" and "grants_ok s"
  shows "grants_ok t"
  using assms(1)
proof (cases rule: legacy_cases)
  case (2 rt i keys)
  show ?thesis
    using insert_grants_ok [OF 2(3) assms(2) requested_rows_ok [OF 2(2)]] validated_resource [OF 2(1)] by simp
qed (use assms(2) in simp)

lemma changed_rows:
  assumes "change_principal_type kind_opt pid_opt old = Inr r1" and "change_principal_id pid_opt r1 = Inr r2"
    and "change_actions actions_opt r2 = Inr r3" and ok: "grant_row_ok old"
  shows "grant_row_ok (public_principal r3)" and "gr_id (public_principal r3) = gr_id old"
    and "gr_source (public_principal r3) = gr_source old" and "grant_resource (public_principal r3) = grant_resource old"
proof -
  have t: "gr_principal_type r1 \<in> set principal_types" "r1 = old\<lparr>gr_principal_type := gr_principal_type r1\<rparr>"
    using assms(1) ok
    by (auto simp: change_principal_type_def validate_principal_type_def bind_res_Inr_iff grant_row_ok_def split: option.splits if_splits)
  have i: "gr_principal_id r2 \<noteq> []" "r2 = r1\<lparr>gr_principal_id := gr_principal_id r2\<rparr>"
  proof -
    have "gr_principal_id r1 \<noteq> []" using t(2) ok by (metis grant_row_ok_def permission_grant_row.select_convs(5) permission_grant_row.surjective permission_grant_row.update_convs(4))
    then show "gr_principal_id r2 \<noteq> []" "r2 = r1\<lparr>gr_principal_id := gr_principal_id r2\<rparr>"
      using assms(2) by (auto simp: change_principal_id_def validate_required_def bind_res_Inr_iff split: option.splits if_splits)
  qed
  have a: "r3 = r2\<lparr>gr_actions := gr_actions r3\<rparr>" and "r3 = r2 \<or> (\<exists>vs. validate_actions vs = Inr (gr_actions r3))"
    using assms(3) by (auto simp: change_actions_def bind_res_Inr_iff split: option.splits)
  moreover have "gr_actions r2 = gr_actions old" by (subst i(2), subst t(2)) simp
  ultimately have acts: "distinct (gr_actions r3)" "set (gr_actions r3) \<subseteq> set allowed_actions" "''view'' \<in> set (gr_actions r3)"
    using ok by (auto simp: grant_row_ok_def dest: validate_actions_Inr)
  have rest: "gr_principal_type r3 = gr_principal_type r1" "gr_principal_id r3 = gr_principal_id r2" "gr_id r3 = gr_id old"
    "gr_source r3 = gr_source old" "grant_resource r3 = grant_resource old"
    by (subst a, subst i(2), (subst t(2))?, simp add: grant_resource_def)+
  show "gr_id (public_principal r3) = gr_id old" "gr_source (public_principal r3) = gr_source old"
    "grant_resource (public_principal r3) = grant_resource old"
    using rest by (simp_all add: public_principal_def grant_resource_def)
  show "grant_row_ok (public_principal r3)"
    using acts rest t(1) i(1) ok by (auto simp: public_principal_def grant_row_ok_def grant_resource_def)
qed

lemma update_cases:
  assumes "update_permission_grant gid kind_opt pid_opt actions_opt s = (Inr row, t)" and "grants_ok s"
  obtains old where "old \<in> set (ad_grants s)" and "gr_id old = gid" and "gr_id row = gid"
    and "gr_source row = gr_source old" and "grant_resource row = grant_resource old" and "grant_row_ok row"
    and "write_grant_row row s = (Inr (), t)"
proof -
  obtain old s1 r1 r2 r3 where run: "get_permission_grant_or_404 gid s = (Inr old, s1)"
    "change_principal_type kind_opt pid_opt old = Inr r1" "change_principal_id pid_opt r1 = Inr r2"
    "change_actions actions_opt r2 = Inr r3" "row = public_principal r3" "write_grant_row row s1 = (Inr (), t)"
    using assms(1) by (auto simp: update_permission_grant_def op_elims)
  have f: "s1 = s" "old \<in> set (ad_grants s)" "gr_id old = gid" using found_row [OF run(1)] by simp_all
  then have "grant_row_ok old" using assms(2) by (simp add: grants_ok_def)
  from changed_rows [OF run(2-4) this] show ?thesis using that f run(5,6) by simp
qed

lemma delete_cases:
  assumes "delete_permission_grant gid s = (Inr row, t)"
  obtains old where "old \<in> set (ad_grants s)" "gr_id old = gid" "gr_source old = ''admin_seed''"
      "write_grant_row (old\<lparr>gr_source := deleted_seed_source\<rparr>) s = (Inr (), t)"
  | "row \<in> set (ad_grants s)" "gr_id row = gid" "gr_source row \<noteq> ''admin_seed''"
      "t = s\<lparr>ad_grants := filter (\<lambda>r. gr_id r \<noteq> gid) (ad_grants s)\<rparr>"
  using assms by (auto simp: delete_permission_grant_def op_elims dest: found_row split: if_splits)

lemma seed_cases:
  assumes "ensure_demo_permission_grants uuids now ds js boards s = (Inr n, t)"
  obtains "t = s"
  | rows where "set rows \<subseteq> set (demo_rows uuids now ds js boards)" "\<forall>r \<in> set rows. grant_target r \<notin> seeded_targets s"
      "insert_grants rows s = (Inr (), t)"
proof -
  let ?rows = "filter (\<lambda>r. grant_target r \<notin> seeded_targets s) (demo_rows uuids now ds js boards)"
  have "t = s \<or> insert_grants ?rows s = (Inr (), t)"
    using assms by (auto simp: ensure_demo_permission_grants_def op_elims Let_def split: if_splits)
  then show ?thesis
  proof
    assume "t = s"
    then show ?thesis by (rule that(1))
  next
    assume "insert_grants ?rows s = (Inr (), t)"
    then show ?thesis by (intro that(2) [of ?rows]) (simp_all only: set_filter, blast+)
  qed
qed

lemma demo_rows_ok: "\<forall>r \<in> set (demo_rows uuids now ds js boards). grant_row_ok r"
  by (auto simp: demo_rows_def build_grant_row_def grant_row_ok_def allowed_resource_types_def principal_types_def
      allowed_actions_def split: list.splits)

lemma delete_ok:
  assumes "delete_permission_grant gid s = (Inr row, t)" and "grants_ok s"
  shows "grants_ok t"
  using assms(1)
proof (cases rule: delete_cases)
  case (1 old)
  have "grant_row_ok (old\<lparr>gr_source := deleted_seed_source\<rparr>)"
    using 1(1) assms(2) by (auto simp: grants_ok_def grant_row_ok_def)
  then show ?thesis using write_grant_ok [OF 1(4) assms(2)] by simp
qed (use grants_ok_filter [OF assms(2)] in simp)

lemma seed_ok:
  assumes "ensure_demo_permission_grants uuids now ds js boards s = (Inr n, t)" and "grants_ok s"
  shows "grants_ok t"
  using assms(1)
proof (cases rule: seed_cases)
  case (2 rows)
  then show ?thesis using insert_grants_ok [OF 2(3) assms(2)] demo_rows_ok by blast
qed (use assms(2) in simp)

lemma grant_call_ok: "grant_call g s t \<Longrightarrow> grants_ok s \<Longrightarrow> grants_ok t"
  by (induction rule: grant_call.induct)
    (auto intro: create_ok(1) replace_ok legacy_ok delete_ok seed_ok write_grant_ok elim!: update_cases)

lemma grant_steps_ok: "grant_step\<^sup>*\<^sup>* s t \<Longrightarrow> grants_ok s \<Longrightarrow> grants_ok t"
  by (induction rule: rtranclp_induct) (auto simp: grant_step_def intro: grant_call_ok)

subsection \<open>Reading the table\<close>

lemma row_ok_typed: "grant_row_ok r \<Longrightarrow> grant_typed (row_fields r)"
proof -
  have "set allowed_actions \<subseteq> set known_actions" by (simp add: allowed_actions_def known_actions_def)
  then show "grant_row_ok r \<Longrightarrow> grant_typed (row_fields r)"
    unfolding grant_row_ok_def grant_typed_def row_fields_def by (simp only: permission_grant_row.simps PermissionGrant.simps) blast
qed

lemma set_live_rows:
  "set (live_rows s keys) = {r \<in> set (ad_grants s). grant_resource r \<in> set keys \<and> gr_source r \<noteq> deleted_seed_source}"
  by (auto simp: live_rows_def)

context grant_validation
begin

lemma list_one_resource:
  assumes "grants_ok s"
  shows "list_permission_grants_by_resource gm s [k] = Inr [(k, map row_fields (live_rows s [k]))]"
proof -
  have "map_res (\<lambda>r. bind_res (row_to_permission_grant gm r) (\<lambda>g. Inr (grant_resource r, g))) (live_rows s [k]) =
      Inr (map (\<lambda>r. (grant_resource r, row_fields r)) (live_rows s [k]))"
    using assms by (intro map_res_total) (auto simp: set_live_rows grants_ok_def construct_row row_ok_typed)
  moreover have "filter (\<lambda>p. fst p = k) (map (\<lambda>r. (grant_resource r, row_fields r)) (live_rows s [k])) =
      map (\<lambda>r. (grant_resource r, row_fields r)) (live_rows s [k])"
    by (auto simp: filter_id_conv set_live_rows)
  ultimately show ?thesis
    by (simp add: list_permission_grants_by_resource_def unique_keys_def Let_def comp_def)
qed

lemma resource_grants:
  assumes "grants_ok s" and "\<forall>g \<in> set fallback. grant_typed g"
  obtains hs where "permission_grants_for_resource gm s resource fallback = Inr hs"
    and "\<And>actor a. grants_permit actor a hs = grants_permit actor a (fallback @ map row_fields (live_rows s [resource]))"
proof -
  have "\<forall>g \<in> set (concat [fallback, map row_fields (live_rows s [resource])]). grant_typed g"
    using assms by (auto simp: set_live_rows grants_ok_def row_ok_typed)
  from merge_permits [OF this] obtain hs where
    "merge_permission_grants gm (map (map GrantObject) [fallback, map row_fields (live_rows s [resource])]) = Inr hs"
    "\<And>actor a. grants_permit actor a hs = grants_permit actor a (concat [fallback, map row_fields (live_rows s [resource])])"
    by metis
  then show ?thesis
    using that by (simp add: permission_grants_for_resource_def list_one_resource [OF assms(1)] grants_of_def)
qed

end

subsection \<open>The access matrix\<close>

text \<open>
  Abstractly the table is a relation: who (a kind of principal and its identifier) may do what on which
  resource. A decision about an actor asks this relation for one of the actor's principals or the public.
\<close>

type_synonym access_relation = "((string \<times> string) \<times> (string \<times> string) \<times> string) set"

definition access_matrix :: "access_db \<Rightarrow> access_relation" where
  "access_matrix s = {(grant_resource r, (gr_principal_type r, gr_principal_id r), a) | r a.
     r \<in> set (ad_grants s) \<and> gr_source r \<noteq> deleted_seed_source \<and> a \<in> set (gr_actions r)}"

definition matrix_allows :: "access_relation \<Rightarrow> ActorContext \<Rightarrow> string \<times> string \<Rightarrow> string \<Rightarrow> bool" where
  "matrix_allows M actor resource a \<longleftrightarrow>
     (\<exists>kind pid. (resource, (kind, pid), a) \<in> M \<and> (kind = ''public'' \<or> (kind, pid) \<in> set (actor_principals actor)))"

lemma live_rows_permit:
  "grants_permit actor a (map row_fields (live_rows s [resource])) = matrix_allows (access_matrix s) actor resource a"
  by (auto simp: grants_permit_def matrix_allows_def access_matrix_def grant_applies_def row_fields_def set_live_rows)

lemma grants_permit_append: "grants_permit actor a (xs @ ys) \<longleftrightarrow> grants_permit actor a xs \<or> grants_permit actor a ys"
  by (auto simp: grants_permit_def)

text \<open>C5. Decisions follow the store. For an actor who is neither an administrator nor the owner, reading the
  grants of a resource, merging them with those of its metadata, dropping repetitions and validating the
  result decides exactly as the access matrix does: the action is allowed when a live row or a metadata
  grant gives it to the public or to one of the actor's names, roles or groups. Reading never raises.\<close>

theorem decision_follows_store:
  assumes "grant_validation gm" and "grants_ok s" and "\<forall>g \<in> set fallback. grant_typed g"
    and "\<not> actor_is_admin actor" and "some_text owner \<noteq> [act_name actor]" and "py_strip action \<noteq> []"
  shows "\<exists>gs. permission_grants_for_resource gm s resource fallback = Inr gs
    \<and> can actor action owner (grant_payloads (map GrantObject gs)) =
        Inr (matrix_allows (access_matrix s) actor resource (py_strip action) \<or> grants_permit actor (py_strip action) fallback)"
proof -
  obtain hs where "permission_grants_for_resource gm s resource fallback = Inr hs"
    "\<And>a. grants_permit actor a hs = grants_permit actor a (fallback @ map row_fields (live_rows s [resource]))"
    by (rule grant_validation.resource_grants [OF assms(1,2,3)]) blast
  then show ?thesis using assms(4-) by (auto simp: can_objects grants_permit_append live_rows_permit)
qed


subsection \<open>Grants of the creation UI\<close>

definition grant_values :: "permission_grant_row \<Rightarrow> string \<times> string \<times> string list" where
  "grant_values r = (gr_principal_type r, gr_principal_id r, gr_actions r)"

definition requested_key :: "PermissionGrant \<Rightarrow> (string \<times> string \<times> string list) res" where
  "requested_key g =
     bind_res (validate_principal_type (pg_principal_type g)) (\<lambda>kind.
     bind_res (principal_id_for kind (pg_principal_id g)) (\<lambda>pid.
     bind_res (validate_actions (pg_actions g)) (\<lambda>acts. Inr (kind, pid, acts))))"

lemma requested_grants_Cons:
  assumes "requested_grants seen (g # gs) = Inr keys"
  obtains k where "requested_key g = Inr k" "k \<in> set seen" "requested_grants seen gs = Inr keys"
  | k rest where "requested_key g = Inr k" "k \<notin> set seen" "requested_grants (k # seen) gs = Inr rest" "keys = k # rest"
  using assms by (auto simp: requested_key_def bind_res_Inr_iff split: sum.splits if_splits)

lemma requested_grants_keys:
  "requested_grants seen gs = Inr keys \<Longrightarrow> distinct keys \<and> set keys \<inter> set seen = {}
     \<and> (\<forall>k \<in> set keys. Inr k \<in> requested_key ` set gs)
     \<and> (\<forall>g \<in> set gs. \<exists>k. requested_key g = Inr k \<and> k \<in> set keys \<union> set seen)"
proof (induction gs arbitrary: seen keys)
  case Nil
  then show ?case by simp
next
  case (Cons g gs)
  from Cons.prems show ?case
  proof (cases rule: requested_grants_Cons)
    case (1 k)
    then show ?thesis using Cons.IH [OF 1(3)] by (auto simp del: split_paired_Ex)
  next
    case (2 k rest)
    then show ?thesis using Cons.IH [OF 2(3)] by (auto simp del: split_paired_Ex)
  qed
qed

lemma grant_values_rows: "map grant_values (map (grant_row_of uuids now resource source who) (enumerate n keys)) = keys"
  by (induction keys arbitrary: n) (auto simp: grant_values_def grant_row_of_def)

text \<open>Replacing the grants of the creation UI touches nothing else: the grants made by administrators, the seeded
  ones and those of other resources stay as they are. The UI grants of the resource are afterwards exactly
  the requested ones, normalised and without repetitions, and these are returned.\<close>

theorem ui_replacement_keeps_admin_grants:
  assumes "grant_validation gm"
    and "replace_permission_ui_grants gm uuids now rtype rid grants who s = (Inr gs, t)"
  shows "filter (\<lambda>r. \<not> ui_managed (py_strip rtype, py_strip rid) r) (ad_grants t) =
      filter (\<lambda>r. \<not> ui_managed (py_strip rtype, py_strip rid) r) (ad_grants s)
    \<and> distinct (map grant_values (filter (ui_managed (py_strip rtype, py_strip rid)) (ad_grants t)))
    \<and> Inr ` grant_values ` set (filter (ui_managed (py_strip rtype, py_strip rid)) (ad_grants t)) = requested_key ` set grants
    \<and> gs = map row_fields (filter (ui_managed (py_strip rtype, py_strip rid)) (ad_grants t))"
  using assms(2)
proof (cases rule: replace_cases)
  case (1 rt i keys)
  let ?res = "(py_strip rtype, py_strip rid)"
  let ?rows = "map (grant_row_of uuids now ?res ''permission_ui'' who) (enumerate 0 keys)"
  have rt: "rt = py_strip rtype" "i = py_strip rid" and type: "fst ?res \<in> set allowed_resource_types"
    using 1(1,2) by (auto simp: validate_resource_type_def validate_required_def split: if_splits)
  have ui: "ui_managed ?res r" if "r \<in> set ?rows" for r
    using that by (auto simp: ui_managed_def grant_resource_def grant_row_of_def ui_managed_sources_def)
  have t: "ad_grants t = filter (\<lambda>r. \<not> ui_managed ?res r) (ad_grants s) @ ?rows"
    using insert_grants_rows [OF 1(4)] by (simp add: rt)
  have mine: "filter (ui_managed ?res) (ad_grants t) = ?rows" and rest:
    "filter (\<lambda>r. \<not> ui_managed ?res r) (ad_grants t) = filter (\<lambda>r. \<not> ui_managed ?res r) (ad_grants s)"
    using ui by (simp_all add: t filter_id_conv filter_empty_conv)
  have "map_res (row_to_permission_grant gm) ?rows = Inr (map row_fields ?rows)"
    using requested_rows_ok [OF 1(3) type]
    by (intro map_res_total grant_validation.construct_row [OF assms(1)] row_ok_typed) blast
  then have "gs = map row_fields ?rows" using 1(5) by (simp add: rt)
  moreover have "grant_values ` set ?rows = set keys" "map grant_values ?rows = keys"
    using grant_values_rows [of uuids now ?res "''permission_ui''" who 0 keys] by (metis list.set_map, simp)
  moreover have "Inr ` set keys = requested_key ` set grants" "distinct keys"
    using requested_grants_keys [OF 1(3)] by force+
  ultimately show ?thesis using mine rest by metis
qed

subsection \<open>Deleting seeded grants\<close>

definition spares :: "string \<Rightarrow> access_db \<Rightarrow> access_db \<Rightarrow> bool" where
  "spares gid s t \<longleftrightarrow> (\<exists>g. g \<noteq> Some gid \<and> grant_call g s t)"

lemma write_grant_keeps:
  assumes "write_grant_row row s = (Inr u, t)" and "r \<in> set (ad_grants s)" and "gr_id r \<noteq> gr_id row"
  shows "r \<in> set (ad_grants t)"
  using assms by (auto simp: write_grant_row_def op_elims in_update_where intro!: bexI [of _ r])

lemma spares_keeps:
  assumes "grant_call g s t" and "g \<noteq> Some (gr_id r)" and "r \<in> set (ad_grants s)"
    and "gr_source r = deleted_seed_source" and "grants_ok s"
  shows "r \<in> set (ad_grants t)"
  using assms
proof (induction rule: grant_call.induct)
  case (create uuid now rtype rid kind pid actions who s x t)
  then show ?case using create_ok(2) [OF create.hyps] by simp
next
  case (replace gm uuids now rtype rid grants who s gs t)
  have "\<not> ui_managed k r" for k
    using replace.prems(3) by (simp add: ui_managed_def ui_managed_sources_def deleted_seed_source_def legacy_permission_source_def)
  then show ?case using replace.hyps replace.prems(2) by (elim replace_cases) (auto dest!: insert_grants_rows)
next
  case (legacy gm uuids now rtype rid grants who s gs t)
  then show ?case by (elim legacy_cases) (auto dest!: insert_grants_rows)
next
  case (update gid kind_opt pid_opt actions_opt s x t)
  from update.hyps update.prems(4) show ?case
    by (rule update_cases) (use update.prems write_grant_keeps in auto)
next
  case (delete gid s x t)
  from delete.hyps show ?case
    by (rule delete_cases) (use delete.prems write_grant_keeps in auto)
next
  case (seed uuids now ds js boards s n t)
  then show ?case by (elim seed_cases) (auto dest!: insert_grants_rows)
qed

lemma spares_steps_keep:
  assumes "(spares (gr_id r))\<^sup>*\<^sup>* s t" and "r \<in> set (ad_grants s)" and "gr_source r = deleted_seed_source" and "grants_ok s"
  shows "r \<in> set (ad_grants t) \<and> grants_ok t"
  using assms
proof (induction rule: rtranclp_induct)
  case base
  then show ?case by simp
next
  case (step t u)
  then obtain g where "g \<noteq> Some (gr_id r)" "grant_call g t u" by (auto simp: spares_def)
  then show ?case using spares_keeps step grant_call_ok by blast
qed

lemma seeding_adds:
  assumes "ensure_demo_permission_grants uuids now ds js boards s = (Inr n, t)" and "K \<in> seeded_targets s"
    and "r \<in> set (ad_grants t)" and "r \<notin> set (ad_grants s)"
  shows "grant_target r \<noteq> K"
  using assms(1)
proof (cases rule: seed_cases)
  case 1
  then show ?thesis using assms(3,4) by simp
next
  case (2 rows)
  then show ?thesis using assms(2-4) insert_grants_rows [OF 2(3)] by auto
qed

text \<open>C36. A seeded grant that an administrator deleted stays deleted. Its row is kept as a tombstone, and as long
  as no further call names it, no later call of the repository, in any order, removes the tombstone; so the
  seeding of the demo grants never creates the grant again.\<close>

theorem deleted_seed_grant_stays_deleted:
  assumes "grants_ok s" and "old \<in> set (ad_grants s)" and "gr_source old = ''admin_seed''"
    and "delete_permission_grant (gr_id old) s = (Inr row, s1)"
    and "(spares (gr_id old))\<^sup>*\<^sup>* s1 t"
    and "ensure_demo_permission_grants uuids now ds js boards t = (Inr n, u)"
  shows "\<forall>r \<in> set (ad_grants u) - set (ad_grants t). grant_target r \<noteq> grant_target old"
proof -
  let ?dead = "old\<lparr>gr_source := deleted_seed_source\<rparr>"
  have "?dead \<in> set (ad_grants s1)"
    using assms(4)
  proof (cases rule: delete_cases)
    case (1 old')
    then have "old' = old" using assms(1,2) by (metis grants_ok_def keyed_same_row)
    then show ?thesis using 1 by (auto simp: write_grant_row_def op_elims in_update_where)
  next
    case 2
    then have "row = old" using assms(1,2) by (metis grants_ok_def keyed_same_row)
    then show ?thesis using 2(3) assms(3) by simp
  qed
  moreover have "gr_id ?dead = gr_id old" "gr_source ?dead = deleted_seed_source" by simp_all
  ultimately have "?dead \<in> set (ad_grants t)"
    using spares_steps_keep [of ?dead s1 t] delete_ok [OF assms(4,1)] assms(5) by simp
  then have "grant_target old \<in> seeded_targets t"
    unfolding seeded_targets_def by (intro rev_image_eqI [of ?dead]) (auto simp: grant_target_def)
  then show ?thesis using seeding_adds [OF assms(6)] by blast
qed

text \<open>C40. Deleting it twice undoes the deletion: the second call finds the tombstone by its identifier, removes the row
  for good, and the next seeding of the demo grants gives the group its access back.\<close>

theorem second_delete_revives_seed_grant:
  assumes "grants_ok s" and "old \<in> set (ad_grants s)" and "gr_source old = ''admin_seed''"
    and "grant_target old = (''dataset'', d, ''group'', ''analytics'')"
    and "\<forall>r \<in> set (ad_grants s). gr_source r \<in> {''admin_seed'', deleted_seed_source} \<and> grant_target r = grant_target old \<longrightarrow> r = old"
    and "''grant_'' @ uuids 0 \<notin> gr_id ` set (ad_grants s)"
  shows "\<exists>r1 r2 s1 s2 t. delete_permission_grant (gr_id old) s = (Inr r1, s1)
    \<and> delete_permission_grant (gr_id old) s1 = (Inr r2, s2)
    \<and> ensure_demo_permission_grants uuids now (d # ds) [] [] s2 = (Inr 1, t)
    \<and> ((''dataset'', d), (''group'', ''analytics''), ''query'') \<in> access_matrix t"
proof -
  let ?dead = "old\<lparr>gr_source := deleted_seed_source\<rparr>"
  let ?rows1 = "update_where (\<lambda>r. gr_id r = gr_id old) (\<lambda>_. ?dead) (ad_grants s)"
  let ?rows2 = "filter (\<lambda>r. gr_id r \<noteq> gr_id old) ?rows1"
  let ?new = "build_grant_row (uuids 0) now ''dataset'' d ''group'' ''analytics'' [''view'', ''query'']"
  have key: "keyed gr_id (ad_grants s)" using assms(1) by (simp add: grants_ok_def)
  have key1: "keyed gr_id ?rows1" by (intro keyed_update_where key) simp
  have "?dead \<in> set ?rows1" using assms(2) by (auto simp: in_update_where)
  then have look1: "lookup_key gr_id (gr_id old) ?rows1 = Some ?dead" using lookup_key_keyed [OF key1] by fastforce
  have d1: "delete_permission_grant (gr_id old) s = (Inr ?dead, s\<lparr>ad_grants := ?rows1\<rparr>)"
    using lookup_key_keyed [OF key assms(2)] assms(3)
    by (simp add: delete_permission_grant_def get_permission_grant_or_404_def write_grant_row_def op_defs)
  have d2: "delete_permission_grant (gr_id old) (s\<lparr>ad_grants := ?rows1\<rparr>) = (Inr ?dead, s\<lparr>ad_grants := ?rows2\<rparr>)"
    using look1 by (simp add: delete_permission_grant_def get_permission_grant_or_404_def op_defs deleted_seed_source_def)
  have in2: "r \<in> set (ad_grants s) \<and> gr_id r \<noteq> gr_id old" if "r \<in> set ?rows2" for r
    using that by (auto simp: in_update_where split: if_splits)
  have "grant_target ?new \<notin> seeded_targets (s\<lparr>ad_grants := ?rows2\<rparr>)"
  proof
    assume "grant_target ?new \<in> seeded_targets (s\<lparr>ad_grants := ?rows2\<rparr>)"
    then obtain r where "r \<in> set ?rows2" "gr_source r \<in> {''admin_seed'', deleted_seed_source}" "grant_target r = grant_target ?new"
      unfolding seeded_targets_def by auto
    moreover have "grant_target ?new = grant_target old" using assms(4) by (simp add: build_grant_row_def grant_target_def)
    ultimately have "r = old" using assms(5) in2 by metis
    then show False using in2 [OF \<open>r \<in> set ?rows2\<close>] by simp
  qed
  moreover have "gr_id ?new \<notin> gr_id ` set ?rows2" using in2 assms(6) by (auto simp: build_grant_row_def)
  ultimately have e: "ensure_demo_permission_grants uuids now (d # ds) [] [] (s\<lparr>ad_grants := ?rows2\<rparr>) =
      (Inr 1, s\<lparr>ad_grants := ?rows2 @ [?new]\<rparr>)"
    by (simp add: ensure_demo_permission_grants_def demo_rows_def insert_grants_def op_defs Let_def)
  have "((''dataset'', d), (''group'', ''analytics''), ''query'') \<in> access_matrix (s\<lparr>ad_grants := ?rows2 @ [?new]\<rparr>)"
    unfolding access_matrix_def
    by (intro CollectI exI [of _ ?new] exI [of _ "''query''"])
      (simp add: build_grant_row_def grant_resource_def deleted_seed_source_def)
  then show ?thesis using d1 d2 e by blast
qed

subsection \<open>Instances\<close>

definition sample_access :: access_db where
  "sample_access =
     \<lparr>ad_users = [], ad_sessions = [],
      ad_grants =
        [build_grant_row ''1'' 0 ''dataset'' ''d'' ''group'' ''analytics'' [''view'', ''query''],
         \<lparr>gr_id = ''grant_2'', gr_resource_type = ''dataset'', gr_resource_id = ''d'', gr_principal_type = ''user'',
          gr_principal_id = ''kim'', gr_actions = [''manage'', ''view''], gr_source = ''admin'', gr_created_by = None,
          gr_created_at = 1\<rparr>],
      ad_controls = [], ad_locks = [], ad_audits = []\<rparr>"

definition sample_seed :: permission_grant_row where
  "sample_seed = build_grant_row ''1'' 0 ''dataset'' ''d'' ''group'' ''analytics'' [''view'', ''query'']"

definition sample_actor :: ActorContext where
  "sample_actor = \<lparr>act_name = ''lee'', act_role = ''viewer'', act_groups = [''analytics''], act_id = None, act_email = None, act_title = None\<rparr>"

definition sample_request :: PermissionGrant where
  "sample_request = \<lparr>pg_id = None, pg_actions = [''run''], pg_principal_id = ''ops'', pg_principal_name = None,
     pg_principal_type = ''group'', pg_source = ''metadata''\<rparr>"

lemma sample_access_ok: "grants_ok sample_access"
  by (simp add: grants_ok_def sample_access_def keyed_def grant_row_ok_def build_grant_row_def allowed_resource_types_def
      principal_types_def allowed_actions_def)

lemma sample_seed_row: "sample_seed \<in> set (ad_grants sample_access)" "gr_source sample_seed = ''admin_seed''"
  "grant_target sample_seed = (''dataset'', ''d'', ''group'', ''analytics'')" "gr_id sample_seed = ''grant_1''"
  by (simp_all add: sample_seed_def sample_access_def build_grant_row_def grant_target_def)

lemma sample_delete:
  "delete_permission_grant ''grant_1'' sample_access =
     (Inr (sample_seed\<lparr>gr_source := deleted_seed_source\<rparr>),
      sample_access\<lparr>ad_grants := [sample_seed\<lparr>gr_source := deleted_seed_source\<rparr>, ad_grants sample_access ! 1]\<rparr>)"
  by code_simp

lemma sample_seeding:
  "\<exists>n u. ensure_demo_permission_grants (\<lambda>i. ''x'') 5 [''d''] [] [] (snd (delete_permission_grant ''grant_1'' sample_access)) = (Inr n, u)"
proof -
  have "fst (ensure_demo_permission_grants (\<lambda>i. ''x'') 5 [''d''] [] [] (snd (delete_permission_grant ''grant_1'' sample_access))) = Inr 0"
    by code_simp
  then show ?thesis by (metis run_fst)
qed

lemma sample_viewer: "\<not> actor_is_admin sample_actor" "some_text None \<noteq> [act_name sample_actor]" "py_strip ''query'' = ''query''"
  by code_simp+

lemma sample_matrix: "matrix_allows (access_matrix sample_access) sample_actor (''dataset'', ''d'') ''query''"
proof -
  have "''query'' \<in> set (gr_actions sample_seed)" by (simp add: sample_seed_def build_grant_row_def)
  then have "((''dataset'', ''d''), (''group'', ''analytics''), ''query'') \<in> access_matrix sample_access"
    unfolding access_matrix_def using sample_seed_row(1-3)
    by (intro CollectI exI [of _ sample_seed] exI [of _ "''query''"])
      (simp add: grant_resource_def grant_target_def deleted_seed_source_def)
  then show ?thesis by (auto simp: matrix_allows_def sample_actor_def actor_principals_def)
qed

theorem decision_follows_store_witness:
  "\<exists>gs. permission_grants_for_resource schema_grant_model sample_access (''dataset'', ''d'') [] = Inr gs
    \<and> can sample_actor ''query'' None (grant_payloads (map GrantObject gs)) = Inr True"
  using decision_follows_store [OF schema.grant_validation_axioms sample_access_ok, of "[]" sample_actor None "''query''" "(''dataset'', ''d'')"]
    sample_viewer sample_matrix by simp


theorem ui_replacement_keeps_admin_grants_witness:
  "filter (\<lambda>r. \<not> ui_managed (''dataset'', ''d'') r) (ad_grants (snd (replace_permission_ui_grants schema_grant_model show_nat 7
      ''dataset'' ''d'' [sample_request] None sample_access))) = ad_grants sample_access"
proof -
  let ?run = "replace_permission_ui_grants schema_grant_model show_nat 7 ''dataset'' ''d'' [sample_request] None sample_access"
  have "isl (fst ?run) = False" by code_simp
  then obtain gs where "?run = (Inr gs, snd ?run)" by (cases "fst ?run") (auto dest: run_fst)
  from ui_replacement_keeps_admin_grants [OF schema.grant_validation_axioms this]
  have "filter (\<lambda>r. \<not> ui_managed (''dataset'', ''d'') r) (ad_grants (snd ?run)) =
      filter (\<lambda>r. \<not> ui_managed (''dataset'', ''d'') r) (ad_grants sample_access)"
    by (simp add: py_strip_def py_space_def char_code_def)
  moreover have "filter (\<lambda>r. \<not> ui_managed (''dataset'', ''d'') r) (ad_grants sample_access) = ad_grants sample_access"
    by code_simp
  ultimately show ?thesis by simp
qed

theorem deleted_seed_grant_stays_deleted_witness:
  "\<exists>n u. ensure_demo_permission_grants (\<lambda>i. ''x'') 5 [''d''] [] [] (snd (delete_permission_grant ''grant_1'' sample_access)) = (Inr n, u)
    \<and> (\<forall>r \<in> set (ad_grants u) - set (ad_grants (snd (delete_permission_grant ''grant_1'' sample_access))).
         grant_target r \<noteq> grant_target sample_seed)"
proof -
  obtain n u where run: "ensure_demo_permission_grants (\<lambda>i. ''x'') 5 [''d''] [] []
      (snd (delete_permission_grant ''grant_1'' sample_access)) = (Inr n, u)"
    using sample_seeding by blast
  have "delete_permission_grant (gr_id sample_seed) sample_access =
      (Inr (sample_seed\<lparr>gr_source := deleted_seed_source\<rparr>), snd (delete_permission_grant ''grant_1'' sample_access))"
    by (simp add: sample_seed_row sample_delete)
  from deleted_seed_grant_stays_deleted [OF sample_access_ok sample_seed_row(1,2) this rtranclp.rtrancl_refl run] run
  show ?thesis by blast
qed

theorem second_delete_revives_seed_grant_witness:
  "\<exists>r1 r2 s1 s2 t. delete_permission_grant ''grant_1'' sample_access = (Inr r1, s1)
    \<and> delete_permission_grant ''grant_1'' s1 = (Inr r2, s2)
    \<and> ensure_demo_permission_grants (\<lambda>i. ''x'') 5 [''d''] [] [] s2 = (Inr 1, t)
    \<and> ((''dataset'', ''d''), (''group'', ''analytics''), ''query'') \<in> access_matrix t"
  using second_delete_revives_seed_grant [OF sample_access_ok sample_seed_row(1,2,3), of "\<lambda>i. ''x''" 5 "[]"]
  by (simp add: sample_seed_row(4)) (auto simp: sample_access_def sample_seed_def build_grant_row_def grant_target_def)

end
