(* ===== verification/Access_Control.thy ===== *)
theory Access_Control
  imports Auth_Service Grant_Table
begin

section \<open>Who may do what: requests, reports and enforcement\<close>

text \<open>
  The composition of the access-control parts: the actor of a request (\<open>resolve_actor_context\<close> of
  \<open>core/auth_context.py\<close>), the access checks of query runs (\<open>services/trino_query_access.py\<close>) and the administrative
  changes of \<open>services/identity_service.py\<close>. Datasets of the Catalog are found by an argument; the
  response an administrator receives after a change is built by an argument.
\<close>

subsection \<open>The actor of a request\<close>

definition text_or :: "string \<Rightarrow> string \<Rightarrow> string" where
  "text_or v d = (if v = [] then d else v)"

definition opt_text_of :: "json \<Rightarrow> string option" where
  "opt_text_of v = (let s = py_str (por v (JStr '''')) in if s = [] then None else Some s)"

definition session_actor :: "dict \<Rightarrow> ActorContext" where
  "session_actor d =
     \<lparr>act_name = py_str (por (por (por (jget ''name'' d) (jget ''email'' d)) (jget ''id'' d)) (JStr ''authenticated-user'')),
      act_role = py_str (por (jget ''role'' d) (JStr ''viewer'')),
      act_groups = (case as_list (por (jget ''groups'' d) (JList [])) of None \<Rightarrow> [] | Some gs \<Rightarrow> map py_str gs),
      act_id = opt_text_of (jget ''id'' d), act_email = opt_text_of (jget ''email'' d), act_title = opt_text_of (jget ''title'' d)\<rparr>"

definition unauthorized :: py_error where
  "unauthorized = ApiError ''UNAUTHORIZED'' ''A valid AskLake session is required.'' 401 []"

definition resolve_actor_context ::
  "bool \<Rightarrow> timestamp \<Rightarrow> string option \<Rightarrow> string \<Rightarrow> string \<Rightarrow> string option \<Rightarrow> (access_db, ActorContext) op" where
  "resolve_actor_context allows_header_fallback now session_token actor_name actor_role actor_groups =
     bind_op (if some_text session_token = [] then return_op None else actor_for_session now session_token) (\<lambda>found.
     case found of
       Some d \<Rightarrow> return_op (session_actor d)
     | None \<Rightarrow>
         if \<not> allows_header_fallback then raise_op unauthorized
         else return_op
           \<lparr>act_name = text_or (py_strip actor_name) ''anonymous'', act_role = text_or (py_strip actor_role) ''viewer'',
            act_groups = filter (\<lambda>g. g \<noteq> []) (map py_strip (split_char (CHR '','') (first_text [actor_groups] ''''))),
            act_id = None, act_email = None, act_title = None\<rparr>)"

subsection \<open>Access to query runs\<close>

record query_dataset =
  qd_id :: string
  qd_name :: string
  qd_owner :: string
  qd_grants :: "PermissionGrant list"

record query_run =
  qr_run_id :: string
  qr_base_dataset_id :: string
  qr_reference_dataset_ids :: "string list"
  qr_query :: string
  qr_submitted_by_user_id :: "string option"
  qr_submitted_by_name :: "string option"
  qr_trino_query_id :: "string option"

definition dataset_with_persisted_permission_grants :: "grant_model \<Rightarrow> access_db \<Rightarrow> query_dataset \<Rightarrow> query_dataset res" where
  "dataset_with_persisted_permission_grants gm s d =
     bind_res (permission_grants_for_resource gm s (''dataset'', qd_id d) (qd_grants d)) (\<lambda>gs. Inr (d\<lparr>qd_grants := gs\<rparr>))"

definition get_dataset ::
  "grant_model \<Rightarrow> (string \<Rightarrow> query_dataset option) \<Rightarrow> string \<Rightarrow> string \<Rightarrow> (access_db, query_dataset) op" where
  "get_dataset gm catalog label dataset_id = (\<lambda>s.
     case catalog dataset_id of
       None \<Rightarrow> (Inl (ApiError ''NOT_FOUND'' (label @ '' not found'') 404 [(''datasetId'', Some dataset_id)]), s)
     | Some d \<Rightarrow> (dataset_with_persisted_permission_grants gm s d, s))"

fun get_datasets ::
  "grant_model \<Rightarrow> (string \<Rightarrow> query_dataset option) \<Rightarrow> string \<Rightarrow> string list \<Rightarrow> (access_db, query_dataset list) op" where
  "get_datasets gm catalog label [] = return_op []"
| "get_datasets gm catalog label (i # rest) =
     bind_op (get_dataset gm catalog label i) (\<lambda>d.
     bind_op (get_datasets gm catalog label rest) (\<lambda>ds. return_op (d # ds)))"

definition query_audit_metadata :: "string \<Rightarrow> dict" where
  "query_audit_metadata query =
     [(''queryHash'', JStr (sha256_hex (py_join '' '' (py_split query)))), (''queryLength'', JInt (int (py_len query)))]"

record access_call =
  ac_api_path :: string
  ac_http_method :: string

definition query_request :: "access_call \<Rightarrow> string \<Rightarrow> query_dataset \<Rightarrow> access_request" where
  "query_request call query d =
     \<lparr>rq_action = ''query'', rq_api_path = ac_api_path call, rq_http_method = ac_http_method call,
      rq_metadata = jmerge [(''owner'', JStr (qd_owner d))] (query_audit_metadata query),
      rq_resource_id = qd_id d, rq_resource_name = Some (qd_name d), rq_resource_type = ''dataset''\<rparr>"

definition forbidden_query_entry :: "ActorContext \<Rightarrow> access_call \<Rightarrow> string \<Rightarrow> query_dataset \<Rightarrow> nat \<Rightarrow> audit_entry" where
  "forbidden_query_entry actor call query d status =
     \<lparr>en_action = ''dataset.query.forbidden'', en_actor = actor, en_api_path = ac_api_path call, en_target_id = qd_id d,
      en_target_type = AuditDataset, en_result = ''forbidden'', en_http_method = Some (ac_http_method call),
      en_metadata = jmerge [(''owner'', JStr (qd_owner d))] (query_audit_metadata query), en_request_id = None,
      en_status_code = Some (int status), en_target_name = Some (qd_name d)\<rparr>"

definition require_dataset_query ::
  "audit_ids \<Rightarrow> ActorContext \<Rightarrow> access_call \<Rightarrow> string \<Rightarrow> query_dataset \<Rightarrow> (access_db, unit) op" where
  "require_dataset_query ids actor call query d =
     bind_op (require_governed_access ids actor (query_request call query d)) (\<lambda>_.
     catch_op (lift_res (require_permission actor ''query'' (Some (qd_owner d)) (map GrantObject (qd_grants d)) ''dataset''))
       (\<lambda>exc. case exc of
          ApiError code msg status details \<Rightarrow>
            bind_op (safe_record_audit_event ids (forbidden_query_entry actor call query d status)) (\<lambda>_. raise_op exc)
        | _ \<Rightarrow> raise_op exc))"

definition require_query_access ::
  "(query_dataset \<Rightarrow> audit_ids) \<Rightarrow> ActorContext \<Rightarrow> access_call \<Rightarrow> string \<Rightarrow> query_dataset list \<Rightarrow> (access_db, unit) op" where
  "require_query_access ids actor call query datasets =
     for_op datasets (\<lambda>d. require_dataset_query (ids d) actor call query d)"

definition require_query_access_for_run ::
  "grant_model \<Rightarrow> (string \<Rightarrow> query_dataset option) \<Rightarrow> (query_dataset \<Rightarrow> audit_ids) \<Rightarrow> query_run \<Rightarrow> ActorContext \<Rightarrow> access_call
   \<Rightarrow> (access_db, query_dataset list) op" where
  "require_query_access_for_run gm catalog ids run actor call =
     bind_op (get_dataset gm catalog ''Base dataset'' (qr_base_dataset_id run)) (\<lambda>base.
     bind_op (get_datasets gm catalog ''Reference dataset'' (qr_reference_dataset_ids run)) (\<lambda>refs.
     bind_op (require_query_access ids actor call (qr_query run) (base # refs)) (\<lambda>_. return_op (base # refs))))"

definition is_run_submitter :: "string option \<Rightarrow> string option \<Rightarrow> ActorContext \<Rightarrow> bool" where
  "is_run_submitter user_id name actor \<longleftrightarrow>
     (if some_text user_id \<noteq> [] then some_text (act_id actor) \<noteq> [] \<and> act_id actor = user_id
      else some_text name \<noteq> [] \<and> Some (act_name actor) = name)"

definition run_call :: "query_run \<Rightarrow> string \<Rightarrow> access_call" where
  "run_call run operation =
     \<lparr>ac_api_path = ''/api/query/runs/'' @ qr_run_id run, ac_http_method = (if operation = ''cancel'' then ''POST'' else ''GET'')\<rparr>"

definition forbidden_run_entry :: "ActorContext \<Rightarrow> query_run \<Rightarrow> string \<Rightarrow> audit_entry" where
  "forbidden_run_entry actor run operation =
     \<lparr>en_action = ''query_run.'' @ operation @ ''.forbidden'', en_actor = actor,
      en_api_path = ac_api_path (run_call run operation), en_target_id = qr_run_id run, en_target_type = AuditQueryRun,
      en_result = ''forbidden'', en_http_method = Some (ac_http_method (run_call run operation)),
      en_metadata = [(''trinoQueryId'', of_opt_str (qr_trino_query_id run))], en_request_id = None,
      en_status_code = Some 403, en_target_name = None\<rparr>"

definition require_access_for_response ::
  "grant_model \<Rightarrow> (string \<Rightarrow> query_dataset option) \<Rightarrow> (query_dataset \<Rightarrow> audit_ids) \<Rightarrow> audit_ids \<Rightarrow> query_run \<Rightarrow> ActorContext
   \<Rightarrow> string \<Rightarrow> (access_db, unit) op" where
  "require_access_for_response gm catalog ids run_ids run actor operation =
     bind_op (require_query_access_for_run gm catalog ids run actor (run_call run operation)) (\<lambda>datasets.
     bind_op (lift_res (can actor ''manage'' (Some (qd_owner (hd datasets)))
       (map (\<lambda>g. JObj (grant_dump g)) (qd_grants (hd datasets))))) (\<lambda>can_manage_base.
     if actor_is_admin actor \<or> is_run_submitter (qr_submitted_by_user_id run) (qr_submitted_by_name run) actor
        \<or> operation = ''cancel'' \<and> can_manage_base
     then return_op ()
     else bind_op (safe_record_audit_event run_ids (forbidden_run_entry actor run operation)) (\<lambda>_.
       raise_op (ApiError ''FORBIDDEN'' ''Only the submitting user can view this query run'' 403 []))))"

subsection \<open>Administrative changes\<close>

definition require_admin :: "ActorContext \<Rightarrow> ('s, unit) op" where
  "require_admin actor = check_op (actor_is_admin actor)
     (ApiError ''FORBIDDEN'' ''Admin role is required to access this endpoint'' 403 [])"

definition require_resource_exists :: "(string \<Rightarrow> string \<Rightarrow> bool) \<Rightarrow> string \<Rightarrow> string \<Rightarrow> ('s, unit) op" where
  "require_resource_exists exists resource_type resource_id =
     check_op (resource_type \<in> {''dataset'', ''etl_job'', ''dashboard''} \<and> exists resource_type resource_id)
       (ApiError ''NOT_FOUND'' (''Permission resource '' @ resource_type @ '':'' @ resource_id @ '' was not found'') 404 [])"

definition admin_entry ::
  "string \<Rightarrow> ActorContext \<Rightarrow> string \<Rightarrow> string \<Rightarrow> dict \<Rightarrow> int option \<Rightarrow> string \<Rightarrow> AuditTargetType \<Rightarrow> audit_entry" where
  "admin_entry action actor api_path http_method metadata status target_id target =
     \<lparr>en_action = action, en_actor = actor, en_api_path = api_path, en_target_id = target_id, en_target_type = target,
      en_result = ''success'', en_http_method = Some http_method, en_metadata = metadata, en_request_id = None,
      en_status_code = status, en_target_name = None\<rparr>"

text \<open>The audit entry of a change that is already committed; the target type is converted before the guarded call.\<close>

definition audit_change :: "audit_ids \<Rightarrow> string \<Rightarrow> (AuditTargetType \<Rightarrow> audit_entry) \<Rightarrow> (access_db, unit) op" where
  "audit_change ids target_type entry =
     bind_op (lift_res (audit_target_of target_type)) (\<lambda>target.
     bind_op (safe_record_audit_event ids (entry target)) (\<lambda>_. return_op ()))"

record grant_request =
  gq_resource_type :: string
  gq_resource_id :: string
  gq_principal_type :: string
  gq_principal_id :: string
  gq_actions :: "string list"

definition create_admin_permission_grant ::
  "audit_ids \<Rightarrow> string \<Rightarrow> timestamp \<Rightarrow> (string \<Rightarrow> string \<Rightarrow> bool) \<Rightarrow> (access_db, 'r) op \<Rightarrow> ActorContext \<Rightarrow> grant_request
   \<Rightarrow> (access_db, 'r) op" where
  "create_admin_permission_grant ids uuid now exists respond actor rq =
     bind_op (require_admin actor) (\<lambda>_.
     bind_op (require_resource_exists exists (gq_resource_type rq) (gq_resource_id rq)) (\<lambda>_.
     bind_op (create_permission_grant uuid now (gq_resource_type rq) (gq_resource_id rq) (gq_principal_type rq)
       (gq_principal_id rq) (gq_actions rq) (Some (act_name actor))) (\<lambda>g.
     bind_op (audit_change ids (gq_resource_type rq) (admin_entry ''admin.permission_grant.created'' actor
       ''/api/admin/permissions'' ''POST''
       [(''actions'', JList (map JStr (gq_actions rq))), (''grantId'', JStr (gr_id g)),
        (''principalId'', JStr (gq_principal_id rq)), (''principalType'', JStr (gq_principal_type rq))]
       (Some 201) (gq_resource_id rq))) (\<lambda>_.
     respond))))"

definition update_admin_permission_grant ::
  "audit_ids \<Rightarrow> (access_db, 'r) op \<Rightarrow> ActorContext \<Rightarrow> string \<Rightarrow> string option \<Rightarrow> string option \<Rightarrow> string list option
   \<Rightarrow> (access_db, 'r) op" where
  "update_admin_permission_grant ids respond actor grant_id principal_type principal_id actions =
     bind_op (require_admin actor) (\<lambda>_.
     bind_op (update_permission_grant grant_id principal_type principal_id actions) (\<lambda>g.
     bind_op (audit_change ids (gr_resource_type g) (admin_entry ''admin.permission_grant.updated'' actor
       (''/api/admin/permissions/'' @ grant_id) ''PATCH''
       [(''actions'', case actions of None \<Rightarrow> JNull | Some a \<Rightarrow> JList (map JStr a)), (''grantId'', JStr (gr_id g)),
        (''principalId'', JStr (gr_principal_id g)), (''principalType'', JStr (gr_principal_type g))]
       None (gr_resource_id g))) (\<lambda>_.
     respond)))"

definition delete_admin_permission_grant ::
  "audit_ids \<Rightarrow> (access_db, 'r) op \<Rightarrow> ActorContext \<Rightarrow> string \<Rightarrow> (access_db, 'r) op" where
  "delete_admin_permission_grant ids respond actor grant_id =
     bind_op (require_admin actor) (\<lambda>_.
     bind_op (delete_permission_grant grant_id) (\<lambda>g.
     bind_op (audit_change ids (gr_resource_type g) (admin_entry ''admin.permission_grant.deleted'' actor
       (''/api/admin/permissions/'' @ grant_id) ''DELETE''
       [(''actions'', JList (map JStr (gr_actions g))), (''grantId'', JStr (gr_id g)),
        (''principalId'', JStr (gr_principal_id g)), (''principalType'', JStr (gr_principal_type g))]
       None (gr_resource_id g))) (\<lambda>_.
     respond)))"

definition update_admin_principal_control ::
  "audit_ids \<Rightarrow> string \<Rightarrow> (access_db, 'r) op \<Rightarrow> ActorContext \<Rightarrow> string \<Rightarrow> string \<Rightarrow> string option \<Rightarrow> string \<Rightarrow> (access_db, 'r) op" where
  "update_admin_principal_control ids uuid respond actor principal_type principal_id reason status =
     bind_op (require_admin actor) (\<lambda>_.
     bind_op (set_principal_control uuid principal_type principal_id reason status (Some (act_name actor))) (\<lambda>row.
     bind_op (audit_change ids (pc_principal_type row) (admin_entry ''admin.principal_control.updated'' actor
       ''/api/admin/governance/principals'' ''PATCH''
       [(''principalId'', JStr (pc_principal_id row)), (''principalType'', JStr (pc_principal_type row)),
        (''reason'', of_opt_str (pc_reason row)), (''status'', JStr (pc_status row))]
       None (pc_principal_id row))) (\<lambda>_.
     respond)))"

definition update_admin_resource_lock ::
  "audit_ids \<Rightarrow> string \<Rightarrow> (string \<Rightarrow> string \<Rightarrow> bool) \<Rightarrow> (access_db, 'r) op \<Rightarrow> ActorContext \<Rightarrow> bool \<Rightarrow> string option \<Rightarrow> string \<Rightarrow> string
   \<Rightarrow> (access_db, 'r) op" where
  "update_admin_resource_lock ids uuid exists respond actor locked reason resource_id resource_type =
     bind_op (require_admin actor) (\<lambda>_.
     bind_op (require_resource_exists exists resource_type resource_id) (\<lambda>_.
     bind_op (set_resource_lock uuid locked reason resource_id resource_type (Some (act_name actor))) (\<lambda>row.
     bind_op (audit_change ids (rl_resource_type row) (admin_entry ''admin.resource_lock.updated'' actor
       ''/api/admin/governance/resource-locks'' ''PATCH''
       [(''locked'', JBool (rl_locked row)), (''reason'', of_opt_str (rl_reason row)),
        (''resourceId'', JStr (rl_resource_id row)), (''resourceType'', JStr (rl_resource_type row))]
       None (rl_resource_id row))) (\<lambda>_.
     respond))))"

subsection \<open>Sessions and headers\<close>

definition actor_of_user :: "auth_user \<Rightarrow> ActorContext" where
  "actor_of_user u =
     \<lparr>act_name = text_or (us_display_name u) (text_or (us_email u) (text_or (us_id u) ''authenticated-user'')),
      act_role = text_or (us_role u) ''viewer'', act_groups = us_groups u,
      act_id = (if us_id u = [] then None else Some (us_id u)),
      act_email = (if us_email u = [] then None else Some (us_email u)),
      act_title = (case us_title u of None \<Rightarrow> None | Some v \<Rightarrow> if v = [] then None else Some v)\<rparr>"

lemma session_actor_user: "session_actor (user_to_actor u) = actor_of_user u"
  by (simp add: session_actor_def user_to_actor_def actor_of_user_def text_or_def opt_text_of_def por_def of_opt_str_def Let_def
      comp_def split: option.splits)

lemma actor_for_session_keeps: "actor_for_session now token s = (Inr (Some d), t) \<Longrightarrow> t = s"
  by (auto simp: actor_for_session_def return_op_def split: list.splits option.splits if_splits)

text \<open>C10. A request is served for the user its session stands for now, or not at all. Where the header fallback is off,
  the actor is taken from the current account of an unexpired session, with its current role and groups and
  not those of the snapshot, and only while the account is active and not blocked; whatever the headers
  say, any other request is refused with 401.\<close>

theorem session_actor_is_current:
  assumes "identities_ok s"
  shows "case resolve_actor_context False now token actor_name actor_role actor_groups s of
      (Inl e, t) \<Rightarrow> e = unauthorized \<and> (\<forall>tok u. token = Some tok \<and> tok \<noteq> [] \<longrightarrow> \<not> valid_session now s tok u)
    | (Inr a, t) \<Rightarrow> t = s \<and> (\<exists>tok u. token = Some tok \<and> valid_session now s tok u \<and> a = actor_of_user u)"
proof (cases "some_text token = []")
  case True
  then have "\<not> (token = Some tok \<and> tok \<noteq> [])" for tok by (auto simp: some_text_def split: if_splits)
  then show ?thesis using True by (auto simp: resolve_actor_context_def op_defs)
next
  case False
  obtain v t where run: "actor_for_session now token s = (Inr v, t)" using actor_for_session_total by blast
  show ?thesis
  proof (cases v)
    case None
    then have "\<not> (\<exists>tok u. token = Some tok \<and> tok \<noteq> [] \<and> valid_session now s tok u)"
      using actor_for_session_Some [OF assms, of now token] run by force
    then show ?thesis using False run None by (auto simp: resolve_actor_context_def op_defs)
  next
    case (Some d)
    then obtain tok u where "token = Some tok" "valid_session now s tok u" "d = user_to_actor u"
      using actor_for_session_Some [OF assms, of now token d] run by auto
    then show ?thesis using False run Some actor_for_session_keeps [of now token s d t]
      by (auto simp: resolve_actor_context_def op_defs session_actor_user)
  qed
qed

definition sample_identities :: access_db where
  "sample_identities =
     \<lparr>ad_users = [new_user sample_auth_env ''kim@asklake.io'' ''secret'' ''Kim''],
      ad_sessions = [\<lparr>se_token = ''t1'', se_user_id = ''kim-1'', se_expires_at = 100, se_user_snapshot = []\<rparr>],
      ad_grants = [], ad_controls = [], ad_locks = [], ad_audits = []\<rparr>"

theorem session_actor_is_current_witness:
  "fst (resolve_actor_context False 10 (Some ''t1'') ''root'' ''admin'' None sample_identities) =
      Inr (actor_of_user (new_user sample_auth_env ''kim@asklake.io'' ''secret'' ''Kim''))
    \<and> fst (resolve_actor_context False 200 (Some ''t1'') ''root'' ''admin'' None sample_identities) = Inl unauthorized"
proof -
  have ok: "identities_ok sample_identities" by (simp add: identities_ok_def sample_identities_def keyed_def)
  have valid: "valid_session now sample_identities tok u \<longleftrightarrow>
      now < 100 \<and> tok = ''t1'' \<and> u = new_user sample_auth_env ''kim@asklake.io'' ''secret'' ''Kim''" for now tok u
    by (auto simp: valid_session_def sample_identities_def blocked_principal_for_actor_def new_user_def sample_auth_env_def)
  show ?thesis
    using session_actor_is_current [OF ok, where now = 10 and token = "Some ''t1''" and actor_name = "''root''" and actor_role = "''admin''" and actor_groups = None]
      session_actor_is_current [OF ok, where now = 200 and token = "Some ''t1''" and actor_name = "''root''" and actor_role = "''admin''" and actor_groups = None]
    by (auto simp: valid split: prod.splits sum.splits)
qed

subsection \<open>Reports and enforcement agree\<close>

definition reported :: "string \<Rightarrow> ResourcePermissions \<Rightarrow> bool" where
  "reported action p =
     (if action = ''query'' then can_query p else if action = ''run'' then can_run p
      else if action = ''manage'' then can_manage p else if action = ''delete'' then can_delete p
      else if action = ''share'' then can_share p else if action = ''publish'' then can_publish p else can_view p)"

lemma lock_known:
  assumes "governance_resource_type rtype = Inr k" and "validate_required rid ''resourceId'' = Inr i"
  shows "resource_lock_for_action action rid rtype s =
    (Inr (if action \<in> set locked_actions then find (\<lambda>r. lock_key r = (k, i) \<and> rl_locked r) (ad_locks s) else None), s)"
  using assms by (simp add: resource_lock_for_action_def op_defs)

lemma governed_access_iff:
  assumes "governance_resource_type (rq_resource_type rq) = Inr k" and "validate_required (rq_resource_id rq) ''resourceId'' = Inr i"
  shows "(\<exists>t. require_governed_access ids actor rq s = (Inr (), t)) \<longleftrightarrow>
    blocked_principal_for_actor s (actor_subject actor) = None
    \<and> (rq_action rq \<in> set locked_actions \<longrightarrow> find (\<lambda>r. lock_key r = (k, i) \<and> rl_locked r) (ad_locks s) = None)"
  using assms
  by (auto simp: require_governed_access_def require_actor_not_blocked_def require_resource_not_locked_def lock_known op_defs
      split: option.splits if_splits prod.splits sum.splits)

lemma permissions_objects:
  "permissions_for_actor actor owner (map GrantObject gs) e =
     Inr (let ok = (\<lambda>a. actor_is_admin actor \<or> some_text owner = [act_name actor] \<or> grants_permit actor a gs)
      in \<lparr>can_view = ok ''view'' \<or> ok ''query'' \<or> ok ''run'' \<or> ok ''manage'' \<or> ok ''delete'' \<or> ok ''share'' \<or> ok ''publish'',
          can_query = ok ''query'', can_run = ok ''run'', can_manage = ok ''manage'', can_delete = ok ''delete'',
          can_share = ok ''share'', can_publish = ok ''publish'', computed_for = act_name actor, enforced = e\<rparr>)"
proof -
  have "py_strip ''view'' = ''view''" "py_strip ''query'' = ''query''" "py_strip ''run'' = ''run''" "py_strip ''manage'' = ''manage''"
    "py_strip ''delete'' = ''delete''" "py_strip ''share'' = ''share''" "py_strip ''publish'' = ''publish''"
    by code_simp+
  then show ?thesis by (simp add: permissions_for_actor_def Let_def can_objects)
qed

lemma reported_state:
  assumes "action \<in> set locked_actions"
  shows "\<exists>p. permissions_for_actor_with_governance_state actor (map GrantObject gs) owner b l = Inr p
    \<and> (reported action p \<longleftrightarrow> \<not> b \<and> \<not> l \<and> (actor_is_admin actor \<or> some_text owner = [act_name actor] \<or> grants_permit actor action gs))"
  using assms
  by (cases b; cases l)
    (auto simp: permissions_for_actor_with_governance_state_def permissions_objects reported_def locked_actions_def Let_def)

lemma locked_action_strip: "action \<in> set locked_actions \<Longrightarrow> py_strip action = action"
  by (auto simp: locked_actions_def py_strip_def py_space_def char_code_def)

text \<open>C22. What an actor is told and what is enforced agree: for every action a lock covers (query, run, manage, delete and
  share), the permissions reported for a resource contain the action exactly when the governance check and
  the permission check both let the request through.\<close>

theorem report_agrees_with_enforcement:
  assumes "action \<in> set locked_actions" and "rq_action rq = action"
    and "governance_resource_type (rq_resource_type rq) = Inr k" and "validate_required (rq_resource_id rq) ''resourceId'' = Inr i"
  shows "\<exists>p. permissions_for_actor_with_governance actor (map GrantObject gs) owner (rq_resource_id rq) (rq_resource_type rq) s = (Inr p, s)
    \<and> (reported action p \<longleftrightarrow> (\<exists>t. require_governed_access ids actor rq s = (Inr (), t))
         \<and> require_permission actor action owner (map GrantObject gs) label = Inr ())"
proof -
  let ?b = "blocked_principal_for_actor s (actor_subject actor) \<noteq> None"
  let ?l = "find (\<lambda>r. lock_key r = (k, i) \<and> rl_locked r) (ad_locks s) \<noteq> None"
  let ?ok = "actor_is_admin actor \<or> some_text owner = [act_name actor] \<or> grants_permit actor action gs"
  have "''query'' \<in> set locked_actions" by (simp add: locked_actions_def)
  then have run: "permissions_for_actor_with_governance actor (map GrantObject gs) owner (rq_resource_id rq) (rq_resource_type rq) s =
      (permissions_for_actor_with_governance_state actor (map GrantObject gs) owner ?b ?l, s)"
    using lock_known [OF assms(3,4)] by (simp add: permissions_for_actor_with_governance_def op_defs)
  obtain p where p: "permissions_for_actor_with_governance_state actor (map GrantObject gs) owner ?b ?l = Inr p"
    "reported action p \<longleftrightarrow> \<not> ?b \<and> \<not> ?l \<and> ?ok"
    using reported_state [OF assms(1), of actor gs owner ?b ?l] by (elim exE conjE)
  have "action \<noteq> []" using assms(1) by (auto simp: locked_actions_def)
  then have "require_permission actor action owner (map GrantObject gs) label = Inr () \<longleftrightarrow> ?ok"
    using locked_action_strip [OF assms(1)] by (simp add: require_permission_def can_objects)
  moreover have "(\<exists>t. require_governed_access ids actor rq s = (Inr (), t)) \<longleftrightarrow> \<not> ?b \<and> \<not> ?l"
    using governed_access_iff [OF assms(3,4), of ids actor s] assms(1,2) by simp
  ultimately have "reported action p \<longleftrightarrow> (\<exists>t. require_governed_access ids actor rq s = (Inr (), t))
      \<and> require_permission actor action owner (map GrantObject gs) label = Inr ()" using p(2) by blast
  then show ?thesis using run p(1) by metis
qed

definition sample_query :: access_request where
  "sample_query = \<lparr>rq_action = ''query'', rq_api_path = ''/api/query/runs'', rq_http_method = ''POST'', rq_metadata = [],
     rq_resource_id = ''d'', rq_resource_name = None, rq_resource_type = ''dataset''\<rparr>"

definition sample_ids :: audit_ids where
  "sample_ids = \<lparr>ai_audit = ''a1'', ai_request = ''r1''\<rparr>"

lemma sample_resource: "governance_resource_type ''dataset'' = Inr ''dataset''" "validate_required ''d'' ''resourceId'' = Inr ''d''"
  by code_simp+

definition sample_query_grant :: PermissionGrant where
  "sample_query_grant = \<lparr>pg_id = None, pg_actions = [''query''], pg_principal_id = ''analytics'', pg_principal_name = None,
     pg_principal_type = ''group'', pg_source = ''permissionRoles''\<rparr>"

theorem report_agrees_with_enforcement_witness:
  "\<exists>p. permissions_for_actor_with_governance sample_actor (map GrantObject [sample_query_grant]) None ''d'' ''dataset'' sample_access =
      (Inr p, sample_access)
    \<and> (reported ''query'' p \<longleftrightarrow> (\<exists>t. require_governed_access sample_ids sample_actor sample_query sample_access = (Inr (), t))
         \<and> require_permission sample_actor ''query'' None (map GrantObject [sample_query_grant]) ''dataset'' = Inr ())"
proof -
  have "''query'' \<in> set locked_actions" "rq_action sample_query = ''query''"
    by (simp_all add: locked_actions_def sample_query_def)
  from report_agrees_with_enforcement [OF this, where k = "''dataset''" and i = "''d''" and actor = sample_actor
      and gs = "[sample_query_grant]" and owner = None and s = sample_access and ids = sample_ids and label = "''dataset''"]
  show ?thesis using sample_resource by (simp add: sample_query_def)
qed

text \<open>View is the exception. A grant that lists only query, as the creation UI makes from a role's access, makes the
  report say that the actor can view the resource, but the view check refuses the same actor with 403.\<close>

theorem query_only_grant_cannot_view:
  assumes "\<not> actor_is_admin actor" and "some_text owner \<noteq> [act_name actor]"
    and "blocked_principal_for_actor s (actor_subject actor) = None"
    and "governance_resource_type rtype = Inr k" and "validate_required rid ''resourceId'' = Inr i"
    and "grants_permit actor ''query'' gs" and "\<not> grants_permit actor ''view'' gs"
  shows "\<exists>p. permissions_for_actor_with_governance actor (map GrantObject gs) owner rid rtype s = (Inr p, s) \<and> can_view p
    \<and> require_permission actor ''view'' owner (map GrantObject gs) label = Inl (forbidden_action actor ''view'' label)"
proof -
  let ?l = "find (\<lambda>r. lock_key r = (k, i) \<and> rl_locked r) (ad_locks s) \<noteq> None"
  have "''query'' \<in> set locked_actions" by (simp add: locked_actions_def)
  then have run: "permissions_for_actor_with_governance actor (map GrantObject gs) owner rid rtype s =
      (permissions_for_actor_with_governance_state actor (map GrantObject gs) owner False ?l, s)"
    using lock_known [OF assms(4,5)] assms(3) by (simp add: permissions_for_actor_with_governance_def op_defs)
  have "\<exists>p. permissions_for_actor_with_governance_state actor (map GrantObject gs) owner False ?l = Inr p \<and> can_view p"
    using assms(6) by (cases ?l) (simp_all add: permissions_for_actor_with_governance_state_def permissions_objects Let_def)
  moreover have "py_strip ''view'' = ''view''" by code_simp
  then have "require_permission actor ''view'' owner (map GrantObject gs) label = Inl (forbidden_action actor ''view'' label)"
    using assms(1,2,7) by (simp add: require_permission_def can_objects)
  ultimately show ?thesis using run by auto
qed

lemma sample_query_grant_made:
  "permission_grants_from_roles [] [JObj [(''principalType'', JStr ''group''), (''principalId'', JStr ''analytics''),
     (''access'', JList [JStr (fst (last action_labels))])]] [] =
     [grant [''query''] ''analytics'' ''group'' ''permissionRoles'']"
  by code_simp

theorem query_only_grant_cannot_view_witness:
  "\<exists>p. permissions_for_actor_with_governance sample_actor (map GrantObject [sample_query_grant]) None ''d'' ''dataset'' sample_access =
      (Inr p, sample_access) \<and> can_view p
    \<and> require_permission sample_actor ''view'' None (map GrantObject [sample_query_grant]) ''dataset'' =
        Inl (forbidden_action sample_actor ''view'' ''dataset'')"
proof (rule query_only_grant_cannot_view [OF _ _ _ sample_resource])
  show "blocked_principal_for_actor sample_access (actor_subject sample_actor) = None"
    by (simp add: blocked_principal_for_actor_def sample_access_def)
  show "grants_permit sample_actor ''query'' [sample_query_grant]" "\<not> grants_permit sample_actor ''view'' [sample_query_grant]"
    by code_simp+
qed (fact sample_viewer)+

subsection \<open>Access to query runs\<close>

lemma get_dataset_Inr:
  assumes "get_dataset gm catalog label i s = (Inr d, t)" and "grant_validation gm" and "grants_ok s"
    and "\<And>x g. catalog i = Some x \<Longrightarrow> g \<in> set (qd_grants x) \<Longrightarrow> grant_typed g"
  obtains x where "t = s" and "catalog i = Some x" and "qd_id d = qd_id x" and "qd_owner d = qd_owner x"
    and "\<And>actor a. grants_permit actor a (qd_grants d) \<longleftrightarrow>
      grants_permit actor a (qd_grants x) \<or> matrix_allows (access_matrix s) actor (''dataset'', qd_id x) a"
proof -
  obtain x where x: "catalog i = Some x" using assms(1) by (auto simp: get_dataset_def split: option.splits)
  have typed: "\<forall>g \<in> set (qd_grants x). grant_typed g" using assms(4) x by blast
  obtain hs where hs: "permission_grants_for_resource gm s (''dataset'', qd_id x) (qd_grants x) = Inr hs"
    "\<And>actor a. grants_permit actor a hs = grants_permit actor a (qd_grants x @ map row_fields (live_rows s [(''dataset'', qd_id x)]))"
    by (rule grant_validation.resource_grants [OF assms(2,3) typed]) blast
  then have "d = x\<lparr>qd_grants := hs\<rparr>" "t = s"
    using assms(1) x by (auto simp: get_dataset_def dataset_with_persisted_permission_grants_def)
  then show ?thesis using that [of x] x hs(2) by (simp add: grants_permit_append live_rows_permit)
qed

lemma governed_access_keeps: "require_governed_access ids actor rq s = (Inr u, t) \<Longrightarrow> t = s"
  by (auto simp: require_governed_access_def require_actor_not_blocked_def require_resource_not_locked_def
      resource_lock_for_action_def op_defs split: option.splits if_splits prod.splits sum.splits py_error.splits)

lemma governed_access_Inr:
  assumes "require_governed_access ids actor rq s = (Inr u, t)" and "rq_action rq \<in> set locked_actions"
  shows "blocked_principal_for_actor s (actor_subject actor) = None"
    and "\<forall>l \<in> set (ad_locks s). lock_key l = (py_strip (rq_resource_type rq), py_strip (rq_resource_id rq)) \<longrightarrow> \<not> rl_locked l"
proof -
  let ?body = "bind_op (require_actor_not_blocked (actor_subject actor)) (\<lambda>_.
    require_resource_not_locked (rq_action rq) (rq_resource_id rq) (rq_resource_type rq))"
  have "?body s = (Inr u, t)"
    using assms(1) unfolding require_governed_access_def
    by (cases "?body s") (auto simp: catch_op_def op_elims split: sum.splits py_error.splits)
  then obtain k i where "governance_resource_type (rq_resource_type rq) = Inr k"
    "validate_required (rq_resource_id rq) ''resourceId'' = Inr i" and b: "blocked_principal_for_actor s (actor_subject actor) = None"
    and l: "find (\<lambda>r. lock_key r = (k, i) \<and> rl_locked r) (ad_locks s) = None"
    using assms(2)
    by (auto simp: require_actor_not_blocked_def require_resource_not_locked_def resource_lock_for_action_def op_elims
        split: option.splits)
  then have "k = py_strip (rq_resource_type rq)" "i = py_strip (rq_resource_id rq)"
    by (auto simp: governance_resource_type_def validate_required_def split: if_splits)
  then show "blocked_principal_for_actor s (actor_subject actor) = None"
    and "\<forall>l \<in> set (ad_locks s). lock_key l = (py_strip (rq_resource_type rq), py_strip (rq_resource_id rq)) \<longrightarrow> \<not> rl_locked l"
    using b l by (auto simp: find_None_iff)
qed

text \<open>The actor may query a dataset of the Catalog.\<close>

definition may_query :: "access_db \<Rightarrow> ActorContext \<Rightarrow> query_dataset \<Rightarrow> bool" where
  "may_query s actor x \<longleftrightarrow>
     blocked_principal_for_actor s (actor_subject actor) = None
     \<and> (\<forall>l \<in> set (ad_locks s). lock_key l = (''dataset'', py_strip (qd_id x)) \<longrightarrow> \<not> rl_locked l)
     \<and> (actor_is_admin actor \<or> some_text (Some (qd_owner x)) = [act_name actor] \<or> grants_permit actor ''query'' (qd_grants x)
        \<or> matrix_allows (access_matrix s) actor (''dataset'', qd_id x) ''query'')"

lemma dataset_query_Inr:
  assumes "require_dataset_query ids actor call query d s = (Inr u, t)"
  shows "t = s" and "blocked_principal_for_actor s (actor_subject actor) = None"
    and "\<forall>l \<in> set (ad_locks s). lock_key l = (''dataset'', py_strip (qd_id d)) \<longrightarrow> \<not> rl_locked l"
    and "actor_is_admin actor \<or> some_text (Some (qd_owner d)) = [act_name actor] \<or> grants_permit actor ''query'' (qd_grants d)"
proof -
  let ?perm = "require_permission actor ''query'' (Some (qd_owner d)) (map GrantObject (qd_grants d)) ''dataset''"
  obtain s1 where gov: "require_governed_access ids actor (query_request call query d) s = (Inr (), s1)"
    and perm: "catch_op (lift_res ?perm) (\<lambda>exc. case exc of
          ApiError code msg status details \<Rightarrow>
            bind_op (safe_record_audit_event ids (forbidden_query_entry actor call query d status)) (\<lambda>_. raise_op exc)
        | _ \<Rightarrow> raise_op exc) s1 = (Inr u, t)"
    using assms by (auto simp: require_dataset_query_def op_elims)
  have s1: "s1 = s" using governed_access_keeps [OF gov] .
  have "?perm = Inr u \<and> t = s1"
    using perm by (cases ?perm) (auto simp: catch_op_def lift_res_def op_elims split: py_error.splits)
  moreover have "py_strip ''query'' = ''query''" by code_simp
  ultimately show "t = s" and "actor_is_admin actor \<or> some_text (Some (qd_owner d)) = [act_name actor] \<or> grants_permit actor ''query'' (qd_grants d)"
    using s1 by (auto simp: require_permission_def can_objects split: if_splits)
  have "''query'' \<in> set locked_actions" and strip: "py_strip ''dataset'' = ''dataset''"
    by (simp add: locked_actions_def, code_simp)
  then show "blocked_principal_for_actor s (actor_subject actor) = None"
    and "\<forall>l \<in> set (ad_locks s). lock_key l = (''dataset'', py_strip (qd_id d)) \<longrightarrow> \<not> rl_locked l"
    using governed_access_Inr [OF gov] by (simp_all add: query_request_def)
qed

lemma query_access_Inr:
  assumes "require_query_access ids actor call query ds s = (Inr u, t)"
  shows "t = s \<and> (\<forall>d \<in> set ds. require_dataset_query (ids d) actor call query d s = (Inr (), s))"
  using assms unfolding require_query_access_def
proof (induction ds)
  case Nil
  then show ?case by (simp add: op_elims)
next
  case (Cons d ds)
  then obtain s1 where "require_dataset_query (ids d) actor call query d s = (Inr (), s1)"
    "for_op ds (\<lambda>d. require_dataset_query (ids d) actor call query d) s1 = (Inr u, t)" by (auto simp: op_elims)
  moreover from this have "s1 = s" using dataset_query_Inr(1) by metis
  ultimately show ?case using Cons.IH by auto
qed

lemma get_datasets_Inr:
  assumes "get_datasets gm catalog label is s = (Inr ds, t)"
  shows "t = s \<and> (\<forall>i \<in> set is. \<exists>d \<in> set ds. get_dataset gm catalog label i s = (Inr d, s))"
  using assms
proof (induction "is" arbitrary: ds)
  case Nil
  then show ?case by (simp add: op_elims)
next
  case (Cons i "is")
  then obtain d s1 ds' where "get_dataset gm catalog label i s = (Inr d, s1)" "get_datasets gm catalog label is s1 = (Inr ds', t)" "ds = d # ds'"
    by (auto simp: op_elims)
  moreover from this have "s1 = s" by (auto simp: get_dataset_def split: option.splits)
  ultimately show ?case using Cons.IH by auto
qed

definition may_manage :: "access_db \<Rightarrow> ActorContext \<Rightarrow> query_dataset \<Rightarrow> bool" where
  "may_manage s actor x \<longleftrightarrow>
     actor_is_admin actor \<or> some_text (Some (qd_owner x)) = [act_name actor] \<or> grants_permit actor ''manage'' (qd_grants x)
     \<or> matrix_allows (access_matrix s) actor (''dataset'', qd_id x) ''manage''"

lemma loaded_may_query:
  assumes "grant_validation gm" and "grants_ok s" and "\<And>i x g. catalog i = Some x \<Longrightarrow> g \<in> set (qd_grants x) \<Longrightarrow> grant_typed g"
    and "get_dataset gm catalog label i s = (Inr d, s)" and "require_dataset_query ids actor call query d s = (Inr u, t)"
  shows "\<exists>x. catalog i = Some x \<and> may_query s actor x"
proof -
  obtain x where x: "catalog i = Some x" "qd_id d = qd_id x" "qd_owner d = qd_owner x"
    "\<And>actor a. grants_permit actor a (qd_grants d) \<longleftrightarrow>
      grants_permit actor a (qd_grants x) \<or> matrix_allows (access_matrix s) actor (''dataset'', qd_id x) a"
    by (rule get_dataset_Inr [OF assms(4,1,2)]) (use assms(3) in blast)+
  then show ?thesis using dataset_query_Inr [OF assms(5)] by (auto simp: may_query_def)
qed

text \<open>C11. A query run is shown or cancelled only for those entitled to it. When the access check lets an actor through,
  it has changed nothing; the actor is not blocked and may query every dataset the run reads, none of which
  is locked, by the current grants; and the actor is an administrator, the one who submitted the run, or, to
  cancel it, somebody who may manage its base dataset.\<close>

theorem query_run_only_for_entitled:
  assumes "grant_validation gm" and "grants_ok s" and "\<forall>i x g. catalog i = Some x \<and> g \<in> set (qd_grants x) \<longrightarrow> grant_typed g"
    and "require_access_for_response gm catalog ids run_ids run actor operation s = (Inr u, t)"
  shows "t = s \<and> (\<forall>i \<in> set (qr_base_dataset_id run # qr_reference_dataset_ids run). \<exists>x. catalog i = Some x \<and> may_query s actor x)
    \<and> (actor_is_admin actor \<or> is_run_submitter (qr_submitted_by_user_id run) (qr_submitted_by_name run) actor
       \<or> operation = ''cancel'' \<and> (\<exists>x. catalog (qr_base_dataset_id run) = Some x \<and> may_manage s actor x))"
proof -
  have typed: "\<And>i x g. catalog i = Some x \<Longrightarrow> g \<in> set (qd_grants x) \<Longrightarrow> grant_typed g" using assms(3) by blast
  obtain base s1 refs s2 s3 b where base: "get_dataset gm catalog ''Base dataset'' (qr_base_dataset_id run) s = (Inr base, s1)"
    and refs: "get_datasets gm catalog ''Reference dataset'' (qr_reference_dataset_ids run) s1 = (Inr refs, s2)"
    and query: "require_query_access ids actor (run_call run operation) (qr_query run) (base # refs) s2 = (Inr (), s3)"
    and manage: "can actor ''manage'' (Some (qd_owner base)) (map (\<lambda>g. JObj (grant_dump g)) (qd_grants base)) = Inr b"
    and ok: "actor_is_admin actor \<or> is_run_submitter (qr_submitted_by_user_id run) (qr_submitted_by_name run) actor \<or> operation = ''cancel'' \<and> b"
    and t: "t = s3"
    using assms(4) by (auto simp: require_access_for_response_def require_query_access_for_run_def op_elims split: if_splits)
  have s1: "s1 = s" using base by (auto simp: get_dataset_def split: option.splits)
  have s2: "s2 = s" and all: "\<forall>i \<in> set (qr_reference_dataset_ids run). \<exists>d \<in> set refs. get_dataset gm catalog ''Reference dataset'' i s = (Inr d, s)"
    using get_datasets_Inr [OF refs] by (auto simp: s1)
  have s3: "s3 = s" and each: "\<forall>d \<in> set (base # refs). require_dataset_query (ids d) actor (run_call run operation) (qr_query run) d s = (Inr (), s)"
    using query_access_Inr [OF query] by (auto simp: s2)
  have "\<exists>x. catalog i = Some x \<and> may_query s actor x" if i: "i \<in> set (qr_reference_dataset_ids run)" for i
  proof -
    obtain d where "d \<in> set refs" "get_dataset gm catalog ''Reference dataset'' i s = (Inr d, s)"
      using bspec [OF all i] by blast
    then show ?thesis using loaded_may_query [OF assms(1,2) typed, where i = i and d = d] each by auto
  qed
  moreover have "\<exists>x. catalog (qr_base_dataset_id run) = Some x \<and> may_query s actor x"
    using loaded_may_query [OF assms(1,2) typed, where i = "qr_base_dataset_id run" and d = base] base s1 each by auto
  moreover have "\<exists>x. catalog (qr_base_dataset_id run) = Some x \<and> may_manage s actor x" if b
  proof -
    have "map (\<lambda>g. JObj (grant_dump g)) (qd_grants base) = grant_payloads (map GrantObject (qd_grants base))"
      by (simp add: grant_payloads_def comp_def)
    moreover have "py_strip ''manage'' = ''manage''" by code_simp
    ultimately have "actor_is_admin actor \<or> some_text (Some (qd_owner base)) = [act_name actor] \<or> grants_permit actor ''manage'' (qd_grants base)"
      using manage \<open>b\<close> by (simp add: can_objects)
    then show ?thesis
      by (rule_tac get_dataset_Inr [OF base assms(1,2)]) (use typed in \<open>auto simp: may_manage_def\<close>)
  qed
  ultimately show ?thesis using ok t s3 by auto
qed

definition sample_datasets :: "string \<Rightarrow> query_dataset option" where
  "sample_datasets i = (if i = ''d'' then Some \<lparr>qd_id = ''d'', qd_name = ''orders'', qd_owner = ''park'', qd_grants = []\<rparr> else None)"

definition sample_query_run :: query_run where
  "sample_query_run = \<lparr>qr_run_id = ''trino_1'', qr_base_dataset_id = ''d'', qr_reference_dataset_ids = [], qr_query = ''SELECT 1'',
     qr_submitted_by_user_id = None, qr_submitted_by_name = Some ''lee'', qr_trino_query_id = None\<rparr>"

lemma sample_dataset:
  "\<exists>gs. get_dataset schema_grant_model sample_datasets label ''d'' sample_access =
      (Inr \<lparr>qd_id = ''d'', qd_name = ''orders'', qd_owner = ''park'', qd_grants = gs\<rparr>, sample_access)
    \<and> grants_permit sample_actor ''query'' gs"
proof -
  obtain hs where "permission_grants_for_resource schema_grant_model sample_access (''dataset'', ''d'') [] = Inr hs"
    "\<And>actor a. grants_permit actor a hs = grants_permit actor a ([] @ map row_fields (live_rows sample_access [(''dataset'', ''d'')]))"
    by (rule schema.resource_grants [OF sample_access_ok, of "[]" "(''dataset'', ''d'')"]) simp_all
  then show ?thesis
    using sample_matrix
    by (simp add: get_dataset_def sample_datasets_def dataset_with_persisted_permission_grants_def live_rows_permit)
qed

lemma sample_governed: "rq_resource_type rq = ''dataset'' \<Longrightarrow> rq_resource_id rq = ''d'' \<Longrightarrow>
    require_governed_access ids actor rq sample_access = (Inr (), sample_access)"
  by (simp add: require_governed_access_def require_actor_not_blocked_def require_resource_not_locked_def
      resource_lock_for_action_def sample_resource op_defs blocked_principal_for_actor_def sample_access_def)

theorem query_run_only_for_entitled_witness:
  "\<exists>u t. require_access_for_response schema_grant_model sample_datasets (\<lambda>_. sample_ids) sample_ids sample_query_run sample_actor ''view''
      sample_access = (Inr u, t) \<and> (\<exists>x. sample_datasets ''d'' = Some x \<and> may_query sample_access sample_actor x)"
proof -
  obtain gs where gs: "get_dataset schema_grant_model sample_datasets ''Base dataset'' ''d'' sample_access =
      (Inr \<lparr>qd_id = ''d'', qd_name = ''orders'', qd_owner = ''park'', qd_grants = gs\<rparr>, sample_access)"
    "grants_permit sample_actor ''query'' gs" using sample_dataset by blast
  have "map (\<lambda>g. JObj (grant_dump g)) gs = grant_payloads (map GrantObject gs)" by (simp add: grant_payloads_def comp_def)
  moreover have "is_run_submitter None (Some ''lee'') sample_actor" by code_simp
  ultimately have run: "require_access_for_response schema_grant_model sample_datasets (\<lambda>_. sample_ids) sample_ids sample_query_run
      sample_actor ''view'' sample_access = (Inr (), sample_access)"
    using gs sample_viewer(3)
    by (simp add: require_access_for_response_def require_query_access_for_run_def require_query_access_def require_dataset_query_def
        sample_query_run_def query_request_def sample_governed require_permission_def can_objects op_defs)
  have "\<forall>i x g. sample_datasets i = Some x \<and> g \<in> set (qd_grants x) \<longrightarrow> grant_typed g" by (simp add: sample_datasets_def)
  from query_run_only_for_entitled [OF schema.grant_validation_axioms sample_access_ok this run] run show ?thesis
    by (simp add: sample_query_run_def)
qed

subsection \<open>Administrative changes\<close>

inductive admin_call :: "audit_ids \<Rightarrow> (access_db, 'r) op \<Rightarrow> ActorContext \<Rightarrow> access_db \<Rightarrow> 'r res \<Rightarrow> access_db \<Rightarrow> bool" where
  "create_admin_permission_grant ids uuid now exists respond actor rq s = (r, t) \<Longrightarrow> admin_call ids respond actor s r t"
| "update_admin_permission_grant ids respond actor gid kind_opt pid_opt actions_opt s = (r, t) \<Longrightarrow> admin_call ids respond actor s r t"
| "delete_admin_permission_grant ids respond actor gid s = (r, t) \<Longrightarrow> admin_call ids respond actor s r t"
| "update_admin_principal_control ids uuid respond actor kind pid reason status s = (r, t) \<Longrightarrow> admin_call ids respond actor s r t"
| "update_admin_resource_lock ids uuid exists respond actor locked reason rid rtype s = (r, t) \<Longrightarrow> admin_call ids respond actor s r t"

inductive_cases admin_callE: "admin_call ids respond actor s r t"

definition attributed :: "ActorContext \<Rightarrow> audit_event \<Rightarrow> bool" where
  "attributed actor row \<longleftrightarrow> ae_actor_name row = act_name actor \<and> ae_result row = ''success''"

lemma require_admin_refuses: "\<not> actor_is_admin actor \<Longrightarrow> bind_op (require_admin actor) f s =
    (Inl (ApiError ''FORBIDDEN'' ''Admin role is required to access this endpoint'' 403 []), s)"
  by (simp add: require_admin_def op_defs)

text \<open>The audit step of a change, in a database whose audit log has not used the generated identifier.\<close>

lemma audit_change_appends:
  assumes "audit_change ids target_type (admin_entry action actor path method metadata status tid) s = (Inr u, t)"
    and "target_type \<noteq> ''unknown''" and "''audit_'' @ ai_audit ids \<notin> ae_id ` set (ad_audits s)"
  shows "\<exists>row. ad_audits t = ad_audits s @ [row] \<and> attributed actor row"
proof -
  obtain target v where target: "audit_target_of target_type = Inr target"
    and rec: "safe_record_audit_event ids (admin_entry action actor path method metadata status tid target) s = (Inr v, t)"
    using assms(1) by (auto simp: audit_change_def op_elims)
  have "target \<noteq> AuditUnknown"
    using target assms(2) by (auto simp: audit_target_of_def find_Some_iff split: option.splits)
  moreover have "normalize_result ''success'' = ''success''" by code_simp
  ultimately show ?thesis
    using rec assms(3)
    by (auto simp: safe_record_audit_event_def record_audit_event_def add_audit_event_def require_writable_audit_target_type_def
        transaction_def op_defs sql_insert_def audit_event_row_def admin_entry_def attributed_def)
qed

lemma change_frames:
  "create_permission_grant uuid now rtype rid kind pid actions who s = (Inr g, t) \<Longrightarrow> ad_audits t = ad_audits s"
  "set_principal_control uuid kind pid reason status who s = (Inr c, t) \<Longrightarrow> ad_audits t = ad_audits s \<and> pc_principal_type c \<noteq> ''unknown''"
  "set_resource_lock uuid locked reason rid rtype who s = (Inr l, t) \<Longrightarrow> ad_audits t = ad_audits s \<and> rl_resource_type l \<noteq> ''unknown''"
proof -
  show "ad_audits t = ad_audits s" if "create_permission_grant uuid now rtype rid kind pid actions who s = (Inr g, t)"
    using that by (auto simp: create_permission_grant_def op_elims Let_def dest!: insert_grants_rows)
  have found: "lookup_key control_key (k, p) cs = Some y \<Longrightarrow> pc_principal_type y = k"
      "lookup_key lock_key (k, p) ls = Some z \<Longrightarrow> rl_resource_type z = k" for k p cs ls y z
    by (auto simp: control_key_def lock_key_def dest: lookup_key_Some)
  show "ad_audits t = ad_audits s \<and> pc_principal_type c \<noteq> ''unknown''" if "set_principal_control uuid kind pid reason status who s = (Inr c, t)"
    using that
    by (cases "lookup_key control_key (py_strip kind, py_strip pid) (ad_controls s)")
      (auto simp: set_principal_control_def op_elims Let_def write_control_def governance_principal_type_def validate_required_def
        dest: found split: if_splits)
  show "ad_audits t = ad_audits s \<and> rl_resource_type l \<noteq> ''unknown''" if "set_resource_lock uuid locked reason rid rtype who s = (Inr l, t)"
    using that
    by (cases "lookup_key lock_key (py_strip rtype, py_strip rid) (ad_locks s)")
      (auto simp: set_resource_lock_def op_elims Let_def write_lock_def governance_resource_type_def validate_required_def
        dest: found split: if_splits)
qed

lemma grant_change_frames:
  assumes "grants_ok s"
  shows "update_permission_grant gid kind_opt pid_opt actions_opt s = (Inr g, t) \<Longrightarrow> ad_audits t = ad_audits s \<and> gr_resource_type g \<noteq> ''unknown''"
    and "delete_permission_grant gid s = (Inr g, t) \<Longrightarrow> ad_audits t = ad_audits s \<and> gr_resource_type g \<noteq> ''unknown''"
proof -
  have known: "gr_resource_type x \<noteq> ''unknown''" if "grant_row_ok x" for x
    using that by (auto simp: grant_row_ok_def allowed_resource_types_def)
  have wrote: "ad_audits t = ad_audits s" if "write_grant_row row s = (Inr (), t)" for row
    using that by (auto simp: write_grant_row_def op_elims)
  show "ad_audits t = ad_audits s \<and> gr_resource_type g \<noteq> ''unknown''" if "update_permission_grant gid kind_opt pid_opt actions_opt s = (Inr g, t)"
    using that assms by (rule update_cases) (use known wrote in blast)
  show "ad_audits t = ad_audits s \<and> gr_resource_type g \<noteq> ''unknown''" if del: "delete_permission_grant gid s = (Inr g, t)"
  proof -
    have "\<exists>old \<in> set (ad_grants s). gr_resource_type g = gr_resource_type old"
      using del by (auto simp: delete_permission_grant_def op_elims split: if_splits dest: found_row)
    then have "gr_resource_type g \<noteq> ''unknown''" using assms known by (metis grants_ok_def)
    moreover have "ad_audits t = ad_audits s" using del by (rule delete_cases) (use wrote in auto)
    ultimately show ?thesis by simp
  qed
qed


definition sample_admin :: ActorContext where
  "sample_admin = sample_actor\<lparr>act_name := ''root'', act_role := ''Admin''\<rparr>"


end
