(* ===== verification/Sql_Guard.thy ===== *)
theory Sql_Guard
  imports Prelude
begin

section \<open>The guard of SQL previews\<close>

text \<open>
  \<open>services/sql_service.py\<close>: which queries may run in a preview, and the column names of its tables. The scanners
  of the guard walk over the query with an index, so a query is its list of code points here, not its encoding. Every
  \<open>while\<close> loop is a \<open>partial_function\<close>, for which not ending is the value \<open>None\<close>. Which code points outside ASCII
  are alphanumeric is the argument \<open>alnum\<close>; the white space is that of \<open>str.isspace\<close>. Folding to lower case is only
  used to look for ASCII keywords: it is modelled on the code points whose folding contains an ASCII letter.
\<close>

type_synonym sql_text = "int list"

definition ascii :: "string \<Rightarrow> sql_text" where
  "ascii s = map of_char s"

subsection \<open>Characters\<close>

definition cp_space :: "int \<Rightarrow> bool" where
  "cp_space c \<longleftrightarrow> (9 \<le> c \<and> c \<le> 13) \<or> (28 \<le> c \<and> c \<le> 32) \<or> c = 133 \<or> c = 160 \<or> c = 5760 \<or> (8192 \<le> c \<and> c \<le> 8202)
     \<or> c = 8232 \<or> c = 8233 \<or> c = 8239 \<or> c = 8287 \<or> c = 12288"

definition cp_alnum :: "(int \<Rightarrow> bool) \<Rightarrow> int \<Rightarrow> bool" where
  "cp_alnum alnum c \<longleftrightarrow>
     (if c < 128 then (48 \<le> c \<and> c \<le> 57) \<or> (65 \<le> c \<and> c \<le> 90) \<or> (97 \<le> c \<and> c \<le> 122) else alnum c)"

definition cp_lower :: "int \<Rightarrow> sql_text" where
  "cp_lower c = (if 65 \<le> c \<and> c \<le> 90 then [c + 32] else if c = 0x212A then [107] else if c = 0x130 then [105, 0x307] else [c])"

definition sql_lower :: "sql_text \<Rightarrow> sql_text" where
  "sql_lower t = concat (map cp_lower t)"

definition sql_strip :: "sql_text \<Rightarrow> sql_text" where
  "sql_strip t = rev (dropWhile cp_space (rev (dropWhile cp_space t)))"

definition char_at :: "sql_text \<Rightarrow> nat \<Rightarrow> int option" where
  "char_at t i = (if i < length t then Some (t ! i) else None)"

definition is_sql_identifier_char :: "(int \<Rightarrow> bool) \<Rightarrow> int option \<Rightarrow> bool" where
  "is_sql_identifier_char alnum c = (case c of None \<Rightarrow> False | Some x \<Rightarrow> cp_alnum alnum x \<or> x = 95 \<or> x = 36)"

subsection \<open>Masking comments and literals\<close>

partial_function (option) mask_line_comment :: "sql_text \<Rightarrow> nat \<Rightarrow> sql_text \<Rightarrow> (nat \<times> sql_text) option" where
  "mask_line_comment query index masked =
     (if index < length query then
        (if query ! index \<noteq> 10 then mask_line_comment query (index + 1) (masked @ [32])
         else Some (index + 1, masked @ [10]))
      else Some (index, masked))"

partial_function (option) mask_block_body :: "sql_text \<Rightarrow> nat \<Rightarrow> sql_text \<Rightarrow> (nat \<times> sql_text) option" where
  "mask_block_body query index masked =
     (if index < length query then
        (if query ! index = 42 \<and> char_at query (index + 1) = Some 47 then Some (index + 2, masked @ [32, 32])
         else mask_block_body query (index + 1) (masked @ [if query ! index = 10 then 10 else 32]))
      else Some (index, masked))"

definition mask_block_comment :: "sql_text \<Rightarrow> nat \<Rightarrow> sql_text \<Rightarrow> (nat \<times> sql_text) option" where
  "mask_block_comment query index masked = mask_block_body query (index + 2) (masked @ [32, 32])"

partial_function (option) mask_quoted_body :: "sql_text \<Rightarrow> int \<Rightarrow> nat \<Rightarrow> sql_text \<Rightarrow> (nat \<times> sql_text) option" where
  "mask_quoted_body query quote index masked =
     (if index < length query then
        (if query ! index = quote
         then (if char_at query (index + 1) = Some quote then mask_quoted_body query quote (index + 2) (masked @ [32, 32])
               else Some (index + 1, masked @ [32]))
         else mask_quoted_body query quote (index + 1) (masked @ [32]))
      else Some (index, masked))"

definition mask_quoted_value :: "sql_text \<Rightarrow> nat \<Rightarrow> int \<Rightarrow> sql_text \<Rightarrow> (nat \<times> sql_text) option" where
  "mask_quoted_value query index quote masked = mask_quoted_body query quote (index + 1) (masked @ [32])"

partial_function (option) mask_loop :: "sql_text \<Rightarrow> nat \<Rightarrow> sql_text \<Rightarrow> sql_text option" where
  "mask_loop query index masked =
     (if index < length query then
        (if query ! index = 45 \<and> char_at query (index + 1) = Some 45
           then Option.bind (mask_line_comment query index masked) (\<lambda>(i, m). mask_loop query i m)
         else if query ! index = 47 \<and> char_at query (index + 1) = Some 42
           then Option.bind (mask_block_comment query index masked) (\<lambda>(i, m). mask_loop query i m)
         else if query ! index = 39
           then Option.bind (mask_quoted_value query index 39 masked) (\<lambda>(i, m). mask_loop query i m)
         else mask_loop query (index + 1) (masked @ [query ! index]))
      else Some masked)"

definition mask_sql_comments_and_literals :: "sql_text \<Rightarrow> sql_text option" where
  "mask_sql_comments_and_literals query = mask_loop query 0 []"

subsection \<open>Skipping tokens\<close>

partial_function (option) skip_line_comment :: "sql_text \<Rightarrow> nat \<Rightarrow> nat option" where
  "skip_line_comment query index =
     (if index < length query then
        (if query ! index \<noteq> 10 then skip_line_comment query (index + 1) else Some (index + 1))
      else Some index)"

partial_function (option) skip_block_body :: "sql_text \<Rightarrow> nat \<Rightarrow> nat option" where
  "skip_block_body query index =
     (if index < length query then
        (if query ! index = 42 \<and> char_at query (index + 1) = Some 47 then Some (index + 2)
         else skip_block_body query (index + 1))
      else Some index)"

definition skip_block_comment :: "sql_text \<Rightarrow> nat \<Rightarrow> nat option" where
  "skip_block_comment query index = skip_block_body query (index + 2)"

partial_function (option) skip_quoted_body :: "sql_text \<Rightarrow> int \<Rightarrow> nat \<Rightarrow> nat option" where
  "skip_quoted_body query quote index =
     (if index < length query then
        (if query ! index = quote
         then (if char_at query (index + 1) = Some quote then skip_quoted_body query quote (index + 2) else Some (index + 1))
         else skip_quoted_body query quote (index + 1))
      else Some index)"

definition skip_quoted_sql_token :: "sql_text \<Rightarrow> nat \<Rightarrow> int \<Rightarrow> nat option" where
  "skip_quoted_sql_token query index quote = skip_quoted_body query quote (index + 1)"

partial_function (option) skip_bracket_identifier :: "sql_text \<Rightarrow> nat \<Rightarrow> nat option" where
  "skip_bracket_identifier query index =
     (if index < length query then
        (if query ! index = 93 then Some (index + 1) else skip_bracket_identifier query (index + 1))
      else Some index)"

partial_function (option) skip_space :: "sql_text \<Rightarrow> nat \<Rightarrow> nat option" where
  "skip_space query index =
     (if index < length query \<and> cp_space (query ! index) then skip_space query (index + 1) else Some index)"

partial_function (option) skip_sql_whitespace_and_comments :: "sql_text \<Rightarrow> nat \<Rightarrow> nat option" where
  "skip_sql_whitespace_and_comments query index =
     (if index < length query then
        Option.bind (skip_space query index) (\<lambda>i.
          if char_at query i = Some 45 \<and> char_at query (i + 1) = Some 45
            then Option.bind (skip_line_comment query i) (skip_sql_whitespace_and_comments query)
          else if char_at query i = Some 47 \<and> char_at query (i + 1) = Some 42
            then Option.bind (skip_block_comment query i) (skip_sql_whitespace_and_comments query)
          else Some i)
      else Some index)"

subsection \<open>File paths as relations\<close>

definition keyword_here :: "(int \<Rightarrow> bool) \<Rightarrow> sql_text \<Rightarrow> nat \<Rightarrow> string \<Rightarrow> bool" where
  "keyword_here alnum query index keyword \<longleftrightarrow>
     sql_lower (take (length keyword) (drop index query)) = ascii keyword
     \<and> \<not> is_sql_identifier_char alnum (if index > 0 then char_at query (index - 1) else None)
     \<and> \<not> is_sql_identifier_char alnum (char_at query (index + length keyword))"

definition relation_keyword_at :: "(int \<Rightarrow> bool) \<Rightarrow> sql_text \<Rightarrow> nat \<Rightarrow> string option" where
  "relation_keyword_at alnum query index = find (keyword_here alnum query index) [''from'', ''join'']"

definition file_path_error :: "string \<Rightarrow> py_error" where
  "file_path_error keyword =
     ApiError ''VALIDATION_ERROR'' ''SQL relation sources must use selected catalog tables, not file path literals'' 422
       [(''keyword'', Some (py_upper keyword))]"

partial_function (option) reject_loop :: "(int \<Rightarrow> bool) \<Rightarrow> sql_text \<Rightarrow> nat \<Rightarrow> unit res option" where
  "reject_loop alnum query index =
     (if index < length query then
        (let c = query ! index; next_char = char_at query (index + 1) in
         if c = 45 \<and> next_char = Some 45 then Option.bind (skip_line_comment query index) (reject_loop alnum query)
         else if c = 47 \<and> next_char = Some 42 then Option.bind (skip_block_comment query index) (reject_loop alnum query)
         else if c = 39 \<or> c = 34 \<or> c = 96 then Option.bind (skip_quoted_sql_token query index c) (reject_loop alnum query)
         else if c = 91 then Option.bind (skip_bracket_identifier query index) (reject_loop alnum query)
         else case relation_keyword_at alnum query index of
           Some keyword \<Rightarrow>
             Option.bind (skip_sql_whitespace_and_comments query (index + length keyword)) (\<lambda>relation_start.
               if char_at query relation_start = Some 39 then Some (Inl (file_path_error keyword))
               else reject_loop alnum query relation_start)
         | None \<Rightarrow> reject_loop alnum query (index + 1))
      else Some (Inr ()))"

definition reject_single_quoted_relation_sources :: "(int \<Rightarrow> bool) \<Rightarrow> sql_text \<Rightarrow> unit res option" where
  "reject_single_quoted_relation_sources alnum query = reject_loop alnum query 0"

subsection \<open>One read-only statement\<close>

definition single_statement_error :: py_error where
  "single_statement_error = ApiError ''SQL_SYNTAX_ERROR'' ''Only a single SQL statement is allowed'' 422 []"

definition semicolons :: "sql_text \<Rightarrow> nat" where
  "semicolons t = length (filter (\<lambda>c. c = 59) t)"

definition ends_with_semicolon :: "sql_text \<Rightarrow> bool" where
  "ends_with_semicolon t \<longleftrightarrow> t \<noteq> [] \<and> last t = 59"

definition get_single_statement :: "sql_text \<Rightarrow> sql_text res" where
  "get_single_statement masked_query =
     (let statement = sql_strip masked_query; n = semicolons statement in
      if n = 0 then Inr statement
      else if n = 1 \<and> ends_with_semicolon statement then Inr (sql_strip (butlast statement))
      else Inl single_statement_error)"

definition get_original_single_statement :: "sql_text \<Rightarrow> sql_text \<Rightarrow> sql_text" where
  "get_original_single_statement query masked_query =
     (let masked_statement = sql_strip masked_query in
      if semicolons masked_statement = 1 \<and> ends_with_semicolon masked_statement
      then sql_strip (take (length (takeWhile (\<lambda>c. c \<noteq> 59) masked_query)) query)
      else sql_strip query)"

text \<open>\<open>\b(insert|update|...)\b\<close> with \<open>re.IGNORECASE\<close>, on a text in lower case: besides itself a letter matches the
  code points that Python takes as equal to it, the dotless i and the long s.\<close>

definition mutation_keywords :: "string list" where
  "mutation_keywords =
     [''insert'', ''update'', ''delete'', ''drop'', ''alter'', ''create'', ''truncate'', ''merge'', ''grant'', ''revoke'',
      ''replace'', ''copy'', ''call'', ''execute'']"

definition same_letter :: "int \<Rightarrow> int \<Rightarrow> bool" where
  "same_letter k c \<longleftrightarrow> c = k \<or> (k = 105 \<and> c = 0x131) \<or> (k = 115 \<and> c = 0x17F)"

definition word_char :: "(int \<Rightarrow> bool) \<Rightarrow> int option \<Rightarrow> bool" where
  "word_char alnum c = (case c of None \<Rightarrow> False | Some x \<Rightarrow> cp_alnum alnum x \<or> x = 95)"

definition word_boundary :: "(int \<Rightarrow> bool) \<Rightarrow> sql_text \<Rightarrow> nat \<Rightarrow> bool" where
  "word_boundary alnum t i \<longleftrightarrow> word_char alnum (if i > 0 then char_at t (i - 1) else None) \<noteq> word_char alnum (char_at t i)"

definition word_at :: "(int \<Rightarrow> bool) \<Rightarrow> (int \<Rightarrow> int \<Rightarrow> bool) \<Rightarrow> sql_text \<Rightarrow> nat \<Rightarrow> string \<Rightarrow> bool" where
  "word_at alnum same t i w \<longleftrightarrow>
     word_boundary alnum t i \<and> list_all2 same (ascii w) (take (length w) (drop i t)) \<and> word_boundary alnum t (i + length w)"

definition mutation_match :: "(int \<Rightarrow> bool) \<Rightarrow> sql_text \<Rightarrow> string option" where
  "mutation_match alnum t =
     (case List.find (\<lambda>i. list_ex (word_at alnum same_letter t i) mutation_keywords) [0..<length t] of
        None \<Rightarrow> None
      | Some i \<Rightarrow> List.find (word_at alnum same_letter t i) mutation_keywords)"

definition has_word :: "(int \<Rightarrow> bool) \<Rightarrow> sql_text \<Rightarrow> string \<Rightarrow> bool" where
  "has_word alnum t w \<longleftrightarrow> list_ex (\<lambda>i. word_at alnum (=) t i w) [0..<length t]"

definition begins :: "string \<Rightarrow> sql_text \<Rightarrow> bool" where
  "begins w t \<longleftrightarrow> take (length w) t = ascii w"

definition read_only_statement :: "(int \<Rightarrow> bool) \<Rightarrow> sql_text \<Rightarrow> bool" where
  "read_only_statement alnum lowered \<longleftrightarrow>
     begins ''select'' lowered \<or> (begins ''with'' lowered \<and> has_word alnum lowered ''select'')"

definition check_statement :: "(int \<Rightarrow> bool) \<Rightarrow> sql_text \<Rightarrow> sql_text \<Rightarrow> sql_text res option" where
  "check_statement alnum original_statement lowered_statement =
     (case mutation_match alnum lowered_statement of
        Some keyword \<Rightarrow> Some (Inl (ApiError ''FORBIDDEN'' ''Only read-only SELECT queries are allowed'' 403
          [(''keyword'', Some (py_upper keyword))]))
      | None \<Rightarrow>
          Option.bind (reject_single_quoted_relation_sources alnum original_statement) (\<lambda>checked.
            case checked of
              Inl e \<Rightarrow> Some (Inl e)
            | Inr _ \<Rightarrow>
                if read_only_statement alnum lowered_statement then Some (Inr original_statement)
                else Some (Inl (ApiError ''SQL_SYNTAX_ERROR'' ''Only SELECT or WITH ... SELECT statements are supported'' 422 []))))"

definition validate_read_only_query :: "(int \<Rightarrow> bool) \<Rightarrow> sql_text \<Rightarrow> sql_text res option" where
  "validate_read_only_query alnum query =
     (if sql_strip query = []
      then Some (Inl (ApiError ''SQL_SYNTAX_ERROR'' ''SQL query cannot be empty'' 422 []))
      else Option.bind (mask_sql_comments_and_literals query) (\<lambda>masked_query.
        case get_single_statement masked_query of
          Inl e \<Rightarrow> Some (Inl e)
        | Inr statement \<Rightarrow>
            check_statement alnum (get_original_single_statement query masked_query) (sql_lower (sql_strip statement))))"

declare mask_line_comment.simps [code] mask_block_body.simps [code] mask_quoted_body.simps [code] mask_loop.simps [code]
  skip_line_comment.simps [code] skip_block_body.simps [code] skip_quoted_body.simps [code]
  skip_bracket_identifier.simps [code] skip_space.simps [code] skip_sql_whitespace_and_comments.simps [code]
  reject_loop.simps [code]

subsection \<open>Column names\<close>

partial_function (option) unused_name :: "string \<Rightarrow> string set \<Rightarrow> string \<Rightarrow> nat \<Rightarrow> string option" where
  "unused_name base_name used candidate suffix =
     (if py_lower candidate \<in> used then unused_name base_name used (base_name @ ''_'' @ show_nat suffix) (suffix + 1)
      else Some candidate)"

definition unique_column_name :: "string \<Rightarrow> string set \<Rightarrow> (string \<times> string set) option" where
  "unique_column_name column_name used =
     (let base_name = (if py_strip column_name = [] then ''column'' else py_strip column_name)
      in map_option (\<lambda>candidate. (candidate, insert (py_lower candidate) used)) (unused_name base_name used base_name 2))"

fun columns_from :: "nat \<Rightarrow> (string \<times> string) list \<Rightarrow> string set \<Rightarrow> (string \<times> string) list option" where
  "columns_from index [] used = Some []"
| "columns_from index ((raw_name, raw_type) # schema) used =
     Option.bind (unique_column_name (if raw_name = [] then ''column_'' @ show_nat (index + 1) else raw_name) used)
       (\<lambda>(column_name, used').
         map_option (Cons (column_name, if raw_type = [] then ''string'' else raw_type)) (columns_from (index + 1) schema used'))"

definition dataset_columns :: "(string \<times> string) list \<Rightarrow> (string \<times> string) list option" where
  "dataset_columns schema = columns_from 0 schema {}"

subsection \<open>The masked text as one pass over the query\<close>

datatype mask_mode = Code | Line | Block | Quoted

fun mask_run :: "mask_mode \<Rightarrow> sql_text \<Rightarrow> sql_text" where
  "mask_run m [] = []"
| "mask_run Code (c # cs) =
     (case cs of
        d # ds \<Rightarrow>
          if c = 45 \<and> d = 45 then 32 # 32 # mask_run Line ds
          else if c = 47 \<and> d = 42 then 32 # 32 # mask_run Block ds
          else if c = 39 then 32 # mask_run Quoted cs else c # mask_run Code cs
      | [] \<Rightarrow> [if c = 39 then 32 else c])"
| "mask_run Line (c # cs) = (if c = 10 then 10 # mask_run Code cs else 32 # mask_run Line cs)"
| "mask_run Block (c # cs) =
     (case cs of
        d # ds \<Rightarrow> if c = 42 \<and> d = 47 then 32 # 32 # mask_run Code ds else (if c = 10 then 10 else 32) # mask_run Block cs
      | [] \<Rightarrow> [if c = 10 then 10 else 32])"
| "mask_run Quoted (c # cs) =
     (case cs of
        d # ds \<Rightarrow>
          if c = 39 then (if d = 39 then 32 # 32 # mask_run Quoted ds else 32 # mask_run Code cs) else 32 # mask_run Quoted cs
      | [] \<Rightarrow> [32])"

lemma length_mask_run [simp]: "length (mask_run m t) = length t"
  by (induction m t rule: mask_run.induct) (auto split: list.splits)

lemma char_at_drop: "char_at t i = (case drop i t of [] \<Rightarrow> None | c # _ \<Rightarrow> Some c)"
  by (auto simp: char_at_def hd_drop_conv_nth [symmetric] split: list.splits)

lemma drop_cases:
  assumes "i < length t"
  obtains cs where "drop i t = t ! i # cs" "drop (i + 1) t = cs" "char_at t (i + 1) = (case cs of [] \<Rightarrow> None | c # _ \<Rightarrow> Some c)"
  using Cons_nth_drop_Suc [OF assms] that [of "drop (i + 1) t"] char_at_drop [of t "i + 1"] by simp

lemma drop_two:
  assumes "drop i t = c # d # ds"
  shows "drop (i + 2) t = ds"
proof -
  have "drop (i + 2) t = drop 2 (drop i t)" by (simp add: add.commute)
  then show ?thesis using assms by simp
qed

lemma char_at_next:
  assumes "char_at t (i + 1) = Some x"
  shows "i + 2 \<le> length t" "drop (i + 1) t = x # drop (i + 2) t"
proof -
  show "i + 2 \<le> length t" using assms by (simp add: char_at_def split: if_splits)
  then have i: "i + 1 < length t" by simp
  show "drop (i + 1) t = x # drop (i + 2) t"
    using Cons_nth_drop_Suc [OF i] assms i by (simp add: char_at_def)
qed

text \<open>Each loop returns, and the characters it has appended are those of the pass.\<close>

definition masks :: "sql_text \<Rightarrow> mask_mode \<Rightarrow> nat \<Rightarrow> sql_text \<Rightarrow> (nat \<times> sql_text) option \<Rightarrow> bool" where
  "masks query m index masked r \<longleftrightarrow>
     (\<exists>j out. r = Some (j, masked @ out) \<and> index \<le> j \<and> j \<le> max index (length query)
        \<and> mask_run m (drop index query) = out @ mask_run Code (drop j query))"

lemma masksI:
  "index \<le> j \<Longrightarrow> j \<le> max index (length query) \<Longrightarrow> mask_run m (drop index query) = out @ mask_run Code (drop j query)
    \<Longrightarrow> masks query m index masked (Some (j, masked @ out))"
  by (auto simp: masks_def)

lemma masks_step:
  assumes "masks query m j (masked @ out) r" and "index \<le> j" and "j \<le> length query"
    and "mask_run m' (drop index query) = out @ mask_run m (drop j query)"
  shows "masks query m' index masked r"
  using assms unfolding masks_def by fastforce

lemma mask_line_comment_masks: "masks query Line index masked (mask_line_comment query index masked)"
proof (induction "length query - index" arbitrary: index masked rule: less_induct)
  case less
  show ?case
  proof (cases "index < length query")
    case True
    then obtain cs where d: "drop index query = query ! index # cs" "drop (index + 1) query = cs"
      and c: "char_at query (index + 1) = (case cs of [] \<Rightarrow> None | c # _ \<Rightarrow> Some c)" by (rule drop_cases)
    show ?thesis
    proof (cases "query ! index = 10")
      case False
      have "masks query Line (index + 1) (masked @ [32]) (mask_line_comment query (index + 1) (masked @ [32]))"
        using True by (intro less) simp
      then have "masks query Line index masked (mask_line_comment query (index + 1) (masked @ [32]))"
        using True False d by (elim masks_step) auto
      then show ?thesis using True False by (simp add: mask_line_comment.simps [of _ index])
    qed (use True d in \<open>auto simp: mask_line_comment.simps [of _ index] intro!: masksI\<close>)
  qed (use masksI [of index index query Line "[]" masked] in \<open>simp add: mask_line_comment.simps [of _ index]\<close>)
qed

lemma mask_block_body_masks: "masks query Block index masked (mask_block_body query index masked)"
proof (induction "length query - index" arbitrary: index masked rule: less_induct)
  case less
  show ?case
  proof (cases "index < length query")
    case True
    then obtain cs where d: "drop index query = query ! index # cs" "drop (index + 1) query = cs"
      and c: "char_at query (index + 1) = (case cs of [] \<Rightarrow> None | c # _ \<Rightarrow> Some c)" by (rule drop_cases)
    show ?thesis
    proof (cases "query ! index = 42 \<and> char_at query (index + 1) = Some 47")
      case True': True
      then have "index + 2 \<le> length query" "cs = 47 # drop (index + 2) query" using char_at_next [of query index] d by auto
      then show ?thesis using True True' d by (auto simp: mask_block_body.simps [of _ index] intro!: masksI)
    next
      case False
      let ?m = "masked @ [if query ! index = 10 then 10 else 32]"
      have m: "masks query Block (index + 1) ?m (mask_block_body query (index + 1) ?m)"
        using True by (intro less) simp
      have "mask_run Block (drop index query) = [if query ! index = 10 then 10 else 32] @ mask_run Block (drop (index + 1) query)"
        using False d c by (cases cs) auto
      then have "masks query Block index masked (mask_block_body query (index + 1) ?m)"
        using masks_step [OF m] True by simp
      then show ?thesis using True False by (auto simp: mask_block_body.simps [of _ index])
    qed
  qed (use masksI [of index index query Block "[]" masked] in \<open>simp add: mask_block_body.simps [of _ index]\<close>)
qed

lemma mask_quoted_body_masks: "masks query Quoted index masked (mask_quoted_body query 39 index masked)"
proof (induction "length query - index" arbitrary: index masked rule: less_induct)
  case less
  note unfold = mask_quoted_body.simps [of _ _ index]
  show ?case
  proof (cases "index < length query")
    case True
    then obtain cs where d: "drop index query = query ! index # cs" "drop (index + 1) query = cs"
      and c: "char_at query (index + 1) = (case cs of [] \<Rightarrow> None | c # _ \<Rightarrow> Some c)" by (rule drop_cases)
    consider (plain) "query ! index \<noteq> 39" | (closing) "query ! index = 39" "char_at query (index + 1) \<noteq> Some 39"
      | (doubled) "query ! index = 39" "char_at query (index + 1) = Some 39" by blast
    then show ?thesis
    proof cases
      case plain
      have "masks query Quoted (index + 1) (masked @ [32]) (mask_quoted_body query 39 (index + 1) (masked @ [32]))"
        using True by (intro less) simp
      then have "masks query Quoted index masked (mask_quoted_body query 39 (index + 1) (masked @ [32]))"
        using True plain d by (elim masks_step) (auto split: list.splits)
      then show ?thesis using True plain by (simp add: unfold)
    next
      case closing
      then have "mask_run Quoted (drop index query) = [32] @ mask_run Code (drop (index + 1) query)" using d c by (cases cs) auto
      then show ?thesis using True closing masksI [of index "index + 1"] by (simp add: unfold)
    next
      case doubled
      then have l: "index + 2 \<le> length query" and r: "cs = 39 # drop (index + 2) query" using char_at_next [of query index] d by auto
      have "masks query Quoted (index + 2) (masked @ [32, 32]) (mask_quoted_body query 39 (index + 2) (masked @ [32, 32]))"
        using True by (intro less) simp
      then have "masks query Quoted index masked (mask_quoted_body query 39 (index + 2) (masked @ [32, 32]))"
        using l doubled d r by (elim masks_step) auto
      then show ?thesis using True doubled by (simp add: unfold)
    qed
  qed (use masksI [of index index query Quoted "[]" masked] in \<open>simp add: unfold\<close>)
qed

lemma mask_loop_runs: "mask_loop query index masked = Some (masked @ mask_run Code (drop index query))"
proof (induction "length query - index" arbitrary: index masked rule: less_induct)
  case less
  note unfold = mask_loop.simps [of _ index]
  have go: "Option.bind r (\<lambda>(i, m). mask_loop query i m) = Some (masked @ mask_run Code (drop index query))"
    if i: "index < length query" and ms: "masks query m j (masked @ out) r" and j: "index < j" "j \<le> length query"
      and run: "mask_run Code (drop index query) = out @ mask_run m (drop j query)" for r m j out
  proof -
    obtain k rest where k: "r = Some (k, masked @ out @ rest)" "j \<le> k"
        "mask_run m (drop j query) = rest @ mask_run Code (drop k query)" using ms unfolding masks_def by auto
    then have "mask_loop query k (masked @ out @ rest) = Some ((masked @ out @ rest) @ mask_run Code (drop k query))"
      using i j by (intro less) simp
    then show ?thesis using k run by simp
  qed
  show ?case
  proof (cases "index < length query")
    case True
    then obtain cs where d: "drop index query = query ! index # cs" "drop (index + 1) query = cs"
      and c: "char_at query (index + 1) = (case cs of [] \<Rightarrow> None | c # _ \<Rightarrow> Some c)" by (rule drop_cases)
    have two: "index + 2 \<le> length query \<and> cs = x # drop (index + 2) query" if "char_at query (index + 1) = Some x" for x
      using char_at_next [OF that] d by simp
    consider (line) "query ! index = 45" "char_at query (index + 1) = Some 45"
      | (block) "query ! index = 47" "char_at query (index + 1) = Some 42"
      | (quoted) "query ! index = 39"
      | (plain) "query ! index \<noteq> 39" "\<not> (query ! index = 45 \<and> char_at query (index + 1) = Some 45)"
          "\<not> (query ! index = 47 \<and> char_at query (index + 1) = Some 42)" by blast
    then show ?thesis
    proof cases
      case line
      have s: "mask_line_comment query index masked = mask_line_comment query (index + 2) (masked @ [32, 32])"
        using True line two [OF line(2)] mask_line_comment.simps [of query index masked]
          mask_line_comment.simps [of query "index + 1" "masked @ [32]"] by (simp add: char_at_def)
      show ?thesis using True line two [OF line(2)] d
          go [where m = Line and j = "index + 2" and out = "[32, 32]", OF True mask_line_comment_masks]
        by (simp add: unfold s)
    next
      case block
      show ?thesis using True block two [OF block(2)] d
          go [where m = Block and j = "index + 2" and out = "[32, 32]", OF True mask_block_body_masks]
        by (simp add: unfold mask_block_comment_def)
    next
      case quoted
      have "mask_run Code (drop index query) = [32] @ mask_run Quoted (drop (index + 1) query)"
        using d quoted by (cases cs) auto
      then show ?thesis using True quoted
          go [where m = Quoted and j = "index + 1" and out = "[32]", OF True mask_quoted_body_masks]
        by (simp add: unfold mask_quoted_value_def)
    next
      case plain
      have "mask_run Code (drop index query) = query ! index # mask_run Code (drop (index + 1) query)"
        using d c plain by (cases cs) auto
      moreover have "mask_loop query (index + 1) (masked @ [query ! index])
          = Some ((masked @ [query ! index]) @ mask_run Code (drop (index + 1) query))"
        using True by (intro less) simp
      ultimately show ?thesis using True plain by (auto simp: unfold)
    qed
  qed (simp add: unfold)
qed

lemma mask_runs: "mask_sql_comments_and_literals query = Some (mask_run Code query)"
  by (simp add: mask_sql_comments_and_literals_def mask_loop_runs)

subsection \<open>The scanners return\<close>

text \<open>\<open>sealed\<close> texts have one single quote, at their end and after the two dashes of a comment. \<open>sealed_part\<close> holds
  inside their tokens too. A scanner that starts in a sealed text stops in a sealed text.\<close>

definition sealed :: "sql_text \<Rightarrow> bool" where
  "sealed s \<longleftrightarrow> s = [] \<or> (\<exists>p. 39 \<notin> set p \<and> s = p @ [45, 45, 39])"

definition sealed_part :: "sql_text \<Rightarrow> bool" where
  "sealed_part s \<longleftrightarrow> sealed s \<or> s = [45, 39] \<or> s = [39]"

lemma sealed_part_tl: "sealed_part (c # s) \<Longrightarrow> sealed_part s"
  by (auto simp: sealed_part_def sealed_def append_eq_Cons_conv Cons_eq_append_conv)

lemma sealed_tl: "sealed_part (c # s) \<Longrightarrow> c \<noteq> 45 \<Longrightarrow> c \<noteq> 39 \<Longrightarrow> sealed s"
  by (auto simp: sealed_part_def sealed_def Cons_eq_append_conv)

lemma sealed_imp_part: "sealed s \<Longrightarrow> sealed_part s"
  by (simp add: sealed_part_def)

lemma sealed_hd: "sealed (c # s) \<Longrightarrow> c \<noteq> 39"
  by (auto simp: sealed_def Cons_eq_append_conv)

lemma sealed_Nil [simp]: "sealed []"
  by (simp add: sealed_def)

lemma sealed_drop: "sealed s \<Longrightarrow> 45 \<notin> set (take n s) \<Longrightarrow> 39 \<notin> set (take n s) \<Longrightarrow> sealed (drop n s)"
proof (induction n arbitrary: s)
  case (Suc n)
  show ?case
  proof (cases s)
    case (Cons c cs)
    then have "sealed cs" using Suc.prems sealed_tl [OF sealed_imp_part] by simp
    then show ?thesis using Suc Cons by simp
  qed simp
qed simp

definition lands :: "sql_text \<Rightarrow> nat \<Rightarrow> nat option \<Rightarrow> bool" where
  "lands query index r \<longleftrightarrow>
     (\<exists>j. r = Some j \<and> index \<le> j \<and> (index < length query \<longrightarrow> index < j)
        \<and> (sealed_part (drop index query) \<longrightarrow> sealed (drop j query)))"

lemma lands_end: "length query \<le> index \<Longrightarrow> lands query index (Some index)"
  by (simp add: lands_def)

lemma lands_later:
  assumes "lands query j r" and "index < j" and "sealed_part (drop index query) \<Longrightarrow> sealed_part (drop j query)"
  shows "lands query index r"
  using assms unfolding lands_def by fastforce

lemma lands_here:
  assumes "index < j" and "sealed_part (drop index query) \<Longrightarrow> sealed (drop j query)"
  shows "lands query index (Some j)"
  using assms by (simp add: lands_def)

lemma sealed_part_step: "index < length query \<Longrightarrow> sealed_part (drop index query) \<Longrightarrow> sealed_part (drop (index + 1) query)"
  by (erule drop_cases) (simp add: sealed_part_tl)

lemma sealed_part_two: "sealed_part (drop index query) \<Longrightarrow> sealed_part (drop (index + 2) query)"
  using sealed_part_step [of index query] sealed_part_step [of "index + 1" query]
  by (cases "index + 1 < length query") (auto simp: sealed_part_def)

lemma sealed_after:
  assumes "index < length query" "query ! index \<noteq> 45" "query ! index \<noteq> 39" "sealed_part (drop index query)"
  shows "sealed (drop (index + 1) query)"
proof -
  from assms(1) obtain cs where d: "drop index query = query ! index # cs" "drop (index + 1) query = cs" by (rule drop_cases)
  show ?thesis using sealed_tl [of "query ! index" cs] assms d by simp
qed

lemma lands_step: "index < length query \<Longrightarrow> lands query (index + 1) r \<Longrightarrow> lands query index r"
  using sealed_part_step by (blast intro: lands_later [where j = "index + 1"] less_add_one)

lemma lands_stop:
  "index < length query \<Longrightarrow> query ! index \<noteq> 45 \<Longrightarrow> query ! index \<noteq> 39 \<Longrightarrow> lands query index (Some (index + 1))"
  using sealed_after by (intro lands_here) auto

lemma skip_line_comment_lands: "lands query index (skip_line_comment query index)"
proof (induction "length query - index" arbitrary: index rule: less_induct)
  case less
  have "lands query index (skip_line_comment query (index + 1))" if "index < length query"
    using that less [of "index + 1"] by (simp add: lands_step)
  then show ?case
    using lands_stop [of index query] lands_end [of query index] by (simp add: skip_line_comment.simps [of query index])
qed

lemma skip_block_body_lands: "lands query index (skip_block_body query index)"
proof (induction "length query - index" arbitrary: index rule: less_induct)
  case less
  have later: "lands query index (skip_block_body query (index + 1))" if "index < length query"
    using that less [of "index + 1"] by (simp add: lands_step)
  have found: "lands query index (Some (index + 2))" if "index < length query" "char_at query (index + 1) = Some 47"
  proof (rule lands_here)
    assume "sealed_part (drop index query)"
    moreover have "index + 1 < length query" "query ! (index + 1) = 47" using that(2) by (auto simp: char_at_def split: if_splits)
    ultimately show "sealed (drop (index + 2) query)"
      using sealed_after [of "index + 1" query] sealed_part_step [OF that(1)] by simp
  qed simp
  show ?case
    using later found lands_end [of query index] by (simp add: skip_block_body.simps [of query index])
qed

lemma skip_quoted_body_lands:
  assumes "quote \<noteq> 45" "quote \<noteq> 39"
  shows "lands query index (skip_quoted_body query quote index)"
proof (induction "length query - index" arbitrary: index rule: less_induct)
  case less
  have later: "lands query index (skip_quoted_body query quote (index + 1))" if "index < length query"
    using that less [of "index + 1"] by (simp add: lands_step)
  have "lands query (index + 2) (skip_quoted_body query quote (index + 2))" if "index < length query"
    using that by (intro less) simp
  then have two: "lands query index (skip_quoted_body query quote (index + 2))" if "index < length query"
    using that lands_later [of query "index + 2" _ index] sealed_part_two [of index query] by simp
  show ?case
    using assms later two lands_stop [of index query] lands_end [of query index]
    by (simp add: skip_quoted_body.simps [of query quote index])
qed

lemma skip_bracket_identifier_lands: "lands query index (skip_bracket_identifier query index)"
proof (induction "length query - index" arbitrary: index rule: less_induct)
  case less
  have "lands query index (skip_bracket_identifier query (index + 1))" if "index < length query"
    using that less [of "index + 1"] by (simp add: lands_step)
  then show ?case
    using lands_stop [of index query] lands_end [of query index] by (simp add: skip_bracket_identifier.simps [of query index])
qed

text \<open>White space between tokens: nothing is skipped from the middle of one.\<close>

definition settles :: "sql_text \<Rightarrow> nat \<Rightarrow> nat option \<Rightarrow> bool" where
  "settles query index r \<longleftrightarrow>
     (\<exists>j. r = Some j \<and> index \<le> j \<and> (sealed (drop index query) \<longrightarrow> sealed (drop j query)))"

lemma settles_refl: "settles query index (Some index)"
  by (simp add: settles_def)

lemma lands_settles: "lands query index r \<Longrightarrow> settles query index r"
  using sealed_imp_part by (auto simp: lands_def settles_def)

lemma settles_bind:
  assumes "settles query index r" and "\<And>j. r = Some j \<Longrightarrow> index \<le> j \<Longrightarrow> settles query j (f j)"
  shows "settles query index (Option.bind r f)"
  using assms unfolding settles_def by fastforce

lemma skip_space_settles: "settles query index (skip_space query index)"
proof (induction "length query - index" arbitrary: index rule: less_induct)
  case less
  have "settles query index (skip_space query (index + 1))" if i: "index < length query" "cp_space (query ! index)"
  proof -
    have "settles query (index + 1) (skip_space query (index + 1))" using i by (intro less) simp
    moreover have "query ! index \<noteq> 45" "query ! index \<noteq> 39" using i(2) by (auto simp: cp_space_def)
    ultimately show ?thesis using sealed_after [OF i(1)] sealed_imp_part by (auto simp: settles_def)
  qed
  then show ?case using settles_refl [of query index] by (simp add: skip_space.simps [of query index])
qed

lemma skip_white_settles: "settles query index (skip_sql_whitespace_and_comments query index)"
proof (induction "length query - index" arbitrary: index rule: less_induct)
  case less
  have comment: "settles query i (Option.bind r (skip_sql_whitespace_and_comments query))"
    if "lands query i r" "index \<le> i" "i < length query" "index < length query" for i r
  proof (rule settles_bind [OF lands_settles [OF that(1)]])
    fix j assume "r = Some j" "i \<le> j"
    then have "i < j" using that by (auto simp: lands_def)
    then show "settles query j (skip_sql_whitespace_and_comments query j)" using that by (intro less) simp
  qed
  have block: "lands query i (skip_block_comment query i)" for i
    using lands_later [OF skip_block_body_lands, of i "i + 2" query] sealed_part_two by (simp add: skip_block_comment_def)
  have inside: "char_at query i = Some c \<Longrightarrow> i < length query" for i c by (simp add: char_at_def split: if_splits)
  show ?case
  proof (cases "index < length query")
    case True
    show ?thesis
      by (subst skip_sql_whitespace_and_comments.simps, simp only: True if_True, rule settles_bind [OF skip_space_settles])
        (auto simp: True inside intro!: comment skip_line_comment_lands block settles_refl)
  next
    case False
    then show ?thesis by (simp add: skip_sql_whitespace_and_comments.simps [of query index] settles_refl)
  qed
qed

lemma skip_quoted_body_moves: "\<exists>j. skip_quoted_body query quote index = Some j \<and> index \<le> j"
proof (induction "length query - index" arbitrary: index rule: less_induct)
  case less
  have "\<exists>j. skip_quoted_body query quote (index + 1) = Some j \<and> index + 1 \<le> j"
      "\<exists>j. skip_quoted_body query quote (index + 2) = Some j \<and> index + 2 \<le> j" if "index < length query"
    using that by (intro less; simp)+
  then show ?case by (auto simp: skip_quoted_body.simps [of query quote index])
qed

text \<open>What the loop over the query relies on in a scanner of one token.\<close>

locale token_scanner =
  fixes skip :: "sql_text \<Rightarrow> nat \<Rightarrow> nat option"
  assumes lands: "lands query index (skip query index)"
begin

lemma continues:
  assumes "index < length query"
    and "\<And>j. index < j \<Longrightarrow> \<exists>r. rest j = Some r \<and> (sealed (drop j query) \<longrightarrow> r = Inr ())"
  shows "\<exists>r. Option.bind (skip query index) rest = Some r \<and> (sealed (drop index query) \<longrightarrow> r = Inr ())"
proof -
  obtain j where j: "skip query index = Some j" "index < j" "sealed (drop index query) \<longrightarrow> sealed (drop j query)"
    using lands [of query index] assms(1) sealed_imp_part by (auto simp: lands_def)
  show ?thesis using assms(2) [OF j(2)] j by auto
qed

end

interpretation line_comment: token_scanner skip_line_comment
  by unfold_locales (rule skip_line_comment_lands)

interpretation block_comment: token_scanner skip_block_comment
  by unfold_locales
    (use lands_later [OF skip_block_body_lands] sealed_part_two in \<open>simp add: skip_block_comment_def\<close>)

interpretation bracket: token_scanner skip_bracket_identifier
  by unfold_locales (rule skip_bracket_identifier_lands)

lemma quoted_lands:
  assumes "quote \<noteq> 45" "quote \<noteq> 39"
  shows "lands query index (skip_quoted_sql_token query index quote)"
proof (cases "index < length query")
  case True
  then show ?thesis using lands_step [OF _ skip_quoted_body_lands [OF assms]] by (simp add: skip_quoted_sql_token_def)
next
  case False
  then show ?thesis by (simp add: skip_quoted_sql_token_def skip_quoted_body.simps lands_def)
qed

interpretation double_quoted: token_scanner "\<lambda>query index. skip_quoted_sql_token query index 34"
  by unfold_locales (rule quoted_lands; simp)

interpretation back_quoted: token_scanner "\<lambda>query index. skip_quoted_sql_token query index 96"
  by unfold_locales (rule quoted_lands; simp)

lemma relation_keyword_atD:
  assumes "relation_keyword_at alnum query index = Some keyword"
  shows "keyword = ''from'' \<or> keyword = ''join''" "sql_lower (take (length keyword) (drop index query)) = ascii keyword"
  using assms by (auto simp: relation_keyword_at_def find_Some_iff keyword_here_def nth_Cons' split: if_splits)

lemma sql_lower_keeps: "c \<in> set t \<Longrightarrow> cp_lower c = [c] \<Longrightarrow> c \<in> set (sql_lower t)"
  by (auto simp: sql_lower_def intro!: bexI [of _ c])

lemma sealed_after_keyword:
  assumes "relation_keyword_at alnum query index = Some keyword" and "sealed (drop index query)"
  shows "sealed (drop (index + length keyword) query)"
proof -
  have n: "45 \<notin> set (ascii keyword)" "39 \<notin> set (ascii keyword)"
    using relation_keyword_atD(1) [OF assms(1)] by (auto simp: ascii_def)
  have "45 \<notin> set (take (length keyword) (drop index query))" "39 \<notin> set (take (length keyword) (drop index query))"
    using n sql_lower_keeps [of 45 "take (length keyword) (drop index query)"]
      sql_lower_keeps [of 39 "take (length keyword) (drop index query)"] relation_keyword_atD(2) [OF assms(1)]
    by (auto simp: cp_lower_def)
  then show ?thesis using sealed_drop [OF assms(2), of "length keyword"] by (simp add: add.commute)
qed

lemma reject_loop_returns:
  "\<exists>r. reject_loop alnum query index = Some r \<and> (sealed (drop index query) \<longrightarrow> r = Inr ())"
proof (induction "length query - index" arbitrary: index rule: less_induct)
  case less
  have later: "\<exists>r. reject_loop alnum query j = Some r \<and> (sealed (drop j query) \<longrightarrow> r = Inr ())"
    if "index < length query" "index < j" for j using that by (intro less) arith
  let ?ok = "\<lambda>q. \<exists>r. q = Some r \<and> (sealed (drop index query) \<longrightarrow> r = Inr ())"
  show ?case
  proof (cases "index < length query")
    case i: True
    have hd: "query ! index \<noteq> 39" if "sealed (drop index query)"
      using that i by (elim drop_cases) (auto dest: sealed_hd)
    have single: "?ok (Option.bind (skip_quoted_sql_token query index 39) (reject_loop alnum query))" if "query ! index = 39"
    proof -
      obtain j where "skip_quoted_sql_token query index 39 = Some j" "index < j"
        using skip_quoted_body_moves [of query 39 "index + 1"] by (auto simp: skip_quoted_sql_token_def)
      then show ?thesis using later [OF i, of j] hd that by auto
    qed
    have keyword: "?ok (Option.bind (skip_sql_whitespace_and_comments query (index + length keyword)) (\<lambda>j.
        if char_at query j = Some 39 then Some (Inl (file_path_error keyword)) else reject_loop alnum query j))"
      if k: "relation_keyword_at alnum query index = Some keyword" for keyword
    proof -
      obtain j where j: "skip_sql_whitespace_and_comments query (index + length keyword) = Some j" "index + length keyword \<le> j"
          "sealed (drop (index + length keyword) query) \<longrightarrow> sealed (drop j query)"
        using skip_white_settles [of query "index + length keyword"] by (auto simp: settles_def)
      have "index < j" using j(2) relation_keyword_atD(1) [OF k] by auto
      moreover have "char_at query j \<noteq> Some 39" if "sealed (drop index query)"
        using j(3) sealed_after_keyword [OF k that] by (auto simp: char_at_drop dest: sealed_hd split: list.splits)
      ultimately show ?thesis using later [OF i, of j] j(1,3) sealed_after_keyword [OF k] by auto
    qed
    have step: "?ok (reject_loop alnum query (index + 1))" if "query ! index \<noteq> 45 \<or> char_at query (index + 1) \<noteq> Some 45"
    proof -
      have "sealed (drop (index + 1) query)" if s: "sealed (drop index query)"
      proof -
        obtain p where p: "39 \<notin> set p" "drop index query = p @ [45, 45, 39]" using s i by (auto simp: sealed_def)
        then show ?thesis
        proof (cases p)
          case Nil
          then show ?thesis using p i that \<open>query ! index \<noteq> 45 \<or> _\<close> by (elim drop_cases) auto
        next
          case (Cons c cs)
          then have "drop (index + 1) query = cs @ [45, 45, 39]" using p i by (elim drop_cases) auto
          then show ?thesis using p Cons by (auto simp: sealed_def)
        qed
      qed
      then show ?thesis using later [OF i, of "index + 1"] by auto
    qed
    show ?thesis
      using i line_comment.continues [OF i later [OF i]] block_comment.continues [OF i later [OF i]] single
        double_quoted.continues [OF i later [OF i]] back_quoted.continues [OF i later [OF i]]
        bracket.continues [OF i later [OF i]] keyword step
      by (subst reject_loop.simps) (auto simp: Let_def split: option.splits)
  qed (simp add: reject_loop.simps [of alnum query index])
qed

lemma reject_returns: "\<exists>r. reject_single_quoted_relation_sources alnum query = Some r"
  using reject_loop_returns [of alnum query 0] by (auto simp: reject_single_quoted_relation_sources_def)

lemma check_statement_returns: "\<exists>r. check_statement alnum original lowered = Some r"
  using reject_returns [of alnum original] by (auto simp: check_statement_def split: option.splits sum.splits)

subsection \<open>Stripping and masking\<close>

lemma sql_strip_split:
  obtains before after where "t = before @ sql_strip t @ after" "list_all cp_space before" "list_all cp_space after"
proof -
  let ?l = "dropWhile cp_space t"
  have "t = takeWhile cp_space t @ rev (dropWhile cp_space (rev ?l)) @ rev (takeWhile cp_space (rev ?l))"
    by (simp flip: rev_append)
  moreover have "list_all cp_space (takeWhile cp_space t)" "list_all cp_space (rev (takeWhile cp_space (rev ?l)))"
    by (auto simp: list_all_iff dest: set_takeWhileD)
  ultimately show ?thesis using that by (simp add: sql_strip_def)
qed

lemma dropWhile_spaces: "list_all P w \<Longrightarrow> dropWhile P (w @ t) = dropWhile P t"
  by (induction w) auto

lemma dropWhile_append_stop: "dropWhile P (xs @ ys) = (if list_all P xs then dropWhile P ys else dropWhile P xs @ ys)"
  by (induction xs) auto

lemma sql_strip_spaces: "list_all cp_space before \<Longrightarrow> list_all cp_space after \<Longrightarrow> sql_strip (before @ t @ after) = sql_strip t"
proof -
  assume b: "list_all cp_space before" and a: "list_all cp_space after"
  have "sql_strip (t @ after) = sql_strip t"
  proof (cases "list_all cp_space t")
    case True
    then have "dropWhile cp_space (t @ after) = []" "dropWhile cp_space t = []" using a
      by (auto simp only: dropWhile_eq_Nil_conv list_all_iff set_append)
    then show ?thesis by (simp only: sql_strip_def)
  next
    case False
    moreover have "list_all cp_space (rev after)" using a by (simp add: list_all_iff)
    ultimately show ?thesis by (simp add: sql_strip_def dropWhile_append_stop dropWhile_spaces)
  qed
  then show ?thesis using b by (simp add: sql_strip_def dropWhile_spaces)
qed

lemma sql_strip_idem [simp]: "sql_strip (sql_strip t) = sql_strip t"
proof -
  obtain before after where t: "t = before @ sql_strip t @ after" "list_all cp_space before" "list_all cp_space after"
    by (rule sql_strip_split)
  show ?thesis using arg_cong [OF t(1), of sql_strip] sql_strip_spaces [OF t(2,3)] by simp
qed

lemma set_sql_strip: "set (sql_strip t) \<subseteq> set t"
  by (auto simp: sql_strip_def dest!: set_dropWhileD)

lemma nonspace_sql_strip: "c \<in> set t \<Longrightarrow> \<not> cp_space c \<Longrightarrow> c \<in> set (sql_strip t)"
proof -
  assume c: "c \<in> set t" "\<not> cp_space c"
  obtain before after where t: "t = before @ sql_strip t @ after" "list_all cp_space before" "list_all cp_space after"
    by (rule sql_strip_split)
  have "set t = set before \<union> set (sql_strip t) \<union> set after" using arg_cong [OF t(1), of set] by auto
  then show ?thesis using c t(2,3) by (auto simp: list_all_iff)
qed

lemma mask_run_append:
  assumes "ys = [] \<or> hd ys \<notin> {45, 42, 47, 39}"
  shows "\<exists>m'. mask_run m (xs @ ys) = mask_run m xs @ mask_run m' ys"
proof (induction m xs rule: mask_run.induct)
  case (1 m)
  show ?case by auto
next
  case (2 c cs)
  then show ?case using assms by (cases cs; cases ys) (auto intro: exI [of _ Code] exI [of _ Quoted])
next
  case (3 c cs)
  then show ?case by auto
next
  case (4 c cs)
  then show ?case using assms by (cases cs; cases ys) (auto intro: exI [of _ Block])
next
  case (5 c cs)
  then show ?case using assms by (cases cs; cases ys) (auto intro: exI [of _ Quoted] exI [of _ Code])
qed

lemma cp_space_simps [simp]: "cp_space 10" "cp_space 32" "\<not> cp_space 39" "\<not> cp_space 42" "\<not> cp_space 45" "\<not> cp_space 47" "\<not> cp_space 59"
  by (simp_all add: cp_space_def)

lemma mask_run_code_plain: "c \<noteq> 45 \<Longrightarrow> c \<noteq> 47 \<Longrightarrow> c \<noteq> 39 \<Longrightarrow> mask_run Code (c # t) = c # mask_run Code t"
  by (cases t) simp_all

lemma mask_run_quoted_plain: "c \<noteq> 39 \<Longrightarrow> mask_run Quoted (c # t) = 32 # mask_run Quoted t"
  by (cases t) simp_all

lemma mask_run_block_plain: "c \<noteq> 42 \<Longrightarrow> mask_run Block (c # t) = (if c = 10 then 10 else 32) # mask_run Block t"
  by (cases t) simp_all

lemma space_plain: "cp_space c \<Longrightarrow> c \<noteq> 45 \<and> c \<noteq> 47 \<and> c \<noteq> 39 \<and> c \<noteq> 42"
  by auto

lemma mask_run_spaces: "list_all cp_space w \<Longrightarrow> list_all cp_space (mask_run m w)"
proof (induction w arbitrary: m)
  case (Cons c w)
  then have "c \<noteq> 45" "c \<noteq> 47" "c \<noteq> 39" "c \<noteq> 42" using space_plain by auto
  then show ?case using Cons
    by (cases m) (auto simp: mask_run_code_plain mask_run_quoted_plain mask_run_block_plain simp del: mask_run.simps(2,4,5))
qed simp

lemma mask_run_leading: "list_all cp_space w \<Longrightarrow> mask_run Code (w @ t) = w @ mask_run Code t"
proof (induction w)
  case (Cons c w)
  then show ?case using space_plain [of c] by (simp add: mask_run_code_plain del: mask_run.simps(2))
qed simp

lemma mask_run_keeps: "list_all2 (\<lambda>d c. d \<in> {10, 32, c}) (mask_run m t) t"
proof (induction m t rule: mask_run.induct)
  case (2 c cs)
  then show ?case by (cases cs) auto
next
  case (4 c cs)
  then show ?case by (cases cs) auto
next
  case (5 c cs)
  then show ?case by (cases cs) auto
qed auto

lemma hd_space: "list_all cp_space w \<Longrightarrow> w = [] \<or> hd w \<notin> {45, 42, 47, 39}"
  by (cases w) (auto dest: space_plain)

text \<open>What is visible of a statement does not depend on the white space around it.\<close>

lemma strip_mask: "sql_strip (mask_run Code t) = sql_strip (mask_run Code (sql_strip t))"
proof -
  obtain before after where t: "t = before @ sql_strip t @ after" "list_all cp_space before" "list_all cp_space after"
    by (rule sql_strip_split)
  obtain m where "mask_run Code (sql_strip t @ after) = mask_run Code (sql_strip t) @ mask_run m after"
    using mask_run_append [OF hd_space [OF t(3)]] by blast
  then have "mask_run Code t = before @ mask_run Code (sql_strip t) @ mask_run m after"
    using arg_cong [OF t(1), of "mask_run Code"] mask_run_leading [OF t(2)] by simp
  then show ?thesis using sql_strip_spaces [OF t(2) mask_run_spaces [OF t(3)]] by simp
qed

definition settled_statement :: "sql_text \<Rightarrow> bool" where
  "settled_statement t \<longleftrightarrow> sql_strip t = t \<and> 59 \<notin> set (mask_run Code t)"

lemma semicolons_0: "semicolons t = 0 \<longleftrightarrow> 59 \<notin> set t"
  by (auto simp: semicolons_def filter_empty_conv)

text \<open>On a statement without white space around it and without a visible semicolon the guard only checks.\<close>

lemma validate_settled:
  assumes "settled_statement t" "t \<noteq> []"
  shows "validate_read_only_query alnum t = check_statement alnum t (sql_lower (sql_strip (mask_run Code t)))"
proof -
  have "semicolons (sql_strip (mask_run Code t)) = 0"
    using assms set_sql_strip by (auto simp: semicolons_0 settled_statement_def)
  then show ?thesis using assms
    by (simp add: validate_read_only_query_def mask_runs get_single_statement_def get_original_single_statement_def
        settled_statement_def Let_def)
qed

text \<open>The guard takes the statement out of the query, then checks it.\<close>

lemma semicolon_split:
  assumes "semicolons (sql_strip t) = 1" "ends_with_semicolon (sql_strip t)"
  obtains visible rest where "t = visible @ 59 # rest" "59 \<notin> set visible" "list_all cp_space rest"
    "takeWhile (\<lambda>c. c \<noteq> 59) t = visible" "sql_strip (butlast (sql_strip t)) = sql_strip visible"
proof -
  obtain before after where t: "t = before @ sql_strip t @ after" "list_all cp_space before" "list_all cp_space after"
    by (rule sql_strip_split)
  define core where "core = butlast (sql_strip t)"
  have c: "sql_strip t = core @ [59]" using assms(2) by (metis append_butlast_last_id core_def ends_with_semicolon_def)
  then have n: "59 \<notin> set core" using assms(1) by (auto simp: semicolons_def filter_empty_conv)
  have b: "59 \<notin> set before" using t(2) by (auto simp: list_all_iff)
  have e: "t = (before @ core) @ 59 # after" using t(1) c by simp
  moreover have "takeWhile (\<lambda>c. c \<noteq> 59) t = before @ core"
    using n b by (subst e, subst takeWhile_append2) auto
  moreover have "sql_strip core = sql_strip (before @ core)" using sql_strip_spaces [OF t(2), of "[]" core] by simp
  ultimately show ?thesis using that n b t(3) core_def by (metis Un_iff set_append)
qed

lemma validate_extracts:
  assumes "validate_read_only_query alnum query = Some (Inr r)"
  obtains before after t where "query = before @ t @ after" "list_all cp_space before" "settled_statement t"
    "list_all (\<lambda>c. cp_space c \<or> c = 59) (drop (length before + length t) (mask_run Code query))"
    "check_statement alnum t (sql_lower (sql_strip (mask_run Code t))) = Some (Inr r)"
proof -
  let ?m = "mask_run Code query"
  obtain statement where st: "get_single_statement ?m = Inr statement"
    and ch: "check_statement alnum (get_original_single_statement query ?m) (sql_lower (sql_strip statement)) = Some (Inr r)"
    using assms by (auto simp: validate_read_only_query_def mask_runs split: if_splits sum.splits)
  consider (plain) "59 \<notin> set (sql_strip ?m)" "statement = sql_strip ?m" "get_original_single_statement query ?m = sql_strip query"
    | (ended) "semicolons (sql_strip ?m) = 1" "ends_with_semicolon (sql_strip ?m)" "statement = sql_strip (butlast (sql_strip ?m))"
  proof (cases "semicolons (sql_strip ?m) = 0")
    case True
    then have "59 \<notin> set (sql_strip ?m)" using semicolons_0 by blast
    then show ?thesis using plain st True by (simp add: get_single_statement_def get_original_single_statement_def Let_def)
  next
    case False
    then show ?thesis using ended st by (simp add: get_single_statement_def Let_def split: if_splits)
  qed
  then show ?thesis
  proof cases
    case plain
    obtain before after where q: "query = before @ sql_strip query @ after" "list_all cp_space before" "list_all cp_space after"
      by (rule sql_strip_split)
    obtain m where m: "mask_run Code (sql_strip query @ after) = mask_run Code (sql_strip query) @ mask_run m after"
      using mask_run_append [OF hd_space [OF q(3)]] by blast
    then have mm: "?m = before @ mask_run Code (sql_strip query) @ mask_run m after"
      using arg_cong [OF q(1), of "mask_run Code"] mask_run_leading [OF q(2)] by simp
    have "59 \<notin> set ?m" using plain(1) nonspace_sql_strip [of 59 ?m] by auto
    then have "settled_statement (sql_strip query)" using mm by (auto simp: settled_statement_def)
    moreover have "list_all (\<lambda>c. cp_space c \<or> c = 59) (drop (length before + length (sql_strip query)) ?m)"
      using mask_run_spaces [OF q(3), of m] by (subst mm) (auto simp: list_all_iff)
    ultimately show ?thesis using that q ch plain(2,3) strip_mask [of query] by simp
  next
    case ended
    obtain visible rest where m: "?m = visible @ 59 # rest" "59 \<notin> set visible" "list_all cp_space rest"
        "takeWhile (\<lambda>c. c \<noteq> 59) ?m = visible" "sql_strip (butlast (sql_strip ?m)) = sql_strip visible"
      using semicolon_split [OF ended(1,2)] by blast
    let ?k = "length visible" and ?p = "take (length visible) query"
    have k: "?k < length query" using arg_cong [OF m(1), of length] by simp
    have "query ! ?k = 59" using list_all2_nthD [OF mask_run_keeps, of ?k Code query] m(1) k by simp
    then have qk: "query = ?p @ 59 # drop (?k + 1) query" using k id_take_nth_drop [OF k] by simp
    then obtain m' where "?m = mask_run Code ?p @ mask_run m' (59 # drop (?k + 1) query)"
      using mask_run_append [of "59 # drop (?k + 1) query" Code ?p] by auto
    then have v: "mask_run Code ?p = visible"
      using m(1) k by (metis append_eq_append_conv length_mask_run length_take min.absorb4)
    have orig: "get_original_single_statement query ?m = sql_strip ?p"
      using ended(1,2) m(4) by (simp add: get_original_single_statement_def Let_def)
    obtain before after where p: "?p = before @ sql_strip ?p @ after" "list_all cp_space before" "list_all cp_space after"
      by (rule sql_strip_split)
    obtain n where n: "mask_run Code (sql_strip ?p @ after) = mask_run Code (sql_strip ?p) @ mask_run n after"
      using mask_run_append [OF hd_space [OF p(3)]] by blast
    then have vv: "visible = before @ mask_run Code (sql_strip ?p) @ mask_run n after"
      using arg_cong [OF p(1), of "mask_run Code"] mask_run_leading [OF p(2)] v by simp
    have "set (mask_run Code (sql_strip ?p)) \<subseteq> set visible" using arg_cong [OF vv, of set] by auto
    then have "settled_statement (sql_strip ?p)" using m(2) by (auto simp: settled_statement_def)
    moreover have "list_all (\<lambda>c. cp_space c \<or> c = 59) (drop (length before + length (sql_strip ?p)) ?m)"
      using mask_run_spaces [OF p(3), of n] m(3) by (subst m(1), subst vv) (auto simp: list_all_iff)
    moreover have "query = before @ sql_strip ?p @ (after @ 59 # drop (?k + 1) query)" using qk p(1) by (metis append.assoc)
    moreover have "sql_strip statement = sql_strip (mask_run Code (sql_strip ?p))"
      using ended(3) m(5) strip_mask [of ?p] v by simp
    ultimately show ?thesis using that p(2) ch orig by simp
  qed
qed

lemma check_statement_accepts:
  "check_statement alnum t lowered = Some (Inr r) \<longleftrightarrow>
     mutation_match alnum lowered = None \<and> reject_single_quoted_relation_sources alnum t = Some (Inr ())
     \<and> read_only_statement alnum lowered \<and> r = t"
  using reject_returns [of alnum t] by (auto simp: check_statement_def split: option.splits sum.splits)

lemma mutation_match_None:
  "mutation_match alnum t = None \<longleftrightarrow> (\<forall>w \<in> set mutation_keywords. \<forall>i < length t. \<not> word_at alnum same_letter t i w)"
  by (auto simp: mutation_match_def find_None_iff find_Some_iff list_ex_iff split: option.splits)

lemma word_at_inside: "word_at alnum same t i w \<Longrightarrow> w \<noteq> [] \<Longrightarrow> i < length t"
  by (cases "i < length t") (auto simp: word_at_def ascii_def)

lemma keywords_nonempty: "w \<in> set mutation_keywords \<Longrightarrow> w \<noteq> []"
  by (auto simp: mutation_keywords_def)

lemma read_only_nonempty: "\<not> read_only_statement alnum []"
  by (simp add: read_only_statement_def begins_def ascii_def)

subsection \<open>Properties\<close>

text \<open>C26. The guard always answers. Its scanners are unbounded loops over the query, but every query, with any nesting or
  any unterminated comment, literal or identifier, gets a statement or an error, and the text the guard looks for
  keywords in is the one of a single pass over the query that blanks comments and literals and keeps every other
  character in its place.\<close>

theorem guard_always_answers:
  "(\<exists>r. validate_read_only_query alnum query = Some r) \<and> (\<exists>r. reject_single_quoted_relation_sources alnum query = Some r)
   \<and> mask_sql_comments_and_literals query = Some (mask_run Code query) \<and> length (mask_run Code query) = length query"
proof -
  have "\<exists>r. validate_read_only_query alnum query = Some r"
    using check_statement_returns by (auto simp: validate_read_only_query_def mask_runs split: sum.splits)
  then show ?thesis using reject_returns by (simp add: mask_runs)
qed


definition sample_sql :: sql_text where
  "sample_sql = ascii '' SELECT a -- ; drop'' @ [10] @ ascii ''FROM t ; /* end */ ''"

lemma sample_sql_accepted: "validate_read_only_query (\<lambda>_. False) sample_sql = Some (Inr (ascii ''SELECT a -- ; drop'' @ [10] @ ascii ''FROM t''))"
  by code_simp


text \<open>Texts on which the relation scanner moves one character at a time.\<close>

definition plain_char :: "int \<Rightarrow> bool" where
  "plain_char c \<longleftrightarrow> c \<notin> {45, 47, 39, 34, 96, 91, 70, 102, 74, 106} \<and> c \<noteq> 0x212A \<and> c \<noteq> 0x130"

lemma no_relation_keyword:
  assumes "index < length query" "plain_char (query ! index)"
  shows "relation_keyword_at alnum query index = None"
proof -
  obtain cs where d: "drop index query = query ! index # cs" using assms(1) by (rule drop_cases)
  have "cp_lower (query ! index) = [x] \<Longrightarrow> x \<noteq> 102 \<and> x \<noteq> 106" for x
    using assms(2) by (auto simp: cp_lower_def plain_char_def split: if_splits)
  moreover have "\<exists>x. cp_lower (query ! index) = [x]" using assms(2) by (simp add: cp_lower_def plain_char_def)
  ultimately have "sql_lower (take (length k) (drop index query)) \<noteq> ascii k" if "k = ''from'' \<or> k = ''join''" for k
    using that by (auto simp: d sql_lower_def ascii_def)
  then show ?thesis using relation_keyword_atD [of alnum query index] by (cases "relation_keyword_at alnum query index") auto
qed

lemma reject_plain: "list_all plain_char xs \<Longrightarrow> reject_loop alnum (ps @ xs @ ys) (length ps) = reject_loop alnum (ps @ xs @ ys) (length ps + length xs)"
proof (induction xs arbitrary: ps)
  case (Cons x xs)
  let ?q = "ps @ (x # xs) @ ys"
  have x: "?q ! length ps = x" "length ps < length ?q" by simp_all
  then have "relation_keyword_at alnum ?q (length ps) = None" using Cons.prems by (intro no_relation_keyword) simp_all
  then have "reject_loop alnum ?q (length ps) = reject_loop alnum ?q (length ps + 1)"
    using Cons.prems by (subst reject_loop.simps) (simp add: plain_char_def Let_def)
  also have "... = reject_loop alnum ?q (length ps + 1 + length xs)" using Cons.IH [of "ps @ [x]"] Cons.prems by simp
  finally show ?case by simp
qed simp

definition smuggled :: "sql_text \<Rightarrow> sql_text" where
  "smuggled payload = ascii ''select 1 as '' @ [34, 97, 39, 34] @ [59] @ payload @ [45, 45, 39]"

lemma smuggled_mask:
  assumes "39 \<notin> set payload"
  shows "mask_run Code (smuggled payload) = ascii ''select 1 as '' @ [34, 97] @ replicate (length payload + 6) 32"
proof -
  have "39 \<notin> set w \<Longrightarrow> mask_run Quoted (w @ [39]) = replicate (length w + 1) 32" for w
    by (induction w) (simp_all add: mask_run_quoted_plain del: mask_run.simps(5) add: mask_run.simps(5) [of _ "[]"])
  from this [of "[34, 59] @ payload @ [45, 45]"]
  have q: "mask_run Quoted (34 # 59 # payload @ [45, 45, 39]) = replicate (length payload + 5) 32" using assms
    by (simp add: numeral_eq_Suc del: mask_run.simps)
  have c: "mask_run Code (39 # t) = 32 # mask_run Quoted t" for t by (cases t) simp_all
  show ?thesis by (simp add: smuggled_def ascii_def mask_run_code_plain c q del: mask_run.simps) (simp add: numeral_eq_Suc)
qed

lemma smuggled_scanned:
  assumes "39 \<notin> set payload"
  shows "skip_quoted_sql_token (smuggled payload) 12 34 = Some 16"
    "reject_single_quoted_relation_sources alnum (smuggled payload) = Some (Inr ())"
proof -
  let ?q = "smuggled payload" and ?t = "59 # payload @ [45, 45, 39]"
  show token: "skip_quoted_sql_token ?q 12 34 = Some 16"
    by (simp add: smuggled_def ascii_def skip_quoted_sql_token_def skip_quoted_body.simps char_at_def)
  have "sealed ?t" using assms by (auto simp: sealed_def intro: exI [of _ "59 # payload"])
  moreover have "drop 16 ?q = ?t" by (simp add: smuggled_def ascii_def)
  ultimately have "reject_loop alnum ?q 16 = Some (Inr ())" using reject_loop_returns [of alnum ?q 16] by auto
  moreover have "reject_loop alnum ?q 12 = reject_loop alnum ?q 16"
    using token by (subst reject_loop.simps) (simp add: smuggled_def ascii_def)
  moreover have "reject_loop alnum ?q 0 = reject_loop alnum ?q 12"
  proof -
    have plain: "list_all plain_char (ascii ''select 1 as '')" by (simp add: ascii_def plain_char_def)
    have "length (ascii ''select 1 as '') = 12" by (simp add: ascii_def)
    then show ?thesis using reject_plain [OF plain, of alnum "[]" "[34, 97, 39, 34] @ ?t"] by (simp add: smuggled_def)
  qed
  ultimately show "reject_single_quoted_relation_sources alnum ?q = Some (Inr ())"
    by (simp add: reject_single_quoted_relation_sources_def)
qed

lemma smuggled_visible:
  assumes "39 \<notin> set payload"
  shows "sql_strip (mask_run Code (smuggled payload)) = ascii ''select 1 as '' @ [34, 97]"
proof -
  have "list_all cp_space (replicate (length payload + 6) 32)" by (simp add: list_all_iff)
  from sql_strip_spaces [of "[]" _ "ascii ''select 1 as '' @ [34, 97]", OF _ this]
  have "sql_strip (mask_run Code (smuggled payload)) = sql_strip (ascii ''select 1 as '' @ [34, 97])"
    using smuggled_mask [OF assms] by simp
  also have "... = ascii ''select 1 as '' @ [34, 97]" by code_simp
  finally show ?thesis .
qed

lemma smuggled_keywords:
  "\<forall>w \<in> set mutation_keywords. \<forall>i \<in> set [0..<14]. \<not> list_all2 same_letter (ascii w) (take (length w) (drop i (ascii ''select 1 as '' @ [34, 97])))"
  by code_simp

text \<open>C37. The guard lets any statement through. A single quote inside a double-quoted identifier opens a literal for the
  masking, which does not know such identifiers, so everything up to the next single quote is hidden from the checks
  for semicolons and mutation keywords; the other scanner of the guard reads the identifier as one token and leaves
  it at the semicolon before the payload. The query is accepted with any payload without single quotes.\<close>

theorem quoted_identifier_hides_statements:
  assumes "39 \<notin> set payload"
  shows "validate_read_only_query alnum (smuggled payload) = Some (Inr (smuggled payload))
    \<and> skip_quoted_sql_token (smuggled payload) 12 34 = Some 16 \<and> drop 16 (smuggled payload) = 59 # payload @ [45, 45, 39]"
proof -
  let ?v = "ascii ''select 1 as '' @ [34, 97]"
  have "sql_strip (smuggled payload) = smuggled payload"
    by (simp add: sql_strip_def smuggled_def ascii_def cp_space_def)
  moreover have "59 \<notin> set (mask_run Code (smuggled payload))" using smuggled_mask [OF assms] by (auto simp: ascii_def)
  ultimately have "settled_statement (smuggled payload)" by (simp add: settled_statement_def)
  then have v: "validate_read_only_query alnum (smuggled payload) = check_statement alnum (smuggled payload) (sql_lower ?v)"
    using validate_settled smuggled_visible [OF assms] by (simp add: smuggled_def)
  have low: "sql_lower ?v = ?v" by code_simp
  have "length ?v = 14" by (simp add: ascii_def)
  then have "mutation_match alnum ?v = None"
    using smuggled_keywords by (auto simp: mutation_match_None word_at_def)
  moreover have "read_only_statement alnum ?v" by (simp add: read_only_statement_def begins_def ascii_def)
  ultimately have "check_statement alnum (smuggled payload) (sql_lower ?v) = Some (Inr (smuggled payload))"
    using smuggled_scanned(2) [OF assms] low by (simp add: check_statement_accepts)
  then show ?thesis using v smuggled_scanned(1) [OF assms] by (simp add: smuggled_def ascii_def)
qed

theorem quoted_identifier_hides_statements_witness:
  "validate_read_only_query (\<lambda>_. False) (smuggled (ascii '' drop table t; '')) = Some (Inr (smuggled (ascii '' drop table t; '')))"
  using quoted_identifier_hides_statements [of "ascii '' drop table t; ''" "\<lambda>_. False"] by (simp add: ascii_def)

subsection \<open>Column names of a preview table\<close>

lemma py_lower_simps [simp]: "py_lower (s @ t) = py_lower s @ py_lower t" "py_lower (c # t) = lower_char c # py_lower t"
  by (simp_all add: py_lower_def)

lemma py_lower_show_nat [simp]: "py_lower (show_nat n) = show_nat n"
proof -
  have "lower_char c = c" if "c \<in> set (show_nat n)" for c
    using show_nat_digits [OF that] by (auto simp: lower_char_def is_upper_def is_digit_def)
  then show ?thesis by (simp add: py_lower_def map_idI)
qed

definition numbered :: "string \<Rightarrow> nat \<Rightarrow> string" where
  "numbered base_name k = base_name @ ''_'' @ show_nat k"

definition taken :: "string \<Rightarrow> string set \<Rightarrow> nat \<Rightarrow> nat set" where
  "taken base_name used suffix = {k. suffix \<le> k \<and> py_lower (numbered base_name k) \<in> used}"

lemma finite_taken: "finite used \<Longrightarrow> finite (taken base_name used suffix)"
proof -
  assume f: "finite used"
  have "inj (\<lambda>k. py_lower (numbered base_name k))" by (auto simp: inj_def numbered_def show_nat_inj)
  then have "finite ((\<lambda>k. py_lower (numbered base_name k)) -` used)" using f by (simp add: finite_vimageI)
  then show ?thesis by (rule rev_finite_subset) (auto simp: taken_def)
qed

text \<open>The search for an unused name ends: each number is tried once, and finitely many are taken.\<close>

lemma unused_name_returns:
  assumes "finite used"
  shows "\<exists>c. unused_name base_name used candidate suffix = Some c \<and> py_lower c \<notin> used
    \<and> (c = candidate \<and> py_lower candidate \<notin> used \<or> py_lower candidate \<in> used \<and> (\<exists>k \<ge> suffix. c = numbered base_name k))"
proof (induction "card (taken base_name used suffix)" arbitrary: candidate suffix rule: less_induct)
  case less
  show ?case
  proof (cases "py_lower candidate \<in> used")
    case True
    let ?next = "numbered base_name suffix"
    have call: "unused_name base_name used candidate suffix = unused_name base_name used ?next (suffix + 1)"
      using True by (simp add: unused_name.simps [of _ _ candidate] numbered_def)
    show ?thesis
    proof (cases "py_lower ?next \<in> used")
      case taken: True
      then have "suffix \<in> taken base_name used suffix" "suffix \<notin> taken base_name used (suffix + 1)"
          "taken base_name used (suffix + 1) \<subseteq> taken base_name used suffix" by (auto simp: taken_def)
      then have "taken base_name used (suffix + 1) \<subset> taken base_name used suffix" by blast
      then have "card (taken base_name used (suffix + 1)) < card (taken base_name used suffix)"
        using finite_taken [OF assms] psubset_card_mono by blast
      from less [OF this, of ?next] show ?thesis using True taken call by (auto intro: Suc_leD)
    next
      case False
      then have "unused_name base_name used ?next (suffix + 1) = Some ?next" by (simp add: unused_name.simps)
      then show ?thesis using True False call by auto
    qed
  qed (simp add: unused_name.simps)
qed

definition column_base :: "nat \<Rightarrow> string \<Rightarrow> string" where
  "column_base index raw_name =
     (let name = py_strip (if raw_name = [] then ''column_'' @ show_nat (index + 1) else raw_name)
      in if name = [] then ''column'' else name)"

lemma unique_column_name_returns:
  assumes "finite used"
  shows "\<exists>c. unique_column_name (if raw_name = [] then ''column_'' @ show_nat (index + 1) else raw_name) used
      = Some (c, insert (py_lower c) used) \<and> py_lower c \<notin> used
    \<and> (py_lower (column_base index raw_name) \<notin> used \<longrightarrow> c = column_base index raw_name)"
  using unused_name_returns [OF assms, of "column_base index raw_name" "column_base index raw_name" 2]
  by (auto simp: unique_column_name_def column_base_def Let_def)

lemma columns_from_returns:
  assumes "finite used"
  shows "\<exists>cols. columns_from index schema used = Some cols \<and> length cols = length schema
    \<and> distinct (map (\<lambda>c. py_lower (fst c)) cols) \<and> (\<forall>c \<in> set cols. py_lower (fst c) \<notin> used)
    \<and> (\<forall>i < length schema. snd (cols ! i) = (if snd (schema ! i) = [] then ''string'' else snd (schema ! i))
        \<and> (py_lower (column_base (index + i) (fst (schema ! i))) \<notin> used \<union> set (map (\<lambda>c. py_lower (fst c)) (take i cols))
             \<longrightarrow> fst (cols ! i) = column_base (index + i) (fst (schema ! i))))"
  using assms
proof (induction index schema used rule: columns_from.induct)
  case (2 index raw_name raw_type schema used)
  obtain c where c: "unique_column_name (if raw_name = [] then ''column_'' @ show_nat (index + 1) else raw_name) used
      = Some (c, insert (py_lower c) used)" "py_lower c \<notin> used"
      "py_lower (column_base index raw_name) \<notin> used \<longrightarrow> c = column_base index raw_name"
    using unique_column_name_returns [OF 2(2)] by blast
  have "finite (insert (py_lower c) used)" using 2(2) by simp
  from 2(1) [OF c(1) refl this] obtain cols where cols: "columns_from (index + 1) schema (insert (py_lower c) used) = Some cols"
      "length cols = length schema" "distinct (map (\<lambda>c. py_lower (fst c)) cols)"
      "\<forall>x \<in> set cols. py_lower (fst x) \<notin> insert (py_lower c) used"
      "\<forall>i < length schema. snd (cols ! i) = (if snd (schema ! i) = [] then ''string'' else snd (schema ! i))
        \<and> (py_lower (column_base (index + 1 + i) (fst (schema ! i))) \<notin> insert (py_lower c) used \<union> set (map (\<lambda>c. py_lower (fst c)) (take i cols))
             \<longrightarrow> fst (cols ! i) = column_base (index + 1 + i) (fst (schema ! i)))"
    by blast
  let ?cols = "(c, if raw_type = [] then ''string'' else raw_type) # cols"
  show ?case
  proof (intro exI [of _ ?cols] conjI allI impI)
    show "columns_from index ((raw_name, raw_type) # schema) used = Some ?cols" using c(1) cols(1) by simp
    show "distinct (map (\<lambda>c. py_lower (fst c)) ?cols)" using cols(3,4) by auto
    fix i
    assume i: "i < length ((raw_name, raw_type) # schema)"
    show "snd (?cols ! i) = (if snd (((raw_name, raw_type) # schema) ! i) = [] then ''string'' else snd (((raw_name, raw_type) # schema) ! i))"
      using i cols(5) by (cases i) auto
    assume "py_lower (column_base (index + i) (fst (((raw_name, raw_type) # schema) ! i)))
        \<notin> used \<union> set (map (\<lambda>c. py_lower (fst c)) (take i ?cols))"
    then show "fst (?cols ! i) = column_base (index + i) (fst (((raw_name, raw_type) # schema) ! i))"
      using i c(3) cols(5) by (cases i) auto
  qed (use c(2) cols(2,4) in auto)
qed simp

text \<open>A preview table always gets its columns: the search for an unused name ends, there is one column per entry of
  the schema, the names are pairwise different without regard to case, and a name that no earlier column has taken
  is kept.\<close>

theorem column_names_unique:
  "\<exists>cols. dataset_columns schema = Some cols \<and> length cols = length schema
    \<and> distinct (map (\<lambda>c. py_lower (fst c)) cols)
    \<and> (\<forall>i < length schema. snd (cols ! i) = (if snd (schema ! i) = [] then ''string'' else snd (schema ! i))
        \<and> (py_lower (column_base i (fst (schema ! i))) \<notin> set (map (\<lambda>c. py_lower (fst c)) (take i cols))
             \<longrightarrow> fst (cols ! i) = column_base i (fst (schema ! i))))"
  using columns_from_returns [of "{}" 0 schema] by (simp add: dataset_columns_def)

theorem column_names_unique_witness:
  "\<exists>cols. dataset_columns [(''id'', ''int''), ('' ID'', []), ([], ''x'')] = Some cols \<and> length cols = 3
     \<and> distinct (map (\<lambda>c. py_lower (fst c)) cols) \<and> fst (cols ! 0) = ''id''"
proof -
  have "column_base 0 ''id'' = ''id''" by code_simp
  then show ?thesis using column_names_unique [of "[(''id'', ''int''), ('' ID'', []), ([], ''x'')]"] by auto
qed

end
