(* ===== verification/Etl_Schedule.thy ===== *)
theory Etl_Schedule
  imports Unicode Py_Datetime
begin

section \<open>Job schedules\<close>

text \<open>
  \<open>application/etl_schedule.py\<close>: when a scheduled job runs next. A local time is its wall-clock reading in
  microseconds, as Python adds to and compares local times; the time zone converts an instant to a reading (with its
  \<open>fold\<close>) and back, and is found by name through the argument \<open>zoneinfo\<close>, the time zone database of the system. The
  digits of a label and of a date are ASCII digits and the white space in it is ASCII white space.
\<close>

type_synonym wall = int

record time_zone =
  tz_local :: "timestamp \<Rightarrow> wall \<times> bool"
  tz_instant :: "wall \<Rightarrow> bool \<Rightarrow> timestamp"

subsection \<open>Readings of the clock\<close>

definition minutes :: "int \<Rightarrow> int" where "minutes n = n * 60000000"

definition hours :: "int \<Rightarrow> int" where "hours n = n * 3600000000"

definition days :: "int \<Rightarrow> int" where "days n = n * 86400000000"

definition day_number :: "wall \<Rightarrow> int" where "day_number w = w div 86400000000"

definition wall_hour :: "wall \<Rightarrow> int" where "wall_hour w = w div 3600000000 mod 24"

definition wall_minute :: "wall \<Rightarrow> int" where "wall_minute w = w div 60000000 mod 60"

definition wall_weekday :: "wall \<Rightarrow> int" where "wall_weekday w = (day_number w + 3) mod 7"

definition wall_date :: "wall \<Rightarrow> int \<times> int \<times> int" where "wall_date w = civil_from_days (day_number w)"

text \<open>\<open>w.replace(second=0, microsecond=0)\<close>, \<open>w.replace(minute=m, ...)\<close> and \<open>w.replace(hour=h, minute=m, ...)\<close>\<close>

definition whole_minute :: "wall \<Rightarrow> wall" where "whole_minute w = w div 60000000 * 60000000"

definition at_minute :: "wall \<Rightarrow> int \<Rightarrow> wall" where "at_minute w m = w div 3600000000 * 3600000000 + minutes m"

definition at_time :: "wall \<Rightarrow> int \<Rightarrow> int \<Rightarrow> wall" where "at_time w h m = days (day_number w) + hours h + minutes m"

definition days_from_civil :: "int \<Rightarrow> int \<Rightarrow> int \<Rightarrow> int" where
  "days_from_civil y m d =
     (let y' = (if m \<le> 2 then y - 1 else y);
          yoe = y' mod 400;
          doy = (153 * (if m > 2 then m - 3 else m + 9) + 2) div 5 + d - 1
      in y' div 400 * 146097 + (yoe * 365 + yoe div 4 - yoe div 100 + doy) - 719468)"

definition month_length :: "int \<Rightarrow> int \<Rightarrow> int" where
  "month_length y m =
     (if m = 2 then (if y mod 4 = 0 \<and> (y mod 100 \<noteq> 0 \<or> y mod 400 = 0) then 29 else 28)
      else if m = 4 \<or> m = 6 \<or> m = 9 \<or> m = 11 then 30 else 31)"

text \<open>\<open>candidate.astimezone(UTC).isoformat().replace("+00:00", "Z")\<close>\<close>

definition utc_text :: "timestamp \<Rightarrow> string" where
  "utc_text t = iso_wall t @ ''Z''"

subsection \<open>Labels\<close>

text \<open>The words that appear in labels; \<open>ko_sunday\<close> is also the word for the day of a month.\<close>

definition ko_by_hand :: string where "ko_by_hand = utf8 [0xC218, 0xB3D9]"

definition ko_no_schedule :: string where "ko_no_schedule = utf8 [0xC2A4, 0xCF00, 0xC904, 0x20, 0xC5C6, 0xC74C]"

definition ko_skip :: string where "ko_skip = utf8 [0xAC74, 0xB108, 0xB6F0, 0xAE30]"

definition ko_realtime :: string where "ko_realtime = utf8 [0xC2E4, 0xC2DC, 0xAC04]"

definition ko_daily :: string where "ko_daily = utf8 [0xB9E4, 0xC77C]"

definition ko_weekly :: string where "ko_weekly = utf8 [0xB9E4, 0xC8FC]"

definition ko_monthly :: string where "ko_monthly = utf8 [0xB9E4, 0xC6D4]"

definition ko_reserved :: string where "ko_reserved = utf8 [0xC608, 0xC57D]"

definition ko_monday :: string where "ko_monday = utf8 [0xC6D4]"

definition ko_tuesday :: string where "ko_tuesday = utf8 [0xD654]"

definition ko_wednesday :: string where "ko_wednesday = utf8 [0xC218]"

definition ko_thursday :: string where "ko_thursday = utf8 [0xBAA9]"

definition ko_friday :: string where "ko_friday = utf8 [0xAE08]"

definition ko_saturday :: string where "ko_saturday = utf8 [0xD1A0]"

definition ko_sunday :: string where "ko_sunday = utf8 [0xC77C]"

definition ko_hourly :: string where "ko_hourly = utf8 [0xB9E4, 0xC2DC, 0xAC04]"

definition ko_minute :: string where "ko_minute = utf8 [0xBD84]"

definition ko_weekday :: string where "ko_weekday = utf8 [0xC694, 0xC77C]"

definition ko_custom :: string where "ko_custom = utf8 [0xCEE4, 0xC2A4, 0xD140] @ '':''"

definition ko_once :: string where "ko_once = ''1'' @ utf8 [0xD68C]"

definition ko_one_run :: string where "ko_one_run = ''1'' @ utf8 [0xD68C, 0x20, 0xC2E4, 0xD589]"

lemma label_word_bytes [code]:
  "ko_by_hand = [CHR 0xEC, CHR 0x88, CHR 0x98, CHR 0xEB, CHR 0x8F, CHR 0x99]"
  "ko_no_schedule = [CHR 0xEC, CHR 0x8A, CHR 0xA4, CHR 0xEC, CHR 0xBC, CHR 0x80, CHR 0xEC, CHR 0xA4, CHR 0x84, CHR 0x20, CHR 0xEC, CHR 0x97, CHR 0x86, CHR 0xEC, CHR 0x9D, CHR 0x8C]"
  "ko_skip = [CHR 0xEA, CHR 0xB1, CHR 0xB4, CHR 0xEB, CHR 0x84, CHR 0x88, CHR 0xEB, CHR 0x9B, CHR 0xB0, CHR 0xEA, CHR 0xB8, CHR 0xB0]"
  "ko_realtime = [CHR 0xEC, CHR 0x8B, CHR 0xA4, CHR 0xEC, CHR 0x8B, CHR 0x9C, CHR 0xEA, CHR 0xB0, CHR 0x84]"
  "ko_daily = [CHR 0xEB, CHR 0xA7, CHR 0xA4, CHR 0xEC, CHR 0x9D, CHR 0xBC]"
  "ko_weekly = [CHR 0xEB, CHR 0xA7, CHR 0xA4, CHR 0xEC, CHR 0xA3, CHR 0xBC]"
  "ko_monthly = [CHR 0xEB, CHR 0xA7, CHR 0xA4, CHR 0xEC, CHR 0x9B, CHR 0x94]"
  "ko_reserved = [CHR 0xEC, CHR 0x98, CHR 0x88, CHR 0xEC, CHR 0x95, CHR 0xBD]"
  "ko_monday = [CHR 0xEC, CHR 0x9B, CHR 0x94]"
  "ko_tuesday = [CHR 0xED, CHR 0x99, CHR 0x94]"
  "ko_wednesday = [CHR 0xEC, CHR 0x88, CHR 0x98]"
  "ko_thursday = [CHR 0xEB, CHR 0xAA, CHR 0xA9]"
  "ko_friday = [CHR 0xEA, CHR 0xB8, CHR 0x88]"
  "ko_saturday = [CHR 0xED, CHR 0x86, CHR 0xA0]"
  "ko_sunday = [CHR 0xEC, CHR 0x9D, CHR 0xBC]"
  "ko_hourly = [CHR 0xEB, CHR 0xA7, CHR 0xA4, CHR 0xEC, CHR 0x8B, CHR 0x9C, CHR 0xEA, CHR 0xB0, CHR 0x84]"
  "ko_minute = [CHR 0xEB, CHR 0xB6, CHR 0x84]"
  "ko_weekday = [CHR 0xEC, CHR 0x9A, CHR 0x94, CHR 0xEC, CHR 0x9D, CHR 0xBC]"
  "ko_custom = [CHR 0xEC, CHR 0xBB, CHR 0xA4, CHR 0xEC, CHR 0x8A, CHR 0xA4, CHR 0xED, CHR 0x85, CHR 0x80, CHR 0x3A]"
  "ko_once = [CHR 0x31, CHR 0xED, CHR 0x9A, CHR 0x8C]"
  "ko_one_run = [CHR 0x31, CHR 0xED, CHR 0x9A, CHR 0x8C, CHR 0x20, CHR 0xEC, CHR 0x8B, CHR 0xA4, CHR 0xED, CHR 0x96, CHR 0x89]"
  by (simp_all add: ko_by_hand_def ko_no_schedule_def ko_skip_def ko_realtime_def ko_daily_def ko_weekly_def ko_monthly_def ko_reserved_def ko_monday_def ko_tuesday_def ko_wednesday_def ko_thursday_def ko_friday_def ko_saturday_def ko_sunday_def ko_hourly_def ko_minute_def ko_weekday_def ko_custom_def ko_once_def ko_one_run_def
      utf8_def utf8_bytes_def char_of_def bit_0)

definition schedule_text :: "string option \<Rightarrow> string" where
  "schedule_text v = py_strip (case v of None \<Rightarrow> [] | Some s \<Rightarrow> s)"

definition unscheduled_tokens :: "string list" where
  "unscheduled_tokens = [''manual'', ko_by_hand, ko_no_schedule, ko_skip]"

definition mentions :: "string list \<Rightarrow> string \<Rightarrow> bool" where
  "mentions tokens s \<longleftrightarrow> list_ex (\<lambda>token. py_in token s) tokens"

definition has_scheduled_label :: "string option \<Rightarrow> bool" where
  "has_scheduled_label schedule_label =
     (let schedule = py_lower (schedule_text schedule_label)
      in if schedule = [] \<or> schedule = ''-'' then False else \<not> mentions unscheduled_tokens schedule)"

definition job_schedule_kind :: "string option \<Rightarrow> string" where
  "job_schedule_kind schedule_label =
     (let schedule = py_lower (schedule_text schedule_label)
      in if schedule = [] \<or> schedule = ''-'' \<or> mentions unscheduled_tokens schedule then ''none''
         else if mentions [ko_realtime, ''realtime'', ''real-time'', ''stream'', ''kafka''] schedule then ''realtime''
         else if mentions [ko_daily, ''daily''] schedule then ''daily''
         else if mentions [ko_weekly, ''weekly''] schedule then ''weekly''
         else if mentions [ko_monthly, ''monthly''] schedule then ''monthly''
         else ''other'')"

text \<open>\<open>re.sub\<close> of the suffix that marks a single run.\<close>

definition drop_end :: "string \<Rightarrow> string \<Rightarrow> string" where
  "drop_end suffix s =
     (if starts_with (rev suffix) (rev s) then rev (dropWhile py_space (drop (length suffix) (rev s))) else s)"

definition without_single_run :: "string \<Rightarrow> string" where
  "without_single_run s =
     (let once = ko_one_run in
      if starts_with (rev once) (rev s) then py_strip (drop_end ko_reserved (drop_end once s)) else py_strip s)"

definition schedule_next_run_label :: "string option \<Rightarrow> string option \<Rightarrow> string" where
  "schedule_next_run_label schedule_label fallback =
     (let schedule = schedule_text schedule_label; fallback_label = schedule_text fallback in
      if schedule = [] \<or> \<not> has_scheduled_label (Some schedule) then ''-''
      else if fallback_label \<noteq> [] \<and> fallback_label \<noteq> ''-'' then fallback_label
      else if mentions [ko_once, ko_reserved] schedule then without_single_run schedule
      else schedule)"

subsection \<open>Cron expressions\<close>

definition int_range :: "int \<Rightarrow> int \<Rightarrow> int \<Rightarrow> int list" where
  "int_range start stop step = map (\<lambda>i. start + int i * step) [0..<nat ((stop - start) div step) + 1]"

text \<open>\<open>token.partition("/")\<close>\<close>

definition cron_step :: "string \<Rightarrow> string \<times> int option" where
  "cron_step token =
     (case split_limit (CHR ''/'') 1 token of
        [base, step_text] \<Rightarrow> (base, parse_int step_text)
      | _ \<Rightarrow> (token, Some 1))"

definition cron_bounds :: "string \<Rightarrow> int \<Rightarrow> int \<Rightarrow> (int \<times> int) option" where
  "cron_bounds base minimum maximum =
     (if base = ''*'' then Some (minimum, maximum)
      else if CHR ''-'' \<in> set base then
        (case split_limit (CHR ''-'') 1 base of
           [start_text, end_text] \<Rightarrow>
             (case (parse_int start_text, parse_int end_text) of (Some a, Some b) \<Rightarrow> Some (a, b) | _ \<Rightarrow> None)
         | _ \<Rightarrow> None)
      else map_option (\<lambda>n. (n, n)) (parse_int base))"

definition cron_part :: "string \<Rightarrow> int \<Rightarrow> int \<Rightarrow> int list option" where
  "cron_part part minimum maximum =
     (let token = py_strip part in
      if token = [] then None
      else case cron_step token of
        (base, Some step) \<Rightarrow>
          if step < 1 then None
          else (case cron_bounds base minimum maximum of
             Some (start, stop) \<Rightarrow>
               if start < minimum \<or> stop > maximum \<or> start > stop then None else Some (int_range start stop step)
           | None \<Rightarrow> None)
      | (_, None) \<Rightarrow> None)"

fun cron_parts :: "string list \<Rightarrow> int \<Rightarrow> int \<Rightarrow> int list option" where
  "cron_parts [] minimum maximum = Some []"
| "cron_parts (p # ps) minimum maximum =
     (case cron_part p minimum maximum of
        None \<Rightarrow> None
      | Some vs \<Rightarrow> map_option (\<lambda>rest. vs @ rest) (cron_parts ps minimum maximum))"

definition cron_wildcard :: "string \<Rightarrow> bool" where
  "cron_wildcard expression =
     list_all (\<lambda>part. hd (split_limit (CHR ''/'') 1 (py_strip part)) = ''*'') (split_char (CHR '','') expression)"

definition parse_cron_field :: "string \<Rightarrow> int \<Rightarrow> int \<Rightarrow> (int set \<times> bool) option" where
  "parse_cron_field expression minimum maximum =
     map_option (\<lambda>vs. (set vs, cron_wildcard expression)) (cron_parts (split_char (CHR '','') expression) minimum maximum)"

definition cron_matches :: "wall \<Rightarrow> string list \<Rightarrow> bool" where
  "cron_matches local_time parts =
     (case (parse_cron_field (parts ! 0) 0 59, parse_cron_field (parts ! 1) 0 23, parse_cron_field (parts ! 2) 1 31,
            parse_cron_field (parts ! 3) 1 12, parse_cron_field (parts ! 4) 0 7) of
        (Some minute, Some hour, Some day_of_month, Some month, Some day_of_week) \<Rightarrow>
          (let weekday_value = (wall_weekday local_time + 1) mod 7;
               (y, m, d) = wall_date local_time;
               month_matches = m \<in> fst month;
               day_matches = d \<in> fst day_of_month;
               weekday_matches = weekday_value \<in> fst day_of_week \<or> (weekday_value = 0 \<and> 7 \<in> fst day_of_week);
               matches = (if \<not> snd day_of_month \<and> \<not> snd day_of_week then day_matches \<and> weekday_matches
                          else if snd day_of_week then day_matches
                          else if snd day_of_month then weekday_matches
                          else day_matches \<or> weekday_matches)
           in wall_minute local_time \<in> fst minute \<and> wall_hour local_time \<in> fst hour \<and> month_matches \<and> matches)
      | _ \<Rightarrow> False)"

fun cron_search :: "nat \<Rightarrow> wall \<Rightarrow> string list \<Rightarrow> wall option" where
  "cron_search 0 candidate parts = None"
| "cron_search (Suc n) candidate parts =
     (if cron_matches candidate parts then Some candidate else cron_search n (candidate + minutes 1) parts)"

definition next_custom_cron_local :: "string \<Rightarrow> wall \<Rightarrow> wall option" where
  "next_custom_cron_local expression start =
     (let parts = py_split expression in
      if length parts \<noteq> 5 then None
      else let candidate = whole_minute start
           in cron_search (366 * 24 * 60 * 2) (if candidate \<le> start then candidate + minutes 1 else candidate) parts)"

subsection \<open>Plans\<close>

datatype plan =
    Hourly int
  | Daily int int
  | Weekly int int int
  | Monthly int int int
  | Custom string

definition after_prefix :: "string \<Rightarrow> string \<Rightarrow> string option" where
  "after_prefix p s = (if starts_with p s then Some (drop (length p) s) else None)"

text \<open>\<open>\s+\<close> and \<open>(\d{1,2})\<close>\<close>

definition after_spaces :: "string \<Rightarrow> string option" where
  "after_spaces s = (case s of [] \<Rightarrow> None | c # _ \<Rightarrow> if py_space c then Some (dropWhile py_space s) else None)"

definition short_number :: "string \<Rightarrow> (int \<times> string) option" where
  "short_number s =
     (let ds = takeWhile is_digit (take 2 s)
      in if ds = [] then None else Some (foldl (\<lambda>n c. n * 10 + int (digit_value c)) 0 ds, drop (length ds) s))"

definition clock_end :: "string \<Rightarrow> (int \<times> int) option" where
  "clock_end s =
     Option.bind (short_number s) (\<lambda>(h, r). Option.bind (after_prefix '':'' r) (\<lambda>r.
       if length r = 2 \<and> list_all is_digit r
       then Some (h, foldl (\<lambda>n c. n * 10 + int (digit_value c)) 0 r) else None))"

definition weekday_names :: "(string \<times> int) list" where
  "weekday_names = [(ko_monday, 0), (ko_tuesday, 1), (ko_wednesday, 2), (ko_thursday, 3), (ko_friday, 4), (ko_saturday, 5), (ko_sunday, 6)]"

definition hourly_match :: "string \<Rightarrow> plan option" where
  "hourly_match label =
     Option.bind (after_prefix ko_hourly label) (\<lambda>r. Option.bind (after_spaces r) (\<lambda>r.
       Option.bind (short_number r) (\<lambda>(m, r). if r = ko_minute then Some (Hourly m) else None)))"

definition daily_match :: "string \<Rightarrow> plan option" where
  "daily_match label =
     Option.bind (after_prefix ko_daily label) (\<lambda>r. Option.bind (after_spaces r) (\<lambda>r.
       Option.bind (clock_end r) (\<lambda>(h, m). Some (Daily h m))))"

definition weekly_match :: "string \<Rightarrow> plan option" where
  "weekly_match label =
     Option.bind (after_prefix ko_weekly label) (\<lambda>r. Option.bind (after_spaces r) (\<lambda>r.
       case find (\<lambda>(name, _). starts_with name r) weekday_names of
         None \<Rightarrow> None
       | Some (name, weekday) \<Rightarrow>
           Option.bind (after_prefix (name @ ko_weekday) r) (\<lambda>r. Option.bind (after_spaces r) (\<lambda>r.
             Option.bind (clock_end r) (\<lambda>(h, m). Some (Weekly weekday h m))))))"

definition monthly_match :: "string \<Rightarrow> plan option" where
  "monthly_match label =
     Option.bind (after_prefix ko_monthly label) (\<lambda>r. Option.bind (after_spaces r) (\<lambda>r.
       Option.bind (short_number r) (\<lambda>(d, r). Option.bind (after_prefix ko_sunday r) (\<lambda>r. Option.bind (after_spaces r) (\<lambda>r.
         Option.bind (clock_end r) (\<lambda>(h, m). Some (Monthly d h m)))))))"

definition custom_match :: "string \<Rightarrow> plan option" where
  "custom_match label =
     Option.bind (after_prefix ko_custom label) (\<lambda>r.
       let expression = dropWhile py_space r
       in if expression \<noteq> [] \<and> CHR 0x0A \<notin> set expression then Some (Custom (py_strip expression)) else None)"

definition schedule_plan :: "string \<Rightarrow> plan option" where
  "schedule_plan label =
     (case hourly_match label of Some p \<Rightarrow> Some p | None \<Rightarrow>
      (case daily_match label of Some p \<Rightarrow> Some p | None \<Rightarrow>
       (case weekly_match label of Some p \<Rightarrow> Some p | None \<Rightarrow>
        (case monthly_match label of Some p \<Rightarrow> Some p | None \<Rightarrow> custom_match label))))"

subsection \<open>The next run\<close>

partial_function (option) hour_loop :: "wall \<Rightarrow> wall \<Rightarrow> wall option" where
  "hour_loop earliest candidate =
     (if candidate < earliest then hour_loop earliest (candidate + hours 1) else Some candidate)"

declare hour_loop.simps [code]

fun month_search :: "nat \<Rightarrow> wall \<Rightarrow> int \<Rightarrow> int \<Rightarrow> int \<Rightarrow> int \<Rightarrow> int \<Rightarrow> wall option \<Rightarrow> wall option" where
  "month_search 0 earliest year month day hour minute candidate = candidate"
| "month_search (Suc n) earliest year month day hour minute candidate =
     (let found = (if day \<le> month_length year month
                   then Some (days (days_from_civil year month day) + hours hour + minutes minute) else None);
          candidate' = (case found of None \<Rightarrow> candidate | Some c \<Rightarrow> Some c)
      in if (case found of None \<Rightarrow> False | Some c \<Rightarrow> earliest \<le> c) then candidate'
         else if month + 1 > 12 then month_search n earliest (year + 1) 1 day hour minute candidate'
         else month_search n earliest year (month + 1) day hour minute candidate')"

text \<open>\<open>replace(day=0)\<close> raises.\<close>

definition plan_candidate :: "plan option \<Rightarrow> wall \<Rightarrow> wall option res option" where
  "plan_candidate plan earliest =
     (case plan of
        Some (Hourly m) \<Rightarrow> map_option (\<lambda>c. Inr (Some c)) (hour_loop earliest (at_minute earliest (min 59 m)))
      | Some (Daily h m) \<Rightarrow>
          (let c = at_time earliest (min 23 h) (min 59 m) in Some (Inr (Some (if c < earliest then c + days 1 else c))))
      | Some (Weekly weekday h m) \<Rightarrow>
          (let days_ahead = (weekday - wall_weekday earliest) mod 7;
               c = at_time (earliest + days days_ahead) (min 23 h) (min 59 m)
           in Some (Inr (Some (if c < earliest then c + days 7 else c))))
      | Some (Monthly d h m) \<Rightarrow>
          (case wall_date earliest of (year, month, _) \<Rightarrow>
             Some (if min 31 d < 1 then Inl (ValueError ''day is out of range for month'')
                   else Inr (month_search 24 earliest year month (min 31 d) (min 23 h) (min 59 m) None)))
      | Some (Custom expression) \<Rightarrow> Some (Inr (next_custom_cron_local expression earliest))
      | None \<Rightarrow> Some (Inr None))"

text \<open>\<open>datetime.strptime(value, "%Y-%m-%d").date()\<close>, as a day number.\<close>

definition digits_value :: "string \<Rightarrow> int" where
  "digits_value ds = foldl (\<lambda>n c. n * 10 + int (digit_value c)) 0 ds"

definition parse_date :: "string \<Rightarrow> int option" where
  "parse_date s =
     (case split_char (CHR ''-'') s of
        [ys, ms, ds] \<Rightarrow>
          (let day_text = (if length ds = 2 \<and> hd ds = CHR '' '' then tl ds else ds) in
           if length ys = 4 \<and> list_all is_digit ys \<and> ms \<noteq> [] \<and> length ms \<le> 2 \<and> list_all is_digit ms
              \<and> day_text \<noteq> [] \<and> length day_text \<le> 2 \<and> list_all is_digit day_text
           then (let y = digits_value ys; m = digits_value ms; d = digits_value day_text in
                 if 1 \<le> y \<and> 1 \<le> m \<and> m \<le> 12 \<and> 1 \<le> d \<and> d \<le> month_length y m then Some (days_from_civil y m d) else None)
           else None)
      | _ \<Rightarrow> None)"

text \<open>The start and end of the schedule; when either does not parse, both are ignored.\<close>

definition date_boundaries :: "string option \<Rightarrow> string option \<Rightarrow> int option \<times> int option" where
  "date_boundaries start_date end_date =
     (let given = (\<lambda>v. case v of None \<Rightarrow> None | Some s \<Rightarrow> if s = [] then None else Some s);
          start = map_option parse_date (given start_date);
          stop = map_option parse_date (given end_date)
      in if start = Some None \<or> stop = Some None then (None, None)
         else (Option.bind start id, Option.bind stop id))"

definition default_schedule_timezone :: string where "default_schedule_timezone = ''Asia/Seoul''"

definition schedule_timezone :: "(string \<Rightarrow> time_zone option) \<Rightarrow> string option \<Rightarrow> time_zone res" where
  "schedule_timezone zoneinfo timezone_name =
     (case zoneinfo (case timezone_name of None \<Rightarrow> default_schedule_timezone
                     | Some n \<Rightarrow> if n = [] then default_schedule_timezone else n) of
        Some z \<Rightarrow> Inr z
      | None \<Rightarrow> (case zoneinfo default_schedule_timezone of
          Some z \<Rightarrow> Inr z | None \<Rightarrow> Inl (KeyError ''No time zone found with key Asia/Seoul'')))"

definition earliest_run :: "time_zone \<Rightarrow> timestamp \<Rightarrow> wall" where
  "earliest_run zone now = whole_minute (fst (tz_local zone now)) + minutes 1"

text \<open>\<open>datetime.combine\<close> has no argument \<open>timezone\<close>.\<close>

definition combine_error :: py_error where
  "combine_error = TypeError ''combine() got an unexpected keyword argument timezone''"

definition next_scheduled_run_utc_for_schedule ::
  "(string \<Rightarrow> time_zone option) \<Rightarrow> string option \<Rightarrow> string option \<Rightarrow> string option \<Rightarrow> string option \<Rightarrow> timestamp
    \<Rightarrow> string res option" where
  "next_scheduled_run_utc_for_schedule zoneinfo schedule timezone_name start_date end_date now =
     (let label = schedule_text schedule in
      if \<not> has_scheduled_label (Some label) then Some (Inr [])
      else case schedule_timezone zoneinfo timezone_name of
        Inl e \<Rightarrow> Some (Inl e)
      | Inr zone \<Rightarrow>
          (let earliest = earliest_run zone now;
               (start_boundary, end_boundary) = date_boundaries start_date end_date
           in if (case start_boundary of None \<Rightarrow> False | Some d \<Rightarrow> day_number earliest < d) then Some (Inl combine_error)
              else map_option (\<lambda>r. bind_res r (\<lambda>candidate.
                case candidate of
                  None \<Rightarrow> Inr []
                | Some c \<Rightarrow>
                    if (case end_boundary of None \<Rightarrow> False | Some d \<Rightarrow> day_number c > d) then Inr []
                    else Inr (utc_text (tz_instant zone c False))))
                (plan_candidate (schedule_plan label) earliest)))"

subsection \<open>Schedules of SQL jobs\<close>

record sql_schedule =
  ss_mode :: string
  ss_overlap_policy :: string
  ss_time :: string
  ss_timezone :: string
  ss_weekday :: string

definition trino_sql_job_schedule_label :: "sql_schedule \<Rightarrow> string" where
  "trino_sql_job_schedule_label schedule =
     (if ss_mode schedule = ''manual'' then (utf8 [0xC2A4, 0xCF00, 0xC904, 0xB9C1, 0x20, 0xAC74, 0xB108, 0xB6F0, 0xAE30])
      else if ss_mode schedule = ''daily'' then (utf8 [0xB9E4, 0xC77C] @ '' '') @ ss_time schedule
      else (utf8 [0xB9E4, 0xC8FC] @ '' '') @ ss_weekday schedule @ (utf8 [0xC694, 0xC77C] @ '' '') @ ss_time schedule)"

definition trino_sql_job_schedule_summary :: "sql_schedule \<Rightarrow> string" where
  "trino_sql_job_schedule_summary schedule =
     (if ss_mode schedule = ''manual'' then (utf8 [0xC2A4, 0xCF00, 0xC904, 0xB9C1, 0x20, 0xAC74, 0xB108, 0xB6F0, 0xAE30, 0x20, 0xB7] @ '' Job '' @ utf8 [0xBAA9, 0xB85D, 0xC5D0, 0xC11C, 0x20, 0xC9C1, 0xC811, 0x20, 0xC2E4, 0xD589, 0x20, 0xB7] @ '' full refresh'')
      else (utf8 [0xBC18, 0xBCF5, 0x20, 0xC2E4, 0xD589, 0x20, 0xB7] @ '' '') @ trino_sql_job_schedule_label schedule @ ('' '' @ utf8 [0xB7] @ '' '') @ ss_timezone schedule @ ('' '' @ utf8 [0xB7] @ '' '')
           @ ss_overlap_policy schedule @ ('' '' @ utf8 [0xB7] @ '' full refresh''))"

definition sql_schedule_error :: py_error where
  "sql_schedule_error = ApiError ''VALIDATION_ERROR'' ''SQL Job schedule time or timezone is invalid'' 422 []"

definition clock_of :: "string \<Rightarrow> (int \<times> int) option" where
  "clock_of s =
     (case split_limit (CHR '':'') 1 s of
        [hour_text, minute_text] \<Rightarrow>
          (case (parse_int hour_text, parse_int minute_text) of
             (Some h, Some m) \<Rightarrow> if 0 \<le> h \<and> h \<le> 23 \<and> 0 \<le> m \<and> m \<le> 59 then Some (h, m) else None
           | _ \<Rightarrow> None)
      | _ \<Rightarrow> None)"

text \<open>The local time of the next run, with its fold: an addition resets it.\<close>

definition sql_job_candidate :: "sql_schedule \<Rightarrow> int \<Rightarrow> int \<Rightarrow> wall \<times> bool \<Rightarrow> (wall \<times> bool) res" where
  "sql_job_candidate schedule hour minute now =
     (let candidate = at_time (fst now) hour minute in
      if ss_mode schedule = ''daily''
      then Inr (if candidate \<le> fst now then (candidate + days 1, False) else (candidate, snd now))
      else case map_of weekday_names (ss_weekday schedule) of
        None \<Rightarrow> Inl (KeyError (ss_weekday schedule))
      | Some weekday \<Rightarrow>
          (let c = candidate + days ((weekday - wall_weekday candidate) mod 7)
           in Inr (if c \<le> fst now then c + days 7 else c, False)))"

definition trino_sql_job_next_run_utc ::
  "(string \<Rightarrow> time_zone option) \<Rightarrow> sql_schedule \<Rightarrow> timestamp \<Rightarrow> string option res" where
  "trino_sql_job_next_run_utc zoneinfo schedule now =
     (if ss_mode schedule = ''manual'' then Inr None
      else case (clock_of (ss_time schedule), zoneinfo (ss_timezone schedule)) of
        (Some (hour, minute), Some zone) \<Rightarrow>
          bind_res (sql_job_candidate schedule hour minute (tz_local zone now)) (\<lambda>(c, fold).
            Inr (Some (utc_text (tz_instant zone c fold))))
      | _ \<Rightarrow> Inl sql_schedule_error)"

subsection \<open>The policy of a request\<close>

record schedule_request =
  sq_schedule_label :: "string option"
  sq_timezone :: "string option"
  sq_start_date :: "string option"
  sq_end_date :: "string option"
  sq_next_run_utc :: "string option"
  sq_overlap_policy :: "string option"
  sq_watermark_policy :: json

text \<open>\<open>fromisoformat\<close> reads the requested time. The clock is read for the comparison, for the computation inside the
  \<open>try\<close> block and for the one in its handler, which runs on a \<open>ValueError\<close> or a \<open>TypeError\<close>.\<close>

record policy_clock =
  pk_compared :: timestamp
  pk_computed :: timestamp
  pk_retried :: timestamp

definition policy_next_run ::
  "(string \<Rightarrow> time_zone option) \<Rightarrow> (string \<Rightarrow> py_datetime option) \<Rightarrow> policy_clock \<Rightarrow> schedule_request \<Rightarrow> string res option" where
  "policy_next_run zoneinfo fromisoformat clock q =
     (let compute = next_scheduled_run_utc_for_schedule zoneinfo (sq_schedule_label q) (sq_timezone q) (sq_start_date q)
            (sq_end_date q);
          requested = schedule_text (sq_next_run_utc q)
      in if \<not> has_scheduled_label (sq_schedule_label q) then Some (Inr [])
         else let attempt =
           (if requested = [] then compute (pk_computed clock)
            else case fromisoformat (replace_char (CHR ''Z'') ''+00:00'' requested) of
              None \<Rightarrow> Some (Inl (ValueError ''Invalid isoformat string''))
            | Some t \<Rightarrow> if utc_instant t \<le> pk_compared clock then compute (pk_computed clock) else Some (Inr requested))
         in case attempt of
              Some (Inl (TypeError _)) \<Rightarrow> compute (pk_retried clock)
            | Some (Inl (ValueError _)) \<Rightarrow> compute (pk_retried clock)
            | r \<Rightarrow> r)"

definition schedule_policy_from_request ::
  "(string \<Rightarrow> time_zone option) \<Rightarrow> (string \<Rightarrow> py_datetime option) \<Rightarrow> policy_clock \<Rightarrow> schedule_request \<Rightarrow> dict res option" where
  "schedule_policy_from_request zoneinfo fromisoformat clock q =
     map_option (\<lambda>r. bind_res r (\<lambda>next_run_utc.
       Inr [(''endDate'', of_opt_str (sq_end_date q)), (''nextRunUtc'', JStr next_run_utc),
            (''overlapPolicy'', case sq_overlap_policy q of
               Some p \<Rightarrow> if p = [] then (if has_scheduled_label (sq_schedule_label q) then JStr ''skip_if_running'' else JNull)
                         else JStr p
             | None \<Rightarrow> if has_scheduled_label (sq_schedule_label q) then JStr ''skip_if_running'' else JNull),
            (''startDate'', of_opt_str (sq_start_date q)), (''timezone'', of_opt_str (sq_timezone q)),
            (''watermarkPolicy'', sq_watermark_policy q)]))
       (policy_next_run zoneinfo fromisoformat clock q)"

definition has_scheduled_execution :: "string \<Rightarrow> string option \<Rightarrow> bool" where
  "has_scheduled_execution job_status job_schedule \<longleftrightarrow> job_status \<noteq> ''stopped'' \<and> has_scheduled_label job_schedule"

lemma no_kind_iff_unscheduled: "job_schedule_kind label = ''none'' \<longleftrightarrow> \<not> has_scheduled_label label"
  by (simp add: job_schedule_kind_def has_scheduled_label_def Let_def)

subsection \<open>Whole minutes\<close>

definition aligned :: "wall \<Rightarrow> bool" where
  "aligned w \<longleftrightarrow> w mod 60000000 = 0"

lemma alignedE:
  assumes "aligned w"
  obtains k where "w = 60000000 * k"
  using assms that by (auto simp: aligned_def mod_eq_0_iff_dvd elim: dvdE)

lemma minute_scale:
  "60000000 * k div 3600000000 = (k :: int) div 60" "60000000 * k div 86400000000 = k div 1440"
proof -
  show "60000000 * k div 3600000000 = k div 60" using div_mult_mult1 [of "60000000 :: int" k 60] by simp
  show "60000000 * k div 86400000000 = k div 1440" using div_mult_mult1 [of "60000000 :: int" k 1440] by simp
qed

lemma minute_fields:
  "wall_minute (60000000 * k) = k mod 60" "wall_hour (60000000 * k) = k div 60 mod 24"
  "day_number (60000000 * k) = k div 1440" "wall_weekday (60000000 * k) = (k div 1440 + 3) mod 7"
  by (simp_all add: wall_minute_def wall_hour_def wall_weekday_def day_number_def minute_scale)

lemma aligned_earliest: "aligned (earliest_run zone now)"
  by (simp add: aligned_def earliest_run_def whole_minute_def minutes_def)

lemma first_in_class:
  assumes "0 < P" "c mod P = r" "c < e + P" "e \<le> t" "t mod P = r"
  shows "c \<le> (t :: int)"
proof (rule ccontr)
  assume "\<not> c \<le> t"
  moreover have "P dvd c - t" using assms(2,5) mod_eq_dvd_iff [of c P t] by simp
  ultimately show False using assms(3,4) zdvd_not_zless [of "c - t" P] by simp
qed

subsection \<open>Periodic plans\<close>

fun plan_matches :: "plan \<Rightarrow> wall \<Rightarrow> bool" where
  "plan_matches (Hourly m) w \<longleftrightarrow> wall_minute w = min 59 m"
| "plan_matches (Daily h m) w \<longleftrightarrow> wall_hour w = min 23 h \<and> wall_minute w = min 59 m"
| "plan_matches (Weekly d h m) w \<longleftrightarrow> wall_weekday w = d \<and> wall_hour w = min 23 h \<and> wall_minute w = min 59 m"
| "plan_matches _ w \<longleftrightarrow> False"

fun periodic :: "plan \<Rightarrow> bool" where
  "periodic (Hourly m) \<longleftrightarrow> 0 \<le> m"
| "periodic (Daily h m) \<longleftrightarrow> 0 \<le> h \<and> 0 \<le> m"
| "periodic (Weekly d h m) \<longleftrightarrow> 0 \<le> d \<and> d \<le> 6 \<and> 0 \<le> h \<and> 0 \<le> m"
| "periodic _ \<longleftrightarrow> False"

text \<open>A periodic plan runs in one minute of each period.\<close>

fun plan_period :: "plan \<Rightarrow> int" where
  "plan_period (Hourly m) = 60"
| "plan_period (Daily h m) = 1440"
| "plan_period _ = 10080"

fun plan_phase :: "plan \<Rightarrow> int" where
  "plan_phase (Hourly m) = min 59 m"
| "plan_phase (Daily h m) = min 23 h * 60 + min 59 m"
| "plan_phase (Weekly d h m) = (d - 3) mod 7 * 1440 + min 23 h * 60 + min 59 m"
| "plan_phase _ = 0"

lemma digits_eq:
  assumes "0 \<le> b" "b < B" "0 \<le> b'" "b' < B"
  shows "B * a + b = B * a' + b' \<longleftrightarrow> a = a' \<and> b = (b' :: int)"
proof
  assume eq: "B * a + b = B * a' + b'"
  have "(B * a + b) div B = a" "(B * a' + b') div B = a'" using assms by (simp_all add: div_mult_self4 div_pos_pos_trivial)
  then have "a = a'" using eq by simp
  then show "a = a' \<and> b = b'" using eq by simp
qed simp

lemma day_phase:
  assumes "0 \<le> m" "m \<le> 59"
  shows "(k div 60 mod 24 = h \<and> k mod 60 = m) \<longleftrightarrow> k mod 1440 = h * 60 + (m :: int)"
  using zmod_zmult2_eq [of 24 k 60] digits_eq [of "k mod 60" 60 m "k div 60 mod 24" h] assms
  by (simp add: mult.commute [of h])

lemma weekday_shift: "0 \<le> d \<Longrightarrow> d \<le> 6 \<Longrightarrow> (q + 3) mod 7 = d \<longleftrightarrow> q mod 7 = (d - 3) mod (7 :: int)"
  using mod_eq_dvd_iff [of "q + 3" 7 d] mod_eq_dvd_iff [of q 7 "d - 3"] by (simp add: mod_pos_pos_trivial algebra_simps)

lemma weekly_phase:
  assumes "0 \<le> d" "d \<le> 6" "0 \<le> h" "h \<le> 23" "0 \<le> m" "m \<le> 59"
  shows "((k div 1440 + 3) mod 7 = d \<and> k div 60 mod 24 = h \<and> k mod 60 = m)
    \<longleftrightarrow> k mod 10080 = (d - 3) mod 7 * 1440 + h * 60 + (m :: int)"
proof -
  have r: "0 \<le> h * 60 + m" "h * 60 + m < 1440" using assms by linarith+
  have k: "k mod 10080 = 1440 * (k div 1440 mod 7) + k mod 1440" using zmod_zmult2_eq [of 7 k 1440] by simp
  have d: "k mod 10080 = 1440 * ((d - 3) mod 7) + (h * 60 + m)
      \<longleftrightarrow> k div 1440 mod 7 = (d - 3) mod 7 \<and> k mod 1440 = h * 60 + m"
    unfolding k by (rule digits_eq [OF _ _ r]) simp_all
  have e: "(d - 3) mod 7 * 1440 + h * 60 + m = 1440 * ((d - 3) mod 7) + (h * 60 + m)" by simp
  show ?thesis unfolding e d weekday_shift [OF assms(1,2)] day_phase [OF assms(5,6)] by (rule refl)
qed

lemma plan_matches_phase:
  assumes "periodic plan"
  shows "plan_matches plan (60000000 * k) \<longleftrightarrow> k mod plan_period plan = plan_phase plan"
proof (cases plan)
  case (Hourly m)
  then show ?thesis by (simp add: minute_fields)
next
  case (Daily h m)
  then have "0 \<le> min 59 m" "min 59 m \<le> 59" using assms by simp_all
  from day_phase [OF this, of k "min 23 h"] show ?thesis by (simp only: Daily plan_matches.simps plan_period.simps plan_phase.simps minute_fields)
next
  case (Weekly d h m)
  then have "0 \<le> d" "d \<le> 6" "0 \<le> min 23 h" "min 23 h \<le> 23" "0 \<le> min 59 m" "min 59 m \<le> 59" using assms by simp_all
  from weekly_phase [OF this, of k] show ?thesis
    by (simp only: Weekly plan_matches.simps plan_period.simps plan_phase.simps minute_fields)
qed (use assms in simp_all)

lemma hour_loop_returns:
  "\<exists>c n. hour_loop e c0 = Some c \<and> 0 \<le> n \<and> c = c0 + hours n \<and> e \<le> c \<and> (c = c0 \<or> c < e + hours 1)"
proof (induction "nat (e - c0)" arbitrary: c0 rule: less_induct)
  case less
  show ?case
  proof (cases "c0 < e")
    case True
    then have "nat (e - (c0 + hours 1)) < nat (e - c0)" by (simp add: hours_def)
    from less [OF this] obtain c n where c: "hour_loop e (c0 + hours 1) = Some c" "0 \<le> n" "c = c0 + hours 1 + hours n" "e \<le> c"
        "c = c0 + hours 1 \<or> c < e + hours 1" by blast
    then have "c = c0 + hours (n + 1)" "c < e + hours 1" using True by (auto simp: hours_def)
    then show ?thesis using c True by (intro exI [of _ c] exI [of _ "n + 1"]) (simp add: hour_loop.simps [of e c0])
  next
    case False
    then show ?thesis by (intro exI [of _ c0] exI [of _ 0]) (simp add: hour_loop.simps [of e c0] hours_def)
  qed
qed

lemma scaled_times:
  "at_minute (60000000 * e) m = 60000000 * (e div 60 * 60 + m)"
  "at_time (60000000 * e) h m = 60000000 * (e div 1440 * 1440 + (h * 60 + m))"
  "60000000 * e + days n = 60000000 * (e + 1440 * n)" "60000000 * e + hours n = 60000000 * (e + 60 * n)"
  by (simp_all only: at_minute_def at_time_def minute_scale minute_fields minutes_def hours_def days_def) simp_all

lemma scaled_later:
  "(if 60000000 * a < 60000000 * b then 60000000 * (a + n) else 60000000 * a) = 60000000 * (if a < b then a + n else (a :: int))"
  by simp

lemma next_in_period:
  assumes "c0 mod P = r" "0 < P" "c0 < e + P" "e < c0 + P"
  shows "e \<le> (if c0 < e then c0 + P else c0)" "(if c0 < e then c0 + P else c0) < e + P"
    "(if c0 < e then c0 + P else c0) mod P = (r :: int)"
  using assms by simp_all

lemma hourly_candidate:
  assumes "0 \<le> m" "m \<le> 59"
  shows "\<exists>c. hour_loop (60000000 * e) (at_minute (60000000 * e) m) = Some (60000000 * c) \<and> e \<le> c \<and> c < e + 60 \<and> c mod 60 = m"
proof -
  obtain c n where c: "hour_loop (60000000 * e) (at_minute (60000000 * e) m) = Some c" "0 \<le> n"
      "c = at_minute (60000000 * e) m + hours n" "60000000 * e \<le> c"
      "c = at_minute (60000000 * e) m \<or> c < 60000000 * e + hours 1" using hour_loop_returns by blast
  let ?c = "e div 60 * 60 + m + 60 * n"
  have k: "c = 60000000 * ?c" using c(3) by (simp add: scaled_times hours_def)
  have "e - e mod 60 = e div 60 * 60" by (simp add: minus_mod_eq_div_mult)
  moreover have "0 \<le> e mod 60" "e mod 60 < 60" by simp_all
  ultimately have "e div 60 * 60 \<le> e" "e < e div 60 * 60 + 60" by simp_all
  moreover have "?c = e div 60 * 60 + m \<or> ?c < e + 60" using c(5) k by (auto simp: scaled_times hours_def)
  ultimately have "e \<le> ?c" "?c < e + 60" using c(4) k assms by auto
  moreover have "?c mod 60 = m" using assms by (simp add: mod_pos_pos_trivial)
  ultimately show ?thesis using c(1) k by blast
qed

lemma day_bounds: "e div 1440 * 1440 \<le> e" "e < e div 1440 * 1440 + (1440 :: int)"
proof -
  have "e - e mod 1440 = e div 1440 * 1440" by (simp add: minus_mod_eq_div_mult)
  moreover have "0 \<le> e mod 1440" "e mod 1440 < 1440" by simp_all
  ultimately show "e div 1440 * 1440 \<le> e" "e < e div 1440 * 1440 + 1440" by simp_all
qed

lemma daily_candidate:
  fixes e r :: int
  assumes "0 \<le> r" "r < 1440"
  defines "c0 \<equiv> e div 1440 * 1440 + r"
  shows "c0 mod 1440 = r" "c0 < e + 1440" "e < c0 + (1440 :: int)"
  using assms day_bounds [of e] by (simp_all add: mod_pos_pos_trivial)

lemma weekly_candidate:
  fixes e r d :: int
  assumes "0 \<le> r" "r < 1440" "0 \<le> d" "d \<le> 6"
  defines "a \<equiv> (d - (e div 1440 + 3) mod 7) mod 7"
  defines "c0 \<equiv> (e + 1440 * a) div 1440 * 1440 + r"
  shows "c0 mod 10080 = (d - 3) mod 7 * 1440 + r" "c0 < e + 10080" "e < c0 + (10080 :: int)"
proof -
  have c0: "c0 = (e div 1440 + a) * 1440 + r" by (simp add: c0_def)
  have a: "0 \<le> a" "a \<le> 6" unfolding a_def by (simp, use pos_mod_bound [of 7 "d - (e div 1440 + 3) mod 7"] in linarith)
  have "c0 div 1440 = e div 1440 + a" "c0 mod 1440 = r"
    using assms(1,2) unfolding c0 by (simp_all add: div_pos_pos_trivial mod_pos_pos_trivial del: distrib_right_numeral distrib_right)
  then have "c0 mod 10080 = 1440 * ((e div 1440 + a) mod 7) + r" using zmod_zmult2_eq [of 7 c0 1440] by simp
  moreover have "(e div 1440 + a) mod 7 = (d - 3) mod 7"
    unfolding a_def by (simp add: mod_simps)
  ultimately show "c0 mod 10080 = (d - 3) mod 7 * 1440 + r" by simp
  show "c0 < e + 10080" "e < c0 + 10080" using a assms(1,2) day_bounds [of e] by (simp_all add: c0 algebra_simps)
qed

lemma plan_candidate_minutes:
  assumes "periodic plan"
  shows "\<exists>c. plan_candidate (Some plan) (60000000 * e) = Some (Inr (Some (60000000 * c))) \<and> e \<le> c \<and> c < e + plan_period plan
    \<and> c mod plan_period plan = plan_phase plan"
proof (cases plan)
  case (Hourly m)
  then show ?thesis using assms hourly_candidate [of "min 59 m" e] by (auto simp: plan_candidate_def)
next
  case (Daily h m)
  let ?r = "min 23 h * 60 + min 59 m" and ?c0 = "e div 1440 * 1440 + (min 23 h * 60 + min 59 m)"
  have r: "0 \<le> ?r" "?r < 1440" using assms Daily by auto
  note n = next_in_period [OF daily_candidate(1) [OF r, where e = e] zero_less_numeral daily_candidate(2,3) [OF r, where e = e]]
  have "plan_candidate (Some plan) (60000000 * e) = Some (Inr (Some (60000000 * (if ?c0 < e then ?c0 + 1440 else ?c0))))"
    by (simp only: Daily plan_candidate_def Let_def scaled_times(2,3) scaled_later option.case plan.case mult_1_right)
  moreover have "plan_period plan = 1440" "plan_phase plan = ?r" by (simp_all add: Daily)
  ultimately show ?thesis using n by (intro exI conjI) (assumption | simp only:)+
next
  case (Weekly d h m)
  let ?r = "min 23 h * 60 + min 59 m" and ?a = "(d - (e div 1440 + 3) mod 7) mod 7"
  let ?c0 = "(e + 1440 * ?a) div 1440 * 1440 + ?r"
  have r: "0 \<le> ?r" "?r < 1440" "0 \<le> d" "d \<le> 6" using assms Weekly by auto
  note n = next_in_period [OF weekly_candidate(1) [OF r, where e = e] zero_less_numeral weekly_candidate(2,3) [OF r, where e = e]]
  have seven: "1440 * 7 = (10080 :: int)" by simp
  have "plan_candidate (Some plan) (60000000 * e) = Some (Inr (Some (60000000 * (if ?c0 < e then ?c0 + 10080 else ?c0))))"
    by (simp only: Weekly plan_candidate_def Let_def scaled_times(2,3) minute_fields(4) scaled_later seven option.case plan.case)
  moreover have "plan_period plan = 10080" "plan_phase plan = (d - 3) mod 7 * 1440 + ?r" by (simp_all add: Weekly)
  ultimately show ?thesis using n by (intro exI conjI) (assumption | simp only:)+
qed (use assms in simp_all)

lemma periodic_candidate:
  assumes "periodic plan" "aligned earliest"
  shows "\<exists>c. plan_candidate (Some plan) earliest = Some (Inr (Some c)) \<and> earliest \<le> c \<and> aligned c \<and> plan_matches plan c
    \<and> (\<forall>t. aligned t \<longrightarrow> earliest \<le> t \<longrightarrow> plan_matches plan t \<longrightarrow> c \<le> t)"
proof -
  obtain e where e: "earliest = 60000000 * e" using assms(2) by (rule alignedE)
  obtain c where c: "plan_candidate (Some plan) earliest = Some (Inr (Some (60000000 * c)))" "e \<le> c" "c < e + plan_period plan"
      "c mod plan_period plan = plan_phase plan" using plan_candidate_minutes [OF assms(1), of e] e by blast
  have P: "0 < plan_period plan" by (cases plan) simp_all
  have "c \<le> k" if "e \<le> k" "plan_matches plan (60000000 * k)" for k
    using first_in_class [OF P c(4,3) that(1)] that(2) plan_matches_phase [OF assms(1)] by blast
  then have "60000000 * c \<le> t" if "aligned t" "earliest \<le> t" "plan_matches plan t" for t
    using that e by (elim alignedE) simp
  then show ?thesis using c(1,2,4) e plan_matches_phase [OF assms(1)] by (intro exI [of _ "60000000 * c"]) (simp add: aligned_def)
qed

lemma digits_nonneg: "0 \<le> n \<Longrightarrow> 0 \<le> foldl (\<lambda>n c. n * 10 + int (digit_value c)) n ds"
  by (induction ds arbitrary: n) simp_all

lemma short_number_nonneg: "short_number s = Some (n, r) \<Longrightarrow> 0 \<le> n"
  using digits_nonneg by (auto simp: short_number_def Let_def split: if_splits)

lemma clock_end_nonneg: "clock_end s = Some (h, m) \<Longrightarrow> 0 \<le> h \<and> 0 \<le> m"
  using short_number_nonneg digits_nonneg by (auto simp: clock_end_def bind_eq_Some_conv split: if_splits)

lemma weekday_range: "find P weekday_names = Some (name, d) \<Longrightarrow> 0 \<le> d \<and> d \<le> 6"
proof -
  assume "find P weekday_names = Some (name, d)"
  then have "(name, d) \<in> set weekday_names" by (auto simp: find_Some_iff in_set_conv_nth)
  then show ?thesis by (auto simp: weekday_names_def)
qed

lemma schedule_plan_periodic:
  assumes "schedule_plan label = Some plan"
  shows "periodic plan \<or> (\<exists>d h m. plan = Monthly d h m) \<or> (\<exists>expression. plan = Custom expression)"
proof -
  have "periodic p" if "hourly_match label = Some p" for p
    using that short_number_nonneg by (auto simp: hourly_match_def bind_eq_Some_conv split: if_splits)
  moreover have "periodic p" if "daily_match label = Some p" for p
    using that clock_end_nonneg by (auto simp: daily_match_def bind_eq_Some_conv)
  moreover have "periodic p" if "weekly_match label = Some p" for p
    using that clock_end_nonneg weekday_range by (fastforce simp: weekly_match_def bind_eq_Some_conv split: option.splits)
  moreover have "\<exists>d h m. p = Monthly d h m" if "monthly_match label = Some p" for p
    using that by (auto simp: monthly_match_def bind_eq_Some_conv)
  moreover have "\<exists>e. p = Custom e" if "custom_match label = Some p" for p
    using that by (auto simp: custom_match_def bind_eq_Some_conv Let_def split: if_splits)
  ultimately show ?thesis using assms by (auto simp: schedule_plan_def split: option.splits)
qed

subsection \<open>Custom plans\<close>

lemma cron_search_first:
  assumes "cron_search n c parts = Some t"
  shows "\<exists>i < n. t = c + minutes (int i) \<and> cron_matches t parts \<and> (\<forall>j < i. \<not> cron_matches (c + minutes (int j)) parts)"
  using assms
proof (induction n c parts rule: cron_search.induct)
  case (2 n c parts)
  show ?case
  proof (cases "cron_matches c parts")
    case False
    then have "cron_search n (c + minutes 1) parts = Some t" using 2(2) by simp
    from 2(1) [OF False this] obtain i where i: "i < n" "t = c + minutes 1 + minutes (int i)" "cron_matches t parts"
      "\<forall>j < i. \<not> cron_matches (c + minutes 1 + minutes (int j)) parts" by blast
    then have "\<not> cron_matches (c + minutes (int j)) parts" if "j < Suc i" for j
      using that False by (cases j) (auto simp: minutes_def algebra_simps)
    then show ?thesis using i by (intro exI [of _ "Suc i"]) (auto simp: minutes_def algebra_simps)
  qed (use 2(2) in \<open>auto simp: minutes_def\<close>)
qed simp

text \<open>The run of a custom plan is the first matching minute after the start, and the start does not count.\<close>

lemma custom_run_is_first_match:
  assumes "next_custom_cron_local expression start = Some t" and "aligned start"
  shows "start < t \<and> cron_matches t (py_split expression)
    \<and> (\<forall>u. aligned u \<longrightarrow> start < u \<longrightarrow> u < t \<longrightarrow> \<not> cron_matches u (py_split expression))"
proof -
  have w: "whole_minute start = start" using assms(2) by (auto simp: aligned_def whole_minute_def elim: alignedE)
  have "cron_search (366 * 24 * 60 * 2) (start + minutes 1) (py_split expression) = Some t"
    using assms(1) w by (simp add: next_custom_cron_local_def Let_def split: if_splits)
  from cron_search_first [OF this] obtain i where i: "t = start + minutes 1 + minutes (int i)" "cron_matches t (py_split expression)"
    "\<forall>j < i. \<not> cron_matches (start + minutes 1 + minutes (int j)) (py_split expression)" by blast
  have "\<not> cron_matches u (py_split expression)" if u: "aligned u" "start < u" "u < t" for u
  proof -
    obtain a k where a: "start = 60000000 * a" "u = 60000000 * k" using assms(2) u(1) by (auto elim!: alignedE)
    then have "u = start + minutes 1 + minutes (int (nat (k - a - 1)))" "nat (k - a - 1) < i"
      using u(2,3) i(1) by (auto simp: minutes_def)
    then show ?thesis using i(3) by metis
  qed
  then show ?thesis using i(1,2) by (auto simp: minutes_def)
qed

lemma int_range_bounds: "v \<in> set (int_range a b k) \<Longrightarrow> 1 \<le> k \<Longrightarrow> a \<le> b \<Longrightarrow> a \<le> v \<and> v \<le> b"
proof -
  assume v: "v \<in> set (int_range a b k)" and k: "1 \<le> k" and b: "a \<le> b"
  obtain i where "v = a + int i * k" "i \<in> set [0..<nat ((b - a) div k) + 1]" using v unfolding int_range_def set_map by blast
  then have i: "v = a + int i * k" "int i \<le> (b - a) div k" using k b pos_imp_zdiv_nonneg_iff [of k "b - a"] by auto
  have "int i * k \<le> (b - a) div k * k" using i(2) k by (intro mult_right_mono) auto
  also have "... \<le> b - a" using k pos_mod_sign [of k "b - a"] by (simp add: minus_mod_eq_div_mult [symmetric])
  finally show ?thesis using i(1) k by simp
qed

lemma cron_part_bounds:
  assumes "cron_part p lo hi = Some vs"
  shows "vs \<noteq> []" "v \<in> set vs \<Longrightarrow> lo \<le> v \<and> v \<le> hi"
proof -
  obtain a b k where r: "vs = int_range a b k" "1 \<le> k" "lo \<le> a" "b \<le> hi" "a \<le> b"
    using assms by (auto simp: cron_part_def Let_def split: if_splits option.splits prod.splits)
  show "vs \<noteq> []" using r(1) by (simp add: int_range_def)
  show "v \<in> set vs \<Longrightarrow> lo \<le> v \<and> v \<le> hi" using r int_range_bounds [of v a b k] by auto
qed

lemma cron_parts_bounds:
  "cron_parts ps lo hi = Some vs \<Longrightarrow> (ps \<noteq> [] \<longrightarrow> vs \<noteq> []) \<and> (\<forall>v \<in> set vs. lo \<le> v \<and> v \<le> hi)"
proof (induction ps arbitrary: vs)
  case (Cons p ps)
  then show ?case using cron_part_bounds [of p lo hi] by (fastforce split: option.splits)
qed simp

lemma split_char_not_Nil: "split_char c s \<noteq> []"
  by (induction s) (auto split: list.splits)

lemma cron_field_bounds:
  assumes "parse_cron_field expression lo hi = Some (vs, w)"
  shows "vs \<noteq> {} \<and> vs \<subseteq> {lo..hi}"
  using assms cron_parts_bounds [of "split_char (CHR '','') expression" lo hi] split_char_not_Nil
  by (fastforce simp: parse_cron_field_def)

subsection \<open>Properties\<close>


definition utc_zone :: time_zone where
  "utc_zone = \<lparr>tz_local = (\<lambda>t. (t, False)), tz_instant = (\<lambda>w _. w)\<rparr>"

definition sample_label :: string where
  "sample_label = ko_daily @ '' 09:30''"

lemma sample_label_plan: "schedule_plan (schedule_text (Some sample_label)) = Some (Daily 9 30)"
    "has_scheduled_label (Some (schedule_text (Some sample_label)))"
    "date_boundaries None (Some ''1970-01-02'') = (None, Some 1)"
  by code_simp+


text \<open>A start date in the future breaks the schedule: the code calls \<open>datetime.combine\<close> with an argument it does not
  have, so the computation of the next run raises a \<open>TypeError\<close>, and so does the policy of a request to create or
  update such a job, whose handler computes the same again.\<close>

theorem future_start_date_raises:
  assumes "has_scheduled_label (sq_schedule_label q)" and "schedule_timezone zoneinfo (sq_timezone q) = Inr zone"
    and "date_boundaries (sq_start_date q) (sq_end_date q) = (Some d, stop)"
    and "day_number (earliest_run zone (pk_computed clock)) < d" and "day_number (earliest_run zone (pk_retried clock)) < d"
    and "schedule_text (sq_next_run_utc q) = []"
  shows "next_scheduled_run_utc_for_schedule zoneinfo (sq_schedule_label q) (sq_timezone q) (sq_start_date q) (sq_end_date q)
      (pk_computed clock) = Some (Inl combine_error)
    \<and> schedule_policy_from_request zoneinfo fromisoformat clock q = Some (Inl combine_error)"
proof -
  have label: "has_scheduled_label (Some (schedule_text (sq_schedule_label q)))"
    using assms(1) by (simp add: has_scheduled_label_def schedule_text_def py_strip_strip)
  have "next_scheduled_run_utc_for_schedule zoneinfo (sq_schedule_label q) (sq_timezone q) (sq_start_date q) (sq_end_date q) t
      = Some (Inl combine_error)" if "day_number (earliest_run zone t) < d" for t
    using assms(2,3) label that by (simp add: next_scheduled_run_utc_for_schedule_def Let_def)
  then show ?thesis using assms(1,4-6)
    by (simp add: schedule_policy_from_request_def policy_next_run_def Let_def combine_error_def)
qed

definition sample_schedule_request :: schedule_request where
  "sample_schedule_request = \<lparr>sq_schedule_label = Some sample_label, sq_timezone = None, sq_start_date = Some ''1970-02-01'',
     sq_end_date = None, sq_next_run_utc = None, sq_overlap_policy = None, sq_watermark_policy = JNull\<rparr>"

definition sample_policy_clock :: policy_clock where
  "sample_policy_clock = \<lparr>pk_compared = 0, pk_computed = 0, pk_retried = 1\<rparr>"

theorem future_start_date_raises_witness:
  "schedule_policy_from_request (\<lambda>_. Some utc_zone) (\<lambda>_. None) sample_policy_clock sample_schedule_request = Some (Inl combine_error)"
proof -
  have z: "schedule_timezone (\<lambda>_. Some utc_zone) (sq_timezone sample_schedule_request) = Inr utc_zone"
    by (simp add: schedule_timezone_def sample_schedule_request_def)
  have a: "has_scheduled_label (sq_schedule_label sample_schedule_request)"
      "date_boundaries (sq_start_date sample_schedule_request) (sq_end_date sample_schedule_request) = (Some 31, None)"
      "day_number (earliest_run utc_zone (pk_computed sample_policy_clock)) < 31"
      "day_number (earliest_run utc_zone (pk_retried sample_policy_clock)) < 31"
      "schedule_text (sq_next_run_utc sample_schedule_request) = []" by code_simp+
  show ?thesis using future_start_date_raises [OF a(1) z a(2-5), of "\<lambda>_. None"] by blast
qed

text \<open>A custom cron schedule misses a run that is due in the next minute. The search starts one minute after the start
  it is given, and that start is already the next minute, so although the expression matches it, it is never chosen;
  every hourly, daily or weekly label that matches it does choose it.\<close>

theorem custom_cron_skips_due_minute:
  assumes "cron_matches (earliest_run zone now) (py_split expression)" and "periodic plan" and "plan_matches plan (earliest_run zone now)"
  shows "plan_candidate (Some (Custom expression)) (earliest_run zone now) \<noteq> Some (Inr (Some (earliest_run zone now)))
    \<and> plan_candidate (Some plan) (earliest_run zone now) = Some (Inr (Some (earliest_run zone now)))"
proof -
  have "plan_candidate (Some (Custom expression)) (earliest_run zone now) \<noteq> Some (Inr (Some (earliest_run zone now)))"
    using custom_run_is_first_match [OF _ aligned_earliest] by (auto simp: plan_candidate_def)
  moreover obtain c where "plan_candidate (Some plan) (earliest_run zone now) = Some (Inr (Some c))" "earliest_run zone now \<le> c"
      "c \<le> earliest_run zone now"
    using periodic_candidate [OF assms(2) aligned_earliest] assms(3) aligned_earliest by blast
  ultimately show ?thesis by simp
qed

theorem custom_cron_skips_due_minute_witness:
  "plan_candidate (Some (Custom ''1 0 * * *'')) (earliest_run utc_zone 0) \<noteq> Some (Inr (Some 60000000))
   \<and> plan_candidate (Some (Daily 0 1)) (earliest_run utc_zone 0) = Some (Inr (Some 60000000))"
proof -
  have m: "cron_matches (earliest_run utc_zone 0) (py_split ''1 0 * * *'')" "periodic (Daily 0 1)"
      "plan_matches (Daily 0 1) (earliest_run utc_zone 0)" "earliest_run utc_zone 0 = 60000000" by code_simp+
  show ?thesis using custom_cron_skips_due_minute [OF m(1-3)] unfolding m(4) by blast
qed

text \<open>A cron field that parses allows at least one value and only values of its range, so that the plan built from it
  can match.\<close>

theorem cron_field_in_range:
  assumes "parse_cron_field expression minimum maximum = Some (vs, wildcard)"
  shows "vs \<noteq> {} \<and> vs \<subseteq> {minimum..maximum}"
  by (rule cron_field_bounds [OF assms])

theorem cron_field_in_range_witness: "set [0, 15, 30, 45, 59] \<subseteq> {0 .. 59 :: int}"
proof -
  have "parse_cron_field ''*/15,59'' 0 59 = Some (set [0, 15, 30, 45, 59], False)" by code_simp
  from cron_field_in_range [OF this] show ?thesis by blast
qed

end
