(* ===== verification/Storage_Scope.thy ===== *)
theory Storage_Scope
  imports Access_Control Clickhouse_Client
begin

section \<open>Physical data: what belongs to a dataset and how it is removed\<close>

text \<open>
  The physical half of \<open>application/catalog_dataset_deletion.py\<close>: which storage locations belong to a dataset
  (\<open>is_managed_storage_location\<close>, \<open>managed_storage_prefix\<close>) and the removals of the class \<open>CatalogPhysicalPurger\<close>, with
  \<open>drop_table\<close> of \<open>services/iceberg_writer_service.py\<close> and the part of \<open>urllib.parse.urlparse\<close> they use.

  Object storage, the local file system, Trino and ClickHouse are not part of the program. The model keeps the
  history of the calls made to them, and their answers are any function \<open>env\<close> of that history. A loop over
  object storage may run forever, so its model returns \<open>None\<close> when it does.
\<close>

subsection \<open>Code that may not return\<close>

type_synonym ('s, 'a) run = "'s \<Rightarrow> ('a res \<times> 's) option"

definition lift_run :: "('s, 'a) op \<Rightarrow> ('s, 'a) run" where
  "lift_run m = (\<lambda>s. Some (m s))"

definition bind_run :: "('s, 'a) run \<Rightarrow> ('a \<Rightarrow> ('s, 'b) run) \<Rightarrow> ('s, 'b) run" where
  "bind_run m f = (\<lambda>s. case m s of
     None \<Rightarrow> None | Some (Inl e, t) \<Rightarrow> Some (Inl e, t) | Some (Inr a, t) \<Rightarrow> f a t)"

fun for_run :: "'a list \<Rightarrow> ('a \<Rightarrow> ('s, unit) run) \<Rightarrow> ('s, unit) run" where
  "for_run [] f = lift_run (return_op ())"
| "for_run (x # xs) f = bind_run (f x) (\<lambda>_. for_run xs f)"

lemma bind_run_Some_iff:
  "bind_run m f s = Some (r, t) \<longleftrightarrow>
     (\<exists>e. m s = Some (Inl e, t) \<and> r = Inl e) \<or> (\<exists>a u. m s = Some (Inr a, u) \<and> f a u = Some (r, t))"
  by (auto simp: bind_run_def split: option.splits prod.splits sum.splits)

lemma bind_run_returns:
  assumes "m s \<noteq> None" and "\<And>a t. m s = Some (Inr a, t) \<Longrightarrow> f a t \<noteq> None"
  shows "bind_run m f s \<noteq> None"
  using assms by (auto simp: bind_run_def split: option.splits prod.splits sum.splits)

subsection \<open>Settings, calls and answers\<close>

text \<open>
  \<open>ls_netloc_ok\<close> stands for the checks \<open>urllib\<close> makes on a network location with brackets or with characters
  outside ASCII.
\<close>

record lake_settings =
  ls_output_bucket :: string
  ls_clickhouse_database :: string
  ls_trino_catalog :: string
  ls_trino_schema :: string
  ls_trino_max_result_pages :: int
  ls_storage_root :: string
  ls_netloc_ok :: "string \<Rightarrow> bool"

datatype lake_call =
    S3List string string "string option"
  | S3Delete string "string list"
  | RemoveTree "string list"
  | RemoveFile "string list"
  | TrinoSubmit string
  | TrinoFetch string
  | ClickHousePost http_request

record s3_page =
  sp_keys :: "string list"
  sp_truncated :: bool
  sp_next_token :: "string option"

record trino_page =
  tp_next_uri :: "string option"
  tp_error :: "(string option \<times> string option) option"

text \<open>A path of the file system is the list of its segments below the root directory.\<close>

record lake_world =
  lw_resolve :: "string \<Rightarrow> string list res"
  lw_exists :: "string list \<Rightarrow> bool"
  lw_is_dir :: "string list \<Rightarrow> bool"
  lw_remove :: "lake_call \<Rightarrow> unit res"
  lw_list :: "string \<Rightarrow> string \<Rightarrow> string option \<Rightarrow> s3_page res"
  lw_submit :: "string \<Rightarrow> trino_page res"
  lw_fetch :: "string \<Rightarrow> trino_page res"
  lw_clickhouse :: "http_request \<Rightarrow> http_response"

type_synonym environment = "lake_call list \<Rightarrow> lake_world"

definition ask :: "environment \<Rightarrow> lake_call \<Rightarrow> (lake_world \<Rightarrow> 'a res) \<Rightarrow> (lake_call list, 'a) op" where
  "ask env c answer = (\<lambda>calls. (answer (env calls), calls @ [c]))"

subsection \<open>\<open>urlparse\<close>\<close>

fun replace_first :: "string \<Rightarrow> string \<Rightarrow> string \<Rightarrow> string" where
  "replace_first old new [] = (if old = [] then new else [])"
| "replace_first old new (c # cs) =
     (if starts_with old (c # cs) then new @ drop (length old) (c # cs) else c # replace_first old new cs)"

definition scheme_char :: "char \<Rightarrow> bool" where
  "scheme_char c \<longleftrightarrow> is_alnum c \<or> c \<in> {CHR ''+'', CHR ''-'', CHR ''.''}"

definition cut_at :: "char set \<Rightarrow> string \<Rightarrow> string \<times> string" where
  "cut_at stops s = (takeWhile (\<lambda>c. c \<notin> stops) s, dropWhile (\<lambda>c. c \<notin> stops) s)"

definition uses_params :: "string list" where
  "uses_params = ['''', ''ftp'', ''hdl'', ''prospero'', ''http'', ''https'', ''shttp'', ''rtsp'', ''rtsps'', ''rtspu'',
     ''sip'', ''sips'', ''mms'', ''sftp'', ''tel'']"

record parsed_url =
  pu_scheme :: string
  pu_netloc :: string
  pu_path :: string

definition clean_url :: "string \<Rightarrow> string" where
  "clean_url s = filter (\<lambda>c. c \<notin> {CHR 0x09, CHR 0x0A, CHR 0x0D}) (dropWhile (\<lambda>c. char_code c \<le> 32) s)"

definition split_scheme :: "string \<Rightarrow> string \<times> string" where
  "split_scheme url =
     (case cut_at {CHR '':''} url of
        (pre, colon # rest) \<Rightarrow>
          if pre \<noteq> [] \<and> (is_lower (hd pre) \<or> is_upper (hd pre)) \<and> list_all scheme_char pre
          then (py_lower pre, rest) else ('''', url)
      | (pre, []) \<Rightarrow> ('''', url))"

definition split_netloc :: "string \<Rightarrow> string \<times> string" where
  "split_netloc url =
     (if take 2 url = ''//'' then cut_at {CHR ''/'', CHR ''?'', CHR ''#''} (drop 2 url) else ('''', url))"

definition before_params :: "string \<Rightarrow> string" where
  "before_params path =
     (let segs = split_char (CHR ''/'') path
      in py_join ''/'' (butlast segs @ [fst (cut_at {CHR '';''} (last segs))]))"

definition netloc_plain :: "string \<Rightarrow> bool" where
  "netloc_plain n \<longleftrightarrow> CHR ''['' \<notin> set n \<and> CHR '']'' \<notin> set n \<and> list_all (\<lambda>c. char_code c < 128) n"

definition urlparse :: "lake_settings \<Rightarrow> string \<Rightarrow> parsed_url res" where
  "urlparse cfg s =
     (let (scheme, rest) = split_scheme (clean_url s);
          (netloc, tail) = split_netloc rest;
          path = fst (cut_at {CHR ''?'', CHR ''#''} tail)
      in if netloc_plain netloc \<or> ls_netloc_ok cfg netloc
         then Inr \<lparr>pu_scheme = scheme, pu_netloc = netloc,
                   pu_path = (if scheme \<in> set uses_params then before_params path else path)\<rparr>
         else Inl (ValueError ''Invalid URL''))"

subsection \<open>Locations of a dataset\<close>

definition is_dataset_scope_segment :: "string \<Rightarrow> query_dataset \<Rightarrow> bool" where
  "is_dataset_scope_segment v d \<longleftrightarrow>
     (let tokens = {casefold (qd_id d), casefold (qd_name d)}
      in casefold v \<in> tokens \<or> casefold v \<in> (\<lambda>t. ''dataset_id='' @ t) ` tokens)"

definition segments :: "string \<Rightarrow> string list" where
  "segments path = filter (\<lambda>s. s \<noteq> []) (split_char (CHR ''/'') path)"

text \<open>\<open>len(value) >= 2 and value[1] == ":"\<close>, by code points.\<close>

definition is_windows_path :: "string \<Rightarrow> bool" where
  "is_windows_path s \<longleftrightarrow> (case s of [] \<Rightarrow> False
     | c # cs \<Rightarrow> (case dropWhile utf8_cont cs of [] \<Rightarrow> False | b # _ \<Rightarrow> b = CHR '':''))"

definition path_below :: "string list \<Rightarrow> string list \<Rightarrow> bool" where
  "path_below root path \<longleftrightarrow> take (length root) path = root"

definition s3_uri :: "string \<Rightarrow> string" where
  "s3_uri location = replace_first ''s3a://'' ''s3://'' location"

definition is_managed_storage_location ::
  "lake_settings \<Rightarrow> lake_world \<Rightarrow> string \<Rightarrow> query_dataset \<Rightarrow> bool res" where
  "is_managed_storage_location cfg w location d =
     bind_res (urlparse cfg (s3_uri location)) (\<lambda>parsed.
     let token_match = list_ex (\<lambda>s. is_dataset_scope_segment s d) (segments (pu_path parsed))
     in if pu_scheme parsed = ''s3'' then Inr (token_match \<and> pu_netloc parsed = ls_output_bucket cfg)
        else if pu_scheme parsed \<noteq> [] \<and> \<not> is_windows_path (s3_uri location) then Inr False
        else (case (lw_resolve w (ls_storage_root cfg), lw_resolve w location) of
                (Inr root, Inr path) \<Rightarrow>
                  Inr (path_below root path \<and> list_ex (\<lambda>s. is_dataset_scope_segment s d) (''/'' # path))
              | _ \<Rightarrow> Inr False))"

definition unmanaged_storage :: py_error where
  "unmanaged_storage = RuntimeError ''CATALOG_DATASET_UNMANAGED_STORAGE''"

fun scope_prefix :: "string list \<Rightarrow> query_dataset \<Rightarrow> string list option" where
  "scope_prefix [] d = None"
| "scope_prefix (s # rest) d =
     (if is_dataset_scope_segment s d then Some [s] else map_option (Cons s) (scope_prefix rest d))"

definition managed_storage_prefix :: "string \<Rightarrow> query_dataset \<Rightarrow> string res" where
  "managed_storage_prefix key d =
     (case scope_prefix (segments key) d of None \<Rightarrow> Inl unmanaged_storage | Some segs \<Rightarrow> Inr (py_join ''/'' segs @ ''/''))"

subsection \<open>Object storage\<close>

definition page_objects :: "s3_page \<Rightarrow> string list" where
  "page_objects p = filter (\<lambda>k. k \<noteq> []) (sp_keys p)"

definition delete_page :: "environment \<Rightarrow> string \<Rightarrow> s3_page \<Rightarrow> (lake_call list, unit) op" where
  "delete_page env bucket p =
     (if page_objects p = [] then return_op ()
      else ask env (S3Delete bucket (page_objects p)) (\<lambda>w. lw_remove w (S3Delete bucket (page_objects p))))"

definition next_token :: "s3_page \<Rightarrow> string option" where
  "next_token p = (case sp_next_token p of Some t \<Rightarrow> if t = [] then None else Some t | None \<Rightarrow> None)"

partial_function (option) s3_pages ::
  "environment \<Rightarrow> string \<Rightarrow> string \<Rightarrow> string option \<Rightarrow> lake_call list \<Rightarrow> (unit res \<times> lake_call list) option" where
  "s3_pages env bucket key token calls =
     (case ask env (S3List bucket key token) (\<lambda>w. lw_list w bucket key token) calls of
        (Inl e, calls1) \<Rightarrow> Some (Inl e, calls1)
      | (Inr page, calls1) \<Rightarrow>
          (case delete_page env bucket page calls1 of
             (Inl e, calls2) \<Rightarrow> Some (Inl e, calls2)
           | (Inr u, calls2) \<Rightarrow>
               if \<not> sp_truncated page then Some (Inr (), calls2)
               else s3_pages env bucket key (next_token page) calls2))"

declare s3_pages.simps [code]

definition delete_s3_prefix :: "environment \<Rightarrow> string \<Rightarrow> string \<Rightarrow> (lake_call list, unit) run" where
  "delete_s3_prefix env bucket key = s3_pages env bucket key None"

subsection \<open>Storage\<close>

text \<open>\<open>(path, *path.parents)\<close>\<close>

definition path_candidates :: "string list \<Rightarrow> string list list" where
  "path_candidates path = map (\<lambda>n. take n path) (rev [0..<Suc (length path)])"

definition path_name :: "string list \<Rightarrow> string" where
  "path_name p = (if p = [] then '''' else last p)"

definition local_target :: "string list \<Rightarrow> string list \<Rightarrow> query_dataset \<Rightarrow> string list option" where
  "local_target root path d =
     find (\<lambda>p. p \<noteq> root \<and> is_dataset_scope_segment (path_name p) d) (path_candidates path)"

definition remove_local :: "environment \<Rightarrow> string list \<Rightarrow> (lake_call list, unit) op" where
  "remove_local env p =
     bind_op (read_op env) (\<lambda>w.
     if \<not> lw_exists w p then return_op ()
     else let c = (if lw_is_dir w p then RemoveTree p else RemoveFile p) in ask env c (\<lambda>w. lw_remove w c))"

definition purge_local :: "lake_settings \<Rightarrow> environment \<Rightarrow> string \<Rightarrow> query_dataset \<Rightarrow> (lake_call list, unit) op" where
  "purge_local cfg env location d =
     bind_op (read_op env) (\<lambda>w.
     bind_op (lift_res (lw_resolve w (ls_storage_root cfg))) (\<lambda>root.
     bind_op (lift_res (lw_resolve w location)) (\<lambda>path.
       case local_target root path d of
         None \<Rightarrow> raise_op unmanaged_storage
       | Some p \<Rightarrow> if path_below root p then remove_local env p else raise_op unmanaged_storage)))"

definition purge_storage :: "lake_settings \<Rightarrow> environment \<Rightarrow> string \<Rightarrow> query_dataset \<Rightarrow> (lake_call list, unit) run" where
  "purge_storage cfg env location d =
     bind_run (lift_run (bind_op (read_op env) (\<lambda>w. lift_res (is_managed_storage_location cfg w location d)))) (\<lambda>managed.
     if \<not> managed then lift_run (raise_op unmanaged_storage)
     else bind_run (lift_run (lift_res (urlparse cfg (s3_uri location)))) (\<lambda>parsed.
       if pu_scheme parsed = ''s3''
       then bind_run (lift_run (lift_res (managed_storage_prefix (dropWhile (\<lambda>c. c = CHR ''/'') (pu_path parsed)) d)))
              (\<lambda>prefix. delete_s3_prefix env (pu_netloc parsed) prefix)
       else lift_run (purge_local cfg env location d)))"

subsection \<open>Iceberg tables\<close>

definition strip_quotes :: "string \<Rightarrow> string" where
  "strip_quotes s =
     (let q = (\<lambda>c. c \<in> {CHR ''`'', dq, CHR '' ''}) in rev (dropWhile q (rev (dropWhile q s))))"

definition table_parts :: "string \<Rightarrow> string list" where
  "table_parts location = filter (\<lambda>s. s \<noteq> []) (map strip_quotes (split_char (CHR ''.'') location))"

definition iceberg_identifier :: "string \<Rightarrow> string res" where
  "iceberg_identifier v =
     (let n = py_strip v
      in if n = [] \<or> py_len n > 255 \<or> list_ex (\<lambda>c. c \<in> {dq, sq, CHR '';'', CHR 0x00}) n
         then Inl (ValueError ''Iceberg target identifiers must be non-empty quoted-SQL-safe values'')
         else Inr n)"

definition quote_identifier :: "string \<Rightarrow> string" where
  "quote_identifier v = [dq] @ replace_char dq [dq, dq] v @ [dq]"

definition qualified_identifier :: "string list \<Rightarrow> string" where
  "qualified_identifier parts = py_join ''.'' (map quote_identifier parts)"

fun trino_pages :: "environment \<Rightarrow> nat \<Rightarrow> trino_page \<Rightarrow> (lake_call list, trino_page) op" where
  "trino_pages env n page =
     (case (tp_next_uri page, tp_error page) of
        (Some (u # us), None) \<Rightarrow>
          (case n of
             0 \<Rightarrow> raise_op (ServiceError (Some ''ICEBERG_TRINO_PAGE_LIMIT'') ''ICEBERG_TRINO_PAGE_LIMIT'')
           | Suc m \<Rightarrow> bind_op (ask env (TrinoFetch (u # us)) (\<lambda>w. lw_fetch w (u # us))) (trino_pages env m))
      | _ \<Rightarrow> return_op page)"

definition require_successful_page :: "trino_page \<Rightarrow> unit res" where
  "require_successful_page page =
     (case tp_error page of
        None \<Rightarrow> Inr ()
      | Some (code, msg) \<Rightarrow>
          Inl (ServiceError (Some (first_text [code] ''ICEBERG_TRINO_QUERY_FAILED'')) (first_text [msg] ''Iceberg writer query failed'')))"

definition trino_execute :: "lake_settings \<Rightarrow> environment \<Rightarrow> string \<Rightarrow> (lake_call list, unit) op" where
  "trino_execute cfg env query =
     bind_op (ask env (TrinoSubmit query) (\<lambda>w. lw_submit w query)) (\<lambda>first.
     bind_op (trino_pages env (nat (ls_trino_max_result_pages cfg)) first) (\<lambda>page.
     lift_res (require_successful_page page)))"

definition drop_statement :: "string list \<Rightarrow> string" where
  "drop_statement target = ''DROP TABLE IF EXISTS '' @ qualified_identifier target"

text \<open>
  \<open>str(exc)\<close>. An \<open>ApiError\<close> is built from positional arguments and its text is that of the tuple. The two
  exceptions without a message in the model are not raised by this component; they get their names.
\<close>

fun exc_text :: "py_error \<Rightarrow> string" where
  "exc_text (ValueError m) = m"
| "exc_text (RuntimeError m) = m"
| "exc_text (TypeError m) = m"
| "exc_text (IntegrityError m) = m"
| "exc_text (IndexError m) = m"
| "exc_text (KeyError m) = py_repr_str m"
| "exc_text (LookupError m) = m"
| "exc_text (AttributeError m) = m"
| "exc_text UnicodeDecodeError = ''UnicodeDecodeError''"
| "exc_text DecimalOverflow = ''DecimalOverflow''"
| "exc_text (KafkaConnectError m) = m"
| "exc_text (ClickHouseError c m) = m"
| "exc_text (ServiceError c m) = m"
| "exc_text (ApiError c m n d) =
     ''('' @ py_join '', '' ([py_repr_str c, py_repr_str m, show_nat n]
        @ (if d = [] then [] else [py_repr (JObj (details_dict d))])) @ '')''"

definition drop_refused :: "py_error \<Rightarrow> bool" where
  "drop_refused e \<longleftrightarrow> list_ex (\<lambda>t. py_in t (casefold (exc_text e))) [''access denied'', ''cannot drop'', ''permission'']"

definition drop_iceberg_table ::
  "lake_settings \<Rightarrow> environment \<Rightarrow> string \<Rightarrow> string \<Rightarrow> string \<Rightarrow> (lake_call list, unit) op" where
  "drop_iceberg_table cfg env catalog namespace table =
     (if catalog \<noteq> ls_trino_catalog cfg then raise_op (RuntimeError ''CATALOG_DATASET_UNMANAGED_ICEBERG_TABLE'')
      else bind_op (lift_res (map_res iceberg_identifier [catalog, namespace, table])) (\<lambda>target.
        catch_op (trino_execute cfg env (drop_statement target))
          (\<lambda>e. if drop_refused e then return_op () else raise_op e)))"

definition rag_table_target :: "lake_settings \<Rightarrow> string \<Rightarrow> string \<times> string \<times> string" where
  "rag_table_target cfg location =
     (case table_parts location of
        [c, n, t] \<Rightarrow> (c, n, t)
      | [n, t] \<Rightarrow> (ls_trino_catalog cfg, n, t)
      | [] \<Rightarrow> (ls_trino_catalog cfg, ls_trino_schema cfg, '''')
      | p # _ \<Rightarrow> (ls_trino_catalog cfg, ls_trino_schema cfg, p))"

definition drop_rag_table :: "lake_settings \<Rightarrow> environment \<Rightarrow> string \<Rightarrow> (lake_call list, unit) op" where
  "drop_rag_table cfg env location =
     (case rag_table_target cfg location of (c, n, t) \<Rightarrow> drop_iceberg_table cfg env c n t)"

definition is_managed_rag_table :: "lake_settings \<Rightarrow> string \<Rightarrow> bool" where
  "is_managed_rag_table cfg location \<longleftrightarrow>
     length (table_parts location) \<noteq> 3 \<or> hd (table_parts location) = ls_trino_catalog cfg"

subsection \<open>ClickHouse tables\<close>

definition clickhouse_server :: "environment \<Rightarrow> lake_call list http_server" where
  "clickhouse_server env = \<lparr>hs_post = (\<lambda>rq calls. (lw_clickhouse (env calls) rq, calls @ [ClickHousePost rq]))\<rparr>"

definition drop_clickhouse_table :: "lake_settings \<Rightarrow> environment \<Rightarrow> string \<Rightarrow> string \<Rightarrow> (lake_call list, unit) op" where
  "drop_clickhouse_table cfg env database table =
     (if database \<noteq> ls_clickhouse_database cfg then raise_op (RuntimeError ''CATALOG_DATASET_UNMANAGED_CLICKHOUSE_TABLE'')
      else bind_op (lift_res (qualified_clickhouse_table database table)) (\<lambda>name.
        bind_op (ch_execute (clickhouse_server env) (ls_clickhouse_database cfg) (''DROP TABLE IF EXISTS '' @ name)
                  (Some database) None) (\<lambda>_. return_op ())))"

definition drop_clickhouse_artifact :: "lake_settings \<Rightarrow> environment \<Rightarrow> string \<Rightarrow> (lake_call list, unit) op" where
  "drop_clickhouse_artifact cfg env location =
     (case cut_at {CHR ''.''} location of
        (database, dot # table) \<Rightarrow>
          if database = [] \<or> table = [] then raise_op (RuntimeError ''CATALOG_DATASET_INVALID_CLICKHOUSE_TABLE'')
          else drop_clickhouse_table cfg env database table
      | _ \<Rightarrow> raise_op (RuntimeError ''CATALOG_DATASET_INVALID_CLICKHOUSE_TABLE''))"

subsection \<open>The purge\<close>

record deletion_artifact =
  af_kind :: string
  af_location :: string

definition purge_artifact ::
  "lake_settings \<Rightarrow> environment \<Rightarrow> query_dataset \<Rightarrow> deletion_artifact \<Rightarrow> (lake_call list, unit) run" where
  "purge_artifact cfg env d a =
     (if af_kind a = ''storage'' then purge_storage cfg env (af_location a) d
      else if af_kind a = ''iceberg_table'' then lift_run (drop_rag_table cfg env (af_location a))
      else if af_kind a = ''clickhouse_table'' then lift_run (drop_clickhouse_artifact cfg env (af_location a))
      else if af_kind a = ''opensearch_index'' then lift_run (return_op ())
      else if af_kind a \<in> {''rag_parent_table'', ''rag_chunk_table''} then
        (if is_managed_rag_table cfg (af_location a) then lift_run (drop_rag_table cfg env (af_location a))
         else lift_run (return_op ()))
      else if af_kind a = ''rag_checkpoint'' then purge_storage cfg env (af_location a) d
      else lift_run (return_op ()))"

definition purge_artifacts ::
  "lake_settings \<Rightarrow> environment \<Rightarrow> query_dataset \<Rightarrow> deletion_artifact list \<Rightarrow> (lake_call list, unit) run" where
  "purge_artifacts cfg env d artifacts = for_run artifacts (purge_artifact cfg env d)"

subsection \<open>The purge stays in the scope of the dataset\<close>

definition scoped_prefix :: "query_dataset \<Rightarrow> string \<Rightarrow> bool" where
  "scoped_prefix d p \<longleftrightarrow> (\<exists>segs s. p = py_join ''/'' (segs @ [s]) @ ''/'' \<and> is_dataset_scope_segment s d)"

text \<open>
  What a call may do, given what the services answered at that moment: list and delete keys of the output
  bucket under a prefix that ends in a segment naming the dataset, remove a path strictly below the storage root
  whose last segment names the dataset, drop tables of the configured Iceberg catalog and of the configured
  ClickHouse database.
\<close>

fun call_in_scope :: "lake_settings \<Rightarrow> lake_world \<Rightarrow> query_dataset \<Rightarrow> lake_call \<Rightarrow> bool" where
  "call_in_scope cfg w d (S3List b p t) \<longleftrightarrow> b = ls_output_bucket cfg \<and> scoped_prefix d p"
| "call_in_scope cfg w d (S3Delete b ks) \<longleftrightarrow>
     b = ls_output_bucket cfg \<and> (\<exists>p. scoped_prefix d p \<and> (\<forall>k \<in> set ks. starts_with p k))"
| "call_in_scope cfg w d (RemoveTree p) \<longleftrightarrow>
     (\<exists>root. lw_resolve w (ls_storage_root cfg) = Inr root \<and> path_below root p \<and> p \<noteq> root
        \<and> is_dataset_scope_segment (path_name p) d)"
| "call_in_scope cfg w d (RemoveFile p) \<longleftrightarrow>
     (\<exists>root. lw_resolve w (ls_storage_root cfg) = Inr root \<and> path_below root p \<and> p \<noteq> root
        \<and> is_dataset_scope_segment (path_name p) d)"
| "call_in_scope cfg w d (TrinoSubmit q) \<longleftrightarrow> (\<exists>n t. q = drop_statement [py_strip (ls_trino_catalog cfg), n, t])"
| "call_in_scope cfg w d (TrinoFetch u) \<longleftrightarrow> True"
| "call_in_scope cfg w d (ClickHousePost rq) \<longleftrightarrow>
     validate_clickhouse_identifier (ls_clickhouse_database cfg) = Inr (rq_database rq)
     \<and> (\<exists>t. is_identifier t \<and> rq_body rq = ''DROP TABLE IF EXISTS `'' @ rq_database rq @ ''`.`'' @ t @ ''`'')"

inductive scoped :: "lake_settings \<Rightarrow> environment \<Rightarrow> query_dataset \<Rightarrow> lake_call list \<Rightarrow> lake_call list \<Rightarrow> bool"
  for cfg env d calls where
  scoped_refl: "scoped cfg env d calls calls"
| scoped_step: "scoped cfg env d calls cs \<Longrightarrow> call_in_scope cfg (env cs) d c \<Longrightarrow> scoped cfg env d calls (cs @ [c])"

lemma scoped_trans: "scoped cfg env d b c \<Longrightarrow> scoped cfg env d a b \<Longrightarrow> scoped cfg env d a c"
  by (induction rule: scoped.induct) (auto intro: scoped_step)

lemma scoped_one: "call_in_scope cfg (env cs) d c \<Longrightarrow> scoped cfg env d cs (cs @ [c])"
  by (intro scoped_step scoped_refl)

definition stays :: "lake_settings \<Rightarrow> environment \<Rightarrow> query_dataset \<Rightarrow> (lake_call list, 'a) run \<Rightarrow> bool" where
  "stays cfg env d m \<longleftrightarrow> (\<forall>s r t. m s = Some (r, t) \<longrightarrow> scoped cfg env d s t)"

lemma stays_bind_run [intro]:
  assumes "stays cfg env d m" and "\<And>a. stays cfg env d (f a)"
  shows "stays cfg env d (bind_run m f)"
  using assms unfolding stays_def bind_run_Some_iff by (blast intro: scoped_trans)

lemma stays_bind_op [intro]:
  assumes "stays cfg env d (lift_run m)" and "\<And>a. stays cfg env d (lift_run (f a))"
  shows "stays cfg env d (lift_run (bind_op m f))"
proof -
  have "lift_run (bind_op m f) = bind_run (lift_run m) (\<lambda>a. lift_run (f a))"
    by (auto simp: fun_eq_iff lift_run_def bind_op_def bind_run_def split: prod.splits sum.splits)
  then show ?thesis using stays_bind_run [OF assms] by simp
qed

lemma stays_pure [simp]:
  "stays cfg env d (lift_run (return_op a))" "stays cfg env d (lift_run (raise_op e))"
  "stays cfg env d (lift_run (lift_res r))" "stays cfg env d (lift_run (read_op f))"
  by (auto simp: stays_def lift_run_def return_op_def raise_op_def lift_res_def read_op_def intro: scoped_refl)

lemma stays_catch_op:
  assumes "stays cfg env d (lift_run m)" and "\<And>e. stays cfg env d (lift_run (h e))"
  shows "stays cfg env d (lift_run (catch_op m h))"
  unfolding stays_def
proof (intro allI impI)
  fix s r t assume *: "lift_run (catch_op m h) s = Some (r, t)"
  obtain x u where m: "m s = (x, u)" by fastforce
  have first: "scoped cfg env d s u" using assms(1) m by (simp add: stays_def lift_run_def)
  show "scoped cfg env d s t"
  proof (cases x)
    case (Inl e)
    then have "lift_run (h e) u = Some (r, t)" using * m by (simp add: lift_run_def catch_op_def)
    then show ?thesis using assms(2) [of e] first unfolding stays_def by (blast intro: scoped_trans)
  next
    case (Inr a)
    then show ?thesis using * m first by (simp add: lift_run_def catch_op_def)
  qed
qed

lemma stays_ask: "(\<And>calls. call_in_scope cfg (env calls) d c) \<Longrightarrow> stays cfg env d (lift_run (ask env c f))"
  by (auto simp: stays_def lift_run_def ask_def intro: scoped_one)

lemma stays_for_run [intro]:
  "(\<And>x. x \<in> set xs \<Longrightarrow> stays cfg env d (f x)) \<Longrightarrow> stays cfg env d (for_run xs f)"
  by (induction xs) (auto intro!: stays_bind_run)

text \<open>The documented contract of a listing: every key it returns starts with the prefix that was asked for.\<close>

definition lists_prefix :: "environment \<Rightarrow> bool" where
  "lists_prefix env \<longleftrightarrow> (\<forall>calls b p t page. lw_list (env calls) b p t = Inr page \<longrightarrow> (\<forall>k \<in> set (sp_keys page). starts_with p k))"

lemma scope_prefix_names:
  "scope_prefix xs d = Some ys \<Longrightarrow> \<exists>zs s. ys = zs @ [s] \<and> is_dataset_scope_segment s d"
proof (induction xs arbitrary: ys)
  case (Cons x xs)
  show ?case
  proof (cases "is_dataset_scope_segment x d")
    case True
    then show ?thesis using Cons.prems by (intro exI [of _ "[]"] exI [of _ x]) simp
  next
    case False
    then obtain ys' where "scope_prefix xs d = Some ys'" "ys = x # ys'" using Cons.prems by auto
    then show ?thesis using Cons.IH by (metis append_Cons)
  qed
qed simp

lemma managed_storage_prefix_scoped: "managed_storage_prefix key d = Inr p \<Longrightarrow> scoped_prefix d p"
  by (auto simp: managed_storage_prefix_def scoped_prefix_def split: option.splits dest!: scope_prefix_names)

lemma stays_delete_page:
  assumes "scoped_prefix d p" and "\<forall>k \<in> set (sp_keys page). starts_with p k"
  shows "stays cfg env d (lift_run (delete_page env (ls_output_bucket cfg) page))"
  using assms by (auto simp: delete_page_def page_objects_def intro!: stays_ask exI [of _ p])

lemma scoped_page:
  assumes "lists_prefix env" and "scoped_prefix d p" and "b = ls_output_bucket cfg"
    and "lw_list (env calls) b p t = Inr page" and "delete_page env b page (calls @ [S3List b p t]) = (r, calls')"
  shows "scoped cfg env d calls calls'"
proof -
  have "stays cfg env d (lift_run (delete_page env b page))"
    unfolding assms(3) by (rule stays_delete_page [OF assms(2)]) (use assms(1,4) in \<open>auto simp: lists_prefix_def\<close>)
  then have "scoped cfg env d (calls @ [S3List b p t]) calls'"
    using assms(5) by (simp add: stays_def lift_run_def)
  moreover have "scoped cfg env d calls (calls @ [S3List b p t])"
    using assms(2,3) by (auto intro: scoped_one)
  ultimately show ?thesis by (rule scoped_trans)
qed

lemma s3_pages_scoped:
  assumes "s3_pages env b p tok calls = Some (r, calls')"
    and "lists_prefix env" and "scoped_prefix d p" and "b = ls_output_bucket cfg"
  shows "scoped cfg env d calls calls'"
proof -
  have "lists_prefix env \<and> scoped_prefix d p \<and> b = ls_output_bucket cfg \<longrightarrow> scoped cfg env d calls (snd (r, calls'))"
  proof (induction rule: s3_pages.raw_induct [OF _ assms(1)])
    case (1 rec env b p tok calls y)
    show ?case
    proof
      assume *: "lists_prefix env \<and> scoped_prefix d p \<and> b = ls_output_bucket cfg"
      let ?one = "calls @ [S3List b p tok]"
      have listed: "scoped cfg env d calls ?one" using * by (auto intro: scoped_one)
      show "scoped cfg env d calls (snd y)"
      proof (cases "lw_list (env calls) b p tok")
        case (Inl e)
        then show ?thesis using 1(2) listed by (auto simp: ask_def)
      next
        case (Inr page)
        obtain x c2 where del: "delete_page env b page ?one = (x, c2)" by fastforce
        note two = scoped_page [OF _ _ _ Inr del, of d cfg]
        show ?thesis
        proof (cases "(case x of Inl _ \<Rightarrow> True | Inr _ \<Rightarrow> \<not> sp_truncated page)")
          case True
          then have "snd y = c2" using 1(2) Inr del by (auto simp: ask_def split: sum.splits)
          then show ?thesis using two * by simp
        next
          case False
          then have "rec env b p (next_token page) c2 = Some y" using 1(2) Inr del by (auto simp: ask_def split: sum.splits)
          then have "scoped cfg env d c2 (snd y)" using 1(1) * by blast
          then show ?thesis using two * by (blast intro: scoped_trans)
        qed
      qed
    qed
  qed
  then show ?thesis using assms by simp
qed

lemma local_target_Some:
  "local_target root path d = Some p \<Longrightarrow> p \<noteq> root \<and> is_dataset_scope_segment (path_name p) d"
  by (auto simp: local_target_def find_Some_iff)

lemma stays_purge_local: "stays cfg env d (lift_run (purge_local cfg env location d))"
  unfolding stays_def
  by (auto simp: purge_local_def remove_local_def lift_run_def op_defs ask_def unmanaged_storage_def Let_def
      intro!: scoped_one scoped_refl dest!: local_target_Some split: sum.splits option.splits if_splits)

lemma managed_bucket:
  assumes "is_managed_storage_location cfg w location d = Inr True" and "urlparse cfg (s3_uri location) = Inr parsed"
    and "pu_scheme parsed = ''s3''"
  shows "pu_netloc parsed = ls_output_bucket cfg"
  using assms by (simp add: is_managed_storage_location_def bind_res_def)

lemma stays_purge_storage:
  assumes "lists_prefix env"
  shows "stays cfg env d (purge_storage cfg env location d)"
  unfolding stays_def
proof (intro allI impI)
  fix s r t assume *: "purge_storage cfg env location d s = Some (r, t)"
  let ?managed = "is_managed_storage_location cfg (env s) location d" and ?url = "urlparse cfg (s3_uri location)"
  show "scoped cfg env d s t"
  proof (cases "?managed = Inr True")
    case False
    then show ?thesis using * by (auto simp: purge_storage_def bind_run_def lift_run_def op_defs intro: scoped_refl split: sum.splits if_splits)
  next
    case managed: True
    then obtain parsed where url: "?url = Inr parsed"
      by (cases ?url) (auto simp: is_managed_storage_location_def bind_res_def)
    show ?thesis
    proof (cases "pu_scheme parsed = ''s3''")
      case False
      then have "lift_run (purge_local cfg env location d) s = Some (r, t)"
        using * managed url by (simp add: purge_storage_def bind_run_def lift_run_def op_defs)
      then show ?thesis using stays_purge_local unfolding stays_def by blast
    next
      case s3: True
      let ?prefix = "managed_storage_prefix (dropWhile (\<lambda>c. c = CHR ''/'') (pu_path parsed)) d"
      show ?thesis
      proof (cases ?prefix)
        case (Inl e)
        then show ?thesis using * managed url s3
          by (auto simp: purge_storage_def bind_run_def lift_run_def op_defs intro: scoped_refl)
      next
        case (Inr p)
        then have "s3_pages env (pu_netloc parsed) p None s = Some (r, t)" using * managed url s3
          by (simp add: purge_storage_def bind_run_def lift_run_def op_defs delete_s3_prefix_def)
        then show ?thesis
          by (rule s3_pages_scoped [OF _ assms managed_storage_prefix_scoped [OF Inr] managed_bucket [OF managed url s3]])
      qed
    qed
  qed
qed

lemma stays_trino_pages: "stays cfg env d (lift_run (trino_pages env n page))"
proof (induction n arbitrary: page)
  case 0
  show ?case by (subst trino_pages.simps) (auto split: option.split list.split)
next
  case (Suc n)
  have step: "stays cfg env d (lift_run (bind_op (ask env (TrinoFetch u) f) (trino_pages env n)))" for u f
    using Suc by (intro stays_bind_op stays_ask) simp_all
  show ?case by (subst trino_pages.simps) (auto simp: step split: option.split list.split)
qed

lemma stays_drop_iceberg: "stays cfg env d (lift_run (drop_iceberg_table cfg env c n t))"
proof -
  have run: "stays cfg env d (lift_run (catch_op (trino_execute cfg env (drop_statement target))
      (\<lambda>e. if drop_refused e then return_op () else raise_op e)))"
    if "map_res iceberg_identifier [ls_trino_catalog cfg, n, t] = Inr target" for target
  proof -
    have "\<exists>n t. target = [py_strip (ls_trino_catalog cfg), n, t]"
      using that by (auto simp: iceberg_identifier_def Let_def bind_res_def split: if_splits sum.splits)
    then have "stays cfg env d (lift_run (ask env (TrinoSubmit (drop_statement target)) f))" for f :: "lake_world \<Rightarrow> trino_page res"
      by (intro stays_ask) auto
    then show ?thesis
      unfolding trino_execute_def by (intro stays_catch_op stays_bind_op stays_trino_pages) simp_all
  qed
  show ?thesis
  proof (cases "c = ls_trino_catalog cfg")
    case True
    show ?thesis
    proof (cases "map_res iceberg_identifier [c, n, t]")
      case (Inl e)
      then show ?thesis using True
        by (auto simp: drop_iceberg_table_def stays_def lift_run_def bind_op_def lift_res_def intro: scoped_refl)
    next
      case (Inr target)
      then have "drop_iceberg_table cfg env c n t = catch_op (trino_execute cfg env (drop_statement target))
          (\<lambda>e. if drop_refused e then return_op () else raise_op e)"
        using True by (auto simp: drop_iceberg_table_def bind_op_def lift_res_def fun_eq_iff)
      then show ?thesis using run [of target] Inr True by simp
    qed
  qed (simp add: drop_iceberg_table_def)
qed

lemma stays_drop_rag_table: "stays cfg env d (lift_run (drop_rag_table cfg env location))"
  by (simp add: drop_rag_table_def stays_drop_iceberg split: prod.split)

lemma qualified_clickhouse_table_Inr:
  assumes "qualified_clickhouse_table db t = Inr name"
  obtains n where "validate_clickhouse_identifier db = Inr (py_strip db)" and "is_identifier n"
    and "name = ''`'' @ py_strip db @ ''`.`'' @ n @ ''`''"
  using assms that [of "py_strip t"]
  by (auto simp: qualified_clickhouse_table_def quote_clickhouse_identifier_def validate_clickhouse_identifier_def
      Let_def bind_res_Inr_iff split: if_splits)

lemma stays_drop_clickhouse: "stays cfg env d (lift_run (drop_clickhouse_table cfg env database table))"
  unfolding stays_def
proof (intro allI impI)
  fix s r u assume *: "lift_run (drop_clickhouse_table cfg env database table) s = Some (r, u)"
  show "scoped cfg env d s u"
  proof (cases "database = ls_clickhouse_database cfg \<and> (\<exists>name. qualified_clickhouse_table database table = Inr name)")
    case True
    then obtain name where name: "qualified_clickhouse_table database table = Inr name" and db: "database = ls_clickhouse_database cfg"
      by blast
    obtain n where n: "validate_clickhouse_identifier database = Inr (py_strip database)" "is_identifier n"
        "name = ''`'' @ py_strip database @ ''`.`'' @ n @ ''`''"
      by (rule qualified_clickhouse_table_Inr [OF name])
    have "u = s \<or> u = s @ [ClickHousePost \<lparr>rq_database = py_strip database, rq_query_id = None, rq_body = ''DROP TABLE IF EXISTS '' @ name\<rparr>]"
      using * n db name
      by (auto simp: lift_run_def drop_clickhouse_table_def ch_execute_def post_def clickhouse_server_def op_defs
          split: sum.splits prod.splits http_response.splits if_splits)
    then show ?thesis using n db by (auto intro!: scoped_one scoped_refl)
  next
    case False
    then have "u = s" using *
      by (cases "qualified_clickhouse_table database table") (auto simp: lift_run_def drop_clickhouse_table_def op_defs split: if_splits)
    then show ?thesis by (simp add: scoped_refl)
  qed
qed

lemma stays_drop_clickhouse_artifact: "stays cfg env d (lift_run (drop_clickhouse_artifact cfg env location))"
  by (auto simp: drop_clickhouse_artifact_def stays_drop_clickhouse split: prod.split list.split)

lemma purge_artifact_stays: "lists_prefix env \<Longrightarrow> stays cfg env d (purge_artifact cfg env d a)"
  by (simp add: purge_artifact_def stays_purge_storage stays_drop_rag_table stays_drop_clickhouse_artifact)

lemma purge_artifacts_scoped:
  assumes "lists_prefix env" and "purge_artifacts cfg env d artifacts calls = Some (r, calls')"
  shows "scoped cfg env d calls calls'"
proof -
  have "stays cfg env d (purge_artifacts cfg env d artifacts)"
    unfolding purge_artifacts_def by (intro stays_for_run purge_artifact_stays assms(1))
  then show ?thesis using assms(2) unfolding stays_def by blast
qed

subsection \<open>Removing a prefix ends and leaves nothing behind\<close>

fun deleted_keys :: "string \<Rightarrow> lake_call list \<Rightarrow> string set" where
  "deleted_keys b [] = {}"
| "deleted_keys b (S3Delete b' ks # calls) = (if b' = b then set ks else {}) \<union> deleted_keys b calls"
| "deleted_keys b (_ # calls) = deleted_keys b calls"

lemma deleted_keys_append [simp]: "deleted_keys b (xs @ ys) = deleted_keys b xs \<union> deleted_keys b ys"
  by (induction b xs rule: deleted_keys.induct) auto

definition live_keys :: "(string \<Rightarrow> string set) \<Rightarrow> string \<Rightarrow> lake_call list \<Rightarrow> string set" where
  "live_keys init b calls = init b - deleted_keys b calls"

definition after_token :: "(string \<Rightarrow> string) \<Rightarrow> string option \<Rightarrow> string \<Rightarrow> bool" where
  "after_token pos tok k \<longleftrightarrow> (case tok of None \<Rightarrow> True | Some t \<Rightarrow> pos t < k)"

text \<open>
  The documented behaviour of object storage whose buckets hold the objects \<open>init\<close> at first. A page of a listing
  holds existing keys with the prefix, after the position of the continuation token, in the order of the keys. The
  last page leaves none out. Any other page holds at least one key and the token of the last position it covers. Deleting
  objects succeeds.
\<close>

definition page_faithful ::
  "(string \<Rightarrow> string) \<Rightarrow> string set \<Rightarrow> string \<Rightarrow> string option \<Rightarrow> s3_page \<Rightarrow> bool" where
  "page_faithful pos live p tok page \<longleftrightarrow>
     (\<forall>k \<in> set (sp_keys page). k \<in> live \<and> starts_with p k \<and> after_token pos tok k)
     \<and> (if sp_truncated page
        then \<exists>t. sp_next_token page = Some t \<and> t \<noteq> [] \<and> sp_keys page \<noteq> []
          \<and> (\<forall>k \<in> live. starts_with p k \<and> after_token pos tok k \<and> \<not> pos t < k \<longrightarrow> k \<in> set (sp_keys page))
        else \<forall>k \<in> live. starts_with p k \<and> after_token pos tok k \<longrightarrow> k \<in> set (sp_keys page))"

definition faithful_store :: "(string \<Rightarrow> string) \<Rightarrow> (string \<Rightarrow> string set) \<Rightarrow> environment \<Rightarrow> bool" where
  "faithful_store pos init env \<longleftrightarrow>
     (\<forall>calls b p tok. \<exists>page. lw_list (env calls) b p tok = Inr page \<and> page_faithful pos (live_keys init b calls) p tok page)
     \<and> (\<forall>calls b ks. lw_remove (env calls) (S3Delete b ks) = Inr ())"

lemma delete_page_calls:
  assumes "faithful_store pos init env"
  shows "delete_page env b page calls = (Inr (), if page_objects page = [] then calls else calls @ [S3Delete b (page_objects page)])"
  using assms by (simp add: delete_page_def ask_def return_op_def faithful_store_def)

lemma s3_page_step:
  assumes store: "faithful_store pos init env" and keys: "[] \<notin> init b"
    and covered: "\<forall>k \<in> live_keys init b calls. starts_with p k \<longrightarrow> after_token pos tok k"
  obtains page calls' where "s3_pages env b p tok calls =
      (if sp_truncated page then s3_pages env b p (next_token page) calls' else Some (Inr (), calls'))"
    and "live_keys init b calls' = live_keys init b calls - set (sp_keys page)"
    and "\<forall>b'. b' \<noteq> b \<longrightarrow> live_keys init b' calls' = live_keys init b' calls"
    and "\<forall>k \<in> set (sp_keys page). k \<in> live_keys init b calls \<and> starts_with p k"
    and "sp_truncated page \<longrightarrow> sp_keys page \<noteq> []
      \<and> (\<forall>k \<in> live_keys init b calls'. starts_with p k \<longrightarrow> after_token pos (next_token page) k)"
    and "\<not> sp_truncated page \<longrightarrow> (\<forall>k \<in> live_keys init b calls'. \<not> starts_with p k)"
proof -
  obtain page where list: "lw_list (env calls) b p tok = Inr page"
      and page: "page_faithful pos (live_keys init b calls) p tok page"
    using store unfolding faithful_store_def by blast
  define calls1 where "calls1 = calls @ [S3List b p tok]"
  define calls2 where "calls2 = (if page_objects page = [] then calls1 else calls1 @ [S3Delete b (page_objects page)])"
  have objects: "set (page_objects page) = set (sp_keys page)"
    using page keys by (auto simp: page_objects_def page_faithful_def live_keys_def)
  have run: "s3_pages env b p tok calls =
      (if sp_truncated page then s3_pages env b p (next_token page) calls2 else Some (Inr (), calls2))"
    by (subst s3_pages.simps) (simp add: ask_def list delete_page_calls [OF store] calls1_def [symmetric] calls2_def [symmetric])
  have live: "live_keys init b' calls2 = (if b' = b then live_keys init b calls - set (sp_keys page) else live_keys init b' calls)" for b'
    using objects by (auto simp: live_keys_def calls2_def calls1_def)
  show ?thesis
  proof (rule that [OF run])
    show "sp_truncated page \<longrightarrow> sp_keys page \<noteq> []
        \<and> (\<forall>k \<in> live_keys init b calls2. starts_with p k \<longrightarrow> after_token pos (next_token page) k)"
    proof
      assume "sp_truncated page"
      then obtain t where t: "sp_next_token page = Some t" "t \<noteq> []" "sp_keys page \<noteq> []"
          "\<forall>k \<in> live_keys init b calls. starts_with p k \<and> after_token pos tok k \<and> \<not> pos t < k \<longrightarrow> k \<in> set (sp_keys page)"
        using page unfolding page_faithful_def by auto
      have "after_token pos (next_token page) k \<longleftrightarrow> pos t < k" for k
        using t(1,2) by (simp add: next_token_def after_token_def)
      moreover have "pos t < k" if "k \<in> live_keys init b calls2" "starts_with p k" for k
      proof (rule ccontr)
        assume "\<not> pos t < k"
        moreover have "k \<in> live_keys init b calls" "k \<notin> set (sp_keys page)" using that(1) live [of b] by auto
        ultimately show False using t(4) covered that(2) by blast
      qed
      ultimately show "sp_keys page \<noteq> [] \<and> (\<forall>k \<in> live_keys init b calls2. starts_with p k \<longrightarrow> after_token pos (next_token page) k)"
        using t(3) by simp
    qed
    show "\<not> sp_truncated page \<longrightarrow> (\<forall>k \<in> live_keys init b calls2. \<not> starts_with p k)"
      using page covered live [of b] unfolding page_faithful_def by auto
  qed (use live page in \<open>auto simp: page_faithful_def\<close>)
qed

lemma s3_pages_complete:
  assumes store: "faithful_store pos init env" and keys: "[] \<notin> init b" "finite (init b)"
    and "\<forall>k \<in> live_keys init b calls. starts_with p k \<longrightarrow> after_token pos tok k"
  shows "\<exists>calls'. s3_pages env b p tok calls = Some (Inr (), calls')
    \<and> live_keys init b calls' = {k \<in> live_keys init b calls. \<not> starts_with p k}
    \<and> (\<forall>b'. b' \<noteq> b \<longrightarrow> live_keys init b' calls' = live_keys init b' calls)"
  using assms(4)
proof (induction "card (live_keys init b calls)" arbitrary: tok calls rule: less_induct)
  case less
  obtain page calls' where run: "s3_pages env b p tok calls =
      (if sp_truncated page then s3_pages env b p (next_token page) calls' else Some (Inr (), calls'))"
    and live: "live_keys init b calls' = live_keys init b calls - set (sp_keys page)"
    and other: "\<forall>b'. b' \<noteq> b \<longrightarrow> live_keys init b' calls' = live_keys init b' calls"
    and listed: "\<forall>k \<in> set (sp_keys page). k \<in> live_keys init b calls \<and> starts_with p k"
    and more: "sp_truncated page \<longrightarrow> sp_keys page \<noteq> []
      \<and> (\<forall>k \<in> live_keys init b calls'. starts_with p k \<longrightarrow> after_token pos (next_token page) k)"
    and done_: "\<not> sp_truncated page \<longrightarrow> (\<forall>k \<in> live_keys init b calls'. \<not> starts_with p k)"
    by (rule s3_page_step [OF store keys(1) less.prems])
  show ?case
  proof (cases "sp_truncated page")
    case False
    then show ?thesis using run live other listed done_ by auto
  next
    case True
    then obtain k where k: "k \<in> set (sp_keys page)" using more by (cases "sp_keys page") auto
    have "card (live_keys init b calls') < card (live_keys init b calls)"
      using k listed live keys(2) by (intro psubset_card_mono) (auto simp: live_keys_def)
    from less.hyps [OF this] more True obtain calls'' where "s3_pages env b p (next_token page) calls' = Some (Inr (), calls'')"
        "live_keys init b calls'' = {k \<in> live_keys init b calls'. \<not> starts_with p k}"
        "\<forall>b'. b' \<noteq> b \<longrightarrow> live_keys init b' calls'' = live_keys init b' calls'"
      by blast
    then show ?thesis using run True live other listed by auto
  qed
qed

lemma delete_s3_prefix_complete:
  assumes "faithful_store pos init env" and "[] \<notin> init b" and "finite (init b)"
  shows "\<exists>calls'. delete_s3_prefix env b p calls = Some (Inr (), calls')
    \<and> live_keys init b calls' = {k \<in> live_keys init b calls. \<not> starts_with p k}
    \<and> (\<forall>b'. b' \<noteq> b \<longrightarrow> live_keys init b' calls' = live_keys init b' calls)"
  unfolding delete_s3_prefix_def by (rule s3_pages_complete [OF assms]) (simp add: after_token_def)

end
