(* ===== verification/Deletion_Impact.thy ===== *)
theory Deletion_Impact
  imports Storage_Scope Etl_Schedule
begin

section \<open>Dataset deletion: receipts and impact\<close>

text \<open>
  The tables the deletion of a catalog dataset reads and writes, \<open>repositories/catalog_deletion_repository.py\<close> (the
  receipts), the guards of \<open>repositories/catalog_repository.py\<close> that read them, and the impact analysis of
  \<open>application/catalog_dataset_deletion.py\<close>. A record keeps the columns this code reads. A query with \<open>LIMIT 1\<close>
  and no order returns some matching row; here it is the first one. Rows locked by other sessions
  are an argument of the queries that skip them.
\<close>

subsection \<open>Tables\<close>

datatype deletion_status = DelQueued | DelValidating | DelPurging | DelMetadataCleanup | DelSucceeded | DelFailed

primrec deletion_status_value :: "deletion_status \<Rightarrow> string" where
  "deletion_status_value DelQueued = ''queued''"
| "deletion_status_value DelValidating = ''validating''"
| "deletion_status_value DelPurging = ''purging''"
| "deletion_status_value DelMetadataCleanup = ''metadata_cleanup''"
| "deletion_status_value DelSucceeded = ''succeeded''"
| "deletion_status_value DelFailed = ''failed''"

record deletion_row =
  dl_id :: string
  dl_dataset_id :: string
  dl_dataset_name :: string
  dl_status :: deletion_status
  dl_actor_snapshot :: dict
  dl_impact_snapshot :: dict
  dl_dataset_snapshot :: dict
  dl_attempt_count :: int
  dl_error_code :: "string option"
  dl_error_message :: "string option"
  dl_created_at :: timestamp
  dl_updated_at :: timestamp

record producer_job =
  pj_id :: string
  pj_name :: string
  pj_dataset_id :: "string option"
  pj_status :: string
  pj_schedule :: string
  pj_execution_mode :: string
  pj_source_config :: json
  pj_sql_recipe :: json

record producer_run =
  pr_run_id :: string
  pr_job_id :: string
  pr_status :: string

record continuous_sql_job =
  cq_id :: string
  cq_name :: string
  cq_output_dataset_id :: string
  cq_relation_bindings :: json
  cq_desired_state :: string
  cq_observed_state :: string

record sql_run =
  sr_id :: string
  sr_dataset_id :: string
  sr_payload :: dict

record sql_run_page =
  sg_id :: string
  sg_run_id :: string

record dashboard_card =
  dc_id :: string
  dc_dataset_id :: json
  dc_source_run_id :: json
  dc_payload :: json

record dashboard_revision =
  bv_id :: string
  bv_dashboard_id :: string

record dashboard_page =
  dp_id :: string
  dp_revision_id :: string

record dashboard_widget =
  dw_id :: string
  dw_page_id :: string
  dw_title :: "string option"
  dw_dataset_id :: "string option"

record semantic_model =
  sm_id :: string
  sm_name :: string

text \<open>Rows of a semantic model that name one dataset (members, metrics, dimensions), none (vocabulary, versions) or two.\<close>

record semantic_part =
  sx_id :: string
  sx_model_id :: string
  sx_dataset_id :: "string option"

record semantic_relationship =
  sl_id :: string
  sl_model_id :: string
  sl_from_dataset_id :: string
  sl_to_dataset_id :: string

record dataset_result =
  dr_key :: string
  dr_dataset_id :: string

datatype dashboards_shape = FullDashboards | NoSourceRun | NoDashboards

record lake_db =
  lk_access :: access_db
  lk_store :: db
  lk_deletions :: "deletion_row list"
  lk_jobs :: "producer_job list"
  lk_runs :: "producer_run list"
  lk_continuous :: "continuous_sql_job list"
  lk_sql_runs :: "sql_run list"
  lk_sql_pages :: "sql_run_page list"
  lk_dashboards :: "dashboard_card list"
  lk_dashboards_shape :: dashboards_shape
  lk_tags :: "(string \<times> string) list option"
  lk_revisions :: "dashboard_revision list"
  lk_pages :: "dashboard_page list"
  lk_widgets :: "dashboard_widget list"
  lk_models :: "semantic_model list"
  lk_members :: "semantic_part list"
  lk_metrics :: "semantic_part list"
  lk_dimensions :: "semantic_part list"
  lk_relationships :: "semantic_relationship list"
  lk_vocabulary :: "semantic_part list"
  lk_versions :: "semantic_part list"
  lk_batch_results :: "dataset_result list"
  lk_widget_results :: "dataset_result list"
  lk_cursors :: "dataset_result list"

abbreviation lk_catalog :: "lake_db \<Rightarrow> catalog_row list" where
  "lk_catalog s \<equiv> db_catalog (lk_store s)"

definition catalog_model :: "string \<Rightarrow> lake_db \<Rightarrow> catalog_row option" where
  "catalog_model dataset_id s = lookup_key cd_id dataset_id (lk_catalog s)"

text \<open>A statement of the access-control tables, run on this session.\<close>

definition on_access :: "(access_db, 'a) op \<Rightarrow> (lake_db, 'a) op" where
  "on_access m = (\<lambda>s. case m (lk_access s) of (r, a) \<Rightarrow> (r, s\<lparr>lk_access := a\<rparr>))"

subsection \<open>Receipts\<close>

definition active_deletion_statuses :: "deletion_status list" where
  "active_deletion_statuses = [DelQueued, DelValidating, DelPurging, DelMetadataCleanup]"

definition get_deletion :: "string \<Rightarrow> lake_db \<Rightarrow> deletion_row option" where
  "get_deletion deletion_id s = lookup_key dl_id deletion_id (lk_deletions s)"

definition deletion_order :: "deletion_row \<Rightarrow> timestamp \<times> string" where
  "deletion_order r = (dl_created_at r, dl_id r)"

definition first_by_age :: "deletion_row list \<Rightarrow> deletion_row option" where
  "first_by_age rows = (case sort_key deletion_order rows of [] \<Rightarrow> None | r # _ \<Rightarrow> Some r)"

definition last_by_age :: "deletion_row list \<Rightarrow> deletion_row option" where
  "last_by_age rows = (if rows = [] then None else Some (last (sort_key deletion_order rows)))"

definition latest_for_dataset :: "string \<Rightarrow> lake_db \<Rightarrow> deletion_row option" where
  "latest_for_dataset dataset_id s = last_by_age (filter (\<lambda>r. dl_dataset_id r = dataset_id) (lk_deletions s))"

definition has_fence :: "string \<Rightarrow> lake_db \<Rightarrow> bool" where
  "has_fence dataset_id s \<longleftrightarrow> find (\<lambda>r. dl_dataset_id r = dataset_id) (lk_deletions s) \<noteq> None"

definition ensure_catalog_publication_allowed :: "string \<Rightarrow> (lake_db, unit) op" where
  "ensure_catalog_publication_allowed dataset_id =
     bind_op (read_op (has_fence dataset_id)) (\<lambda>fenced.
     check_op (\<not> fenced) (ApiError ''DATASET_DELETION_FENCED''
       ''Dataset publication is blocked because deletion has already been requested.'' 409 [(''datasetId'', Some dataset_id)]))"

definition put_deletion :: "string \<Rightarrow> (deletion_row \<Rightarrow> deletion_row) \<Rightarrow> timestamp \<Rightarrow> (lake_db, unit) op" where
  "put_deletion i f now =
     write_op (\<lambda>s. s\<lparr>lk_deletions := update_where (\<lambda>r. dl_id r = i) (\<lambda>r. (f r)\<lparr>dl_updated_at := now\<rparr>) (lk_deletions s)\<rparr>)"

record deletion_snapshots =
  ss_actor :: dict
  ss_dataset :: dict
  ss_impact :: dict

definition queue_again :: "deletion_snapshots \<Rightarrow> deletion_row \<Rightarrow> deletion_row" where
  "queue_again sn r =
     r\<lparr>dl_status := DelQueued, dl_actor_snapshot := ss_actor sn, dl_dataset_snapshot := ss_dataset sn,
       dl_impact_snapshot := ss_impact sn, dl_error_code := None, dl_error_message := None\<rparr>"

definition new_deletion :: "string \<Rightarrow> timestamp \<Rightarrow> string \<Rightarrow> string \<Rightarrow> deletion_snapshots \<Rightarrow> deletion_row" where
  "new_deletion uuid now dataset_id dataset_name sn =
     \<lparr>dl_id = ''catalog_delete_'' @ uuid, dl_dataset_id = dataset_id, dl_dataset_name = dataset_name,
      dl_status = DelQueued, dl_actor_snapshot = ss_actor sn, dl_impact_snapshot = ss_impact sn,
      dl_dataset_snapshot = ss_dataset sn, dl_attempt_count = 0, dl_error_code = None, dl_error_message = None,
      dl_created_at = now, dl_updated_at = now\<rparr>"

definition insert_deletion :: "deletion_row \<Rightarrow> (lake_db, unit) op" where
  "insert_deletion row = (\<lambda>s.
     case sql_insert (\<lambda>_. True) (\<lambda>rows r. dl_id r \<notin> dl_id ` set rows) row (lk_deletions s) of
       Inl e \<Rightarrow> (Inl e, s) | Inr rows \<Rightarrow> (Inr (), s\<lparr>lk_deletions := rows\<rparr>))"

definition create_or_retry ::
  "string \<Rightarrow> timestamp \<Rightarrow> string \<Rightarrow> string \<Rightarrow> deletion_snapshots \<Rightarrow> (lake_db, string \<times> deletion_status) op" where
  "create_or_retry uuid now dataset_id dataset_name sn =
     bind_op (read_op (latest_for_dataset dataset_id)) (\<lambda>existing.
       case existing of
         Some r \<Rightarrow>
           if dl_status r = DelFailed
           then bind_op (put_deletion (dl_id r) (queue_again sn) now) (\<lambda>_. return_op (dl_id r, DelQueued))
           else bind_op (insert_deletion (new_deletion uuid now dataset_id dataset_name sn)) (\<lambda>_.
                return_op (''catalog_delete_'' @ uuid, DelQueued))
       | None \<Rightarrow>
           bind_op (insert_deletion (new_deletion uuid now dataset_id dataset_name sn)) (\<lambda>_.
           return_op (''catalog_delete_'' @ uuid, DelQueued)))"

definition take_claim :: "deletion_row \<Rightarrow> deletion_row" where
  "take_claim r = r\<lparr>dl_status := DelValidating, dl_attempt_count := dl_attempt_count r + 1\<rparr>"

definition claim_row :: "deletion_row option \<Rightarrow> timestamp \<Rightarrow> (lake_db, deletion_row option) op" where
  "claim_row found now =
     (case found of
        None \<Rightarrow> return_op None
      | Some r \<Rightarrow> bind_op (put_deletion (dl_id r) take_claim now) (\<lambda>_. return_op (Some ((take_claim r)\<lparr>dl_updated_at := now\<rparr>))))"

definition claim_next :: "string set \<Rightarrow> timestamp \<Rightarrow> (lake_db, deletion_row option) op" where
  "claim_next locked now =
     bind_op (read_op (\<lambda>s. first_by_age (filter (\<lambda>r. dl_status r = DelQueued \<and> dl_id r \<notin> locked) (lk_deletions s))))
       (\<lambda>found. claim_row found now)"

definition claim :: "string set \<Rightarrow> timestamp \<Rightarrow> string \<Rightarrow> (lake_db, deletion_row option) op" where
  "claim locked now deletion_id =
     bind_op (read_op (\<lambda>s. find (\<lambda>r. dl_id r = deletion_id \<and> dl_status r = DelQueued \<and> dl_id r \<notin> locked) (lk_deletions s)))
       (\<lambda>found. claim_row found now)"

definition update_status ::
  "string \<Rightarrow> deletion_status \<Rightarrow> string option \<Rightarrow> string option \<Rightarrow> timestamp \<Rightarrow> (lake_db, unit) op" where
  "update_status i status code message now =
     put_deletion i (\<lambda>r. r\<lparr>dl_status := status, dl_error_code := code, dl_error_message := message\<rparr>) now"

subsection \<open>Guards of the catalog\<close>

definition deletion_details :: "string \<Rightarrow> deletion_row \<Rightarrow> (string \<times> string option) list" where
  "deletion_details dataset_id r =
     [(''datasetId'', Some dataset_id), (''deletionId'', Some (dl_id r)), (''status'', Some (deletion_status_value (dl_status r)))]"

definition raise_if_deletion_in_progress :: "string \<Rightarrow> (lake_db, unit) op" where
  "raise_if_deletion_in_progress dataset_id =
     bind_op (read_op (latest_for_dataset dataset_id)) (\<lambda>d.
       case d of
         Some r \<Rightarrow> check_op (dl_status r \<notin> set active_deletion_statuses)
           (ApiError ''DATASET_DELETION_IN_PROGRESS'' ''Dataset deletion is in progress.'' 409 (deletion_details dataset_id r))
       | None \<Rightarrow> return_op ())"

definition get_dataset_model_for_update :: "string \<Rightarrow> bool \<Rightarrow> (lake_db, catalog_row option) op" where
  "get_dataset_model_for_update dataset_id allow_deletion_fence =
     bind_op (read_op (catalog_model dataset_id)) (\<lambda>m.
     if allow_deletion_fence then return_op m
     else bind_op (ensure_catalog_publication_allowed dataset_id) (\<lambda>_. return_op m))"

definition get_dataset_payload :: "string \<Rightarrow> (lake_db, dict option) op" where
  "get_dataset_payload dataset_id =
     bind_op (read_op (catalog_model dataset_id)) (\<lambda>m.
       case m of
         None \<Rightarrow> return_op None
       | Some row \<Rightarrow>
           bind_op (raise_if_deletion_in_progress dataset_id) (\<lambda>_.
           bind_op (lift_res (dataset_model_to_payload row)) (\<lambda>p. return_op (Some p))))"

definition get_dataset_payload_for_update :: "string \<Rightarrow> (lake_db, dict option) op" where
  "get_dataset_payload_for_update dataset_id =
     bind_op (get_dataset_model_for_update dataset_id True) (\<lambda>m.
       case m of None \<Rightarrow> return_op None
       | Some row \<Rightarrow> bind_op (lift_res (dataset_model_to_payload row)) (\<lambda>p. return_op (Some p)))"

text \<open>
  \<open>save_dataset_payload\<close>: \<open>values\<close> is the row \<open>dataset_payload_to_model_values\<close> makes of the payload; the name
  of a dataset is unique.
\<close>

definition put_catalog :: "catalog_row list \<Rightarrow> lake_db \<Rightarrow> lake_db" where
  "put_catalog rows s = s\<lparr>lk_store := (lk_store s)\<lparr>db_catalog := rows\<rparr>\<rparr>"

definition name_free :: "catalog_row \<Rightarrow> catalog_row list \<Rightarrow> bool" where
  "name_free values rows \<longleftrightarrow> cd_name values = None \<or> cd_name values \<notin> cd_name ` set (filter (\<lambda>r. cd_id r \<noteq> cd_id values) rows)"

definition save_dataset_payload :: "catalog_row \<Rightarrow> (lake_db, unit) op" where
  "save_dataset_payload values =
     bind_op (get_dataset_model_for_update (cd_id values) False) (\<lambda>m.
     bind_op (read_op lk_catalog) (\<lambda>rows.
     bind_op (check_op (name_free values rows) unique_violation) (\<lambda>_.
       case m of
         None \<Rightarrow> write_op (put_catalog (rows @ [values]))
       | Some old \<Rightarrow> write_op (put_catalog (update_where (\<lambda>r. cd_id r = cd_id values) (\<lambda>_. values) rows)))))"

subsection \<open>Blockers and artifacts\<close>

record deletion_blocker =
  bk_resource_type :: string
  bk_resource_id :: string
  bk_resource_name :: string
  bk_reason :: string

record deletion_impact =
  im_artifacts :: "deletion_artifact list"
  im_blockers :: "deletion_blocker list"
  im_can_delete :: bool
  im_dataset_id :: string
  im_dataset_name :: string
  im_estimated_size_bytes :: int
  im_retained_resources :: "string list"

text \<open>
  The dataset as \<open>CatalogDatasetResponse.model_validate\<close> reads it from a payload, as far as this code uses it:
  what access control needs, the location and size of every materialization run, and the stored size.
\<close>

record deletion_dataset =
  dd_dataset :: query_dataset
  dd_runs :: "(string option \<times> int) list"
  dd_storage_size_bytes :: "int option"

type_synonym dataset_model = "dict \<Rightarrow> deletion_dataset res"

definition blocker :: "string \<Rightarrow> string \<Rightarrow> string \<Rightarrow> string \<Rightarrow> deletion_blocker" where
  "blocker resource_type resource_id resource_name reason =
     \<lparr>bk_resource_type = resource_type, bk_resource_id = resource_id, bk_resource_name = resource_name, bk_reason = reason\<rparr>"

text \<open>The reasons, in Korean in the source.\<close>

definition reason_run :: string where
  "reason_run = utf8 [0xC0DD, 0xC131, 0x20, 0xC791, 0xC5C5, 0xC774, 0x20, 0xC2E4, 0xD589, 0x20, 0xC911, 0xC785, 0xB2C8, 0xB2E4, 0x2E]"

definition reason_continuous :: string where
  "reason_continuous = utf8 [0x43, 0x6F, 0x6E, 0x74, 0x69, 0x6E, 0x75, 0x6F, 0x75, 0x73, 0x20, 0xC0DD, 0xC131, 0x20, 0xC791, 0xC5C5, 0xC744, 0x20, 0xBA3C, 0xC800, 0x20, 0xC911, 0xC9C0, 0xD574, 0xC57C, 0x20, 0xD569, 0xB2C8, 0xB2E4, 0x2E]"

definition reason_scheduled :: string where
  "reason_scheduled = utf8 [0xC608, 0xC57D, 0x20, 0xC2E4, 0xD589, 0xC744, 0x20, 0xBA3C, 0xC800, 0x20, 0xC911, 0xC9C0, 0xD574, 0xC57C, 0x20, 0xD569, 0xB2C8, 0xB2E4, 0x2E]"

definition reason_source :: string where
  "reason_source = utf8 [0xC774, 0x20, 0x4A, 0x6F, 0x62, 0xC774, 0x20, 0xB370, 0xC774, 0xD130, 0xC14B, 0xC744, 0x20, 0x73, 0x6F, 0x75, 0x72, 0x63, 0x65, 0xB85C, 0x20, 0xC0AC, 0xC6A9, 0xD569, 0xB2C8, 0xB2E4, 0x2E]"

definition reason_sql_output :: string where
  "reason_sql_output = utf8 [0x43, 0x6F, 0x6E, 0x74, 0x69, 0x6E, 0x75, 0x6F, 0x75, 0x73, 0x20, 0x53, 0x51, 0x4C, 0x20, 0xC791, 0xC5C5, 0xC744, 0x20, 0xBA3C, 0xC800, 0x20, 0xC911, 0xC9C0, 0xD574, 0xC57C, 0x20, 0xD569, 0xB2C8, 0xB2E4, 0x2E]"

definition reason_sql_source :: string where
  "reason_sql_source = utf8 [0x43, 0x6F, 0x6E, 0x74, 0x69, 0x6E, 0x75, 0x6F, 0x75, 0x73, 0x20, 0x53, 0x51, 0x4C, 0x20, 0x4A, 0x6F, 0x62, 0xC774, 0x20, 0xB370, 0xC774, 0xD130, 0xC14B, 0xC744, 0x20, 0x73, 0x6F, 0x75, 0x72, 0x63, 0x65, 0xB85C, 0x20, 0xCC38, 0xC870, 0xD569, 0xB2C8, 0xB2E4, 0x2E]"

definition reason_sql_run :: string where
  "reason_sql_run = utf8 [0x53, 0x51, 0x4C, 0x20, 0xC2E4, 0xD589, 0xC774, 0x20, 0xB370, 0xC774, 0xD130, 0xC14B, 0xC744, 0x20, 0xC0AC, 0xC6A9, 0x20, 0xC911, 0xC785, 0xB2C8, 0xB2E4, 0x2E]"

definition reason_widget :: string where
  "reason_widget = utf8 [0x44, 0x61, 0x73, 0x68, 0x62, 0x6F, 0x61, 0x72, 0x64, 0x20, 0x77, 0x69, 0x64, 0x67, 0x65, 0x74, 0xC774, 0x20, 0xB370, 0xC774, 0xD130, 0xC14B, 0xC744, 0x20, 0xCC38, 0xC870, 0xD569, 0xB2C8, 0xB2E4, 0x2E]"

definition reason_model :: string where
  "reason_model = utf8 [0x53, 0x65, 0x6D, 0x61, 0x6E, 0x74, 0x69, 0x63, 0x20, 0x6D, 0x6F, 0x64, 0x65, 0x6C, 0xC774, 0x20, 0xB370, 0xC774, 0xD130, 0xC14B, 0xC744, 0x20, 0xCC38, 0xC870, 0xD569, 0xB2C8, 0xB2E4, 0x2E]"

definition reason_downstream :: string where
  "reason_downstream = utf8 [0x64, 0x6F, 0x77, 0x6E, 0x73, 0x74, 0x72, 0x65, 0x61, 0x6D, 0x20, 0x44, 0x61, 0x74, 0x61, 0x73, 0x65, 0x74, 0x20, 0x6C, 0x69, 0x6E, 0x65, 0x61, 0x67, 0x65, 0xAC00, 0x20, 0xB0A8, 0xC544, 0x20, 0xC788, 0xC2B5, 0xB2C8, 0xB2E4, 0x2E]"

definition reason_storage :: string where
  "reason_storage = utf8 [0x41, 0x73, 0x6B, 0x4C, 0x61, 0x6B, 0x65, 0x20, 0xAD00, 0xB9AC, 0x20, 0xACBD, 0xB85C, 0xC784, 0xC744, 0x20, 0xD655, 0xC778, 0xD560, 0x20, 0xC218, 0x20, 0xC5C6, 0xC2B5, 0xB2C8, 0xB2E4, 0x2E]"

definition reason_iceberg :: string where
  "reason_iceberg = utf8 [0x41, 0x73, 0x6B, 0x4C, 0x61, 0x6B, 0x65, 0x20, 0xAD00, 0xB9AC, 0x20, 0x49, 0x63, 0x65, 0x62, 0x65, 0x72, 0x67, 0x20, 0x63, 0x61, 0x74, 0x61, 0x6C, 0x6F, 0x67, 0xAC00, 0x20, 0xC544, 0xB2D9, 0xB2C8, 0xB2E4, 0x2E]"

definition reason_clickhouse :: string where
  "reason_clickhouse = utf8 [0x41, 0x73, 0x6B, 0x4C, 0x61, 0x6B, 0x65, 0x20, 0xAD00, 0xB9AC, 0x20, 0x43, 0x6C, 0x69, 0x63, 0x6B, 0x48, 0x6F, 0x75, 0x73, 0x65, 0x20, 0x64, 0x61, 0x74, 0x61, 0x62, 0x61, 0x73, 0x65, 0xAC00, 0x20, 0xC544, 0xB2D9, 0xB2C8, 0xB2E4, 0x2E]"

definition str_of :: "json \<Rightarrow> string" where
  "str_of v = py_str (por v (JStr ''''))"

primrec nested_contains :: "json \<Rightarrow> string \<Rightarrow> bool" where
  "nested_contains JNull = (\<lambda>expected. str_of JNull = expected)"
| "nested_contains (JBool b) = (\<lambda>expected. str_of (JBool b) = expected)"
| "nested_contains (JInt n) = (\<lambda>expected. str_of (JInt n) = expected)"
| "nested_contains (JStr s) = (\<lambda>expected. str_of (JStr s) = expected)"
| "nested_contains (JList xs) = (\<lambda>expected. list_ex (\<lambda>f. f expected) (map nested_contains xs))"
| "nested_contains (JObj d) = (\<lambda>expected. list_ex (\<lambda>kv. snd kv expected) (map (map_prod id nested_contains) d))"

definition active_run_statuses :: "string list" where
  "active_run_statuses = [''queued'', ''running'', ''starting'', ''submitted'']"

definition producer_blockers :: "lake_db \<Rightarrow> producer_job \<Rightarrow> deletion_blocker list" where
  "producer_blockers s job =
     (case find (\<lambda>r. pr_job_id r = pj_id job \<and> pr_status r \<in> set active_run_statuses) (lk_runs s) of
        None \<Rightarrow> []
      | Some r \<Rightarrow> if pr_run_id r = [] then [] else [blocker ''etl_run'' (pr_run_id r) (pj_name job) reason_run])
     @ (if pj_execution_mode job = ''continuous'' \<and> casefold (pj_status job) \<noteq> ''stopped''
        then [blocker ''etl_job'' (pj_id job) (pj_name job) reason_continuous] else [])
     @ (if has_scheduled_execution (pj_status job) (Some (pj_schedule job))
        then [blocker ''etl_job'' (pj_id job) (pj_name job) reason_scheduled] else [])"

definition source_job_blockers :: "string \<Rightarrow> lake_db \<Rightarrow> deletion_blocker list" where
  "source_job_blockers dataset_id s =
     (let producers = filter (\<lambda>j. pj_dataset_id j = Some dataset_id) (lk_jobs s)
      in concat (map (\<lambda>j. if pj_id j \<in> pj_id ` set producers then []
           else if nested_contains (pj_source_config j) dataset_id \<or> nested_contains (pj_sql_recipe j) dataset_id
           then [blocker ''etl_job'' (pj_id j) (pj_name j) reason_source] else []) (lk_jobs s)))"

definition continuous_blockers :: "string \<Rightarrow> continuous_sql_job \<Rightarrow> deletion_blocker list" where
  "continuous_blockers dataset_id j =
     (let is_output = (cq_output_dataset_id j = dataset_id);
          uses_as_source = nested_contains (cq_relation_bindings j) dataset_id;
          active = (cq_desired_state j \<noteq> ''stopped'' \<or> cq_observed_state j \<notin> {''stopped'', ''failed''})
      in if \<not> is_output \<and> \<not> uses_as_source then []
         else (if is_output \<and> active then [blocker ''continuous_sql_job'' (cq_id j) (cq_name j) reason_sql_output] else [])
           @ (if uses_as_source then [blocker ''continuous_sql_job'' (cq_id j) (cq_name j) reason_sql_source] else []))"

definition sql_run_blockers :: "string \<Rightarrow> sql_run \<Rightarrow> deletion_blocker list" where
  "sql_run_blockers dataset_id r =
     (if casefold (str_of (jget ''status'' (sr_payload r))) \<in> set active_run_statuses
         \<and> (sr_dataset_id r = dataset_id \<or> nested_contains (JObj (sr_payload r)) dataset_id)
      then [blocker ''sql_run'' (sr_id r) (sr_id r) reason_sql_run] else [])"

definition workload_blockers :: "string \<Rightarrow> lake_db \<Rightarrow> deletion_blocker list" where
  "workload_blockers dataset_id s =
     concat (map (producer_blockers s) (filter (\<lambda>j. pj_dataset_id j = Some dataset_id) (lk_jobs s)))
     @ source_job_blockers dataset_id s
     @ concat (map (continuous_blockers dataset_id) (lk_continuous s))
     @ concat (map (sql_run_blockers dataset_id) (lk_sql_runs s))"

definition names_dataset :: "string \<Rightarrow> semantic_part \<Rightarrow> bool" where
  "names_dataset dataset_id r \<longleftrightarrow> sx_dataset_id r = Some dataset_id"

definition relates_dataset :: "string \<Rightarrow> semantic_relationship \<Rightarrow> bool" where
  "relates_dataset dataset_id r \<longleftrightarrow> sl_from_dataset_id r = dataset_id \<or> sl_to_dataset_id r = dataset_id"

definition semantic_model_ids :: "string \<Rightarrow> lake_db \<Rightarrow> string list" where
  "semantic_model_ids dataset_id s =
     map sx_model_id (filter (names_dataset dataset_id) (lk_members s @ lk_metrics s @ lk_dimensions s))
     @ map sl_model_id (filter (relates_dataset dataset_id) (lk_relationships s))"

definition dashboard_blockers :: "string \<Rightarrow> lake_db \<Rightarrow> deletion_blocker list" where
  "dashboard_blockers dataset_id s =
     map (\<lambda>w. blocker ''dashboard_widget'' (dw_id w) (first_text [dw_title w] (dw_id w)) reason_widget)
       (filter (\<lambda>w. dw_dataset_id w = Some dataset_id) (lk_widgets s))
     @ map (\<lambda>i. blocker ''semantic_model'' i
         (case lookup_key sm_id i (lk_models s) of None \<Rightarrow> i | Some m \<Rightarrow> sm_name m) reason_model)
       (sort (remdups (semantic_model_ids dataset_id s)))"

text \<open>A downstream entry is looked up by identifier, then by name; a later row of the same name wins.\<close>

definition downstream_of :: "string \<Rightarrow> catalog_row list \<Rightarrow> json \<Rightarrow> string list" where
  "downstream_of dataset_id rows item =
     (case (case lookup_key cd_id (py_str item) rows of
              Some r \<Rightarrow> Some r | None \<Rightarrow> find (\<lambda>r. some_text (cd_name r) = [py_str item]) (rev rows)) of
        None \<Rightarrow> [] | Some r \<Rightarrow> if cd_id r = dataset_id then [] else [cd_id r])"

definition names_upstream :: "string \<Rightarrow> string \<Rightarrow> catalog_row \<Rightarrow> bool res" where
  "names_upstream dataset_id dataset_name other =
     bind_res (dataset_model_to_payload other) (\<lambda>p.
     bind_res (py_list (por (jget ''upstream'' p) (JList []))) (\<lambda>items.
     let refs = map py_str items
     in Inr (dataset_id \<in> set refs \<or> (dataset_name \<noteq> [] \<and> dataset_name \<in> set refs))))"

fun upstream_readers :: "string \<Rightarrow> string \<Rightarrow> catalog_row list \<Rightarrow> string list res" where
  "upstream_readers dataset_id dataset_name [] = Inr []"
| "upstream_readers dataset_id dataset_name (r # rows) =
     (if cd_id r = dataset_id then upstream_readers dataset_id dataset_name rows
      else bind_res (names_upstream dataset_id dataset_name r) (\<lambda>hit.
        bind_res (upstream_readers dataset_id dataset_name rows) (\<lambda>rest.
        Inr (if hit then cd_id r # rest else rest))))"

definition lineage_blockers :: "string \<Rightarrow> dict \<Rightarrow> lake_db \<Rightarrow> deletion_blocker list res" where
  "lineage_blockers dataset_id payload s =
     bind_res (py_list (por (jget ''downstream'' payload) (JList []))) (\<lambda>items.
     bind_res (upstream_readers dataset_id (str_of (jget ''name'' payload)) (lk_catalog s)) (\<lambda>readers.
     Inr (map (\<lambda>i. blocker ''catalog_dataset'' i
            (case catalog_model i s of None \<Rightarrow> i | Some r \<Rightarrow> py_str (of_opt_str (cd_name r))) reason_downstream)
       (sort (remdups (concat (map (downstream_of dataset_id (lk_catalog s)) items) @ readers))))))"

definition dependency_blockers_with_dashboard_widgets :: "string \<Rightarrow> dict \<Rightarrow> lake_db \<Rightarrow> deletion_blocker list res" where
  "dependency_blockers_with_dashboard_widgets dataset_id payload s =
     bind_res (lineage_blockers dataset_id payload s) (\<lambda>lineage. Inr (dashboard_blockers dataset_id s @ lineage))"

definition dependency_blockers :: "string \<Rightarrow> dict \<Rightarrow> lake_db \<Rightarrow> deletion_blocker list res" where
  "dependency_blockers dataset_id payload s =
     bind_res (dependency_blockers_with_dashboard_widgets dataset_id payload s) (\<lambda>collected.
     Inr (filter (\<lambda>b. bk_resource_type b \<notin> {''dashboard_widget'', ''semantic_model''}) collected))"

definition artifact :: "string \<Rightarrow> string \<Rightarrow> deletion_artifact" where
  "artifact kind location = \<lparr>af_kind = kind, af_location = location\<rparr>"

definition table_location :: "dict \<Rightarrow> string" where
  "table_location t = py_join ''.'' (map (\<lambda>k. str_of (jget k t)) [''catalog'', ''schema'', ''table''])"

definition query_table_artifacts :: "dict \<Rightarrow> deletion_artifact list" where
  "query_table_artifacts payload =
     (case as_dict (jget ''queryEngineTable'' payload) of
        None \<Rightarrow> []
      | Some t \<Rightarrow> if truthy (jget ''table'' t) then [artifact ''iceberg_table'' (table_location t)] else [])"

definition clickhouse_artifacts :: "dict \<Rightarrow> deletion_artifact list" where
  "clickhouse_artifacts payload =
     (case as_dict (jget ''clickhouseTable'' payload) of
        None \<Rightarrow> []
      | Some t \<Rightarrow> if truthy (jget ''table'' t)
          then [artifact ''clickhouse_table'' (py_str (jget ''database'' t) @ ''.'' @ py_str (jget ''table'' t))] else [])"

definition is_iceberg :: "json \<Rightarrow> bool" where
  "is_iceberg v \<longleftrightarrow> (case as_dict v of None \<Rightarrow> False | Some t \<Rightarrow> jget ''format'' t = JStr ''iceberg'')"

definition storage_artifacts :: "dict \<Rightarrow> deletion_artifact list" where
  "storage_artifacts payload =
     (if \<not> is_iceberg (jget ''queryEngineTable'' payload) \<and> truthy (jget ''storageLocation'' payload)
      then [artifact ''storage'' (py_str (jget ''storageLocation'' payload))] else [])"

definition run_artifacts :: "json \<Rightarrow> deletion_artifact list" where
  "run_artifacts item =
     (case as_dict item of
        None \<Rightarrow> []
      | Some run \<Rightarrow>
          (case as_dict (jget ''queryEngineTable'' run) of
             Some t \<Rightarrow>
               if is_iceberg (jget ''queryEngineTable'' run) \<and> truthy (jget ''table'' t)
               then [artifact ''iceberg_table'' (table_location t)]
               else if truthy (jget ''storageLocation'' run) then [artifact ''storage'' (py_str (jget ''storageLocation'' run))] else []
           | None \<Rightarrow>
               if truthy (jget ''storageLocation'' run) then [artifact ''storage'' (py_str (jget ''storageLocation'' run))] else []))"

definition dataset_artifacts :: "dict \<Rightarrow> deletion_artifact list res" where
  "dataset_artifacts payload =
     bind_res (py_list (por (jget ''materializationRuns'' payload) (JList []))) (\<lambda>runs.
     Inr (query_table_artifacts payload @ clickhouse_artifacts payload @ storage_artifacts payload
          @ concat (map run_artifacts runs)))"

definition storage_blocker :: "string \<Rightarrow> string \<Rightarrow> deletion_blocker" where
  "storage_blocker location reason = blocker ''storage'' location location reason"

definition ownership_blockers ::
  "lake_settings \<Rightarrow> lake_world \<Rightarrow> query_dataset \<Rightarrow> deletion_artifact \<Rightarrow> deletion_blocker list res" where
  "ownership_blockers cfg w d a =
     bind_res (if af_kind a \<in> {''storage'', ''rag_checkpoint''} then is_managed_storage_location cfg w (af_location a) d else Inr True)
       (\<lambda>managed.
     Inr ((if managed then [] else [storage_blocker (af_location a) reason_storage])
       @ (if af_kind a = ''iceberg_table'' \<and> length (table_parts (af_location a)) = 3
             \<and> hd (table_parts (af_location a)) \<noteq> ls_trino_catalog cfg
          then [storage_blocker (af_location a) reason_iceberg] else [])
       @ (if af_kind a = ''clickhouse_table''
             \<and> strip_quotes (fst (cut_at {CHR ''.''} (af_location a))) \<noteq> ls_clickhouse_database cfg
          then [storage_blocker (af_location a) reason_clickhouse] else [])))"

definition artifact_ownership_blockers ::
  "lake_settings \<Rightarrow> lake_world \<Rightarrow> query_dataset \<Rightarrow> deletion_artifact list \<Rightarrow> deletion_blocker list res" where
  "artifact_ownership_blockers cfg w d artifacts =
     bind_res (map_res (ownership_blockers cfg w d) artifacts) (\<lambda>bs. Inr (concat bs))"

fun unique_from :: "'k list \<Rightarrow> ('a \<Rightarrow> 'k) \<Rightarrow> 'a list \<Rightarrow> 'a list" where
  "unique_from seen key [] = []"
| "unique_from seen key (x # xs) =
     (if key x \<in> set seen then unique_from seen key xs else x # unique_from (key x # seen) key xs)"

definition unique_items :: "'a list \<Rightarrow> ('a \<Rightarrow> 'k) \<Rightarrow> 'a list" where
  "unique_items items key = unique_from [] key items"

definition blocker_key :: "deletion_blocker \<Rightarrow> string \<times> string \<times> string" where
  "blocker_key b = (bk_resource_type b, bk_resource_id b, bk_reason b)"

definition artifact_key :: "deletion_artifact \<Rightarrow> string \<times> string" where
  "artifact_key a = (af_kind a, af_location a)"

definition retained_resources :: "string list" where
  "retained_resources = [''audit events'', ''completed ETL/SQL run history'', ''stopped producer job definitions'', ''deletion receipt'']"

definition estimated_size :: "deletion_dataset \<Rightarrow> int" where
  "estimated_size d =
     (let size = sum_list (map snd (filter (\<lambda>(loc, n). some_text loc \<noteq> []) (dd_runs d)))
      in if size \<noteq> 0 then size else (case dd_storage_size_bytes d of None \<Rightarrow> 0 | Some n \<Rightarrow> n))"

definition build_deletion_impact ::
  "lake_settings \<Rightarrow> lake_world \<Rightarrow> lake_db \<Rightarrow> deletion_dataset \<Rightarrow> dict \<Rightarrow> deletion_impact res" where
  "build_deletion_impact cfg w s d payload =
     bind_res (dependency_blockers (qd_id (dd_dataset d)) payload s) (\<lambda>dependencies.
     bind_res (dataset_artifacts payload) (\<lambda>artifacts.
     bind_res (artifact_ownership_blockers cfg w (dd_dataset d) artifacts) (\<lambda>ownership.
     let blockers = unique_items (workload_blockers (qd_id (dd_dataset d)) s @ dependencies @ ownership) blocker_key
     in Inr \<lparr>im_artifacts = unique_items artifacts artifact_key, im_blockers = blockers, im_can_delete = (blockers = []),
             im_dataset_id = qd_id (dd_dataset d), im_dataset_name = qd_name (dd_dataset d),
             im_estimated_size_bytes = estimated_size d, im_retained_resources = retained_resources\<rparr>)))"

subsection \<open>The stored impact\<close>

text \<open>\<open>impact.model_dump(by_alias=True)\<close>\<close>

definition artifact_dump :: "deletion_artifact \<Rightarrow> json" where
  "artifact_dump a = JObj [(''kind'', JStr (af_kind a)), (''location'', JStr (af_location a))]"

definition blocker_dump :: "deletion_blocker \<Rightarrow> json" where
  "blocker_dump b = JObj [(''resourceType'', JStr (bk_resource_type b)), (''resourceId'', JStr (bk_resource_id b)),
     (''resourceName'', JStr (bk_resource_name b)), (''reason'', JStr (bk_reason b))]"

definition impact_dump :: "deletion_impact \<Rightarrow> dict" where
  "impact_dump i =
     [(''artifacts'', JList (map artifact_dump (im_artifacts i))), (''blockers'', JList (map blocker_dump (im_blockers i))),
      (''canDelete'', JBool (im_can_delete i)), (''datasetId'', JStr (im_dataset_id i)),
      (''datasetName'', JStr (im_dataset_name i)), (''estimatedSizeBytes'', JInt (im_estimated_size_bytes i)),
      (''retainedResources'', JList (map JStr (im_retained_resources i)))]"

text \<open>\<open>CatalogDatasetDeletionImpact.model_validate\<close>, by the declared types of the fields; a field may carry its alias or its name.\<close>

definition impact_invalid :: py_error where
  "impact_invalid = ValueError ''validation error for CatalogDatasetDeletionImpact''"

fun text_value :: "json option \<Rightarrow> string res" where
  "text_value (Some (JStr s)) = Inr s"
| "text_value _ = Inl impact_invalid"

fun list_value :: "json option \<Rightarrow> json list res" where
  "list_value None = Inr []"
| "list_value (Some (JList xs)) = Inr xs"
| "list_value _ = Inl impact_invalid"

fun dict_value :: "json \<Rightarrow> dict res" where
  "dict_value (JObj d) = Inr d"
| "dict_value _ = Inl impact_invalid"

definition artifact_validate :: "json \<Rightarrow> deletion_artifact res" where
  "artifact_validate v =
     bind_res (dict_value v) (\<lambda>d.
     bind_res (text_value (map_of d ''kind'')) (\<lambda>kind.
     bind_res (text_value (map_of d ''location'')) (\<lambda>location. Inr (artifact kind location))))"

definition blocker_validate :: "json \<Rightarrow> deletion_blocker res" where
  "blocker_validate v =
     bind_res (dict_value v) (\<lambda>d.
     bind_res (text_value (field ''resourceType'' ''resource_type'' d)) (\<lambda>t.
     bind_res (text_value (field ''resourceId'' ''resource_id'' d)) (\<lambda>i.
     bind_res (text_value (field ''resourceName'' ''resource_name'' d)) (\<lambda>n.
     bind_res (text_value (map_of d ''reason'')) (\<lambda>r. Inr (blocker t i n r))))))"

definition impact_validate :: "dict \<Rightarrow> deletion_impact res" where
  "impact_validate d =
     bind_res (bind_res (list_value (map_of d ''artifacts'')) (map_res artifact_validate)) (\<lambda>artifacts.
     bind_res (bind_res (list_value (map_of d ''blockers'')) (map_res blocker_validate)) (\<lambda>blockers.
     bind_res (case field ''canDelete'' ''can_delete'' d of Some (JBool b) \<Rightarrow> Inr b | _ \<Rightarrow> Inl impact_invalid) (\<lambda>can_delete.
     bind_res (text_value (field ''datasetId'' ''dataset_id'' d)) (\<lambda>dataset_id.
     bind_res (text_value (field ''datasetName'' ''dataset_name'' d)) (\<lambda>dataset_name.
     bind_res (case field ''estimatedSizeBytes'' ''estimated_size_bytes'' d of
         None \<Rightarrow> Inr 0 | Some (JInt n) \<Rightarrow> Inr n | _ \<Rightarrow> Inl impact_invalid) (\<lambda>size.
     bind_res (bind_res (list_value (field ''retainedResources'' ''retained_resources'' d)) (map_res (\<lambda>v. text_value (Some v)))) (\<lambda>retained.
     Inr \<lparr>im_artifacts = artifacts, im_blockers = blockers, im_can_delete = can_delete, im_dataset_id = dataset_id,
          im_dataset_name = dataset_name, im_estimated_size_bytes = size, im_retained_resources = retained\<rparr>)))))))"

subsection \<open>Facts\<close>

lemma artifact_round_trip: "artifact_validate (artifact_dump a) = Inr a"
  by (simp add: artifact_validate_def artifact_dump_def artifact_def)

lemma blocker_round_trip: "blocker_validate (blocker_dump b) = Inr b"
  by (simp add: blocker_validate_def blocker_dump_def blocker_def field_def)

lemma map_res_round_trip: "(\<And>x. x \<in> set xs \<Longrightarrow> f (g x) = Inr x) \<Longrightarrow> map_res f (map g xs) = Inr xs"
  by (induction xs) simp_all

lemma impact_round_trip: "impact_validate (impact_dump i) = Inr i"
  by (simp add: impact_validate_def impact_dump_def field_def map_res_round_trip artifact_round_trip blocker_round_trip)

text \<open>\<open>unique_items\<close> keeps one item of every key.\<close>

lemma unique_from_set: "set (unique_from seen key xs) \<subseteq> set xs"
  by (induction seen key xs rule: unique_from.induct) auto

lemma unique_from_keys:
  "key ` set (unique_from seen key xs) = key ` set xs - set seen" "distinct (map key (unique_from seen key xs))"
proof (induction xs arbitrary: seen)
  case (Cons x xs)
  case 1 show ?case using Cons(1) [of seen] Cons(1) [of "key x # seen"] by auto
  case 2 show ?case using Cons(1) [of "key x # seen"] Cons(2) by simp
qed simp_all

lemma unique_items_keys:
  "key ` set (unique_items xs key) = key ` set xs" "distinct (map key (unique_items xs key))"
  "set (unique_items xs key) \<subseteq> set xs"
  by (simp_all add: unique_items_def unique_from_keys unique_from_set)

lemma unique_items_empty [simp]: "unique_items xs key = [] \<longleftrightarrow> xs = []"
  using unique_items_keys(1) [of key xs] by (metis empty_set image_is_empty set_empty)

lemma artifact_keys: "artifact_key a = artifact_key b \<longleftrightarrow> a = b"
  by (cases a; cases b) (simp add: artifact_key_def)

end
