(* ===== verification/Dataset_Deletion.thy ===== *)
theory Dataset_Deletion
  imports Deletion_Impact
begin

section \<open>Dataset deletion: the service and its worker\<close>

text \<open>
  The rest of \<open>application/catalog_dataset_deletion.py\<close>: the removal of the metadata, the worker that carries out a
  receipt, and the service behind the three endpoints of \<open>api/catalog.py\<close>.

  A worker runs in a session of its own: \<open>wk_committed\<close> is what other sessions see, \<open>wk_db\<close> what this session
  has written, and \<open>wk_calls\<close> the calls made to storage and the query engines, which no rollback takes back.
  \<open>ls_tx_aborts\<close> says whether a failed statement makes every later statement of the transaction fail, as in PostgreSQL, or
  not, as in SQLite. \<open>json.loads\<close> of a text column is a parameter, since the model of JSON has no fractions.
\<close>

subsection \<open>Metadata\<close>

record deletion_settings =
  ds_lake :: lake_settings
  ds_tx_aborts :: bool
  ds_json_loads :: "string \<Rightarrow> json option"
  ds_dataset_model :: dataset_model
  ds_grant_model :: grant_model

text \<open>
  The text PostgreSQL makes of a JSON document (the order of the keys is that of the list), and
  \<open>LIKE '%' || id || '%'\<close> on it, where \<open>_\<close> and \<open>%\<close> of the identifier are wildcards and a backslash quotes the next character.
\<close>

fun sql_like :: "string \<Rightarrow> string \<Rightarrow> bool" where
  "sql_like [] s = (s = [])"
| "sql_like (p # ps) s =
     (if p = CHR ''%'' then sql_like ps s \<or> (case s of [] \<Rightarrow> False | _ # cs \<Rightarrow> sql_like (p # ps) cs)
      else if p = bs then
        (case ps of [] \<Rightarrow> False | q # qs \<Rightarrow> (case s of [] \<Rightarrow> False | c # cs \<Rightarrow> c = q \<and> sql_like qs cs))
      else (case s of [] \<Rightarrow> False | c # cs \<Rightarrow> (p = CHR ''_'' \<or> c = p) \<and> sql_like ps cs))"

definition sql_contains :: "string \<Rightarrow> string \<Rightarrow> bool" where
  "sql_contains text part = sql_like (''%'' @ part @ ''%'') text"

definition mentions_run :: "string \<Rightarrow> sql_run \<Rightarrow> bool" where
  "mentions_run dataset_id r \<longleftrightarrow> sr_dataset_id r = dataset_id \<or> nested_contains (JObj (sr_payload r)) dataset_id"

definition matching_runs :: "string \<Rightarrow> lake_db \<Rightarrow> sql_run list" where
  "matching_runs dataset_id s =
     filter (mentions_run dataset_id)
       (filter (\<lambda>r. sr_dataset_id r = dataset_id \<or> sql_contains (json_dumps_plain False (JObj (sr_payload r))) dataset_id)
         (lk_sql_runs s))"

definition delete_dataset_sql_metadata :: "string \<Rightarrow> (lake_db, string set) op" where
  "delete_dataset_sql_metadata dataset_id =
     bind_op (read_op (\<lambda>s. sr_id ` set (matching_runs dataset_id s))) (\<lambda>run_ids.
     bind_op (write_op (\<lambda>s. s\<lparr>lk_sql_pages := filter (\<lambda>p. sg_run_id p \<notin> run_ids) (lk_sql_pages s),
         lk_sql_runs := filter (\<lambda>r. sr_id r \<notin> run_ids) (lk_sql_runs s)\<rparr>)) (\<lambda>_.
     return_op run_ids))"

definition aborted_transaction :: py_error where
  "aborted_transaction = ServiceError (Some ''2j85'') ''current transaction is aborted, commands ignored until end of transaction block''"

text \<open>The two attempts to read the cards; \<open>None\<close> when the second attempt runs in an aborted transaction.\<close>

definition dashboard_rows :: "deletion_settings \<Rightarrow> lake_db \<Rightarrow> dashboard_card list option" where
  "dashboard_rows cfg s =
     (case lk_dashboards_shape s of
        FullDashboards \<Rightarrow> Some (lk_dashboards s)
      | NoSourceRun \<Rightarrow> if ds_tx_aborts cfg then None else Some (map (\<lambda>c. c\<lparr>dc_source_run_id := JNull\<rparr>) (lk_dashboards s))
      | NoDashboards \<Rightarrow> if ds_tx_aborts cfg then None else Some [])"

definition card_payload :: "deletion_settings \<Rightarrow> json \<Rightarrow> dict" where
  "card_payload cfg raw =
     (case (case raw of JStr s \<Rightarrow> (case ds_json_loads cfg s of None \<Rightarrow> JObj [] | Some v \<Rightarrow> v) | _ \<Rightarrow> raw) of
        JObj d \<Rightarrow> d | _ \<Rightarrow> [])"

definition card_uses_dataset :: "deletion_settings \<Rightarrow> string \<Rightarrow> string set \<Rightarrow> dashboard_card \<Rightarrow> bool" where
  "card_uses_dataset cfg dataset_id run_ids c \<longleftrightarrow>
     (let p = card_payload cfg (dc_payload c)
      in str_of (dc_dataset_id c) = dataset_id \<or> str_of (dc_source_run_id c) \<in> run_ids
         \<or> str_of (jget ''datasetId'' p) = dataset_id \<or> str_of (jget ''sourceRunId'' p) \<in> run_ids
         \<or> nested_contains (JObj p) dataset_id)"

definition widget_dashboards :: "string \<Rightarrow> lake_db \<Rightarrow> string set" where
  "widget_dashboards dataset_id s =
     (let page_ids = dw_page_id ` set (filter (\<lambda>w. dw_dataset_id w = Some dataset_id) (lk_widgets s));
          revision_ids = dp_revision_id ` set (filter (\<lambda>p. dp_id p \<in> page_ids) (lk_pages s))
      in bv_dashboard_id ` set (filter (\<lambda>r. bv_id r \<in> revision_ids) (lk_revisions s)))"

definition drop_dashboards :: "string set \<Rightarrow> lake_db \<Rightarrow> lake_db" where
  "drop_dashboards ids s =
     (let revision_ids = bv_id ` set (filter (\<lambda>r. bv_dashboard_id r \<in> ids) (lk_revisions s));
          page_ids = dp_id ` set (filter (\<lambda>p. dp_revision_id p \<in> revision_ids) (lk_pages s))
      in s\<lparr>lk_widgets := filter (\<lambda>w. dw_page_id w \<notin> page_ids) (lk_widgets s),
           lk_pages := filter (\<lambda>p. dp_id p \<notin> page_ids) (lk_pages s),
           lk_revisions := filter (\<lambda>r. bv_id r \<notin> revision_ids) (lk_revisions s)\<rparr>)"

definition delete_dataset_dashboards :: "deletion_settings \<Rightarrow> string \<Rightarrow> string set \<Rightarrow> (lake_db, unit) op" where
  "delete_dataset_dashboards cfg dataset_id run_ids =
     bind_op (read_op (dashboard_rows cfg)) (\<lambda>found.
       case found of
         None \<Rightarrow> raise_op aborted_transaction
       | Some cards \<Rightarrow>
           bind_op (read_op (\<lambda>s. dc_id ` set (filter (card_uses_dataset cfg dataset_id run_ids) cards) \<union> widget_dashboards dataset_id s))
             (\<lambda>ids.
           bind_op (write_op (drop_dashboards ids)) (\<lambda>_.
           bind_op (read_op (\<lambda>s. ids \<noteq> {} \<and> lk_tags s = None \<and> ds_tx_aborts cfg)) (\<lambda>aborted.
           bind_op (check_op (\<not> aborted) aborted_transaction) (\<lambda>_.
           bind_op (read_op (\<lambda>s. ids \<noteq> {} \<and> lk_dashboards_shape s = NoDashboards)) (\<lambda>missing.
           bind_op (check_op (\<not> missing) (ServiceError (Some ''e3q8'') ''no such table: dashboards'')) (\<lambda>_.
           write_op (\<lambda>s. s\<lparr>lk_tags := map_option (filter (\<lambda>t. fst t \<notin> ids)) (lk_tags s),
             lk_dashboards := filter (\<lambda>c. dc_id c \<notin> ids) (lk_dashboards s)\<rparr>))))))))"

definition delete_dataset_semantic_metadata :: "string \<Rightarrow> (lake_db, unit) op" where
  "delete_dataset_semantic_metadata dataset_id =
     bind_op (read_op (\<lambda>s. set (semantic_model_ids dataset_id s))) (\<lambda>model_ids.
     bind_op (write_op (\<lambda>s. s\<lparr>lk_members := filter (\<lambda>r. \<not> names_dataset dataset_id r) (lk_members s),
         lk_metrics := filter (\<lambda>r. \<not> names_dataset dataset_id r) (lk_metrics s),
         lk_dimensions := filter (\<lambda>r. \<not> names_dataset dataset_id r) (lk_dimensions s),
         lk_relationships := filter (\<lambda>r. \<not> relates_dataset dataset_id r) (lk_relationships s)\<rparr>)) (\<lambda>_.
     bind_op (read_op (\<lambda>s. model_ids - sx_model_id ` set (lk_members s))) (\<lambda>orphaned.
     write_op (\<lambda>s. s\<lparr>lk_vocabulary := filter (\<lambda>r. sx_model_id r \<notin> orphaned) (lk_vocabulary s),
       lk_versions := filter (\<lambda>r. sx_model_id r \<notin> orphaned) (lk_versions s),
       lk_models := filter (\<lambda>m. sm_id m \<notin> orphaned) (lk_models s)\<rparr>))))"

definition delete_dataset_rows :: "string \<Rightarrow> lake_db \<Rightarrow> lake_db" where
  "delete_dataset_rows dataset_id s =
     s\<lparr>lk_batch_results := filter (\<lambda>r. dr_dataset_id r \<noteq> dataset_id) (lk_batch_results s),
       lk_widget_results := filter (\<lambda>r. dr_dataset_id r \<noteq> dataset_id) (lk_widget_results s),
       lk_cursors := filter (\<lambda>r. dr_dataset_id r \<noteq> dataset_id) (lk_cursors s),
       lk_store := (lk_store s)\<lparr>
         db_freshness := filter (\<lambda>r. fr_dataset_id r \<noteq> dataset_id) (db_freshness (lk_store s)),
         db_commits := filter (\<lambda>r. co_dataset_id r \<noteq> dataset_id) (db_commits (lk_store s)),
         db_catalog := filter (\<lambda>r. cd_id r \<noteq> dataset_id) (lk_catalog s)\<rparr>,
       lk_access := (lk_access s)\<lparr>
         ad_grants := filter (\<lambda>g. grant_resource g \<noteq> (''dataset'', dataset_id)) (ad_grants (lk_access s)),
         ad_locks := filter (\<lambda>l. lock_key l \<noteq> (''dataset'', dataset_id)) (ad_locks (lk_access s))\<rparr>\<rparr>"

definition delete_dataset_metadata :: "deletion_settings \<Rightarrow> string \<Rightarrow> (lake_db, unit) op" where
  "delete_dataset_metadata cfg dataset_id =
     bind_op (delete_dataset_sql_metadata dataset_id) (\<lambda>run_ids.
     bind_op (delete_dataset_dashboards cfg dataset_id run_ids) (\<lambda>_.
     bind_op (delete_dataset_semantic_metadata dataset_id) (\<lambda>_.
     write_op (delete_dataset_rows dataset_id))))"

subsection \<open>Actors in receipts\<close>

definition actor_snapshot :: "ActorContext \<Rightarrow> dict" where
  "actor_snapshot a =
     [(''email'', of_opt_str (act_email a)), (''groups'', JList (map JStr (act_groups a))), (''id'', of_opt_str (act_id a)),
      (''name'', JStr (act_name a)), (''role'', JStr (act_role a))]"

definition text_or_none :: "json \<Rightarrow> string option" where
  "text_or_none v = (if str_of v = [] then None else Some (str_of v))"

definition actor_from_snapshot :: "dict \<Rightarrow> ActorContext res" where
  "actor_from_snapshot d =
     bind_res (py_list (por (jget ''groups'' d) (JList []))) (\<lambda>groups.
     Inr \<lparr>act_name = py_str (por (jget ''name'' d) (JStr ''anonymous'')), act_role = py_str (por (jget ''role'' d) (JStr ''viewer'')),
          act_groups = map py_str groups, act_id = text_or_none (jget ''id'' d), act_email = text_or_none (jget ''email'' d),
          act_title = None\<rparr>)"

definition actor_matches :: "ActorContext \<Rightarrow> ActorContext \<Rightarrow> bool" where
  "actor_matches l r \<longleftrightarrow>
     (some_text (act_id l) \<noteq> [] \<and> act_id l = act_id r) \<or> (some_text (act_email l) \<noteq> [] \<and> act_email l = act_email r)
     \<or> act_name l = act_name r"

subsection \<open>The worker\<close>

record worker =
  wk_committed :: lake_db
  wk_db :: lake_db
  wk_calls :: "lake_call list"

definition in_session :: "(lake_db, 'a) op \<Rightarrow> (worker, 'a) run" where
  "in_session m = (\<lambda>s. case m (wk_db s) of (r, d) \<Rightarrow> Some (r, s\<lparr>wk_db := d\<rparr>))"

definition commit :: "(worker, unit) run" where
  "commit = (\<lambda>s. Some (Inr (), s\<lparr>wk_committed := wk_db s\<rparr>))"

definition rollback :: "worker \<Rightarrow> worker" where
  "rollback s = s\<lparr>wk_db := wk_committed s\<rparr>"

definition outside :: "(lake_call list, 'a) run \<Rightarrow> (worker, 'a) run" where
  "outside m = (\<lambda>s. case m (wk_calls s) of None \<Rightarrow> None | Some (r, c) \<Rightarrow> Some (r, s\<lparr>wk_calls := c\<rparr>))"

definition get_worker :: "(worker \<Rightarrow> 'a) \<Rightarrow> (worker, 'a) run" where
  "get_worker f = lift_run (read_op f)"

text \<open>\<open>CatalogPhysicalPurger.purge\<close> on the snapshots of the receipt.\<close>

definition purge ::
  "deletion_settings \<Rightarrow> environment \<Rightarrow> dict \<Rightarrow> dict \<Rightarrow> (lake_call list, unit) run" where
  "purge cfg env dataset_snapshot impact_snapshot =
     bind_run (lift_run (lift_res (ds_dataset_model cfg dataset_snapshot))) (\<lambda>d.
     bind_run (lift_run (lift_res (impact_validate impact_snapshot))) (\<lambda>impact.
     purge_artifacts (ds_lake cfg) env (dd_dataset d) (im_artifacts impact)))"

definition deletion_audit :: "deletion_row \<Rightarrow> ActorContext \<Rightarrow> dict \<Rightarrow> audit_entry" where
  "deletion_audit r actor impact =
     \<lparr>en_action = ''catalog.dataset.deleted'', en_actor = actor,
      en_api_path = ''/api/catalog/datasets/'' @ dl_dataset_id r, en_target_id = dl_dataset_id r,
      en_target_type = AuditDataset, en_result = ''success'', en_http_method = Some ''DELETE'',
      en_metadata = [(''deletionId'', JStr (dl_id r)), (''impact'', JObj impact)],
      en_request_id = None, en_status_code = Some 200, en_target_name = Some (dl_dataset_name r)\<rparr>"

definition validate_deletion :: "deletion_settings \<Rightarrow> environment \<Rightarrow> string \<Rightarrow> worker \<Rightarrow> (dict \<times> dict) res" where
  "validate_deletion cfg env dataset_id s =
     (case catalog_model dataset_id (wk_db s) of
        None \<Rightarrow> Inl (RuntimeError ''CATALOG_DATASET_NOT_FOUND_DURING_DELETE'')
      | Some m \<Rightarrow>
          bind_res (dataset_model_to_payload m) (\<lambda>payload.
          bind_res (ds_dataset_model cfg payload) (\<lambda>d.
          bind_res (build_deletion_impact (ds_lake cfg) (env (wk_calls s)) (wk_db s) d payload) (\<lambda>impact.
          if im_blockers impact \<noteq> [] then Inl (RuntimeError ''CATALOG_DATASET_DELETE_BLOCKED'')
          else Inr (payload, impact_dump impact)))))"

definition finish_deletion ::
  "deletion_settings \<Rightarrow> audit_ids \<Rightarrow> timestamp \<Rightarrow> deletion_row \<Rightarrow> dict \<Rightarrow> (lake_db, unit) op" where
  "finish_deletion cfg ids now row impact =
     bind_op (update_status (dl_id row) DelMetadataCleanup None None now) (\<lambda>_.
     bind_op (delete_dataset_metadata cfg (dl_dataset_id row)) (\<lambda>_.
     bind_op (lift_res (actor_from_snapshot (dl_actor_snapshot row))) (\<lambda>actor.
     bind_op (on_access (add_audit_event ids (deletion_audit row actor impact))) (\<lambda>_.
     update_status (dl_id row) DelSucceeded None None now))))"

definition carry_out_deletion ::
  "deletion_settings \<Rightarrow> environment \<Rightarrow> audit_ids \<Rightarrow> timestamp \<Rightarrow> deletion_row \<Rightarrow> (worker, unit) run" where
  "carry_out_deletion cfg env ids now row =
     bind_run (get_worker (validate_deletion cfg env (dl_dataset_id row))) (\<lambda>checked.
     bind_run (lift_run (lift_res checked)) (\<lambda>(payload, impact).
     bind_run (in_session (put_deletion (dl_id row) (\<lambda>r. r\<lparr>dl_dataset_snapshot := payload, dl_impact_snapshot := impact\<rparr>) now)) (\<lambda>_.
     bind_run (in_session (update_status (dl_id row) DelPurging None None now)) (\<lambda>_.
     bind_run (outside (purge cfg env payload impact)) (\<lambda>_.
     bind_run (in_session (finish_deletion cfg ids now row impact)) (\<lambda>_.
     commit))))))"

fun exc_code :: "py_error \<Rightarrow> string option" where
  "exc_code (IntegrityError m) = Some ''gkpj''"
| "exc_code (ClickHouseError c m) = Some c"
| "exc_code (ServiceError c m) = c"
| "exc_code (ApiError c m n d) = Some c"
| "exc_code e = None"

definition deletion_error_code :: "py_error \<Rightarrow> string" where
  "deletion_error_code e =
     (let message = py_strip (exc_text e)
      in first_text [exc_code e]
           (if message \<noteq> [] \<and> py_upper message = message \<and> CHR '' '' \<notin> set message
            then py_take 120 message else ''CATALOG_DATASET_DELETE_FAILED''))"

fun exc_name :: "py_error \<Rightarrow> string" where
  "exc_name (ValueError _) = ''ValueError''"
| "exc_name (RuntimeError _) = ''RuntimeError''"
| "exc_name (TypeError _) = ''TypeError''"
| "exc_name (IntegrityError _) = ''IntegrityError''"
| "exc_name (IndexError _) = ''IndexError''"
| "exc_name (KeyError _) = ''KeyError''"
| "exc_name (LookupError _) = ''LookupError''"
| "exc_name (AttributeError _) = ''AttributeError''"
| "exc_name UnicodeDecodeError = ''UnicodeDecodeError''"
| "exc_name DecimalOverflow = ''Overflow''"
| "exc_name (KafkaConnectError _) = ''KafkaConnectError''"
| "exc_name (ClickHouseError _ _) = ''ClickHouseError''"
| "exc_name (ServiceError _ _) = ''Exception''"
| "exc_name (ApiError _ _ _ _) = ''ApiError''"

definition deletion_error_message :: "py_error \<Rightarrow> string" where
  "deletion_error_message e = (if py_take 1000 (exc_text e) = [] then exc_name e else py_take 1000 (exc_text e))"

definition mark_deletion_failed :: "py_error \<Rightarrow> timestamp \<Rightarrow> string \<Rightarrow> (worker, unit) run" where
  "mark_deletion_failed e now i =
     bind_run (get_worker (\<lambda>s. get_deletion i (wk_db s))) (\<lambda>found.
       case found of
         None \<Rightarrow> lift_run (return_op ())
       | Some _ \<Rightarrow>
           bind_run (in_session (update_status i DelFailed (Some (deletion_error_code e)) (Some (deletion_error_message e)) now))
             (\<lambda>_. commit))"

definition process_claimed_deletion ::
  "deletion_settings \<Rightarrow> environment \<Rightarrow> audit_ids \<Rightarrow> timestamp \<Rightarrow> deletion_row \<Rightarrow> (worker, unit) run" where
  "process_claimed_deletion cfg env ids now row = (\<lambda>s.
     case carry_out_deletion cfg env ids now row s of
       None \<Rightarrow> None
     | Some (Inr u, t) \<Rightarrow> Some (Inr u, t)
     | Some (Inl e, t) \<Rightarrow> mark_deletion_failed e now (dl_id row) (rollback t))"

definition process_deletion_by_id ::
  "deletion_settings \<Rightarrow> environment \<Rightarrow> audit_ids \<Rightarrow> string set \<Rightarrow> timestamp \<Rightarrow> string \<Rightarrow> (worker, unit) run" where
  "process_deletion_by_id cfg env ids locked now deletion_id =
     bind_run (in_session (claim locked now deletion_id)) (\<lambda>row.
       case row of None \<Rightarrow> lift_run (return_op ()) | Some r \<Rightarrow> process_claimed_deletion cfg env ids now r)"

definition process_next_deletion ::
  "deletion_settings \<Rightarrow> environment \<Rightarrow> audit_ids \<Rightarrow> string set \<Rightarrow> timestamp \<Rightarrow> (worker, bool) run" where
  "process_next_deletion cfg env ids locked now =
     bind_run (in_session (claim_next locked now)) (\<lambda>row.
       case row of
         None \<Rightarrow> lift_run (return_op False)
       | Some r \<Rightarrow> bind_run (process_claimed_deletion cfg env ids now r) (\<lambda>_. lift_run (return_op True)))"

definition new_session :: "lake_db \<Rightarrow> lake_call list \<Rightarrow> worker" where
  "new_session d calls = \<lparr>wk_committed = d, wk_db = d, wk_calls = calls\<rparr>"

subsection \<open>The service\<close>

definition dataset_not_found :: py_error where
  "dataset_not_found = ApiError ''NOT_FOUND'' ''Dataset not found'' 404 []"

definition deletion_request_path :: "string \<Rightarrow> string option \<Rightarrow> string" where
  "deletion_request_path dataset_id suffix =
     ''/api/catalog/datasets/'' @ dataset_id @ (case some_text suffix of [] \<Rightarrow> '''' | v # _ \<Rightarrow> ''/'' @ v)"

definition deletion_access :: "query_dataset \<Rightarrow> string \<Rightarrow> string \<Rightarrow> access_request" where
  "deletion_access d path http_verb =
     \<lparr>rq_action = ''delete'', rq_api_path = path, rq_http_method = http_verb, rq_metadata = [(''owner'', JStr (qd_owner d))],
      rq_resource_id = qd_id d, rq_resource_name = Some (qd_name d), rq_resource_type = ''dataset''\<rparr>"

definition authorized_dataset ::
  "deletion_settings \<Rightarrow> audit_ids \<Rightarrow> string \<Rightarrow> ActorContext \<Rightarrow> string option \<Rightarrow> string \<Rightarrow> (lake_db, deletion_dataset \<times> dict) op" where
  "authorized_dataset cfg ids dataset_id actor suffix http_verb =
     bind_op (get_dataset_payload dataset_id) (\<lambda>found.
       case found of
         None \<Rightarrow> raise_op dataset_not_found
       | Some payload \<Rightarrow>
           bind_op (lift_res (ds_dataset_model cfg payload)) (\<lambda>read.
           bind_op (\<lambda>s. (dataset_with_persisted_permission_grants (ds_grant_model cfg) (lk_access s) (dd_dataset read), s)) (\<lambda>d.
           bind_op (on_access (require_governed_access ids actor
             (deletion_access d (deletion_request_path dataset_id suffix) http_verb))) (\<lambda>_.
           bind_op (lift_res (require_permission actor ''delete'' (Some (qd_owner d)) (map GrantObject (qd_grants d)) ''dataset'')) (\<lambda>_.
           return_op (read\<lparr>dd_dataset := d\<rparr>, payload))))))"

definition impact_of ::
  "deletion_settings \<Rightarrow> lake_world \<Rightarrow> audit_ids \<Rightarrow> string \<Rightarrow> ActorContext \<Rightarrow> (lake_db, deletion_impact) op" where
  "impact_of cfg w ids dataset_id actor =
     bind_op (authorized_dataset cfg ids dataset_id actor (Some ''deletion-impact'') ''GET'') (\<lambda>(d, payload).
     (\<lambda>s. (build_deletion_impact (ds_lake cfg) w s d payload, s)))"

definition raise_if_existing_deletion :: "string \<Rightarrow> (lake_db, unit) op" where
  "raise_if_existing_deletion dataset_id =
     bind_op (read_op (latest_for_dataset dataset_id)) (\<lambda>existing.
       case existing of
         None \<Rightarrow> return_op ()
       | Some r \<Rightarrow> check_op (dl_status r = DelFailed)
           (ApiError ''CATALOG_DATASET_DELETION_EXISTS'' ''A deletion request already exists for this dataset.'' 409
             (deletion_details dataset_id r)))"

text \<open>The details of a refused request are the impact; errors keep texts, so each field is given by its JSON.\<close>

definition blocked_error :: "deletion_impact \<Rightarrow> py_error" where
  "blocked_error i = ApiError ''CATALOG_DATASET_DELETE_BLOCKED'' ''Dataset deletion is blocked by active or dependent resources.'' 409
     (map (\<lambda>(k, v). (k, Some (json_dumps_plain False v))) (impact_dump i))"

definition request_deletion ::
  "deletion_settings \<Rightarrow> lake_world \<Rightarrow> audit_ids \<Rightarrow> string \<Rightarrow> timestamp \<Rightarrow> string \<Rightarrow> ActorContext \<Rightarrow> string
    \<Rightarrow> (lake_db, string \<times> deletion_status) op" where
  "request_deletion cfg w ids uuid now dataset_id actor confirm_name =
     bind_op (authorized_dataset cfg ids dataset_id actor None ''DELETE'') (\<lambda>(d, payload).
     bind_op (check_op (confirm_name = qd_name (dd_dataset d))
       (ApiError ''CATALOG_DATASET_DELETE_CONFIRMATION_MISMATCH'' ''Dataset name confirmation does not match.'' 422
         [(''datasetId'', Some dataset_id)])) (\<lambda>_.
     bind_op (raise_if_existing_deletion dataset_id) (\<lambda>_.
     bind_op (get_dataset_payload_for_update dataset_id) (\<lambda>found.
       case found of
         None \<Rightarrow> raise_op dataset_not_found
       | Some locked_payload \<Rightarrow>
           bind_op (raise_if_existing_deletion dataset_id) (\<lambda>_.
           bind_op (lift_res (ds_dataset_model cfg locked_payload)) (\<lambda>locked.
           bind_op (\<lambda>s. (build_deletion_impact (ds_lake cfg) w s locked locked_payload, s)) (\<lambda>impact.
           bind_op (check_op (im_blockers impact = []) (blocked_error impact)) (\<lambda>_.
           create_or_retry uuid now (qd_id (dd_dataset locked)) (qd_name (dd_dataset locked))
             \<lparr>ss_actor = actor_snapshot actor, ss_dataset = locked_payload, ss_impact = impact_dump impact\<rparr>))))))))"

definition deletion_status_of :: "string \<Rightarrow> ActorContext \<Rightarrow> (lake_db, deletion_row) op" where
  "deletion_status_of deletion_id actor =
     bind_op (read_op (get_deletion deletion_id)) (\<lambda>found.
       case found of
         None \<Rightarrow> raise_op (ApiError ''NOT_FOUND'' ''Dataset deletion not found'' 404 [])
       | Some r \<Rightarrow>
           bind_op (lift_res (actor_from_snapshot (dl_actor_snapshot r))) (\<lambda>requester.
           bind_op (check_op (actor_is_admin actor \<or> actor_matches actor requester)
             (ApiError ''FORBIDDEN'' ''Dataset deletion status is not visible to this actor'' 403 [])) (\<lambda>_.
           return_op r)))"

subsection \<open>Runs of the worker\<close>

lemma in_session_iff: "in_session m s = Some (r, t) \<longleftrightarrow> (\<exists>d. m (wk_db s) = (r, d) \<and> t = s\<lparr>wk_db := d\<rparr>)"
  by (auto simp: in_session_def split: prod.splits)

lemma commit_iff: "commit s = Some (r, t) \<longleftrightarrow> r = Inr () \<and> t = s\<lparr>wk_committed := wk_db s\<rparr>"
  by (auto simp: commit_def)

lemma outside_iff: "outside m s = Some (r, t) \<longleftrightarrow> (\<exists>c. m (wk_calls s) = Some (r, c) \<and> t = s\<lparr>wk_calls := c\<rparr>)"
  by (auto simp: outside_def split: option.splits)

lemma get_worker_iff: "get_worker f s = Some (r, t) \<longleftrightarrow> r = Inr (f s) \<and> t = s"
  by (auto simp: get_worker_def lift_run_def read_op_def)

lemma lift_res_run_iff: "lift_run (lift_res x) s = Some (r, t) \<longleftrightarrow> r = x \<and> t = s"
  by (auto simp: lift_run_def lift_res_def)

lemmas run_iffs = bind_run_Some_iff in_session_iff commit_iff outside_iff get_worker_iff lift_res_run_iff

lemma put_deletion_run: "put_deletion i f now s = (Inr (), snd (put_deletion i f now s))"
  by (simp add: put_deletion_def write_op_def)

lemma update_status_run: "update_status i st c m now s = (Inr (), snd (update_status i st c m now s))"
  by (simp add: update_status_def put_deletion_run [symmetric])

text \<open>
  The five stages of a deletion. A run that raises has stopped in one of the first four; the committed state is
  still the one the session started from.
\<close>

definition before_purge :: "string \<Rightarrow> dict \<Rightarrow> dict \<Rightarrow> timestamp \<Rightarrow> lake_db \<Rightarrow> lake_db" where
  "before_purge i payload impact now s =
     snd (update_status i DelPurging None None now
       (snd (put_deletion i (\<lambda>r. r\<lparr>dl_dataset_snapshot := payload, dl_impact_snapshot := impact\<rparr>) now s)))"

lemma carry_out_deletion_eq:
  "carry_out_deletion cfg env ids now row s =
     (case validate_deletion cfg env (dl_dataset_id row) s of
        Inl e \<Rightarrow> Some (Inl e, s)
      | Inr (payload, impact) \<Rightarrow>
          (let db = before_purge (dl_id row) payload impact now (wk_db s)
           in case purge cfg env payload impact (wk_calls s) of
                None \<Rightarrow> None
              | Some (Inl e, calls) \<Rightarrow> Some (Inl e, s\<lparr>wk_db := db, wk_calls := calls\<rparr>)
              | Some (Inr u, calls) \<Rightarrow>
                  (case finish_deletion cfg ids now row impact db of
                     (Inl e, d) \<Rightarrow> Some (Inl e, s\<lparr>wk_db := d, wk_calls := calls\<rparr>)
                   | (Inr u, d) \<Rightarrow> Some (Inr (), s\<lparr>wk_db := d, wk_calls := calls, wk_committed := d\<rparr>))))"
  by (simp add: carry_out_deletion_def bind_run_def get_worker_def lift_run_def read_op_def lift_res_def in_session_def
      outside_def commit_def before_purge_def put_deletion_def update_status_def write_op_def Let_def
      split: sum.splits prod.splits option.splits)

lemma carry_out_deletion_cases:
  assumes "carry_out_deletion cfg env ids now row s = Some (r, t)"
  obtains (refused) e where "validate_deletion cfg env (dl_dataset_id row) s = Inl e" and "r = Inl e" and "t = s"
  | (purge_failed) payload impact e calls where "validate_deletion cfg env (dl_dataset_id row) s = Inr (payload, impact)"
      and "purge cfg env payload impact (wk_calls s) = Some (Inl e, calls)" and "r = Inl e"
      and "t = s\<lparr>wk_db := before_purge (dl_id row) payload impact now (wk_db s), wk_calls := calls\<rparr>"
  | (cleanup_failed) payload impact e calls d where "validate_deletion cfg env (dl_dataset_id row) s = Inr (payload, impact)"
      and "purge cfg env payload impact (wk_calls s) = Some (Inr (), calls)" and "r = Inl e"
      and "finish_deletion cfg ids now row impact (before_purge (dl_id row) payload impact now (wk_db s)) = (Inl e, d)"
      and "t = s\<lparr>wk_db := d, wk_calls := calls\<rparr>"
  | (done_) payload impact calls d where "validate_deletion cfg env (dl_dataset_id row) s = Inr (payload, impact)"
      and "purge cfg env payload impact (wk_calls s) = Some (Inr (), calls)" and "r = Inr ()"
      and "finish_deletion cfg ids now row impact (before_purge (dl_id row) payload impact now (wk_db s)) = (Inr (), d)"
      and "t = s\<lparr>wk_db := d, wk_calls := calls, wk_committed := d\<rparr>"
proof (cases "validate_deletion cfg env (dl_dataset_id row) s")
  case v: (Inl e)
  show ?thesis by (rule refused [OF v]) (use assms v in \<open>simp_all add: carry_out_deletion_eq\<close>)
next
  case (Inr checked)
  obtain payload impact where "checked = (payload, impact)" by fastforce
  with Inr have v: "validate_deletion cfg env (dl_dataset_id row) s = Inr (payload, impact)" by simp
  let ?db = "before_purge (dl_id row) payload impact now (wk_db s)"
  obtain x calls where p: "purge cfg env payload impact (wk_calls s) = Some (x, calls)"
    using assms v by (cases "purge cfg env payload impact (wk_calls s)") (auto simp: carry_out_deletion_eq Let_def)
  obtain y d where f: "finish_deletion cfg ids now row impact ?db = (y, d)" by fastforce
  show ?thesis
  proof (cases x)
    case x: (Inl e)
    show ?thesis
      by (rule purge_failed [OF v p [unfolded x]]) (use assms v p x in \<open>simp_all add: carry_out_deletion_eq Let_def\<close>)
  next
    case x: (Inr u)
    have p': "purge cfg env payload impact (wk_calls s) = Some (Inr (), calls)" using p x by simp
    show ?thesis
    proof (cases y)
      case y: (Inl e)
      show ?thesis
        by (rule cleanup_failed [OF v p' _ f [unfolded y]]) (use assms v p' f y in \<open>simp_all add: carry_out_deletion_eq Let_def\<close>)
    next
      case y: (Inr u')
      show ?thesis
        by (rule done_ [OF v p' _ f [unfolded y, simplified]]) (use assms v p' f y in \<open>simp_all add: carry_out_deletion_eq Let_def\<close>)
    qed
  qed
qed

lemma validate_deletion_Inr:
  assumes "validate_deletion cfg env i s = Inr (payload, impact)"
  obtains m d im where "catalog_model i (wk_db s) = Some m" and "dataset_model_to_payload m = Inr payload"
    and "ds_dataset_model cfg payload = Inr d" and "impact = impact_dump im" and "im_blockers im = []"
    and "build_deletion_impact (ds_lake cfg) (env (wk_calls s)) (wk_db s) d payload = Inr im"
  using assms by (auto simp: validate_deletion_def bind_res_Inr_iff split: option.splits if_splits)

lemma purge_fresh:
  assumes "ds_dataset_model cfg payload = Inr d"
  shows "purge cfg env payload (impact_dump im) = purge_artifacts (ds_lake cfg) env (dd_dataset d) (im_artifacts im)"
  by (simp add: purge_def assms impact_round_trip fun_eq_iff bind_run_def lift_run_def lift_res_def)

text \<open>The dataset a deletion is about, as the catalog has it.\<close>

definition catalog_dataset :: "deletion_settings \<Rightarrow> string \<Rightarrow> lake_db \<Rightarrow> query_dataset \<Rightarrow> bool" where
  "catalog_dataset cfg i s d \<longleftrightarrow>
     (\<exists>m payload x. catalog_model i s = Some m \<and> dataset_model_to_payload m = Inr payload
        \<and> ds_dataset_model cfg payload = Inr x \<and> dd_dataset x = d)"

lemma carry_out_deletion_calls:
  assumes "carry_out_deletion cfg env ids now row s = Some (r, t)" and "lists_prefix env"
  shows "wk_calls t = wk_calls s
    \<or> (\<exists>d. catalog_dataset cfg (dl_dataset_id row) (wk_db s) d \<and> scoped (ds_lake cfg) env d (wk_calls s) (wk_calls t))"
proof -
  have purged: "\<exists>d. catalog_dataset cfg (dl_dataset_id row) (wk_db s) d \<and> scoped (ds_lake cfg) env d (wk_calls s) calls"
    if v: "validate_deletion cfg env (dl_dataset_id row) s = Inr (payload, impact)"
      and p: "purge cfg env payload impact (wk_calls s) = Some (x, calls)" for payload impact x calls
  proof -
    obtain m d im where "catalog_model (dl_dataset_id row) (wk_db s) = Some m" "dataset_model_to_payload m = Inr payload"
        and d: "ds_dataset_model cfg payload = Inr d" and im: "impact = impact_dump im"
      by (rule validate_deletion_Inr [OF v])
    then have "catalog_dataset cfg (dl_dataset_id row) (wk_db s) (dd_dataset d)" by (auto simp: catalog_dataset_def)
    moreover have "scoped (ds_lake cfg) env (dd_dataset d) (wk_calls s) calls"
      using p purge_artifacts_scoped [OF assms(2)] unfolding im purge_fresh [OF d] by blast
    ultimately show ?thesis by blast
  qed
  show ?thesis using assms(1) by (cases rule: carry_out_deletion_cases) (use purged in auto)
qed

lemma mark_deletion_failed_calls: "mark_deletion_failed e now i s = Some (r, t) \<Longrightarrow> wk_calls t = wk_calls s"
  by (auto simp: mark_deletion_failed_def run_iffs lift_run_def op_defs update_status_def put_deletion_def split: option.splits)

text \<open>What a failed attempt leaves: the receipt is marked, everything else is as it was, attempt counter included.\<close>

definition failed_with :: "py_error \<Rightarrow> timestamp \<Rightarrow> string \<Rightarrow> lake_db \<Rightarrow> lake_db" where
  "failed_with e now i d =
     d\<lparr>lk_deletions := update_where (\<lambda>r. dl_id r = i)
        (\<lambda>r. r\<lparr>dl_status := DelFailed, dl_error_code := Some (deletion_error_code e),
              dl_error_message := Some (deletion_error_message e), dl_updated_at := now\<rparr>) (lk_deletions d)\<rparr>"

lemma mark_deletion_failed_run:
  "mark_deletion_failed e now i s =
     (case get_deletion i (wk_db s) of
        None \<Rightarrow> Some (Inr (), s)
      | Some _ \<Rightarrow> Some (Inr (), s\<lparr>wk_db := failed_with e now i (wk_db s), wk_committed := failed_with e now i (wk_db s)\<rparr>))"
  by (simp add: mark_deletion_failed_def bind_run_def get_worker_def lift_run_def read_op_def return_op_def in_session_def commit_def
      update_status_def put_deletion_def write_op_def failed_with_def split: option.split)

lemma carry_out_deletion_error_committed:
  "carry_out_deletion cfg env ids now row s = Some (Inl e, t) \<Longrightarrow> wk_committed t = wk_committed s"
  by (erule carry_out_deletion_cases) auto

definition carried_out ::
  "deletion_settings \<Rightarrow> environment \<Rightarrow> audit_ids \<Rightarrow> timestamp \<Rightarrow> deletion_row \<Rightarrow> worker \<Rightarrow> lake_db \<Rightarrow> bool" where
  "carried_out cfg env ids now row s d \<longleftrightarrow>
     (\<exists>payload impact calls. validate_deletion cfg env (dl_dataset_id row) s = Inr (payload, impact)
        \<and> purge cfg env payload impact (wk_calls s) = Some (Inr (), calls)
        \<and> finish_deletion cfg ids now row impact (before_purge (dl_id row) payload impact now (wk_db s)) = (Inr (), d))"

lemma process_claimed_outcome:
  assumes run: "process_claimed_deletion cfg env ids now row s = Some (r, t)"
    and row: "get_deletion (dl_id row) (wk_committed s) \<noteq> None"
  shows "r = Inr () \<and> (carried_out cfg env ids now row s (wk_committed t)
    \<or> (\<exists>e. wk_committed t = failed_with e now (dl_id row) (wk_committed s)))"
proof -
  obtain x u where c: "carry_out_deletion cfg env ids now row s = Some (x, u)"
    using run by (cases "carry_out_deletion cfg env ids now row s") (auto simp: process_claimed_deletion_def)
  show ?thesis
  proof (cases x)
    case (Inl e)
    have "wk_committed u = wk_committed s" using c Inl carry_out_deletion_error_committed by blast
    then have "r = Inr () \<and> wk_committed t = failed_with e now (dl_id row) (wk_committed s)" using run c Inl row
      by (auto simp: process_claimed_deletion_def mark_deletion_failed_run rollback_def)
    then show ?thesis by blast
  next
    case (Inr v)
    have t: "t = u" "r = Inr ()" using run c Inr by (auto simp: process_claimed_deletion_def)
    from c show ?thesis unfolding Inr by (cases rule: carry_out_deletion_cases) (auto simp: t carried_out_def)
  qed
qed

text \<open>A worker finds its receipt queued in the database, and marks it in its own session only.\<close>

definition claimed :: "timestamp \<Rightarrow> deletion_row \<Rightarrow> lake_db \<Rightarrow> lake_db" where
  "claimed now r d =
     d\<lparr>lk_deletions := update_where (\<lambda>x. dl_id x = dl_id r)
        (\<lambda>x. x\<lparr>dl_status := DelValidating, dl_attempt_count := dl_attempt_count x + 1, dl_updated_at := now\<rparr>) (lk_deletions d)\<rparr>"

definition claimed_row :: "timestamp \<Rightarrow> deletion_row \<Rightarrow> deletion_row" where
  "claimed_row now r = (take_claim r)\<lparr>dl_updated_at := now\<rparr>"

lemma claimed_row_sel [simp]:
  "dl_id (claimed_row now r) = dl_id r" "dl_dataset_id (claimed_row now r) = dl_dataset_id r"
  "dl_dataset_name (claimed_row now r) = dl_dataset_name r" "dl_actor_snapshot (claimed_row now r) = dl_actor_snapshot r"
  by (simp_all add: claimed_row_def take_claim_def)

lemma claim_row_run:
  "claim_row found now d = (case found of None \<Rightarrow> (Inr None, d) | Some r \<Rightarrow> (Inr (Some (claimed_row now r)), claimed now r d))"
  by (simp add: claim_row_def op_defs put_deletion_def claimed_def claimed_row_def take_claim_def split: option.split)

definition claimable_deletion :: "string set \<Rightarrow> lake_db \<Rightarrow> deletion_row \<Rightarrow> bool" where
  "claimable_deletion locked d r \<longleftrightarrow> r \<in> set (lk_deletions d) \<and> dl_status r = DelQueued \<and> dl_id r \<notin> locked"

lemma claim_cases:
  assumes "claim locked now i d = (x, d')"
  obtains (idle) "x = Inr None" and "d' = d" and "\<forall>r. claimable_deletion locked d r \<longrightarrow> dl_id r \<noteq> i"
  | (found) r where "x = Inr (Some (claimed_row now r))" and "d' = claimed now r d" and "claimable_deletion locked d r" and "dl_id r = i"
  using assms
  by (cases "find (\<lambda>r. dl_id r = i \<and> dl_status r = DelQueued \<and> dl_id r \<notin> locked) (lk_deletions d)")
    (auto simp: claim_def op_defs claim_row_run claimable_deletion_def find_None_iff find_Some_iff)

lemma first_by_age_None: "first_by_age rows = None \<longleftrightarrow> rows = []"
proof -
  have "sort_key deletion_order rows = [] \<longleftrightarrow> rows = []" by (metis set_empty set_sort)
  then show ?thesis by (auto simp: first_by_age_def split: list.split)
qed

lemma first_by_age_Some:
  assumes "first_by_age rows = Some r"
  shows "r \<in> set rows \<and> (\<forall>x \<in> set rows. deletion_order r \<le> deletion_order x)"
proof -
  obtain rest where r: "sort_key deletion_order rows = r # rest" using assms by (auto simp: first_by_age_def split: list.splits)
  have "sorted (map deletion_order (r # rest))" using sorted_sort_key [of deletion_order rows] unfolding r .
  moreover have "set rows = set (r # rest)" using set_sort [of deletion_order rows] unfolding r by simp
  ultimately show ?thesis by auto
qed

lemma claim_next_cases:
  assumes "claim_next locked now d = (x, d')"
  obtains (idle) "x = Inr None" and "d' = d" and "\<forall>r. \<not> claimable_deletion locked d r"
  | (found) r where "x = Inr (Some (claimed_row now r))" and "d' = claimed now r d" and "claimable_deletion locked d r"
      and "\<forall>r'. claimable_deletion locked d r' \<longrightarrow> deletion_order r \<le> deletion_order r'"
proof (cases "first_by_age (filter (\<lambda>r. dl_status r = DelQueued \<and> dl_id r \<notin> locked) (lk_deletions d))")
  case None
  then have none: "\<forall>r. \<not> claimable_deletion locked d r" by (auto simp: first_by_age_None filter_empty_conv claimable_deletion_def)
  show ?thesis by (rule idle [OF _ _ none]) (use assms None in \<open>auto simp: claim_next_def op_defs claim_row_run\<close>)
next
  case (Some r)
  note r = first_by_age_Some [OF Some]
  show ?thesis
    by (rule found [of r]) (use assms Some r in \<open>auto simp: claim_next_def op_defs claim_row_run claimable_deletion_def\<close>)
qed

end
