(* ===== verification/Deletion_Outcomes.thy ===== *)
theory Deletion_Outcomes
  imports Dataset_Deletion
begin

section \<open>Dataset deletion: outcomes of a worker\<close>

text \<open>
  The lemmas behind the guarantees of a deletion: the removal of the metadata leaves no reference to the dataset, and a
  worker does nothing, marks its receipt as failed, or carries the deletion out.
\<close>

subsection \<open>The text of a JSON document contains its values\<close>

definition plain_char :: "char \<Rightarrow> bool" where
  "plain_char c \<longleftrightarrow> is_alnum c \<or> c = CHR ''_'' \<or> c = CHR ''-''"

text \<open>
  Identifiers made of letters, digits, underscores and hyphens. The search in the text of a document misses the value
  \<open>True\<close>, which JSON writes in lower case.
\<close>

definition plain_id :: "string \<Rightarrow> bool" where
  "plain_id i \<longleftrightarrow> i \<noteq> [] \<and> list_all plain_char i \<and> i \<noteq> ''True''"

definition contains_text :: "string \<Rightarrow> string \<Rightarrow> bool" where
  "contains_text s i \<longleftrightarrow> (\<exists>a b. s = a @ i @ b)"

lemma contains_text_append: "contains_text s i \<Longrightarrow> contains_text (a @ s @ b) i"
  unfolding contains_text_def by (metis append.assoc)

lemma contains_text_join:
  assumes "x \<in> set xs" and "contains_text x i"
  shows "contains_text (py_join sep xs) i"
  using assms
proof (induction sep xs rule: py_join.induct)
  case (3 sep y z ys)
  show ?case
  proof (cases "x = y")
    case True
    then show ?thesis using 3(3) contains_text_append [of y i "[]"] by simp
  next
    case False
    then have "contains_text (py_join sep (z # ys)) i" using 3 by simp
    then show ?thesis using contains_text_append [of "py_join sep (z # ys)" i "y @ sep" "[]"] by simp
  qed
qed auto

lemma plain_char_raw: "plain_char c \<Longrightarrow> escape_common (char_code c) = None"
  by (auto simp: plain_char_def escape_common_def is_alnum_def is_upper_def is_lower_def is_digit_def char_code_def)

lemma escape_plain: "list_all plain_char s \<Longrightarrow> escape_raw s = s"
  by (induction s) (simp_all add: escape_raw_def plain_char_raw)

lemma nested_contains_text:
  assumes "plain_id i"
  shows "nested_contains v i \<Longrightarrow> contains_text (json_dumps_plain False v) i"
proof (induction v)
  case (JStr s)
  then have "s = i" using assms by (auto simp: str_of_def por_def plain_id_def split: if_splits)
  moreover have "json_string False i = [dq] @ i @ [dq]" using assms by (simp add: json_string_def escape_plain plain_id_def)
  ultimately show ?case unfolding contains_text_def by (metis json_dumps_plain.simps(4))
next
  case (JInt n)
  then have "show_int n = i" using assms by (auto simp: str_of_def por_def plain_id_def split: if_splits)
  then show ?case by (auto simp: contains_text_def intro: exI [of _ "[]"])
next
  case (JList xs)
  then obtain x where "x \<in> set xs" "contains_text (json_dumps_plain False x) i" by (auto simp: list_ex_iff)
  then have "contains_text (''['' @ py_join '', '' (map (json_dumps_plain False) xs) @ '']'') i"
    by (intro contains_text_append contains_text_join [of "json_dumps_plain False x"]) auto
  then show ?case by simp
next
  case (JObj d)
  then obtain k x where x: "(k, x) \<in> set d" and "nested_contains x i" by (auto simp: list_ex_iff)
  then have "contains_text (json_dumps_plain False x) i" using JObj.IH [of "(k, x)"] by auto
  then have "contains_text (json_string False k @ '': '' @ json_dumps_plain False x) i"
    using contains_text_append [of _ i "json_string False k @ '': ''" "[]"] by simp
  moreover have "json_string False k @ '': '' @ json_dumps_plain False x
      \<in> set (map (\<lambda>kv. json_string False (fst kv) @ '': '' @ snd kv) (map (map_prod id (json_dumps_plain False)) d))"
    using x by force
  ultimately have "contains_text (''{'' @ py_join '', '' (map (\<lambda>kv. json_string False (fst kv) @ '': '' @ snd kv)
      (map (map_prod id (json_dumps_plain False)) d)) @ ''}'') i"
    by (intro contains_text_append contains_text_join)
  then show ?case by simp
qed (use assms in \<open>auto simp: str_of_def por_def plain_id_def split: if_splits\<close>)

lemma like_plain: "list_all plain_char i \<Longrightarrow> sql_like ps b \<Longrightarrow> sql_like (i @ ps) (i @ b)"
  by (induction i) (auto simp: plain_char_def bs_def is_alnum_def is_upper_def is_lower_def is_digit_def char_code_def)

lemma like_skip: "sql_like (CHR ''%'' # ps) s \<Longrightarrow> sql_like (CHR ''%'' # ps) (a @ s)"
  by (induction a) auto

lemma like_rest: "sql_like ''%'' b"
  by (induction b) auto

lemma contains_like: "list_all plain_char i \<Longrightarrow> contains_text s i \<Longrightarrow> sql_contains s i"
proof -
  assume i: "list_all plain_char i" and "contains_text s i"
  then obtain a b where s: "s = a @ i @ b" by (auto simp: contains_text_def)
  have "sql_like (CHR ''%'' # i @ ''%'') (i @ b)" using like_plain [OF i like_rest] by simp
  then show ?thesis using like_skip by (simp add: sql_contains_def s)
qed

lemma matching_runs_complete:
  assumes "plain_id i"
  shows "matching_runs i s = filter (mentions_run i) (lk_sql_runs s)"
proof -
  have "sql_contains (json_dumps_plain False (JObj (sr_payload r))) i" if "nested_contains (JObj (sr_payload r)) i" for r
    using nested_contains_text [OF assms that] assms by (auto simp: plain_id_def intro: contains_like)
  then show ?thesis unfolding matching_runs_def mentions_run_def filter_filter by (intro filter_cong) blast+
qed

subsection \<open>A finished deletion leaves no reference\<close>

text \<open>The foreign keys of the dashboard tables: every widget is on a page and every page belongs to a revision.\<close>

definition widgets_linked :: "lake_db \<Rightarrow> bool" where
  "widgets_linked s \<longleftrightarrow> dw_page_id ` set (lk_widgets s) \<subseteq> dp_id ` set (lk_pages s)
     \<and> dp_revision_id ` set (lk_pages s) \<subseteq> bv_id ` set (lk_revisions s)"

definition unreferenced :: "deletion_settings \<Rightarrow> string \<Rightarrow> lake_db \<Rightarrow> bool" where
  "unreferenced cfg i s \<longleftrightarrow>
     catalog_model i s = None
     \<and> (\<forall>g \<in> set (ad_grants (lk_access s)). grant_resource g \<noteq> (''dataset'', i))
     \<and> (\<forall>l \<in> set (ad_locks (lk_access s)). lock_key l \<noteq> (''dataset'', i))
     \<and> i \<notin> fr_dataset_id ` set (db_freshness (lk_store s)) \<and> i \<notin> co_dataset_id ` set (db_commits (lk_store s))
     \<and> i \<notin> dr_dataset_id ` set (lk_batch_results s @ lk_widget_results s @ lk_cursors s)
     \<and> (\<forall>r \<in> set (lk_sql_runs s). \<not> mentions_run i r)
     \<and> (\<forall>r \<in> set (lk_members s @ lk_metrics s @ lk_dimensions s). \<not> names_dataset i r)
     \<and> (\<forall>r \<in> set (lk_relationships s). \<not> relates_dataset i r)
     \<and> (\<forall>w \<in> set (lk_widgets s). dw_dataset_id w \<noteq> Some i)
     \<and> (lk_dashboards_shape s \<noteq> NoDashboards \<longrightarrow>
          (\<forall>c \<in> set (lk_dashboards s). str_of (dc_dataset_id c) \<noteq> i \<and> \<not> nested_contains (JObj (card_payload cfg (dc_payload c))) i))"

lemma widgets_dropped:
  assumes "widgets_linked s" and "widget_dashboards i s \<subseteq> ids" and "w \<in> set (lk_widgets (drop_dashboards ids s))"
  shows "dw_dataset_id w \<noteq> Some i"
proof
  assume i: "dw_dataset_id w = Some i"
  have w: "w \<in> set (lk_widgets s)" using assms(3) by (simp add: drop_dashboards_def Let_def)
  have "dw_page_id w \<in> dp_id ` set (lk_pages s)" using w assms(1) unfolding widgets_linked_def by blast
  then obtain p where p: "p \<in> set (lk_pages s)" "dp_id p = dw_page_id w" by (elim imageE) simp
  have "dp_revision_id p \<in> bv_id ` set (lk_revisions s)" using p(1) assms(1) unfolding widgets_linked_def by blast
  then obtain v where v: "v \<in> set (lk_revisions s)" "bv_id v = dp_revision_id p" by (elim imageE) simp
  have "bv_dashboard_id v \<in> widget_dashboards i s"
    unfolding widget_dashboards_def Let_def using w i p v by (auto simp: image_iff)
  then have "bv_dashboard_id v \<in> ids" using assms(2) by blast
  then show False using assms(3) p v by (auto simp: drop_dashboards_def Let_def image_iff) metis
qed

lemma sql_metadata_run:
  "delete_dataset_sql_metadata i s = (Inr ids, t) \<longleftrightarrow>
     ids = sr_id ` set (matching_runs i s)
     \<and> t = s\<lparr>lk_sql_pages := filter (\<lambda>p. sg_run_id p \<notin> ids) (lk_sql_pages s), lk_sql_runs := filter (\<lambda>r. sr_id r \<notin> ids) (lk_sql_runs s)\<rparr>"
  by (auto simp: delete_dataset_sql_metadata_def op_elims)

lemma dashboards_run:
  assumes "delete_dataset_dashboards cfg i run_ids s = (Inr (), t)"
  obtains cards ids where "dashboard_rows cfg s = Some cards"
    and "ids = dc_id ` set (filter (card_uses_dataset cfg i run_ids) cards) \<union> widget_dashboards i s"
    and "t = (drop_dashboards ids s)\<lparr>lk_tags := map_option (filter (\<lambda>t. fst t \<notin> ids)) (lk_tags s),
      lk_dashboards := filter (\<lambda>c. dc_id c \<notin> ids) (lk_dashboards s)\<rparr>"
proof -
  obtain cards where cards: "dashboard_rows cfg s = Some cards"
    using assms by (cases "dashboard_rows cfg s") (auto simp: delete_dataset_dashboards_def op_elims)
  show ?thesis
    by (rule that [OF cards refl])
      (use assms cards in \<open>auto simp: delete_dataset_dashboards_def op_elims drop_dashboards_def Let_def\<close>)
qed

lemma cards_dropped:
  assumes "dashboard_rows cfg s = Some cards" and "lk_dashboards_shape s \<noteq> NoDashboards"
    and "c \<in> set (lk_dashboards s)" and "dc_id c \<notin> dc_id ` set (filter (card_uses_dataset cfg i run_ids) cards)"
  shows "str_of (dc_dataset_id c) \<noteq> i \<and> \<not> nested_contains (JObj (card_payload cfg (dc_payload c))) i"
proof -
  obtain c' where c': "c' \<in> set cards" "dc_id c' = dc_id c" "dc_dataset_id c' = dc_dataset_id c" "dc_payload c' = dc_payload c"
    using assms(1-3) by (cases "lk_dashboards_shape s") (force simp: dashboard_rows_def split: if_splits)+
  then have "\<not> card_uses_dataset cfg i run_ids c'" using assms(4) by (auto simp: image_iff)
  then show ?thesis using c' by (simp add: card_uses_dataset_def Let_def del: nested_contains.simps)
qed

lemma sql_runs_dropped:
  assumes "plain_id i" and "r \<in> set (lk_sql_runs s)" and "sr_id r \<notin> sr_id ` set (matching_runs i s)"
  shows "\<not> mentions_run i r"
  using assms by (auto simp: matching_runs_complete)

lemma semantic_metadata_run:
  "delete_dataset_semantic_metadata i s = (Inr (), t) \<longleftrightarrow>
     (let orphaned = set (semantic_model_ids i s) - sx_model_id ` set (filter (\<lambda>r. \<not> names_dataset i r) (lk_members s))
      in t = s\<lparr>lk_members := filter (\<lambda>r. \<not> names_dataset i r) (lk_members s),
             lk_metrics := filter (\<lambda>r. \<not> names_dataset i r) (lk_metrics s),
             lk_dimensions := filter (\<lambda>r. \<not> names_dataset i r) (lk_dimensions s),
             lk_relationships := filter (\<lambda>r. \<not> relates_dataset i r) (lk_relationships s),
             lk_vocabulary := filter (\<lambda>r. sx_model_id r \<notin> orphaned) (lk_vocabulary s),
             lk_versions := filter (\<lambda>r. sx_model_id r \<notin> orphaned) (lk_versions s),
             lk_models := filter (\<lambda>m. sm_id m \<notin> orphaned) (lk_models s)\<rparr>)"
  by (auto simp: delete_dataset_semantic_metadata_def op_elims Let_def)

lemma dataset_rows_gone:
  "catalog_model i (delete_dataset_rows i s) = None"
  "lk_deletions (delete_dataset_rows i s) = lk_deletions s"
  by (auto simp: catalog_model_def delete_dataset_rows_def lookup_key_None)

lemma metadata_removed:
  assumes run: "delete_dataset_metadata cfg i s = (Inr (), t)" and "plain_id i" and linked: "widgets_linked s"
  shows "unreferenced cfg i t"
proof -
  obtain ids s1 s2 s3 where s1: "delete_dataset_sql_metadata i s = (Inr ids, s1)"
      and s2: "delete_dataset_dashboards cfg i ids s1 = (Inr (), s2)"
      and s3: "delete_dataset_semantic_metadata i s2 = (Inr (), s3)" and t: "t = delete_dataset_rows i s3"
    using run by (auto simp: delete_dataset_metadata_def op_elims)
  note s1' = s1 [unfolded sql_metadata_run, THEN conjunct1] s1 [unfolded sql_metadata_run, THEN conjunct2]
  obtain cards gone where cards: "dashboard_rows cfg s1 = Some cards"
      and gone: "gone = dc_id ` set (filter (card_uses_dataset cfg i ids) cards) \<union> widget_dashboards i s1"
      and s2': "s2 = (drop_dashboards gone s1)\<lparr>lk_tags := map_option (filter (\<lambda>t. fst t \<notin> gone)) (lk_tags s1),
        lk_dashboards := filter (\<lambda>c. dc_id c \<notin> gone) (lk_dashboards s1)\<rparr>"
    by (rule dashboards_run [OF s2])
  note s3' = s3 [unfolded semantic_metadata_run Let_def]
  have "widgets_linked s1" using linked s1'(2) by (simp add: widgets_linked_def)
  then have widgets: "dw_dataset_id w \<noteq> Some i" if "w \<in> set (lk_widgets (drop_dashboards gone s1))" for w
    using widgets_dropped [of s1 i gone w] that gone by auto
  have cards': "str_of (dc_dataset_id c) \<noteq> i \<and> \<not> nested_contains (JObj (card_payload cfg (dc_payload c))) i"
    if "lk_dashboards_shape s1 \<noteq> NoDashboards" "c \<in> set (lk_dashboards s1)" "dc_id c \<notin> gone" for c
    using cards_dropped [OF cards that(1,2), of i ids] that(3) gone by blast
  have runs: "\<not> mentions_run i r" if "r \<in> set (lk_sql_runs s1)" for r
    using sql_runs_dropped [OF assms(2)] that s1' by auto
  have fields: "lk_widgets t = lk_widgets (drop_dashboards gone s1)" "lk_dashboards t = filter (\<lambda>c. dc_id c \<notin> gone) (lk_dashboards s1)"
      "lk_dashboards_shape t = lk_dashboards_shape s1" "lk_sql_runs t = lk_sql_runs s1"
  proof -
    have "lk_widgets s2 = lk_widgets (drop_dashboards gone s1)" "lk_dashboards s2 = filter (\<lambda>c. dc_id c \<notin> gone) (lk_dashboards s1)"
      by (simp_all add: s2')
    moreover have "lk_dashboards_shape s2 = lk_dashboards_shape s1" "lk_sql_runs s2 = lk_sql_runs s1"
      by (simp_all add: s2' drop_dashboards_def Let_def)
    moreover have "lk_widgets t = lk_widgets s2" "lk_dashboards t = lk_dashboards s2"
        "lk_dashboards_shape t = lk_dashboards_shape s2" "lk_sql_runs t = lk_sql_runs s2"
      by (simp_all add: t delete_dataset_rows_def s3')
    ultimately show "lk_widgets t = lk_widgets (drop_dashboards gone s1)"
        "lk_dashboards t = filter (\<lambda>c. dc_id c \<notin> gone) (lk_dashboards s1)"
        "lk_dashboards_shape t = lk_dashboards_shape s1" "lk_sql_runs t = lk_sql_runs s1"
      by simp_all
  qed
  have parts: "\<forall>r \<in> set (lk_members t @ lk_metrics t @ lk_dimensions t). \<not> names_dataset i r"
      "\<forall>r \<in> set (lk_relationships t). \<not> relates_dataset i r"
    by (auto simp: t delete_dataset_rows_def s3')
  have rows: "\<forall>g \<in> set (ad_grants (lk_access t)). grant_resource g \<noteq> (''dataset'', i)"
      "\<forall>l \<in> set (ad_locks (lk_access t)). lock_key l \<noteq> (''dataset'', i)"
      "i \<notin> fr_dataset_id ` set (db_freshness (lk_store t))" "i \<notin> co_dataset_id ` set (db_commits (lk_store t))"
      "i \<notin> dr_dataset_id ` set (lk_batch_results t @ lk_widget_results t @ lk_cursors t)"
    by (auto simp: t delete_dataset_rows_def)
  show ?thesis
    unfolding unreferenced_def fields using parts rows widgets cards' runs dataset_rows_gone(1) [of i s3] unfolding t by auto
qed

text \<open>The steps around the removal do not bring a reference back.\<close>

lemma unreferenced_receipts [simp]: "unreferenced cfg i (s\<lparr>lk_deletions := rows\<rparr>) = unreferenced cfg i s"
  by (simp add: unreferenced_def catalog_model_def)

lemma unreferenced_audits [simp]:
  "unreferenced cfg i (s\<lparr>lk_access := (lk_access s)\<lparr>ad_audits := rows\<rparr>\<rparr>) = unreferenced cfg i s"
  by (simp add: unreferenced_def catalog_model_def)

lemma metadata_frames:
  assumes "delete_dataset_metadata cfg i s = (Inr (), t)"
  shows "lk_deletions t = lk_deletions s \<and> lk_catalog t = filter (\<lambda>r. cd_id r \<noteq> i) (lk_catalog s)
    \<and> ad_audits (lk_access t) = ad_audits (lk_access s)"
proof -
  obtain ids s1 s2 s3 where s1: "delete_dataset_sql_metadata i s = (Inr ids, s1)"
      and s2: "delete_dataset_dashboards cfg i ids s1 = (Inr (), s2)"
      and s3: "delete_dataset_semantic_metadata i s2 = (Inr (), s3)" and t: "t = delete_dataset_rows i s3"
    using assms by (auto simp: delete_dataset_metadata_def op_elims)
  have "lk_deletions s2 = lk_deletions s1 \<and> lk_store s2 = lk_store s1 \<and> lk_access s2 = lk_access s1"
    by (rule dashboards_run [OF s2]) (simp add: drop_dashboards_def Let_def)
  then show ?thesis using s1 s3 by (auto simp: t delete_dataset_rows_def sql_metadata_run semantic_metadata_run Let_def)
qed

definition set_status :: "string \<Rightarrow> deletion_status \<Rightarrow> string option \<Rightarrow> string option \<Rightarrow> timestamp \<Rightarrow> deletion_row list \<Rightarrow> deletion_row list" where
  "set_status i st c m now rows =
     update_where (\<lambda>r. dl_id r = i) (\<lambda>r. r\<lparr>dl_status := st, dl_error_code := c, dl_error_message := m, dl_updated_at := now\<rparr>) rows"

lemma update_status_eq: "update_status i st c m now s = (Inr (), s\<lparr>lk_deletions := set_status i st c m now (lk_deletions s)\<rparr>)"
  by (simp add: update_status_def put_deletion_def write_op_def set_status_def)

lemma on_access_iff: "on_access m s = (Inr a, t) \<longleftrightarrow> (\<exists>x. m (lk_access s) = (Inr a, x) \<and> t = s\<lparr>lk_access := x\<rparr>)"
  by (auto simp: on_access_def split: prod.splits)

lemma add_audit_iff:
  assumes "en_target_type e \<noteq> AuditUnknown"
  shows "add_audit_event ids e a = (Inr row, b) \<longleftrightarrow>
    row = audit_event_row ids e (en_target_type e) \<and> ae_id row \<notin> ae_id ` set (ad_audits a) \<and> b = a\<lparr>ad_audits := ad_audits a @ [row]\<rparr>"
  using assms by (auto simp: add_audit_event_def require_writable_audit_target_type_def op_defs sql_insert_def)

lemma finish_deletion_Inr:
  assumes "finish_deletion cfg ids now row impact s = (Inr (), t)"
  obtains u actor audits where
    "delete_dataset_metadata cfg (dl_dataset_id row) (s\<lparr>lk_deletions := set_status (dl_id row) DelMetadataCleanup None None now (lk_deletions s)\<rparr>) = (Inr (), u)"
    and "actor_from_snapshot (dl_actor_snapshot row) = Inr actor"
    and "audits = ad_audits (lk_access u) @ [audit_event_row ids (deletion_audit row actor impact) AuditDataset]"
    and "t = u\<lparr>lk_access := (lk_access u)\<lparr>ad_audits := audits\<rparr>,
        lk_deletions := set_status (dl_id row) DelSucceeded None None now
          (set_status (dl_id row) DelMetadataCleanup None None now (lk_deletions s))\<rparr>"
proof -
  obtain u actor row' a where u: "delete_dataset_metadata cfg (dl_dataset_id row)
        (s\<lparr>lk_deletions := set_status (dl_id row) DelMetadataCleanup None None now (lk_deletions s)\<rparr>) = (Inr (), u)"
      and actor: "actor_from_snapshot (dl_actor_snapshot row) = Inr actor"
      and a: "add_audit_event ids (deletion_audit row actor impact) (lk_access u) = (Inr row', a)"
      and t: "t = u\<lparr>lk_access := a, lk_deletions := set_status (dl_id row) DelSucceeded None None now (lk_deletions u)\<rparr>"
    using assms by (auto simp: finish_deletion_def op_elims update_status_eq on_access_iff)
  show ?thesis
    by (rule that [OF u actor refl]) (use t add_audit_iff [THEN iffD1, OF _ a] metadata_frames [OF u] in \<open>simp add: deletion_audit_def\<close>)
qed

subsection \<open>Outcomes of a worker\<close>

lemma update_where_twice:
  assumes "\<And>r. P r \<Longrightarrow> P (f r)"
  shows "update_where P g (update_where P f rows) = update_where P (\<lambda>r. g (f r)) rows"
  using assms by (simp add: update_where_def)

text \<open>What a finished deletion does to the receipts: the one it carried out is marked, with one more attempt.\<close>

definition completed :: "timestamp \<Rightarrow> dict \<Rightarrow> dict \<Rightarrow> deletion_row \<Rightarrow> deletion_row" where
  "completed now payload impact r =
     r\<lparr>dl_attempt_count := dl_attempt_count r + 1, dl_dataset_snapshot := payload, dl_impact_snapshot := impact,
       dl_status := DelSucceeded, dl_error_code := None, dl_error_message := None, dl_updated_at := now\<rparr>"

definition claimed_session :: "timestamp \<Rightarrow> deletion_row \<Rightarrow> lake_db \<Rightarrow> lake_call list \<Rightarrow> worker" where
  "claimed_session now row d calls = \<lparr>wk_committed = d, wk_db = claimed now row d, wk_calls = calls\<rparr>"

lemma claimed_session_sel [simp]:
  "wk_committed (claimed_session now row d calls) = d" "wk_db (claimed_session now row d calls) = claimed now row d"
  "wk_calls (claimed_session now row d calls) = calls"
  by (simp_all add: claimed_session_def)

lemma carried_out_facts:
  assumes "carried_out cfg env ids now (claimed_row now row) (claimed_session now row d calls) d'"
  obtains payload impact actor u where "lk_deletions d' = update_where (\<lambda>r. dl_id r = dl_id row) (completed now payload impact) (lk_deletions d)"
    and "lk_catalog d' = filter (\<lambda>r. cd_id r \<noteq> dl_dataset_id row) (lk_catalog d)"
    and "ad_audits (lk_access d') = ad_audits (lk_access d)
      @ [audit_event_row ids (deletion_audit row actor impact) AuditDataset]"
    and "widgets_linked d \<Longrightarrow> plain_id (dl_dataset_id row) \<Longrightarrow> unreferenced cfg (dl_dataset_id row) d'"
proof -
  obtain payload impact where f: "finish_deletion cfg ids now (claimed_row now row) impact
      (before_purge (dl_id row) payload impact now (claimed now row d)) = (Inr (), d')"
    using assms by (auto simp: carried_out_def)
  let ?s = "before_purge (dl_id row) payload impact now (claimed now row d)"
  let ?s' = "?s\<lparr>lk_deletions := set_status (dl_id row) DelMetadataCleanup None None now (lk_deletions ?s)\<rparr>"
  obtain u actor audits where u: "delete_dataset_metadata cfg (dl_dataset_id row) ?s' = (Inr (), u)"
      and a: "audits = ad_audits (lk_access u) @ [audit_event_row ids (deletion_audit (claimed_row now row) actor impact) AuditDataset]"
      and d': "d' = u\<lparr>lk_access := (lk_access u)\<lparr>ad_audits := audits\<rparr>,
          lk_deletions := set_status (dl_id row) DelSucceeded None None now
            (set_status (dl_id row) DelMetadataCleanup None None now (lk_deletions ?s))\<rparr>"
    by (rule finish_deletion_Inr [OF f]) auto
  note frames = metadata_frames [OF u]
  have rows: "lk_deletions ?s = update_where (\<lambda>r. dl_id r = dl_id row)
      (\<lambda>r. r\<lparr>dl_attempt_count := dl_attempt_count r + 1, dl_dataset_snapshot := payload, dl_impact_snapshot := impact,
        dl_status := DelPurging, dl_error_code := None, dl_error_message := None, dl_updated_at := now\<rparr>) (lk_deletions d)"
    by (simp add: before_purge_def update_status_def put_deletion_def write_op_def claimed_def update_where_twice)
  have same: "lk_catalog ?s = lk_catalog d" "ad_audits (lk_access ?s) = ad_audits (lk_access d)" "widgets_linked ?s = widgets_linked d"
    by (simp_all add: before_purge_def update_status_def put_deletion_def write_op_def claimed_def widgets_linked_def)
  show ?thesis
  proof (rule that [of payload impact actor])
    show "lk_deletions d' = update_where (\<lambda>r. dl_id r = dl_id row) (completed now payload impact) (lk_deletions d)"
      by (simp add: d' rows set_status_def update_where_twice completed_def [abs_def])
    show "lk_catalog d' = filter (\<lambda>r. cd_id r \<noteq> dl_dataset_id row) (lk_catalog d)" using frames same by (simp add: d')
    show "ad_audits (lk_access d') = ad_audits (lk_access d) @ [audit_event_row ids (deletion_audit row actor impact) AuditDataset]"
      using frames same by (simp add: d' a deletion_audit_def)
    show "unreferenced cfg (dl_dataset_id row) d'" if "widgets_linked d" "plain_id (dl_dataset_id row)"
      using metadata_removed [OF u] that same by (simp add: d' widgets_linked_def)
  qed
qed

lemma process_by_id_cases:
  assumes "process_deletion_by_id cfg env ids locked now i (new_session d calls) = Some (r, t)"
  obtains (idle) "r = Inr ()" and "wk_committed t = d" and "wk_calls t = calls"
  | (claimed) row where "claimable_deletion locked d row" and "dl_id row = i"
      and "process_claimed_deletion cfg env ids now (claimed_row now row) (claimed_session now row d calls) = Some (r, t)"
proof -
  obtain x d1 where c: "claim locked now i d = (x, d1)" by fastforce
  from c show ?thesis
  proof (cases rule: claim_cases)
    case idle
    show ?thesis
      by (rule that(1)) (use assms c idle in \<open>auto simp: process_deletion_by_id_def bind_run_def in_session_def new_session_def lift_run_def return_op_def\<close>)
  next
    case (found row)
    show ?thesis
      by (rule that(2) [OF found(3,4)])
        (use assms c found in \<open>simp add: process_deletion_by_id_def bind_run_def in_session_def new_session_def claimed_session_def\<close>)
  qed
qed

lemma process_next_cases:
  assumes "process_next_deletion cfg env ids locked now (new_session d calls) = Some (r, t)"
  obtains (idle) "r = Inr False" and "wk_committed t = d" and "wk_calls t = calls"
  | (claimed) row r' where "claimable_deletion locked d row"
      and "process_claimed_deletion cfg env ids now (claimed_row now row) (claimed_session now row d calls) = Some (r', t)"
proof -
  obtain x d1 where c: "claim_next locked now d = (x, d1)" by fastforce
  from c show ?thesis
  proof (cases rule: claim_next_cases)
    case idle
    show ?thesis
      by (rule that(1)) (use assms c idle in \<open>auto simp: process_next_deletion_def bind_run_def in_session_def new_session_def lift_run_def return_op_def\<close>)
  next
    case (found row)
    obtain r' where "process_claimed_deletion cfg env ids now (claimed_row now row) (claimed_session now row d calls) = Some (r', t)"
      using assms c found
      by (auto simp: process_next_deletion_def bind_run_def in_session_def new_session_def claimed_session_def lift_run_def return_op_def
          split: option.splits prod.splits sum.splits)
    then show ?thesis by (rule that(2) [OF found(3)])
  qed
qed

lemma claimed_outcome:
  assumes "claimable_deletion locked d row"
    and "process_claimed_deletion cfg env ids now (claimed_row now row) (claimed_session now row d calls) = Some (r, t)"
  shows "r = Inr () \<and> (carried_out cfg env ids now (claimed_row now row) (claimed_session now row d calls) (wk_committed t)
    \<or> (\<exists>e. wk_committed t = failed_with e now (dl_id row) d))"
proof -
  have "get_deletion (dl_id row) d \<noteq> None"
    using assms(1) by (auto simp: claimable_deletion_def get_deletion_def lookup_key_None)
  then show ?thesis using process_claimed_outcome [OF assms(2)] by simp
qed

end
