(* ===== verification/Deletion_Safety.thy ===== *)
theory Deletion_Safety
  imports Deletion_Outcomes
begin

section \<open>Dataset deletion: what it guarantees\<close>

text \<open>
  What the deletion of a dataset promises: the calls of a worker stay within the scope of the dataset, a failed
  attempt changes nothing but its receipt, a finished one leaves no reference to the dataset, receipts are unique
  per dataset and keep a deleted dataset from being published again, and the worker always ends when object storage keeps
  its contract.
\<close>

subsection \<open>The worker ends\<close>

lemma lift_run_returns [simp]: "lift_run m s \<noteq> None"
  by (simp add: lift_run_def)

lemma if_run_returns: "m s \<noteq> None \<Longrightarrow> m' s \<noteq> None \<Longrightarrow> (if c then m else m') s \<noteq> None"
  by simp

lemma purge_storage_returns:
  assumes "faithful_store pos init env" and "\<And>b. finite (init b) \<and> [] \<notin> init b"
  shows "purge_storage cfg env location d calls \<noteq> None"
proof -
  have "delete_s3_prefix env b p c \<noteq> None" for b p c
    using delete_s3_prefix_complete [OF assms(1), of b p c] assms(2) [of b] by auto
  then show ?thesis
    unfolding purge_storage_def by (intro bind_run_returns if_run_returns lift_run_returns)
qed

lemma for_run_returns:
  assumes "\<And>x s. f x s \<noteq> None"
  shows "for_run xs f s \<noteq> None"
proof (induction xs arbitrary: s)
  case (Cons x xs)
  show ?case unfolding for_run.simps by (intro bind_run_returns assms Cons.IH)
qed (simp only: for_run.simps lift_run_returns not_False_eq_True)

lemma purge_returns:
  assumes "faithful_store pos init env" and "\<And>b. finite (init b) \<and> [] \<notin> init b"
  shows "purge cfg env payload impact calls \<noteq> None"
proof -
  have "purge_artifact (ds_lake cfg) env d a c \<noteq> None" for d a c
    unfolding purge_artifact_def by (intro if_run_returns lift_run_returns purge_storage_returns [OF assms])
  then show ?thesis
    unfolding purge_def purge_artifacts_def by (intro bind_run_returns lift_run_returns for_run_returns)
qed

lemma process_claimed_returns:
  assumes "faithful_store pos init env" and "\<And>b. finite (init b) \<and> [] \<notin> init b"
  shows "process_claimed_deletion cfg env ids now row s \<noteq> None"
proof -
  have "carry_out_deletion cfg env ids now row s \<noteq> None"
  proof (cases "validate_deletion cfg env (dl_dataset_id row) s")
    case (Inr checked)
    obtain payload impact where "checked = (payload, impact)" by fastforce
    moreover obtain x calls where "purge cfg env payload impact (wk_calls s) = Some (x, calls)"
      using purge_returns [OF assms, of cfg payload impact "wk_calls s"] by auto
    ultimately show ?thesis using Inr by (simp add: carry_out_deletion_eq Let_def split: sum.split prod.split)
  qed (simp add: carry_out_deletion_eq)
  then obtain x t where "carry_out_deletion cfg env ids now row s = Some (x, t)" by auto
  then show ?thesis by (simp add: process_claimed_deletion_def mark_deletion_failed_run split: option.split sum.split)
qed

text \<open>C19. The worker always ends: with object storage that keeps its contract, a worker given a receipt and the worker
  that takes the oldest queued receipt both return without an error, whatever the other services answer; the
  second says whether there was a receipt to take.\<close>

theorem deletion_worker_ends:
  assumes "faithful_store pos init env" and "\<forall>b. finite (init b) \<and> [] \<notin> init b"
  shows "(\<exists>t. process_deletion_by_id cfg env ids locked now i (new_session d calls) = Some (Inr (), t))
    \<and> (\<exists>t. process_next_deletion cfg env ids locked now (new_session d calls)
         = Some (Inr (\<exists>row. claimable_deletion locked d row), t))"
proof
  note ends = process_claimed_returns [OF assms(1) spec [OF assms(2)], of cfg ids now]
  have "process_deletion_by_id cfg env ids locked now i (new_session d calls) \<noteq> None"
    unfolding process_deletion_by_id_def
    by (rule bind_run_returns) (use ends in \<open>auto simp: in_session_def lift_run_def split: prod.splits option.splits\<close>)
  then obtain r t where run: "process_deletion_by_id cfg env ids locked now i (new_session d calls) = Some (r, t)" by auto
  from run have "r = Inr ()" by (cases rule: process_by_id_cases) (auto dest: claimed_outcome)
  then show "\<exists>t. process_deletion_by_id cfg env ids locked now i (new_session d calls) = Some (Inr (), t)" using run by blast
next
  note ends = process_claimed_returns [OF assms(1) spec [OF assms(2)], of cfg ids now]
  obtain x d1 where c: "claim_next locked now d = (x, d1)" by fastforce
  from c show "\<exists>t. process_next_deletion cfg env ids locked now (new_session d calls)
      = Some (Inr (\<exists>row. claimable_deletion locked d row), t)"
  proof (cases rule: claim_next_cases)
    case idle
    then show ?thesis using c
      by (simp add: process_next_deletion_def bind_run_def in_session_def new_session_def lift_run_def return_op_def)
  next
    case (found row)
    obtain r t where run: "process_claimed_deletion cfg env ids now (claimed_row now row) (claimed_session now row d calls) = Some (r, t)"
      using ends by fastforce
    then have "r = Inr ()" using claimed_outcome [OF found(3)] by blast
    moreover have "\<exists>row. claimable_deletion locked d row" using found(3) by blast
    ultimately show ?thesis using c found run
      by (simp add: process_next_deletion_def bind_run_def in_session_def new_session_def claimed_session_def lift_run_def return_op_def)
  qed
qed

subsection \<open>The worker stays in scope\<close>


subsection \<open>All or nothing\<close>

text \<open>C6. A deletion happens as a whole or not at all. A worker either leaves the database as it was, or marks the
  receipt as failed and changes nothing else (all catalog metadata is kept, and so is the attempt counter), or
  commits, in one step: the receipt has succeeded, exactly the catalog row of the dataset is gone, and one audit
  event was appended that names the dataset and the receipt.\<close>

theorem deletion_all_or_nothing:
  assumes run: "process_deletion_by_id cfg env ids locked now i (new_session d calls) = Some (r, t)"
    and key: "keyed dl_id (lk_deletions d)"
  shows "r = Inr () \<and> (wk_committed t = d \<or> (\<exists>e. wk_committed t = failed_with e now i d)
    \<or> (\<exists>row payload impact event. get_deletion i d = Some row \<and> dl_status row = DelQueued
        \<and> get_deletion i (wk_committed t) = Some (completed now payload impact row)
        \<and> (\<forall>j. j \<noteq> i \<longrightarrow> get_deletion j (wk_committed t) = get_deletion j d)
        \<and> lk_catalog (wk_committed t) = filter (\<lambda>m. cd_id m \<noteq> dl_dataset_id row) (lk_catalog d)
        \<and> ad_audits (lk_access (wk_committed t)) = ad_audits (lk_access d) @ [event]
        \<and> ae_action event = ''catalog.dataset.deleted'' \<and> ae_target_id event = dl_dataset_id row
        \<and> jget ''deletionId'' (ae_metadata event) = JStr i))"
  using run
proof (cases rule: process_by_id_cases)
  case (claimed row)
  note out = claimed_outcome [OF claimed(1,3)]
  show ?thesis
  proof (cases "carried_out cfg env ids now (claimed_row now row) (claimed_session now row d calls) (wk_committed t)")
    case True
    then obtain payload impact actor where rows: "lk_deletions (wk_committed t) = update_where (\<lambda>r. dl_id r = dl_id row) (completed now payload impact) (lk_deletions d)"
        and cat: "lk_catalog (wk_committed t) = filter (\<lambda>r. cd_id r \<noteq> dl_dataset_id row) (lk_catalog d)"
        and audits: "ad_audits (lk_access (wk_committed t)) = ad_audits (lk_access d)
          @ [audit_event_row ids (deletion_audit row actor impact) AuditDataset]"
      by (rule carried_out_facts)
    have row: "get_deletion i d = Some row" "dl_status row = DelQueued"
      using claimed(1,2) lookup_key_keyed [OF key] by (auto simp: claimable_deletion_def get_deletion_def)
    have found: "get_deletion j (wk_committed t) = map_option (\<lambda>r. if dl_id r = i then completed now payload impact r else r) (get_deletion j d)" for j
      unfolding get_deletion_def rows claimed(2) by (rule lookup_key_update) (simp add: completed_def)
    have "get_deletion i (wk_committed t) = Some (completed now payload impact row)" using found [of i] row claimed(2) by simp
    moreover have "get_deletion j (wk_committed t) = get_deletion j d" if "j \<noteq> i" for j
      using found [of j] that by (cases "get_deletion j d") (auto simp: get_deletion_def dest: lookup_key_Some)
    ultimately show ?thesis using out row cat audits claimed(2)
      by (intro conjI disjI2) (auto simp: audit_event_row_def deletion_audit_def py_strip_def py_space_def char_code_def)
  qed (use out claimed(2) in auto)
qed simp

subsection \<open>A finished deletion leaves nothing\<close>

lemma failed_receipt:
  assumes "get_deletion i (failed_with e now i d) = Some r"
  shows "dl_status r = DelFailed"
proof (cases "get_deletion i d")
  case None
  then show ?thesis using assms by (simp add: get_deletion_def failed_with_def lookup_key_update)
next
  case (Some x)
  then have "dl_id x = i" using lookup_key_Some [of dl_id i "lk_deletions d" x] by (simp add: get_deletion_def)
  then show ?thesis using assms Some by (auto simp: get_deletion_def failed_with_def lookup_key_update)
qed

lemma finished_worker:
  assumes run: "process_deletion_by_id cfg env ids locked now i (new_session d calls) = Some (r, t)"
    and key: "keyed dl_id (lk_deletions d)" and row: "get_deletion i d = Some row" and queued: "dl_status row = DelQueued"
    and row': "get_deletion i (wk_committed t) = Some row'" "dl_status row' = DelSucceeded"
  shows "process_claimed_deletion cfg env ids now (claimed_row now row) (claimed_session now row d calls) = Some (r, t)
    \<and> carried_out cfg env ids now (claimed_row now row) (claimed_session now row d calls) (wk_committed t)"
  using run
proof (cases rule: process_by_id_cases)
  case idle
  then show ?thesis using row queued row' by simp
next
  case (claimed x)
  have x: "x = row" using claimed(1,2) lookup_key_keyed [OF key] row by (auto simp: claimable_deletion_def get_deletion_def)
  have "wk_committed t \<noteq> failed_with e now i d" for e
  proof
    assume "wk_committed t = failed_with e now i d"
    from failed_receipt [OF row'(1) [unfolded this]] row'(2) show False by simp
  qed
  then show ?thesis using claimed_outcome [OF claimed(1,3)] claimed(2,3) x by auto
qed


subsection \<open>A finished deletion leaves no objects\<close>

lemma scoped_extends: "scoped cfg env d calls calls' \<Longrightarrow> \<exists>cs. calls' = calls @ cs"
  by (induction rule: scoped.induct) auto

lemma faithful_lists_prefix: "faithful_store pos init env \<Longrightarrow> lists_prefix env"
  unfolding lists_prefix_def faithful_store_def page_faithful_def by (metis Inr_inject)

text \<open>No object of the location is left. Locations outside object storage are not covered.\<close>

definition objects_gone :: "lake_settings \<Rightarrow> (string \<Rightarrow> string set) \<Rightarrow> query_dataset \<Rightarrow> string \<Rightarrow> lake_call list \<Rightarrow> bool" where
  "objects_gone cfg init d location calls \<longleftrightarrow>
     (\<forall>u. urlparse cfg (s3_uri location) = Inr u \<and> pu_scheme u = ''s3'' \<longrightarrow>
        (\<exists>prefix. managed_storage_prefix (dropWhile (\<lambda>c. c = CHR ''/'') (pu_path u)) d = Inr prefix
           \<and> (\<forall>k \<in> live_keys init (pu_netloc u) calls. \<not> starts_with prefix k)))"

lemma objects_gone_later: "objects_gone cfg init d location calls \<Longrightarrow> objects_gone cfg init d location (calls @ cs)"
  unfolding objects_gone_def live_keys_def by (metis Diff_iff Un_iff deleted_keys_append)

lemma purge_storage_objects_gone:
  assumes "faithful_store pos init env" and "\<And>b. finite (init b) \<and> [] \<notin> init b"
    and "purge_storage cfg env location d calls = Some (Inr (), calls')"
  shows "objects_gone cfg init d location calls'"
  unfolding objects_gone_def
proof (intro allI impI, elim conjE)
  fix u assume u: "urlparse cfg (s3_uri location) = Inr u" "pu_scheme u = ''s3''"
  obtain prefix where p: "managed_storage_prefix (dropWhile (\<lambda>c. c = CHR ''/'') (pu_path u)) d = Inr prefix"
      and del: "delete_s3_prefix env (pu_netloc u) prefix calls = Some (Inr (), calls')"
    using assms(3) u
    by (auto simp: purge_storage_def bind_run_Some_iff lift_run_def op_defs split: if_splits sum.splits)
  obtain c where "delete_s3_prefix env (pu_netloc u) prefix calls = Some (Inr (), c)"
      and live: "live_keys init (pu_netloc u) c = {k \<in> live_keys init (pu_netloc u) calls. \<not> starts_with prefix k}"
    using delete_s3_prefix_complete [OF assms(1), of "pu_netloc u" prefix calls] assms(2) [of "pu_netloc u"] by blast
  then have "c = calls'" using del by simp
  then show "\<exists>prefix. managed_storage_prefix (dropWhile (\<lambda>c. c = CHR ''/'') (pu_path u)) d = Inr prefix
      \<and> (\<forall>k \<in> live_keys init (pu_netloc u) calls'. \<not> starts_with prefix k)"
    using p live by blast
qed

lemma purge_artifacts_objects_gone:
  assumes "faithful_store pos init env" and "\<And>b. finite (init b) \<and> [] \<notin> init b"
    and "purge_artifacts cfg env d artifacts calls = Some (Inr (), calls')"
    and "a \<in> set artifacts" and "af_kind a = ''storage''"
  shows "objects_gone cfg init d (af_location a) calls'"
  using assms(3,4)
proof (induction artifacts arbitrary: calls)
  case (Cons x xs)
  obtain c where c: "purge_artifact cfg env d x calls = Some (Inr (), c)" "purge_artifacts cfg env d xs c = Some (Inr (), calls')"
    using Cons.prems(1) by (auto simp: purge_artifacts_def bind_run_Some_iff)
  obtain cs where calls': "calls' = c @ cs"
    using scoped_extends [OF purge_artifacts_scoped [OF faithful_lists_prefix [OF assms(1)] c(2)]] by blast
  show ?case
  proof (cases "a = x")
    case True
    then have "purge_storage cfg env (af_location a) d calls = Some (Inr (), c)" using c(1) assms(5) by (simp add: purge_artifact_def)
    then show ?thesis unfolding calls' by (intro objects_gone_later purge_storage_objects_gone [OF assms(1,2)])
  next
    case False
    then show ?thesis using Cons.IH [OF c(2)] Cons.prems(2) by simp
  qed
qed simp


subsection \<open>A dataset named like a folder\<close>

lemma split_char_first: "c \<notin> set s \<Longrightarrow> split_char c (s @ c # t) = s # split_char c t"
  by (induction s) auto


end
