(* ===== verification/Deletion_Fence.thy ===== *)
theory Deletion_Fence
  imports Deletion_Safety
begin

section \<open>Dataset deletion: requests and the fence\<close>

text \<open>
  What an accepted request establishes, and the life of receipts over any interleaving of requests, workers and
  publications through the catalog repository: one receipt per dataset, and a deleted dataset stays deleted.
\<close>

subsection \<open>Accepted requests\<close>

lemma persisted_grants_frame:
  "dataset_with_persisted_permission_grants gm s d = Inr g \<Longrightarrow> \<exists>hs. g = d\<lparr>qd_grants := hs\<rparr>"
  by (auto simp: dataset_with_persisted_permission_grants_def bind_res_Inr_iff)

lemma authorized_dataset_Inr:
  assumes "authorized_dataset cfg ids i actor suffix verb s = (Inr (x, payload), t)"
  obtains m read g where "t = s" and "catalog_model i s = Some m" and "dataset_model_to_payload m = Inr payload"
    and "ds_dataset_model cfg payload = Inr read"
    and "dataset_with_persisted_permission_grants (ds_grant_model cfg) (lk_access s) (dd_dataset read) = Inr g"
    and "x = read\<lparr>dd_dataset := g\<rparr>"
    and "require_governed_access ids actor (deletion_access g (deletion_request_path i suffix) verb) (lk_access s) = (Inr (), lk_access s)"
    and "require_permission actor ''delete'' (Some (qd_owner g)) (map GrantObject (qd_grants g)) ''dataset'' = Inr ()"
proof -
  obtain p s1 where p: "get_dataset_payload i s = (Inr (Some p), s1)"
    using assms by (auto simp: authorized_dataset_def op_elims split: option.splits)
  then obtain m where m: "s1 = s" "catalog_model i s = Some m" "dataset_model_to_payload m = Inr p"
    by (auto simp: get_dataset_payload_def raise_if_deletion_in_progress_def op_elims split: option.splits)
  obtain read g s2 where r: "ds_dataset_model cfg p = Inr read"
      "dataset_with_persisted_permission_grants (ds_grant_model cfg) (lk_access s) (dd_dataset read) = Inr g"
      and gov: "on_access (require_governed_access ids actor (deletion_access g (deletion_request_path i suffix) verb)) s = (Inr (), s2)"
      and perm: "require_permission actor ''delete'' (Some (qd_owner g)) (map GrantObject (qd_grants g)) ''dataset'' = Inr ()"
      and x: "x = read\<lparr>dd_dataset := g\<rparr>" "payload = p" "t = s2"
    using assms p m(1) by (auto simp: authorized_dataset_def op_elims)
  obtain a where a: "require_governed_access ids actor (deletion_access g (deletion_request_path i suffix) verb) (lk_access s) = (Inr (), a)"
      "s2 = s\<lparr>lk_access := a\<rparr>" using gov by (auto simp: on_access_iff)
  have "a = lk_access s" using governed_access_keeps [OF a(1)] .
  then show ?thesis using that [of m read g] m r perm x a by simp
qed

lemma existing_deletion_iff:
  "raise_if_existing_deletion i s = (Inr (), t) \<longleftrightarrow> t = s \<and> (\<forall>r. latest_for_dataset i s = Some r \<longrightarrow> dl_status r = DelFailed)"
  by (auto simp: raise_if_existing_deletion_def op_elims split: option.splits)

lemma request_deletion_Inr:
  assumes "request_deletion cfg w ids uuid now i actor confirm s = (Inr out, t)"
  obtains m payload x g impact where "catalog_model i s = Some m" and "dataset_model_to_payload m = Inr payload"
    and "ds_dataset_model cfg payload = Inr x" and "confirm = qd_name (dd_dataset x)"
    and "dataset_with_persisted_permission_grants (ds_grant_model cfg) (lk_access s) (dd_dataset x) = Inr g"
    and "require_governed_access ids actor (deletion_access g (deletion_request_path i None) ''DELETE'') (lk_access s) = (Inr (), lk_access s)"
    and "require_permission actor ''delete'' (Some (qd_owner g)) (map GrantObject (qd_grants g)) ''dataset'' = Inr ()"
    and "\<forall>r. latest_for_dataset i s = Some r \<longrightarrow> dl_status r = DelFailed"
    and "build_deletion_impact (ds_lake cfg) w s x payload = Inr impact" and "im_blockers impact = []"
    and "create_or_retry uuid now (qd_id (dd_dataset x)) (qd_name (dd_dataset x))
      \<lparr>ss_actor = actor_snapshot actor, ss_dataset = payload, ss_impact = impact_dump impact\<rparr> s = (Inr out, t)"
proof -
  obtain y p s1 where auth: "authorized_dataset cfg ids i actor None ''DELETE'' s = (Inr (y, p), s1)"
    using assms by (auto simp: request_deletion_def op_elims)
  obtain m x g where a: "s1 = s" "catalog_model i s = Some m" "dataset_model_to_payload m = Inr p" "ds_dataset_model cfg p = Inr x"
      and g: "dataset_with_persisted_permission_grants (ds_grant_model cfg) (lk_access s) (dd_dataset x) = Inr g" "y = x\<lparr>dd_dataset := g\<rparr>"
      and ok: "require_governed_access ids actor (deletion_access g (deletion_request_path i None) ''DELETE'') (lk_access s) = (Inr (), lk_access s)"
        "require_permission actor ''delete'' (Some (qd_owner g)) (map GrantObject (qd_grants g)) ''dataset'' = Inr ()"
    by (rule authorized_dataset_Inr [OF auth])
  have locked: "get_dataset_payload_for_update i s = (Inr (Some p), s)"
    using a(2,3) by (simp add: get_dataset_payload_for_update_def get_dataset_model_for_update_def op_defs)
  have "qd_name g = qd_name (dd_dataset x)" using persisted_grants_frame [OF g(1)] by auto
  then show ?thesis
    using assms auth a g(2) locked that [OF a(2-4) _ g(1) ok]
    by (auto simp: request_deletion_def op_elims existing_deletion_iff)
qed

text \<open>A queued receipt of a dataset.\<close>

definition queued_receipt :: "string \<Rightarrow> string \<Rightarrow> lake_db \<Rightarrow> bool" where
  "queued_receipt deletion_id dataset_id s \<longleftrightarrow>
     (\<exists>r \<in> set (lk_deletions s). dl_id r = deletion_id \<and> dl_dataset_id r = dataset_id \<and> dl_status r = DelQueued)"

lemma last_by_age_None: "last_by_age rows = None \<longleftrightarrow> rows = []"
  by (simp add: last_by_age_def)

lemma last_by_age_Some: "last_by_age rows = Some r \<Longrightarrow> r \<in> set rows"
proof -
  assume *: "last_by_age rows = Some r"
  then have "rows \<noteq> []" "r = last (sort_key deletion_order rows)" by (auto simp: last_by_age_def split: if_splits)
  then show ?thesis by (metis last_in_set set_empty set_sort)
qed

lemma latest_None: "latest_for_dataset i s = None \<longleftrightarrow> i \<notin> dl_dataset_id ` set (lk_deletions s)"
  by (auto simp: latest_for_dataset_def last_by_age_None filter_empty_conv)

lemma latest_Some: "latest_for_dataset i s = Some r \<Longrightarrow> r \<in> set (lk_deletions s) \<and> dl_dataset_id r = i"
  by (auto simp: latest_for_dataset_def dest!: last_by_age_Some)

lemma create_or_retry_cases:
  assumes "create_or_retry uuid now i name sn s = (Inr out, t)"
    and "\<forall>r. latest_for_dataset i s = Some r \<longrightarrow> dl_status r = DelFailed"
  obtains (created) "latest_for_dataset i s = None" and "''catalog_delete_'' @ uuid \<notin> dl_id ` set (lk_deletions s)"
      and "out = (''catalog_delete_'' @ uuid, DelQueued)"
      and "t = s\<lparr>lk_deletions := lk_deletions s @ [new_deletion uuid now i name sn]\<rparr>"
  | (retried) r where "latest_for_dataset i s = Some r" and "dl_status r = DelFailed" and "out = (dl_id r, DelQueued)"
      and "t = s\<lparr>lk_deletions := update_where (\<lambda>x. dl_id x = dl_id r) (\<lambda>x. (queue_again sn x)\<lparr>dl_updated_at := now\<rparr>) (lk_deletions s)\<rparr>"
proof (cases "latest_for_dataset i s")
  case None
  show ?thesis
    by (rule created [OF None])
      (use assms(1) None in \<open>auto simp: create_or_retry_def op_elims insert_deletion_def sql_insert_Inr_iff new_deletion_def split: sum.splits\<close>)
next
  case (Some r)
  then have f: "dl_status r = DelFailed" using assms(2) by blast
  show ?thesis
    by (rule retried [OF Some f]) (use assms(1) Some f in \<open>auto simp: create_or_retry_def op_elims put_deletion_def\<close>)
qed

lemma no_blockers:
  assumes "build_deletion_impact cfg w s x payload = Inr impact" and "im_blockers impact = []"
  shows "workload_blockers (qd_id (dd_dataset x)) s = []" and "dependency_blockers (qd_id (dd_dataset x)) payload s = Inr []"
    and "\<exists>artifacts. dataset_artifacts payload = Inr artifacts \<and> artifact_ownership_blockers cfg w (dd_dataset x) artifacts = Inr []"
  using assms by (auto simp: build_deletion_impact_def bind_res_Inr_iff Let_def)

text \<open>No job or run is at work on the dataset.\<close>

definition at_rest :: "string \<Rightarrow> lake_db \<Rightarrow> bool" where
  "at_rest i s \<longleftrightarrow>
     (\<forall>j \<in> set (lk_jobs s). pj_dataset_id j = Some i \<longrightarrow>
        \<not> has_scheduled_execution (pj_status j) (Some (pj_schedule j))
        \<and> (pj_execution_mode j = ''continuous'' \<longrightarrow> casefold (pj_status j) = ''stopped''))
     \<and> (\<forall>j \<in> set (lk_continuous s). \<not> nested_contains (cq_relation_bindings j) i
        \<and> (cq_output_dataset_id j = i \<longrightarrow> cq_desired_state j = ''stopped'' \<and> cq_observed_state j \<in> {''stopped'', ''failed''}))
     \<and> (\<forall>r \<in> set (lk_sql_runs s). mentions_run i r \<longrightarrow>
        casefold (str_of (jget ''status'' (sr_payload r))) \<notin> set active_run_statuses)"

lemma producer_idle:
  "producer_blockers s j = [] \<Longrightarrow> \<not> has_scheduled_execution (pj_status j) (Some (pj_schedule j))
    \<and> (pj_execution_mode j = ''continuous'' \<longrightarrow> casefold (pj_status j) = ''stopped'')"
  by (simp add: producer_blockers_def split: if_split_asm)

lemma continuous_idle:
  "continuous_blockers i j = [] \<Longrightarrow> \<not> nested_contains (cq_relation_bindings j) i
    \<and> (cq_output_dataset_id j = i \<longrightarrow> cq_desired_state j = ''stopped'' \<and> cq_observed_state j \<in> {''stopped'', ''failed''})"
  unfolding continuous_blockers_def Let_def
  by (cases "cq_output_dataset_id j = i"; cases "nested_contains (cq_relation_bindings j) i") (simp_all split: if_split_asm)

lemma sql_run_idle:
  "sql_run_blockers i r = [] \<Longrightarrow> mentions_run i r \<longrightarrow>
    casefold (str_of (jget ''status'' (sr_payload r))) \<notin> set active_run_statuses"
  unfolding sql_run_blockers_def mentions_run_def
  by (cases "casefold (str_of (jget ''status'' (sr_payload r))) \<in> set active_run_statuses")
    (simp_all del: nested_contains.simps split: if_split_asm)

lemma workload_at_rest: "workload_blockers i s = [] \<Longrightarrow> at_rest i s"
proof -
  assume none: "workload_blockers i s = []"
  have "producer_blockers s j = []" if "j \<in> set (lk_jobs s)" "pj_dataset_id j = Some i" for j
    using none that by (auto simp: workload_blockers_def)
  moreover have "continuous_blockers i j = []" if "j \<in> set (lk_continuous s)" for j
    using none that by (simp add: workload_blockers_def)
  moreover have "sql_run_blockers i r = []" if "r \<in> set (lk_sql_runs s)" for r
    using none that by (simp add: workload_blockers_def)
  ultimately show ?thesis unfolding at_rest_def using producer_idle continuous_idle sql_run_idle by blast
qed

lemma upstream_readers_empty:
  "upstream_readers i n rows = Inr [] \<Longrightarrow> r \<in> set rows \<Longrightarrow> cd_id r \<noteq> i \<Longrightarrow> names_upstream i n r = Inr False"
  by (induction rows) (auto simp: bind_res_Inr_iff split: if_splits)

text \<open>No other dataset of the catalog names this one as its source.\<close>

definition unread :: "string \<Rightarrow> dict \<Rightarrow> lake_db \<Rightarrow> bool" where
  "unread i payload s \<longleftrightarrow>
     (\<forall>r \<in> set (lk_catalog s). cd_id r \<noteq> i \<longrightarrow> names_upstream i (str_of (jget ''name'' payload)) r = Inr False)"

lemma lineage_unread:
  assumes "lineage_blockers i payload s = Inr found" and "\<And>b. b \<in> set found \<Longrightarrow> bk_resource_type b \<noteq> ''catalog_dataset''"
  shows "unread i payload s"
proof -
  obtain items readers where u: "upstream_readers i (str_of (jget ''name'' payload)) (lk_catalog s) = Inr readers"
      and found: "found = map (\<lambda>i. blocker ''catalog_dataset'' i
            (case catalog_model i s of None \<Rightarrow> i | Some r \<Rightarrow> py_str (of_opt_str (cd_name r))) reason_downstream)
         (sort (remdups (concat (map (downstream_of i (lk_catalog s)) items) @ readers)))"
    using assms(1) unfolding lineage_blockers_def bind_res_Inr_iff by blast
  have "found = []"
  proof (rule ccontr)
    assume "found \<noteq> []"
    then obtain b where b: "b \<in> set found" by (cases found) auto
    then have "bk_resource_type b = ''catalog_dataset''" unfolding found by (auto simp: blocker_def)
    then show False using assms(2) [OF b] by blast
  qed
  then have "set (sort (remdups (concat (map (downstream_of i (lk_catalog s)) items) @ readers))) = {}" using found by simp
  then have "readers = []" by simp
  then show ?thesis using u upstream_readers_empty unfolding unread_def by blast
qed

lemma dependencies_unread:
  assumes "dependency_blockers i payload s = Inr []"
  shows "unread i payload s"
proof -
  obtain found where l: "lineage_blockers i payload s = Inr found"
      and f: "filter (\<lambda>b. bk_resource_type b \<notin> {''dashboard_widget'', ''semantic_model''}) (dashboard_blockers i s @ found) = []"
    using assms unfolding dependency_blockers_def dependency_blockers_with_dashboard_widgets_def bind_res_Inr_iff by blast
  have "bk_resource_type b \<noteq> ''catalog_dataset''" if "b \<in> set found" for b
  proof -
    have "bk_resource_type b \<in> {''dashboard_widget'', ''semantic_model''}" using f that unfolding filter_empty_conv by simp
    then show ?thesis by auto
  qed
  then show ?thesis by (rule lineage_unread [OF l])
qed

lemma map_res_Inr_elem: "map_res f xs = Inr ys \<Longrightarrow> x \<in> set xs \<Longrightarrow> \<exists>y \<in> set ys. f x = Inr y"
  by (induction xs arbitrary: ys) (auto split: sum.splits)

lemma ownership_managed:
  assumes "artifact_ownership_blockers cfg w d artifacts = Inr []" and "a \<in> set artifacts"
  shows "ownership_blockers cfg w d a = Inr []"
proof -
  obtain bs where bs: "map_res (ownership_blockers cfg w d) artifacts = Inr bs" "concat bs = []"
    using assms(1) by (auto simp: artifact_ownership_blockers_def bind_res_Inr_iff)
  then obtain b where "b \<in> set bs" "ownership_blockers cfg w d a = Inr b" using map_res_Inr_elem [OF bs(1) assms(2)] by blast
  then show ?thesis using bs(2) by auto
qed

lemma storage_managed:
  assumes "ownership_blockers cfg w d a = Inr []" and "af_kind a = ''storage''"
  shows "is_managed_storage_location cfg w (af_location a) d = Inr True"
  using assms by (auto simp: ownership_blockers_def bind_res_Inr_iff split: if_splits)

lemma create_or_retry_queues:
  assumes "create_or_retry uuid now i name sn s = (Inr (deletion_id, status), t)"
    and "\<forall>r. latest_for_dataset i s = Some r \<longrightarrow> dl_status r = DelFailed"
  shows "status = DelQueued \<and> queued_receipt deletion_id i t \<and> t = s\<lparr>lk_deletions := lk_deletions t\<rparr>"
  using assms
proof (cases rule: create_or_retry_cases)
  case created
  then show ?thesis by (simp add: queued_receipt_def new_deletion_def)
next
  case (retried r)
  then have "r \<in> set (lk_deletions s)" "dl_dataset_id r = i" using latest_Some by blast+
  then have "(queue_again sn r)\<lparr>dl_updated_at := now\<rparr> \<in> set (lk_deletions t)"
    using retried(4) by (auto simp: in_update_where intro!: bexI [of _ r])
  then have "queued_receipt deletion_id i t"
    unfolding queued_receipt_def using retried(3) \<open>dl_dataset_id r = i\<close>
    by (intro bexI [of _ "(queue_again sn r)\<lparr>dl_updated_at := now\<rparr>"]) (simp_all add: queue_again_def)
  then show ?thesis using retried(3,4) by simp
qed

text \<open>
  Catalog rows carry the identifier of their payload: \<open>save_dataset_payload\<close> stores a payload under the identifier in it, and
  validation keeps it.
\<close>

definition ids_agree :: "deletion_settings \<Rightarrow> lake_db \<Rightarrow> bool" where
  "ids_agree cfg s \<longleftrightarrow>
     (\<forall>m \<in> set (lk_catalog s). \<forall>payload x. dataset_model_to_payload m = Inr payload \<longrightarrow> ds_dataset_model cfg payload = Inr x
        \<longrightarrow> qd_id (dd_dataset x) = cd_id m)"

lemma ids_agree_model:
  assumes "ids_agree cfg s" and "catalog_model i s = Some m" and "dataset_model_to_payload m = Inr payload"
    and "ds_dataset_model cfg payload = Inr x"
  shows "qd_id (dd_dataset x) = i"
  using assms lookup_key_Some [of cd_id i "lk_catalog s" m] unfolding ids_agree_def catalog_model_def by blast

lemma strip_dataset: "py_strip ''dataset'' = ''dataset''"
  by code_simp

lemma strip_delete: "py_strip ''delete'' = ''delete''"
  by code_simp


subsection \<open>The life of receipts\<close>

text \<open>
  The committed changes of a deployment: an accepted request, a worker (given a receipt or taking the oldest one), a
  dataset saved by the catalog repository, and any other change that keeps the receipts and adds no
  dataset to the catalog. A refused request is one of the latter: it may record an audit event.
\<close>

inductive deletion_step :: "deletion_settings \<Rightarrow> lake_db \<Rightarrow> lake_db \<Rightarrow> bool" for cfg where
  requested: "request_deletion cfg w ids uuid now i actor confirm d = (Inr out, d') \<Longrightarrow> deletion_step cfg d d'"
| worked: "process_deletion_by_id cfg env ids locked now i (new_session d calls) = Some (r, t)
    \<Longrightarrow> deletion_step cfg d (wk_committed t)"
| worked_next: "process_next_deletion cfg env ids locked now (new_session d calls) = Some (r', t)
    \<Longrightarrow> deletion_step cfg d (wk_committed t)"
| saved: "save_dataset_payload new d = (Inr (), d') \<Longrightarrow> ids_agree cfg d' \<Longrightarrow> deletion_step cfg d d'"
| other: "lk_deletions d' = lk_deletions d \<Longrightarrow> cd_id ` set (lk_catalog d') \<subseteq> cd_id ` set (lk_catalog d) \<Longrightarrow> ids_agree cfg d'
    \<Longrightarrow> deletion_step cfg d d'"

text \<open>
  The states between the transactions: receipts have unique identifiers, a dataset has at most one, none shows a stage
  of a running worker, and a dataset whose receipt has succeeded is not in the catalog.
\<close>

definition receipts_ok :: "lake_db \<Rightarrow> bool" where
  "receipts_ok d \<longleftrightarrow> keyed dl_id (lk_deletions d) \<and> keyed dl_dataset_id (lk_deletions d)
     \<and> (\<forall>r \<in> set (lk_deletions d). dl_status r \<in> {DelQueued, DelSucceeded, DelFailed})
     \<and> (\<forall>r \<in> set (lk_deletions d). dl_status r = DelSucceeded \<longrightarrow> dl_dataset_id r \<notin> cd_id ` set (lk_catalog d))"

lemma receipts_okI:
  assumes "receipts_ok d" and "lk_deletions d' = update_where (\<lambda>r. dl_id r = j) f (lk_deletions d)"
    and "\<And>r. dl_id (f r) = dl_id r \<and> dl_dataset_id (f r) = dl_dataset_id r" and "cd_id ` set (lk_catalog d') \<subseteq> cd_id ` set (lk_catalog d)"
    and "\<And>r. r \<in> set (lk_deletions d) \<Longrightarrow> dl_id r = j \<Longrightarrow> dl_status (f r) \<in> {DelQueued, DelFailed}
      \<or> dl_status (f r) = DelSucceeded \<and> dl_dataset_id r \<notin> cd_id ` set (lk_catalog d')"
  shows "receipts_ok d'"
proof -
  have "keyed dl_id (lk_deletions d')" "keyed dl_dataset_id (lk_deletions d')"
    using assms(1) unfolding receipts_ok_def assms(2) by (auto intro!: keyed_update_where simp: assms(3))
  moreover have "dl_status r \<in> {DelQueued, DelSucceeded, DelFailed} \<and> (dl_status r = DelSucceeded \<longrightarrow> dl_dataset_id r \<notin> cd_id ` set (lk_catalog d'))"
    if r: "r \<in> set (lk_deletions d')" for r
  proof -
    obtain x where x: "x \<in> set (lk_deletions d)" "r = (if dl_id x = j then f x else x)"
      using r unfolding assms(2) in_update_where by blast
    show ?thesis
    proof (cases "dl_id x = j")
      case True
      then show ?thesis using assms(3,5) [of x] x by auto
    next
      case False
      then have "r = x" using x(2) by simp
      then show ?thesis using assms(1,4) x(1) unfolding receipts_ok_def by blast
    qed
  qed
  ultimately show ?thesis unfolding receipts_ok_def by blast
qed

lemma receipts_ok_same:
  assumes "receipts_ok d" and "lk_deletions d' = lk_deletions d" and "cd_id ` set (lk_catalog d') \<subseteq> cd_id ` set (lk_catalog d)"
  shows "receipts_ok d'"
  using assms unfolding receipts_ok_def by (metis subsetD)

lemma keyed_dataset: "receipts_ok d \<Longrightarrow> r \<in> set (lk_deletions d) \<Longrightarrow> x \<in> set (lk_deletions d) \<Longrightarrow> dl_id r = dl_id x \<Longrightarrow> r = x"
  unfolding receipts_ok_def using keyed_same_row by metis

text \<open>What every step keeps: the invariant, the agreement of identifiers and the receipts that have succeeded.\<close>

definition kept :: "deletion_settings \<Rightarrow> lake_db \<Rightarrow> lake_db \<Rightarrow> bool" where
  "kept cfg d d' \<longleftrightarrow> receipts_ok d' \<and> ids_agree cfg d'
     \<and> (\<forall>r \<in> set (lk_deletions d). dl_status r = DelSucceeded \<longrightarrow> r \<in> set (lk_deletions d'))"

lemma keptI:
  assumes "receipts_ok d'" and "ids_agree cfg d'" and "lk_deletions d' = update_where (\<lambda>r. dl_id r = j) f (lk_deletions d)"
    and "\<And>r. r \<in> set (lk_deletions d) \<Longrightarrow> dl_id r = j \<Longrightarrow> dl_status r \<noteq> DelSucceeded"
  shows "kept cfg d d'"
  using assms unfolding kept_def by (auto simp: in_update_where)

lemma ids_agree_subset: "ids_agree cfg d \<Longrightarrow> set (lk_catalog d') \<subseteq> set (lk_catalog d) \<Longrightarrow> ids_agree cfg d'"
  unfolding ids_agree_def by blast

lemma kept_request:
  assumes "request_deletion cfg w ids uuid now i actor confirm d = (Inr out, d')" and ok: "receipts_ok d" "ids_agree cfg d"
  shows "kept cfg d d'"
proof -
  obtain m payload x sn where m: "catalog_model i d = Some m" "dataset_model_to_payload m = Inr payload" "ds_dataset_model cfg payload = Inr x"
      and last: "\<forall>r. latest_for_dataset i d = Some r \<longrightarrow> dl_status r = DelFailed"
      and create: "create_or_retry uuid now (qd_id (dd_dataset x)) (qd_name (dd_dataset x)) sn d = (Inr out, d')"
    by (rule request_deletion_Inr [OF assms(1)])
  have "qd_id (dd_dataset x) = i" by (rule ids_agree_model [OF ok(2) m])
  note c = create [unfolded this]
  from c last show ?thesis
  proof (cases rule: create_or_retry_cases)
    case created
    then have new: "i \<notin> dl_dataset_id ` set (lk_deletions d)" by (simp add: latest_None)
    have "receipts_ok d'" using ok(1) created(2,4) new by (simp add: receipts_ok_def keyed_snoc new_deletion_def)
    then show ?thesis using created(4) ok(2) by (simp add: kept_def ids_agree_def)
  next
    case (retried r)
    then have r: "r \<in> set (lk_deletions d)" using latest_Some by blast
    have rows: "lk_deletions d' = update_where (\<lambda>x. dl_id x = dl_id r) (\<lambda>x. (queue_again sn x)\<lparr>dl_updated_at := now\<rparr>) (lk_deletions d)"
      and same: "lk_catalog d' = lk_catalog d" using retried(4) by simp_all
    have "receipts_ok d'" by (rule receipts_okI [OF ok(1) rows]) (simp_all add: queue_again_def same)
    moreover have "dl_status x \<noteq> DelSucceeded" if "x \<in> set (lk_deletions d)" "dl_id x = dl_id r" for x
      using keyed_dataset [OF ok(1) that(1) r that(2)] retried(2) by simp
    moreover have "ids_agree cfg d'" using ok(2) same by (simp add: ids_agree_def)
    ultimately show ?thesis using keptI [OF _ _ rows] by blast
  qed
qed

lemma kept_outcome:
  assumes row: "claimable_deletion locked d row"
    and run: "process_claimed_deletion cfg env ids now (claimed_row now row) (claimed_session now row d calls) = Some (r, t)"
    and ok: "receipts_ok d" "ids_agree cfg d"
  shows "kept cfg d (wk_committed t)"
proof -
  have mine: "dl_dataset_id x = dl_dataset_id row" "dl_status x = DelQueued" if "x \<in> set (lk_deletions d)" "dl_id x = dl_id row" for x
  proof -
    have "x = row" by (rule keyed_dataset [OF ok(1)]) (use row that in \<open>auto simp: claimable_deletion_def\<close>)
    then show "dl_dataset_id x = dl_dataset_id row" "dl_status x = DelQueued" using row by (auto simp: claimable_deletion_def)
  qed
  then have queued: "dl_status x \<noteq> DelSucceeded" if "x \<in> set (lk_deletions d)" "dl_id x = dl_id row" for x using that by fastforce
  show ?thesis
  proof (cases "carried_out cfg env ids now (claimed_row now row) (claimed_session now row d calls) (wk_committed t)")
    case True
    obtain payload impact where
        rows: "lk_deletions (wk_committed t) = update_where (\<lambda>r. dl_id r = dl_id row) (completed now payload impact) (lk_deletions d)"
        and cat: "lk_catalog (wk_committed t) = filter (\<lambda>r. cd_id r \<noteq> dl_dataset_id row) (lk_catalog d)"
      by (rule carried_out_facts [OF True])
    have "receipts_ok (wk_committed t)"
      by (rule receipts_okI [OF ok(1) rows]) (use mine in \<open>auto simp: completed_def cat\<close>)
    then show ?thesis by (rule keptI [OF _ _ rows queued]) (use ids_agree_subset [OF ok(2)] cat in auto)
  next
    case False
    then obtain e where "wk_committed t = failed_with e now (dl_id row) d" using claimed_outcome [OF row run] by blast
    then have rows: "lk_deletions (wk_committed t) = update_where (\<lambda>r. dl_id r = dl_id row)
          (\<lambda>r. r\<lparr>dl_status := DelFailed, dl_error_code := Some (deletion_error_code e),
                dl_error_message := Some (deletion_error_message e), dl_updated_at := now\<rparr>) (lk_deletions d)"
        and same: "lk_catalog (wk_committed t) = lk_catalog d"
      by (simp_all add: failed_with_def)
    have "receipts_ok (wk_committed t)" by (rule receipts_okI [OF ok(1) rows]) (simp_all add: same)
    then show ?thesis by (rule keptI [OF _ _ rows queued]) (use ids_agree_subset [OF ok(2)] same in auto)
  qed
qed

lemma kept_same:
  assumes "receipts_ok d" and "lk_deletions d' = lk_deletions d" and "cd_id ` set (lk_catalog d') \<subseteq> cd_id ` set (lk_catalog d)" and "ids_agree cfg d'"
  shows "kept cfg d d'"
  using assms receipts_ok_same [OF assms(1-3)] by (simp add: kept_def)

lemma fenced_save: "has_fence (cd_id new) d \<Longrightarrow> \<exists>e. save_dataset_payload new d = (Inl e, d)"
  by (simp add: save_dataset_payload_def get_dataset_model_for_update_def ensure_catalog_publication_allowed_def op_defs)

lemma save_rows:
  assumes "save_dataset_payload new d = (Inr (), d')"
  obtains rows where "d' = put_catalog rows d" and "cd_id ` set rows \<subseteq> insert (cd_id new) (cd_id ` set (lk_catalog d))"
proof (cases "catalog_model (cd_id new) d")
  case None
  show ?thesis
    by (rule that [of "lk_catalog d @ [new]"])
      (use assms None in \<open>auto simp: save_dataset_payload_def get_dataset_model_for_update_def ensure_catalog_publication_allowed_def op_elims\<close>)
next
  case (Some old)
  have "map cd_id (update_where (\<lambda>r. cd_id r = cd_id new) (\<lambda>_. new) (lk_catalog d)) = map cd_id (lk_catalog d)"
    by (rule keys_update_where) simp
  then have same: "cd_id ` set (update_where (\<lambda>r. cd_id r = cd_id new) (\<lambda>_. new) (lk_catalog d)) = cd_id ` set (lk_catalog d)"
    by (metis list.set_map)
  show ?thesis
    by (rule that [of "update_where (\<lambda>r. cd_id r = cd_id new) (\<lambda>_. new) (lk_catalog d)"])
      (use assms Some in \<open>auto simp: save_dataset_payload_def get_dataset_model_for_update_def ensure_catalog_publication_allowed_def op_elims
        same\<close>)
qed

lemma kept_save:
  assumes "save_dataset_payload new d = (Inr (), d')" and "receipts_ok d" and "ids_agree cfg d'"
  shows "kept cfg d d'"
proof -
  have "\<not> has_fence (cd_id new) d" using fenced_save [of new d] assms(1) by auto
  then have fence: "cd_id new \<notin> dl_dataset_id ` set (lk_deletions d)" by (auto simp: has_fence_def find_None_iff)
  obtain rows where d': "d' = put_catalog rows d" and cat: "cd_id ` set rows \<subseteq> insert (cd_id new) (cd_id ` set (lk_catalog d))"
    by (rule save_rows [OF assms(1)])
  have same: "lk_deletions d' = lk_deletions d" "lk_catalog d' = rows" by (simp_all add: d' put_catalog_def)
  have "dl_dataset_id r \<notin> cd_id ` set rows" if "r \<in> set (lk_deletions d)" "dl_status r = DelSucceeded" for r
  proof -
    have "dl_dataset_id r \<noteq> cd_id new" using fence that(1) by (metis imageI)
    then show ?thesis using assms(2) that cat unfolding receipts_ok_def by blast
  qed
  then have "receipts_ok d'" using assms(2) unfolding receipts_ok_def same by simp
  then show ?thesis using same assms(3) by (simp add: kept_def)
qed

lemma kept_step:
  assumes "deletion_step cfg d d'" and "receipts_ok d" and "ids_agree cfg d"
  shows "kept cfg d d'"
  using assms(1)
proof cases
  case (requested w ids uuid now i actor confirm out)
  show ?thesis by (rule kept_request [OF requested assms(2,3)])
next
  case (worked env ids locked now i calls r t)
  from worked(2) show ?thesis
  proof (cases rule: process_by_id_cases)
    case idle
    then show ?thesis using assms(2,3) kept_same worked(1) by simp
  next
    case (claimed row)
    then show ?thesis using kept_outcome assms(2,3) worked(1) by blast
  qed
next
  case (worked_next env ids locked now calls r' t)
  from worked_next(2) show ?thesis
  proof (cases rule: process_next_cases)
    case idle
    then show ?thesis using assms(2,3) kept_same worked_next(1) by simp
  next
    case (claimed row r'')
    then show ?thesis using kept_outcome assms(2,3) worked_next(1) by blast
  qed
next
  case (saved new)
  then show ?thesis using kept_save assms(2) by blast
next
  case other
  then show ?thesis using kept_same assms(2) by blast
qed

text \<open>C8. Over any interleaving of requests, workers, saved datasets and other changes that add none: a
  dataset has at most one receipt, no committed receipt shows a stage of a running worker, and a receipt that has
  succeeded is never changed again, while its dataset is not in the catalog and cannot be saved there.\<close>

theorem deleted_datasets_stay_deleted:
  assumes "(deletion_step cfg)\<^sup>*\<^sup>* d d'" and "receipts_ok d" and "ids_agree cfg d"
  shows "receipts_ok d' \<and> (\<forall>r \<in> set (lk_deletions d). dl_status r = DelSucceeded \<longrightarrow>
    r \<in> set (lk_deletions d') \<and> catalog_model (dl_dataset_id r) d' = None
    \<and> (\<forall>new. cd_id new = dl_dataset_id r \<longrightarrow> (\<exists>e. save_dataset_payload new d' = (Inl e, d'))))"
proof -
  have kept: "kept cfg d d'" using assms
  proof (induction rule: rtranclp_induct)
    case base
    then show ?case by (simp add: kept_def)
  next
    case (step y z)
    then have "kept cfg d y" by blast
    moreover from this have "kept cfg y z" using kept_step [OF step(2)] by (simp add: kept_def)
    ultimately show ?case by (simp add: kept_def)
  qed
  have "\<exists>e. save_dataset_payload new d' = (Inl e, d')" if "r \<in> set (lk_deletions d')" "cd_id new = dl_dataset_id r" for r new
    using fenced_save [of new d'] that by (auto simp: has_fence_def find_None_iff)
  then show ?thesis using kept unfolding kept_def receipts_ok_def catalog_model_def lookup_key_None by blast
qed

end
