(* ===== verification/Deletion_Examples.thy ===== *)
theory Deletion_Examples
  imports Deletion_Fence
begin

section \<open>Dataset deletion: a lake with one dataset\<close>

text \<open>
  A concrete lake on which the guarantees of the deletion are applied: one dataset in object storage next to another
  one, requested by an administrator and carried out by a worker.
\<close>

definition sample_lake_settings :: lake_settings where
  "sample_lake_settings = \<lparr>ls_output_bucket = ''lake'', ls_clickhouse_database = ''asklake'', ls_trino_catalog = ''iceberg'',
     ls_trino_schema = ''gold'', ls_trino_max_result_pages = 10, ls_storage_root = ''/data'', ls_netloc_ok = (\<lambda>_. False)\<rparr>"

definition sample_dataset_model :: dataset_model where
  "sample_dataset_model p = Inr \<lparr>dd_dataset = \<lparr>qd_id = str_of (jget ''id'' p), qd_name = str_of (jget ''name'' p),
     qd_owner = str_of (jget ''owner'' p), qd_grants = []\<rparr>, dd_runs = [], dd_storage_size_bytes = None\<rparr>"

definition sample_deletion_settings :: deletion_settings where
  "sample_deletion_settings = \<lparr>ds_lake = sample_lake_settings, ds_tx_aborts = True, ds_json_loads = (\<lambda>_. None),
     ds_dataset_model = sample_dataset_model, ds_grant_model = schema_grant_model\<rparr>"

definition sample_objects :: "string \<Rightarrow> string list" where
  "sample_objects b = (if b = ''lake'' then [''gold/ds1/part-0'', ''gold/ds1/part-1'', ''gold/ds2/part-0''] else [])"

definition sample_store :: "string \<Rightarrow> string set" where
  "sample_store b = set (sample_objects b)"

definition sample_lake_env :: environment where
  "sample_lake_env calls = \<lparr>lw_resolve = (\<lambda>_. Inr []), lw_exists = (\<lambda>_. False), lw_is_dir = (\<lambda>_. False), lw_remove = (\<lambda>_. Inr ()),
     lw_list = (\<lambda>b p tok. Inr \<lparr>sp_keys = filter (\<lambda>k. k \<notin> deleted_keys b calls \<and> starts_with p k \<and> after_token id tok k)
       (sample_objects b), sp_truncated = False, sp_next_token = None\<rparr>),
     lw_submit = (\<lambda>_. Inr \<lparr>tp_next_uri = None, tp_error = None\<rparr>), lw_fetch = (\<lambda>_. Inr \<lparr>tp_next_uri = None, tp_error = None\<rparr>),
     lw_clickhouse = (\<lambda>_. undefined)\<rparr>"

definition sample_payload :: dict where
  "sample_payload = [(''id'', JStr ''ds1''), (''name'', JStr ''orders''), (''owner'', JStr ''park''), (''rag'', JBool False),
     (''physicalBindings'', JList []), (''storageLocation'', JStr ''s3a://lake/gold/ds1/''), (''permissionGrants'', JList [JNull]),
     (''permissions'', JBool True), (''materializationRuns'', JList [])]"

definition sample_catalog_row :: catalog_row where
  "sample_catalog_row = \<lparr>cd_id = ''ds1'', cd_payload = Some sample_payload,
     cd_name = Some ''orders'', cd_description = None, cd_owner = Some ''park'', cd_layer = None, cd_status = None, cd_freshness = None,
     cd_source = None, cd_producer_job_id = None, cd_producer_job_kind = None, cd_execution_mode = None, cd_source_kind = None,
     cd_relation_mode = None, cd_runtime_status = None, cd_source_manifest = None, cd_rows = None, cd_size = None, cd_quality = None,
     cd_last_updated = None, cd_next_refresh = None, cd_rag = None, cd_tags = None, cd_schema_json = None, cd_sample_rows = None,
     cd_upstream = None, cd_downstream = None, cd_lineage_graph = None\<rparr>"

definition sample_lake :: lake_db where
  "sample_lake = \<lparr>lk_access = \<lparr>ad_users = [], ad_sessions = [], ad_grants = [], ad_controls = [], ad_locks = [], ad_audits = []\<rparr>,
      lk_store = empty_db\<lparr>db_catalog := [sample_catalog_row]\<rparr>, lk_deletions = [],
     lk_jobs = [], lk_runs = [], lk_continuous = [],
     lk_sql_runs = [\<lparr>sr_id = ''run_1'', sr_dataset_id = ''ds1'', sr_payload = [(''status'', JStr ''succeeded'')]\<rparr>], lk_sql_pages = [],
     lk_dashboards = [], lk_dashboards_shape = FullDashboards, lk_tags = Some [], lk_revisions = [], lk_pages = [], lk_widgets = [],
     lk_models = [], lk_members = [], lk_metrics = [], lk_dimensions = [], lk_relationships = [], lk_vocabulary = [], lk_versions = [],
     lk_batch_results = [], lk_widget_results = [], lk_cursors = []\<rparr>"

definition sample_dataset :: deletion_dataset where
  "sample_dataset = \<lparr>dd_dataset = \<lparr>qd_id = ''ds1'', qd_name = ''orders'', qd_owner = ''park'', qd_grants = []\<rparr>, dd_runs = [],
     dd_storage_size_bytes = None\<rparr>"

definition sample_impact :: deletion_impact where
  "sample_impact = \<lparr>im_artifacts = [artifact ''storage'' ''s3a://lake/gold/ds1/''], im_blockers = [], im_can_delete = True,
     im_dataset_id = ''ds1'', im_dataset_name = ''orders'', im_estimated_size_bytes = 0, im_retained_resources = retained_resources\<rparr>"

definition sample_receipt :: deletion_row where
  "sample_receipt = new_deletion ''1'' 10 ''ds1'' ''orders''
     \<lparr>ss_actor = actor_snapshot sample_admin, ss_dataset = sample_payload, ss_impact = impact_dump sample_impact\<rparr>"

definition sample_queued :: lake_db where
  "sample_queued = sample_lake\<lparr>lk_deletions := [sample_receipt]\<rparr>"

lemma sample_row_payload: "dataset_model_to_payload sample_catalog_row = Inr sample_payload"
  by code_simp

lemma sample_model: "sample_dataset_model sample_payload = Inr sample_dataset"
  by code_simp

lemma sample_no_blockers:
  assumes "lk_catalog s = [sample_catalog_row]" and "lk_sql_runs s = lk_sql_runs sample_lake" and "lk_jobs s = []" and "lk_continuous s = []"
    and "lk_widgets s = []" and "semantic_model_ids ''ds1'' s = []"
  shows "build_deletion_impact sample_lake_settings (sample_lake_env []) s sample_dataset sample_payload = Inr sample_impact"
proof -
  have "dataset_artifacts sample_payload = Inr [artifact ''storage'' ''s3a://lake/gold/ds1/'']" by code_simp
  moreover have "artifact_ownership_blockers sample_lake_settings (sample_lake_env []) (dd_dataset sample_dataset)
      [artifact ''storage'' ''s3a://lake/gold/ds1/''] = Inr []" by code_simp
  moreover have "workload_blockers ''ds1'' s = []"
  proof -
    have "concat (map (sql_run_blockers ''ds1'') (lk_sql_runs sample_lake)) = []" by code_simp
    then show ?thesis using assms by (simp add: workload_blockers_def source_job_blockers_def)
  qed
  moreover have "dependency_blockers ''ds1'' sample_payload s = Inr []"
  proof -
    have "jget ''downstream'' sample_payload = JNull" by code_simp
    moreover have "cd_id sample_catalog_row = ''ds1''" by (simp add: sample_catalog_row_def)
    ultimately show ?thesis using assms
      by (simp add: dependency_blockers_def dependency_blockers_with_dashboard_widgets_def lineage_blockers_def dashboard_blockers_def
          por_def)
  qed
  ultimately show ?thesis
    by (simp add: build_deletion_impact_def sample_dataset_def sample_impact_def unique_items_def estimated_size_def)
qed

lemma sample_settings [simp]:
  "ds_lake sample_deletion_settings = sample_lake_settings" "ds_dataset_model sample_deletion_settings = sample_dataset_model"
  "ds_grant_model sample_deletion_settings = schema_grant_model"
  by (simp_all add: sample_deletion_settings_def)

lemma sample_catalog: "catalog_model ''ds1'' sample_lake = Some sample_catalog_row" "lk_catalog sample_lake = [sample_catalog_row]"
  by (simp_all add: catalog_model_def lookup_key_def sample_lake_def sample_catalog_row_def empty_db_def)

lemma sample_rest:
  "lk_jobs sample_lake = []" "lk_continuous sample_lake = []" "lk_widgets sample_lake = []" "semantic_model_ids ''ds1'' sample_lake = []"
  "lk_deletions sample_lake = []"
  by (simp_all add: sample_lake_def semantic_model_ids_def)

lemma sample_authorized:
  "authorized_dataset sample_deletion_settings sample_ids ''ds1'' sample_admin None ''DELETE'' sample_lake
     = (Inr (sample_dataset, sample_payload), sample_lake)"
proof -
  have "get_dataset_payload ''ds1'' sample_lake = (Inr (Some sample_payload), sample_lake)"
    by (simp add: get_dataset_payload_def raise_if_deletion_in_progress_def latest_for_dataset_def last_by_age_def sample_catalog sample_rest
        sample_row_payload op_defs)
  moreover have "dataset_with_persisted_permission_grants schema_grant_model (lk_access sample_lake) (dd_dataset sample_dataset)
      = Inr (dd_dataset sample_dataset)" by code_simp
  moreover have "validate_required ''ds1'' ''resourceId'' = Inr ''ds1''" by code_simp
  moreover from this have "require_governed_access sample_ids sample_admin (deletion_access (dd_dataset sample_dataset)
      (deletion_request_path ''ds1'' None) ''DELETE'') (lk_access sample_lake) = (Inr (), lk_access sample_lake)"
    using sample_resource(1) by (simp add: require_governed_access_def require_actor_not_blocked_def require_resource_not_locked_def
      resource_lock_for_action_def op_defs blocked_principal_for_actor_def sample_lake_def deletion_access_def sample_dataset_def)
  moreover have "require_permission sample_admin ''delete'' (Some (qd_owner (dd_dataset sample_dataset)))
      (map GrantObject (qd_grants (dd_dataset sample_dataset))) ''dataset'' = Inr ()" by code_simp
  ultimately show ?thesis by (simp add: authorized_dataset_def sample_model on_access_def op_defs)
qed

lemma sample_requested:
  "request_deletion sample_deletion_settings (sample_lake_env []) sample_ids ''1'' 10 ''ds1'' sample_admin ''orders'' sample_lake
     = (Inr (''catalog_delete_1'', DelQueued), sample_queued)"
proof -
  have "raise_if_existing_deletion ''ds1'' sample_lake = (Inr (), sample_lake)" "latest_for_dataset ''ds1'' sample_lake = None"
    by (simp_all add: existing_deletion_iff latest_for_dataset_def last_by_age_def sample_rest)
  moreover have "get_dataset_payload_for_update ''ds1'' sample_lake = (Inr (Some sample_payload), sample_lake)"
    by (simp add: get_dataset_payload_for_update_def get_dataset_model_for_update_def sample_catalog sample_row_payload op_defs)
  moreover have "build_deletion_impact sample_lake_settings (sample_lake_env []) sample_lake sample_dataset sample_payload = Inr sample_impact"
    by (rule sample_no_blockers) (simp_all add: sample_catalog sample_rest)
  moreover have "im_blockers sample_impact = []" "qd_name (dd_dataset sample_dataset) = ''orders''" "qd_id (dd_dataset sample_dataset) = ''ds1''"
    by (simp_all add: sample_impact_def sample_dataset_def)
  ultimately show ?thesis
    by (simp add: request_deletion_def sample_authorized sample_model op_defs create_or_retry_def insert_deletion_def sql_insert_def
        sample_rest sample_queued_def sample_receipt_def new_deletion_def)
qed


subsection \<open>The run of the worker\<close>

abbreviation sample_session :: worker where
  "sample_session \<equiv> claimed_session 20 sample_receipt sample_queued []"

definition sample_calls :: "lake_call list" where
  "sample_calls = [S3List ''lake'' ''gold/ds1/'' None, S3Delete ''lake'' [''gold/ds1/part-0'', ''gold/ds1/part-1'']]"

definition sample_deleted :: lake_db where
  "sample_deleted = snd (finish_deletion sample_deletion_settings sample_ids 20 (claimed_row 20 sample_receipt) (impact_dump sample_impact)
     (before_purge ''catalog_delete_1'' sample_payload (impact_dump sample_impact) 20 (claimed 20 sample_receipt sample_queued)))"

lemma sample_finished:
  "finish_deletion sample_deletion_settings sample_ids 20 (claimed_row 20 sample_receipt) (impact_dump sample_impact)
     (before_purge ''catalog_delete_1'' sample_payload (impact_dump sample_impact) 20 (claimed 20 sample_receipt sample_queued))
     = (Inr (), sample_deleted)"
proof -
  have "fst (finish_deletion sample_deletion_settings sample_ids 20 (claimed_row 20 sample_receipt) (impact_dump sample_impact)
      (before_purge ''catalog_delete_1'' sample_payload (impact_dump sample_impact) 20 (claimed 20 sample_receipt sample_queued))) = Inr ()"
    by code_simp
  then show ?thesis unfolding sample_deleted_def by (metis prod.collapse)
qed

lemma sample_succeeded:
  "map_option (\<lambda>r. (dl_status r, dl_dataset_id r)) (get_deletion ''catalog_delete_1'' sample_deleted) = Some (DelSucceeded, ''ds1'')"
  by code_simp

lemma sample_no_row: "lk_catalog sample_deleted = []"
  by code_simp

lemma sample_purged:
  "purge sample_deletion_settings sample_lake_env sample_payload (impact_dump sample_impact) [] = Some (Inr (), sample_calls)"
  by code_simp

lemma sample_validated:
  "validate_deletion sample_deletion_settings sample_lake_env ''ds1'' sample_session = Inr (sample_payload, impact_dump sample_impact)"
proof -
  have "build_deletion_impact sample_lake_settings (sample_lake_env []) (claimed 20 sample_receipt sample_queued) sample_dataset sample_payload
      = Inr sample_impact"
    by (rule sample_no_blockers) (simp_all add: claimed_def sample_queued_def sample_catalog sample_rest semantic_model_ids_def sample_lake_def)
  moreover have "catalog_model ''ds1'' (claimed 20 sample_receipt sample_queued) = Some sample_catalog_row"
    using sample_catalog by (simp add: catalog_model_def claimed_def sample_queued_def)
  ultimately show ?thesis by (simp add: validate_deletion_def sample_row_payload sample_model sample_impact_def)
qed

lemma sample_run:
  "process_deletion_by_id sample_deletion_settings sample_lake_env sample_ids {} 20 ''catalog_delete_1'' (new_session sample_queued [])
     = Some (Inr (), sample_session\<lparr>wk_db := sample_deleted, wk_calls := sample_calls, wk_committed := sample_deleted\<rparr>)"
proof -
  have row: "dl_id sample_receipt = ''catalog_delete_1''" "dl_dataset_id sample_receipt = ''ds1''" "dl_status sample_receipt = DelQueued"
    by (simp_all add: sample_receipt_def new_deletion_def)
  have "claim {} 20 ''catalog_delete_1'' sample_queued = (Inr (Some (claimed_row 20 sample_receipt)), claimed 20 sample_receipt sample_queued)"
    by (simp add: claim_def claim_row_run op_defs sample_queued_def row)
  moreover have "process_claimed_deletion sample_deletion_settings sample_lake_env sample_ids 20 (claimed_row 20 sample_receipt) sample_session
      = Some (Inr (), sample_session\<lparr>wk_db := sample_deleted, wk_calls := sample_calls, wk_committed := sample_deleted\<rparr>)"
    by (simp add: process_claimed_deletion_def carry_out_deletion_eq row sample_validated sample_purged Let_def sample_finished)
  ultimately show ?thesis by (simp add: process_deletion_by_id_def bind_run_def in_session_def new_session_def claimed_session_def)
qed


lemma sample_keyed: "keyed dl_id (lk_deletions sample_queued)" "get_deletion ''catalog_delete_1'' sample_queued = Some sample_receipt"
  "dl_status sample_receipt = DelQueued" "dl_dataset_id sample_receipt = ''ds1''"
  by (simp_all add: keyed_def get_deletion_def lookup_key_def sample_queued_def sample_receipt_def new_deletion_def)

lemma sample_store_faithful: "faithful_store id sample_store sample_lake_env" "\<forall>b. finite (sample_store b) \<and> [] \<notin> sample_store b"
  by (auto simp: faithful_store_def page_faithful_def sample_lake_env_def sample_store_def live_keys_def sample_objects_def)

lemma sample_receipt_done:
  obtains row' where "get_deletion ''catalog_delete_1'' sample_deleted = Some row'" and "dl_status row' = DelSucceeded"
    and "dl_dataset_id row' = ''ds1''"
  using sample_succeeded by (cases "get_deletion ''catalog_delete_1'' sample_deleted") auto

subsection \<open>The guarantees on the sample\<close>

theorem deletion_worker_ends_witness:
  "\<exists>t. process_next_deletion sample_deletion_settings sample_lake_env sample_ids {} 20 (new_session sample_queued []) = Some (Inr True, t)"
proof -
  have "claimable_deletion {} sample_queued sample_receipt"
    using sample_keyed(3) by (simp add: claimable_deletion_def sample_queued_def)
  then have "(\<exists>row. claimable_deletion {} sample_queued row) = True" by blast
  then show ?thesis
    using deletion_worker_ends [OF sample_store_faithful, of sample_deletion_settings sample_ids "{}" 20 "''catalog_delete_1''" sample_queued "[]"]
    by simp
qed


theorem deletion_all_or_nothing_witness:
  "lk_catalog sample_deleted = [] \<and> (\<exists>event. ad_audits (lk_access sample_deleted) = [event]
     \<and> ae_action event = ''catalog.dataset.deleted'' \<and> ae_target_id event = ''ds1'')"
proof -
  obtain row' where row': "get_deletion ''catalog_delete_1'' sample_deleted = Some row'" "dl_status row' = DelSucceeded"
    by (rule sample_receipt_done)
  have "sample_deleted \<noteq> sample_queued" using row' sample_keyed(2,3) by auto
  moreover have "sample_deleted \<noteq> failed_with e 20 ''catalog_delete_1'' sample_queued" for e
  proof
    assume "sample_deleted = failed_with e 20 ''catalog_delete_1'' sample_queued"
    from failed_receipt [OF row'(1) [unfolded this]] row'(2) show False by simp
  qed
  moreover have "ad_audits (lk_access sample_queued) = []" "lk_catalog sample_queued = [sample_catalog_row]" "cd_id sample_catalog_row = ''ds1''"
    by (simp_all add: sample_queued_def sample_catalog) (simp_all add: sample_lake_def sample_catalog_row_def)
  ultimately show ?thesis
    using deletion_all_or_nothing [OF sample_run sample_keyed(1)] sample_keyed(2,4) by auto
qed



lemma sample_ids_agree: "ids_agree sample_deletion_settings sample_lake"
  using sample_row_payload sample_model
  by (simp add: ids_agree_def sample_catalog) (simp add: sample_dataset_def sample_catalog_row_def)


theorem deleted_datasets_stay_deleted_witness:
  "(deletion_step sample_deletion_settings)\<^sup>*\<^sup>* sample_lake sample_deleted
    \<and> (\<exists>e. save_dataset_payload sample_catalog_row sample_deleted = (Inl e, sample_deleted))"
proof -
  let ?cfg = sample_deletion_settings
  have "deletion_step ?cfg sample_lake sample_queued" by (rule requested [OF sample_requested])
  moreover have "deletion_step ?cfg sample_queued sample_deleted" using worked [OF sample_run] by simp
  ultimately have run: "(deletion_step ?cfg)\<^sup>*\<^sup>* sample_lake sample_deleted" by simp
  have ok: "receipts_ok sample_lake" by (simp add: receipts_ok_def sample_rest)
  have ok': "receipts_ok sample_deleted" using deleted_datasets_stay_deleted [OF run ok sample_ids_agree] by blast
  have agree': "ids_agree ?cfg sample_deleted" by (simp add: ids_agree_def sample_no_row)
  obtain row' where row': "get_deletion ''catalog_delete_1'' sample_deleted = Some row'" "dl_status row' = DelSucceeded" "dl_dataset_id row' = ''ds1''"
    by (rule sample_receipt_done)
  have "row' \<in> set (lk_deletions sample_deleted)" using lookup_key_Some [OF row'(1) [unfolded get_deletion_def]] by (rule conjunct1)
  moreover have "cd_id sample_catalog_row = dl_dataset_id row'" using row'(3) by (simp add: sample_catalog_row_def)
  ultimately show ?thesis
    using run row'(2) deleted_datasets_stay_deleted [OF rtranclp.rtrancl_refl ok' agree'] by blast
qed


end
