(* ===== verification/Spec2Isabelle.thy ===== *)
theory Spec2Isabelle
  imports Materializer Serving_Plane Control_Lease Consumer_Identity Publication_Batches Access_Control Sql_Guard Etl_Schedule Deletion_Examples
begin

text \<open>
  \<^bold>\<open>AskLake: realtime serving, Continuous control, access control, query guarding and dataset deletion\<close>

  AskLake is a FastAPI backend (\<^verbatim>\<open>src/backend/app\<close>) over a PostgreSQL metadata database, ClickHouse, Kafka Connect and
  Trino. The development models the parts of it that keep state under concurrent retries and those that decide who may
  do what:

  \<^item> the \<^emph>\<open>realtime serving plane\<close> (\<^verbatim>\<open>realtime/\<close>): Kafka offsets arrive in ClickHouse, are audited, joined with
    dimensions, materialized exactly once and published as revisions of a dataset; serving can be switched between a
    ClickHouse binding and an archive snapshot after a parity check;
  \<^item> the \<^emph>\<open>Continuous control plane\<close> (\<^verbatim>\<open>domain/continuous_runtime.py\<close>, \<^verbatim>\<open>application/continuous_*.py\<close>): users start,
    pause and stop streaming jobs, a worker holds a lease and reconciles what it observes with what was asked, and
    micro-batches are published to the catalog;
  \<^item> the \<^emph>\<open>access plane\<close> (\<^verbatim>\<open>core/auth_context.py\<close>, \<^verbatim>\<open>services/auth_service.py\<close> and the permission, governance and
    audit repositories): sessions, grants, blocks and locks decide every request;
  \<^item> the \<^emph>\<open>SQL guard\<close> (\<^verbatim>\<open>services/sql_service.py\<close>), which admits read-only previews, and the \<^emph>\<open>scheduling policy\<close>
    (\<^verbatim>\<open>application/etl_schedule.py\<close>);
  \<^item> the \<^emph>\<open>deletion of datasets\<close> (\<^verbatim>\<open>application/catalog_dataset_deletion.py\<close>,
    \<^verbatim>\<open>repositories/catalog_deletion_repository.py\<close>): a confirmed request leaves a durable receipt, a worker purges the
    physical data and removes the metadata, and the receipt fences later publications.

  The planes meet in the metadata database: publications and switches write the catalog and the event log that
  dashboards replay, Continuous publication writes the catalog too, every query run passes the access plane, and a
  deletion passes it too, reads the schedules and jobs of the producers and removes rows of all of them.

  \<^bold>\<open>How code is modelled.\<close> A function of the source is a HOL function of the same name; a dataclass, table or settings
  object is a record, an enumeration a datatype. Code on a database session is \<open>('s, 'a) op\<close>: it takes the session
  state and returns a result or a \<open>py_error\<close> together with the state it leaves, dirty when it raises;
  \<open>transaction\<close> is the caller that commits or rolls back. A \<open>str\<close> is its UTF-8 encoding, except in the SQL guard,
  where indices matter and a query is its list of code points. JSON objects are association lists in insertion order.
  Clock readings, generated identifiers and random values are arguments. Code outside the repository is a parameter:
  the ClickHouse server, the Continuous worker and its service hooks, the rollback of the session, the validation of
  grants by pydantic (locale \<open>grant_validation\<close>), the time zone database, the classification of code points outside
  ASCII. All definitions compute, and the witnesses evaluate them.

  \<^bold>\<open>Shared theories.\<close>
  \<^item> \<open>Prelude\<close>: errors, session code with its inversion rules \<open>op_elims\<close>, Python strings, the locale
    \<open>idempotent_command\<close> (a retry returns the recorded result and changes nothing).
  \<^item> \<open>Sha256\<close>, \<open>Json\<close>, \<open>Unicode\<close>, \<open>Py_Datetime\<close>, \<open>Py_Decimal\<close>: the digest of FIPS 180-4 on 32-bit words, documents with
    their canonical printing and Python equality, UTF-8, times and exact decimals.
  \<^item> \<open>Store\<close>: the rows of the realtime tables with their constraints (\<^verbatim>\<open>alembic/versions/0016\<close> to \<^verbatim>\<open>0018\<close>,
    \<^verbatim>\<open>models/realtime.py\<close>, \<^verbatim>\<open>models/dashboard_live.py\<close>) and the locales \<open>row_update\<close> and \<open>row_upsert\<close>, interpreted for
    every guarded statement of the repositories: what a statement changes, and that it keeps the table consistent.

  \<^bold>\<open>Serving plane.\<close>
  \<^item> \<open>Source_Position\<close>, \<open>Source_Boundary\<close>, \<open>Receipt\<close> (\<^verbatim>\<open>realtime/domain\<close>): positions, ranges, fingerprints, audits. The
    proposed watermark covers only offsets that arrived and stops before the first gap.
  \<^item> \<open>Receipt_Repository\<close>, \<open>Materialization_Repository\<close>, \<open>Dimension\<close>, \<open>Dimension_Repository\<close>, \<open>Clickhouse_Client\<close>,
    \<open>Materializer\<close>: watermarks move by compare-and-swap, a boundary is applied as a whole and once, a row of the
    ledger changes state only under its lease, and a retried materialization inserts nothing.
  \<^item> \<open>Event_Contract\<close>, \<open>Event_Log\<close>: accepted events carry no secret-like key, appending is idempotent and paged replay
    equals one read.
  \<^item> \<open>Catalog\<close>, \<open>Publication\<close>: one transaction writes revision, offsets, freshness, catalog binding and event, and a
    retry returns the same revision.
  \<^item> \<open>Archive\<close>, \<open>Cutover\<close>, \<open>Recovery_Repository\<close>: parity evidence, rebuild plans and switches of the serving binding; a
    ready rebuild has matched parity.
  \<^item> \<open>Serving_Plane\<close>: all calls as steps on one database, an abstract specification (epoch, binding and revision per
    dataset, applied offset per partition, history of commits), and the refinement of every committed call.

  \<^bold>\<open>Continuous control plane.\<close>
  \<^item> \<open>Continuous_Runtime\<close>: the runtime contract kept in the metrics JSON refines an abstract view of desired state,
    observed state, revision and fence.
  \<^item> \<open>Control_Lease\<close>: at most one holder at any time.
  \<^item> \<open>Continuous_Control\<close>, \<open>Continuous_Session\<close>, \<open>Continuous_Reconciliation\<close>, \<open>Continuous_Commands\<close>: commands commit their
    intent before they signal the worker, and decisions of the reconciliation follow their evidence. The locale
    \<open>session_hook\<close> is the contract of the session functions that commands call.
  \<^item> \<open>Consumer_Identity\<close>: commands keep Kafka identities exclusive, the automatic restart does not.
  \<^item> \<open>Continuous_Publication\<close>, \<open>Publication_Batches\<close>: the staged workflow of one batch and the loop over all of them, with
    the locales \<open>workflow_keeper\<close> and \<open>cursor_keeper\<close> for the code that leaves the workflow record and the cursor alone.

  \<^bold>\<open>Access plane.\<close>
  \<^item> \<open>Governance\<close> (\<^verbatim>\<open>repositories/governance_repository.py\<close>, \<^verbatim>\<open>repositories/audit_repository.py\<close>, \<^verbatim>\<open>domain/audit.py\<close>,
    \<^verbatim>\<open>services/governance_enforcement.py\<close>): blocks, locks and audit events.
  \<^item> \<open>Permissions\<close>, \<open>Grant_Table\<close> (\<^verbatim>\<open>core/auth_context.py\<close>, \<^verbatim>\<open>repositories/permission_repository.py\<close>,
    \<^verbatim>\<open>services/resource_permission_service.py\<close>): decisions over lists of grants refine the access relation of the live
    rows; every operation keeps the table well formed; tombstones of seeded grants.
  \<^item> \<open>Auth_Service\<close> (\<^verbatim>\<open>services/auth_service.py\<close>): PBKDF2 on the SHA-256 of the development, the login limit over any
    sequence of attempts, signup followed by login, startup accounts.
  \<^item> \<open>Access_Control\<close> (\<^verbatim>\<open>services/trino_query_access.py\<close>, \<^verbatim>\<open>services/identity_service.py\<close>): the actor of a request, access to
    query runs, administrative changes as an inductive relation, and the agreement of reported with enforced
    permissions.

  \<^bold>\<open>Guard and schedules.\<close>
  \<^item> \<open>Sql_Guard\<close>: the scanners are loops in the option monad, where not ending is \<open>None\<close>; they end on every query,
    masking equals a one-pass automaton, and accepted statements are single and read-only as far as masking sees.
    The locale \<open>token_scanner\<close> is what the main loop needs of a scanner of one token.
  \<^item> \<open>Etl_Schedule\<close>: labels, cron fields and the next run, which is the first matching minute.

  \<^bold>\<open>Dataset deletion.\<close> The answers of object storage, the file system, Trino and ClickHouse are an arbitrary function
  \<open>environment\<close> of the calls made so far; the calls are kept as a list that no rollback takes back. Code that may not
  return is \<open>('s, 'a) run\<close>, with \<open>None\<close> for not returning. \<open>CatalogDatasetResponse.model_validate\<close> and \<open>json.loads\<close> are parameters.
  \<^item> \<open>Storage_Scope\<close>: which locations belong to a dataset, and the removals of \<open>CatalogPhysicalPurger\<close>. Every call stays in
    the scope of the dataset, and removing a prefix from object storage ends and leaves nothing there.
  \<^item> \<open>Deletion_Impact\<close>: the tables, the receipts, the guards of the catalog repository, blockers and artifacts.
  \<^item> \<open>Dataset_Deletion\<close>: removal of the metadata, the worker with its session, commit and rollback, and the service.
  \<^item> \<open>Deletion_Outcomes\<close>, \<open>Deletion_Safety\<close>: a worker does nothing, marks its receipt as failed and changes nothing else,
    or carries the deletion out as a whole, leaving no reference and no object; it ends when object storage keeps its contract
    (\<open>faithful_store\<close>).
  \<^item> \<open>Deletion_Fence\<close>: what an accepted request has checked, and the life of receipts over any interleaving of requests,
    workers and publications as the inductive relation \<open>deletion_step\<close>: a deleted dataset stays deleted. The relation
    has the publications that go through the catalog repository; two writers of the catalog bypass its fence (below).
  \<^item> \<open>Deletion_Examples\<close>: a concrete lake on which the guarantees are applied.

  \<^bold>\<open>Bounds.\<close> Loops whose bound the source states keep it (1,054,080 minutes of cron search, 24 months). Loops
  without one are recursive functions with a measure, or \<open>partial_function (option)\<close> with a theorem that they return:
  the scanners, the search for an unused column name, the hourly schedule and the listing of object storage. The
  pages of a Trino result keep the limit of the settings. No other fuel is used.

  \<^bold>\<open>Flaws shown.\<close> Theorems also record where the code does not do what it means to: a separator in a topic makes
  fingerprints collide; an over-supplied audit and a repeated switch break a constraint; a retry after retention
  raises; a paused connector overrides the recorded intent; the automatic restart duplicates a consumer; a second
  delete revives a seeded grant; a query-only grant is reported as viewable; a quote in a quoted identifier blinds the
  SQL guard; a future start date raises; a custom cron run due in the next minute is skipped; a dataset named like a
  folder purges the folder. Reading the code for the fence showed, without a theorem, that \<^verbatim>\<open>services/kafka_ingest_v2.py\<close> and
  \<^verbatim>\<open>services/clickhouse_realtime_v2_support.py\<close> write the catalog without asking for it.

  \<^bold>\<open>Not modelled.\<close> Floating-point numbers, column widths, foreign keys and the creation of tables; stripping, case
  folding and digit tests outside ASCII beyond the tables given; HTTP, TLS and credentials; notification and metric
  counters; branches for a missing database session; aliasing of Python dictionaries; concurrency other than through
  the compare-and-swap statements, leases and locks that the code uses. Of the program, the connector gateway, SQL
  classification (it works on trees of the sqlglot package), ETL job projections, Spark and Trino drivers, dashboards,
  catalog and HTTP routes, listings and response assembly, the AI services and the frontend are left out: they are
  calls to external systems or translations between record shapes.
\<close>

end
